(* ===== verification/Mysql_Prelude.thy ===== *)
theory Mysql_Prelude
  imports Main "HOL-Library.Word" "HOL-Library.Monad_Syntax" "HOL-Library.State_Monad"
begin

text \<open>
  Shared vocabulary of the development.  The theory fixes the machine types of the build that
  \<^verbatim>\<open>include/my_config.h\<close> describes (32-bit pointers and \<^verbatim>\<open>size_t\<close>, 32-bit \<^verbatim>\<open>int\<close>,
  64-bit \<^verbatim>\<open>longlong\<close> and \<^verbatim>\<open>my_off_t\<close>), byte-addressed memory, the C integer conversions, the
  little-endian reference access that the byte-order macros are compared with, and a small
  relational calculus on state-monad programs (\<open>keeps\<close>, \<open>sim\<close>) that the instrumentation
  wrappers are verified with.
\<close>

section \<open>Machine types and memory\<close>

type_synonym uchar = "8 word"
type_synonym uint16 = "16 word"
type_synonym uint32 = "32 word"
type_synonym ulonglong = "64 word"
type_synonym addr = "32 word"
type_synonym size_t = "32 word"
type_synonym my_off_t = "64 word"
type_synonym mem = "addr \<Rightarrow> uchar"

named_theorems keeps_rules \<open>rules that show a program leaves a view of the state alone\<close>
named_theorems sim_rules \<open>rules that show two programs agree on a view of the state\<close>
named_theorems byte_defs \<open>definitions of the byte-order macros\<close>

text \<open>Conversion of a C integer value to a signed type of the given width (wrap-around).\<close>

definition c_int16 :: "int \<Rightarrow> int" where
  "c_int16 x = signed_take_bit 15 x"

definition c_int32 :: "int \<Rightarrow> int" where
  "c_int32 x = signed_take_bit 31 x"

definition c_int64 :: "int \<Rightarrow> int" where
  "c_int64 x = signed_take_bit 63 x"

section \<open>Little-endian reference access\<close>

text \<open>
  \<open>le_val n m a\<close> is the value of the \<open>n\<close> bytes at \<open>a\<close>, low byte first; \<open>le_put n m a v\<close> stores the
  low \<open>n\<close> bytes of the two's complement representation of \<open>v\<close>.  They are what a little-endian
  processor does for a load and a store through a cast pointer.
\<close>

fun le_val :: "nat \<Rightarrow> mem \<Rightarrow> addr \<Rightarrow> int" where
  "le_val 0 m a = 0"
| "le_val (Suc n) m a = uint (m a) + 256 * le_val n m (a + 1)"

fun le_put :: "nat \<Rightarrow> mem \<Rightarrow> addr \<Rightarrow> int \<Rightarrow> mem" where
  "le_put 0 m a v = m"
| "le_put (Suc n) m a v = le_put n (m(a := word_of_int v)) (a + 1) (v div 256)"

text \<open>The big-endian counterparts, high byte first.\<close>

fun be_val :: "nat \<Rightarrow> mem \<Rightarrow> addr \<Rightarrow> int" where
  "be_val 0 m a = 0"
| "be_val (Suc n) m a = 256 ^ n * uint (m a) + be_val n m (a + 1)"

fun be_put :: "nat \<Rightarrow> mem \<Rightarrow> addr \<Rightarrow> int \<Rightarrow> mem" where
  "be_put 0 m a v = m"
| "be_put (Suc n) m a v = be_put n (m(a := word_of_int (v div 256 ^ n))) (a + 1) v"

text \<open>\<^verbatim>\<open>memcpy\<close> out of and into memory, the other side being an object's bytes.\<close>

definition memcpy_from :: "mem \<Rightarrow> addr \<Rightarrow> nat \<Rightarrow> uchar list" where
  "memcpy_from m a n = map (\<lambda>i. m (a + of_nat i)) [0..<n]"

fun memcpy_to :: "mem \<Rightarrow> addr \<Rightarrow> uchar list \<Rightarrow> mem" where
  "memcpy_to m a [] = m"
| "memcpy_to m a (b # bs) = memcpy_to (m(a := b)) (a + 1) bs"

text \<open>Values stored one after the other with a given store operation.\<close>

fun put_list :: "(mem \<Rightarrow> addr \<Rightarrow> int \<Rightarrow> mem) \<Rightarrow> nat \<Rightarrow> mem \<Rightarrow> addr \<Rightarrow> int list \<Rightarrow> mem" where
  "put_list put w m a [] = m"
| "put_list put w m a (v # vs) = put_list put w (put m a v) (a + of_nat w) vs"

text \<open>The address range \<open>[a, a + n)\<close>, with wrap-around at the end of the address space.\<close>

definition in_range :: "addr \<Rightarrow> nat \<Rightarrow> addr \<Rightarrow> bool" where
  "in_range a n b \<longleftrightarrow> unat (b - a) < n"

definition disjoint_ranges :: "addr \<Rightarrow> nat \<Rightarrow> addr \<Rightarrow> nat \<Rightarrow> bool" where
  "disjoint_ranges a n b k \<longleftrightarrow> (\<forall>i<k. \<not> in_range a n (b + of_nat i))"

section \<open>Relational reasoning on state-monad programs\<close>

text \<open>
  \<open>v\<close> is a view of the state, for instance the part the operating system owns.  A program
  \<open>keeps v\<close> when it never changes that part.  Two programs are \<open>sim v\<close> when, run from states
  with the same view, they return the same result and end in states with the same view.
\<close>

definition keeps :: "('w \<Rightarrow> 'v) \<Rightarrow> ('w, 'a) state \<Rightarrow> bool" where
  "keeps v m \<longleftrightarrow> (\<forall>s. v (snd (run_state m s)) = v s)"

definition sim :: "('w \<Rightarrow> 'v) \<Rightarrow> ('w, 'a) state \<Rightarrow> ('w, 'a) state \<Rightarrow> bool" where
  "sim v m n \<longleftrightarrow> (\<forall>s t. v s = v t \<longrightarrow>
     fst (run_state m s) = fst (run_state n t) \<and>
     v (snd (run_state m s)) = v (snd (run_state n t)))"

section \<open>Lemmas on memory ranges\<close>

lemma unat_minus_Suc:
  fixes a b :: addr
  assumes "b \<noteq> a"
  shows "unat (b - (a + 1)) = unat (b - a) - 1" and "0 < unat (b - a)"
proof -
  from assms have ne: "b - a \<noteq> 0" by simp
  then show "0 < unat (b - a)" by (simp add: unat_gt_0)
  have "b - (a + 1) = (b - a) - 1" by simp
  then show "unat (b - (a + 1)) = unat (b - a) - 1"
    using unat_minus_one [OF ne] by (simp add: diff_diff_add)
qed

lemma in_range_Suc: "in_range a (Suc n) b \<longleftrightarrow> b = a \<or> (in_range (a + 1) n b \<and> b \<noteq> a)"
proof (cases "b = a")
  case True
  then show ?thesis by (simp add: in_range_def)
next
  case False
  then show ?thesis
    using unat_minus_Suc [OF False] by (auto simp: in_range_def)
qed

lemma not_in_range_next:
  assumes "\<not> in_range a (Suc n) b"
  shows "b \<noteq> a" and "\<not> in_range (a + 1) n b"
  using assms by (auto simp: in_range_Suc)

lemma not_in_range_before: "n < 2 ^ 32 \<Longrightarrow> \<not> in_range (a + 1) n a"
proof -
  have "unat (- 1 :: addr) = 2 ^ 32 - 1" by (simp add: unsigned_minus_1_eq_mask mask_eq_exp_minus_1)
  then show "n < 2 ^ 32 \<Longrightarrow> \<not> in_range (a + 1) n a" by (simp add: in_range_def)
qed

lemma not_in_range_after:
  assumes "w + k \<le> unat (b - a)" and "w \<le> 8"
  shows "\<not> in_range (a + of_nat w) k b"
proof -
  have "unat (of_nat w :: addr) = w" using assms(2) by (simp add: unat_of_nat)
  then have "of_nat w \<le> b - a" using assms(1) by (simp add: word_le_nat_alt)
  then have "unat (b - a - of_nat w) = unat (b - a) - w"
    using \<open>unat (of_nat w :: addr) = w\<close> by (simp add: unat_sub)
  then show ?thesis
    unfolding in_range_def diff_diff_add [symmetric] using assms(1) by linarith
qed

lemma not_in_range_behind:
  assumes "j < w" and "w + k \<le> 2 ^ 32" and "w \<le> 8"
  shows "\<not> in_range (a + of_nat w) k (a + of_nat j)"
proof -
  have eq: "a + of_nat j - (a + of_nat w) = - (of_nat (w - j) :: addr)"
    using assms(1) by (simp add: of_nat_diff)
  have "unat (of_nat (w - j) :: addr) = w - j" using assms(3) by (simp add: unat_of_nat)
  then have "unat (- (of_nat (w - j) :: addr)) = 2 ^ 32 - (w - j)"
    using assms(1) unat_sub_if_size [of 0 "of_nat (w - j) :: addr"] by (simp add: word_size)
  then show ?thesis using assms unfolding in_range_def eq by simp
qed

lemma in_range_add: "in_range a n (a + of_nat i) \<longleftrightarrow> i mod 2 ^ 32 < n"
  by (simp add: in_range_def unat_of_nat)

lemma le_put_other: "\<not> in_range a n b \<Longrightarrow> le_put n m a v b = m b"
proof (induction n arbitrary: m a v)
  case 0
  then show ?case by simp
next
  case (Suc n)
  have "le_put n (m(a := word_of_int v)) (a + 1) (v div 256) b = (m(a := word_of_int v)) b"
    by (rule Suc.IH) (rule not_in_range_next [OF Suc.prems])
  with not_in_range_next [OF Suc.prems] show ?case by simp
qed

lemma be_put_other: "\<not> in_range a n b \<Longrightarrow> be_put n m a v b = m b"
proof (induction n arbitrary: m a v)
  case 0
  then show ?case by simp
next
  case (Suc n)
  have "be_put n (m(a := word_of_int (v div 256 ^ n))) (a + 1) v b
      = (m(a := word_of_int (v div 256 ^ n))) b"
    by (rule Suc.IH) (rule not_in_range_next [OF Suc.prems])
  with not_in_range_next [OF Suc.prems] show ?case by simp
qed

lemma le_val_cong: "(\<And>i. i < n \<Longrightarrow> m (a + of_nat i) = m' (a + of_nat i)) \<Longrightarrow> le_val n m a = le_val n m' a"
proof (induction n arbitrary: a)
  case 0
  then show ?case by simp
next
  case (Suc n)
  have "m (a + 1 + of_nat i) = m' (a + 1 + of_nat i)" if "i < n" for i
    using Suc.prems [of "Suc i"] that by (simp add: ac_simps)
  then have "le_val n m (a + 1) = le_val n m' (a + 1)" by (rule Suc.IH)
  with Suc.prems [of 0] show ?case by simp
qed

lemma be_val_cong: "(\<And>i. i < n \<Longrightarrow> m (a + of_nat i) = m' (a + of_nat i)) \<Longrightarrow> be_val n m a = be_val n m' a"
proof (induction n arbitrary: a)
  case 0
  then show ?case by simp
next
  case (Suc n)
  have "m (a + 1 + of_nat i) = m' (a + 1 + of_nat i)" if "i < n" for i
    using Suc.prems [of "Suc i"] that by (simp add: ac_simps)
  then have "be_val n m (a + 1) = be_val n m' (a + 1)" by (rule Suc.IH)
  with Suc.prems [of 0] show ?case by simp
qed

lemma le_val_nonneg: "0 \<le> le_val n m a"
  by (induction n arbitrary: a) simp_all

lemma be_val_nonneg: "0 \<le> be_val n m a"
  by (induction n arbitrary: a) simp_all

lemma uint_uchar_bound: "uint (b :: uchar) < 256"
  using uint_bounded [of b] by simp

lemma le_val_bound: "le_val n m a < 256 ^ n"
proof (induction n arbitrary: a)
  case 0
  then show ?case by simp
next
  case (Suc n)
  have "uint (m a) < 256" by (rule uint_uchar_bound)
  moreover have "le_val n m (a + 1) + 1 \<le> 256 ^ n" using Suc.IH [of "a + 1"] by simp
  then have "256 * (le_val n m (a + 1) + 1) \<le> 256 * 256 ^ n" by (rule mult_left_mono) simp
  ultimately show ?case by simp
qed

lemma be_val_bound: "be_val n m a < 256 ^ n"
proof (induction n arbitrary: a)
  case 0
  then show ?case by simp
next
  case (Suc n)
  have "uint (m a) + 1 \<le> 256" using uint_uchar_bound [of "m a"] by simp
  then have "256 ^ n * (uint (m a) + 1) \<le> 256 ^ n * 256" by (rule mult_left_mono) simp
  then have "256 ^ n * uint (m a) + 256 ^ n \<le> 256 ^ Suc n" by (simp add: distrib_left del: uint_bounded)
  moreover have "be_val n m (a + 1) < 256 ^ n" by (rule Suc.IH)
  ultimately show ?case by (simp only: be_val.simps)
qed

section \<open>Round trips of the reference access\<close>

lemma uint_word_of_int_uchar: "uint (word_of_int v :: uchar) = v mod 256"
  by (simp add: uint_word_of_int)

lemma mod_mult_256: "(v :: int) mod 256 + 256 * (v div 256 mod k) = v mod (256 * k)" if "0 \<le> k"
  using that by (simp add: mod_mult2_eq' zmod_zmult2_eq)

theorem le_val_le_put: "n \<le> 2 ^ 32 \<Longrightarrow> le_val n (le_put n m a v) a = v mod 256 ^ n"
proof (induction n arbitrary: m a v)
  case 0
  then show ?case by simp
next
  case (Suc n)
  let ?m = "m(a := word_of_int v)"
  have byte: "le_put n ?m (a + 1) (v div 256) a = word_of_int v"
    using Suc.prems by (simp add: le_put_other not_in_range_before)
  have rest: "le_val n (le_put n ?m (a + 1) (v div 256)) (a + 1) = v div 256 mod 256 ^ n"
    by (rule Suc.IH) (use Suc.prems in simp)
  have "v mod 256 + 256 * (v div 256 mod 256 ^ n) = v mod (256 * 256 ^ n)"
    by (rule mod_mult_256) simp
  then show ?case by (simp add: byte rest uint_word_of_int_uchar)
qed

lemma mod_mult_pow256: "(256 :: int) ^ n * (v div 256 ^ n mod 256) + v mod 256 ^ n = v mod 256 ^ Suc n"
  by (simp add: mod_mult2_eq' zmod_zmult2_eq mult.commute [of 256])

theorem be_val_be_put: "n \<le> 2 ^ 32 \<Longrightarrow> be_val n (be_put n m a v) a = v mod 256 ^ n"
proof (induction n arbitrary: m a v)
  case 0
  then show ?case by simp
next
  case (Suc n)
  let ?m = "m(a := word_of_int (v div 256 ^ n))"
  have byte: "be_put n ?m (a + 1) v a = word_of_int (v div 256 ^ n)"
    using Suc.prems by (simp add: be_put_other not_in_range_before)
  have rest: "be_val n (be_put n ?m (a + 1) v) (a + 1) = v mod 256 ^ n"
    by (rule Suc.IH) (use Suc.prems in simp)
  show ?case using mod_mult_pow256 [of n v]
    by (simp add: byte rest uint_word_of_int_uchar)
qed

lemma le_val_put_disjoint: "disjoint_ranges a n b k \<Longrightarrow> le_val k (le_put n m a v) b = le_val k m b"
  by (rule le_val_cong) (simp add: disjoint_ranges_def le_put_other)

lemma be_val_put_disjoint: "disjoint_ranges a n b k \<Longrightarrow> be_val k (be_put n m a v) b = be_val k m b"
  by (rule be_val_cong) (simp add: disjoint_ranges_def be_put_other)

section \<open>Access by concatenation and congruence\<close>

lemma le_val_numeral: "le_val (numeral k) m a = uint (m a) + 256 * le_val (pred_numeral k) m (a + 1)"
  by (simp add: numeral_eq_Suc)
lemma le_put_numeral: "le_put (numeral k) m a v = le_put (pred_numeral k) (m(a := word_of_int v)) (a + 1) (v div 256)"
  by (simp add: numeral_eq_Suc)
lemma div_256_256: "(v::int) div 256 div 256 = v div 65536"  "(v::int) div 65536 div 256 = v div 16777216"
 "(v::int) div 16777216 div 256 = v div 4294967296" "(v::int) div 4294967296 div 256 = v div 1099511627776"
 "(v::int) div 1099511627776 div 256 = v div 281474976710656" "(v::int) div 281474976710656 div 256 = v div 72057594037927936"
  by (simp_all add: zdiv_zmult2_eq [symmetric])

lemma word_of_int_uchar_cong: "v mod 256 = v' mod 256 \<Longrightarrow> (word_of_int v :: uchar) = word_of_int v'"
  by (simp add: word_of_int_eq_iff take_bit_eq_mod)

lemma le_put_cong: "v mod 256 ^ n = v' mod 256 ^ n \<Longrightarrow> le_put n m a v = le_put n m a v'"
proof (induction n arbitrary: m a v v')
  case 0
  then show ?case by simp
next
  case (Suc n)
  have split: "w mod 256 ^ Suc n = w mod 256 + 256 * (w div 256 mod 256 ^ n)" for w :: int
    using mod_mult_256 [of "256 ^ n" w] by simp
  have "v mod 256 = (v mod 256 ^ Suc n) mod 256" "v' mod 256 = (v' mod 256 ^ Suc n) mod 256"
    by (simp_all add: mod_mod_cancel)
  with Suc.prems have lo: "v mod 256 = v' mod 256" by simp
  from Suc.prems have "v mod 256 + 256 * (v div 256 mod 256 ^ n) = v' mod 256 + 256 * (v' div 256 mod 256 ^ n)"
    by (simp only: split)
  with lo have "v div 256 mod 256 ^ n = v' div 256 mod 256 ^ n" by simp
  then have "le_put n m' (a + 1) (v div 256) = le_put n m' (a + 1) (v' div 256)" for m'
    by (rule Suc.IH)
  with word_of_int_uchar_cong [OF lo] show ?case by simp
qed

lemma le_val_add: "le_val (n + k) m a = le_val n m a + 256 ^ n * le_val k m (a + of_nat n)"
  by (induction n arbitrary: a) (simp_all add: algebra_simps)

lemma le_put_add: "le_put (n + k) m a v = le_put k (le_put n m a v) (a + of_nat n) (v div 256 ^ n)"
  by (induction n arbitrary: m a v) (simp_all add: algebra_simps zdiv_zmult2_eq)

lemma uint_word_of_le_val:
  assumes "n * 8 \<le> LENGTH('a)"
  shows "uint (word_of_int (le_val n m a) :: 'a::len word) = le_val n m a"
proof -
  have "(256 :: int) ^ n = 2 ^ (n * 8)" by (simp add: power_mult mult.commute [of n])
  also have "\<dots> \<le> 2 ^ LENGTH('a)" using assms by (intro power_increasing) simp_all
  finally have "le_val n m a < 2 ^ LENGTH('a)" using le_val_bound [of n m a] by simp
  then show ?thesis
    using le_val_nonneg [of n m a] by (simp add: uint_word_of_int)
qed

lemma signed_take_bit_mod: "signed_take_bit n v mod 2 ^ Suc n = (v :: int) mod 2 ^ Suc n"
  by (simp only: take_bit_eq_mod [symmetric]) (simp add: take_bit_signed_take_bit)

lemma c_int32_mod: "c_int32 v mod 2 ^ 32 = v mod 2 ^ 32"
  using signed_take_bit_mod [of 31 v] by (simp add: c_int32_def)

lemma c_int32_cong: "x mod 2 ^ 32 = y mod 2 ^ 32 \<Longrightarrow> c_int32 x = c_int32 y"
  by (simp add: c_int32_def signed_take_bit_eq_iff_take_bit_eq take_bit_eq_mod)

lemma c_int32_add: "c_int32 (k + c_int32 l) = c_int32 (k + l)"
  by (rule c_int32_cong) (metis c_int32_mod mod_add_right_eq)

lemma c_int16_uchar [simp]: "c_int16 (uint (b :: uchar)) = uint b"
proof -
  have "- (2 ^ 15) \<le> uint b" by (rule order_trans [of _ 0]) simp_all
  moreover have "uint b < 2 ^ 15" using uint_uchar_bound [of b] by simp
  ultimately show ?thesis unfolding c_int16_def by (rule signed_take_bit_int_eq_self)
qed

lemma ucast_drop_bit: "ucast (drop_bit 8 (word_of_int v :: uint32)) = (word_of_int (v div 256) :: uchar)"
proof -
  have "v div 256 = drop_bit 8 v" by (simp add: drop_bit_eq_div)
  then show ?thesis by (auto intro!: bit_word_eqI simp: bit_simps)
qed
lemma ucast_uint32: "ucast (word_of_int v :: uint32) = (word_of_int v :: uchar)"
  by (auto intro!: bit_word_eqI simp: bit_simps)


section \<open>Copies\<close>

lemma memcpy_to_other: "\<not> in_range a (length bs) b \<Longrightarrow> memcpy_to m a bs b = m b"
proof (induction bs arbitrary: m a)
  case Nil
  then show ?case by simp
next
  case (Cons x bs)
  from Cons.prems have "b \<noteq> a" "\<not> in_range (a + 1) (length bs) b"
    by (auto simp: in_range_Suc)
  then show ?case by (simp add: Cons.IH)
qed

lemma memcpy_roundtrip: "length bs < 2 ^ 32 \<Longrightarrow> memcpy_from (memcpy_to m a bs) a (length bs) = bs"
proof (induction bs arbitrary: m a)
  case Nil
  then show ?case by (simp add: memcpy_from_def)
next
  case (Cons x bs)
  have "memcpy_to (m(a := x)) (a + 1) bs a = x"
    using Cons.prems by (simp add: memcpy_to_other not_in_range_before)
  moreover have "memcpy_from (memcpy_to (m(a := x)) (a + 1) bs) (a + 1) (length bs) = bs"
    by (rule Cons.IH) (use Cons.prems in simp)
  then have "map (\<lambda>i. memcpy_to (m(a := x)) (a + 1) bs (a + 1 + of_nat i)) [0..<length bs] = bs"
    by (simp only: memcpy_from_def)
  ultimately show ?case
    by (simp add: memcpy_from_def map_upt_Suc add.assoc del: upt_Suc)
qed

lemma memcpy_to_append:
  "memcpy_to m a (bs @ cs) = memcpy_to (memcpy_to m a bs) (a + of_nat (length bs)) cs"
  by (induction bs arbitrary: m a) (simp_all add: add.assoc)

lemma memcpy_from_add:
  "memcpy_from m a (n + k) = memcpy_from m a n @ memcpy_from m (a + of_nat n) k"
proof -
  have "map (\<lambda>i. m (a + of_nat i)) [n..<n + k] = map (\<lambda>i. m (a + of_nat n + of_nat i)) [0..<k]"
    by (rule nth_equalityI) (simp_all add: add.assoc)
  moreover have "[0..<n + k] = [0..<n] @ [n..<n + k]"
    using upt_add_eq_append [of 0 n k] by simp
  ultimately show ?thesis by (simp only: memcpy_from_def map_append)
qed

section \<open>Rules for \<open>keeps\<close> and \<open>sim\<close>\<close>

lemma keeps_return [keeps_rules]: "keeps v (State_Monad.return x)"
  by (simp add: keeps_def)

lemma keeps_bind [keeps_rules]:
  assumes "keeps v m" and "\<And>x. keeps v (f x)"
  shows "keeps v (m \<bind> f)"
  using assms by (auto simp: keeps_def split_beta)

lemma keeps_if [keeps_rules]: "(b \<Longrightarrow> keeps v m) \<Longrightarrow> (\<not> b \<Longrightarrow> keeps v n) \<Longrightarrow> keeps v (if b then m else n)"
  by simp

lemma keeps_option [keeps_rules]:
  "(x = None \<Longrightarrow> keeps v m) \<Longrightarrow> (\<And>y. x = Some y \<Longrightarrow> keeps v (f y)) \<Longrightarrow>
   keeps v (case x of None \<Rightarrow> m | Some y \<Rightarrow> f y)"
  by (cases x) simp_all

lemma sim_trans: "sim v m n \<Longrightarrow> sim v n k \<Longrightarrow> sim v m k"
  by (simp add: sim_def)

lemma sim_bind [sim_rules]:
  assumes "sim v m m'" and "\<And>x. sim v (f x) (f' x)"
  shows "sim v (m \<bind> f) (m' \<bind> f')"
  using assms by (auto simp: sim_def split_beta)

lemma sim_return [sim_rules]: "sim v (State_Monad.return x) (State_Monad.return x)"
  by (simp add: sim_def)

lemma sim_keeps_before:
  assumes "keeps v p" and "\<And>x. sim v (f x) n"
  shows "sim v (p \<bind> f) n"
  using assms by (simp add: sim_def keeps_def split: prod.splits) (metis snd_conv)

lemma sim_keeps_after:
  assumes "sim v m n" and "\<And>r. keeps v (p r)"
  shows "sim v (m \<bind> (\<lambda>r. p r \<bind> (\<lambda>_. State_Monad.return r))) n"
  using assms by (simp add: sim_def keeps_def split: prod.splits) (metis fst_conv snd_conv)

end
