(* ===== verification/Byte_Order.thy ===== *)
theory Byte_Order
  imports Mysql_Prelude
begin

text \<open>
  The byte-order macros of \<^verbatim>\<open>include/my_global.h\<close>: \<^verbatim>\<open>sintNkorr\<close>, \<^verbatim>\<open>uintNkorr\<close> and
  \<^verbatim>\<open>intNstore\<close> read and write integers low byte first on any machine, \<^verbatim>\<open>int4net\<close> reads network
  byte order, and \<^verbatim>\<open>shortget\<close> .. \<^verbatim>\<open>doublestore\<close> access values in the format of the machine.
  A macro with several bodies under \<^verbatim>\<open>#if\<close> is several definitions: the plain name is the portable
  body, the suffix \<open>_x86\<close> the body for \<^verbatim>\<open>__i386__\<close> or \<^verbatim>\<open>_WIN32\<close>, \<open>_be\<close> the body for
  \<^verbatim>\<open>WORDS_BIGENDIAN\<close> and \<open>_fwo\<close> the body for \<^verbatim>\<open>__FLOAT_WORD_ORDER == __BIG_ENDIAN\<close>.  A pointer
  argument is a memory and an address; the value argument of a store is the C integer value of
  the expression; the object representation of a \<^verbatim>\<open>float\<close> or \<^verbatim>\<open>double\<close> is the list of its bytes.
  The casts through \<^verbatim>\<open>int16 *\<close>, \<^verbatim>\<open>long *\<close> and so on of the x86 bodies are little-endian accesses
  (\<open>le_val\<close>, \<open>le_put\<close>); \<^verbatim>\<open>long\<close> has 4 bytes there.
\<close>

section \<open>Portable reads\<close>

definition sint2korr :: "mem \<Rightarrow> addr \<Rightarrow> int" where
  "sint2korr m A = c_int16 (c_int16 (uint (m A)) + push_bit 8 (c_int16 (uint (m (A + 1)))))"

definition sint3korr :: "mem \<Rightarrow> addr \<Rightarrow> int" where
  "sint3korr m A = sint (if (and (m (A + 2)) 128) \<noteq> 0
     then or (or (or (push_bit 24 (255 :: uint32)) (push_bit 16 (ucast (m (A + 2)))))
                 (push_bit 8 (ucast (m (A + 1))))) (ucast (m A))
     else or (or (push_bit 16 (ucast (m (A + 2)) :: uint32)) (push_bit 8 (ucast (m (A + 1)))))
             (ucast (m A)))"

definition sint4korr :: "mem \<Rightarrow> addr \<Rightarrow> int" where
  "sint4korr m A = c_int32 (uint (m A) + push_bit 8 (uint (m (A + 1)))
     + push_bit 16 (uint (m (A + 2))) + c_int32 (push_bit 24 (c_int16 (uint (m (A + 3))))))"

definition uint2korr :: "mem \<Rightarrow> addr \<Rightarrow> uint16" where
  "uint2korr m A = ucast (m A) + push_bit 8 (ucast (m (A + 1)))"

definition uint3korr :: "mem \<Rightarrow> addr \<Rightarrow> uint32" where
  "uint3korr m A = ucast (m A) + push_bit 8 (ucast (m (A + 1))) + push_bit 16 (ucast (m (A + 2)))"

definition uint4korr :: "mem \<Rightarrow> addr \<Rightarrow> uint32" where
  "uint4korr m A = ucast (m A) + push_bit 8 (ucast (m (A + 1))) + push_bit 16 (ucast (m (A + 2)))
     + push_bit 24 (ucast (m (A + 3)))"

definition uint5korr :: "mem \<Rightarrow> addr \<Rightarrow> ulonglong" where
  "uint5korr m A = ucast ((ucast (m A) :: uint32) + push_bit 8 (ucast (m (A + 1)))
       + push_bit 16 (ucast (m (A + 2))) + push_bit 24 (ucast (m (A + 3))))
     + push_bit 32 (ucast (m (A + 4)))"

definition uint6korr :: "mem \<Rightarrow> addr \<Rightarrow> ulonglong" where
  "uint6korr m A = ucast ((ucast (m A) :: uint32) + push_bit 8 (ucast (m (A + 1)))
       + push_bit 16 (ucast (m (A + 2))) + push_bit 24 (ucast (m (A + 3))))
     + push_bit 32 (ucast (m (A + 4))) + push_bit 40 (ucast (m (A + 5)))"

definition uint8korr :: "mem \<Rightarrow> addr \<Rightarrow> ulonglong" where
  "uint8korr m A = ucast ((ucast (m A) :: uint32) + push_bit 8 (ucast (m (A + 1)))
       + push_bit 16 (ucast (m (A + 2))) + push_bit 24 (ucast (m (A + 3))))
     + push_bit 32 (ucast ((ucast (m (A + 4)) :: uint32) + push_bit 8 (ucast (m (A + 5)))
       + push_bit 16 (ucast (m (A + 6))) + push_bit 24 (ucast (m (A + 7)))))"

definition sint8korr :: "mem \<Rightarrow> addr \<Rightarrow> int" where
  "sint8korr m A = sint (uint8korr m A)"

section \<open>Portable stores\<close>

definition int2store :: "mem \<Rightarrow> addr \<Rightarrow> int \<Rightarrow> mem" where
  "int2store m T A = (let def_temp = (word_of_int A :: uint32)
     in m(T := ucast def_temp, T + 1 := ucast (drop_bit 8 def_temp)))"

definition int3store :: "mem \<Rightarrow> addr \<Rightarrow> int \<Rightarrow> mem" where
  "int3store m T A = m(T := word_of_int A, T + 1 := word_of_int (drop_bit 8 A),
     T + 2 := word_of_int (drop_bit 16 A))"

definition int4store :: "mem \<Rightarrow> addr \<Rightarrow> int \<Rightarrow> mem" where
  "int4store m T A = m(T := word_of_int A, T + 1 := word_of_int (drop_bit 8 A),
     T + 2 := word_of_int (drop_bit 16 A), T + 3 := word_of_int (drop_bit 24 A))"

definition int5store :: "mem \<Rightarrow> addr \<Rightarrow> int \<Rightarrow> mem" where
  "int5store m T A = m(T := word_of_int A, T + 1 := word_of_int (drop_bit 8 A),
     T + 2 := word_of_int (drop_bit 16 A), T + 3 := word_of_int (drop_bit 24 A),
     T + 4 := word_of_int (drop_bit 32 A))"

definition int6store :: "mem \<Rightarrow> addr \<Rightarrow> int \<Rightarrow> mem" where
  "int6store m T A = m(T := word_of_int A, T + 1 := word_of_int (drop_bit 8 A),
     T + 2 := word_of_int (drop_bit 16 A), T + 3 := word_of_int (drop_bit 24 A),
     T + 4 := word_of_int (drop_bit 32 A), T + 5 := word_of_int (drop_bit 40 A))"

definition int8store :: "mem \<Rightarrow> addr \<Rightarrow> int \<Rightarrow> mem" where
  "int8store m T A = (let def_temp = (word_of_int A :: uint32);
      def_temp2 = (word_of_int (drop_bit 32 A) :: uint32)
    in int4store (int4store m T (uint def_temp)) (T + 4) (uint def_temp2))"

section \<open>The x86 bodies\<close>

definition sint2korr_x86 :: "mem \<Rightarrow> addr \<Rightarrow> int" where
  "sint2korr_x86 m A = c_int16 (le_val 2 m A)"

definition sint3korr_x86 :: "mem \<Rightarrow> addr \<Rightarrow> int" where
  "sint3korr_x86 m A = sint (if (and (m (A + 2)) 128) \<noteq> 0
     then or (or (or (push_bit 24 (255 :: uint32)) (push_bit 16 (ucast (m (A + 2)))))
                 (push_bit 8 (ucast (m (A + 1))))) (ucast (m A))
     else or (or (push_bit 16 (ucast (m (A + 2)) :: uint32)) (push_bit 8 (ucast (m (A + 1)))))
             (ucast (m A)))"

definition sint4korr_x86 :: "mem \<Rightarrow> addr \<Rightarrow> int" where
  "sint4korr_x86 m A = c_int32 (le_val 4 m A)"

definition uint2korr_x86 :: "mem \<Rightarrow> addr \<Rightarrow> uint16" where
  "uint2korr_x86 m A = word_of_int (le_val 2 m A)"

text \<open>It reads four bytes, as the comment beside the macro warns; the result is a \<^verbatim>\<open>long\<close>.\<close>

definition uint3korr_x86 :: "mem \<Rightarrow> addr \<Rightarrow> int" where
  "uint3korr_x86 m A = sint (and (word_of_int (le_val 4 m A) :: uint32) 0xFFFFFF)"

definition uint4korr_x86 :: "mem \<Rightarrow> addr \<Rightarrow> uint32" where
  "uint4korr_x86 m A = word_of_int (le_val 4 m A)"

definition uint5korr_x86 :: "mem \<Rightarrow> addr \<Rightarrow> ulonglong" where
  "uint5korr_x86 m A = ucast ((ucast (m A) :: uint32) + push_bit 8 (ucast (m (A + 1)))
       + push_bit 16 (ucast (m (A + 2))) + push_bit 24 (ucast (m (A + 3))))
     + push_bit 32 (ucast (m (A + 4)))"

definition uint6korr_x86 :: "mem \<Rightarrow> addr \<Rightarrow> ulonglong" where
  "uint6korr_x86 m A = ucast ((ucast (m A) :: uint32) + push_bit 8 (ucast (m (A + 1)))
       + push_bit 16 (ucast (m (A + 2))) + push_bit 24 (ucast (m (A + 3))))
     + push_bit 32 (ucast (m (A + 4))) + push_bit 40 (ucast (m (A + 5)))"

definition uint8korr_x86 :: "mem \<Rightarrow> addr \<Rightarrow> ulonglong" where
  "uint8korr_x86 m A = word_of_int (le_val 8 m A)"

definition sint8korr_x86 :: "mem \<Rightarrow> addr \<Rightarrow> int" where
  "sint8korr_x86 m A = c_int64 (le_val 8 m A)"

definition int2store_x86 :: "mem \<Rightarrow> addr \<Rightarrow> int \<Rightarrow> mem" where
  "int2store_x86 m T A = le_put 2 m T (uint (word_of_int A :: uint16))"

definition int3store_x86 :: "mem \<Rightarrow> addr \<Rightarrow> int \<Rightarrow> mem" where
  "int3store_x86 m T A = m(T := word_of_int A,
     T + 1 := ucast (drop_bit 8 (word_of_int A :: uint32)), T + 2 := word_of_int (drop_bit 16 A))"

definition int4store_x86 :: "mem \<Rightarrow> addr \<Rightarrow> int \<Rightarrow> mem" where
  "int4store_x86 m T A = le_put 4 m T (c_int32 A)"

definition int5store_x86 :: "mem \<Rightarrow> addr \<Rightarrow> int \<Rightarrow> mem" where
  "int5store_x86 m T A = m(T := word_of_int A, T + 1 := word_of_int (drop_bit 8 A),
     T + 2 := word_of_int (drop_bit 16 A), T + 3 := word_of_int (drop_bit 24 A),
     T + 4 := word_of_int (drop_bit 32 A))"

definition int6store_x86 :: "mem \<Rightarrow> addr \<Rightarrow> int \<Rightarrow> mem" where
  "int6store_x86 m T A = m(T := word_of_int A, T + 1 := word_of_int (drop_bit 8 A),
     T + 2 := word_of_int (drop_bit 16 A), T + 3 := word_of_int (drop_bit 24 A),
     T + 4 := word_of_int (drop_bit 32 A), T + 5 := word_of_int (drop_bit 40 A))"

definition int8store_x86 :: "mem \<Rightarrow> addr \<Rightarrow> int \<Rightarrow> mem" where
  "int8store_x86 m T A = le_put 8 m T (uint (word_of_int A :: ulonglong))"

section \<open>Network byte order and machine format\<close>

definition int4net :: "mem \<Rightarrow> addr \<Rightarrow> int" where
  "int4net m A = sint (or (or (or (ucast (m (A + 3)) :: uint32) (push_bit 8 (ucast (m (A + 2)))))
     (push_bit 16 (ucast (m (A + 1))))) (push_bit 24 (ucast (m A))))"

definition ushortget_be :: "mem \<Rightarrow> addr \<Rightarrow> uint16" where
  "ushortget_be m M = ucast (m (M + 1)) + push_bit 8 (ucast (m M))"

definition shortget_be :: "mem \<Rightarrow> addr \<Rightarrow> int" where
  "shortget_be m M = c_int16 (c_int16 (uint (m (M + 1))) + push_bit 8 (c_int16 (uint (m M))))"

text \<open>On a big-endian machine the bytes of \<^verbatim>\<open>def_temp\<close> in memory order are its digits, high first.\<close>

definition longget_be :: "mem \<Rightarrow> addr \<Rightarrow> int" where
  "longget_be m M = c_int32 (be_val 4 m M)"

definition ulongget_be :: "mem \<Rightarrow> addr \<Rightarrow> uint32" where
  "ulongget_be m M = word_of_int (be_val 4 m M)"

definition shortstore_be :: "mem \<Rightarrow> addr \<Rightarrow> int \<Rightarrow> mem" where
  "shortstore_be m T A = (let def_temp = (word_of_int A :: uint32)
     in m(T + 1 := ucast def_temp, T := ucast (drop_bit 8 def_temp)))"

definition longstore_be :: "mem \<Rightarrow> addr \<Rightarrow> int \<Rightarrow> mem" where
  "longstore_be m T A = m(T + 3 := word_of_int A, T + 2 := word_of_int (drop_bit 8 A),
     T + 1 := word_of_int (drop_bit 16 A), T := word_of_int (drop_bit 24 A))"

definition longlongget_be :: "mem \<Rightarrow> addr \<Rightarrow> ulonglong" where
  "longlongget_be m M = word_of_int (be_val 8 m M)"

definition longlongstore_be :: "mem \<Rightarrow> addr \<Rightarrow> ulonglong \<Rightarrow> mem" where
  "longlongstore_be m T V = be_put 8 m T (uint V)"

definition ushortget :: "mem \<Rightarrow> addr \<Rightarrow> uint16" where
  "ushortget m M = uint2korr m M"

definition shortget :: "mem \<Rightarrow> addr \<Rightarrow> int" where
  "shortget m M = sint2korr m M"

definition longget :: "mem \<Rightarrow> addr \<Rightarrow> int" where
  "longget m M = sint4korr m M"

definition ulongget :: "mem \<Rightarrow> addr \<Rightarrow> uint32" where
  "ulongget m M = uint4korr m M"

definition shortstore :: "mem \<Rightarrow> addr \<Rightarrow> int \<Rightarrow> mem" where
  "shortstore m T V = int2store m T V"

definition longstore :: "mem \<Rightarrow> addr \<Rightarrow> int \<Rightarrow> mem" where
  "longstore m T V = int4store m T V"

definition longlongget :: "mem \<Rightarrow> addr \<Rightarrow> ulonglong" where
  "longlongget m M = word_of_int (le_val 8 m M)"

definition longlongstore :: "mem \<Rightarrow> addr \<Rightarrow> ulonglong \<Rightarrow> mem" where
  "longlongstore m T V = le_put 8 m T (uint V)"

section \<open>Floating-point objects\<close>

definition float4store_be :: "mem \<Rightarrow> addr \<Rightarrow> uchar list \<Rightarrow> mem" where
  "float4store_be m T A = m(T := A ! 3, T + 1 := A ! 2, T + 2 := A ! 1, T + 3 := A ! 0)"

definition float4get_be :: "mem \<Rightarrow> addr \<Rightarrow> uchar list" where
  "float4get_be m M = [m (M + 3), m (M + 2), m (M + 1), m M]"

definition float8store_be :: "mem \<Rightarrow> addr \<Rightarrow> uchar list \<Rightarrow> mem" where
  "float8store_be m T V = m(T := V ! 7, T + 1 := V ! 6, T + 2 := V ! 5, T + 3 := V ! 4,
     T + 4 := V ! 3, T + 5 := V ! 2, T + 6 := V ! 1, T + 7 := V ! 0)"

definition float8get_be :: "mem \<Rightarrow> addr \<Rightarrow> uchar list" where
  "float8get_be m M = [m (M + 7), m (M + 6), m (M + 5), m (M + 4),
     m (M + 3), m (M + 2), m (M + 1), m M]"

definition float4get :: "mem \<Rightarrow> addr \<Rightarrow> uchar list" where
  "float4get m M = memcpy_from m M 4"

definition float4store :: "mem \<Rightarrow> addr \<Rightarrow> uchar list \<Rightarrow> mem" where
  "float4store m V M = memcpy_to m V (take 4 M)"

definition doublestore_fwo :: "mem \<Rightarrow> addr \<Rightarrow> uchar list \<Rightarrow> mem" where
  "doublestore_fwo m T V = m(T := V ! 4, T + 1 := V ! 5, T + 2 := V ! 6, T + 3 := V ! 7,
     T + 4 := V ! 0, T + 5 := V ! 1, T + 6 := V ! 2, T + 7 := V ! 3)"

definition doubleget_fwo :: "mem \<Rightarrow> addr \<Rightarrow> uchar list" where
  "doubleget_fwo m M = [m (M + 4), m (M + 5), m (M + 6), m (M + 7),
     m M, m (M + 1), m (M + 2), m (M + 3)]"

text \<open>The x86 bodies go through the two \<^verbatim>\<open>long\<close> halves of \<^verbatim>\<open>doubleget_union\<close>.\<close>

record doubleget_union =
  u_m0 :: "uchar list"
  u_m1 :: "uchar list"

definition doubleget_x86 :: "mem \<Rightarrow> addr \<Rightarrow> uchar list" where
  "doubleget_x86 m M = (let tmp = \<lparr>u_m0 = memcpy_from m M 4, u_m1 = memcpy_from m (M + 4) 4\<rparr>
     in u_m0 tmp @ u_m1 tmp)"

definition doublestore_x86 :: "mem \<Rightarrow> addr \<Rightarrow> uchar list \<Rightarrow> mem" where
  "doublestore_x86 m T V = (let u = \<lparr>u_m0 = take 4 V, u_m1 = take 4 (drop 4 V)\<rparr>
     in memcpy_to (memcpy_to m T (u_m0 u)) (T + 4) (u_m1 u))"

definition doubleget :: "mem \<Rightarrow> addr \<Rightarrow> uchar list" where
  "doubleget m M = memcpy_from m M 8"

definition doublestore :: "mem \<Rightarrow> addr \<Rightarrow> uchar list \<Rightarrow> mem" where
  "doublestore m T V = memcpy_to m T (take 8 V)"

definition float8get :: "mem \<Rightarrow> addr \<Rightarrow> uchar list" where
  "float8get m M = doubleget m M"

definition float8store :: "mem \<Rightarrow> addr \<Rightarrow> uchar list \<Rightarrow> mem" where
  "float8store m V M = doublestore m V M"

section \<open>The codec interface\<close>

text \<open>
  What a user of a store/read pair relies on: reading back gives the low \<open>width\<close> bytes of the
  value through \<open>dec\<close>, a store changes nothing outside its range, and a read depends on its
  range only.
\<close>

locale byte_codec =
  fixes put :: "mem \<Rightarrow> addr \<Rightarrow> int \<Rightarrow> mem"
    and get :: "mem \<Rightarrow> addr \<Rightarrow> 'v"
    and width :: nat
    and dec :: "int \<Rightarrow> 'v"
  assumes get_put: "get (put m a v) a = dec (v mod 256 ^ width)"
    and put_frame: "\<not> in_range a width b \<Longrightarrow> put m a v b = m b"
    and get_local: "(\<And>i. i < width \<Longrightarrow> m (a + of_nat i) = m' (a + of_nat i)) \<Longrightarrow> get m a = get m' a"
    and width_small: "width \<le> 8"
begin

lemma get_put_disjoint:
  assumes "disjoint_ranges a width b width"
  shows "get (put m a v) b = get m b"
  by (rule get_local) (use assms in \<open>simp add: disjoint_ranges_def put_frame\<close>)

lemma get_put_overwrite: "get (put (put m a v) a w) a = dec (w mod 256 ^ width)"
  by (rule get_put)

lemma get_put_two:
  assumes "disjoint_ranges b width a width"
  shows "get (put (put m a v) b w) a = dec (v mod 256 ^ width)"
    and "get (put (put m a v) b w) b = dec (w mod 256 ^ width)"
  using assms by (simp_all add: get_put get_put_disjoint)

lemma put_list_frame:
  assumes "\<not> in_range a (length vs * width) b" and "length vs * width \<le> 2 ^ 32"
  shows "put_list put width m a vs b = m b"
  using assms
proof (induction vs arbitrary: m a)
  case Nil
  then show ?case by simp
next
  case (Cons v vs)
  have far: "width + length vs * width \<le> unat (b - a)"
    using Cons.prems(1) by (simp add: in_range_def)
  then have "\<not> in_range a width b" by (simp add: in_range_def)
  moreover have "\<not> in_range (a + of_nat width) (length vs * width) b"
    using far width_small by (intro not_in_range_after) simp_all
  ultimately show ?case using Cons.IH Cons.prems(2) by (simp add: put_frame)
qed

lemma put_list_get:
  assumes "i < length vs" and "length vs * width \<le> 2 ^ 32"
  shows "get (put_list put width m a vs) (a + of_nat (i * width)) = dec (vs ! i mod 256 ^ width)"
  using assms
proof (induction vs arbitrary: m a i)
  case Nil
  then show ?case by simp
next
  case (Cons v vs)
  show ?case
  proof (cases i)
    case 0
    have "get (put_list put width (put m a v) (a + of_nat width) vs) a = get (put m a v) a"
    proof (rule get_local)
      fix j
      assume "j < width"
      then have "\<not> in_range (a + of_nat width) (length vs * width) (a + of_nat j)"
        using Cons.prems(2) width_small by (intro not_in_range_behind) simp_all
      then show "put_list put width (put m a v) (a + of_nat width) vs (a + of_nat j)
          = put m a v (a + of_nat j)"
        using Cons.prems(2) by (intro put_list_frame) simp_all
    qed
    with 0 show ?thesis by (simp add: get_put)
  next
    case (Suc k)
    have "get (put_list put width (put m a v) (a + of_nat width) vs)
        (a + of_nat width + of_nat (k * width)) = dec (vs ! k mod 256 ^ width)"
      by (rule Cons.IH) (use Cons.prems Suc in simp_all)
    with Suc show ?thesis by (simp add: add.assoc)
  qed
qed

end

text \<open>
  The portable and the x86 macros implement the little-endian reference access; every such pair
  is a codec.
\<close>

locale le_codec =
  fixes put :: "mem \<Rightarrow> addr \<Rightarrow> int \<Rightarrow> mem"
    and get :: "mem \<Rightarrow> addr \<Rightarrow> 'v"
    and width :: nat
    and dec :: "int \<Rightarrow> 'v"
  assumes put_le: "put m a v = le_put width m a v"
    and get_le: "get m a = dec (le_val width m a)"
    and le_width: "width \<le> 8"

sublocale le_codec \<subseteq> byte_codec put get width dec
proof
  show "get (put m a v) a = dec (v mod 256 ^ width)" for m a v
    using le_width by (simp add: put_le get_le le_val_le_put)
  show "put m a v b = m b" if "\<not> in_range a width b" for m a v b
    using that by (simp add: put_le le_put_other)
  show "get m a = get m' a"
    if "\<And>i. i < width \<Longrightarrow> m (a + of_nat i) = m' (a + of_nat i)" for m m' a
    using le_val_cong [of width m a m'] that by (simp add: get_le)
  show "width \<le> 8" by (rule le_width)
qed

section \<open>Every macro implements the reference access\<close>

lemma bit_uchar: "bit (b :: uchar) k \<Longrightarrow> k < 8"
  using bit_imp_le_length [of b k] by simp

lemma and_push_bit_disjoint:
  fixes x y :: "'a::len word"
  shows "(\<And>k. bit y k \<Longrightarrow> k < n) \<Longrightarrow> and (push_bit n x) y = 0"
  by (rule bit_word_eqI) (auto simp: bit_simps dest: leD)

lemma or_eq_plus_bytes:
  fixes b0 b1 b2 :: uchar
  shows "or (or (push_bit 16 (ucast b2 :: uint32)) (push_bit 8 (ucast b1))) (ucast b0)
     = word_of_int (uint b0 + 256 * uint b1 + 65536 * uint b2)" (is ?A)
  and "or (or (or (push_bit 24 (255 :: uint32)) (push_bit 16 (ucast b2))) (push_bit 8 (ucast b1))) (ucast b0)
     = word_of_int (uint b0 + 256 * uint b1 + 65536 * uint b2 - 16777216)" (is ?B)
proof -
  have 1: "or (push_bit 16 (ucast b2 :: uint32)) (push_bit 8 (ucast b1)) = push_bit 16 (ucast b2) + push_bit 8 (ucast b1)"
    by (rule disjunctive_add_eq_or [symmetric]) (rule bit_word_eqI, clarsimp simp: bit_simps, (drule bit_uchar)+, simp)
  have 2: "or (or (push_bit 16 (ucast b2 :: uint32)) (push_bit 8 (ucast b1))) (ucast b0) = 
     or (push_bit 16 (ucast b2 :: uint32)) (push_bit 8 (ucast b1)) + ucast b0"
    by (rule disjunctive_add_eq_or [symmetric]) (rule bit_word_eqI, clarsimp simp: bit_simps, (drule bit_uchar)+, simp)
  note 12 = 2 [unfolded 1]
  show ?A unfolding 1 12 by (simp add: push_bit_eq_mult algebra_simps)
  have 3: "or (push_bit 24 (255 :: uint32)) (or (or (push_bit 16 (ucast b2 :: uint32)) (push_bit 8 (ucast b1))) (ucast b0))
    = push_bit 24 (255 :: uint32) + (or (or (push_bit 16 (ucast b2 :: uint32)) (push_bit 8 (ucast b1))) (ucast b0))"
    by (rule disjunctive_add_eq_or [symmetric]) (rule and_push_bit_disjoint, auto simp: bit_simps dest!: bit_uchar)
  show ?B using 3 \<open>?A\<close> by (simp add: or.assoc push_bit_eq_mult)
qed
lemma and_128: "and b 128 = 0 \<longleftrightarrow> uint (b::uchar) < 128"
proof -
  have "and b 128 = 0 \<longleftrightarrow> \<not> bit b 7"
    using and_exp_eq_0_iff_not_bit [of b 7] by simp
  also have "bit b 7 \<longleftrightarrow> odd (uint b div 128)"
    using bit_uint_iff [of b 7] by (simp add: bit_iff_odd [of "uint b"])
  also have "uint b div 128 = (if uint b < 128 then 0 else 1)"
  proof (cases "uint b < 128")
    case True
    then show ?thesis by simp
  next
    case False
    moreover have "uint b div 128 = 1" using False uint_uchar_bound [of b] by linarith
    ultimately show ?thesis by simp
  qed
  finally show ?thesis by simp
qed

lemma sint_of_small: "- (2 ^ 31) \<le> k \<Longrightarrow> k < 2 ^ 31 \<Longrightarrow> sint (word_of_int k :: uint32) = k"
  by (simp add: sint_sbintrunc' signed_take_bit_int_eq_self)


lemma uint2korr_le: "uint2korr m a = word_of_int (le_val 2 m a)"
  by (simp add: uint2korr_def le_val_numeral push_bit_eq_mult algebra_simps)

lemma uint3korr_le: "uint3korr m a = word_of_int (le_val 3 m a)"
  by (simp add: uint3korr_def le_val_numeral push_bit_eq_mult algebra_simps)

lemma uint4korr_le: "uint4korr m a = word_of_int (le_val 4 m a)"
  by (simp add: uint4korr_def le_val_numeral push_bit_eq_mult algebra_simps)

lemma ucast_le_val4:
  "ucast (word_of_int (le_val 4 m a) :: uint32) = (word_of_int (le_val 4 m a) :: ulonglong)"
  by (simp add: ucast_eq uint_word_of_le_val del: of_int_uint)

lemma uint4_expand:
  "(ucast (m a) :: uint32) + push_bit 8 (ucast (m (a + 1))) + push_bit 16 (ucast (m (a + 2)))
     + push_bit 24 (ucast (m (a + 3))) = word_of_int (le_val 4 m a)"
  using uint4korr_le by (simp add: uint4korr_def)

lemma uint5korr_le: "uint5korr m a = word_of_int (le_val 5 m a)"
  unfolding uint5korr_def uint4_expand ucast_le_val4
  using le_val_add [of 4 1 m a] by (simp add: push_bit_eq_mult)

lemma uint6korr_le: "uint6korr m a = word_of_int (le_val 6 m a)"
  unfolding uint6korr_def uint4_expand ucast_le_val4
  using le_val_add [of 4 2 m a] by (simp add: push_bit_eq_mult le_val_numeral algebra_simps)

lemma uint8korr_le: "uint8korr m a = word_of_int (le_val 8 m a)"
proof -
  have hi: "(ucast (m (a + 4)) :: uint32) + push_bit 8 (ucast (m (a + 5)))
       + push_bit 16 (ucast (m (a + 6))) + push_bit 24 (ucast (m (a + 7)))
     = word_of_int (le_val 4 m (a + 4))"
    using uint4_expand [of m "a + 4"] by (simp add: add.assoc)
  show ?thesis
    unfolding uint8korr_def uint4_expand hi ucast_le_val4
    using le_val_add [of 4 4 m a] by (simp add: push_bit_eq_mult)
qed

lemma sint2korr_le: "sint2korr m a = c_int16 (le_val 2 m a)"
  by (simp add: sint2korr_def le_val_numeral push_bit_eq_mult algebra_simps)

lemma sint3korr_le:
  "sint3korr m a = (if le_val 3 m a < 2 ^ 23 then le_val 3 m a else le_val 3 m a - 2 ^ 24)"
proof -
  let ?v = "uint (m a) + 256 * uint (m (a + 1)) + 65536 * uint (m (a + 2))"
  have v: "le_val 3 m a = ?v" by (simp add: le_val_numeral add.assoc)
  note b = uint_uchar_bound [of "m a"] uint_uchar_bound [of "m (a + 1)"] uint_uchar_bound [of "m (a + 2)"]
   uint_ge_0 [of "m a"] uint_ge_0 [of "m (a + 1)"] uint_ge_0 [of "m (a + 2)"]
  show ?thesis
  proof (cases "uint (m (a + 2)) < 128")
    case True
    with b have small: "?v < 2 ^ 23" and nn: "0 \<le> ?v" by simp_all
    have "- (2 ^ 31) \<le> ?v" by (rule order_trans [OF _ nn]) simp
    with small have "- (2 ^ 31) \<le> ?v" "?v < 2 ^ 31" by simp_all
    then have "sint (word_of_int ?v :: uint32) = ?v" by (intro sint_of_small) simp_all
    moreover have "sint3korr m a = sint (word_of_int ?v :: uint32)"
      using True by (simp add: sint3korr_def and_128 or_eq_plus_bytes)
    ultimately show ?thesis using small by (simp only: v if_True)
  next
    case False
    with b have "\<not> ?v < 8388608" by linarith
    then have "\<not> ?v < 2 ^ 23" by simp
    moreover from False b have "- (2 ^ 31) \<le> ?v - 2 ^ 24" by simp
    moreover from False b have "?v - 2 ^ 24 < 2 ^ 31" by simp
    ultimately have "\<not> ?v < 2 ^ 23" "- (2 ^ 31) \<le> ?v - 2 ^ 24" "?v - 2 ^ 24 < 2 ^ 31" .
    then have "sint (word_of_int (?v - 2 ^ 24) :: uint32) = ?v - 2 ^ 24" by (intro sint_of_small) simp_all
    moreover have "sint3korr m a = sint (word_of_int (?v - 2 ^ 24) :: uint32)"
      unfolding sint3korr_def or_eq_plus_bytes using False by (simp add: and_128)
    ultimately show ?thesis using \<open>\<not> ?v < 2 ^ 23\<close> by (simp only: v if_False)
  qed
qed

lemma sint4korr_le: "sint4korr m a = c_int32 (le_val 4 m a)"
  unfolding sint4korr_def c_int32_add c_int16_uchar
  by (simp add: le_val_numeral push_bit_eq_mult algebra_simps)

lemma sint8korr_le: "sint8korr m a = c_int64 (le_val 8 m a)"
  by (simp add: sint8korr_def uint8korr_le sint_sbintrunc' c_int64_def)

lemma uint3korr_x86_le: "uint3korr_x86 m a = le_val 3 m a"
proof -
  have "le_val 4 m a = le_val 3 m a + 256 ^ 3 * uint (m (a + 3))"
    using le_val_add [of 3 1 m a] by simp
  then have "take_bit 24 (le_val 4 m a) = le_val 3 m a"
    using le_val_bound [of 3 m a] le_val_nonneg [of 3 m a] by (simp add: take_bit_eq_mod)
  moreover have mask24: "(0xFFFFFF :: uint32) = mask 24" by (simp add: mask_eq_exp_minus_1)
  have "and (word_of_int k :: uint32) 0xFFFFFF = word_of_int (take_bit 24 k)" for k
    unfolding mask24 take_bit_eq_mask [symmetric]
    by (rule bit_word_eqI) (auto simp: bit_simps)
  ultimately show ?thesis using le_val_bound [of 3 m a] le_val_nonneg [of 3 m a]
    by (simp add: uint3korr_x86_def sint_of_small)
qed

lemma int2store_le: "int2store m a v = le_put 2 m a v"
  by (simp add: int2store_def le_put_numeral ucast_drop_bit ucast_uint32)

lemma int3store_le: "int3store m a v = le_put 3 m a v"
  by (simp add: int3store_def le_put_numeral drop_bit_eq_div add.assoc div_256_256)

lemma int4store_le: "int4store m a v = le_put 4 m a v"
  by (simp add: int4store_def le_put_numeral drop_bit_eq_div add.assoc div_256_256)

lemma int5store_le: "int5store m a v = le_put 5 m a v"
  by (simp add: int5store_def le_put_numeral drop_bit_eq_div add.assoc div_256_256)

lemma int6store_le: "int6store m a v = le_put 6 m a v"
  by (simp add: int6store_def le_put_numeral drop_bit_eq_div add.assoc div_256_256)

lemma int8store_le: "int8store m a v = le_put 8 m a v"
proof -
  have "le_put 8 m a v = le_put 4 (le_put 4 m a v) (a + 4) (v div 256 ^ 4)"
    using le_put_add [of 4 4 m a v] by simp
  also have "le_put 4 m a v = le_put 4 m a (v mod 256 ^ 4)" by (rule le_put_cong) simp
  also have "le_put 4 (le_put 4 m a (v mod 256 ^ 4)) (a + 4) (v div 256 ^ 4)
      = le_put 4 (le_put 4 m a (v mod 256 ^ 4)) (a + 4) (v div 256 ^ 4 mod 256 ^ 4)"
    by (rule le_put_cong) simp
  finally show ?thesis
    by (simp add: int8store_def int4store_le uint_word_of_int drop_bit_eq_div)
qed

lemma int2store_x86_le: "int2store_x86 m a v = le_put 2 m a v"
  unfolding int2store_x86_def by (rule le_put_cong) (simp add: uint_word_of_int)

lemma int3store_x86_le: "int3store_x86 m a v = le_put 3 m a v"
  unfolding int3store_le [symmetric] int3store_x86_def int3store_def ucast_drop_bit
  by (simp add: drop_bit_eq_div)

lemma int4store_x86_le: "int4store_x86 m a v = le_put 4 m a v"
  unfolding int4store_x86_def by (rule le_put_cong) (use c_int32_mod [of v] in simp)

lemma int8store_x86_le: "int8store_x86 m a v = le_put 8 m a v"
  unfolding int8store_x86_def by (rule le_put_cong) (simp add: uint_word_of_int)

lemmas korr_le =
  uint2korr_le uint3korr_le uint4korr_le uint5korr_le uint6korr_le uint8korr_le
  sint2korr_le sint3korr_le sint4korr_le sint8korr_le

lemmas store_le =
  int2store_le int3store_le int4store_le int5store_le int6store_le int8store_le
  int2store_x86_le int3store_x86_le int4store_x86_le int8store_x86_le

interpretation int2: le_codec int2store uint2korr 2 "\<lambda>x. word_of_int x"
  by unfold_locales (simp_all add: korr_le store_le)

interpretation int3: le_codec int3store uint3korr 3 "\<lambda>x. word_of_int x"
  by unfold_locales (simp_all add: korr_le store_le)

interpretation int4: le_codec int4store uint4korr 4 "\<lambda>x. word_of_int x"
  by unfold_locales (simp_all add: korr_le store_le)

interpretation int5: le_codec int5store uint5korr 5 "\<lambda>x. word_of_int x"
  by unfold_locales (simp_all add: korr_le store_le)

interpretation int6: le_codec int6store uint6korr 6 "\<lambda>x. word_of_int x"
  by unfold_locales (simp_all add: korr_le store_le)

interpretation int8: le_codec int8store uint8korr 8 "\<lambda>x. word_of_int x"
  by unfold_locales (simp_all add: korr_le store_le)

interpretation sint2: le_codec int2store sint2korr 2 c_int16
  by unfold_locales (simp_all add: korr_le store_le)

interpretation sint3: le_codec int3store sint3korr 3 "\<lambda>x. if x < 2 ^ 23 then x else x - 2 ^ 24"
  by unfold_locales (simp_all add: korr_le store_le)

interpretation sint4: le_codec int4store sint4korr 4 c_int32
  by unfold_locales (simp_all add: korr_le store_le)

interpretation sint8: le_codec int8store sint8korr 8 c_int64
  by unfold_locales (simp_all add: korr_le store_le)

interpretation int3_x86: le_codec int3store_x86 uint3korr_x86 3 "\<lambda>x. x"
  by unfold_locales (simp_all add: uint3korr_x86_le store_le)

section \<open>Big-endian and floating-point accesses\<close>

lemma be_val_numeral:
  "be_val (numeral k) m a = 256 ^ pred_numeral k * uint (m a) + be_val (pred_numeral k) m (a + 1)"
  by (simp add: numeral_eq_Suc)

lemma be_put_numeral:
  "be_put (numeral k) m a v
     = be_put (pred_numeral k) (m(a := word_of_int (v div 256 ^ pred_numeral k))) (a + 1) v"
  by (simp add: numeral_eq_Suc)

lemma ushortget_be_val: "ushortget_be m a = word_of_int (be_val 2 m a)"
  by (simp add: ushortget_be_def be_val_numeral push_bit_eq_mult algebra_simps)

lemma shortget_be_val: "shortget_be m a = c_int16 (be_val 2 m a)"
  by (simp add: shortget_be_def be_val_numeral push_bit_eq_mult algebra_simps)

lemma shortstore_be_put: "shortstore_be m a v = be_put 2 m a v"
  by (simp add: shortstore_be_def be_put_numeral ucast_drop_bit ucast_uint32 fun_upd_twist)

lemma longstore_be_put: "longstore_be m a v = be_put 4 m a v"
  by (rule ext)
    (simp add: longstore_be_def be_put_numeral drop_bit_eq_div add.assoc fun_upd_def)

lemma or_eq_plus_4bytes:
  fixes b0 b1 b2 b3 :: uchar
  shows "or (or (or (ucast b3 :: uint32) (push_bit 8 (ucast b2))) (push_bit 16 (ucast b1)))
      (push_bit 24 (ucast b0))
    = word_of_int (uint b3 + 256 * uint b2 + 65536 * uint b1 + 16777216 * uint b0)"
proof -
  let ?x = "or (push_bit 16 (ucast b1 :: uint32)) (push_bit 8 (ucast b2))"
  have comm: "or (or (or (ucast b3 :: uint32) (push_bit 8 (ucast b2))) (push_bit 16 (ucast b1)))
      (push_bit 24 (ucast b0)) = or (push_bit 24 (ucast b0)) (or ?x (ucast b3))"
    by (simp add: ac_simps)
  have "and (push_bit 24 (ucast b0 :: uint32)) (or ?x (ucast b3)) = 0"
    by (rule and_push_bit_disjoint) (auto simp: bit_simps dest!: bit_uchar)
  then have "or (push_bit 24 (ucast b0)) (or ?x (ucast b3))
      = push_bit 24 (ucast b0) + or ?x (ucast b3)"
    by (rule disjunctive_add_eq_or [symmetric])
  then show ?thesis
    unfolding comm or_eq_plus_bytes by (simp add: push_bit_eq_mult algebra_simps)
qed

lemma int4net_val: "int4net m a = c_int32 (be_val 4 m a)"
proof -
  have val: "sint (word_of_int k :: uint32) = c_int32 k" for k
    by (simp add: sint_sbintrunc' c_int32_def)
  show ?thesis
    unfolding int4net_def or_eq_plus_4bytes val
    by (simp add: be_val_numeral add.assoc algebra_simps)
qed

lemma c_int16_mod: "c_int16 (v mod 65536) = c_int16 v"
  by (simp add: c_int16_def signed_take_bit_eq_iff_take_bit_eq take_bit_eq_mod)

lemma c_int32_of_mod: "c_int32 (v mod 4294967296) = c_int32 v"
  by (rule c_int32_cong) simp

lemma c_int64_mod: "c_int64 (v mod 18446744073709551616) = c_int64 v"
  by (simp add: c_int64_def signed_take_bit_eq_iff_take_bit_eq take_bit_eq_mod)

lemma doublestore_x86_memcpy: "length V = 8 \<Longrightarrow> doublestore_x86 m T V = memcpy_to m T V"
  using memcpy_to_append [of m T "take 4 V" "drop 4 V"] by (simp add: doublestore_x86_def)

lemma doubleget_x86_memcpy: "doubleget_x86 m M = memcpy_from m M 8"
  using memcpy_from_add [of m M 4 4] by (simp add: doubleget_x86_def)

lemma list_as_nths: "length V = n \<Longrightarrow> V = map ((!) V) [0..<n]"
  by (simp add: list_eq_iff_nth_eq)

lemma length_8_conv: "length V = 8 \<Longrightarrow> V = [V ! 0, V ! 1, V ! 2, V ! 3, V ! 4, V ! 5, V ! 6, V ! 7]"
  using list_as_nths [of V 8] by (simp add: upt_rec eval_nat_numeral)

lemma length_4_conv: "length V = 4 \<Longrightarrow> V = [V ! 0, V ! 1, V ! 2, V ! 3]"
  using list_as_nths [of V 4] by (simp add: upt_rec eval_nat_numeral)

section \<open>Properties\<close>

text \<open>C34: every portable read macro of \<^verbatim>\<open>my_global.h\<close> returns the little-endian value of exactly the bytes
  its name counts: unsigned reads the value itself, signed reads its two's complement reading at
  16, 24, 32 and 64 bits.\<close>
theorem korr_reads_little_endian:
  "uint (uint2korr m a) = le_val 2 m a \<and> uint (uint3korr m a) = le_val 3 m a \<and>
   uint (uint4korr m a) = le_val 4 m a \<and> uint (uint5korr m a) = le_val 5 m a \<and>
   uint (uint6korr m a) = le_val 6 m a \<and> uint (uint8korr m a) = le_val 8 m a \<and>
   sint2korr m a = signed_take_bit 15 (le_val 2 m a) \<and>
   sint3korr m a = signed_take_bit 23 (le_val 3 m a) \<and>
   sint4korr m a = signed_take_bit 31 (le_val 4 m a) \<and>
   sint8korr m a = signed_take_bit 63 (le_val 8 m a)"
proof -
  have "signed_take_bit 23 x = (if x < 2 ^ 23 then x else x - 2 ^ 24)" if "0 \<le> x" "x < 2 ^ 24" for x :: int
  proof -
    have "bit x 23 \<longleftrightarrow> \<not> x < 2 ^ 23"
    proof (cases "x < 2 ^ 23")
      case True
      then show ?thesis using that by (simp add: bit_iff_odd)
    next
      case False
      moreover have "x div 8388608 = 1" using False that by simp
      ultimately show ?thesis by (simp add: bit_iff_odd)
    qed
    moreover have "take_bit 24 x = x" using that by (simp add: take_bit_int_eq_self)
    ultimately show ?thesis
      using signed_take_bit_eq_take_bit_minus [of 23 x] by simp
  qed
  with le_val_nonneg [of 3 m a] le_val_bound [of 3 m a] show ?thesis
    by (simp add: korr_le uint_word_of_le_val c_int16_def c_int32_def c_int64_def)
qed

text \<open>The optimised bodies for x86 (loads and stores through cast pointers) and the portable bodies
  compute the same values and leave the same memory, for every width.\<close>
lemma x86_and_portable_agree:
  "sint2korr_x86 m a = sint2korr m a \<and> sint3korr_x86 m a = sint3korr m a \<and>
   sint4korr_x86 m a = sint4korr m a \<and> sint8korr_x86 m a = sint8korr m a \<and>
   uint2korr_x86 m a = uint2korr m a \<and> uint3korr_x86 m a = uint (uint3korr m a) \<and>
   uint4korr_x86 m a = uint4korr m a \<and> uint5korr_x86 m a = uint5korr m a \<and>
   uint6korr_x86 m a = uint6korr m a \<and> uint8korr_x86 m a = uint8korr m a \<and>
   int2store_x86 m a v = int2store m a v \<and> int3store_x86 m a v = int3store m a v \<and>
   int4store_x86 m a v = int4store m a v \<and> int5store_x86 m a v = int5store m a v \<and>
   int6store_x86 m a v = int6store m a v \<and> int8store_x86 m a v = int8store m a v"
proof -
  have "sint3korr_x86 m a = sint3korr m a" by (simp only: sint3korr_x86_def sint3korr_def)
  moreover have "uint5korr_x86 m a = uint5korr m a" by (simp only: uint5korr_x86_def uint5korr_def)
  moreover have "uint6korr_x86 m a = uint6korr m a" by (simp only: uint6korr_x86_def uint6korr_def)
  moreover have "int5store_x86 m a v = int5store m a v" by (simp only: int5store_x86_def int5store_def)
  moreover have "int6store_x86 m a v = int6store m a v" by (simp only: int6store_x86_def int6store_def)
  ultimately show ?thesis
    by (simp add: store_le uint3korr_x86_le uint2korr_le uint3korr_le uint4korr_le uint8korr_le
        sint2korr_le sint4korr_le sint8korr_le sint2korr_x86_def sint4korr_x86_def sint8korr_x86_def
        uint2korr_x86_def uint4korr_x86_def uint8korr_x86_def uint_word_of_le_val)
qed

text \<open>C6: writing an integer with \<^verbatim>\<open>intNstore\<close> and reading it back with the macro of the same width gives
  the value modulo 256 to the width, and the two's complement value for the signed reads.\<close>
theorem store_then_korr:
  "uint (uint2korr (int2store m a v) a) = v mod 2 ^ 16 \<and>
   uint (uint3korr (int3store m a v) a) = v mod 2 ^ 24 \<and>
   uint (uint4korr (int4store m a v) a) = v mod 2 ^ 32 \<and>
   uint (uint5korr (int5store m a v) a) = v mod 2 ^ 40 \<and>
   uint (uint6korr (int6store m a v) a) = v mod 2 ^ 48 \<and>
   uint (uint8korr (int8store m a v) a) = v mod 2 ^ 64 \<and>
   sint2korr (int2store m a v) a = c_int16 v \<and>
   sint4korr (int4store m a v) a = c_int32 v \<and>
   sint8korr (int8store m a v) a = c_int64 v"
  by (simp add: int2.get_put int3.get_put int4.get_put int5.get_put int6.get_put int8.get_put
      sint2.get_put sint4.get_put sint8.get_put uint_word_of_int c_int16_mod c_int32_of_mod
      c_int64_mod)

text \<open>A packed array of 3-byte integers written with \<^verbatim>\<open>int3store\<close> one after the other holds every
  element: the read of element \<open>i\<close> at offset \<open>3 * i\<close> gives it back, later stores never damage
  earlier elements.\<close>
lemma int3_array_roundtrip:
  assumes "i < length vs" and "length vs * 3 \<le> 2 ^ 32"
  shows "uint (uint3korr (put_list int3store 3 m a vs) (a + of_nat (i * 3))) = vs ! i mod 2 ^ 24"
  using int3.put_list_get [OF assms, of m a] by (simp add: uint_word_of_int)

lemma int3_array_roundtrip_instance:
  "uint (uint3korr (put_list int3store 3 (\<lambda>_. 0) 16 [70000, 2, -1]) (16 + of_nat (2 * 3))) = 16777215"
proof -
  have "2 < length [70000, 2, - 1 :: int]" and "length [70000, 2, - 1 :: int] * 3 \<le> 2 ^ 32" by simp_all
  from int3_array_roundtrip [OF this, of "\<lambda>_. 0" 16] show ?thesis by simp
qed

text \<open>Two 4-byte fields at disjoint places, written in any order with the portable or the x86 macro, are
  both read back unchanged, and no byte outside the two fields changes.\<close>
lemma int4_fields_independent:
  assumes "disjoint_ranges b 4 a 4"
  shows "uint4korr (int4store_x86 (int4store m a v) b w) a = word_of_int v \<and>
    uint4korr (int4store_x86 (int4store m a v) b w) b = word_of_int w \<and>
    (\<forall>c. \<not> in_range a 4 c \<and> \<not> in_range b 4 c \<longrightarrow> int4store_x86 (int4store m a v) b w c = m c)"
proof -
  have st: "int4store_x86 n b w = int4store n b w" for n by (simp add: store_le)
  have red: "(word_of_int (x mod 4294967296) :: uint32) = word_of_int x" for x
    by (simp add: word_of_int_eq_iff take_bit_eq_mod)
  show ?thesis
    unfolding st using int4.get_put_two [OF assms, of m v w]
    by (simp add: int4.put_frame red)
qed

lemma int4_fields_independent_instance:
  "uint4korr (int4store_x86 (int4store (\<lambda>_. 0) 0 7) 4 9) 0 = 7"
proof -
  have "disjoint_ranges 4 4 0 4"
    unfolding disjoint_ranges_def in_range_def
  proof (intro allI impI)
    fix i :: nat
    assume "i < 4"
    then consider "i = 0" | "i = 1" | "i = 2" | "i = 3" by linarith
    then show "\<not> unat (0 + of_nat i - 4 :: addr) < 4" by cases (simp_all add: unat_eq_nat_uint uint_word_ariths)
  qed
  from int4_fields_independent [OF this, of "\<lambda>_. 0" 7 9] show ?thesis by simp
qed

text \<open>The machine-format macros of a big-endian machine are inverse to each other, and a long stored
  by them is what \<^verbatim>\<open>int4net\<close> reads as network byte order.\<close>
lemma big_endian_machine_format:
  "ushortget_be (shortstore_be m a v) a = word_of_int v \<and>
   shortget_be (shortstore_be m a v) a = c_int16 v \<and>
   longget_be (longstore_be m a v) a = c_int32 v \<and>
   ulongget_be (longstore_be m a v) a = word_of_int v \<and>
   longlongget_be (longlongstore_be m a w) a = w \<and>
   int4net (longstore_be m a v) a = c_int32 v"
proof -
  have "(word_of_int (x mod 65536) :: uint16) = word_of_int x"
    "(word_of_int (x mod 4294967296) :: uint32) = word_of_int x" for x
    by (simp_all add: word_of_int_eq_iff take_bit_eq_mod)
  moreover have "uint w mod 18446744073709551616 = uint w"
    using uint_bounded [of w] by simp
  ultimately show ?thesis
    by (simp add: ushortget_be_val shortget_be_val shortstore_be_put longget_be_def ulongget_be_def
        longstore_be_put int4net_val longlongget_be_def longlongstore_be_def be_val_be_put
        c_int16_mod c_int32_of_mod)
qed

text \<open>A \<^verbatim>\<open>double\<close> stored by any of the four layouts of \<^verbatim>\<open>doublestore\<close>/\<^verbatim>\<open>float8store\<close> (x86 halves,
  big-endian, swapped float word order, plain \<^verbatim>\<open>memcpy\<close>) and read back by the matching macro has
  the same object representation; the x86 pair and the \<^verbatim>\<open>memcpy\<close> pair are interchangeable.\<close>
lemma double_object_roundtrip:
  assumes "length V = 8"
  shows "doubleget_x86 (doublestore_x86 m T V) T = V \<and>
    float8get_be (float8store_be m T V) T = V \<and>
    doubleget_fwo (doublestore_fwo m T V) T = V \<and>
    doubleget (doublestore m T V) T = V \<and>
    float8get (doublestore_x86 m T V) T = V \<and> doubleget_x86 (float8store m T V) T = V"
proof -
  have rt: "memcpy_from (memcpy_to m T V) T 8 = V"
    using memcpy_roundtrip [of V m T] assms by simp
  have be: "float8get_be (float8store_be m T V) T = V"
    by (subst (2) length_8_conv [OF assms]) (simp add: float8get_be_def float8store_be_def)
  have fwo: "doubleget_fwo (doublestore_fwo m T V) T = V"
    by (subst (2) length_8_conv [OF assms]) (simp add: doubleget_fwo_def doublestore_fwo_def)
  from rt be fwo assms show ?thesis
    by (simp add: doubleget_x86_memcpy doublestore_x86_memcpy doubleget_def doublestore_def
        float8get_def float8store_def)
qed

lemma double_object_roundtrip_instance:
  "float8get_be (float8store_be (\<lambda>_. 0) 5 [1, 2, 3, 4, 5, 6, 7, 8]) 5 = [1, 2, 3, 4, 5, 6, 7, 8]"
  using double_object_roundtrip [of "[1, 2, 3, 4, 5, 6, 7, 8]" "\<lambda>_. 0" 5] by simp

text \<open>The same for a \<^verbatim>\<open>float\<close>.\<close>
lemma float_object_roundtrip:
  assumes "length V = 4"
  shows "float4get (float4store m T V) T = V \<and> float4get_be (float4store_be m T V) T = V"
proof -
  have "memcpy_from (memcpy_to m T V) T 4 = V"
    using memcpy_roundtrip [of V m T] assms by simp
  moreover have "float4get_be (float4store_be m T V) T = V"
    by (subst (2) length_4_conv [OF assms]) (simp add: float4get_be_def float4store_be_def)
  ultimately show ?thesis using assms by (simp add: float4get_def float4store_def)
qed

lemma float_object_roundtrip_instance:
  "float4get_be (float4store_be (\<lambda>_. 0) 0 [1, 2, 3, 4]) 0 = [1, 2, 3, 4]"
  using float_object_roundtrip [of "[1, 2, 3, 4]" "\<lambda>_. 0" 0] by simp

end
