(* ===== verification/My_Double.thy ===== *)
theory My_Double
  imports Mysql_Prelude "HOL-Library.Signed_Division"
begin

text \<open>
  Floating point in \<^verbatim>\<open>my_global.h\<close>: the conversions \<^verbatim>\<open>my_ulonglong2double\<close> and
  \<^verbatim>\<open>my_double2ulonglong\<close> of 32-bit builds with the Microsoft compiler, and the implementation of \<^verbatim>\<open>rint\<close>
  for platforms without it.

  A finite IEEE double is a multiple of the smallest positive one, \<open>2 ^ - 1074\<close>; the model is that multiple, an integer.
  An integer is a double when at most 53 significant bits remain after its trailing zeros, and
  \<open>fl\<close> rounds to the nearest double, ties to even, as the default mode of the processor does.  Sums, differences
  and conversions are exact integer operations followed by \<open>fl\<close>; comparisons are exact.  Infinities, not-a-numbers and the sign
  of zero are outside of the model.

  The lemmas show that \<^verbatim>\<open>rint\<close> rounds to the nearest integer with ties to even, what the conversion to
  double can lose, and for which values the two conversions are inverse.
\<close>

section \<open>Doubles\<close>

type_synonym dbl = int

definition DBL_UNIT :: dbl where
  "DBL_UNIT = 2 ^ 1074"

definition DBL_MANT_DIG :: nat where
  "DBL_MANT_DIG = 53"

text \<open>Division with rounding to the nearest integer, ties to even.\<close>

definition rhe :: "int \<Rightarrow> int \<Rightarrow> int" where
  "rhe n d = (let q = n div d; r = n mod d in
     if 2 * r < d then q else if 2 * r > d then q + 1 else if even q then q else q + 1)"

text \<open>The bits of a magnitude beyond the 53 a double has.\<close>

fun excess :: "nat \<Rightarrow> nat" where
  "excess n = (if n < 2 ^ 53 then 0 else Suc (excess (n div 2)))"

declare excess.simps [simp del]

definition fl :: "int \<Rightarrow> dbl" where
  "fl n = (let k = excess (nat \<bar>n\<bar>) in rhe n (2 ^ k) * 2 ^ k)"

definition is_dbl :: "int \<Rightarrow> bool" where
  "is_dbl n \<longleftrightarrow> fl n = n"

definition int2dbl :: "int \<Rightarrow> dbl" where
  "int2dbl n = fl (n * DBL_UNIT)"

text \<open>The conversion of a double to an integer type drops the fraction.\<close>

definition dbl2int :: "dbl \<Rightarrow> int" where
  "dbl2int d = sgn d * (\<bar>d\<bar> div DBL_UNIT)"

section \<open>The operations\<close>

definition my_ulonglong2double :: "ulonglong \<Rightarrow> dbl" where
  "my_ulonglong2double value = (let nr = c_int64 (uint value) in
     if nr \<ge> 0 then int2dbl nr else fl (int2dbl 18446744073709551616 + int2dbl nr))"

definition my_double2ulonglong :: "dbl \<Rightarrow> ulonglong" where
  "my_double2ulonglong d = (let t = fl (d - int2dbl 0x8000000000000000) in
     if t \<ge> 0 then word_of_int (dbl2int t) + 0x8000000000000000 else word_of_int (dbl2int d))"

definition MAX_EXACT_INTEGER :: int where
  "MAX_EXACT_INTEGER = push_bit DBL_MANT_DIG 1 - 1"

definition modf :: "dbl \<Rightarrow> dbl \<times> dbl" where
  "modf x = (let i = dbl2int x * DBL_UNIT in (x - i, i))"

definition rint :: "dbl \<Rightarrow> dbl" where
  "rint x = (let (f, i) = modf x; half = DBL_UNIT div 2 in
     if x > 0
     then fl (i + int2dbl (of_bool (f > half \<or>
            f = half \<and> i \<le> int2dbl MAX_EXACT_INTEGER \<and> dbl2int i smod 2 \<noteq> 0)))
     else fl (i - int2dbl (of_bool (f < - half \<or>
            f = - half \<and> i \<ge> int2dbl (- MAX_EXACT_INTEGER) \<and> dbl2int i smod 2 \<noteq> 0))))"

section \<open>Rounding\<close>

lemma DBL_UNIT_pos [simp]: "DBL_UNIT > 0" "DBL_UNIT \<noteq> 0" "DBL_UNIT \<ge> 0" "\<not> DBL_UNIT < 0" "even DBL_UNIT" "2 dvd DBL_UNIT"
  by (simp_all add: DBL_UNIT_def)

lemma rhe_cases:
  assumes "0 < d"
  obtains q r where "n = q * d + r" "0 \<le> r" "r < d" "2 * r < d \<or> 2 * r = d \<and> even q" "rhe n d = q"
  | q r where "n = q * d + r" "0 \<le> r" "r < d" "2 * r > d \<or> 2 * r = d \<and> odd q" "rhe n d = q + 1"
proof -
  have "n = n div d * d + n mod d" "0 \<le> n mod d" "n mod d < d" using assms by simp_all
  moreover have "(2 * (n mod d) < d \<or> 2 * (n mod d) = d \<and> even (n div d)) \<and> rhe n d = n div d \<or>
      (2 * (n mod d) > d \<or> 2 * (n mod d) = d \<and> odd (n div d)) \<and> rhe n d = n div d + 1"
    by (auto simp: rhe_def Let_def)
  ultimately show thesis using that by blast
qed

lemma rhe_error: "0 < d \<Longrightarrow> 2 * \<bar>rhe n d * d - n\<bar> \<le> d"
  by (erule rhe_cases [of _ n]) (auto simp: distrib_right)

lemma rhe_tie: "0 < d \<Longrightarrow> 2 * \<bar>rhe n d * d - n\<bar> = d \<Longrightarrow> even (rhe n d)"
  by (erule rhe_cases [of _ n]) (auto simp: distrib_right)

lemma near_both: "2 * \<bar>a - n\<bar> \<le> d \<Longrightarrow> 2 * \<bar>b - n\<bar> \<le> d \<Longrightarrow> \<bar>a - b\<bar> \<le> (d :: int)"
  using abs_triangle_ineq4 [of "a - n" "b - n"] by simp

lemma near_bound: "2 * \<bar>a - n\<bar> \<le> d \<Longrightarrow> \<bar>n\<bar> < c \<Longrightarrow> \<bar>a\<bar> < c + (d :: int)"
proof -
  assume near: "2 * \<bar>a - n\<bar> \<le> d" and n: "\<bar>n\<bar> < c"
  have "\<bar>a\<bar> \<le> \<bar>a - n\<bar> + \<bar>n\<bar>" using abs_triangle_ineq [of "a - n" n] by simp
  also have "\<dots> < 2 * \<bar>a - n\<bar> + c" using n by (intro add_le_less_mono) simp_all
  finally show ?thesis using near by simp
qed

lemma near_neg: "2 * \<bar>a - n\<bar> \<le> d \<Longrightarrow> d \<le> c \<Longrightarrow> c \<le> \<bar>n\<bar> \<Longrightarrow> n < 0 \<Longrightarrow> a < (0 :: int)"
  using abs_ge_self [of "a - n"] by simp

lemma near_tie: "\<bar>a - b\<bar> = d \<Longrightarrow> 2 * \<bar>a - n\<bar> \<le> d \<Longrightarrow> 2 * \<bar>b - n\<bar> \<le> d \<Longrightarrow>
    2 * \<bar>a - n\<bar> = d \<and> 2 * \<bar>b - n\<bar> = (d :: int)"
  using abs_triangle_ineq4 [of "a - n" "b - n"] by auto

lemma rhe_unique:
  assumes "0 < d" "2 * \<bar>m * d - n\<bar> \<le> d" "2 * \<bar>m * d - n\<bar> = d \<Longrightarrow> even m"
  shows "rhe n d = m"
proof (rule ccontr)
  let ?q = "rhe n d"
  assume ne: "?q \<noteq> m"
  have e: "2 * \<bar>?q * d - n\<bar> \<le> d" by (rule rhe_error [OF assms(1)])
  have dist: "\<bar>?q - m\<bar> * d = \<bar>?q * d - m * d\<bar>" using assms(1) by (metis abs_mult abs_of_pos left_diff_distrib)
  moreover have "\<bar>?q * d - m * d\<bar> \<le> d" by (rule near_both [OF e assms(2)])
  ultimately have "\<bar>?q - m\<bar> * d \<le> 1 * d" by simp
  then have "\<bar>?q - m\<bar> \<le> 1" using assms(1) by (rule mult_right_le_imp_le)
  with ne have one: "?q = m + 1 \<or> m = ?q + 1" by linarith
  then have "\<bar>?q * d - m * d\<bar> = d" using assms(1) by (auto simp: distrib_right)
  then have "2 * \<bar>?q * d - n\<bar> = d" "2 * \<bar>m * d - n\<bar> = d" using near_tie [OF _ e assms(2)] by blast+
  then have "even ?q" "even m" using rhe_tie [OF assms(1)] assms(3) by blast+
  with one show False by auto
qed

lemma rhe_exact: "0 < d \<Longrightarrow> rhe (m * d) d = m"
  by (simp add: rhe_def)

lemma rhe_scale: "0 < d \<Longrightarrow> 0 < c \<Longrightarrow> rhe (n * c) (d * c) = rhe n d"
  by (simp add: rhe_def Let_def mult.commute)

lemma excess_bounds: "n < 2 ^ (53 + excess n) \<and> (excess n \<noteq> 0 \<longrightarrow> 2 ^ (52 + excess n) \<le> n)"
proof (induction n rule: excess.induct)
  case (1 n)
  show ?case
  proof (cases "n < 2 ^ 53")
    case True
    then show ?thesis by (simp add: excess.simps)
  next
    case False
    have n: "2 * (n div 2) \<le> n" "n < 2 * (n div 2) + 2" by simp_all
    have lower: "2 ^ (52 + excess n) \<le> n"
    proof (cases "excess (n div 2) = 0")
      case True
      with False show ?thesis by (simp add: excess.simps [of n])
    next
      case nz: False
      then have "2 ^ (52 + excess (n div 2)) \<le> n div 2" using 1 [OF False] by blast
      moreover have "(2::nat) ^ (52 + excess n) = 2 * 2 ^ (52 + excess (n div 2))" using False by (simp add: excess.simps [of n] power_add)
      ultimately show ?thesis using n(1) by linarith
    qed
    have "n div 2 + 1 \<le> 2 ^ (53 + excess (n div 2))" using 1 [OF False] by simp
    moreover have "(2::nat) ^ (53 + excess n) = 2 * 2 ^ (53 + excess (n div 2))" using False by (simp add: excess.simps [of n] power_add)
    ultimately have "n < 2 ^ (53 + excess n)" using n(2) by linarith
    with lower show ?thesis by blast
  qed
qed

lemma excess_small [simp]: "n < 2 ^ 53 \<Longrightarrow> excess n = 0"
  by (simp add: excess.simps)

lemma excess_le: "n < 2 ^ (53 + k) \<Longrightarrow> excess n \<le> k"
proof (rule ccontr)
  assume n: "n < 2 ^ (53 + k)" and "\<not> excess n \<le> k"
  then have "excess n \<noteq> 0" "(2::nat) ^ (53 + k) \<le> 2 ^ (52 + excess n)" by simp_all
  with excess_bounds [of n] n show False by linarith
qed

lemma excess_scale: "2 ^ 53 \<le> n \<Longrightarrow> excess (n * 2 ^ k) = excess n + k"
proof (induction k)
  case (Suc k)
  have "2 ^ 53 * 1 \<le> n * 2 ^ Suc k" using Suc.prems by (intro mult_le_mono) simp_all
  then have "excess (n * 2 ^ Suc k) = Suc (excess (n * 2 ^ Suc k div 2))" by (simp add: excess.simps [of "n * 2 ^ Suc k"] del: power_Suc)
  then show ?case using Suc by simp
qed simp

text \<open>The doubles: 53 significant bits.\<close>

lemma excess_int: "\<bar>n\<bar> < 2 ^ (53 + excess (nat \<bar>n\<bar>))"
    "excess (nat \<bar>n\<bar>) \<noteq> 0 \<Longrightarrow> 2 ^ (52 + excess (nat \<bar>n\<bar>)) \<le> \<bar>n\<bar>"
  using excess_bounds [of "nat \<bar>n\<bar>"] by (simp_all add: nat_less_iff le_nat_iff)

lemma is_dbl_mult:
  assumes "\<bar>m\<bar> \<le> 2 ^ 53"
  shows "is_dbl (m * 2 ^ k)"
proof -
  let ?n = "m * 2 ^ k" and ?e = "excess (nat \<bar>m * 2 ^ k\<bar>)"
  have size: "\<bar>?n\<bar> \<le> 2 ^ (53 + k)" using assms by (simp add: abs_mult power_add)
  have "2 ^ ?e dvd ?n"
  proof (cases "?e \<le> k")
    case True
    then show ?thesis by (simp add: le_imp_power_dvd)
  next
    case False
    then have big: "2 ^ (52 + ?e) \<le> \<bar>?n\<bar>" by (intro excess_int) simp
    then have "(2::int) ^ (52 + ?e) \<le> 2 ^ (53 + k)" using size by linarith
    then have e: "?e = Suc k" using False by simp
    then have "2 ^ 53 * 2 ^ k \<le> \<bar>m\<bar> * 2 ^ k" using big by (simp add: abs_mult power_add)
    then have "\<bar>m\<bar> = 2 ^ 53" using assms by simp
    then have "2 dvd \<bar>m\<bar>" by simp
    then have "2 dvd m" by simp
    then show ?thesis unfolding e by (simp add: mult_dvd_mono)
  qed
  then obtain q where "?n = q * 2 ^ ?e" by (metis dvd_def mult.commute)
  then show ?thesis unfolding is_dbl_def fl_def Let_def by (metis rhe_exact zero_less_numeral zero_less_power)
qed

lemma fl_small: "\<bar>n\<bar> \<le> 2 ^ 53 \<Longrightarrow> fl n = n"
  using is_dbl_mult [of n 0] by (simp add: is_dbl_def)

lemma fl_scale: "fl (n * 2 ^ k) = fl n * 2 ^ k"
proof (cases "\<bar>n\<bar> \<le> 2 ^ 53")
  case True
  then show ?thesis using is_dbl_mult [of n k] by (simp add: fl_small is_dbl_def)
next
  case False
  then have "2 ^ 53 \<le> nat \<bar>n\<bar>" by (simp add: le_nat_iff)
  then have "excess (nat \<bar>n * 2 ^ k\<bar>) = excess (nat \<bar>n\<bar>) + k"
    using excess_scale [of "nat \<bar>n\<bar>" k] by (simp add: abs_mult nat_mult_distrib nat_power_eq)
  then show ?thesis by (simp add: fl_def Let_def power_add rhe_scale)
qed

lemma fl_error: "2 * \<bar>fl n - n\<bar> \<le> 2 ^ excess (nat \<bar>n\<bar>)"
  unfolding fl_def Let_def by (rule rhe_error) simp

lemma is_dbl_fl: "is_dbl (fl n)"
proof -
  let ?e = "excess (nat \<bar>n\<bar>)"
  let ?q = "rhe n (2 ^ ?e)"
  have "2 * \<bar>?q * 2 ^ ?e - n\<bar> \<le> 2 ^ ?e" by (rule rhe_error) simp
  then have "\<bar>?q * 2 ^ ?e\<bar> < 2 ^ (53 + ?e) + 2 ^ ?e" using excess_int(1) [of n] by (rule near_bound)
  then have "\<bar>?q\<bar> * 2 ^ ?e < (2 ^ 53 + 1) * 2 ^ ?e" by (simp add: abs_mult power_add distrib_right)
  then have "\<bar>?q\<bar> \<le> 2 ^ 53" by simp
  then show ?thesis unfolding fl_def Let_def by (rule is_dbl_mult)
qed

lemma int2dbl_fl: "int2dbl n = fl n * DBL_UNIT"
  unfolding int2dbl_def DBL_UNIT_def by (rule fl_scale)

lemma fl_unit: "fl (n * DBL_UNIT) = fl n * DBL_UNIT"
  unfolding DBL_UNIT_def by (rule fl_scale)

lemma rhe_minus: "0 < d \<Longrightarrow> rhe (- n) d = - rhe n d"
proof (rule rhe_unique)
  assume d: "0 < d"
  have "\<bar>- rhe n d * d - - n\<bar> = \<bar>rhe n d * d - n\<bar>" by (simp add: abs_minus_commute)
  then show "2 * \<bar>- rhe n d * d - - n\<bar> \<le> d" "2 * \<bar>- rhe n d * d - - n\<bar> = d \<Longrightarrow> even (- rhe n d)"
    using rhe_error [OF d, of n] rhe_tie [OF d, of n] by simp_all
qed

lemma fl_minus: "fl (- n) = - fl n"
  by (simp add: fl_def Let_def rhe_minus)

lemma is_dbl_minus [simp]: "is_dbl (- n) = is_dbl n"
  by (simp add: is_dbl_def fl_minus)

lemma big_dbl_integral:
  assumes "is_dbl x" "2 ^ 53 * DBL_UNIT \<le> \<bar>x\<bar>"
  shows "DBL_UNIT dvd x"
proof -
  let ?e = "excess (nat \<bar>x\<bar>)"
  have "(2::int) ^ (53 + 1074) \<le> \<bar>x\<bar>" using assms(2) unfolding DBL_UNIT_def power_add by simp
  then have "(2::int) ^ (53 + 1074) < 2 ^ (53 + ?e)" using excess_int(1) [of x] by (rule le_less_trans)
  then have "1074 < ?e" by (subst (asm) power_strict_increasing_iff) simp_all
  then have "(2::int) ^ 1074 dvd 2 ^ ?e" by (intro le_imp_power_dvd) simp
  moreover have "2 ^ ?e dvd x" using assms(1) unfolding is_dbl_def fl_def Let_def by (metis dvd_triv_right)
  ultimately show ?thesis unfolding DBL_UNIT_def by (rule dvd_trans)
qed

text \<open>The amount by which \<^verbatim>\<open>rint\<close> corrects the integral part.\<close>

abbreviation carry :: "int \<Rightarrow> bool" where
  "carry y \<equiv> y mod DBL_UNIT > DBL_UNIT div 2 \<or> y mod DBL_UNIT = DBL_UNIT div 2 \<and> odd (y div DBL_UNIT)"

lemma rhe_carry: "rhe y DBL_UNIT = y div DBL_UNIT + of_bool (carry y)"
proof -
  have "2 * (DBL_UNIT div 2) = DBL_UNIT" by simp
  then show ?thesis by (auto simp: rhe_def Let_def)
qed

lemma div_unit_less: "y < c * DBL_UNIT \<Longrightarrow> y div DBL_UNIT < c"
proof (rule ccontr)
  assume y: "y < c * DBL_UNIT" and "\<not> y div DBL_UNIT < c"
  then have "c * DBL_UNIT \<le> y div DBL_UNIT * DBL_UNIT" by (intro mult_right_mono) simp_all
  also have "\<dots> \<le> y" by (simp add: minus_mod_eq_div_mult [symmetric])
  finally show False using y by simp
qed

lemma half_integral: "is_dbl y \<Longrightarrow> 0 \<le> y \<Longrightarrow> y mod DBL_UNIT \<noteq> 0 \<Longrightarrow> y div DBL_UNIT < 2 ^ 53"
  using big_dbl_integral [of y] by (intro div_unit_less) (auto simp: dvd_eq_mod_eq_0 not_less [symmetric])

lemma fl_rounded:
  assumes "is_dbl y" "0 \<le> y"
  shows "fl (rhe y DBL_UNIT * DBL_UNIT) = rhe y DBL_UNIT * DBL_UNIT"
proof (cases "y mod DBL_UNIT = 0")
  case True
  then have "rhe y DBL_UNIT * DBL_UNIT = y" by (auto simp: rhe_def Let_def)
  with assms show ?thesis by (simp add: is_dbl_def)
next
  case False
  then have "y div DBL_UNIT < 2 ^ 53" using assms by (intro half_integral)
  moreover have "0 \<le> y div DBL_UNIT" using assms(2) by (simp add: pos_imp_zdiv_nonneg_iff)
  ultimately have "\<bar>rhe y DBL_UNIT\<bar> \<le> 2 ^ 53" by (simp add: rhe_carry)
  then show ?thesis by (simp add: fl_unit fl_small)
qed

lemma smod_2: "(n :: int) smod 2 \<noteq> 0 \<longleftrightarrow> odd n"
  by (cases "n = 0") (simp_all add: signed_modulo_int_def sgn_eq_0_iff even_iff_mod_2_eq_zero [symmetric])

lemma dbl2int_pos: "0 \<le> y \<Longrightarrow> dbl2int y = y div DBL_UNIT"
  by (cases "y = 0") (simp_all add: dbl2int_def)

lemma dbl2int_minus: "dbl2int (- y) = - dbl2int y"
  by (simp add: dbl2int_def sgn_minus)

lemma MAX_EXACT_INTEGER_eq: "MAX_EXACT_INTEGER = 2 ^ 53 - 1"
  by (simp add: MAX_EXACT_INTEGER_def DBL_MANT_DIG_def)

lemma int2dbl_exact: "\<bar>n\<bar> \<le> 2 ^ 53 \<Longrightarrow> int2dbl n = n * DBL_UNIT"
  by (simp add: int2dbl_fl fl_small)

lemma dbl2int_mult: "dbl2int (n * DBL_UNIT) = n"
proof (cases "0 \<le> n")
  case False
  then obtain k where "n = - k" "0 \<le> k" by (metis minus_minus neg_0_le_iff_le linear)
  then show ?thesis by (simp add: dbl2int_minus dbl2int_pos)
qed (simp add: dbl2int_pos)

lemma modf_pos: "0 \<le> y \<Longrightarrow> modf y = (y mod DBL_UNIT, y div DBL_UNIT * DBL_UNIT)"
  by (simp add: modf_def dbl2int_pos Let_def minus_div_mult_eq_mod)

lemma modf_neg: "0 \<le> y \<Longrightarrow> modf (- y) = (- (y mod DBL_UNIT), - (y div DBL_UNIT) * DBL_UNIT)"
  by (simp add: modf_def dbl2int_pos dbl2int_minus Let_def minus_div_mult_eq_mod [symmetric])

lemma carry_cond:
  assumes "is_dbl y" "0 \<le> y"
  shows "(y mod DBL_UNIT > DBL_UNIT div 2 \<or> y mod DBL_UNIT = DBL_UNIT div 2 \<and>
      y div DBL_UNIT * DBL_UNIT \<le> MAX_EXACT_INTEGER * DBL_UNIT \<and> odd (y div DBL_UNIT)) \<longleftrightarrow> carry y"
proof -
  have "2 * (DBL_UNIT div 2) = DBL_UNIT" by simp
  then have "DBL_UNIT div 2 \<noteq> 0" using DBL_UNIT_pos(1) by linarith
  then have "y mod DBL_UNIT = DBL_UNIT div 2 \<Longrightarrow> y div DBL_UNIT \<le> MAX_EXACT_INTEGER"
    using half_integral [OF assms] by (simp add: MAX_EXACT_INTEGER_eq)
  then show ?thesis by auto
qed

lemma rint_pos:
  assumes "is_dbl y" "0 < y"
  shows "rint y = rhe y DBL_UNIT * DBL_UNIT"
proof -
  have "rint y = fl (y div DBL_UNIT * DBL_UNIT + of_bool (carry y) * DBL_UNIT)"
    unfolding carry_cond [OF assms(1) less_imp_le [OF assms(2)], symmetric]
    using assms(2) by (simp add: rint_def modf_pos int2dbl_exact dbl2int_mult smod_2 MAX_EXACT_INTEGER_eq)
  also have "\<dots> = fl (rhe y DBL_UNIT * DBL_UNIT)" by (simp add: rhe_carry distrib_right)
  finally show ?thesis using assms by (simp add: fl_rounded)
qed

lemma rint_neg:
  assumes "is_dbl y" "0 \<le> y"
  shows "rint (- y) = - (rhe y DBL_UNIT * DBL_UNIT)"
proof -
  have "rint (- y) = fl (- (y div DBL_UNIT * DBL_UNIT + of_bool (carry y) * DBL_UNIT))"
    unfolding carry_cond [OF assms, symmetric]
    using assms(2) by (simp add: rint_def modf_neg int2dbl_exact dbl2int_mult dbl2int_minus smod_2 MAX_EXACT_INTEGER_eq)
  also have "\<dots> = - fl (rhe y DBL_UNIT * DBL_UNIT)" unfolding fl_minus rhe_carry distrib_right ..
  finally show ?thesis using assms by (simp add: fl_rounded)
qed

lemma c_int64_uint: "c_int64 (uint (v :: ulonglong)) = (if uint v < 2 ^ 63 then uint v else uint v - 2 ^ 64)"
proof -
  have c: "c_int64 (uint v) = (uint v + 2 ^ 63) mod 2 ^ 64 - 2 ^ 63"
    by (simp add: c_int64_def signed_take_bit_eq_take_bit_shift take_bit_eq_mod)
  show ?thesis
  proof (cases "uint v < 2 ^ 63")
    case False
    then have "(uint v + 2 ^ 63) mod 2 ^ 64 = uint v + 2 ^ 63 - 2 ^ 64"
      using uint_lt2p [of v] by (simp add: mod_pos_geq mod_pos_pos_trivial)
    with False show ?thesis unfolding c by simp
  qed (simp add: c mod_pos_pos_trivial)
qed

text \<open>The conversion computed on integers: the unit scales out.\<close>

lemma my_ulonglong2double_eq: "my_ulonglong2double v =
    (if uint v < 2 ^ 63 then fl (uint v) else fl (2 ^ 64 + fl (uint v - 2 ^ 64))) * DBL_UNIT"
proof -
  have big: "fl (2 ^ 64) = 2 ^ 64" using is_dbl_mult [of 1 64] by (simp add: is_dbl_def)
  have sum: "fl (a * DBL_UNIT + b * DBL_UNIT) = fl (a + b) * DBL_UNIT" for a b
    by (simp only: distrib_right [symmetric] fl_unit)
  have "my_ulonglong2double v = (if uint v < 2 ^ 63 then fl (uint v) * DBL_UNIT
      else fl (fl (2 ^ 64) * DBL_UNIT + fl (uint v - 2 ^ 64) * DBL_UNIT))"
    using uint_lt2p [of v] by (simp add: my_ulonglong2double_def Let_def c_int64_uint int2dbl_fl)
  then show ?thesis by (simp only: big sum split: if_split) simp
qed

lemma fl_near: "\<bar>n\<bar> < 2 ^ (53 + k) \<Longrightarrow> 2 * \<bar>fl n - n\<bar> \<le> 2 ^ k"
proof -
  assume "\<bar>n\<bar> < 2 ^ (53 + k)"
  then have "excess (nat \<bar>n\<bar>) \<le> k" by (intro excess_le) (simp add: nat_less_iff)
  then have "(2::int) ^ excess (nat \<bar>n\<bar>) \<le> 2 ^ k" by (intro power_increasing) simp_all
  with fl_error [of n] show ?thesis by linarith
qed

lemma fl_neg: "n < 0 \<Longrightarrow> fl n < 0"
proof (cases "excess (nat \<bar>n\<bar>) = 0")
  case True
  then show "n < 0 \<Longrightarrow> fl n < 0" by (simp add: fl_def rhe_def)
next
  case False
  then have "2 ^ (52 + excess (nat \<bar>n\<bar>)) \<le> \<bar>n\<bar>" by (rule excess_int)
  moreover have "(2::int) ^ excess (nat \<bar>n\<bar>) \<le> 2 ^ (52 + excess (nat \<bar>n\<bar>))" by (rule power_increasing) simp_all
  ultimately show "n < 0 \<Longrightarrow> fl n < 0" using near_neg [OF fl_error] by blast
qed

lemma dbl_multiple:
  assumes "is_dbl n" "2 ^ 63 \<le> n"
  shows "2 ^ 11 dvd n"
proof -
  let ?e = "excess (nat \<bar>n\<bar>)"
  have "(2::int) ^ 63 < 2 ^ (53 + ?e)" using excess_int(1) [of n] assms(2) by linarith
  then have "63 < 53 + ?e" by (rule power_less_imp_less_exp [rotated]) simp
  then have "(2::int) ^ 11 dvd 2 ^ ?e" by (intro le_imp_power_dvd) simp
  moreover have "2 ^ ?e dvd n" using assms(1) unfolding is_dbl_def fl_def Let_def by (metis dvd_triv_right)
  ultimately show ?thesis by (rule dvd_trans)
qed

lemma dbl_shifted:
  assumes "is_dbl n" "2 ^ 63 \<le> n" "n \<le> 2 ^ 64" "c = 2 ^ 63 \<or> c = 2 ^ 64"
  shows "fl (n - c) = n - c"
proof -
  obtain q where q: "n = q * 2 ^ 11" using dbl_multiple [OF assms(1,2)] by (metis dvd_def mult.commute)
  define r where "r = q - (if c = 2 ^ 63 then 2 ^ 52 else 2 ^ 53)"
  have "n - c = r * 2 ^ 11" "\<bar>r\<bar> \<le> 2 ^ 53" using q assms(2-) by (auto simp: r_def)
  with is_dbl_mult [of r 11] show ?thesis by (simp add: is_dbl_def)
qed

lemma double2ulonglong_integral:
  assumes "is_dbl n" "2 ^ 63 \<le> n" "n \<le> 2 ^ 64"
  shows "my_double2ulonglong (n * DBL_UNIT) = word_of_int n"
proof -
  have "fl (2 ^ 63) = 2 ^ 63" using is_dbl_mult [of 1 63] by (simp add: is_dbl_def)
  then have "fl (n * DBL_UNIT - int2dbl 0x8000000000000000) = (n - 2 ^ 63) * DBL_UNIT"
    using dbl_shifted [OF assms, of "2 ^ 63"] by (simp add: int2dbl_fl left_diff_distrib [symmetric] fl_unit)
  then show ?thesis using assms(2) by (simp add: my_double2ulonglong_def dbl2int_mult)
qed

lemma fl_top: "2 ^ 64 - 2 ^ 10 \<le> n \<Longrightarrow> n \<le> 2 ^ 64 \<Longrightarrow> fl n = 2 ^ 64"
proof (cases "n = 2 ^ 64")
  case True
  then show "fl n = 2 ^ 64" using is_dbl_mult [of 1 64] by (simp add: is_dbl_def)
next
  case False
  assume n: "2 ^ 64 - 2 ^ 10 \<le> n" "n \<le> 2 ^ 64"
  have "excess (nat \<bar>n\<bar>) \<le> 11" using n False by (intro excess_le) (simp add: nat_less_iff)
  moreover have "2 ^ 63 \<le> n" using n(1) by simp
  then have "(2::int) ^ 63 < 2 ^ (53 + excess (nat \<bar>n\<bar>))" using excess_int(1) [of n] by linarith
  then have "63 < 53 + excess (nat \<bar>n\<bar>)" by (rule power_less_imp_less_exp [rotated]) simp
  ultimately have "excess (nat \<bar>n\<bar>) = 11" by linarith
  moreover have "rhe n (2 ^ 11) = 2 ^ 53" using n by (intro rhe_unique) auto
  ultimately show "fl n = 2 ^ 64" by (simp add: fl_def)
qed

section \<open>Properties\<close>

text \<open>C19: \<^verbatim>\<open>rint\<close> rounds every finite double to the nearest integer, and a number half way between two integers to
  the even one; the result is a double again, so no step of the computation is inexact.\<close>
theorem rint_round_half_even:
  assumes "is_dbl x"
  shows "rint x = rhe x DBL_UNIT * DBL_UNIT \<and> is_dbl (rint x) \<and>
    2 * \<bar>rint x - x\<bar> \<le> DBL_UNIT \<and> (2 * \<bar>rint x - x\<bar> = DBL_UNIT \<longrightarrow> even (dbl2int (rint x)))"
proof -
  have "rint x = rhe x DBL_UNIT * DBL_UNIT \<and> is_dbl (rint x)"
  proof (cases "0 < x")
    case True
    with assms show ?thesis using fl_rounded [of x] by (simp add: rint_pos is_dbl_def)
  next
    case False
    with assms show ?thesis using fl_rounded [of "- x"] rint_neg [of "- x"] by (simp add: rhe_minus is_dbl_def fl_minus)
  qed
  then show ?thesis using rhe_error [of DBL_UNIT x] rhe_tie [of DBL_UNIT x] by (auto simp: dbl2int_mult)
qed

lemma DBL_UNIT_half: obtains h where "DBL_UNIT = 2 * h" "0 < h" "is_dbl (5 * h)"
proof
  show "DBL_UNIT = 2 * 2 ^ 1073" unfolding DBL_UNIT_def by (subst power_Suc [symmetric]) simp
  show "is_dbl (5 * 2 ^ 1073)" by (rule is_dbl_mult) simp
qed simp

theorem rint_round_half_even_witness:
  "rint (5 * (DBL_UNIT div 2)) = 2 * DBL_UNIT"
proof -
  obtain h where h: "DBL_UNIT = 2 * h" "0 < h" "is_dbl (5 * h)" by (rule DBL_UNIT_half)
  then have "rint (5 * h) = rhe (5 * h) (2 * h) * DBL_UNIT" using rint_round_half_even [of "5 * h"] by simp
  also have "rhe (5 * h) (2 * h) = rhe 5 2" using h(2) by (rule rhe_scale [rotated]) simp
  finally have "rint (5 * h) = 2 * DBL_UNIT" by (simp add: rhe_def)
  moreover have "DBL_UNIT div 2 = h" using h(1) by linarith
  ultimately show ?thesis by simp
qed

text \<open>\<^verbatim>\<open>my_double2ulonglong\<close> drops the fraction of every non-negative double below \<open>2 ^ 64\<close>, the upper half of the
  range included, where the detour by \<open>2 ^ 63\<close> is exact.\<close>
lemma double2ulonglong_truncates:
  assumes "is_dbl d" "0 \<le> d" "d < 2 ^ 64 * DBL_UNIT"
  shows "uint (my_double2ulonglong d) = d div DBL_UNIT"
proof (cases "d < 2 ^ 63 * DBL_UNIT")
  case True
  have "fl (2 ^ 63) = 2 ^ 63" using is_dbl_mult [of 1 63] by (simp add: is_dbl_def)
  then have "fl (d - int2dbl 0x8000000000000000) < 0" using True by (intro fl_neg) (simp add: int2dbl_fl)
  moreover have "0 \<le> d div DBL_UNIT" using assms(2) by (simp add: pos_imp_zdiv_nonneg_iff)
  moreover have "d div DBL_UNIT < 2 ^ 63" using True by (rule div_unit_less)
  ultimately show ?thesis using assms(2) by (simp add: my_double2ulonglong_def dbl2int_pos uint_word_of_int)
next
  case False
  have "2 ^ 53 * DBL_UNIT \<le> 2 ^ 63 * DBL_UNIT" by (rule mult_right_mono) simp_all
  then have "2 ^ 53 * DBL_UNIT \<le> \<bar>d\<bar>" using False by linarith
  then obtain n where n: "d = n * DBL_UNIT" using big_dbl_integral [OF assms(1)] by (metis dvd_def mult.commute)
  then have "is_dbl n" "2 ^ 63 \<le> n" "n < 2 ^ 64" using assms False by (simp_all add: is_dbl_def fl_unit)
  then show ?thesis by (simp add: n double2ulonglong_integral uint_word_of_int)
qed

lemma double2ulonglong_truncates_instance:
  "uint (my_double2ulonglong (2 ^ 63 * DBL_UNIT)) = 2 ^ 63"
proof -
  have "is_dbl (2 ^ 63 * DBL_UNIT)" using is_dbl_mult [of 1 63] by (simp add: is_dbl_def fl_unit)
  then show ?thesis using double2ulonglong_truncates [of "2 ^ 63 * DBL_UNIT"] by simp
qed

text \<open>Converting an integer to double and back gives the integer again when it fits into 53 significant bits; the largest
  integers, from \<open>2 ^ 64 - 2 ^ 10\<close> on, become the double \<open>2 ^ 64\<close> and come back as 0.\<close>
lemma ulonglong_double_roundtrip:
  "(is_dbl (uint v) \<longrightarrow> my_double2ulonglong (my_ulonglong2double v) = v) \<and>
   (uint v \<ge> 2 ^ 64 - 2 ^ 10 \<longrightarrow> my_ulonglong2double v = 2 ^ 64 * DBL_UNIT \<and>
      my_double2ulonglong (my_ulonglong2double v) = 0)"
proof (intro conjI impI)
  have v: "0 \<le> uint v" "uint v < 2 ^ 64" using uint_lt2p [of v] by simp_all
  {
    assume dbl: "is_dbl (uint v)"
    show "my_double2ulonglong (my_ulonglong2double v) = v"
    proof (cases "uint v < 2 ^ 63")
      case True
      then have "uint v * DBL_UNIT < 2 ^ 63 * DBL_UNIT" by simp
      moreover have "fl (2 ^ 63) = 2 ^ 63" using is_dbl_mult [of 1 63] by (simp add: is_dbl_def)
      ultimately have "fl (uint v * DBL_UNIT - int2dbl 0x8000000000000000) < 0" by (intro fl_neg) (simp add: int2dbl_fl)
      then show ?thesis using True dbl by (simp add: my_ulonglong2double_eq my_double2ulonglong_def is_dbl_def dbl2int_mult)
    next
      case False
      then have "fl (uint v - 2 ^ 64) = uint v - 2 ^ 64" using dbl v by (intro dbl_shifted) simp_all
      then have "my_ulonglong2double v = uint v * DBL_UNIT" using False dbl by (simp add: my_ulonglong2double_eq is_dbl_def)
      with False dbl v show ?thesis by (simp add: double2ulonglong_integral)
    qed
  }
  assume top: "2 ^ 64 - 2 ^ 10 \<le> uint v"
  then have "fl (uint v - 2 ^ 64) = uint v - 2 ^ 64" using v by (intro fl_small) simp
  then show max: "my_ulonglong2double v = 2 ^ 64 * DBL_UNIT"
    using top v fl_top [of "uint v"] by (simp add: my_ulonglong2double_eq)
  have "is_dbl (2 ^ 64)" using is_dbl_mult [of 1 64] by simp
  then show "my_double2ulonglong (my_ulonglong2double v) = 0"
    unfolding max using double2ulonglong_integral [of "2 ^ 64"] by simp
qed

lemma ulonglong_double_roundtrip_instance:
  "my_double2ulonglong (my_ulonglong2double 0x0010000000000001) = 0x0010000000000001 \<and>
   my_double2ulonglong (my_ulonglong2double 0xFFFFFFFFFFFFFFFF) = 0"
proof
  have "is_dbl (uint (0x0010000000000001 :: ulonglong))" using is_dbl_mult [of "0x0010000000000001" 0] by simp
  then show "my_double2ulonglong (my_ulonglong2double 0x0010000000000001) = 0x0010000000000001"
    using ulonglong_double_roundtrip [of "0x0010000000000001"] by blast
  have "2 ^ 64 - 2 ^ 10 \<le> uint (0xFFFFFFFFFFFFFFFF :: ulonglong)" by simp
  then show "my_double2ulonglong (my_ulonglong2double 0xFFFFFFFFFFFFFFFF) = 0"
    using ulonglong_double_roundtrip [of "0xFFFFFFFFFFFFFFFF"] by blast
qed

text \<open>C20: \<^verbatim>\<open>my_ulonglong2double\<close> is correctly rounded below \<open>2 ^ 63\<close>; above it the value is rounded twice, stays within
  \<open>2 ^ 10 + 2 ^ 9\<close> of the integer, and is not always the nearest double: \<open>2 ^ 63 + 2 ^ 10 + 1\<close> is converted to \<open>2 ^ 63\<close>
  while a direct conversion gives \<open>2 ^ 63 + 2 ^ 11\<close>.\<close>
theorem ulonglong2double_accuracy:
  "(uint v < 2 ^ 63 \<longrightarrow> my_ulonglong2double v = int2dbl (uint v)) \<and>
   \<bar>my_ulonglong2double v - uint v * DBL_UNIT\<bar> \<le> (2 ^ 10 + 2 ^ 9) * DBL_UNIT \<and>
   my_ulonglong2double 0x8000000000000401 = 2 ^ 63 * DBL_UNIT \<and>
   int2dbl (uint (0x8000000000000401 :: ulonglong)) = (2 ^ 63 + 2 ^ 11) * DBL_UNIT"
proof (intro conjI impI)
  let ?r = "if uint v < 2 ^ 63 then fl (uint v) else fl (2 ^ 64 + fl (uint v - 2 ^ 64))"
  have v: "0 \<le> uint v" "uint v < 2 ^ 64" using uint_lt2p [of v] by simp_all
  have "\<bar>?r - uint v\<bar> \<le> 2 ^ 10 + 2 ^ 9"
  proof (cases "uint v < 2 ^ 63")
    case True
    then show ?thesis using fl_near [of "uint v" 10] v by simp
  next
    case False
    let ?n = "uint v - 2 ^ 64"
    have n: "2 * \<bar>fl ?n - ?n\<bar> \<le> 2 ^ 10"
    proof (cases "uint v = 2 ^ 63")
      case True
      then show ?thesis using is_dbl_mult [of "- 1" 63] by (simp add: is_dbl_def)
    qed (use False v in \<open>intro fl_near, simp\<close>)
    moreover have "fl ?n < 0" using v by (intro fl_neg) simp
    ultimately have "2 * \<bar>fl (2 ^ 64 + fl ?n) - (2 ^ 64 + fl ?n)\<bar> \<le> 2 ^ 11" using False v by (intro fl_near) simp
    with n False show ?thesis by simp
  qed
  then have "\<bar>?r - uint v\<bar> * DBL_UNIT \<le> (2 ^ 10 + 2 ^ 9) * DBL_UNIT" by (intro mult_right_mono) simp_all
  then show "\<bar>my_ulonglong2double v - uint v * DBL_UNIT\<bar> \<le> (2 ^ 10 + 2 ^ 9) * DBL_UNIT"
    unfolding my_ulonglong2double_eq left_diff_distrib [symmetric] abs_mult by simp
  show "uint v < 2 ^ 63 \<Longrightarrow> my_ulonglong2double v = int2dbl (uint v)"
    by (simp add: my_ulonglong2double_eq int2dbl_fl)
qed (simp_all add: my_ulonglong2double_eq int2dbl_fl fl_def rhe_def excess.simps)

theorem ulonglong2double_accuracy_witness:
  "my_ulonglong2double 7 = int2dbl 7"
  using ulonglong2double_accuracy [of 7] by simp

end
