(* ===== verification/My_Math.thy ===== *)
theory My_Math
  imports My_Double
begin

text \<open>
  The substitutes of \<^verbatim>\<open>my_global.h\<close> for platforms without them: the classification \<^verbatim>\<open>finite\<close>,
  \<^verbatim>\<open>isnan\<close> and \<^verbatim>\<open>my_isinf\<close>, and the limits \<^verbatim>\<open>DBL_MIN\<close> and
  \<^verbatim>\<open>DBL_MAX\<close>.  They depend on infinities, on numbers that are not a number and on the sign of zero, which \<open>My_Double\<close> leaves
  out.  A value here is a sign with a magnitude in units of \<open>2\<^sup>-\<^sup>1\<^sup>0\<^sup>7\<^sup>4\<close>, an infinity, or not a number;
  quotients are rounded to nearest even with gradual underflow, or with results below the normal range replaced by 0 where the processor is set
  to do so.
\<close>

section \<open>Floating point values\<close>

datatype ieee = Num bool nat | Inf bool | NaN

definition ONE :: ieee where
  "ONE = Num False (2 ^ 1074)"

definition ZERO :: ieee where
  "ZERO = Num False 0"

text \<open>The magnitudes of finite doubles: 53 significant bits, below \<open>2\<^sup>1\<^sup>0\<^sup>2\<^sup>4\<close>.\<close>

definition is_magnitude :: "nat \<Rightarrow> bool" where
  "is_magnitude m \<longleftrightarrow> is_dbl (int m) \<and> m < 2 ^ 2098"

fun is_ieee :: "ieee \<Rightarrow> bool" where
  "is_ieee (Num s m) = is_magnitude m"
| "is_ieee (Inf s) = True"
| "is_ieee NaN = True"

text \<open>A quotient of magnitudes rounded to 53 bits; \<open>ftz\<close> flushes what is below \<open>2\<^sup>-\<^sup>1\<^sup>0\<^sup>2\<^sup>2\<close> to 0.\<close>

definition round_quotient :: "nat \<Rightarrow> nat \<Rightarrow> nat" where
  "round_quotient p q = (let k = excess (p div q) in nat (rhe (int p) (int (q * 2 ^ k))) * 2 ^ k)"

definition finish :: "bool \<Rightarrow> bool \<Rightarrow> nat \<Rightarrow> ieee" where
  "finish ftz s m = (if m \<ge> 2 ^ 2098 then Inf s else if ftz \<and> m < 2 ^ 52 then Num s 0 else Num s m)"

fun ieee_div :: "bool \<Rightarrow> ieee \<Rightarrow> ieee \<Rightarrow> ieee" where
  "ieee_div ftz (Num s a) (Num t b) =
     (if b = 0 then (if a = 0 then NaN else Inf (s \<noteq> t)) else finish ftz (s \<noteq> t) (round_quotient (a * 2 ^ 1074) b))"
| "ieee_div ftz (Num s a) (Inf t) = Num (s \<noteq> t) 0"
| "ieee_div ftz (Inf s) (Num t b) = Inf (s \<noteq> t)"
| "ieee_div ftz (Inf s) (Inf t) = NaN"
| "ieee_div ftz NaN y = NaN"
| "ieee_div ftz x NaN = NaN"

fun fabs :: "ieee \<Rightarrow> ieee" where
  "fabs (Num s m) = Num False m"
| "fabs (Inf s) = Inf False"
| "fabs NaN = NaN"

definition signed :: "bool \<Rightarrow> nat \<Rightarrow> int" where
  "signed s m = (if s then - int m else int m)"

fun ieee_less :: "ieee \<Rightarrow> ieee \<Rightarrow> bool" where
  "ieee_less NaN y = False"
| "ieee_less x NaN = False"
| "ieee_less (Num s a) (Num t b) = (signed s a < signed t b)"
| "ieee_less (Num s a) (Inf t) = (\<not> t)"
| "ieee_less (Inf s) (Num t b) = s"
| "ieee_less (Inf s) (Inf t) = (s \<and> \<not> t)"

fun ieee_eq :: "ieee \<Rightarrow> ieee \<Rightarrow> bool" where
  "ieee_eq (Num s a) (Num t b) = (signed s a = signed t b)"
| "ieee_eq (Inf s) (Inf t) = (s = t)"
| "ieee_eq _ _ = False"

section \<open>The macros\<close>

definition finite_macro :: "bool \<Rightarrow> ieee \<Rightarrow> bool" where
  "finite_macro ftz x = ieee_less ZERO (ieee_div ftz ONE (fabs x))"

definition isnan :: "ieee \<Rightarrow> bool" where
  "isnan x = (\<not> ieee_eq x x)"

text \<open>With and without \<^verbatim>\<open>HAVE_ISINF\<close>; \<^verbatim>\<open>isinf\<close> of the C library is exact on doubles.\<close>

definition isinf_c :: "ieee \<Rightarrow> int" where
  "isinf_c x = (case x of Inf s \<Rightarrow> 1 | _ \<Rightarrow> 0)"

definition my_isinf :: "bool \<Rightarrow> bool \<Rightarrow> ieee \<Rightarrow> bool" where
  "my_isinf have_isinf ftz x = (if have_isinf then isinf_c x \<noteq> 0 else \<not> finite_macro ftz x \<and> \<not> isnan x)"

text \<open>The literals \<^verbatim>\<open>4.94065645841246544e-324\<close> and \<^verbatim>\<open>1.79769313486231470e+308\<close>, read as the nearest doubles.\<close>

definition DBL_MIN :: dbl where
  "DBL_MIN = rhe (494065645841246544 * 2 ^ 1074) (10 ^ 341)"

definition DBL_MAX :: dbl where
  "DBL_MAX = int2dbl (179769313486231470 * 10 ^ 291)"

section \<open>Rounded reciprocals\<close>

lemma rhe_ge: "0 < d \<Longrightarrow> c * d \<le> n \<Longrightarrow> c \<le> rhe n d"
  for c d n :: int
proof -
  assume d: "0 < d" and "c * d \<le> n"
  then have "c * d div d \<le> n div d" by (intro zdiv_mono1) simp_all
  with d have "c \<le> n div d" by simp
  then show ?thesis by (auto simp: rhe_def Let_def)
qed

lemma rhe_le: "0 < d \<Longrightarrow> n \<le> c * d \<Longrightarrow> rhe n d \<le> c"
  for c d n :: int
  using rhe_ge [of d "- c" "- n"] by (simp add: rhe_minus)

text \<open>The reciprocal of a finite double is positive; that of a double of \<open>2\<^sup>1\<^sup>0\<^sup>2\<^sup>3\<close> or more is below the normal range.\<close>

lemma reciprocal_pos:
  assumes "0 < m" "m < 2 ^ 2098"
  shows "0 < round_quotient (2 ^ 1074 * 2 ^ 1074) m"
proof -
  define P :: nat where "P = 2 ^ 1074 * 2 ^ 1074"
  let ?k = "excess (P div m)"
  have quot: "2 ^ 50 \<le> P div m"
  proof -
    have "m * 2 ^ 50 \<le> 2 ^ 2098 * 2 ^ 50" using assms(2) by (intro mult_le_mono) simp_all
    also have "\<dots> = P" by (simp add: P_def flip: power_add)
    finally show ?thesis using assms(1) by (simp add: less_eq_div_iff_mult_less_eq mult.commute)
  qed
  have "2 ^ ?k \<le> P div m"
  proof (cases "?k = 0")
    case True
    then show ?thesis using quot by simp
  next
    case False
    have "(2::nat) ^ ?k \<le> 2 ^ (52 + ?k)" by simp
    also have "\<dots> \<le> P div m" using excess_bounds [of "P div m"] False by blast
    finally show ?thesis .
  qed
  then have "m * 2 ^ ?k \<le> P" using assms(1) by (simp add: less_eq_div_iff_mult_less_eq mult.commute)
  then have "1 * int (m * 2 ^ ?k) \<le> int P" by (simp only: mult_1 of_nat_le_iff)
  then have "1 \<le> rhe (int P) (int (m * 2 ^ ?k))" using assms(1) by (intro rhe_ge) simp_all
  then have "0 < round_quotient P m" by (simp add: round_quotient_def Let_def)
  then show ?thesis by (simp only: P_def)
qed

lemma reciprocal_small:
  assumes "2 ^ 2097 \<le> m"
  shows "round_quotient (2 ^ 1074 * 2 ^ 1074) m < 2 ^ 52"
proof -
  define P :: nat where "P = 2 ^ 1074 * 2 ^ 1074"
  have m: "0 < m" using assms by (rule order.strict_trans2 [rotated]) simp
  have P: "P \<le> 2 ^ 51 * m"
  proof -
    have "P = 2 ^ 51 * 2 ^ 2097" by (simp add: P_def flip: power_add)
    then show ?thesis using assms by simp
  qed
  then have "P div m \<le> 2 ^ 51" using m by (metis div_le_mono nonzero_mult_div_cancel_right less_not_refl2)
  then have k: "excess (P div m) = 0" by (intro excess_small) simp
  have "int P \<le> int (2 ^ 51 * m)" using P by (simp only: of_nat_le_iff)
  then have "rhe (int P) (int m) \<le> 2 ^ 51" using m by (intro rhe_le) simp_all
  then have "round_quotient P m < 2 ^ 52" using k by (simp add: round_quotient_def nat_less_iff)
  then show ?thesis by (simp only: P_def)
qed

lemma finite_macro_Num:
  "m = 0 \<Longrightarrow> finite_macro ftz (Num s m)"
  "0 < m \<Longrightarrow> m < 2 ^ 2098 \<Longrightarrow> finite_macro False (Num s m)"
  "2 ^ 2097 \<le> m \<Longrightarrow> \<not> finite_macro True (Num s m)"
proof -
  show "finite_macro ftz (Num s m)" if "m = 0"
    using that by (simp add: finite_macro_def ZERO_def ONE_def)
  have expand: "finite_macro ftz (Num s m) = ieee_less (Num False 0) (finish ftz False (round_quotient (2 ^ 1074 * 2 ^ 1074) m))"
    if "0 < m" for ftz
    using that by (simp only: finite_macro_def ZERO_def ONE_def fabs.simps ieee_div.simps) simp
  show "finite_macro False (Num s m)" if "0 < m" "m < 2 ^ 2098"
    using reciprocal_pos [OF that] unfolding expand [OF that(1)] finish_def by (simp only: if_False simp_thms) (simp add: signed_def)
  show "\<not> finite_macro True (Num s m)" if m: "2 ^ 2097 \<le> m"
  proof -
    have pos: "0 < m" using m by (rule order.strict_trans2 [rotated]) simp
    define r where "r = round_quotient (2 ^ 1074 * 2 ^ 1074) m"
    have "r < 2 ^ 52" using reciprocal_small [OF m] by (simp only: r_def)
    then have "finish True False r = Num False 0" by (simp add: finish_def)
    then show ?thesis unfolding expand [OF pos] r_def [symmetric] by (simp add: signed_def)
  qed
qed

section \<open>Limits\<close>

lemma excess_unique: "2 ^ (52 + k) \<le> n \<Longrightarrow> n < 2 ^ (53 + k) \<Longrightarrow> excess n = k"
proof (rule antisym)
  assume n: "2 ^ (52 + k) \<le> n" "n < 2 ^ (53 + k)"
  then show "excess n \<le> k" by (intro excess_le)
  have "(2::nat) ^ (52 + k) < 2 ^ (53 + excess n)" using n(1) excess_bounds [of n] by (meson le_less_trans)
  then show "k \<le> excess n" by simp
qed

lemma fl_max_literal: "fl (179769313486231470 * 10 ^ 291) = (2 ^ 53 - 6) * 2 ^ 971"
proof -
  define n :: int where "n = 179769313486231470 * 10 ^ 291"
  have "excess (nat \<bar>n\<bar>) = 971" by (rule excess_unique) (simp_all add: n_def)
  moreover have "rhe n (2 ^ 971) = 2 ^ 53 - 6" by (rule rhe_unique) (simp_all add: n_def)
  ultimately show ?thesis unfolding n_def [symmetric] fl_def Let_def by simp
qed

lemma largest_magnitude: "is_magnitude (nat ((2 ^ 53 - 1) * 2 ^ 971 * DBL_UNIT))"
proof -
  define m :: int where "m = (2 ^ 53 - 1) * 2 ^ 2045"
  have "is_dbl m" unfolding m_def by (intro is_dbl_mult) simp
  moreover have "0 \<le> m" "m < 2 ^ 2098" by (simp_all add: m_def)
  ultimately have "is_magnitude (nat m)" by (simp add: is_magnitude_def nat_less_iff)
  moreover have "(2 ^ 53 - 1) * 2 ^ 971 * DBL_UNIT = m" by (simp add: DBL_UNIT_def m_def)
  ultimately show ?thesis by (simp only:)
qed

section \<open>Properties\<close>

text \<open>C21: the substitutes classify every double: \<^verbatim>\<open>finite\<close> holds of the finite numbers, zeros of both signs and numbers below the normal range included,
  \<^verbatim>\<open>isnan\<close> of what is not a number and \<^verbatim>\<open>my_isinf\<close> of the two infinities, as the functions of the C library do.  This needs
  gradual underflow: where small results are flushed to 0, every finite number of \<open>2\<^sup>1\<^sup>0\<^sup>2\<^sup>3\<close> or more is taken for an infinity.\<close>
theorem double_classification:
  assumes "is_ieee x"
  shows "(finite_macro False x \<longleftrightarrow> (\<exists>s m. x = Num s m)) \<and> (isnan x \<longleftrightarrow> x = NaN) \<and>
    (my_isinf h False x \<longleftrightarrow> (\<exists>s. x = Inf s)) \<and>
    (\<forall>s m. x = Num s m \<and> 2 ^ 2097 \<le> m \<longrightarrow> my_isinf False True x)"
proof (cases x)
  case (Num s m)
  then have "m < 2 ^ 2098" using assms by (simp add: is_magnitude_def)
  then have fin: "finite_macro False x" using Num by (cases "m = 0") (simp_all add: finite_macro_Num)
  have nan: "\<not> isnan x" using Num by (simp add: isnan_def)
  have "my_isinf False True x" if "2 ^ 2097 \<le> m"
    using finite_macro_Num(3) [OF that] nan Num by (simp add: my_isinf_def)
  with Num fin nan show ?thesis by (simp add: my_isinf_def isinf_c_def)
next
  case (Inf s)
  then have "\<not> finite_macro False x" "\<not> isnan x" by (simp_all add: finite_macro_def isnan_def ZERO_def ONE_def signed_def)
  with Inf show ?thesis by (simp add: my_isinf_def isinf_c_def)
next
  case NaN
  then have "\<not> finite_macro False x" "isnan x" by (simp_all add: finite_macro_def isnan_def ONE_def ZERO_def)
  with NaN show ?thesis by (simp add: my_isinf_def isinf_c_def)
qed

theorem double_classification_witness:
  "finite_macro False (Num True 0) \<and> my_isinf False False (Inf True) \<and> finite_macro False (Num False (2 ^ 2097)) \<and>
   my_isinf False True (Num False (2 ^ 2097))"
proof -
  have "is_magnitude 0" by (simp add: is_magnitude_def is_dbl_def fl_small)
  then have zero: "is_ieee (Num True 0)" by simp
  have "is_dbl (1 * 2 ^ 2097)" by (intro is_dbl_mult) simp
  then have "is_magnitude (2 ^ 2097)" by (simp only: is_magnitude_def of_nat_power of_nat_numeral mult_1) simp
  then have big: "is_ieee (Num False (2 ^ 2097))" by (simp only: is_ieee.simps)
  have inf: "is_ieee (Inf True)" by simp
  note big_all = double_classification [OF big, of False]
  have "finite_macro False (Num True 0)" using double_classification [OF zero, THEN conjunct1] by blast
  moreover have "my_isinf False False (Inf True)" using double_classification [OF inf, of False] by blast
  moreover have "finite_macro False (Num False (2 ^ 2097))" using big_all [THEN conjunct1] by blast
  moreover have "my_isinf False True (Num False (2 ^ 2097))"
    by (rule big_all [THEN conjunct2, THEN conjunct2, THEN conjunct2, THEN spec, THEN spec, THEN mp, OF conjI [OF refl order_refl]])
  ultimately show ?thesis by (intro conjI)
qed

text \<open>The substitute for \<^verbatim>\<open>DBL_MIN\<close> is the smallest positive double, below the normal range that the name stands for in C; the
  substitute for \<^verbatim>\<open>DBL_MAX\<close> has a wrong digit and is read as a double five steps below the largest one.\<close>
lemma double_limits:
  "DBL_MIN = 1 \<and> is_dbl DBL_MAX \<and> DBL_MAX = (2 ^ 53 - 6) * 2 ^ 971 * DBL_UNIT \<and>
   DBL_MAX < (2 ^ 53 - 1) * 2 ^ 971 * DBL_UNIT \<and> is_magnitude (nat ((2 ^ 53 - 1) * 2 ^ 971 * DBL_UNIT))"
proof -
  have "DBL_MIN = 1" unfolding DBL_MIN_def by (rule rhe_unique) simp_all
  moreover have max: "DBL_MAX = (2 ^ 53 - 6) * 2 ^ 971 * DBL_UNIT"
    by (simp only: DBL_MAX_def int2dbl_fl fl_max_literal)
  moreover have "is_dbl DBL_MAX" by (simp only: DBL_MAX_def int2dbl_def is_dbl_fl)
  moreover have "DBL_MAX < (2 ^ 53 - 1) * 2 ^ 971 * DBL_UNIT"
    unfolding max by (intro mult_strict_right_mono) simp_all
  ultimately show ?thesis using largest_magnitude by blast
qed

end
