(* ===== verification/M_String.thy ===== *)
theory M_String
  imports Mysql_Prelude
begin

text \<open>
  The inline functions of \<^verbatim>\<open>m_string.h\<close>: \<^verbatim>\<open>skip_trailing_space\<close>, which strips trailing blanks a
  machine word at a time, and \<^verbatim>\<open>lex_string_set\<close>.  Pointers are 32-bit words and compared as such,
  memory is a function from addresses to bytes.  The two byte loops are total functions; the
  word loop steps down by four and is a \<open>partial_function\<close> in the option monad, whose value \<open>None\<close>
  means that the loop runs forever.  A failed \<^verbatim>\<open>DBUG_ASSERT\<close> of a debug build is an error value.

  The theorems show that the word loop always returns and that the result is the end of the string
  with its trailing blanks dropped, whatever the alignment of the two ends.
\<close>

section \<open>Model\<close>

datatype m_string_error = Assertion_failed string

record lex_string =
  str :: addr
  length_ :: size_t

definition SIZEOF_INT :: nat where
  "SIZEOF_INT = 4"

definition SPACE_INT :: uint32 where
  "SPACE_INT = 0x20202020"

definition NOT_FIXED_DEC :: nat where
  "NOT_FIXED_DEC = 31"

definition FLOATING_POINT_BUFFER :: nat where
  "FLOATING_POINT_BUFFER = 311 + NOT_FIXED_DEC"

definition load_int :: "mem \<Rightarrow> addr \<Rightarrow> uint32" where
  "load_int m a = word_of_int (le_val SIZEOF_INT m a)"

definition end_words_of :: "addr \<Rightarrow> addr" where
  "end_words_of e = ucast ((scast e :: ulonglong) div of_nat SIZEOF_INT * of_nat SIZEOF_INT)"

definition start_words_of :: "addr \<Rightarrow> addr" where
  "start_words_of p =
     ucast (((scast p :: ulonglong) + of_nat SIZEOF_INT - 1) div of_nat SIZEOF_INT * of_nat SIZEOF_INT)"

function skip_spaces :: "mem \<Rightarrow> addr \<Rightarrow> addr \<Rightarrow> addr" where
  "skip_spaces m lo e = (if e > lo \<and> m (e - 1) = 0x20 then skip_spaces m lo (e - 1) else e)"
  by pat_completeness auto

termination
proof (relation "measure (\<lambda>(m, lo, e). unat e)")
  fix m :: mem and lo e :: addr
  assume "e > lo \<and> m (e - 1) = 0x20"
  then have "e \<noteq> 0" by auto
  then show "((m, lo, e - 1), (m, lo, e)) \<in> measure (\<lambda>(m, lo, e). unat e)"
    by (simp add: unat_minus_one unat_gt_0)
qed simp

declare skip_spaces.simps [simp del]

partial_function (option) skip_space_words :: "mem \<Rightarrow> addr \<Rightarrow> addr \<Rightarrow> addr option" where
  "skip_space_words m start_words e =
     (if e > start_words \<and> load_int m (e - of_nat SIZEOF_INT) = SPACE_INT
      then skip_space_words m start_words (e - of_nat SIZEOF_INT) else Some e)"

declare skip_space_words.simps [code]

definition skip_trailing_space :: "bool \<Rightarrow> mem \<Rightarrow> addr \<Rightarrow> size_t \<Rightarrow> (m_string_error + addr) option" where
  "skip_trailing_space dbug m ptr len =
    (let e = ptr + len in
     if len > 20 then
       (let end_words = end_words_of e;
            start_words = start_words_of ptr in
        if dbug \<and> \<not> (scast ptr :: ulonglong) \<ge> of_nat SIZEOF_INT
        then Some (Inl (Assertion_failed ''((ulonglong)(intptr)ptr) >= SIZEOF_INT''))
        else
          (case
            (if end_words > ptr then
               (let e1 = skip_spaces m end_words e in
                if m (e1 - 1) = 0x20 \<and> start_words < end_words
                then skip_space_words m start_words e1
                else Some e1)
             else Some e)
           of None \<Rightarrow> None
            | Some e2 \<Rightarrow> Some (Inr (skip_spaces m ptr e2))))
     else Some (Inr (skip_spaces m ptr e)))"

partial_function (option) strlen_from :: "mem \<Rightarrow> addr \<Rightarrow> size_t \<Rightarrow> size_t option" where
  "strlen_from m s n = (if m (s + n) = 0 then Some n else strlen_from m s (n + 1))"

declare strlen_from.simps [code]

definition lex_string_set :: "mem \<Rightarrow> lex_string \<Rightarrow> addr \<Rightarrow> lex_string option" where
  "lex_string_set m lex_str c_str =
     (case strlen_from m c_str 0 of None \<Rightarrow> None
      | Some n \<Rightarrow> Some (lex_str\<lparr>str := c_str, length_ := n\<rparr>))"

definition STRING_WITH_LEN :: "string \<Rightarrow> string \<times> size_t" where
  "STRING_WITH_LEN X = (X, of_nat (length X + 1) - 1)"

section \<open>The specification: drop the blanks at the end of a list\<close>

definition trim_spaces :: "uchar list \<Rightarrow> uchar list" where
  "trim_spaces xs = rev (dropWhile (\<lambda>b. b = 0x20) (rev xs))"

definition is_trimmed :: "mem \<Rightarrow> addr \<Rightarrow> addr \<Rightarrow> addr \<Rightarrow> bool" where
  "is_trimmed m lo e r \<longleftrightarrow> lo \<le> r \<and> r \<le> e \<and> (\<forall>a. r \<le> a \<and> a < e \<longrightarrow> m a = 0x20) \<and>
     (r = lo \<or> m (r - 1) \<noteq> 0x20)"

section \<open>The byte loops\<close>

lemma minus_one_facts:
  fixes e lo :: addr
  assumes "lo < e"
  shows "lo \<le> e - 1" "e - 1 < e" "(a < e \<longleftrightarrow> a \<le> e - 1)"
  using assms by unat_arith+

lemma skip_spaces_trimmed: "lo \<le> e \<Longrightarrow> is_trimmed m lo e (skip_spaces m lo e)"
proof (induction m lo e rule: skip_spaces.induct)
  case (1 m lo e)
  show ?case
  proof (cases "e > lo \<and> m (e - 1) = 0x20")
    case True
    note facts = minus_one_facts [of lo e]
    from True 1 facts have IH: "is_trimmed m lo (e - 1) (skip_spaces m lo (e - 1))" by blast
    have "m a = 0x20" if "skip_spaces m lo (e - 1) \<le> a" "a < e" for a
    proof (cases "a = e - 1")
      case True2: True
      with True show ?thesis by simp
    next
      case False
      with that True facts(3) [of a] have "a < e - 1" by simp
      with IH that show ?thesis by (simp add: is_trimmed_def)
    qed
    moreover have "skip_spaces m lo (e - 1) \<le> e"
      using IH True facts(2) by (auto simp: is_trimmed_def)
    ultimately have "is_trimmed m lo e (skip_spaces m lo (e - 1))"
      using IH by (simp add: is_trimmed_def)
    with True show ?thesis by (subst skip_spaces.simps) simp
  next
    case False
    with 1 have "is_trimmed m lo e e" by (auto simp: is_trimmed_def)
    with False show ?thesis by (subst skip_spaces.simps) (simp only: if_False)
  qed
qed

lemma is_trimmed_unique:
  assumes "is_trimmed m lo e r" "is_trimmed m lo e r'"
  shows "r = r'"
proof -
  have "r \<le> r'" if "is_trimmed m lo e r" "is_trimmed m lo e r'" for r r'
  proof (rule ccontr)
    assume "\<not> r \<le> r'"
    then have "r' < r" by simp
    with that(2) have "r \<noteq> lo" by (auto simp: is_trimmed_def)
    with that(1) have "m (r - 1) \<noteq> 0x20" by (simp add: is_trimmed_def)
    moreover have "r' \<le> r - 1" "r - 1 < r" using minus_one_facts \<open>r' < r\<close> by blast+
    with that have "m (r - 1) = 0x20" by (auto simp: is_trimmed_def)
    ultimately show False by simp
  qed
  with assms show ?thesis by (meson order_antisym)
qed

lemma is_trimmed_spaces:
  assumes "is_trimmed m lo e' r" and "e' \<le> e" and "\<And>a. e' \<le> a \<Longrightarrow> a < e \<Longrightarrow> m a = 0x20"
  shows "is_trimmed m lo e r"
proof -
  have "m a = 0x20" if "r \<le> a" "a < e" for a
  proof (cases "a < e'")
    case True
    with assms(1) that show ?thesis by (simp add: is_trimmed_def)
  next
    case False
    with assms(3) that show ?thesis by simp
  qed
  with assms(1,2) show ?thesis by (auto simp: is_trimmed_def)
qed

section \<open>The word loop\<close>

lemma uint_32_eq: "uint (b :: uchar) = 32 \<Longrightarrow> b = 0x20"
  by (simp add: word_uint_eq_iff)

lemma byte_cons_eq:
  fixes x :: int
  assumes "uint (b :: uchar) + 256 * x = 32 + 256 * y"
  shows "b = 0x20" "x = y"
proof -
  have "x = y"
    using assms uint_uchar_bound [of b] uint_ge_0 [of b] by (cases x y rule: linorder_cases) linarith+
  then have "uint b = 32" using assms by simp
  with \<open>x = y\<close> show "b = 0x20" "x = y" by (simp_all add: uint_32_eq)
qed

lemma le_val_4_spaces:
  assumes "le_val 4 m a = 0x20202020"
  shows "m a = 0x20" "m (a + 1) = 0x20" "m (a + 2) = 0x20" "m (a + 3) = 0x20"
proof -
  have "uint (m a) + 256 * (uint (m (a + 1)) + 256 * (uint (m (a + 2)) + 256 * (uint (m (a + 3)) + 256 * 0)))
      = 32 + 256 * (32 + 256 * (32 + 256 * (32 + 256 * 0)))"
    using assms by (simp add: le_val_numeral add.assoc)
  note 1 = byte_cons_eq [OF this]
  note 2 = byte_cons_eq [OF 1(2)]
  note 3 = byte_cons_eq [OF 2(2)]
  note 4 = byte_cons_eq [OF 3(2)]
  from 1 2 3 4 show "m a = 0x20" "m (a + 1) = 0x20" "m (a + 2) = 0x20" "m (a + 3) = 0x20" by blast+
qed

lemma load_int_space_bytes:
  assumes "load_int m (e - 4) = SPACE_INT" and "e - 4 \<le> a" "a < e" "4 \<le> e"
  shows "m a = 0x20"
proof -
  from assms(1) have "uint (load_int m (e - 4)) = 0x20202020" by (simp add: SPACE_INT_def)
  then have "le_val 4 m (e - 4) = 0x20202020"
    by (simp add: load_int_def SIZEOF_INT_def uint_word_of_le_val)
  from le_val_4_spaces [OF this]
  have "m (e - 4) = 0x20 \<and> m (e - 3) = 0x20 \<and> m (e - 2) = 0x20 \<and> m (e - 1) = 0x20"
    by simp
  moreover have "a = e - 4 \<or> a = e - 3 \<or> a = e - 2 \<or> a = e - 1"
    using assms(2-4) by unat_arith
  ultimately show ?thesis by auto
qed

lemma skip_space_words_returns:
  assumes "unat e = unat s + 4 * k"
  shows "\<exists>r. skip_space_words m s e = Some r \<and> s \<le> r \<and> r \<le> e \<and> (\<forall>a. r \<le> a \<and> a < e \<longrightarrow> m a = 0x20)"
  using assms
proof (induction k arbitrary: e)
  case 0
  then have "e = s" by (simp add: word_unat_eq_iff)
  then show ?case by (subst skip_space_words.simps) auto
next
  case (Suc k)
  have e4: "4 \<le> e" "s < e" using Suc.prems by (simp_all add: word_le_nat_alt word_less_nat_alt)
  then have sub: "unat (e - 4) = unat e - 4" by unat_arith
  show ?case
  proof (cases "load_int m (e - 4) = SPACE_INT")
    case True
    have "unat (e - 4) = unat s + 4 * k" using sub Suc.prems by simp
    from Suc.IH [OF this] obtain r where r: "skip_space_words m s (e - 4) = Some r" "s \<le> r" "r \<le> e - 4"
      "\<forall>a. r \<le> a \<and> a < e - 4 \<longrightarrow> m a = 0x20" by blast
    have "m a = 0x20" if "r \<le> a" "a < e" for a
      using r(4) that load_int_space_bytes [OF True _ that(2) e4(1)] by (cases "a < e - 4") auto
    moreover have "skip_space_words m s e = Some r"
      using True e4 r(1) by (subst skip_space_words.simps) (simp add: SIZEOF_INT_def)
    moreover have "r \<le> e" using r(3) e4(1) by unat_arith
    ultimately show ?thesis using r(2) by blast
  next
    case False
    then have "skip_space_words m s e = Some e"
      by (subst skip_space_words.simps) (simp add: SIZEOF_INT_def)
    then show ?thesis using e4 by auto
  qed
qed

section \<open>Alignment\<close>

lemma unat_align:
  fixes y :: ulonglong
  shows "unat (ucast (y div 4 * 4) :: addr) = unat (ucast y :: addr) div 4 * 4"
proof -
  have "(ucast (push_bit 2 (drop_bit 2 y)) :: addr) = push_bit 2 (drop_bit 2 (ucast y))"
    by (rule bit_word_eqI) (auto simp: bit_simps)
  moreover have "y div 4 * 4 = push_bit 2 (drop_bit 2 y)"
    by (simp add: push_bit_eq_mult drop_bit_eq_div)
  moreover have "unat (push_bit 2 (drop_bit 2 w)) = unat w div 4 * 4" for w :: addr
  proof -
    have small: "unat w < 4294967296" using unsigned_less [of w, where ?'a = nat] by simp
    then have "unat w div 4 < 4294967296" and "unat w div 4 * 4 < 4294967296"
      by linarith+
    then show ?thesis
      by (simp add: push_bit_eq_mult drop_bit_eq_div unat_word_ariths unat_div)
  qed
  ultimately show ?thesis by simp
qed

lemma ucast_scast_addr: "(ucast (scast p :: ulonglong) :: addr) = p"
  by (rule bit_word_eqI) (simp add: bit_simps)

lemma ucast_scast_add: "(ucast ((scast p :: ulonglong) + 3) :: addr) = p + 3"
proof -
  have "take_bit 32 (signed_take_bit 31 x + 3) = take_bit 32 (x + 3 :: int)" for x
    unfolding take_bit_eq_mod by (rule mod_add_cong) (use signed_take_bit_mod [of 31 x] in simp_all)
  then show ?thesis by transfer simp
qed

lemma unat_end_words_of: "unat (end_words_of e) = unat e div 4 * 4"
  using unat_align [of "scast e"] by (simp add: end_words_of_def SIZEOF_INT_def ucast_scast_addr)

lemma unat_start_words_of:
  assumes "unat p + 3 < 2 ^ 32"
  shows "unat (start_words_of p) = (unat p + 3) div 4 * 4"
proof -
  have "unat (p + 3) = unat p + 3" using assms by (simp add: unat_word_ariths)
  then show ?thesis
    using unat_align [of "scast p + 3"]
    by (simp add: start_words_of_def SIZEOF_INT_def ucast_scast_add add.commute)
qed

section \<open>Correctness of \<^verbatim>\<open>skip_trailing_space\<close>\<close>

lemma word_zone:
  assumes no_wrap: "unat ptr + unat len < 2 ^ 32"
    and e: "e = ptr + len" and ew: "ptr < end_words_of e"
    and e1: "e1 = skip_spaces m (end_words_of e) e"
  shows "\<exists>e2. (if m (e1 - 1) = 0x20 \<and> start_words_of ptr < end_words_of e
       then skip_space_words m (start_words_of ptr) e1 else Some e1) = Some e2 \<and>
     ptr \<le> e2 \<and> e2 \<le> e \<and> (\<forall>a. e2 \<le> a \<and> a < e \<longrightarrow> m a = 0x20)"
proof -
  have un: "unat e = unat ptr + unat len" unfolding e using no_wrap by (simp add: unat_word_ariths)
  have ew_le: "end_words_of e \<le> e"
    by (simp add: word_le_nat_alt unat_end_words_of)
  from skip_spaces_trimmed [OF this, of m] e1
  have t: "end_words_of e \<le> e1" "e1 \<le> e" "\<forall>a. e1 \<le> a \<and> a < e \<longrightarrow> m a = 0x20"
    "e1 = end_words_of e \<or> m (e1 - 1) \<noteq> 0x20"
    by (auto simp: is_trimmed_def)
  show ?thesis
  proof (cases "m (e1 - 1) = 0x20 \<and> start_words_of ptr < end_words_of e")
    case False
    then show ?thesis using t ew by auto
  next
    case True
    with t(4) have e1e: "e1 = end_words_of e" by simp
    define k where "k = unat e div 4"
    have k: "unat (end_words_of e) = 4 * k" by (simp add: unat_end_words_of k_def)
    moreover have "unat (end_words_of e) < 2 ^ 32" using unsigned_less [of "end_words_of e", where ?'a = nat] by simp
    moreover have "unat ptr < unat (end_words_of e)" using ew by (simp add: word_less_nat_alt)
    ultimately have "unat ptr + 3 < 2 ^ 32" by simp
    from unat_start_words_of [OF this]
    have s: "unat (start_words_of ptr) = 4 * ((unat ptr + 3) div 4)" by simp
    with True k have "unat e1 = unat (start_words_of ptr) + 4 * (k - (unat ptr + 3) div 4)"
      by (auto simp: e1e word_less_nat_alt)
    from skip_space_words_returns [OF this, of m] obtain e2
      where e2: "skip_space_words m (start_words_of ptr) e1 = Some e2"
        "start_words_of ptr \<le> e2" "e2 \<le> e1" "\<forall>a. e2 \<le> a \<and> a < e1 \<longrightarrow> m a = 0x20" by blast
    have "ptr \<le> start_words_of ptr" by (simp add: word_le_nat_alt s)
    moreover have "m a = 0x20" if "e2 \<le> a" "a < e" for a
      using that e2(4) t(3) by (cases "a < e1") auto
    ultimately show ?thesis using True e2 t(2) by auto
  qed
qed

lemma skip_trailing_space_trimmed:
  assumes "unat ptr + unat len < 2 ^ 32" and "dbug \<longrightarrow> of_nat SIZEOF_INT \<le> (scast ptr :: ulonglong)"
  shows "\<exists>r. skip_trailing_space dbug m ptr len = Some (Inr r) \<and> is_trimmed m ptr (ptr + len) r"
proof -
  let ?e = "ptr + len"
  have un: "unat ?e = unat ptr + unat len" using assms(1) by (simp add: unat_word_ariths)
  then have le: "ptr \<le> ?e" by (simp add: word_le_nat_alt)
  show ?thesis
  proof (cases "len > 20 \<and> end_words_of ?e > ptr")
    case True
    from word_zone [OF assms(1) refl conjunct2 [OF True] refl, of m] obtain e2
      where e2: "(if m (skip_spaces m (end_words_of ?e) ?e - 1) = 0x20 \<and> start_words_of ptr < end_words_of ?e
         then skip_space_words m (start_words_of ptr) (skip_spaces m (end_words_of ?e) ?e)
         else Some (skip_spaces m (end_words_of ?e) ?e)) = Some e2"
        "ptr \<le> e2" "e2 \<le> ?e" "\<forall>a. e2 \<le> a \<and> a < ?e \<longrightarrow> m a = 0x20" by blast
    have "is_trimmed m ptr ?e (skip_spaces m ptr e2)"
      using is_trimmed_spaces [OF skip_spaces_trimmed [OF e2(2)] e2(3)] e2(4) by blast
    moreover have "skip_trailing_space dbug m ptr len = Some (Inr (skip_spaces m ptr e2))"
      using True assms(2) e2(1) by (auto simp: skip_trailing_space_def Let_def not_le)
    ultimately show ?thesis by blast
  next
    case False
    then have "skip_trailing_space dbug m ptr len = Some (Inr (skip_spaces m ptr ?e))"
      using assms(2) by (auto simp: skip_trailing_space_def Let_def)
    then show ?thesis using skip_spaces_trimmed [OF le] by blast
  qed
qed

lemma trim_spaces_snoc: "trim_spaces (xs @ [b]) = (if b = 0x20 then trim_spaces xs else xs @ [b])"
  by (simp add: trim_spaces_def)

lemma is_trimmed_list:
  assumes "unat ptr + n < 2 ^ 32"
  shows "is_trimmed m ptr (ptr + of_nat n) (ptr + of_nat (length (trim_spaces (memcpy_from m ptr n))))"
  using assms
proof (induction n)
  case 0
  then show ?case by (auto simp: memcpy_from_def trim_spaces_def is_trimmed_def)
next
  case (Suc n)
  have split: "memcpy_from m ptr (Suc n) = memcpy_from m ptr n @ [m (ptr + of_nat n)]"
    by (simp add: memcpy_from_def)
  have un: "unat (ptr + of_nat (Suc n)) = unat ptr + Suc n" "unat (ptr + of_nat n) = unat ptr + n"
    using Suc.prems by (simp_all add: unat_word_ariths unat_of_nat)
  have nxt: "ptr + of_nat (Suc n) = ptr + of_nat n + 1" by simp
  show ?case
  proof (cases "m (ptr + of_nat n) = 0x20")
    case True
    have "a = ptr + of_nat n" if "ptr + of_nat n \<le> a" "a < ptr + of_nat (Suc n)" for a
      using that un by (simp add: word_le_nat_alt word_less_nat_alt word_unat_eq_iff)
    then show ?thesis
      using is_trimmed_spaces [OF Suc.IH, of "ptr + of_nat (Suc n)"] Suc.prems un True
      by (force simp: split trim_spaces_snoc word_le_nat_alt)
  next
    case False
    then have "length (trim_spaces (memcpy_from m ptr (Suc n))) = Suc n"
      by (simp add: split trim_spaces_snoc) (simp add: memcpy_from_def)
    then show ?thesis using un False nxt by (auto simp: is_trimmed_def word_le_nat_alt word_less_nat_alt)
  qed
qed

lemma strlen_from_terminated:
  assumes "m (s + of_nat n) = 0" and "\<forall>i < n. m (s + of_nat i) \<noteq> 0"
  shows "strlen_from m s 0 = Some (of_nat n)"
proof -
  have "k \<le> n \<Longrightarrow> strlen_from m s (of_nat k) = Some (of_nat n)" for k
  proof (induction "n - k" arbitrary: k)
    case 0
    then have "k = n" by simp
    with assms(1) show ?case by (subst strlen_from.simps) simp
  next
    case (Suc j)
    then have "strlen_from m s (of_nat (Suc k)) = Some (of_nat n)" using Suc.hyps(1) [of "Suc k"] by linarith
    moreover have "m (s + of_nat k) \<noteq> 0" using Suc assms(2) by simp
    ultimately show ?case by (subst strlen_from.simps) (simp add: add.commute)
  qed
  from this [of 0] show ?thesis by simp
qed

section \<open>Properties\<close>

text \<open>C5: for every string that lies in the address space, \<^verbatim>\<open>skip_trailing_space\<close> returns (its word loop
  always ends), no debug assertion fires once the string starts at 4 or above, and the pointer it
  returns is the end of the string with its trailing blanks dropped, for every length and every
  alignment of its two ends.\<close>
theorem skip_trailing_space_correct:
  assumes "unat ptr + unat len < 2 ^ 32" and "dbug \<longrightarrow> of_nat SIZEOF_INT \<le> (scast ptr :: ulonglong)"
  shows "skip_trailing_space dbug m ptr len
    = Some (Inr (ptr + of_nat (length (trim_spaces (memcpy_from m ptr (unat len))))))"
proof -
  obtain r where r: "skip_trailing_space dbug m ptr len = Some (Inr r)" "is_trimmed m ptr (ptr + len) r"
    using skip_trailing_space_trimmed [OF assms] by blast
  from is_trimmed_list [OF assms(1), of m] is_trimmed_unique [OF r(2)] r(1) show ?thesis by simp
qed

theorem skip_trailing_space_correct_witness:
  "skip_trailing_space True (\<lambda>a. if a = 10 then 65 else 0x20) 10 23 = Some (Inr 11)"
proof -
  have "unat (10 :: addr) + unat (23 :: size_t) < 2 ^ 32"
    and "True \<longrightarrow> of_nat SIZEOF_INT \<le> (scast (10 :: addr) :: ulonglong)"
    by (simp_all add: SIZEOF_INT_def)
  note skip_trailing_space_correct [OF this, of "\<lambda>a. if a = 10 then 65 else 0x20"]
  moreover have "length (trim_spaces (memcpy_from (\<lambda>a. if a = 10 then 65 else 0x20) 10 23)) = 1"
    by code_simp
  ultimately show ?thesis by simp
qed

text \<open>\<^verbatim>\<open>lex_string_set\<close> returns when the C string has a terminating NUL, and then the pair holds the
  string's address and the number of bytes before its first NUL.\<close>
lemma lex_string_set_length:
  assumes "m (c_str + of_nat n) = 0" and "\<forall>i < n. m (c_str + of_nat i) \<noteq> 0"
  shows "lex_string_set m lex_str c_str = Some (lex_str\<lparr>str := c_str, length_ := of_nat n\<rparr>)"
  using strlen_from_terminated [OF assms] by (simp add: lex_string_set_def)

lemma lex_string_set_length_instance:
  "lex_string_set (\<lambda>a. if a < 8 then 65 else 0) \<lparr>str = 0, length_ = 0\<rparr> 5 = Some \<lparr>str = 5, length_ = 3\<rparr>"
proof -
  have "\<forall>i < 3. (if (5 + of_nat i :: addr) < 8 then 65 else 0 :: uchar) \<noteq> 0"
    by (simp add: numeral_3_eq_3 less_Suc_eq)
  from lex_string_set_length [OF _ this, of "\<lparr>str = 0, length_ = 0\<rparr>"] show ?thesis by simp
qed

end
