(* ===== verification/My_Global.thy ===== *)
theory My_Global
  imports M_String Byte_Order
begin

text \<open>
  The general macros of \<^verbatim>\<open>my_global.h\<close>: minimum and maximum, bit tests, alignment, pointer arithmetic, the limits of the
  integer types, and the loop of \<^verbatim>\<open>DLERROR_GENERATE\<close> that strips the end of a Windows error message.

  A macro that assigns to its argument is a function that returns the new value.  The error message is a buffer in
  memory; \<^verbatim>\<open>FormatMessage\<close>, which fills it, is an argument.
\<close>

section \<open>Values\<close>

definition test_macro :: "int \<Rightarrow> int" where
  "test_macro a = (if a \<noteq> 0 then 1 else 0)"

definition set_if_bigger :: "'a :: linorder \<Rightarrow> 'a \<Rightarrow> 'a" where
  "set_if_bigger a b = (if a < b then b else a)"

definition set_if_smaller :: "'a :: linorder \<Rightarrow> 'a \<Rightarrow> 'a" where
  "set_if_smaller a b = (if a > b then b else a)"

definition test_all_bits :: "uint32 \<Rightarrow> uint32 \<Rightarrow> bool" where
  "test_all_bits a b \<longleftrightarrow> and a b = b"

definition array_elements :: "size_t \<Rightarrow> size_t \<Rightarrow> uint32" where
  "array_elements sizeof_A sizeof_A0 = sizeof_A div sizeof_A0"

definition MY_ALIGN :: "size_t \<Rightarrow> size_t \<Rightarrow> size_t" where
  "MY_ALIGN A L = and (A + L - 1) (not (L - 1))"

definition ALIGN_SIZE :: "size_t \<Rightarrow> size_t" where
  "ALIGN_SIZE A = MY_ALIGN A 8"

definition ADD_TO_PTR :: "addr \<Rightarrow> size_t \<Rightarrow> addr" where
  "ADD_TO_PTR ptr n = ptr + n"

definition PTR_BYTE_DIFF :: "addr \<Rightarrow> addr \<Rightarrow> int" where
  "PTR_BYTE_DIFF A B = c_int32 (uint (A - B))"

section \<open>Limits\<close>

definition INT_MIN64 :: int where "INT_MIN64 = not 0x7FFFFFFFFFFFFFFF"
definition INT_MAX64 :: int where "INT_MAX64 = 0x7FFFFFFFFFFFFFFF"
definition INT_MIN32 :: int where "INT_MIN32 = not 0x7FFFFFFF"
definition INT_MAX32 :: int where "INT_MAX32 = 0x7FFFFFFF"
definition UINT_MAX32 :: int where "UINT_MAX32 = 0xFFFFFFFF"
definition INT_MIN24 :: int where "INT_MIN24 = not 0x007FFFFF"
definition INT_MAX24 :: int where "INT_MAX24 = 0x007FFFFF"
definition UINT_MAX24 :: int where "UINT_MAX24 = 0x00FFFFFF"
definition INT_MIN16 :: int where "INT_MIN16 = not 0x7FFF"
definition INT_MAX16 :: int where "INT_MAX16 = 0x7FFF"
definition UINT_MAX16 :: int where "UINT_MAX16 = 0xFFFF"
definition INT_MIN8 :: int where "INT_MIN8 = not 0x7F"
definition INT_MAX8 :: int where "INT_MAX8 = 0x7F"
definition UINT_MAX8 :: int where "UINT_MAX8 = 0xFF"

lemmas limit_defs = INT_MIN64_def INT_MAX64_def INT_MIN32_def INT_MAX32_def UINT_MAX32_def INT_MIN24_def INT_MAX24_def
  UINT_MAX24_def INT_MIN16_def INT_MAX16_def UINT_MAX16_def INT_MIN8_def INT_MAX8_def UINT_MAX8_def

section \<open>The end of an error message\<close>

text \<open>
  The literal \<^verbatim>\<open>"\r\n\t\0x20"\<close>: the escape \<^verbatim>\<open>\0\<close> is a byte of its own, \<^verbatim>\<open>x20\<close> three
  more.  \<^verbatim>\<open>strchr\<close> finds a byte in front of the first NUL, and the NUL itself.
\<close>

definition trim_literal :: "uchar list" where
  "trim_literal = [13, 10, 9, 0, 0x78, 0x32, 0x30, 0]"

definition strchr :: "uchar list \<Rightarrow> uchar \<Rightarrow> bool" where
  "strchr s c \<longleftrightarrow> c \<in> set (takeWhile (\<lambda>b. b \<noteq> 0) s) \<or> c = 0"

partial_function (option) dlerror_loop :: "mem \<Rightarrow> addr \<Rightarrow> addr \<Rightarrow> mem option" where
  "dlerror_loop m win_errormsg ptr =
     (if ptr \<ge> win_errormsg \<and> strchr trim_literal (m ptr)
      then dlerror_loop (m(ptr := 0)) win_errormsg (ptr - 1) else Some m)"

declare dlerror_loop.simps [code]

definition DLERROR_GENERATE ::
  "(addr \<Rightarrow> uint32 \<Rightarrow> mem \<Rightarrow> bool \<times> mem) \<Rightarrow> addr \<Rightarrow> addr \<Rightarrow> uint32 \<Rightarrow> mem \<Rightarrow> (addr \<times> mem) option" where
  "DLERROR_GENERATE FormatMessage win_errormsg empty_literal error_number m =
     (case FormatMessage win_errormsg error_number m of (ok, m1) \<Rightarrow>
        if ok then
          (case strlen_from m1 win_errormsg 0 of None \<Rightarrow> None
           | Some n \<Rightarrow> (case dlerror_loop m1 win_errormsg (win_errormsg + n - 1) of None \<Rightarrow> None
              | Some m2 \<Rightarrow> Some (win_errormsg, m2)))
        else Some (empty_literal, m1))"

section \<open>Lemmas\<close>

lemma strchr_trim: "strchr trim_literal c \<longleftrightarrow> c = 13 \<or> c = 10 \<or> c = 9 \<or> c = 0"
  by (auto simp: strchr_def trim_literal_def)

definition cstring :: "mem \<Rightarrow> addr \<Rightarrow> uchar list \<Rightarrow> bool" where
  "cstring m s xs \<longleftrightarrow> (\<forall>i < length xs. m (s + of_nat i) = xs ! i \<and> xs ! i \<noteq> 0) \<and> m (s + of_nat (length xs)) = 0"

definition rstrip :: "uchar list \<Rightarrow> uchar list" where
  "rstrip xs = rev (dropWhile (\<lambda>c. c = 13 \<or> c = 10 \<or> c = 9) (rev xs))"

lemma rstrip_simps [simp]:
  "rstrip [] = []"
  "rstrip (xs @ [x]) = (if x = 13 \<or> x = 10 \<or> x = 9 then rstrip xs else xs @ [x])"
  by (simp_all add: rstrip_def)

lemma and_not_mask: "and x (not (2 ^ k - 1)) = push_bit k (drop_bit k x)" for x :: "'a :: len word"
  by (rule bit_word_eqI) (auto simp: bit_simps mask_eq_exp_minus_1 [symmetric])

lemma unat_and_not_mask: "k < 32 \<Longrightarrow> unat (and x (not (2 ^ k - 1))) = unat x div 2 ^ k * 2 ^ k" for x :: size_t
proof -
  assume "k < 32"
  have x: "unat x < 2 ^ 32" using unsigned_less [of x, where ?'a = nat] by simp
  have "unat x div 2 ^ k * 2 ^ k \<le> unat x" by simp
  also note x
  finally have "take_bit 32 (unat x div 2 ^ k * 2 ^ k) = unat x div 2 ^ k * 2 ^ k" by (simp add: take_bit_eq_mod)
  then show ?thesis unfolding and_not_mask unsigned_push_bit_eq unsigned_drop_bit_eq
    using x by (simp add: push_bit_eq_mult drop_bit_eq_div take_bit_eq_mod)
qed

lemma round_up_nat: "0 < d \<Longrightarrow> a \<le> (a + d - 1) div d * d \<and> (a + d - 1) div d * d < a + (d :: nat)"
proof -
  assume "0 < d"
  moreover have "(a + d - 1) div d * d + (a + d - 1) mod d = a + d - 1" by (rule div_mult_mod_eq)
  moreover have "0 < d \<Longrightarrow> (a + d - 1) mod d < d" by (rule mod_less_divisor)
  ultimately show ?thesis by linarith
qed

lemma cstring_snoc: "cstring m s (xs @ [x]) \<longleftrightarrow> (\<forall>i < length xs. m (s + of_nat i) = xs ! i \<and> xs ! i \<noteq> 0) \<and>
    m (s + of_nat (length xs)) = x \<and> x \<noteq> 0 \<and> m (s + of_nat (Suc (length xs))) = 0"
  by (auto simp: cstring_def nth_append less_Suc_eq all_conj_distrib)

lemma dlerror_loop_trims:
  assumes "s \<noteq> 0" "unat s + length xs < 2 ^ 32" "cstring m s xs"
  shows "\<exists>m'. dlerror_loop m s (s + of_nat (length xs) - 1) = Some m' \<and> cstring m' s (rstrip xs) \<and>
    (\<forall>a. \<not> in_range s (length xs) a \<longrightarrow> m' a = m a)"
  using assms(2,3)
proof (induction xs arbitrary: m rule: rev_induct)
  case Nil
  have "unat (s - 1) < unat s" using assms(1) by (rule measure_unat)
  then have "\<not> s \<le> s - 1" by (simp add: word_le_nat_alt)
  then show ?case using Nil by (subst dlerror_loop.simps) simp
next
  case (snoc x xs)
  let ?p = "s + of_nat (length xs)"
  have up: "unat ?p = unat s + length xs" using snoc.prems(1) by (simp add: unat_word_ariths unat_of_nat)
  then have ge: "s \<le> ?p" by (simp add: word_le_nat_alt)
  have x: "m ?p = x" "x \<noteq> 0" using snoc.prems(2) by (simp_all add: cstring_snoc)
  have ptr: "s + of_nat (length (xs @ [x])) - 1 = ?p" and shorter: "unat s + length xs < 2 ^ 32"
    using snoc.prems(1) by simp_all
  show ?case
  proof (cases "x = 13 \<or> x = 10 \<or> x = 9")
    case False
    then have "dlerror_loop m s ?p = Some m" using x by (subst dlerror_loop.simps) (simp add: strchr_trim)
    then show ?thesis using False snoc.prems(2) unfolding ptr by simp
  next
    case True
    have "s + of_nat i \<noteq> ?p" if "i < length xs" for i
      using that snoc.prems(1) up by (auto simp: word_unat_eq_iff unat_word_ariths unat_of_nat)
    then have "cstring (m(?p := 0)) s xs" using snoc.prems(2) unfolding cstring_snoc by (simp add: cstring_def)
    then obtain m' where m': "dlerror_loop (m(?p := 0)) s (?p - 1) = Some m'" "cstring m' s (rstrip xs)"
      "\<forall>a. \<not> in_range s (length xs) a \<longrightarrow> m' a = (m(?p := 0)) a"
      using snoc.IH [of "m(?p := 0)"] shorter by blast
    have "dlerror_loop m s ?p = Some m'" using True x ge m'(1) by (subst dlerror_loop.simps) (auto simp: strchr_trim)
    moreover have "m' a = m a" if "\<not> in_range s (length (xs @ [x])) a" for a
      using that m'(3) snoc.prems(1) by (auto simp: in_range_def unat_of_nat)
    ultimately show ?thesis using True m'(2) unfolding ptr by auto
  qed
qed

section \<open>Properties\<close>

text \<open>C25: for a power of two, \<^verbatim>\<open>MY_ALIGN\<close> gives the least multiple that is not below the address, as long as
  the rounding does not pass the end of the address space; beyond that it wraps to 0.\<close>
theorem my_align_least_multiple:
  assumes "k < 32"
  shows "if unat A + 2 ^ k \<le> 2 ^ 32
    then unat A \<le> unat (MY_ALIGN A (2 ^ k)) \<and> unat (MY_ALIGN A (2 ^ k)) < unat A + 2 ^ k \<and>
      2 ^ k dvd unat (MY_ALIGN A (2 ^ k))
    else MY_ALIGN A (2 ^ k) = 0"
proof -
  let ?S = "unat A + 2 ^ k - 1"
  have k: "(2::nat) ^ k < 2 ^ 32" using assms by (rule power_strict_increasing) simp
  have one: "unat (2 ^ k - 1 :: size_t) = 2 ^ k - 1" 
  proof -
    have "unat (of_nat (2 ^ k - 1) :: size_t) = (2 ^ k - 1) mod 2 ^ 32" by (simp only: unat_of_nat) simp
    moreover have "(of_nat (2 ^ k - 1) :: size_t) = 2 ^ k - 1" by (simp add: of_nat_diff)
    ultimately show ?thesis using k by simp
  qed
  have "unat (A + (2 ^ k - 1)) = (unat A + (2 ^ k - 1)) mod 2 ^ 32" by (simp only: unat_word_ariths one) simp
  then have sum: "unat (A + 2 ^ k - 1) = ?S mod 2 ^ 32" by (simp only: add_diff_eq) simp
  have r: "unat (MY_ALIGN A (2 ^ k)) = ?S mod 2 ^ 32 div 2 ^ k * 2 ^ k"
    using unat_and_not_mask [OF assms] sum by (simp add: MY_ALIGN_def)
  show ?thesis
  proof (cases "unat A + 2 ^ k \<le> 2 ^ 32")
    case True
    then have "unat (MY_ALIGN A (2 ^ k)) = ?S div 2 ^ k * 2 ^ k" using r by simp
    then show ?thesis using True round_up_nat [of "2 ^ k" "unat A"] by simp
  next
    case False
    then have "?S mod 2 ^ 32 = ?S - 2 ^ 32" "?S - 2 ^ 32 < 2 ^ k"
      using unsigned_less [of A, where ?'a = nat] k by (simp_all add: mod_if)
    then have "unat (MY_ALIGN A (2 ^ k)) = 0" using r by simp
    then have "MY_ALIGN A (2 ^ k) = 0" by (simp only: unat_eq_zero)
    with False show ?thesis by simp
  qed
qed

theorem my_align_least_multiple_witness:
  "13 \<le> unat (ALIGN_SIZE 13) \<and> unat (ALIGN_SIZE 13) < 21 \<and> 8 dvd unat (ALIGN_SIZE 13)"
  using my_align_least_multiple [of 3 13] by (simp add: ALIGN_SIZE_def)

text \<open>The macros that read integers return values between the limits \<^verbatim>\<open>my_global.h\<close> defines for the width they read, and the
  limits are reached.\<close>
lemma korr_within_limits:
  "INT_MIN16 \<le> sint2korr m a \<and> sint2korr m a \<le> INT_MAX16 \<and>
   INT_MIN24 \<le> sint3korr m a \<and> sint3korr m a \<le> INT_MAX24 \<and>
   INT_MIN32 \<le> sint4korr m a \<and> sint4korr m a \<le> INT_MAX32 \<and>
   INT_MIN64 \<le> sint8korr m a \<and> sint8korr m a \<le> INT_MAX64 \<and>
   uint (uint2korr m a) \<le> UINT_MAX16 \<and> uint (uint3korr m a) \<le> UINT_MAX24 \<and> uint (uint4korr m a) \<le> UINT_MAX32 \<and>
   sint3korr (int3store m a INT_MIN24) a = INT_MIN24 \<and> sint3korr (int3store m a INT_MAX24) a = INT_MAX24 \<and>
   uint (uint3korr (int3store m a UINT_MAX24) a) = UINT_MAX24"
proof -
  have le: "0 \<le> le_val n m a" "le_val n m a < 256 ^ n" for n by (rule le_val_nonneg le_val_bound)+
  have s16: "INT_MIN16 \<le> c_int16 x" "c_int16 x \<le> INT_MAX16" for x
    using signed_take_bit_int_greater_eq_minus_exp [of 15 x] signed_take_bit_int_less_exp [of 15 x]
    by (simp_all add: limit_defs c_int16_def)
  have s32: "INT_MIN32 \<le> c_int32 x" "c_int32 x \<le> INT_MAX32" for x
    using signed_take_bit_int_greater_eq_minus_exp [of 31 x] signed_take_bit_int_less_exp [of 31 x]
    by (simp_all add: limit_defs c_int32_def)
  have s64: "INT_MIN64 \<le> c_int64 x" "c_int64 x \<le> INT_MAX64" for x
    using signed_take_bit_int_greater_eq_minus_exp [of 63 x] signed_take_bit_int_less_exp [of 63 x]
    by (simp_all add: limit_defs c_int64_def)
  have s24: "INT_MIN24 \<le> sint3korr m' a" "sint3korr m' a \<le> INT_MAX24" for m'
    using le_val_nonneg [of 3 m' a] le_val_bound [of 3 m' a] by (simp_all add: limit_defs sint3korr_le)
  have u16: "uint (uint2korr m a) \<le> UINT_MAX16" using uint_lt2p [of "uint2korr m a"] by (simp add: limit_defs)
  have u32: "uint (uint4korr m a) \<le> UINT_MAX32" using uint_lt2p [of "uint4korr m a"] by (simp add: limit_defs)
  have u24: "uint (uint3korr m a) \<le> UINT_MAX24" using le [of 3] by (simp add: limit_defs uint3korr_le uint_word_of_int)
  show ?thesis
    by (simp add: sint2korr_le sint4korr_le sint8korr_le s16 s24 s32 s64 u16 u24 u32)
      (simp add: limit_defs sint3korr_le uint3korr_le int3store_le uint_word_of_int le_val_le_put)
qed

text \<open>C28: \<^verbatim>\<open>DLERROR_GENERATE\<close> always returns; a message that the system could not format becomes the empty
  string, and a formatted one loses the carriage returns, line feeds and tabs at its end.  A blank at the end stays, and
  with it everything before: the literal of the loop ends at its NUL, so it does not name the blank.\<close>
theorem dlerror_generate_trims:
  assumes "fm win_errormsg error_number m = (ok, m1)" and "win_errormsg \<noteq> 0"
    and "cstring m1 win_errormsg xs" and "unat win_errormsg + length xs < 2 ^ 32"
  shows "if ok then \<exists>m2. DLERROR_GENERATE fm win_errormsg empty_literal error_number m = Some (win_errormsg, m2) \<and>
      cstring m2 win_errormsg (rstrip xs) \<and> (\<forall>ys. xs = ys @ [0x20] \<longrightarrow> rstrip xs = xs) \<and>
      (\<forall>a. \<not> in_range win_errormsg (length xs) a \<longrightarrow> m2 a = m1 a)
    else DLERROR_GENERATE fm win_errormsg empty_literal error_number m = Some (empty_literal, m1)"
proof -
  have "strlen_from m1 win_errormsg 0 = Some (of_nat (length xs))"
    using assms(3) by (intro strlen_from_terminated) (auto simp: cstring_def)
  moreover obtain m2 where "dlerror_loop m1 win_errormsg (win_errormsg + of_nat (length xs) - 1) = Some m2"
    "cstring m2 win_errormsg (rstrip xs)" "\<forall>a. \<not> in_range win_errormsg (length xs) a \<longrightarrow> m2 a = m1 a"
    using dlerror_loop_trims [OF assms(2,4,3)] by blast
  ultimately show ?thesis using assms(1) by (auto simp: DLERROR_GENERATE_def)
qed

theorem dlerror_generate_trims_witness:
  "\<exists>m2. DLERROR_GENERATE (\<lambda>_ _ _. (True, \<lambda>a. if a = 100 then 0x48 else if a = 101 then 0x20 else if a = 102 then 10 else 0))
      100 200 5 (\<lambda>_. 0) = Some (100, m2) \<and> cstring m2 100 [0x48, 0x20]"
proof -
  let ?m = "\<lambda>a :: addr. if a = 100 then 0x48 else if a = 101 then 0x20 else if a = 102 then 10 else 0 :: uchar"
  have "cstring ?m 100 ([0x48, 0x20] @ [10])" unfolding cstring_snoc by (simp add: All_less_Suc)
  then show ?thesis
    using dlerror_generate_trims [of "\<lambda>_ _ _. (True, ?m)" 100 5 "\<lambda>_. 0" True ?m "[0x48, 0x20] @ [10]" 200]
    by (auto simp del: append_Cons append_Nil) (auto simp: rstrip_def)
qed

end
