(* ===== verification/Macro_Scope.thy ===== *)
theory Macro_Scope
  imports My_Global M_String
begin

text \<open>
  Macros of \<^verbatim>\<open>my_global.h\<close> and \<^verbatim>\<open>m_string.h\<close> whose meaning depends on how arguments are put in: an argument is an expression, evaluated as often as it
  occurs in the body, and a name declared in the body hides the same name in an argument.  Expressions are programs that return a value and may change
  the variables; a block with a local variable is modelled with the local one beside the others.  The second part has the names for the functions on
  memory, which differ in the order of their arguments.
\<close>

section \<open>Variables and expressions\<close>

type_synonym vars = "string \<Rightarrow> int"
type_synonym expr = "vars \<Rightarrow> int \<times> vars"

definition pure_expr :: "(vars \<Rightarrow> int) \<Rightarrow> expr" where
  "pure_expr f s = (f s, s)"

text \<open>\<^verbatim>\<open>x++\<close>.\<close>

definition post_increment :: "string \<Rightarrow> expr" where
  "post_increment x s = (s x, s(x := s x + 1))"

text \<open>\<^verbatim>\<open>((a) > (b) ? (a) : (b))\<close>: the condition first, then the chosen argument again.\<close>

definition max_macro :: "expr \<Rightarrow> expr \<Rightarrow> expr" where
  "max_macro a b s = (let (x, s1) = a s; (y, s2) = b s1 in if x > y then a s2 else b s2)"

definition min_macro :: "expr \<Rightarrow> expr \<Rightarrow> expr" where
  "min_macro a b s = (let (x, s1) = a s; (y, s2) = b s1 in if x < y then a s2 else b s2)"

section \<open>Integer types and conversions\<close>

text \<open>The integer types of the target by their sizes, and the conversion of a value in an assignment: modulo the width, which C says of unsigned
  types and the compilers of the target do for signed ones.\<close>

datatype int_rank = Rank_char | Rank_short | Rank_int | Rank_long | Rank_longlong

datatype int_type = Signed_type int_rank | Unsigned_type int_rank

fun rank_bits :: "int_rank \<Rightarrow> nat" where
  "rank_bits Rank_char = 8"
| "rank_bits Rank_short = 16"
| "rank_bits Rank_int = 32"
| "rank_bits Rank_long = 32"
| "rank_bits Rank_longlong = 64"

fun type_bits :: "int_type \<Rightarrow> nat" where
  "type_bits (Signed_type k) = rank_bits k"
| "type_bits (Unsigned_type k) = rank_bits k"

fun is_signed :: "int_type \<Rightarrow> bool" where
  "is_signed (Signed_type _) = True"
| "is_signed (Unsigned_type _) = False"

fun convert :: "int_type \<Rightarrow> int \<Rightarrow> int" where
  "convert (Signed_type k) x = signed_take_bit (rank_bits k - 1) x"
| "convert (Unsigned_type k) x = take_bit (rank_bits k) x"

definition fits_type :: "int_type \<Rightarrow> int \<Rightarrow> bool" where
  "fits_type ty x \<longleftrightarrow> convert ty x = x"

lemma rank_bits_pos: "0 < rank_bits k"
  by (cases k) simp_all

lemma convert_through_wider:
  assumes "type_bits ty \<le> type_bits t"
  shows "convert ty (convert t x) = convert ty x"
proof -
  have le: "rank_bits k - 1 \<le> rank_bits l - 1" "rank_bits k \<le> Suc (rank_bits l - 1)" "\<not> rank_bits l \<le> rank_bits k - 1"
    if "rank_bits k \<le> rank_bits l" for k l
    using that rank_bits_pos [of k] rank_bits_pos [of l] by linarith+
  show ?thesis
    using assms le by (cases ty; cases t) (simp_all add: signed_take_bit_take_bit take_bit_signed_take_bit min_def)
qed

lemma convert_through_narrower:
  assumes "type_bits t \<le> type_bits ty" "is_signed t = is_signed ty"
  shows "convert ty (convert t x) = convert t x"
proof -
  have "min (rank_bits k - Suc 0) (rank_bits l - Suc 0) = rank_bits l - Suc 0" "min (rank_bits k) (rank_bits l) = rank_bits l"
    if "rank_bits l \<le> rank_bits k" for k l
    using that by simp_all
  then show ?thesis using assms by (cases ty; cases t) simp_all
qed

section \<open>A block with a local variable\<close>

record scope =
  outer :: vars
  local_dummy :: int

definition read_in :: "scope \<Rightarrow> string \<Rightarrow> int" where
  "read_in e x = (if x = ''dummy'' then local_dummy e else outer e x)"

definition write_in :: "string \<Rightarrow> int \<Rightarrow> scope \<Rightarrow> scope" where
  "write_in x v e = (if x = ''dummy'' then e\<lparr>local_dummy := v\<rparr> else e\<lparr>outer := (outer e)(x := v)\<rparr>)"

text \<open>In the block the name \<^verbatim>\<open>dummy\<close> has the type \<^verbatim>\<open>t\<close>, every other name its declared type \<open>ty\<close>; an assignment converts to
  the type of its left side.\<close>

definition type_in :: "int_type \<Rightarrow> (string \<Rightarrow> int_type) \<Rightarrow> string \<Rightarrow> int_type" where
  "type_in t ty x = (if x = ''dummy'' then t else ty x)"

definition assign_in :: "int_type \<Rightarrow> (string \<Rightarrow> int_type) \<Rightarrow> string \<Rightarrow> string \<Rightarrow> scope \<Rightarrow> scope" where
  "assign_in t ty x y e = write_in x (convert (type_in t ty x) (read_in e y)) e"

text \<open>\<^verbatim>\<open>{ t dummy; dummy= a; a= b; b= dummy; }\<close>; the local variable starts with any value \<open>u\<close>.\<close>

definition swap_variables :: "int_type \<Rightarrow> (string \<Rightarrow> int_type) \<Rightarrow> int \<Rightarrow> string \<Rightarrow> string \<Rightarrow> vars \<Rightarrow> vars" where
  "swap_variables t ty u a b s =
     (let e0 = \<lparr>outer = s, local_dummy = u\<rparr>;
          e1 = assign_in t ty ''dummy'' a e0;
          e2 = assign_in t ty a b e1;
          e3 = assign_in t ty b ''dummy'' e2
      in outer e3)"

section \<open>Names for functions on memory\<close>

text \<open>\<open>memset\<close> and \<open>memmove\<close> of the C library: the object, the byte and the number of bytes, and destination, source and number of bytes.\<close>

definition memset :: "addr \<Rightarrow> uchar \<Rightarrow> nat \<Rightarrow> mem \<Rightarrow> mem" where
  "memset A C B m = (\<lambda>p. if in_range A B p then C else m p)"

definition memmove :: "addr \<Rightarrow> addr \<Rightarrow> nat \<Rightarrow> mem \<Rightarrow> mem" where
  "memmove d s n m = (\<lambda>p. if in_range d n p then m (s + (p - d)) else m p)"

definition bfill :: "addr \<Rightarrow> nat \<Rightarrow> uchar \<Rightarrow> mem \<Rightarrow> mem" where
  "bfill A B C = memset A C B"

definition bzero :: "addr \<Rightarrow> nat \<Rightarrow> mem \<Rightarrow> mem" where
  "bzero A B = memset A 0 B"

definition bmove :: "addr \<Rightarrow> addr \<Rightarrow> nat \<Rightarrow> mem \<Rightarrow> mem" where
  "bmove d s n = memmove d s n"

section \<open>Properties\<close>

text \<open>With arguments that change nothing the macros are the maximum and the minimum; with others the larger argument is evaluated twice, so that the
  value may be none of the two.\<close>

lemma max_min_pure:
  "max_macro (pure_expr f) (pure_expr g) = pure_expr (\<lambda>s. max (f s) (g s))"
  "min_macro (pure_expr f) (pure_expr g) = pure_expr (\<lambda>s. min (f s) (g s))"
  by (auto simp: fun_eq_iff max_macro_def min_macro_def pure_expr_def max_def min_def)

lemma max_evaluates_twice:
  "s x > k \<Longrightarrow> max_macro (post_increment x) (pure_expr (\<lambda>_. k)) s = (s x + 1, s(x := s x + 2))"
  by (simp add: max_macro_def post_increment_def pure_expr_def add.commute)

text \<open>Filling with zeros is clearing; moving forth and back between ranges that do not overlap leaves the first range as it was.\<close>

lemma bfill_bzero: "bfill A B 0 = bzero A B"
  by (simp add: bfill_def bzero_def)

lemma bmove_back:
  assumes "\<And>p. in_range s n p \<Longrightarrow> \<not> in_range d n p"
  shows "in_range s n p \<Longrightarrow> bmove s d n (bmove d s n m) p = m p"
  using assms [of p] by (simp add: bmove_def memmove_def in_range_def algebra_simps)

text \<open>What the block leaves, before anything is assumed of the types.\<close>

lemma swap_variables_result:
  "a \<noteq> ''dummy'' \<Longrightarrow> b \<noteq> ''dummy'' \<Longrightarrow>
    swap_variables t ty u a b s = s(a := convert (ty a) (s b), b := convert (ty b) (convert t (s a)))"
  "b \<noteq> ''dummy'' \<Longrightarrow> swap_variables t ty u ''dummy'' b s = s(b := convert (ty b) (convert t (s b)))"
  "a \<noteq> ''dummy'' \<Longrightarrow> swap_variables t ty u a ''dummy'' s = s(a := convert (ty a) (convert t (s a)))"
  "swap_variables t ty u ''dummy'' ''dummy'' s = s"
  by (simp_all add: swap_variables_def assign_in_def read_in_def write_in_def type_in_def Let_def)

text \<open>C29: \<^verbatim>\<open>swap_variables(t, a, b)\<close> on two integer variables of one type.  With a type \<^verbatim>\<open>t\<close> of at least their width, signed or not, it exchanges their values and changes no other
  variable, also when both are the same variable.  With a narrower \<^verbatim>\<open>t\<close> of the same signedness the first value is cut off in the variable the macro declares, and the exchange is
  right exactly when that value fits into \<^verbatim>\<open>t\<close>.  When one of the two has the name of the declared variable, \<^verbatim>\<open>dummy\<close>, the macro works on
  its own variable, and with a \<^verbatim>\<open>t\<close> that is wide enough it changes nothing at all.\<close>
theorem swap_variables_swaps:
  assumes "ty a = ty b" "fits_type (ty a) (s a)" "fits_type (ty b) (s b)"
  shows "(a \<noteq> ''dummy'' \<and> b \<noteq> ''dummy'' \<longrightarrow>
      (type_bits (ty a) \<le> type_bits t \<longrightarrow> swap_variables t ty u a b s = s(a := s b, b := s a)) \<and>
      (is_signed t = is_signed (ty a) \<longrightarrow>
        (swap_variables t ty u a b s = s(a := s b, b := s a) \<longleftrightarrow> fits_type t (s a)))) \<and>
    ((a = ''dummy'' \<or> b = ''dummy'') \<and> type_bits (ty a) \<le> type_bits t \<longrightarrow> swap_variables t ty u a b s = s)"
proof -
  have own: "convert (ty a) (s a) = s a" "convert (ty b) (s b) = s b" "convert (ty b) (s a) = s a" "convert (ty a) (s b) = s b"
    using assms by (simp_all add: fits_type_def)
  have wide: "convert (ty a) (convert t x) = convert (ty a) x" if "type_bits (ty a) \<le> type_bits t" for x
    using convert_through_wider [OF that] .
  have same: "convert (ty b) (convert t (s a)) = s a \<longleftrightarrow> fits_type t (s a)" if "is_signed t = is_signed (ty a)"
  proof (cases "type_bits (ty a) \<le> type_bits t")
    case True
    have "convert t (convert (ty a) (s a)) = convert (ty a) (s a)"
      using convert_through_narrower [of "ty a" t] True that by simp
    then show ?thesis using wide [OF True] own assms(1) by (simp add: fits_type_def)
  next
    case False
    then show ?thesis using convert_through_narrower [of t "ty b" "s a"] that assms(1) by (simp add: fits_type_def)
  qed
  show ?thesis
  proof (intro conjI impI, goal_cases)
    case 1
    then show ?case using wide [of "s a"] own assms(1) by (simp add: swap_variables_result(1))
  next
    case 2
    then have "swap_variables t ty u a b s = s(a := s b, b := s a) \<longleftrightarrow> convert (ty b) (convert t (s a)) = s a"
      using own by (auto simp: swap_variables_result(1) fun_eq_iff)
    then show ?case using same 2 by simp
  next
    case 3
    then show ?case
      using wide own assms(1) swap_variables_result
      by (cases "a = ''dummy''"; cases "b = ''dummy''") auto
  qed
qed

theorem swap_variables_swaps_witness:
  "swap_variables (Signed_type Rank_int) (\<lambda>_. Signed_type Rank_int) 0 ''x'' ''y'' ((\<lambda>_. 0)(''x'' := 300, ''y'' := - 7)) ''y'' = 300 \<and>
   swap_variables (Signed_type Rank_char) (\<lambda>_. Signed_type Rank_int) 0 ''x'' ''y'' ((\<lambda>_. 0)(''x'' := 300, ''y'' := - 7))
     \<noteq> (\<lambda>_. 0)(''x'' := - 7, ''y'' := 300)"
proof -
  let ?s = "((\<lambda>_. 0)(''x'' := 300, ''y'' := - 7)) :: vars" and ?ty = "\<lambda>_ :: string. Signed_type Rank_int"
  have fit: "fits_type (?ty ''x'') (?s ''x'')" "fits_type (?ty ''y'') (?s ''y'')"
    by (simp_all add: fits_type_def signed_take_bit_eq_if_positive signed_take_bit_int_eq_self)
  have narrow: "\<not> fits_type (Signed_type Rank_char) (?s ''x'')"
    by (simp add: fits_type_def)
  have swapped: "?s(''x'' := ?s ''y'', ''y'' := ?s ''x'') = (\<lambda>_. 0)(''x'' := - 7, ''y'' := 300)" by (simp add: fun_eq_iff)
  from swap_variables_swaps [of ?ty "''x''" "''y''" ?s "Signed_type Rank_int" 0, OF refl fit]
    swap_variables_swaps [of ?ty "''x''" "''y''" ?s "Signed_type Rank_char" 0, OF refl fit] narrow
  show ?thesis unfolding swapped by simp
qed

end
