(* ===== verification/My_Dbug.thy ===== *)
theory My_Dbug
  imports Mysql_Prelude
begin

text \<open>
  The debugging macros of \<^verbatim>\<open>my_dbug.h\<close>, in a debug build and in a build with \<^verbatim>\<open>DBUG_OFF\<close>.

  A macro stands for a statement: a function from the state of the program to how control goes on, falling through to the
  next statement, returning from the enclosing function or ending the process, and the new state.  An argument of a macro is an expression: a function from the
  state to a value and a new state, evaluated where the expansion evaluates it, from left to right, and in a release build mostly not at all.  The library of
  \<^verbatim>\<open>dbug.c\<close> is not part of the headers: its functions are the fields of the record \<open>dbug_lib\<close>, an argument of every definition.

  The lemmas show that the debug build of a function does what the release build does while the library keeps to its own
  state, no keyword is enabled and the dropped arguments have no effect on the program, and which macros break that rule.
\<close>

section \<open>Statements\<close>

datatype 'r flow = Fall | Returned 'r | Terminated

type_synonym ('w, 'r) stmt = "'w \<Rightarrow> 'r flow \<times> 'w"
type_synonym ('w, 'a) cexpr = "'w \<Rightarrow> 'a \<times> 'w"

definition const_expr :: "'a \<Rightarrow> ('w, 'a) cexpr" where
  "const_expr x w = (x, w)"

definition empty_stmt :: "('w, 'r) stmt" where
  "empty_stmt w = (Fall, w)"

definition effect :: "('w \<Rightarrow> 'w) \<Rightarrow> ('w, 'r) stmt" where
  "effect f w = (Fall, f w)"

definition return_stmt :: "'r \<Rightarrow> ('w, 'r) stmt" where
  "return_stmt r w = (Returned r, w)"

text \<open>A call of a function of the library with an argument, and \<^verbatim>\<open>return(a1);\<close>.\<close>

definition with_arg :: "('w, 'a) cexpr \<Rightarrow> ('a \<Rightarrow> 'w \<Rightarrow> 'w) \<Rightarrow> ('w, 'r) stmt" where
  "with_arg e f w = (case e w of (x, w1) \<Rightarrow> (Fall, f x w1))"

definition return_value :: "('w, 'r) cexpr \<Rightarrow> ('w, 'r) stmt" where
  "return_value e w = (case e w of (x, w1) \<Rightarrow> (Returned x, w1))"

definition stmt_seq :: "('w, 'r) stmt \<Rightarrow> ('w, 'r) stmt \<Rightarrow> ('w, 'r) stmt" where
  "stmt_seq a b w = (case a w of (Fall, w1) \<Rightarrow> b w1 | (f, w1) \<Rightarrow> (f, w1))"

definition terminate :: "('w, 'r) stmt" where
  "terminate w = (Terminated, w)"

text \<open>The functions of the library, and the functions of the language the macros call.\<close>

record 'w dbug_lib =
  db_enter :: "string \<Rightarrow> string \<Rightarrow> uint32 \<Rightarrow> 'w \<Rightarrow> 'w"
  db_return :: "uint32 \<Rightarrow> 'w \<Rightarrow> 'w"
  db_keyword :: "string \<Rightarrow> bool \<Rightarrow> 'w \<Rightarrow> bool \<times> 'w"
  db_pargs :: "uint32 \<Rightarrow> string \<Rightarrow> 'w \<Rightarrow> 'w"
  db_doprnt :: "string \<Rightarrow> 'w \<Rightarrow> 'w"
  db_push :: "string \<Rightarrow> 'w \<Rightarrow> 'w"
  db_pop :: "'w \<Rightarrow> 'w"
  db_set :: "string \<Rightarrow> 'w \<Rightarrow> 'w"
  db_set_init :: "string \<Rightarrow> 'w \<Rightarrow> 'w"
  db_process :: "string \<Rightarrow> 'w \<Rightarrow> 'w"
  db_dump :: "uint32 \<Rightarrow> string \<Rightarrow> addr \<Rightarrow> size_t \<Rightarrow> 'w \<Rightarrow> 'w"
  db_end :: "'w \<Rightarrow> 'w"
  db_lock_file :: "'w \<Rightarrow> 'w"
  db_unlock_file :: "'w \<Rightarrow> 'w"
  db_flush :: "'w \<Rightarrow> 'w"
  db_get_func :: "'w \<Rightarrow> string \<times> 'w"
  dbug_on_assign :: "bool \<Rightarrow> 'w \<Rightarrow> 'w"
  strxnmov :: "nat \<Rightarrow> string list \<Rightarrow> string"

section \<open>The macros\<close>

text \<open>The first argument of each definition says whether \<^verbatim>\<open>DBUG_OFF\<close> is defined; \<open>file\<close> and \<open>line\<close> are \<^verbatim>\<open>__FILE__\<close> and \<^verbatim>\<open>__LINE__\<close>.\<close>

definition DBUG_ENTER :: "bool \<Rightarrow> 'w dbug_lib \<Rightarrow> ('w, string) cexpr \<Rightarrow> string \<Rightarrow> uint32 \<Rightarrow> ('w, 'r) stmt" where
  "DBUG_ENTER off lib a srcfile line = (if off then empty_stmt else with_arg a (\<lambda>x. db_enter lib x srcfile line))"

definition DBUG_LEAVE :: "bool \<Rightarrow> 'w dbug_lib \<Rightarrow> uint32 \<Rightarrow> ('w, 'r) stmt" where
  "DBUG_LEAVE off lib line = (if off then empty_stmt else effect (db_return lib line))"

definition DBUG_RETURN :: "bool \<Rightarrow> 'w dbug_lib \<Rightarrow> uint32 \<Rightarrow> ('w, 'r) cexpr \<Rightarrow> ('w, 'r) stmt" where
  "DBUG_RETURN off lib line a1 =
     (if off then return_value a1 else stmt_seq (DBUG_LEAVE off lib line) (return_value a1))"

definition DBUG_VOID_RETURN :: "bool \<Rightarrow> 'w dbug_lib \<Rightarrow> uint32 \<Rightarrow> ('w, unit) stmt" where
  "DBUG_VOID_RETURN off lib line =
     (if off then return_stmt () else stmt_seq (DBUG_LEAVE off lib line) (return_stmt ()))"

definition DBUG_EXECUTE :: "bool \<Rightarrow> 'w dbug_lib \<Rightarrow> ('w, string) cexpr \<Rightarrow> ('w, 'r) stmt \<Rightarrow> ('w, 'r) stmt" where
  "DBUG_EXECUTE off lib keyword a1 = (if off then empty_stmt
     else (\<lambda>w. case keyword w of (k, w0) \<Rightarrow> case db_keyword lib k False w0 of (on, w1) \<Rightarrow> if on then a1 w1 else (Fall, w1)))"

definition DBUG_EXECUTE_IF :: "bool \<Rightarrow> 'w dbug_lib \<Rightarrow> ('w, string) cexpr \<Rightarrow> ('w, 'r) stmt \<Rightarrow> ('w, 'r) stmt" where
  "DBUG_EXECUTE_IF off lib keyword a1 = (if off then empty_stmt
     else (\<lambda>w. case keyword w of (k, w0) \<Rightarrow> case db_keyword lib k True w0 of (on, w1) \<Rightarrow> if on then a1 w1 else (Fall, w1)))"

definition DBUG_EVALUATE :: "bool \<Rightarrow> 'w dbug_lib \<Rightarrow> ('w, string) cexpr \<Rightarrow> ('w, 'a) cexpr \<Rightarrow> ('w, 'a) cexpr \<Rightarrow> ('w, 'a) cexpr" where
  "DBUG_EVALUATE off lib keyword a1 a2 = (if off then a2
     else (\<lambda>w. case keyword w of (k, w0) \<Rightarrow> case db_keyword lib k False w0 of (on, w1) \<Rightarrow> if on then a1 w1 else a2 w1))"

definition DBUG_EVALUATE_IF :: "bool \<Rightarrow> 'w dbug_lib \<Rightarrow> ('w, string) cexpr \<Rightarrow> ('w, 'a) cexpr \<Rightarrow> ('w, 'a) cexpr \<Rightarrow> ('w, 'a) cexpr" where
  "DBUG_EVALUATE_IF off lib keyword a1 a2 = (if off then a2
     else (\<lambda>w. case keyword w of (k, w0) \<Rightarrow> case db_keyword lib k True w0 of (on, w1) \<Rightarrow> if on then a1 w1 else a2 w1))"

text \<open>\<open>arglist\<close> is the parenthesised list with the format; its value is the text it stands for.\<close>

definition DBUG_PRINT :: "bool \<Rightarrow> 'w dbug_lib \<Rightarrow> uint32 \<Rightarrow> ('w, string) cexpr \<Rightarrow> ('w, string) cexpr \<Rightarrow> ('w, 'r) stmt" where
  "DBUG_PRINT off lib line keyword arglist =
     (if off then empty_stmt else stmt_seq (with_arg keyword (db_pargs lib line)) (with_arg arglist (db_doprnt lib)))"

definition DBUG_PUSH :: "bool \<Rightarrow> 'w dbug_lib \<Rightarrow> ('w, string) cexpr \<Rightarrow> ('w, 'r) stmt" where
  "DBUG_PUSH off lib a1 = (if off then empty_stmt else with_arg a1 (db_push lib))"

definition DBUG_POP :: "bool \<Rightarrow> 'w dbug_lib \<Rightarrow> ('w, 'r) stmt" where
  "DBUG_POP off lib = (if off then empty_stmt else effect (db_pop lib))"

definition DBUG_SET :: "bool \<Rightarrow> 'w dbug_lib \<Rightarrow> ('w, string) cexpr \<Rightarrow> ('w, 'r) stmt" where
  "DBUG_SET off lib a1 = (if off then empty_stmt else with_arg a1 (db_set lib))"

definition DBUG_SET_INITIAL :: "bool \<Rightarrow> 'w dbug_lib \<Rightarrow> ('w, string) cexpr \<Rightarrow> ('w, 'r) stmt" where
  "DBUG_SET_INITIAL off lib a1 = (if off then empty_stmt else with_arg a1 (db_set_init lib))"

definition DBUG_PROCESS :: "bool \<Rightarrow> 'w dbug_lib \<Rightarrow> ('w, string) cexpr \<Rightarrow> ('w, 'r) stmt" where
  "DBUG_PROCESS off lib a1 = (if off then empty_stmt else with_arg a1 (db_process lib))"

definition DBUG_DUMP ::
  "bool \<Rightarrow> 'w dbug_lib \<Rightarrow> uint32 \<Rightarrow> ('w, string) cexpr \<Rightarrow> ('w, addr) cexpr \<Rightarrow> ('w, size_t) cexpr \<Rightarrow> ('w, 'r) stmt" where
  "DBUG_DUMP off lib line keyword a1 a2 = (if off then empty_stmt
     else (\<lambda>w. case keyword w of (k, w1) \<Rightarrow> case a1 w1 of (p, w2) \<Rightarrow> case a2 w2 of (n, w3) \<Rightarrow> (Fall, db_dump lib line k p n w3)))"

definition DBUG_END :: "bool \<Rightarrow> 'w dbug_lib \<Rightarrow> ('w, 'r) stmt" where
  "DBUG_END off lib = (if off then empty_stmt else effect (db_end lib))"

definition DBUG_LOCK_FILE :: "bool \<Rightarrow> 'w dbug_lib \<Rightarrow> ('w, 'r) stmt" where
  "DBUG_LOCK_FILE off lib = (if off then empty_stmt else effect (db_lock_file lib))"

definition DBUG_UNLOCK_FILE :: "bool \<Rightarrow> 'w dbug_lib \<Rightarrow> ('w, 'r) stmt" where
  "DBUG_UNLOCK_FILE off lib = (if off then empty_stmt else effect (db_unlock_file lib))"

definition DEBUGGER_OFF :: "bool \<Rightarrow> 'w dbug_lib \<Rightarrow> ('w, 'r) stmt" where
  "DEBUGGER_OFF off lib = (if off then empty_stmt else effect (dbug_on_assign lib False))"

definition DEBUGGER_ON :: "bool \<Rightarrow> 'w dbug_lib \<Rightarrow> ('w, 'r) stmt" where
  "DEBUGGER_ON off lib = (if off then empty_stmt else effect (dbug_on_assign lib True))"

text \<open>A failed \<^verbatim>\<open>assert\<close>, \<^verbatim>\<open>abort\<close>, \<^verbatim>\<open>_exit\<close> and the signal of \<^verbatim>\<open>_db_suicide_\<close> end the process; \<^verbatim>\<open>assert\<close> is
  the one of a build without \<^verbatim>\<open>NDEBUG\<close>, which evaluates its argument.\<close>

definition DBUG_ASSERT :: "bool \<Rightarrow> ('w, bool) cexpr \<Rightarrow> ('w, 'r) stmt" where
  "DBUG_ASSERT off A = (if off then empty_stmt else (\<lambda>w. case A w of (x, w1) \<Rightarrow> if x then (Fall, w1) else terminate w1))"

definition DBUG_ABORT :: "bool \<Rightarrow> 'w dbug_lib \<Rightarrow> ('w, 'r) stmt" where
  "DBUG_ABORT off lib = (if off then empty_stmt else stmt_seq (effect (db_flush lib)) terminate)"

definition DBUG_SUICIDE :: "bool \<Rightarrow> 'w dbug_lib \<Rightarrow> ('w, 'r) stmt" where
  "DBUG_SUICIDE off lib = (if off then empty_stmt else DBUG_ABORT off lib)"

text \<open>\<^verbatim>\<open>DBUG_CRASH_ENTER\<close> puts its argument in twice; \<^verbatim>\<open>DBUG_CRASH_RETURN\<close> of a debug build drops its argument.\<close>

definition DBUG_CHECK_CRASH :: "'w dbug_lib \<Rightarrow> ('w, string) cexpr \<Rightarrow> string \<Rightarrow> ('w, 'r) stmt" where
  "DBUG_CHECK_CRASH lib func op w = (case func w of (f, w1) \<Rightarrow>
     DBUG_EXECUTE_IF False lib (const_expr (strxnmov lib (255 - 1) [f, op])) (DBUG_ABORT False lib) w1)"

definition DBUG_CRASH_ENTER :: "bool \<Rightarrow> 'w dbug_lib \<Rightarrow> ('w, string) cexpr \<Rightarrow> string \<Rightarrow> uint32 \<Rightarrow> ('w, 'r) stmt" where
  "DBUG_CRASH_ENTER off lib func srcfile line = (if off then empty_stmt
     else stmt_seq (DBUG_ENTER off lib func srcfile line) (DBUG_CHECK_CRASH lib func ''_crash_enter''))"

definition DBUG_CRASH_RETURN :: "bool \<Rightarrow> 'w dbug_lib \<Rightarrow> ('w, 'r) cexpr \<Rightarrow> ('w, 'r) stmt" where
  "DBUG_CRASH_RETURN off lib val =
     (if off then return_value val else DBUG_CHECK_CRASH lib (db_get_func lib) ''_crash_return'')"

definition DBUG_CRASH_VOID_RETURN :: "bool \<Rightarrow> 'w dbug_lib \<Rightarrow> ('w, unit) stmt" where
  "DBUG_CRASH_VOID_RETURN off lib =
     (if off then return_stmt () else DBUG_CHECK_CRASH lib (db_get_func lib) ''_crash_return'')"

section \<open>Bodies of functions\<close>

text \<open>
  What a release build relies on: the library leaves the program's view \<open>v\<close> of the state alone, and no
  debugging keyword is enabled.
\<close>

definition dbug_quiet :: "('w \<Rightarrow> 'v) \<Rightarrow> 'w dbug_lib \<Rightarrow> bool" where
  "dbug_quiet v lib \<longleftrightarrow> (\<forall>w. (\<forall>a f n. v (db_enter lib a f n w) = v w) \<and> (\<forall>n. v (db_return lib n w) = v w) \<and>
     (\<forall>k st. \<not> fst (db_keyword lib k st w) \<and> v (snd (db_keyword lib k st w)) = v w) \<and>
     (\<forall>n k. v (db_pargs lib n k w) = v w) \<and> (\<forall>a. v (db_doprnt lib a w) = v w) \<and>
     (\<forall>a. v (db_push lib a w) = v w) \<and> v (db_pop lib w) = v w \<and> (\<forall>a. v (db_set lib a w) = v w) \<and>
     (\<forall>a. v (db_set_init lib a w) = v w) \<and> (\<forall>a. v (db_process lib a w) = v w) \<and>
     (\<forall>n k a l. v (db_dump lib n k a l w) = v w) \<and> v (db_end lib w) = v w \<and> v (db_lock_file lib w) = v w \<and>
     v (db_unlock_file lib w) = v w \<and> v (db_flush lib w) = v w \<and> v (snd (db_get_func lib w)) = v w \<and>
     (\<forall>b. v (dbug_on_assign lib b w) = v w))"

text \<open>Expressions: one that leaves the view alone, whatever its value, and two that have the same value and the same effect on the view.\<close>

definition quiet_arg :: "('w \<Rightarrow> 'v) \<Rightarrow> ('w, 'a) cexpr \<Rightarrow> bool" where
  "quiet_arg v e \<longleftrightarrow> (\<forall>w. v (snd (e w)) = v w)"

definition agrees_expr :: "('w \<Rightarrow> 'v) \<Rightarrow> ('w, 'a) cexpr \<Rightarrow> ('w, 'a) cexpr \<Rightarrow> bool" where
  "agrees_expr v d e \<longleftrightarrow> (\<forall>w w'. v w = v w' \<longrightarrow> fst (d w) = fst (e w') \<and> v (snd (d w)) = v (snd (e w')))"

text \<open>Two statements agree on \<open>v\<close>, except that the first may end the process.\<close>

definition agrees :: "('w \<Rightarrow> 'v) \<Rightarrow> ('w, 'r) stmt \<Rightarrow> ('w, 'r) stmt \<Rightarrow> bool" where
  "agrees v a b \<longleftrightarrow> (\<forall>w w'. v w = v w' \<longrightarrow>
     fst (a w) = Terminated \<or> fst (a w) = fst (b w') \<and> v (snd (a w)) = v (snd (b w')))"

text \<open>Expressions in terms of the build: plain ones of the program, with any effects, and the two macros that are expressions.\<close>

inductive built_expr :: "('w \<Rightarrow> 'v) \<Rightarrow> 'w dbug_lib \<Rightarrow> (bool \<Rightarrow> ('w, 'a) cexpr) \<Rightarrow> bool" for v lib where
  plain_expr: "agrees_expr v e e \<Longrightarrow> built_expr v lib (\<lambda>_. e)"
| evaluate: "quiet_arg v keyword \<Longrightarrow> built_expr v lib a2 \<Longrightarrow> built_expr v lib (\<lambda>off. DBUG_EVALUATE off lib keyword (a1 off) (a2 off))"
| evaluate_if: "quiet_arg v keyword \<Longrightarrow> built_expr v lib a2 \<Longrightarrow> built_expr v lib (\<lambda>off. DBUG_EVALUATE_IF off lib keyword (a1 off) (a2 off))"

text \<open>
  A body in terms of the build: plain statements of the program, statements that use the value of an expression (an assignment, a call), the macros,
  sequences and conditionals.  The arguments that a release build drops have no effect on the view; that of an assertion has none when the assertion holds.
\<close>

inductive built :: "('w \<Rightarrow> 'v) \<Rightarrow> 'w dbug_lib \<Rightarrow> (bool \<Rightarrow> ('w, 'r) stmt) \<Rightarrow> bool" for v lib where
  plain: "agrees v s s \<Longrightarrow> built v lib (\<lambda>_. s)"
| use_value: "built_expr v lib (e :: bool \<Rightarrow> ('w, int) cexpr) \<Longrightarrow> (\<And>x. agrees v (s x) (s x)) \<Longrightarrow>
    built v lib (\<lambda>off w. case e off w of (x, w1) \<Rightarrow> s x w1)"
| seq: "built v lib a \<Longrightarrow> built v lib b \<Longrightarrow> built v lib (\<lambda>off. stmt_seq (a off) (b off))"
| cond: "built_expr v lib (c :: bool \<Rightarrow> ('w, bool) cexpr) \<Longrightarrow> built v lib a \<Longrightarrow> built v lib b \<Longrightarrow>
    built v lib (\<lambda>off w. case c off w of (x, w1) \<Rightarrow> if x then a off w1 else b off w1)"
| enter: "quiet_arg v func \<Longrightarrow> built v lib (\<lambda>off. DBUG_ENTER off lib func srcfile line)"
| leave: "built v lib (\<lambda>off. DBUG_LEAVE off lib line)"
| ret: "built_expr v lib a1 \<Longrightarrow> built v lib (\<lambda>off. DBUG_RETURN off lib line (a1 off))"
| execute: "quiet_arg v keyword \<Longrightarrow> built v lib (\<lambda>off. DBUG_EXECUTE off lib keyword a)"
| execute_if: "quiet_arg v keyword \<Longrightarrow> built v lib (\<lambda>off. DBUG_EXECUTE_IF off lib keyword a)"
| print: "quiet_arg v keyword \<Longrightarrow> quiet_arg v args \<Longrightarrow> built v lib (\<lambda>off. DBUG_PRINT off lib line keyword args)"
| push: "quiet_arg v x \<Longrightarrow> built v lib (\<lambda>off. DBUG_PUSH off lib x)"
| pop: "built v lib (\<lambda>off. DBUG_POP off lib)"
| set: "quiet_arg v x \<Longrightarrow> built v lib (\<lambda>off. DBUG_SET off lib x)"
| set_initial: "quiet_arg v x \<Longrightarrow> built v lib (\<lambda>off. DBUG_SET_INITIAL off lib x)"
| process: "quiet_arg v x \<Longrightarrow> built v lib (\<lambda>off. DBUG_PROCESS off lib x)"
| dump: "quiet_arg v keyword \<Longrightarrow> quiet_arg v p \<Longrightarrow> quiet_arg v n \<Longrightarrow> built v lib (\<lambda>off. DBUG_DUMP off lib line keyword p n)"
| end_dbug: "built v lib (\<lambda>off. DBUG_END off lib)"
| lock_file: "built v lib (\<lambda>off. DBUG_LOCK_FILE off lib)"
| unlock_file: "built v lib (\<lambda>off. DBUG_UNLOCK_FILE off lib)"
| debugger_off: "built v lib (\<lambda>off. DEBUGGER_OFF off lib)"
| debugger_on: "built v lib (\<lambda>off. DEBUGGER_ON off lib)"
| assertion: "(\<And>w. fst (A w) \<Longrightarrow> v (snd (A w)) = v w) \<Longrightarrow> built v lib (\<lambda>off. DBUG_ASSERT off A)"
| abort: "built v lib (\<lambda>off. DBUG_ABORT off lib)"
| suicide: "built v lib (\<lambda>off. DBUG_SUICIDE off lib)"
| crash_enter: "quiet_arg v func \<Longrightarrow> built v lib (\<lambda>off. DBUG_CRASH_ENTER off lib func srcfile line)"

section \<open>Lemmas\<close>

lemma agrees_seq:
  assumes "agrees v a b" "agrees v c d"
  shows "agrees v (stmt_seq a c) (stmt_seq b d)"
  unfolding agrees_def
proof (intro allI impI)
  fix w w' assume "v w = v w'"
  then have ab: "fst (a w) = Terminated \<or> fst (a w) = fst (b w') \<and> v (snd (a w)) = v (snd (b w'))"
    using assms(1) by (simp add: agrees_def)
  obtain f w1 g w2 where "a w = (f, w1)" "b w' = (g, w2)" by fastforce
  with ab assms(2) show "fst (stmt_seq a c w) = Terminated \<or>
      fst (stmt_seq a c w) = fst (stmt_seq b d w') \<and> v (snd (stmt_seq a c w)) = v (snd (stmt_seq b d w'))"
    by (cases f; cases g) (auto simp: stmt_seq_def agrees_def)
qed

lemma agrees_effect: "(\<And>w. v (f w) = v w) \<Longrightarrow> agrees v (effect f) empty_stmt"
  by (simp add: agrees_def effect_def empty_stmt_def)

lemma stmt_seq_empty [simp]: "stmt_seq empty_stmt b = b"
  by (simp add: fun_eq_iff stmt_seq_def empty_stmt_def)

lemma stmt_seq_fall: "fst (a w) = Fall \<Longrightarrow> stmt_seq a b w = b (snd (a w))"
  by (cases "a w") (simp add: stmt_seq_def)

lemma agrees_seq_left: "agrees v a empty_stmt \<Longrightarrow> agrees v b c \<Longrightarrow> agrees v (stmt_seq a b) c"
  using agrees_seq [of v a empty_stmt b c] by simp

lemma dbug_quietD:
  assumes "dbug_quiet v lib"
  shows "v (db_enter lib a f n w) = v w" "v (db_return lib n w) = v w"
    "\<not> fst (db_keyword lib k st w)" "v (snd (db_keyword lib k st w)) = v w" "v (db_pargs lib n k w) = v w"
    "v (db_doprnt lib a w) = v w" "v (db_push lib a w) = v w" "v (db_pop lib w) = v w" "v (db_set lib a w) = v w"
    "v (db_set_init lib a w) = v w" "v (db_process lib a w) = v w" "v (db_dump lib n k p l w) = v w"
    "v (db_end lib w) = v w" "v (db_lock_file lib w) = v w" "v (db_unlock_file lib w) = v w"
    "v (db_flush lib w) = v w" "v (snd (db_get_func lib w)) = v w" "v (dbug_on_assign lib on w) = v w"
  using assms unfolding dbug_quiet_def by blast+

lemma agrees_exprD:
  "agrees_expr v d e \<Longrightarrow> v w = v w' \<Longrightarrow> fst (d w) = fst (e w')" "agrees_expr v d e \<Longrightarrow> v w = v w' \<Longrightarrow> v (snd (d w)) = v (snd (e w'))"
  unfolding agrees_expr_def by blast+

lemma quiet_argD: "quiet_arg v e \<Longrightarrow> v (snd (e w)) = v w"
  unfolding quiet_arg_def by blast

lemma quiet_const_expr [simp]: "quiet_arg v (const_expr x)"
  by (simp add: quiet_arg_def const_expr_def)

lemma agrees_with_arg:
  assumes "quiet_arg v e" "\<And>x w. v (f x w) = v w"
  shows "agrees v (with_arg e f) empty_stmt"
  using assms by (simp add: agrees_def with_arg_def empty_stmt_def quiet_argD split_beta)

lemma agrees_return: "agrees_expr v d e \<Longrightarrow> agrees v (return_value d) (return_value e)"
  by (simp add: agrees_def return_value_def split_beta agrees_exprD)

lemma agrees_value:
  assumes "agrees_expr v d e" "\<And>x. agrees v (a x) (b x)"
  shows "agrees v (\<lambda>w. case d w of (x, w1) \<Rightarrow> a x w1) (\<lambda>w. case e w of (x, w1) \<Rightarrow> b x w1)"
  unfolding agrees_def
proof (intro allI impI)
  fix w w' assume vw: "v w = v w'"
  from agrees_exprD [OF assms(1) vw] assms(2) [of "fst (e w')", unfolded agrees_def]
  show "fst (case d w of (x, w1) \<Rightarrow> a x w1) = Terminated \<or>
      fst (case d w of (x, w1) \<Rightarrow> a x w1) = fst (case e w' of (x, w1) \<Rightarrow> b x w1) \<and>
      v (snd (case d w of (x, w1) \<Rightarrow> a x w1)) = v (snd (case e w' of (x, w1) \<Rightarrow> b x w1))"
    by (simp add: split_beta)
qed

lemma agrees_if: "agrees v a1 a2 \<Longrightarrow> agrees v b1 b2 \<Longrightarrow> agrees v (\<lambda>w. if x then a1 w else b1 w) (\<lambda>w. if x then a2 w else b2 w)"
  by (cases x) simp_all

lemma agrees_execute:
  assumes "dbug_quiet v lib" "quiet_arg v k"
  shows "agrees v (DBUG_EXECUTE False lib k a) empty_stmt" "agrees v (DBUG_EXECUTE_IF False lib k a) empty_stmt"
  by (simp_all add: agrees_def DBUG_EXECUTE_def DBUG_EXECUTE_IF_def empty_stmt_def split_beta dbug_quietD [OF assms(1)] quiet_argD [OF assms(2)])

lemma agrees_check_crash:
  assumes "dbug_quiet v lib" "quiet_arg v func"
  shows "agrees v (DBUG_CHECK_CRASH lib func op) empty_stmt"
  by (simp add: agrees_def DBUG_CHECK_CRASH_def DBUG_EXECUTE_IF_def const_expr_def empty_stmt_def split_beta
      dbug_quietD [OF assms(1)] quiet_argD [OF assms(2)])

lemma built_expr_agrees:
  assumes "dbug_quiet v lib" "built_expr v lib e"
  shows "agrees_expr v (e False) (e True)"
  using assms(2)
proof (induction rule: built_expr.induct)
  case (evaluate keyword a2 a1)
  then show ?case
    by (simp add: agrees_expr_def DBUG_EVALUATE_def split_beta dbug_quietD [OF assms(1)] quiet_argD)
next
  case (evaluate_if keyword a2 a1)
  then show ?case
    by (simp add: agrees_expr_def DBUG_EVALUATE_IF_def split_beta dbug_quietD [OF assms(1)] quiet_argD)
qed simp

text \<open>A debug build and a release build agree on an assertion exactly when its argument has no effect on the program where it holds.\<close>

lemma assertion_agrees_iff:
  "agrees v (DBUG_ASSERT False A) (DBUG_ASSERT True A) \<longleftrightarrow> (\<forall>w. fst (A w) \<longrightarrow> v (snd (A w)) = v w)"
  by (auto simp: agrees_def DBUG_ASSERT_def terminate_def empty_stmt_def split_beta)

lemma agrees_stop: "(\<And>w. fst (a w) = Fall) \<Longrightarrow> agrees v (stmt_seq a terminate) b"
  by (simp add: agrees_def stmt_seq_fall terminate_def)

lemma built_agrees:
  assumes "dbug_quiet v lib" "built v lib body"
  shows "agrees v (body False) (body True)"
  using assms(2)
proof (induction rule: built.induct)
  case (plain s)
  then show ?case .
next
  case (use_value e s)
  then show ?case by (intro agrees_value built_expr_agrees [OF assms(1)])
next
  case (seq a b)
  then show ?case by (intro agrees_seq)
next
  case (cond c a b)
  then show ?case
    by (intro agrees_value [where a = "\<lambda>x w. if x then a False w else b False w" and b = "\<lambda>x w. if x then a True w else b True w"]
        built_expr_agrees [OF assms(1)] agrees_if)
next
  case (ret a1 line)
  then have "agrees v (stmt_seq (effect (db_return lib line)) (return_value (a1 False))) (return_value (a1 True))"
    using assms(1) by (intro agrees_seq_left agrees_effect agrees_return built_expr_agrees) (simp_all add: dbug_quietD)
  then show ?case by (simp add: DBUG_RETURN_def DBUG_LEAVE_def)
next
  case (print keyword args line)
  then have "agrees v (stmt_seq (with_arg keyword (db_pargs lib line)) (with_arg args (db_doprnt lib))) empty_stmt"
    using assms(1) by (intro agrees_seq_left agrees_with_arg) (simp_all add: dbug_quietD)
  then show ?case by (simp add: DBUG_PRINT_def)
next
  case (dump keyword p n line)
  then show ?case
    by (simp add: DBUG_DUMP_def agrees_def empty_stmt_def split_beta dbug_quietD [OF assms(1)] quiet_argD)
next
  case (crash_enter func srcfile line)
  then have "agrees v (stmt_seq (with_arg func (\<lambda>x. db_enter lib x srcfile line)) (DBUG_CHECK_CRASH lib func ''_crash_enter'')) empty_stmt"
    using assms(1) by (intro agrees_seq_left agrees_with_arg agrees_check_crash) (simp_all add: dbug_quietD)
  then show ?case by (simp add: DBUG_CRASH_ENTER_def DBUG_ENTER_def)
next
  case (execute keyword a)
  then show ?case using agrees_execute(1) [OF assms(1)] by (simp add: DBUG_EXECUTE_def)
next
  case (execute_if keyword a)
  then show ?case using agrees_execute(2) [OF assms(1)] by (simp add: DBUG_EXECUTE_IF_def)
next
  case (assertion A)
  then show ?case by (simp add: assertion_agrees_iff)
next
  case abort
  then show ?case by (simp add: DBUG_ABORT_def agrees_stop effect_def)
next
  case suicide
  then show ?case by (simp add: DBUG_SUICIDE_def DBUG_ABORT_def agrees_stop effect_def)
qed (use assms(1) in \<open>auto intro!: agrees_with_arg agrees_effect simp: dbug_quietD DBUG_ENTER_def DBUG_LEAVE_def DBUG_PUSH_def
    DBUG_POP_def DBUG_SET_def DBUG_SET_INITIAL_def DBUG_PROCESS_def DBUG_END_def DBUG_LOCK_FILE_def
    DBUG_UNLOCK_FILE_def DEBUGGER_OFF_def DEBUGGER_ON_def\<close>)

text \<open>Returning without a value is returning a value nobody reads.\<close>

lemma void_return: "DBUG_VOID_RETURN off lib line = DBUG_RETURN off lib line (const_expr ())"
  by (simp add: DBUG_VOID_RETURN_def DBUG_RETURN_def return_value_def [abs_def] return_stmt_def [abs_def] const_expr_def)

lemma built_void_return: "built v lib (\<lambda>off. DBUG_VOID_RETURN off lib line)"
  unfolding void_return
  by (rule built.ret, rule built_expr.plain_expr) (simp add: agrees_expr_def const_expr_def)

section \<open>A sample library\<close>

text \<open>The calls are counted; the view is the rest of the state.\<close>

definition sample_dbug :: "(nat \<times> nat) dbug_lib" where
  "sample_dbug = (let tick = apfst Suc in
     \<lparr>db_enter = (\<lambda>_ _ _. tick), db_return = (\<lambda>_. tick), db_keyword = (\<lambda>_ _ w. (False, tick w)), db_pargs = (\<lambda>_ _. tick),
      db_doprnt = (\<lambda>_. tick), db_push = (\<lambda>_. tick), db_pop = tick, db_set = (\<lambda>_. tick), db_set_init = (\<lambda>_. tick),
      db_process = (\<lambda>_. tick), db_dump = (\<lambda>_ _ _ _. tick), db_end = tick, db_lock_file = tick, db_unlock_file = tick,
      db_flush = tick, db_get_func = (\<lambda>w. (''f'', tick w)), dbug_on_assign = (\<lambda>_. tick), strxnmov = (\<lambda>n xs. take n (concat xs))\<rparr>)"

lemma sample_dbug_quiet: "dbug_quiet snd sample_dbug"
  by (simp add: dbug_quiet_def sample_dbug_def Let_def)

section \<open>Properties\<close>

text \<open>C23: the debug build of a function does what its release build does: when the library keeps to its own state and no
  keyword is enabled, it returns the same value and leaves the program's part of the state the same, unless a
  failed assertion or an abort ends the process.  This holds for every function body made of plain statements and expressions of the program,
  sequences, conditionals and the macros for entering, leaving and returning, with or without a value, for executing and evaluating by keyword, for
  printing and dumping, for the settings, the lock of the file and the end of the library, for assertions, abort and suicide, and for the check on entry (\<^verbatim>\<open>DBUG_CRASH_ENTER\<close>).
  Arguments may be expressions with effects; asked is that those the release build drops (keywords, names of functions, what is printed, dumped or set)
  have no effect on the program, and that an assertion that holds has none.  Not among the macros are \<^verbatim>\<open>DBUG_CRASH_RETURN\<close> and
  \<^verbatim>\<open>DBUG_CRASH_VOID_RETURN\<close>, which break the rule, the jumps, \<^verbatim>\<open>DBUG_FILE\<close> and \<^verbatim>\<open>DBUG_EXPLAIN\<close>, whose results differ by build.\<close>
theorem debug_build_agrees:
  assumes "dbug_quiet v lib" "built v lib body" "v w = v w'"
  shows "fst (body False w) = Terminated \<or>
    fst (body False w) = fst (body True w') \<and> v (snd (body False w)) = v (snd (body True w'))"
  using built_agrees [OF assms(1,2)] assms(3) unfolding agrees_def by blast

text \<open>Enter, assert, print, and return the old value of a counter that the return increments.\<close>
theorem debug_build_agrees_witness:
  "fst (stmt_seq (DBUG_ENTER False sample_dbug (const_expr ''f'') ''f.c'' 10)
     (stmt_seq (DBUG_ASSERT False (\<lambda>w. (snd w = 5, w)))
       (stmt_seq (DBUG_PRINT False sample_dbug 11 (const_expr ''info'') (const_expr ''x''))
         (DBUG_RETURN False sample_dbug 12 (\<lambda>w. (snd w, apsnd Suc w))))) (0, 5)) = Returned 5"
proof -
  let ?body = "\<lambda>off. stmt_seq (DBUG_ENTER off sample_dbug (const_expr ''f'') ''f.c'' 10)
     (stmt_seq (DBUG_ASSERT off (\<lambda>w. (snd w = 5, w)))
       (stmt_seq (DBUG_PRINT off sample_dbug 11 (const_expr ''info'') (const_expr ''x''))
         (DBUG_RETURN off sample_dbug 12 (\<lambda>w. (snd w, apsnd Suc w)))))"
  have val: "built_expr snd sample_dbug (\<lambda>_ w. (snd w, apsnd Suc w))"
    by (rule built_expr.plain_expr) (simp add: agrees_expr_def)
  have "built snd sample_dbug ?body"
    by (intro built.seq built.enter built.assertion built.print built.ret [OF val] quiet_const_expr) simp
  note agree = debug_build_agrees [OF sample_dbug_quiet this, of "(0, 5)" "(0, 5)"]
  note macros = DBUG_ENTER_def DBUG_ASSERT_def DBUG_PRINT_def DBUG_RETURN_def DBUG_LEAVE_def
  have release: "fst (?body True (0, 5)) = Returned 5" by (simp add: macros return_value_def)
  have debug: "fst (?body False (0, 5)) \<noteq> Terminated"
    by (simp add: macros return_value_def stmt_seq_def effect_def with_arg_def const_expr_def sample_dbug_def Let_def)
  from agree release debug show ?thesis by simp
qed

text \<open>\<^verbatim>\<open>DBUG_CRASH_RETURN\<close> and \<^verbatim>\<open>DBUG_CRASH_VOID_RETURN\<close> return in a release build, but in a debug build without
  the crash keyword they fall through to the statement behind them, with nothing returned, the argument not evaluated and the frame of the function
  still entered.\<close>
lemma crash_return_falls_through:
  assumes "dbug_quiet v lib"
  shows "fst (DBUG_CRASH_RETURN True lib val w) = Returned (fst (val w)) \<and>
    fst (DBUG_CRASH_RETURN False lib val w) = Fall \<and> v (snd (DBUG_CRASH_RETURN False lib val w)) = v w \<and>
    fst (DBUG_CRASH_VOID_RETURN True lib w) = Returned () \<and> fst (DBUG_CRASH_VOID_RETURN False lib w) = Fall"
  by (simp add: DBUG_CRASH_RETURN_def DBUG_CRASH_VOID_RETURN_def DBUG_CHECK_CRASH_def DBUG_EXECUTE_IF_def return_stmt_def
      return_value_def const_expr_def split_beta dbug_quietD [OF assms])

lemma crash_return_falls_through_instance:
  "fst (DBUG_CRASH_RETURN False sample_dbug (const_expr (7 :: int)) (0, 0)) = Fall"
  using crash_return_falls_through [OF sample_dbug_quiet] by blast

end
