(* ===== verification/Charset.thy ===== *)
theory Charset
  imports Mysql_Prelude
begin

text \<open>
  Character sets, from \<^verbatim>\<open>m_ctype.h\<close>: the descriptor \<^verbatim>\<open>CHARSET_INFO\<close>, the macros that classify and convert single
  bytes through its tables, the storage of two-byte codes, and the helper functions for contractions.  The tables are reached through the
  pointers of the descriptor in a byte memory, so that tables that overlap in memory overlap in the model.

  The lemmas show how the classes relate for every table, that the two ways to store a two-byte code agree, and where the
  contraction flags lie: inside the table of contraction weights.
\<close>

section \<open>The descriptor\<close>

record CHARSET_INFO =
  number :: uint32
  primary_number :: uint32
  binary_number :: uint32
  cs_state :: uint32
  csname :: addr
  cs_name :: addr
  comment_ :: addr
  tailoring :: addr
  ctype :: addr
  to_lower :: addr
  to_upper :: addr
  sort_order :: addr
  contractions :: addr
  sort_order_big :: addr
  tab_to_uni :: addr
  tab_from_uni :: addr
  caseinfo :: addr
  state_map :: addr
  ident_map :: addr
  strxfrm_multiply :: uint32
  caseup_multiply :: uchar
  casedn_multiply :: uchar
  mbminlen :: uint32
  mbmaxlen :: uint32
  min_sort_char :: uint16
  max_sort_char :: uint16
  pad_char :: uchar
  escape_with_backslash_is_dangerous :: bool

definition MY_CS_BINSORT :: uint32 where
  "MY_CS_BINSORT = 16"

definition MY_CS_STRNXFRM :: uint32 where
  "MY_CS_STRNXFRM = 64"

definition MY_CS_TOOSMALL :: int where
  "MY_CS_TOOSMALL = - 101"

definition MY_CS_TOOSMALL2 :: int where
  "MY_CS_TOOSMALL2 = - 102"

definition MY_CS_TOOSMALL3 :: int where
  "MY_CS_TOOSMALL3 = - 103"

definition MY_CS_TOOSMALL4 :: int where
  "MY_CS_TOOSMALL4 = - 104"

definition MY_CS_TOOSMALL5 :: int where
  "MY_CS_TOOSMALL5 = - 105"

definition MY_CS_TOOSMALL6 :: int where
  "MY_CS_TOOSMALL6 = - 106"

definition MY_CS_TOOSMALLN :: "int \<Rightarrow> int" where
  "MY_CS_TOOSMALLN n = - 100 - n"

section \<open>Two-byte codes\<close>

text \<open>With the suffix \<open>_i386\<close> the definitions of a build for that processor, a store of 16 bits in its byte order; else the portable ones.\<close>

definition MB2_i386 :: "uint32 \<Rightarrow> uint32" where
  "MB2_i386 x = drop_bit 8 x + push_bit 8 (and x 0xFF)"

definition MY_PUT_MB2_i386 :: "mem \<Rightarrow> addr \<Rightarrow> uint32 \<Rightarrow> mem" where
  "MY_PUT_MB2_i386 m s code = le_put 2 m s (uint code)"

definition MB2 :: "uint32 \<Rightarrow> uint32" where
  "MB2 x = x"

definition MY_PUT_MB2 :: "mem \<Rightarrow> addr \<Rightarrow> uint32 \<Rightarrow> mem" where
  "MY_PUT_MB2 m s code = m(s := ucast (drop_bit 8 code), s + 1 := ucast (and code 0xFF))"

section \<open>Contractions\<close>

definition my_cs_have_contractions :: "CHARSET_INFO \<Rightarrow> bool" where
  "my_cs_have_contractions cs \<longleftrightarrow> contractions cs \<noteq> 0"

definition my_cs_can_be_contraction_head :: "mem \<Rightarrow> CHARSET_INFO \<Rightarrow> uint32 \<Rightarrow> bool" where
  "my_cs_can_be_contraction_head m cs wc \<longleftrightarrow> m (contractions cs + (0x40 * 0x40 + and wc 0xFF)) \<noteq> 0"

definition my_cs_can_be_contraction_tail :: "mem \<Rightarrow> CHARSET_INFO \<Rightarrow> uint32 \<Rightarrow> bool" where
  "my_cs_can_be_contraction_tail m cs wc \<longleftrightarrow> m (contractions cs + (0x40 * 0x40 + and wc 0xFF)) \<noteq> 0"

text \<open>The function returns the address of an element of 2 bytes.\<close>

definition my_cs_contraction2_weight :: "CHARSET_INFO \<Rightarrow> uint32 \<Rightarrow> uint32 \<Rightarrow> addr" where
  "my_cs_contraction2_weight cs wc1 wc2 = contractions cs + 2 * ((wc1 - 0x40) * 0x40 + wc2 - 0x40)"

definition set_weight :: "mem \<Rightarrow> CHARSET_INFO \<Rightarrow> uint32 \<Rightarrow> uint32 \<Rightarrow> uint16 \<Rightarrow> mem" where
  "set_weight m cs wc1 wc2 w = le_put 2 m (my_cs_contraction2_weight cs wc1 wc2) (uint w)"

section \<open>Classes of bytes\<close>

definition MY_U :: uchar where "MY_U = 1"
definition MY_L :: uchar where "MY_L = 2"
definition MY_NMR :: uchar where "MY_NMR = 4"
definition MY_SPC :: uchar where "MY_SPC = 8"
definition MY_PNT :: uchar where "MY_PNT = 16"
definition MY_CTR :: uchar where "MY_CTR = 32"
definition MY_B :: uchar where "MY_B = 64"
definition MY_X :: uchar where "MY_X = 128"

definition my_isascii :: "int \<Rightarrow> bool" where
  "my_isascii c \<longleftrightarrow> and c (not 0x7F) = 0"

definition my_toascii :: "int \<Rightarrow> int" where
  "my_toascii c = and c 0x7F"

definition my_tocntrl :: "int \<Rightarrow> int" where
  "my_tocntrl c = and c 31"

definition my_toprint :: "int \<Rightarrow> int" where
  "my_toprint c = or c 64"

definition my_toupper :: "mem \<Rightarrow> CHARSET_INFO \<Rightarrow> int \<Rightarrow> uchar" where
  "my_toupper m s c = m (to_upper s + ucast (word_of_int c :: uchar))"

definition my_tolower :: "mem \<Rightarrow> CHARSET_INFO \<Rightarrow> int \<Rightarrow> uchar" where
  "my_tolower m s c = m (to_lower s + ucast (word_of_int c :: uchar))"

definition ctype_of :: "mem \<Rightarrow> CHARSET_INFO \<Rightarrow> int \<Rightarrow> uchar" where
  "ctype_of m s c = m (ctype s + 1 + ucast (word_of_int c :: uchar))"

definition my_isalpha :: "mem \<Rightarrow> CHARSET_INFO \<Rightarrow> int \<Rightarrow> bool" where
  "my_isalpha m s c \<longleftrightarrow> and (ctype_of m s c) (or MY_U MY_L) \<noteq> 0"

definition my_isupper :: "mem \<Rightarrow> CHARSET_INFO \<Rightarrow> int \<Rightarrow> bool" where
  "my_isupper m s c \<longleftrightarrow> and (ctype_of m s c) MY_U \<noteq> 0"

definition my_islower :: "mem \<Rightarrow> CHARSET_INFO \<Rightarrow> int \<Rightarrow> bool" where
  "my_islower m s c \<longleftrightarrow> and (ctype_of m s c) MY_L \<noteq> 0"

definition my_isdigit :: "mem \<Rightarrow> CHARSET_INFO \<Rightarrow> int \<Rightarrow> bool" where
  "my_isdigit m s c \<longleftrightarrow> and (ctype_of m s c) MY_NMR \<noteq> 0"

definition my_isxdigit :: "mem \<Rightarrow> CHARSET_INFO \<Rightarrow> int \<Rightarrow> bool" where
  "my_isxdigit m s c \<longleftrightarrow> and (ctype_of m s c) MY_X \<noteq> 0"

definition my_isalnum :: "mem \<Rightarrow> CHARSET_INFO \<Rightarrow> int \<Rightarrow> bool" where
  "my_isalnum m s c \<longleftrightarrow> and (ctype_of m s c) (or (or MY_U MY_L) MY_NMR) \<noteq> 0"

definition my_isspace :: "mem \<Rightarrow> CHARSET_INFO \<Rightarrow> int \<Rightarrow> bool" where
  "my_isspace m s c \<longleftrightarrow> and (ctype_of m s c) MY_SPC \<noteq> 0"

definition my_ispunct :: "mem \<Rightarrow> CHARSET_INFO \<Rightarrow> int \<Rightarrow> bool" where
  "my_ispunct m s c \<longleftrightarrow> and (ctype_of m s c) MY_PNT \<noteq> 0"

definition my_isprint :: "mem \<Rightarrow> CHARSET_INFO \<Rightarrow> int \<Rightarrow> bool" where
  "my_isprint m s c \<longleftrightarrow> and (ctype_of m s c) (or (or (or (or MY_PNT MY_U) MY_L) MY_NMR) MY_B) \<noteq> 0"

definition my_isgraph :: "mem \<Rightarrow> CHARSET_INFO \<Rightarrow> int \<Rightarrow> bool" where
  "my_isgraph m s c \<longleftrightarrow> and (ctype_of m s c) (or (or (or MY_PNT MY_U) MY_L) MY_NMR) \<noteq> 0"

definition my_iscntrl :: "mem \<Rightarrow> CHARSET_INFO \<Rightarrow> int \<Rightarrow> bool" where
  "my_iscntrl m s c \<longleftrightarrow> and (ctype_of m s c) MY_CTR \<noteq> 0"

definition my_isvar :: "mem \<Rightarrow> CHARSET_INFO \<Rightarrow> int \<Rightarrow> bool" where
  "my_isvar m s c \<longleftrightarrow> my_isalnum m s c \<or> c = 0x5F"

definition my_isvar_start :: "mem \<Rightarrow> CHARSET_INFO \<Rightarrow> int \<Rightarrow> bool" where
  "my_isvar_start m s c \<longleftrightarrow> my_isalpha m s c \<or> c = 0x5F"

definition my_binary_compare :: "CHARSET_INFO \<Rightarrow> bool" where
  "my_binary_compare s \<longleftrightarrow> and (cs_state s) MY_CS_BINSORT \<noteq> 0"

definition use_strnxfrm :: "CHARSET_INFO \<Rightarrow> bool" where
  "use_strnxfrm s \<longleftrightarrow> and (cs_state s) MY_CS_STRNXFRM \<noteq> 0"

section \<open>Lemmas\<close>

lemma and_or_nonzero: "and x (or y z) \<noteq> 0 \<longleftrightarrow> and x y \<noteq> 0 \<or> and x z \<noteq> (0 :: uchar)"
  by (simp add: bit.conj_disj_distrib or_eq_0_iff)

lemmas class_defs = my_isalpha_def my_isupper_def my_islower_def my_isdigit_def my_isalnum_def my_ispunct_def
  my_isprint_def my_isgraph_def my_isvar_def my_isvar_start_def

lemma unat_weight_offset:
  fixes x y :: uint32
  assumes "unat x < 64" "unat y < 64"
  shows "unat (2 * (x * 0x40 + y)) = 128 * unat x + 2 * unat y"
proof -
  have "unat (x * 0x40) = unat x * 64" using assms by (simp add: unat_word_ariths)
  moreover from this have "unat (x * 0x40 + y) = unat x * 64 + unat y" using assms by (simp add: unat_word_ariths)
  ultimately show ?thesis using assms by (simp add: unat_word_ariths)
qed

lemma unat_flag_offset:
  fixes wc :: uint32
  shows "unat (0x40 * 0x40 + and wc 0xFF) = 0x1000 + unat (and wc 0xFF)" "unat (and wc 0xFF) < 0x100"
proof -
  have "and wc 0xFF = take_bit 8 wc" by (simp add: take_bit_eq_mask mask_eq_exp_minus_1)
  then show lt: "unat (and wc 0xFF) < 0x100" by (simp add: take_bit_eq_mod unat_mod_distrib)
  then show "unat (0x40 * 0x40 + and wc 0xFF) = 0x1000 + unat (and wc 0xFF)" by (simp add: unat_word_ariths)
qed

lemma unat_minus_0x40: "0x40 \<le> wc \<Longrightarrow> wc < 0x80 \<Longrightarrow> unat (wc - 0x40 :: uint32) = unat wc - 64 \<and> unat (wc - 0x40) < 64"
  by (simp add: unat_sub word_le_nat_alt word_less_nat_alt)

lemma unsigned_word_of_int_uchar: "(ucast (word_of_int i :: uint32) :: uchar) = word_of_int i"
  by (rule bit_word_eqI) (simp add: bit_simps)

lemma le_put_2: "le_put 2 m a v = m(a := word_of_int v, a + 1 := word_of_int (v div 256))"
  by (simp add: le_put_numeral)

lemma unat_aliased_char: "unat y < 64 \<Longrightarrow> unat (0x80 + 2 * y :: uint32) = 128 + 2 * unat y"
  by (simp add: unat_word_ariths)

lemma unat_small_Suc: "unat d < 0x10000 \<Longrightarrow> unat (d + 1 :: uint32) = unat d + 1"
  by (simp add: unat_word_ariths)

section \<open>Properties\<close>

text \<open>The classes of bytes are consistent for every table: a letter is an upper or lower case letter, an alphanumeric byte a letter
  or a digit, a graphic byte punctuation or alphanumeric, a printable byte graphic or blank, and what may start a
  variable name may also continue it.\<close>
lemma ctype_classes:
  "(my_isalpha m s c \<longleftrightarrow> my_isupper m s c \<or> my_islower m s c) \<and>
   (my_isalnum m s c \<longleftrightarrow> my_isalpha m s c \<or> my_isdigit m s c) \<and>
   (my_isgraph m s c \<longleftrightarrow> my_ispunct m s c \<or> my_isalnum m s c) \<and>
   (my_isprint m s c \<longleftrightarrow> my_isgraph m s c \<or> and (ctype_of m s c) MY_B \<noteq> 0) \<and>
   (my_isvar m s c \<longleftrightarrow> my_isvar_start m s c \<or> my_isdigit m s c)"
  by (auto simp: class_defs and_or_nonzero)

text \<open>A two-byte code ends up in memory high byte first in both builds: the 16-bit store of the swapped code on i386 and the two
  byte stores elsewhere leave the same memory.\<close>
lemma put_mb2_same_in_both_builds:
  assumes "x < 0x10000"
  shows "MY_PUT_MB2_i386 m s (MB2_i386 x) = MY_PUT_MB2 m s (MB2 x) \<and>
    be_val 2 (MY_PUT_MB2 m s (MB2 x)) s = uint x"
proof -
  have x: "uint x < 65536" using assms by (simp add: word_less_def)
  have low: "and x 0xFF = word_of_int (uint x mod 256)"
  proof -
    have "and x 0xFF = take_bit 8 x" by (simp add: take_bit_eq_mask mask_eq_exp_minus_1)
    then show ?thesis by (simp add: word_uint_eq_iff take_bit_eq_mod uint_word_of_int uint_mod_distrib)
  qed
  have hl: "uint x div 256 < 256" "0 \<le> uint x div 256" using x by (simp_all add: pos_imp_zdiv_nonneg_iff)
  then have high: "drop_bit 8 x = word_of_int (uint x div 256)"
    by (simp add: drop_bit_eq_div word_uint_eq_iff uint_div_distrib uint_word_of_int)
  have "uint (MB2_i386 x) = uint x div 256 + uint x mod 256 * 256"
    using hl unfolding MB2_i386_def low high by (simp add: push_bit_eq_mult uint_word_ariths uint_word_of_int)
  moreover have "(uint x div 256 + uint x mod 256 * 256) div 256 = uint x mod 256"
    using hl by (simp add: div_add1_eq div_pos_pos_trivial)
  moreover have "(word_of_int (uint x div 256 + uint x mod 256 * 256) :: uchar) = word_of_int (uint x div 256)"
    by (simp only: word_uint_eq_iff uint_word_of_int) simp
  moreover have "(ucast (word_of_int (uint x div 256) :: uint32) :: uchar) = word_of_int (uint x div 256)"
    "(ucast (word_of_int (uint x mod 256) :: uint32) :: uchar) = word_of_int (uint x mod 256)"
    by (simp_all only: unsigned_word_of_int_uchar)
  ultimately have "MY_PUT_MB2_i386 m s (MB2_i386 x) = MY_PUT_MB2 m s (MB2 x)"
    by (simp only: MY_PUT_MB2_i386_def MY_PUT_MB2_def MB2_def low high le_put_2)
  moreover have "be_val 2 (MY_PUT_MB2 m s (MB2 x)) s = uint x"
    using hl by (simp add: MY_PUT_MB2_def MB2_def low high numeral_2_eq_2 unsigned_word_of_int_uchar uint_word_of_int)
  ultimately show ?thesis by blast
qed

lemma put_mb2_same_in_both_builds_instance:
  "be_val 2 (MY_PUT_MB2 (\<lambda>_. 0) 10 (MB2 0x4E00)) 10 = 0x4E00"
  using put_mb2_same_in_both_builds [of "0x4E00" "\<lambda>_. 0" 10] by simp

text \<open>C37: the contraction flags lie in the table of contraction weights.  Storing the weight of a contraction of two characters
  of the table leaves every flag alone unless its first character is the accent 0x60 or the letter a; and a weight for the
  letter a and the character \<open>0x40 + k\<close> is stored over the flag of the character \<open>0x80 + 2 * k\<close>, which from then on is
  taken for the head and the tail of contractions if the low byte of the weight is not 0, and for neither if it is 0, whatever the flag was before.\<close>
theorem contraction_flags_alias_weights:
  assumes "0x40 \<le> wc1" "wc1 < 0x80" "0x40 \<le> wc2" "wc2 < 0x80"
  shows "(wc1 \<noteq> 0x60 \<and> wc1 \<noteq> 0x61 \<longrightarrow>
      my_cs_can_be_contraction_head (set_weight m cs wc1 wc2 w) cs wc = my_cs_can_be_contraction_head m cs wc) \<and>
    (my_cs_can_be_contraction_head (set_weight m cs 0x61 wc2 w) cs (0x80 + 2 * (wc2 - 0x40)) \<longleftrightarrow> and w 0xFF \<noteq> 0) \<and>
    (my_cs_can_be_contraction_tail (set_weight m cs 0x61 wc2 w) cs (0x80 + 2 * (wc2 - 0x40)) \<longleftrightarrow> and w 0xFF \<noteq> 0)"
proof -
  let ?x = "wc1 - 0x40" and ?y = "wc2 - 0x40"
  have x: "unat ?x = unat wc1 - 64" "unat ?x < 64" and y: "unat ?y < 64"
    using unat_minus_0x40 [of wc1] unat_minus_0x40 [of wc2] assms by blast+
  have addr: "my_cs_contraction2_weight cs v wc2 = contractions cs + 2 * ((v - 0x40) * 0x40 + ?y)" for v
    by (simp add: my_cs_contraction2_weight_def algebra_simps)
  have "my_cs_can_be_contraction_head (set_weight m cs wc1 wc2 w) cs wc = my_cs_can_be_contraction_head m cs wc"
    if ne: "wc1 \<noteq> 0x60" "wc1 \<noteq> 0x61"
  proof -
    let ?d = "2 * (?x * 0x40 + ?y)" and ?f = "0x40 * 0x40 + and wc 0xFF"
    have d: "unat ?d = 128 * unat ?x + 2 * unat ?y" by (rule unat_weight_offset [OF x(2) y])
    then have d1: "unat (?d + 1) = 128 * unat ?x + 2 * unat ?y + 1" using unat_small_Suc [of ?d] x(2) y by linarith
    have "unat wc1 \<noteq> 96" "unat wc1 \<noteq> 97" using ne by (auto simp: word_unat_eq_iff)
    then have "unat ?x < 32 \<or> 34 \<le> unat ?x" using x(1) by linarith
    then have "unat ?d \<noteq> unat ?f" "unat (?d + 1) \<noteq> unat ?f"
      using d d1 unat_flag_offset [of wc] y by linarith+
    then have "?f \<noteq> ?d" "?f \<noteq> ?d + 1" by metis+
    then show ?thesis
      by (simp add: my_cs_can_be_contraction_head_def set_weight_def addr le_put_numeral add.assoc)
  qed
  moreover have "my_cs_can_be_contraction_head (set_weight m cs 0x61 wc2 w) cs (0x80 + 2 * ?y) \<longleftrightarrow> and w 0xFF \<noteq> 0"
  proof -
    have small: "unat (0x80 + 2 * ?y) = 128 + 2 * unat ?y" by (rule unat_aliased_char [OF y])
    have "and (0x80 + 2 * ?y) 0xFF = take_bit 8 (0x80 + 2 * ?y)" by (simp add: take_bit_eq_mask mask_eq_exp_minus_1)
    also have "\<dots> = 0x80 + 2 * ?y"
      using small y by (simp add: word_unat_eq_iff take_bit_eq_mod unat_mod_distrib)
    finally have flag: "0x40 * 0x40 + and (0x80 + 2 * ?y) 0xFF = 2 * ((0x61 - 0x40) * 0x40 + ?y)"
      by (simp add: algebra_simps)
    have "(ucast w :: uchar) = 0 \<longleftrightarrow> and w 0xFF = 0"
      by (simp add: word_uint_eq_iff unsigned_ucast_eq take_bit_eq_mask mask_eq_exp_minus_1 uint_and)
    moreover have "(word_of_int (uint w) :: uchar) = ucast w" by (rule bit_word_eqI) (simp add: bit_simps)
    ultimately show ?thesis
      unfolding my_cs_can_be_contraction_head_def set_weight_def addr flag
      by (simp add: le_put_numeral)
  qed
  ultimately show ?thesis
    by (simp add: my_cs_can_be_contraction_head_def my_cs_can_be_contraction_tail_def)
qed

theorem contraction_flags_alias_weights_witness:
  "\<forall>cs. my_cs_can_be_contraction_head (set_weight (\<lambda>_. 0) cs 0x61 0x48 5) cs 0x90 \<and>
     my_cs_can_be_contraction_head (set_weight (\<lambda>_. 1) cs 0x63 0x68 5) cs 0x63 \<and>
     \<not> my_cs_can_be_contraction_tail (set_weight (\<lambda>_. 1) cs 0x61 0x48 0x500) cs 0x90"
proof
  fix cs
  have "my_cs_can_be_contraction_head (set_weight (\<lambda>_. 0) cs 0x61 0x48 5) cs 0x90"
    using contraction_flags_alias_weights [of "0x61" "0x48" "\<lambda>_. 0" cs 5] by simp
  moreover have "my_cs_can_be_contraction_head (set_weight (\<lambda>_. 1) cs 0x63 0x68 5) cs 0x63"
    using contraction_flags_alias_weights [of "0x63" "0x68" "\<lambda>_. 1" cs 5 "0x63"]
    by (simp add: my_cs_can_be_contraction_head_def)
  moreover have "\<not> my_cs_can_be_contraction_tail (set_weight (\<lambda>_. 1) cs 0x61 0x48 0x500) cs 0x90"
    using contraction_flags_alias_weights [of "0x61" "0x48" "\<lambda>_. 1" cs "0x500"] by simp
  ultimately show "my_cs_can_be_contraction_head (set_weight (\<lambda>_. 0) cs 0x61 0x48 5) cs 0x90 \<and>
     my_cs_can_be_contraction_head (set_weight (\<lambda>_. 1) cs 0x63 0x68 5) cs 0x63 \<and>
     \<not> my_cs_can_be_contraction_tail (set_weight (\<lambda>_. 1) cs 0x61 0x48 0x500) cs 0x90" by blast
qed

end
