(* ===== verification/Protocol.thy ===== *)
theory Protocol
  imports Mysql_Prelude
begin

text \<open>
  The client/server protocol of \<^verbatim>\<open>mysql_com.h\<close>, the field predicates of \<^verbatim>\<open>mysql.h\<close>, the client errors
  of \<^verbatim>\<open>errmsg.h\<close> and the dispatch macros of \<^verbatim>\<open>sql_common.h\<close>.  An enumeration is a datatype with a function to its codes; flags are 32-bit words.

  The lemmas show that codes and types correspond, what the predicates on codes decide, that the capability flags are
  independent bits, and which error numbers have a message.
\<close>

section \<open>Commands and lengths\<close>

datatype (plugins only: size) enum_server_command =
  COM_SLEEP | COM_QUIT | COM_INIT_DB | COM_QUERY | COM_FIELD_LIST | COM_CREATE_DB | COM_DROP_DB | COM_REFRESH | 
  COM_SHUTDOWN | COM_STATISTICS | COM_PROCESS_INFO | COM_CONNECT | COM_PROCESS_KILL | COM_DEBUG | COM_PING | 
  COM_TIME | COM_DELAYED_INSERT | COM_CHANGE_USER | COM_BINLOG_DUMP | COM_TABLE_DUMP | COM_CONNECT_OUT | 
  COM_REGISTER_SLAVE | COM_STMT_PREPARE | COM_STMT_EXECUTE | COM_STMT_SEND_LONG_DATA | COM_STMT_CLOSE | 
  COM_STMT_RESET | COM_SET_OPTION | COM_STMT_FETCH | COM_DAEMON | COM_END

definition NAME_CHAR_LEN :: int where "NAME_CHAR_LEN = 64"
definition SYSTEM_CHARSET_MBMAXLEN :: int where "SYSTEM_CHARSET_MBMAXLEN = 3"
definition USERNAME_CHAR_LENGTH :: int where "USERNAME_CHAR_LENGTH = 16"
definition HOSTNAME_LENGTH :: int where "HOSTNAME_LENGTH = 60"
definition NAME_LEN :: int where "NAME_LEN = NAME_CHAR_LEN * SYSTEM_CHARSET_MBMAXLEN"
definition USERNAME_LENGTH :: int where "USERNAME_LENGTH = USERNAME_CHAR_LENGTH * SYSTEM_CHARSET_MBMAXLEN"
definition USER_HOST_BUFF_SIZE :: int where "USER_HOST_BUFF_SIZE = HOSTNAME_LENGTH + USERNAME_LENGTH + 2"
definition SCRAMBLE_LENGTH :: int where "SCRAMBLE_LENGTH = 20"
definition SCRAMBLE_LENGTH_323 :: int where "SCRAMBLE_LENGTH_323 = 8"
definition SCRAMBLED_PASSWORD_CHAR_LENGTH :: int where "SCRAMBLED_PASSWORD_CHAR_LENGTH = SCRAMBLE_LENGTH * 2 + 1"
definition SCRAMBLED_PASSWORD_CHAR_LENGTH_323 :: int where "SCRAMBLED_PASSWORD_CHAR_LENGTH_323 = SCRAMBLE_LENGTH_323 * 2"

section \<open>Flags\<close>

text \<open>Flags of a field.\<close>

definition NOT_NULL_FLAG :: uint32 where "NOT_NULL_FLAG = 1"
definition PRI_KEY_FLAG :: uint32 where "PRI_KEY_FLAG = 2"
definition UNIQUE_KEY_FLAG :: uint32 where "UNIQUE_KEY_FLAG = 4"
definition MULTIPLE_KEY_FLAG :: uint32 where "MULTIPLE_KEY_FLAG = 8"
definition BLOB_FLAG :: uint32 where "BLOB_FLAG = 16"
definition UNSIGNED_FLAG :: uint32 where "UNSIGNED_FLAG = 32"
definition ZEROFILL_FLAG :: uint32 where "ZEROFILL_FLAG = 64"
definition BINARY_FLAG :: uint32 where "BINARY_FLAG = 128"
definition ENUM_FLAG :: uint32 where "ENUM_FLAG = 256"
definition AUTO_INCREMENT_FLAG :: uint32 where "AUTO_INCREMENT_FLAG = 512"
definition TIMESTAMP_FLAG :: uint32 where "TIMESTAMP_FLAG = 1024"
definition SET_FLAG :: uint32 where "SET_FLAG = 2048"
definition NO_DEFAULT_VALUE_FLAG :: uint32 where "NO_DEFAULT_VALUE_FLAG = 4096"
definition ON_UPDATE_NOW_FLAG :: uint32 where "ON_UPDATE_NOW_FLAG = 8192"
definition NUM_FLAG :: uint32 where "NUM_FLAG = 32768"
definition PART_KEY_FLAG :: uint32 where "PART_KEY_FLAG = 16384"
definition GROUP_FLAG :: uint32 where "GROUP_FLAG = 32768"
definition UNIQUE_FLAG :: uint32 where "UNIQUE_FLAG = 65536"
definition BINCMP_FLAG :: uint32 where "BINCMP_FLAG = 131072"
definition GET_FIXED_FIELDS_FLAG :: uint32 where "GET_FIXED_FIELDS_FLAG = push_bit 18 1"
definition FIELD_IN_PART_FUNC_FLAG :: uint32 where "FIELD_IN_PART_FUNC_FLAG = push_bit 19 1"
definition FIELD_IN_ADD_INDEX :: uint32 where "FIELD_IN_ADD_INDEX = push_bit 20 1"
definition FIELD_IS_RENAMED :: uint32 where "FIELD_IS_RENAMED = push_bit 21 1"

text \<open>What a refresh request covers.\<close>

definition REFRESH_GRANT :: uint32 where "REFRESH_GRANT = 1"
definition REFRESH_LOG :: uint32 where "REFRESH_LOG = 2"
definition REFRESH_TABLES :: uint32 where "REFRESH_TABLES = 4"
definition REFRESH_HOSTS :: uint32 where "REFRESH_HOSTS = 8"
definition REFRESH_STATUS :: uint32 where "REFRESH_STATUS = 16"
definition REFRESH_THREADS :: uint32 where "REFRESH_THREADS = 32"
definition REFRESH_SLAVE :: uint32 where "REFRESH_SLAVE = 64"
definition REFRESH_MASTER :: uint32 where "REFRESH_MASTER = 128"
definition REFRESH_ERROR_LOG :: uint32 where "REFRESH_ERROR_LOG = 256"
definition REFRESH_ENGINE_LOG :: uint32 where "REFRESH_ENGINE_LOG = 512"
definition REFRESH_BINARY_LOG :: uint32 where "REFRESH_BINARY_LOG = 1024"
definition REFRESH_RELAY_LOG :: uint32 where "REFRESH_RELAY_LOG = 2048"
definition REFRESH_GENERAL_LOG :: uint32 where "REFRESH_GENERAL_LOG = 4096"
definition REFRESH_SLOW_LOG :: uint32 where "REFRESH_SLOW_LOG = 8192"
definition REFRESH_READ_LOCK :: uint32 where "REFRESH_READ_LOCK = 16384"
definition REFRESH_FAST :: uint32 where "REFRESH_FAST = 32768"
definition REFRESH_QUERY_CACHE :: uint32 where "REFRESH_QUERY_CACHE = 65536"
definition REFRESH_QUERY_CACHE_FREE :: uint32 where "REFRESH_QUERY_CACHE_FREE = 0x20000"
definition REFRESH_DES_KEY_FILE :: uint32 where "REFRESH_DES_KEY_FILE = 0x40000"
definition REFRESH_USER_RESOURCES :: uint32 where "REFRESH_USER_RESOURCES = 0x80000"

text \<open>Capabilities of a client.\<close>

definition CLIENT_LONG_PASSWORD :: uint32 where "CLIENT_LONG_PASSWORD = 1"
definition CLIENT_FOUND_ROWS :: uint32 where "CLIENT_FOUND_ROWS = 2"
definition CLIENT_LONG_FLAG :: uint32 where "CLIENT_LONG_FLAG = 4"
definition CLIENT_CONNECT_WITH_DB :: uint32 where "CLIENT_CONNECT_WITH_DB = 8"
definition CLIENT_NO_SCHEMA :: uint32 where "CLIENT_NO_SCHEMA = 16"
definition CLIENT_COMPRESS :: uint32 where "CLIENT_COMPRESS = 32"
definition CLIENT_ODBC :: uint32 where "CLIENT_ODBC = 64"
definition CLIENT_LOCAL_FILES :: uint32 where "CLIENT_LOCAL_FILES = 128"
definition CLIENT_IGNORE_SPACE :: uint32 where "CLIENT_IGNORE_SPACE = 256"
definition CLIENT_PROTOCOL_41 :: uint32 where "CLIENT_PROTOCOL_41 = 512"
definition CLIENT_INTERACTIVE :: uint32 where "CLIENT_INTERACTIVE = 1024"
definition CLIENT_SSL :: uint32 where "CLIENT_SSL = 2048"
definition CLIENT_IGNORE_SIGPIPE :: uint32 where "CLIENT_IGNORE_SIGPIPE = 4096"
definition CLIENT_TRANSACTIONS :: uint32 where "CLIENT_TRANSACTIONS = 8192"
definition CLIENT_RESERVED :: uint32 where "CLIENT_RESERVED = 16384"
definition CLIENT_SECURE_CONNECTION :: uint32 where "CLIENT_SECURE_CONNECTION = 32768"
definition CLIENT_MULTI_STATEMENTS :: uint32 where "CLIENT_MULTI_STATEMENTS = push_bit 16 1"
definition CLIENT_MULTI_RESULTS :: uint32 where "CLIENT_MULTI_RESULTS = push_bit 17 1"
definition CLIENT_PS_MULTI_RESULTS :: uint32 where "CLIENT_PS_MULTI_RESULTS = push_bit 18 1"
definition CLIENT_PLUGIN_AUTH :: uint32 where "CLIENT_PLUGIN_AUTH = push_bit 19 1"
definition CLIENT_SSL_VERIFY_SERVER_CERT :: uint32 where "CLIENT_SSL_VERIFY_SERVER_CERT = push_bit 30 1"
definition CLIENT_REMEMBER_OPTIONS :: uint32 where "CLIENT_REMEMBER_OPTIONS = push_bit 31 1"

definition CLIENT_ALL_FLAGS :: uint32 where
  "CLIENT_ALL_FLAGS = foldr or [CLIENT_LONG_PASSWORD, CLIENT_FOUND_ROWS, CLIENT_LONG_FLAG, CLIENT_CONNECT_WITH_DB, CLIENT_NO_SCHEMA, 
     CLIENT_COMPRESS, CLIENT_ODBC, CLIENT_LOCAL_FILES, CLIENT_IGNORE_SPACE, CLIENT_PROTOCOL_41, 
     CLIENT_INTERACTIVE, CLIENT_SSL, CLIENT_IGNORE_SIGPIPE, CLIENT_TRANSACTIONS, CLIENT_RESERVED, 
     CLIENT_SECURE_CONNECTION, CLIENT_MULTI_STATEMENTS, CLIENT_MULTI_RESULTS, CLIENT_PS_MULTI_RESULTS, 
     CLIENT_SSL_VERIFY_SERVER_CERT, CLIENT_REMEMBER_OPTIONS, CLIENT_PLUGIN_AUTH] 0"

definition CLIENT_BASIC_FLAGS :: uint32 where
  "CLIENT_BASIC_FLAGS = and (and (and CLIENT_ALL_FLAGS (not CLIENT_SSL)) (not CLIENT_COMPRESS)) (not CLIENT_SSL_VERIFY_SERVER_CERT)"

text \<open>Status of the server.\<close>

definition SERVER_STATUS_IN_TRANS :: uint32 where "SERVER_STATUS_IN_TRANS = 1"
definition SERVER_STATUS_AUTOCOMMIT :: uint32 where "SERVER_STATUS_AUTOCOMMIT = 2"
definition SERVER_MORE_RESULTS_EXISTS :: uint32 where "SERVER_MORE_RESULTS_EXISTS = 8"
definition SERVER_QUERY_NO_GOOD_INDEX_USED :: uint32 where "SERVER_QUERY_NO_GOOD_INDEX_USED = 16"
definition SERVER_QUERY_NO_INDEX_USED :: uint32 where "SERVER_QUERY_NO_INDEX_USED = 32"
definition SERVER_STATUS_CURSOR_EXISTS :: uint32 where "SERVER_STATUS_CURSOR_EXISTS = 64"
definition SERVER_STATUS_LAST_ROW_SENT :: uint32 where "SERVER_STATUS_LAST_ROW_SENT = 128"
definition SERVER_STATUS_DB_DROPPED :: uint32 where "SERVER_STATUS_DB_DROPPED = 256"
definition SERVER_STATUS_NO_BACKSLASH_ESCAPES :: uint32 where "SERVER_STATUS_NO_BACKSLASH_ESCAPES = 512"
definition SERVER_STATUS_METADATA_CHANGED :: uint32 where "SERVER_STATUS_METADATA_CHANGED = 1024"
definition SERVER_QUERY_WAS_SLOW :: uint32 where "SERVER_QUERY_WAS_SLOW = 2048"
definition SERVER_PS_OUT_PARAMS :: uint32 where "SERVER_PS_OUT_PARAMS = 4096"

definition SERVER_STATUS_CLEAR_SET :: uint32 where
  "SERVER_STATUS_CLEAR_SET = foldr or [SERVER_QUERY_NO_GOOD_INDEX_USED, SERVER_QUERY_NO_INDEX_USED, SERVER_MORE_RESULTS_EXISTS, 
     SERVER_STATUS_METADATA_CHANGED, SERVER_QUERY_WAS_SLOW, SERVER_STATUS_DB_DROPPED, SERVER_STATUS_CURSOR_EXISTS, 
     SERVER_STATUS_LAST_ROW_SENT] 0"

lemmas client_flag_defs = CLIENT_LONG_PASSWORD_def CLIENT_FOUND_ROWS_def CLIENT_LONG_FLAG_def CLIENT_CONNECT_WITH_DB_def CLIENT_NO_SCHEMA_def CLIENT_COMPRESS_def CLIENT_ODBC_def CLIENT_LOCAL_FILES_def CLIENT_IGNORE_SPACE_def CLIENT_PROTOCOL_41_def CLIENT_INTERACTIVE_def CLIENT_SSL_def CLIENT_IGNORE_SIGPIPE_def CLIENT_TRANSACTIONS_def CLIENT_RESERVED_def CLIENT_SECURE_CONNECTION_def CLIENT_MULTI_STATEMENTS_def CLIENT_MULTI_RESULTS_def CLIENT_PS_MULTI_RESULTS_def CLIENT_PLUGIN_AUTH_def CLIENT_SSL_VERIFY_SERVER_CERT_def CLIENT_REMEMBER_OPTIONS_def

lemmas server_status_defs = SERVER_STATUS_IN_TRANS_def SERVER_STATUS_AUTOCOMMIT_def SERVER_MORE_RESULTS_EXISTS_def SERVER_QUERY_NO_GOOD_INDEX_USED_def SERVER_QUERY_NO_INDEX_USED_def SERVER_STATUS_CURSOR_EXISTS_def SERVER_STATUS_LAST_ROW_SENT_def SERVER_STATUS_DB_DROPPED_def SERVER_STATUS_NO_BACKSLASH_ESCAPES_def SERVER_STATUS_METADATA_CHANGED_def SERVER_QUERY_WAS_SLOW_def SERVER_PS_OUT_PARAMS_def

lemmas field_flag_defs = NOT_NULL_FLAG_def PRI_KEY_FLAG_def UNIQUE_KEY_FLAG_def MULTIPLE_KEY_FLAG_def BLOB_FLAG_def UNSIGNED_FLAG_def ZEROFILL_FLAG_def BINARY_FLAG_def ENUM_FLAG_def AUTO_INCREMENT_FLAG_def TIMESTAMP_FLAG_def SET_FLAG_def NO_DEFAULT_VALUE_FLAG_def ON_UPDATE_NOW_FLAG_def NUM_FLAG_def PART_KEY_FLAG_def GROUP_FLAG_def UNIQUE_FLAG_def BINCMP_FLAG_def GET_FIXED_FIELDS_FLAG_def FIELD_IN_PART_FUNC_FLAG_def FIELD_IN_ADD_INDEX_def FIELD_IS_RENAMED_def

section \<open>Types of fields\<close>

datatype (plugins only: size) enum_field_types =
  MYSQL_TYPE_DECIMAL | MYSQL_TYPE_TINY | MYSQL_TYPE_SHORT | MYSQL_TYPE_LONG | MYSQL_TYPE_FLOAT | 
  MYSQL_TYPE_DOUBLE | MYSQL_TYPE_NULL | MYSQL_TYPE_TIMESTAMP | MYSQL_TYPE_LONGLONG | MYSQL_TYPE_INT24 | 
  MYSQL_TYPE_DATE | MYSQL_TYPE_TIME | MYSQL_TYPE_DATETIME | MYSQL_TYPE_YEAR | MYSQL_TYPE_NEWDATE | 
  MYSQL_TYPE_VARCHAR | MYSQL_TYPE_BIT | MYSQL_TYPE_NEWDECIMAL | MYSQL_TYPE_ENUM | MYSQL_TYPE_SET | 
  MYSQL_TYPE_TINY_BLOB | MYSQL_TYPE_MEDIUM_BLOB | MYSQL_TYPE_LONG_BLOB | MYSQL_TYPE_BLOB | 
  MYSQL_TYPE_VAR_STRING | MYSQL_TYPE_STRING | MYSQL_TYPE_GEOMETRY

fun field_type_code :: "enum_field_types \<Rightarrow> int" where
  "field_type_code MYSQL_TYPE_DECIMAL = 0"
| "field_type_code MYSQL_TYPE_TINY = 1"
| "field_type_code MYSQL_TYPE_SHORT = 2"
| "field_type_code MYSQL_TYPE_LONG = 3"
| "field_type_code MYSQL_TYPE_FLOAT = 4"
| "field_type_code MYSQL_TYPE_DOUBLE = 5"
| "field_type_code MYSQL_TYPE_NULL = 6"
| "field_type_code MYSQL_TYPE_TIMESTAMP = 7"
| "field_type_code MYSQL_TYPE_LONGLONG = 8"
| "field_type_code MYSQL_TYPE_INT24 = 9"
| "field_type_code MYSQL_TYPE_DATE = 10"
| "field_type_code MYSQL_TYPE_TIME = 11"
| "field_type_code MYSQL_TYPE_DATETIME = 12"
| "field_type_code MYSQL_TYPE_YEAR = 13"
| "field_type_code MYSQL_TYPE_NEWDATE = 14"
| "field_type_code MYSQL_TYPE_VARCHAR = 15"
| "field_type_code MYSQL_TYPE_BIT = 16"
| "field_type_code MYSQL_TYPE_NEWDECIMAL = 246"
| "field_type_code MYSQL_TYPE_ENUM = 247"
| "field_type_code MYSQL_TYPE_SET = 248"
| "field_type_code MYSQL_TYPE_TINY_BLOB = 249"
| "field_type_code MYSQL_TYPE_MEDIUM_BLOB = 250"
| "field_type_code MYSQL_TYPE_LONG_BLOB = 251"
| "field_type_code MYSQL_TYPE_BLOB = 252"
| "field_type_code MYSQL_TYPE_VAR_STRING = 253"
| "field_type_code MYSQL_TYPE_STRING = 254"
| "field_type_code MYSQL_TYPE_GEOMETRY = 255"

text \<open>All of them, in the order of the enumeration.\<close>

definition all_field_types :: "enum_field_types list" where
  "all_field_types = [MYSQL_TYPE_DECIMAL, MYSQL_TYPE_TINY, MYSQL_TYPE_SHORT, MYSQL_TYPE_LONG, MYSQL_TYPE_FLOAT, MYSQL_TYPE_DOUBLE, 
     MYSQL_TYPE_NULL, MYSQL_TYPE_TIMESTAMP, MYSQL_TYPE_LONGLONG, MYSQL_TYPE_INT24, MYSQL_TYPE_DATE, 
     MYSQL_TYPE_TIME, MYSQL_TYPE_DATETIME, MYSQL_TYPE_YEAR, MYSQL_TYPE_NEWDATE, MYSQL_TYPE_VARCHAR, 
     MYSQL_TYPE_BIT, MYSQL_TYPE_NEWDECIMAL, MYSQL_TYPE_ENUM, MYSQL_TYPE_SET, MYSQL_TYPE_TINY_BLOB, 
     MYSQL_TYPE_MEDIUM_BLOB, MYSQL_TYPE_LONG_BLOB, MYSQL_TYPE_BLOB, MYSQL_TYPE_VAR_STRING, MYSQL_TYPE_STRING, 
     MYSQL_TYPE_GEOMETRY]"

definition field_type_of_code :: "int \<Rightarrow> enum_field_types option" where
  "field_type_of_code c = find (\<lambda>t. field_type_code t = c) all_field_types"

definition IS_PRI_KEY :: "uint32 \<Rightarrow> bool" where
  "IS_PRI_KEY n \<longleftrightarrow> and n PRI_KEY_FLAG \<noteq> 0"

definition IS_NOT_NULL :: "uint32 \<Rightarrow> bool" where
  "IS_NOT_NULL n \<longleftrightarrow> and n NOT_NULL_FLAG \<noteq> 0"

definition IS_BLOB :: "uint32 \<Rightarrow> bool" where
  "IS_BLOB n \<longleftrightarrow> and n BLOB_FLAG \<noteq> 0"

definition IS_NUM :: "int \<Rightarrow> bool" where
  "IS_NUM t \<longleftrightarrow> t \<le> field_type_code MYSQL_TYPE_INT24 \<and> t \<noteq> field_type_code MYSQL_TYPE_TIMESTAMP \<or>
     t = field_type_code MYSQL_TYPE_YEAR \<or> t = field_type_code MYSQL_TYPE_NEWDECIMAL"

definition IS_LONGDATA :: "int \<Rightarrow> bool" where
  "IS_LONGDATA t \<longleftrightarrow> t \<ge> field_type_code MYSQL_TYPE_TINY_BLOB \<and> t \<le> field_type_code MYSQL_TYPE_STRING"

section \<open>Shutdown levels\<close>

datatype (plugins only: size) mysql_enum_shutdown_level =
  SHUTDOWN_DEFAULT | SHUTDOWN_WAIT_CONNECTIONS | SHUTDOWN_WAIT_TRANSACTIONS | SHUTDOWN_WAIT_UPDATES
| SHUTDOWN_WAIT_ALL_BUFFERS | SHUTDOWN_WAIT_CRITICAL_BUFFERS | KILL_QUERY | KILL_CONNECTION

fun shutdown_code :: "mysql_enum_shutdown_level \<Rightarrow> int" where
  "shutdown_code SHUTDOWN_DEFAULT = 0"
| "shutdown_code SHUTDOWN_WAIT_CONNECTIONS = push_bit 0 1"
| "shutdown_code SHUTDOWN_WAIT_TRANSACTIONS = push_bit 1 1"
| "shutdown_code SHUTDOWN_WAIT_UPDATES = push_bit 3 1"
| "shutdown_code SHUTDOWN_WAIT_ALL_BUFFERS = push_bit 1 (push_bit 3 1)"
| "shutdown_code SHUTDOWN_WAIT_CRITICAL_BUFFERS = push_bit 1 (push_bit 3 1) + 1"
| "shutdown_code KILL_QUERY = 254"
| "shutdown_code KILL_CONNECTION = 255"

section \<open>The connection\<close>

record NET =
  net_vio :: addr
  net_buff :: addr
  net_buff_end :: addr
  net_write_pos :: addr
  net_read_pos :: addr
  net_fd :: uint32
  remain_in_buf :: uint32
  net_length :: uint32
  buf_length :: uint32
  where_b :: uint32
  max_packet :: uint32
  max_packet_size :: uint32
  pkt_nr :: uint32
  compress_pkt_nr :: uint32
  write_timeout :: uint32
  read_timeout :: uint32
  retry_count :: uint32
  net_fcntl :: int
  return_status :: addr
  reading_or_writing :: uchar
  save_char :: uchar
  net_unused1 :: bool
  net_unused2 :: bool
  net_compress :: bool
  net_unused3 :: bool
  net_unused :: addr
  last_errno :: uint32
  net_error :: uchar
  net_unused4 :: bool
  net_unused5 :: bool
  last_error :: "uchar list"
  sqlstate :: "uchar list"
  net_extension :: addr

definition packet_error :: uint32 where
  "packet_error = not 0"

definition NULL_LENGTH :: uint32 where
  "NULL_LENGTH = not 0"

definition net_new_transaction :: "NET \<Rightarrow> NET" where
  "net_new_transaction net = net\<lparr>pkt_nr := 0\<rparr>"

text \<open>
  The dispatch of commands: \<open>advanced_command\<close> is the method of the connection, with the command, header and its length, argument and
  its length, whether to skip the check of the reply, and the statement.
\<close>

type_synonym 'w advanced_command =
  "enum_server_command \<Rightarrow> addr \<Rightarrow> uint32 \<Rightarrow> addr \<Rightarrow> uint32 \<Rightarrow> bool \<Rightarrow> addr \<Rightarrow> 'w \<Rightarrow> bool \<times> 'w"

definition simple_command :: "'w advanced_command \<Rightarrow> enum_server_command \<Rightarrow> addr \<Rightarrow> uint32 \<Rightarrow> bool \<Rightarrow> 'w \<Rightarrow> bool \<times> 'w" where
  "simple_command adv command arg len skip_check = adv command 0 0 arg len skip_check 0"

definition stmt_command :: "'w advanced_command \<Rightarrow> enum_server_command \<Rightarrow> addr \<Rightarrow> uint32 \<Rightarrow> addr \<Rightarrow> 'w \<Rightarrow> bool \<times> 'w" where
  "stmt_command adv command arg len stmt = adv command 0 0 arg len True stmt"

definition protocol_41 :: "uint32 \<Rightarrow> bool" where
  "protocol_41 server_capabilities \<longleftrightarrow> and server_capabilities CLIENT_PROTOCOL_41 \<noteq> 0"

section \<open>Client errors\<close>

definition CR_MIN_ERROR :: int where "CR_MIN_ERROR = 2000"
definition CR_MAX_ERROR :: int where "CR_MAX_ERROR = 2999"
definition CR_ERROR_FIRST :: int where "CR_ERROR_FIRST = 2000"
definition CR_ERROR_LAST :: int where "CR_ERROR_LAST = 2059"

datatype (plugins only: size) client_error =
  CR_UNKNOWN_ERROR | CR_SOCKET_CREATE_ERROR | CR_CONNECTION_ERROR | CR_CONN_HOST_ERROR | CR_IPSOCK_ERROR | 
  CR_UNKNOWN_HOST | CR_SERVER_GONE_ERROR | CR_VERSION_ERROR | CR_OUT_OF_MEMORY | CR_WRONG_HOST_INFO | 
  CR_LOCALHOST_CONNECTION | CR_TCP_CONNECTION | CR_SERVER_HANDSHAKE_ERR | CR_SERVER_LOST | 
  CR_COMMANDS_OUT_OF_SYNC | CR_NAMEDPIPE_CONNECTION | CR_NAMEDPIPEWAIT_ERROR | CR_NAMEDPIPEOPEN_ERROR | 
  CR_NAMEDPIPESETSTATE_ERROR | CR_CANT_READ_CHARSET | CR_NET_PACKET_TOO_LARGE | CR_EMBEDDED_CONNECTION | 
  CR_PROBE_SLAVE_STATUS | CR_PROBE_SLAVE_HOSTS | CR_PROBE_SLAVE_CONNECT | CR_PROBE_MASTER_CONNECT | 
  CR_SSL_CONNECTION_ERROR | CR_MALFORMED_PACKET | CR_WRONG_LICENSE | CR_NULL_POINTER | CR_NO_PREPARE_STMT | 
  CR_PARAMS_NOT_BOUND | CR_DATA_TRUNCATED | CR_NO_PARAMETERS_EXISTS | CR_INVALID_PARAMETER_NO | 
  CR_INVALID_BUFFER_USE | CR_UNSUPPORTED_PARAM_TYPE | CR_SHARED_MEMORY_CONNECTION | 
  CR_SHARED_MEMORY_CONNECT_REQUEST_ERROR | CR_SHARED_MEMORY_CONNECT_ANSWER_ERROR | 
  CR_SHARED_MEMORY_CONNECT_FILE_MAP_ERROR | CR_SHARED_MEMORY_CONNECT_MAP_ERROR | 
  CR_SHARED_MEMORY_FILE_MAP_ERROR | CR_SHARED_MEMORY_MAP_ERROR | CR_SHARED_MEMORY_EVENT_ERROR | 
  CR_SHARED_MEMORY_CONNECT_ABANDONED_ERROR | CR_SHARED_MEMORY_CONNECT_SET_ERROR | CR_CONN_UNKNOW_PROTOCOL | 
  CR_INVALID_CONN_HANDLE | CR_SECURE_AUTH | CR_FETCH_CANCELED | CR_NO_DATA | CR_NO_STMT_METADATA | 
  CR_NO_RESULT_SET | CR_NOT_IMPLEMENTED | CR_SERVER_LOST_EXTENDED | CR_STMT_CLOSED | CR_NEW_STMT_METADATA | 
  CR_ALREADY_CONNECTED | CR_AUTH_PLUGIN_CANNOT_LOAD

fun client_errno :: "client_error \<Rightarrow> int" where
  "client_errno CR_UNKNOWN_ERROR = 2000"
| "client_errno CR_SOCKET_CREATE_ERROR = 2001"
| "client_errno CR_CONNECTION_ERROR = 2002"
| "client_errno CR_CONN_HOST_ERROR = 2003"
| "client_errno CR_IPSOCK_ERROR = 2004"
| "client_errno CR_UNKNOWN_HOST = 2005"
| "client_errno CR_SERVER_GONE_ERROR = 2006"
| "client_errno CR_VERSION_ERROR = 2007"
| "client_errno CR_OUT_OF_MEMORY = 2008"
| "client_errno CR_WRONG_HOST_INFO = 2009"
| "client_errno CR_LOCALHOST_CONNECTION = 2010"
| "client_errno CR_TCP_CONNECTION = 2011"
| "client_errno CR_SERVER_HANDSHAKE_ERR = 2012"
| "client_errno CR_SERVER_LOST = 2013"
| "client_errno CR_COMMANDS_OUT_OF_SYNC = 2014"
| "client_errno CR_NAMEDPIPE_CONNECTION = 2015"
| "client_errno CR_NAMEDPIPEWAIT_ERROR = 2016"
| "client_errno CR_NAMEDPIPEOPEN_ERROR = 2017"
| "client_errno CR_NAMEDPIPESETSTATE_ERROR = 2018"
| "client_errno CR_CANT_READ_CHARSET = 2019"
| "client_errno CR_NET_PACKET_TOO_LARGE = 2020"
| "client_errno CR_EMBEDDED_CONNECTION = 2021"
| "client_errno CR_PROBE_SLAVE_STATUS = 2022"
| "client_errno CR_PROBE_SLAVE_HOSTS = 2023"
| "client_errno CR_PROBE_SLAVE_CONNECT = 2024"
| "client_errno CR_PROBE_MASTER_CONNECT = 2025"
| "client_errno CR_SSL_CONNECTION_ERROR = 2026"
| "client_errno CR_MALFORMED_PACKET = 2027"
| "client_errno CR_WRONG_LICENSE = 2028"
| "client_errno CR_NULL_POINTER = 2029"
| "client_errno CR_NO_PREPARE_STMT = 2030"
| "client_errno CR_PARAMS_NOT_BOUND = 2031"
| "client_errno CR_DATA_TRUNCATED = 2032"
| "client_errno CR_NO_PARAMETERS_EXISTS = 2033"
| "client_errno CR_INVALID_PARAMETER_NO = 2034"
| "client_errno CR_INVALID_BUFFER_USE = 2035"
| "client_errno CR_UNSUPPORTED_PARAM_TYPE = 2036"
| "client_errno CR_SHARED_MEMORY_CONNECTION = 2037"
| "client_errno CR_SHARED_MEMORY_CONNECT_REQUEST_ERROR = 2038"
| "client_errno CR_SHARED_MEMORY_CONNECT_ANSWER_ERROR = 2039"
| "client_errno CR_SHARED_MEMORY_CONNECT_FILE_MAP_ERROR = 2040"
| "client_errno CR_SHARED_MEMORY_CONNECT_MAP_ERROR = 2041"
| "client_errno CR_SHARED_MEMORY_FILE_MAP_ERROR = 2042"
| "client_errno CR_SHARED_MEMORY_MAP_ERROR = 2043"
| "client_errno CR_SHARED_MEMORY_EVENT_ERROR = 2044"
| "client_errno CR_SHARED_MEMORY_CONNECT_ABANDONED_ERROR = 2045"
| "client_errno CR_SHARED_MEMORY_CONNECT_SET_ERROR = 2046"
| "client_errno CR_CONN_UNKNOW_PROTOCOL = 2047"
| "client_errno CR_INVALID_CONN_HANDLE = 2048"
| "client_errno CR_SECURE_AUTH = 2049"
| "client_errno CR_FETCH_CANCELED = 2050"
| "client_errno CR_NO_DATA = 2051"
| "client_errno CR_NO_STMT_METADATA = 2052"
| "client_errno CR_NO_RESULT_SET = 2053"
| "client_errno CR_NOT_IMPLEMENTED = 2054"
| "client_errno CR_SERVER_LOST_EXTENDED = 2055"
| "client_errno CR_STMT_CLOSED = 2056"
| "client_errno CR_NEW_STMT_METADATA = 2057"
| "client_errno CR_ALREADY_CONNECTED = 2058"
| "client_errno CR_AUTH_PLUGIN_CANNOT_LOAD = 2059"

definition all_client_errors :: "client_error list" where
  "all_client_errors = [CR_UNKNOWN_ERROR, CR_SOCKET_CREATE_ERROR, CR_CONNECTION_ERROR, CR_CONN_HOST_ERROR, CR_IPSOCK_ERROR, 
     CR_UNKNOWN_HOST, CR_SERVER_GONE_ERROR, CR_VERSION_ERROR, CR_OUT_OF_MEMORY, CR_WRONG_HOST_INFO, 
     CR_LOCALHOST_CONNECTION, CR_TCP_CONNECTION, CR_SERVER_HANDSHAKE_ERR, CR_SERVER_LOST, CR_COMMANDS_OUT_OF_SYNC, 
     CR_NAMEDPIPE_CONNECTION, CR_NAMEDPIPEWAIT_ERROR, CR_NAMEDPIPEOPEN_ERROR, CR_NAMEDPIPESETSTATE_ERROR, 
     CR_CANT_READ_CHARSET, CR_NET_PACKET_TOO_LARGE, CR_EMBEDDED_CONNECTION, CR_PROBE_SLAVE_STATUS, 
     CR_PROBE_SLAVE_HOSTS, CR_PROBE_SLAVE_CONNECT, CR_PROBE_MASTER_CONNECT, CR_SSL_CONNECTION_ERROR, 
     CR_MALFORMED_PACKET, CR_WRONG_LICENSE, CR_NULL_POINTER, CR_NO_PREPARE_STMT, CR_PARAMS_NOT_BOUND, 
     CR_DATA_TRUNCATED, CR_NO_PARAMETERS_EXISTS, CR_INVALID_PARAMETER_NO, CR_INVALID_BUFFER_USE, 
     CR_UNSUPPORTED_PARAM_TYPE, CR_SHARED_MEMORY_CONNECTION, CR_SHARED_MEMORY_CONNECT_REQUEST_ERROR, 
     CR_SHARED_MEMORY_CONNECT_ANSWER_ERROR, CR_SHARED_MEMORY_CONNECT_FILE_MAP_ERROR, 
     CR_SHARED_MEMORY_CONNECT_MAP_ERROR, CR_SHARED_MEMORY_FILE_MAP_ERROR, CR_SHARED_MEMORY_MAP_ERROR, 
     CR_SHARED_MEMORY_EVENT_ERROR, CR_SHARED_MEMORY_CONNECT_ABANDONED_ERROR, CR_SHARED_MEMORY_CONNECT_SET_ERROR, 
     CR_CONN_UNKNOW_PROTOCOL, CR_INVALID_CONN_HANDLE, CR_SECURE_AUTH, CR_FETCH_CANCELED, CR_NO_DATA, 
     CR_NO_STMT_METADATA, CR_NO_RESULT_SET, CR_NOT_IMPLEMENTED, CR_SERVER_LOST_EXTENDED, CR_STMT_CLOSED, 
     CR_NEW_STMT_METADATA, CR_ALREADY_CONNECTED, CR_AUTH_PLUGIN_CANNOT_LOAD]"

text \<open>The access \<^verbatim>\<open>client_errors[(X)-CR_MIN_ERROR]\<close>; outside of the array there is no message.\<close>

definition ER :: "'m list \<Rightarrow> int \<Rightarrow> 'm option" where
  "ER client_errors X = (if 0 \<le> X - CR_MIN_ERROR \<and> X - CR_MIN_ERROR < int (length client_errors)
     then Some (client_errors ! nat (X - CR_MIN_ERROR)) else None)"

section \<open>Lemmas\<close>

lemma in_all_field_types: "t \<in> set all_field_types"
  by (cases t) (simp_all add: all_field_types_def)

lemma in_all_client_errors: "e \<in> set all_client_errors"
  by (cases e) (simp_all add: all_client_errors_def)

lemma client_errnos: "map client_errno all_client_errors = [CR_ERROR_FIRST..CR_ERROR_LAST]"
  by (simp add: all_client_errors_def CR_ERROR_FIRST_def CR_ERROR_LAST_def upto.simps)

lemma field_codes_distinct: "distinct (map field_type_code all_field_types)"
  by (simp add: all_field_types_def)

text \<open>A list of words that are one bit each, all different.\<close>

definition bit_flags :: "uint32 list \<Rightarrow> nat list \<Rightarrow> bool" where
  "bit_flags fs ks \<longleftrightarrow> fs = map (\<lambda>k. push_bit k 1) ks \<and> distinct ks \<and> (\<forall>k\<in>set ks. k < 32)"

lemma bit_flags_independent:
  assumes "bit_flags fs ks" "f \<in> set fs" "g \<in> set fs" "f \<noteq> g"
  shows "f \<noteq> 0" "and f g = 0" "and (or x f) g = and x g" "and (and x (not f)) g = and x g"
proof -
  obtain i j where ij: "f = push_bit i 1" "g = push_bit j 1" "i < 32" "j < 32" "i \<noteq> j"
    using assms by (auto simp: bit_flags_def)
  show "f \<noteq> 0" using ij by (auto simp: bit_eq_iff bit_simps)
  show "and f g = 0" "and (or x f) g = and x g" "and (and x (not f)) g = and x g"
    using ij(5) unfolding ij(1,2) by (auto intro!: bit_word_eqI simp: bit_simps)
qed

text \<open>The levels after the default one grow with the hardness of the shutdown, in the order of the enumeration.\<close>

lemma shutdown_levels_grow:
  "sorted_wrt (<) (map shutdown_code [SHUTDOWN_DEFAULT, SHUTDOWN_WAIT_CONNECTIONS, SHUTDOWN_WAIT_TRANSACTIONS, SHUTDOWN_WAIT_UPDATES,
     SHUTDOWN_WAIT_ALL_BUFFERS, SHUTDOWN_WAIT_CRITICAL_BUFFERS, KILL_QUERY, KILL_CONNECTION])"
  by simp

section \<open>Properties\<close>

lemma find_inverse:
  assumes "distinct (map f xs)" "x \<in> set xs"
  shows "find (\<lambda>y. f y = f x) xs = Some x"
  using assms by (induction xs) (auto simp: image_iff)

lemma find_code_Some: "find (\<lambda>y. f y = c) xs = Some x \<Longrightarrow> f x = c"
  by (induction xs) (auto split: if_splits)

text \<open>The capabilities of a client, and the bit of each.\<close>

definition client_flags :: "uint32 list" where
  "client_flags = [CLIENT_LONG_PASSWORD, CLIENT_FOUND_ROWS, CLIENT_LONG_FLAG, CLIENT_CONNECT_WITH_DB, CLIENT_NO_SCHEMA,
     CLIENT_COMPRESS, CLIENT_ODBC, CLIENT_LOCAL_FILES, CLIENT_IGNORE_SPACE, CLIENT_PROTOCOL_41,
     CLIENT_INTERACTIVE, CLIENT_SSL, CLIENT_IGNORE_SIGPIPE, CLIENT_TRANSACTIONS, CLIENT_RESERVED,
     CLIENT_SECURE_CONNECTION, CLIENT_MULTI_STATEMENTS, CLIENT_MULTI_RESULTS, CLIENT_PS_MULTI_RESULTS,
     CLIENT_PLUGIN_AUTH, CLIENT_SSL_VERIFY_SERVER_CERT, CLIENT_REMEMBER_OPTIONS]"

lemma client_bit_flags: "bit_flags client_flags ([0..<20] @ [30, 31])"
  by (simp add: bit_flags_def client_flags_def client_flag_defs upt_rec numeral_nat)

lemma client_all_flags: "CLIENT_ALL_FLAGS = 0xC00FFFFF"
  by (simp add: CLIENT_ALL_FLAGS_def client_flag_defs)

lemma client_basic_flags: "CLIENT_BASIC_FLAGS = 0x800FF7DF"
  by (simp add: CLIENT_BASIC_FLAGS_def client_all_flags client_flag_defs)

text \<open>The type of a column survives the wire: every type has a code of one byte, reading the code back gives the type,
  and a code that is read back as a type is the code of that type.  On these codes the comparisons of
  \<^verbatim>\<open>IS_NUM\<close> and \<^verbatim>\<open>IS_LONGDATA\<close> select exactly the numeric types and the types whose values may be sent in pieces.
\<close>

lemma field_type_codes:
  "field_type_of_code (field_type_code t) = Some t \<and> (field_type_of_code c = Some u \<longleftrightarrow> c = field_type_code u) \<and>
   0 \<le> field_type_code t \<and> field_type_code t < 256 \<and>
   (IS_NUM (field_type_code t) \<longleftrightarrow> t \<in> {MYSQL_TYPE_DECIMAL, MYSQL_TYPE_TINY, MYSQL_TYPE_SHORT, MYSQL_TYPE_LONG, MYSQL_TYPE_FLOAT,
      MYSQL_TYPE_DOUBLE, MYSQL_TYPE_NULL, MYSQL_TYPE_LONGLONG, MYSQL_TYPE_INT24, MYSQL_TYPE_YEAR, MYSQL_TYPE_NEWDECIMAL}) \<and>
   (IS_LONGDATA (field_type_code t) \<longleftrightarrow> t \<in> {MYSQL_TYPE_TINY_BLOB, MYSQL_TYPE_MEDIUM_BLOB, MYSQL_TYPE_LONG_BLOB,
      MYSQL_TYPE_BLOB, MYSQL_TYPE_VAR_STRING, MYSQL_TYPE_STRING})"
proof -
  have rt: "field_type_of_code (field_type_code t) = Some t" for t
    unfolding field_type_of_code_def by (rule find_inverse [OF field_codes_distinct in_all_field_types])
  have "field_type_of_code c = Some u \<longleftrightarrow> c = field_type_code u"
    using rt find_code_Some by (fastforce simp: field_type_of_code_def)
  moreover have "0 \<le> field_type_code t" "field_type_code t < 256" by (cases t, simp_all)+
  moreover have "IS_NUM (field_type_code t) \<longleftrightarrow> t \<in> {MYSQL_TYPE_DECIMAL, MYSQL_TYPE_TINY, MYSQL_TYPE_SHORT, MYSQL_TYPE_LONG, MYSQL_TYPE_FLOAT,
      MYSQL_TYPE_DOUBLE, MYSQL_TYPE_NULL, MYSQL_TYPE_LONGLONG, MYSQL_TYPE_INT24, MYSQL_TYPE_YEAR, MYSQL_TYPE_NEWDECIMAL}"
    by (cases t) (simp_all add: IS_NUM_def)
  moreover have "IS_LONGDATA (field_type_code t) \<longleftrightarrow> t \<in> {MYSQL_TYPE_TINY_BLOB, MYSQL_TYPE_MEDIUM_BLOB, MYSQL_TYPE_LONG_BLOB,
      MYSQL_TYPE_BLOB, MYSQL_TYPE_VAR_STRING, MYSQL_TYPE_STRING}"
    by (cases t) (simp_all add: IS_LONGDATA_def)
  ultimately show ?thesis using rt by (intro conjI)
qed

text \<open>The capability flags are one bit each and never interfere: setting or clearing one capability leaves what a test of another one says;
  \<^verbatim>\<open>CLIENT_ALL_FLAGS\<close> holds every one of them, and \<^verbatim>\<open>CLIENT_BASIC_FLAGS\<close> all but the three that
  depend on how the client was built.
\<close>

lemma client_flags_independent:
  assumes "f \<in> set client_flags" "g \<in> set client_flags" "f \<noteq> g"
  shows "f \<noteq> 0 \<and> and (or caps f) g = and caps g \<and> and (and caps (not f)) g = and caps g \<and>
    and CLIENT_ALL_FLAGS f = f \<and>
    and CLIENT_BASIC_FLAGS f = (if f \<in> {CLIENT_SSL, CLIENT_COMPRESS, CLIENT_SSL_VERIFY_SERVER_CERT} then 0 else f) \<and>
    (protocol_41 (or caps f) \<longleftrightarrow> f = CLIENT_PROTOCOL_41 \<or> protocol_41 caps)"
proof -
  note bits = bit_flags_independent [OF client_bit_flags assms]
  have "and CLIENT_ALL_FLAGS f = f"
    using assms(1) by (auto simp: client_all_flags client_flags_def client_flag_defs)
  moreover have "and CLIENT_BASIC_FLAGS f = (if f \<in> {CLIENT_SSL, CLIENT_COMPRESS, CLIENT_SSL_VERIFY_SERVER_CERT} then 0 else f)"
    using assms(1) by (auto simp: client_basic_flags client_flags_def client_flag_defs)
  moreover have "protocol_41 (or caps f) \<longleftrightarrow> f = CLIENT_PROTOCOL_41 \<or> protocol_41 caps"
  proof (cases "f = CLIENT_PROTOCOL_41")
    case True
    have "and (or caps f) f = f" by (auto intro!: bit_word_eqI simp: bit_simps)
    then show ?thesis using True bits(1) by (simp add: protocol_41_def)
  next
    case False
    have "CLIENT_PROTOCOL_41 \<in> set client_flags" by (simp add: client_flags_def)
    with False show ?thesis
      using bit_flags_independent(3) [OF client_bit_flags assms(1)] by (simp add: protocol_41_def)
  qed
  ultimately show ?thesis using bits by (intro conjI)
qed

lemma client_flags_independent_instance:
  "and (or 0 CLIENT_SSL) CLIENT_COMPRESS = and 0 CLIENT_COMPRESS \<and> and CLIENT_BASIC_FLAGS CLIENT_SSL = 0"
  using client_flags_independent [of CLIENT_SSL CLIENT_COMPRESS 0]
  by (simp add: client_flags_def client_flag_defs)

text \<open>With a message for each error of the list, \<^verbatim>\<open>ER\<close> stays inside of the array exactly for the error numbers
  the header declares, the numbers of two errors differ, and each error gets the message in its own place of the list;
  all of them lie in the range reserved for the client.
\<close>

lemma client_error_messages:
  assumes "int (length messages) = CR_ERROR_LAST - CR_ERROR_FIRST + 1"
  shows "ER messages X \<noteq> None \<longleftrightarrow> (\<exists>e. X = client_errno e)"
    and "n < length messages \<Longrightarrow> ER messages (client_errno (all_client_errors ! n)) = Some (messages ! n)"
    and "client_errno e = client_errno e' \<longleftrightarrow> e = e'"
    and "CR_MIN_ERROR \<le> client_errno e \<and> client_errno e \<le> CR_MAX_ERROR"
proof -
  have len: "length messages = 60" using assms by (simp add: CR_ERROR_LAST_def CR_ERROR_FIRST_def)
  have range: "range client_errno = {CR_ERROR_FIRST..CR_ERROR_LAST}"
  proof -
    have "range client_errno = set (map client_errno all_client_errors)" using in_all_client_errors by auto
    then show ?thesis by (simp only: client_errnos set_upto)
  qed
  show "ER messages X \<noteq> None \<longleftrightarrow> (\<exists>e. X = client_errno e)"
  proof -
    have "(\<exists>e. X = client_errno e) \<longleftrightarrow> X \<in> {CR_ERROR_FIRST..CR_ERROR_LAST}" using range by auto
    then show ?thesis by (auto simp: ER_def len CR_MIN_ERROR_def CR_ERROR_LAST_def CR_ERROR_FIRST_def)
  qed
  show "ER messages (client_errno (all_client_errors ! n)) = Some (messages ! n)" if "n < length messages"
  proof -
    have n: "n < length all_client_errors" using that len by (simp add: all_client_errors_def)
    then have "client_errno (all_client_errors ! n) = [CR_ERROR_FIRST..CR_ERROR_LAST] ! n"
      by (simp flip: client_errnos)
    also have "\<dots> = CR_ERROR_FIRST + int n"
      using that len by (intro nth_upto) (simp add: CR_ERROR_FIRST_def CR_ERROR_LAST_def)
    finally show ?thesis using that by (simp add: ER_def CR_MIN_ERROR_def CR_ERROR_FIRST_def)
  qed
  have "inj_on client_errno (set all_client_errors)"
  proof -
    have "distinct (map client_errno all_client_errors)" by (simp only: client_errnos distinct_upto)
    then show ?thesis by (simp add: distinct_map)
  qed
  then show "client_errno e = client_errno e' \<longleftrightarrow> e = e'" by (auto simp: inj_on_def in_all_client_errors)
  have "client_errno e \<in> {CR_ERROR_FIRST..CR_ERROR_LAST}" using range by auto
  then show "CR_MIN_ERROR \<le> client_errno e \<and> client_errno e \<le> CR_MAX_ERROR"
    by (simp add: CR_MIN_ERROR_def CR_MAX_ERROR_def CR_ERROR_FIRST_def CR_ERROR_LAST_def)
qed

lemma client_error_messages_instance:
  "ER [0..<60] 2013 = Some (13::nat) \<and> ER [0..<60::nat] 2060 = None"
proof -
  have len: "int (length [0..<60::nat]) = CR_ERROR_LAST - CR_ERROR_FIRST + 1"
    by (simp add: CR_ERROR_LAST_def CR_ERROR_FIRST_def)
  have "ER [0..<60] (client_errno (all_client_errors ! 13)) = Some ([0..<60] ! 13)"
    by (rule client_error_messages(2) [OF len]) simp
  moreover have "ER [0..<60::nat] 2060 = None" by (simp add: ER_def CR_MIN_ERROR_def)
  ultimately show ?thesis by (simp add: all_client_errors_def)
qed

end
