(* ===== verification/Charset_Handler.thy ===== *)
theory Charset_Handler
  imports Charset My_Double Protocol
begin

text \<open>
  The handlers of character sets and collations (\<^verbatim>\<open>m_ctype.h\<close>): the structures of function pointers behind
  \<^verbatim>\<open>cset\<close> and \<^verbatim>\<open>coll\<close> of a character set, the macros that call through them, and the flags of character sets.
  Character sets are found at addresses, as the functions get a pointer to the set they belong to; a function pointer may be null, and
  calling through a null pointer is an error.  In particular \<^verbatim>\<open>ismbchar\<close> is null for sets with single byte characters, which is what
  \<^verbatim>\<open>use_mb\<close> tests.
\<close>

section \<open>Constants and small structures\<close>

definition MY_CS_NAME_SIZE :: nat where "MY_CS_NAME_SIZE = 32"
definition MY_CS_CTYPE_TABLE_SIZE :: nat where "MY_CS_CTYPE_TABLE_SIZE = 257"
definition MY_CS_TO_LOWER_TABLE_SIZE :: nat where "MY_CS_TO_LOWER_TABLE_SIZE = 256"
definition MY_CS_TO_UPPER_TABLE_SIZE :: nat where "MY_CS_TO_UPPER_TABLE_SIZE = 256"
definition MY_CS_SORT_ORDER_TABLE_SIZE :: nat where "MY_CS_SORT_ORDER_TABLE_SIZE = 256"
definition MY_CS_TO_UNI_TABLE_SIZE :: nat where "MY_CS_TO_UNI_TABLE_SIZE = 256"
definition MY_CS_REPLACEMENT_CHARACTER :: uint32 where "MY_CS_REPLACEMENT_CHARACTER = 0xFFFD"

record MY_UNICASE_INFO =
  unicase_toupper :: uint32
  unicase_tolower :: uint32
  unicase_sort :: uint32

record MY_UNI_CTYPE =
  pctype :: uchar
  uni_ctype :: addr

record MY_UNI_IDX =
  uni_from :: uint16
  uni_to :: uint16
  uni_tab :: addr

record my_match_t =
  match_beg :: uint32
  match_end :: uint32
  mb_len :: uint32

text \<open>The flags of a character set that \<open>Charset\<close> does not use.\<close>

definition MY_CS_COMPILED :: uint32 where "MY_CS_COMPILED = 1"
definition MY_CS_CONFIG :: uint32 where "MY_CS_CONFIG = 2"
definition MY_CS_INDEX :: uint32 where "MY_CS_INDEX = 4"
definition MY_CS_LOADED :: uint32 where "MY_CS_LOADED = 8"
definition MY_CS_PRIMARY :: uint32 where "MY_CS_PRIMARY = 32"
definition MY_CS_UNICODE :: uint32 where "MY_CS_UNICODE = 128"
definition MY_CS_READY :: uint32 where "MY_CS_READY = 256"
definition MY_CS_AVAILABLE :: uint32 where "MY_CS_AVAILABLE = 512"
definition MY_CS_CSSORT :: uint32 where "MY_CS_CSSORT = 1024"
definition MY_CS_HIDDEN :: uint32 where "MY_CS_HIDDEN = 2048"
definition MY_CS_PUREASCII :: uint32 where "MY_CS_PUREASCII = 4096"
definition MY_CS_NONASCII :: uint32 where "MY_CS_NONASCII = 8192"
definition MY_CS_UNICODE_SUPPLEMENT :: uint32 where "MY_CS_UNICODE_SUPPLEMENT = 16384"
definition MY_REPERTOIRE_ASCII :: uint32 where "MY_REPERTOIRE_ASCII = 1"
definition MY_REPERTOIRE_EXTENDED :: uint32 where "MY_REPERTOIRE_EXTENDED = 2"
definition MY_REPERTOIRE_UNICODE30 :: uint32 where "MY_REPERTOIRE_UNICODE30 = 3"

text \<open>The states of the lexer, which the \<^verbatim>\<open>state_map\<close> of a character set holds for each byte.\<close>

datatype (plugins only: size) my_lex_states =
    MY_LEX_START | MY_LEX_CHAR | MY_LEX_IDENT | MY_LEX_IDENT_SEP | MY_LEX_IDENT_START
  | MY_LEX_REAL | MY_LEX_HEX_NUMBER | MY_LEX_BIN_NUMBER | MY_LEX_CMP_OP | MY_LEX_LONG_CMP_OP
  | MY_LEX_STRING | MY_LEX_COMMENT | MY_LEX_END | MY_LEX_OPERATOR_OR_IDENT | MY_LEX_NUMBER_IDENT
  | MY_LEX_INT_OR_REAL | MY_LEX_REAL_OR_POINT | MY_LEX_BOOL | MY_LEX_EOL | MY_LEX_ESCAPE
  | MY_LEX_LONG_COMMENT | MY_LEX_END_LONG_COMMENT | MY_LEX_SEMICOLON | MY_LEX_SET_VAR | MY_LEX_USER_END
  | MY_LEX_HOSTNAME | MY_LEX_SKIP | MY_LEX_USER_VARIABLE_DELIMITER | MY_LEX_SYSTEM_VAR | MY_LEX_IDENT_OR_KEYWORD
  | MY_LEX_IDENT_OR_HEX | MY_LEX_IDENT_OR_BIN | MY_LEX_IDENT_OR_NCHAR | MY_LEX_STRING_OR_DELIMITER

section \<open>Handlers\<close>

record 'w MY_COLLATION_HANDLER =
  coll_init :: "(addr \<Rightarrow> addr \<Rightarrow> 'w \<Rightarrow> bool \<times> 'w) option"
  strnncoll :: "(addr \<Rightarrow> addr \<Rightarrow> size_t \<Rightarrow> addr \<Rightarrow> size_t \<Rightarrow> bool \<Rightarrow> 'w \<Rightarrow> int \<times> 'w) option"
  strnncollsp :: "(addr \<Rightarrow> addr \<Rightarrow> size_t \<Rightarrow> addr \<Rightarrow> size_t \<Rightarrow> bool \<Rightarrow> 'w \<Rightarrow> int \<times> 'w) option"
  strnxfrm :: "(addr \<Rightarrow> addr \<Rightarrow> size_t \<Rightarrow> addr \<Rightarrow> size_t \<Rightarrow> 'w \<Rightarrow> size_t \<times> 'w) option"
  strnxfrmlen :: "(addr \<Rightarrow> size_t \<Rightarrow> 'w \<Rightarrow> size_t \<times> 'w) option"
  like_range :: "(addr \<Rightarrow> addr \<Rightarrow> size_t \<Rightarrow> int \<Rightarrow> int \<Rightarrow> int \<Rightarrow> size_t \<Rightarrow> addr \<Rightarrow> addr \<Rightarrow> addr \<Rightarrow> addr \<Rightarrow> 'w \<Rightarrow> bool \<times> 'w) option"
  wildcmp :: "(addr \<Rightarrow> addr \<Rightarrow> addr \<Rightarrow> addr \<Rightarrow> addr \<Rightarrow> int \<Rightarrow> int \<Rightarrow> int \<Rightarrow> 'w \<Rightarrow> int \<times> 'w) option"
  strcasecmp :: "(addr \<Rightarrow> addr \<Rightarrow> addr \<Rightarrow> 'w \<Rightarrow> int \<times> 'w) option"
  instr :: "(addr \<Rightarrow> addr \<Rightarrow> size_t \<Rightarrow> addr \<Rightarrow> size_t \<Rightarrow> addr \<Rightarrow> uint32 \<Rightarrow> 'w \<Rightarrow> uint32 \<times> 'w) option"
  hash_sort :: "(addr \<Rightarrow> addr \<Rightarrow> size_t \<Rightarrow> addr \<Rightarrow> addr \<Rightarrow> 'w \<Rightarrow> 'w) option"
  propagate :: "(addr \<Rightarrow> addr \<Rightarrow> size_t \<Rightarrow> 'w \<Rightarrow> bool \<times> 'w) option"

record 'w MY_CHARSET_HANDLER =
  cset_init :: "(addr \<Rightarrow> addr \<Rightarrow> 'w \<Rightarrow> bool \<times> 'w) option"
  ismbchar :: "(addr \<Rightarrow> addr \<Rightarrow> addr \<Rightarrow> 'w \<Rightarrow> uint32 \<times> 'w) option"
  mbcharlen :: "(addr \<Rightarrow> uint32 \<Rightarrow> 'w \<Rightarrow> uint32 \<times> 'w) option"
  numchars :: "(addr \<Rightarrow> addr \<Rightarrow> addr \<Rightarrow> 'w \<Rightarrow> size_t \<times> 'w) option"
  charpos :: "(addr \<Rightarrow> addr \<Rightarrow> addr \<Rightarrow> size_t \<Rightarrow> 'w \<Rightarrow> size_t \<times> 'w) option"
  well_formed_len :: "(addr \<Rightarrow> addr \<Rightarrow> addr \<Rightarrow> size_t \<Rightarrow> addr \<Rightarrow> 'w \<Rightarrow> size_t \<times> 'w) option"
  lengthsp :: "(addr \<Rightarrow> addr \<Rightarrow> size_t \<Rightarrow> 'w \<Rightarrow> size_t \<times> 'w) option"
  numcells :: "(addr \<Rightarrow> addr \<Rightarrow> addr \<Rightarrow> 'w \<Rightarrow> size_t \<times> 'w) option"
  mb_wc :: "(addr \<Rightarrow> addr \<Rightarrow> addr \<Rightarrow> addr \<Rightarrow> 'w \<Rightarrow> int \<times> 'w) option"
  wc_mb :: "(addr \<Rightarrow> uint32 \<Rightarrow> addr \<Rightarrow> addr \<Rightarrow> 'w \<Rightarrow> int \<times> 'w) option"
  ctype_scan :: "(addr \<Rightarrow> addr \<Rightarrow> addr \<Rightarrow> addr \<Rightarrow> 'w \<Rightarrow> int \<times> 'w) option"
  caseup_str :: "(addr \<Rightarrow> addr \<Rightarrow> 'w \<Rightarrow> size_t \<times> 'w) option"
  casedn_str :: "(addr \<Rightarrow> addr \<Rightarrow> 'w \<Rightarrow> size_t \<times> 'w) option"
  caseup :: "(addr \<Rightarrow> addr \<Rightarrow> size_t \<Rightarrow> addr \<Rightarrow> size_t \<Rightarrow> 'w \<Rightarrow> size_t \<times> 'w) option"
  casedn :: "(addr \<Rightarrow> addr \<Rightarrow> size_t \<Rightarrow> addr \<Rightarrow> size_t \<Rightarrow> 'w \<Rightarrow> size_t \<times> 'w) option"
  cs_snprintf :: "(addr \<Rightarrow> addr \<Rightarrow> size_t \<Rightarrow> addr \<Rightarrow> addr list \<Rightarrow> 'w \<Rightarrow> size_t \<times> 'w) option"
  long10_to_str :: "(addr \<Rightarrow> addr \<Rightarrow> size_t \<Rightarrow> int \<Rightarrow> int \<Rightarrow> 'w \<Rightarrow> size_t \<times> 'w) option"
  longlong10_to_str :: "(addr \<Rightarrow> addr \<Rightarrow> size_t \<Rightarrow> int \<Rightarrow> int \<Rightarrow> 'w \<Rightarrow> size_t \<times> 'w) option"
  fill :: "(addr \<Rightarrow> addr \<Rightarrow> size_t \<Rightarrow> int \<Rightarrow> 'w \<Rightarrow> 'w) option"
  strntol :: "(addr \<Rightarrow> addr \<Rightarrow> size_t \<Rightarrow> int \<Rightarrow> addr \<Rightarrow> addr \<Rightarrow> 'w \<Rightarrow> int \<times> 'w) option"
  strntoul :: "(addr \<Rightarrow> addr \<Rightarrow> size_t \<Rightarrow> int \<Rightarrow> addr \<Rightarrow> addr \<Rightarrow> 'w \<Rightarrow> uint32 \<times> 'w) option"
  strntoll :: "(addr \<Rightarrow> addr \<Rightarrow> size_t \<Rightarrow> int \<Rightarrow> addr \<Rightarrow> addr \<Rightarrow> 'w \<Rightarrow> int \<times> 'w) option"
  strntoull :: "(addr \<Rightarrow> addr \<Rightarrow> size_t \<Rightarrow> int \<Rightarrow> addr \<Rightarrow> addr \<Rightarrow> 'w \<Rightarrow> ulonglong \<times> 'w) option"
  strntod :: "(addr \<Rightarrow> addr \<Rightarrow> size_t \<Rightarrow> addr \<Rightarrow> addr \<Rightarrow> 'w \<Rightarrow> dbl \<times> 'w) option"
  strtoll10 :: "(addr \<Rightarrow> addr \<Rightarrow> addr \<Rightarrow> addr \<Rightarrow> 'w \<Rightarrow> int \<times> 'w) option"
  strntoull10rnd :: "(addr \<Rightarrow> addr \<Rightarrow> size_t \<Rightarrow> int \<Rightarrow> addr \<Rightarrow> addr \<Rightarrow> 'w \<Rightarrow> ulonglong \<times> 'w) option"
  scan :: "(addr \<Rightarrow> addr \<Rightarrow> addr \<Rightarrow> int \<Rightarrow> 'w \<Rightarrow> size_t \<times> 'w) option"

record 'w charset_object =
  cs_info :: CHARSET_INFO
  cset :: "'w MY_CHARSET_HANDLER option"
  coll :: "'w MY_COLLATION_HANDLER option"

type_synonym 'w charsets = "addr \<Rightarrow> 'w charset_object option"

datatype handler_error = Null_charset | Null_handler | Null_function

definition call_coll :: "'w charsets \<Rightarrow> addr \<Rightarrow> ('w MY_COLLATION_HANDLER \<Rightarrow> 'f option) \<Rightarrow> ('f \<Rightarrow> 'r) \<Rightarrow> handler_error + 'r" where
  "call_coll C s member run = (case C s of None \<Rightarrow> Inl Null_charset | Some cs \<Rightarrow>
     (case coll cs of None \<Rightarrow> Inl Null_handler | Some h \<Rightarrow>
       (case member h of None \<Rightarrow> Inl Null_function | Some f \<Rightarrow> Inr (run f))))"

definition call_cset :: "'w charsets \<Rightarrow> addr \<Rightarrow> ('w MY_CHARSET_HANDLER \<Rightarrow> 'f option) \<Rightarrow> ('f \<Rightarrow> 'r) \<Rightarrow> handler_error + 'r" where
  "call_cset C s member run = (case C s of None \<Rightarrow> Inl Null_charset | Some cs \<Rightarrow>
     (case cset cs of None \<Rightarrow> Inl Null_handler | Some h \<Rightarrow>
       (case member h of None \<Rightarrow> Inl Null_function | Some f \<Rightarrow> Inr (run f))))"

section \<open>The macros\<close>

definition my_strnxfrm :: "'w charsets \<Rightarrow> addr \<Rightarrow> addr \<Rightarrow> size_t \<Rightarrow> addr \<Rightarrow> size_t \<Rightarrow> 'w \<Rightarrow> handler_error + (size_t \<times> 'w)" where
  "my_strnxfrm C s a b c d w = call_coll C s strnxfrm (\<lambda>fn. fn s a b c d w)"

definition my_strnncoll :: "'w charsets \<Rightarrow> addr \<Rightarrow> addr \<Rightarrow> size_t \<Rightarrow> addr \<Rightarrow> size_t \<Rightarrow> 'w \<Rightarrow> handler_error + (int \<times> 'w)" where
  "my_strnncoll C s a b c d w = call_coll C s strnncoll (\<lambda>fn. fn s a b c d False w)"

definition my_like_range :: "'w charsets \<Rightarrow> addr \<Rightarrow> addr \<Rightarrow> size_t \<Rightarrow> int \<Rightarrow> int \<Rightarrow> int \<Rightarrow> size_t \<Rightarrow> addr \<Rightarrow> addr \<Rightarrow> addr \<Rightarrow> addr \<Rightarrow> 'w \<Rightarrow> handler_error + (bool \<times> 'w)" where
  "my_like_range C s a b c d e f g h i j w = call_coll C s like_range (\<lambda>fn. fn s a b c d e f g h i j w)"

definition my_wildcmp :: "'w charsets \<Rightarrow> addr \<Rightarrow> addr \<Rightarrow> addr \<Rightarrow> addr \<Rightarrow> addr \<Rightarrow> int \<Rightarrow> int \<Rightarrow> int \<Rightarrow> 'w \<Rightarrow> handler_error + (int \<times> 'w)" where
  "my_wildcmp C s str se w1 we e o1 m w = call_coll C s wildcmp (\<lambda>fn. fn s str se w1 we e o1 m w)"

definition my_strcasecmp :: "'w charsets \<Rightarrow> addr \<Rightarrow> addr \<Rightarrow> addr \<Rightarrow> 'w \<Rightarrow> handler_error + (int \<times> 'w)" where
  "my_strcasecmp C s a b w = call_coll C s strcasecmp (\<lambda>fn. fn s a b w)"

definition my_charpos :: "'w charsets \<Rightarrow> addr \<Rightarrow> addr \<Rightarrow> addr \<Rightarrow> size_t \<Rightarrow> 'w \<Rightarrow> handler_error + (size_t \<times> 'w)" where
  "my_charpos C s b e num w = call_cset C s charpos (\<lambda>fn. fn s b e num w)"

definition my_ismbchar :: "'w charsets \<Rightarrow> addr \<Rightarrow> addr \<Rightarrow> addr \<Rightarrow> 'w \<Rightarrow> handler_error + (uint32 \<times> 'w)" where
  "my_ismbchar C s a b w = call_cset C s ismbchar (\<lambda>fn. fn s a b w)"

definition my_caseup_str :: "'w charsets \<Rightarrow> addr \<Rightarrow> addr \<Rightarrow> 'w \<Rightarrow> handler_error + (size_t \<times> 'w)" where
  "my_caseup_str C s a w = call_cset C s caseup_str (\<lambda>fn. fn s a w)"

definition my_casedn_str :: "'w charsets \<Rightarrow> addr \<Rightarrow> addr \<Rightarrow> 'w \<Rightarrow> handler_error + (size_t \<times> 'w)" where
  "my_casedn_str C s a w = call_cset C s casedn_str (\<lambda>fn. fn s a w)"

definition my_strntol :: "'w charsets \<Rightarrow> addr \<Rightarrow> addr \<Rightarrow> size_t \<Rightarrow> int \<Rightarrow> addr \<Rightarrow> addr \<Rightarrow> 'w \<Rightarrow> handler_error + (int \<times> 'w)" where
  "my_strntol C s a b c d e w = call_cset C s strntol (\<lambda>fn. fn s a b c d e w)"

definition my_strntoul :: "'w charsets \<Rightarrow> addr \<Rightarrow> addr \<Rightarrow> size_t \<Rightarrow> int \<Rightarrow> addr \<Rightarrow> addr \<Rightarrow> 'w \<Rightarrow> handler_error + (uint32 \<times> 'w)" where
  "my_strntoul C s a b c d e w = call_cset C s strntoul (\<lambda>fn. fn s a b c d e w)"

definition my_strntoll :: "'w charsets \<Rightarrow> addr \<Rightarrow> addr \<Rightarrow> size_t \<Rightarrow> int \<Rightarrow> addr \<Rightarrow> addr \<Rightarrow> 'w \<Rightarrow> handler_error + (int \<times> 'w)" where
  "my_strntoll C s a b c d e w = call_cset C s strntoll (\<lambda>fn. fn s a b c d e w)"

definition my_strntoull :: "'w charsets \<Rightarrow> addr \<Rightarrow> addr \<Rightarrow> size_t \<Rightarrow> int \<Rightarrow> addr \<Rightarrow> addr \<Rightarrow> 'w \<Rightarrow> handler_error + (ulonglong \<times> 'w)" where
  "my_strntoull C s a b c d e w = call_cset C s strntoull (\<lambda>fn. fn s a b c d e w)"

definition my_strntod :: "'w charsets \<Rightarrow> addr \<Rightarrow> addr \<Rightarrow> size_t \<Rightarrow> addr \<Rightarrow> addr \<Rightarrow> 'w \<Rightarrow> handler_error + (dbl \<times> 'w)" where
  "my_strntod C s a b c d w = call_cset C s strntod (\<lambda>fn. fn s a b c d w)"

definition use_mb :: "'w charsets \<Rightarrow> addr \<Rightarrow> handler_error + bool" where
  "use_mb C s = (case C s of None \<Rightarrow> Inl Null_charset | Some cs \<Rightarrow>
     (case cset cs of None \<Rightarrow> Inl Null_handler | Some h \<Rightarrow> Inr (ismbchar h \<noteq> None)))"

text \<open>With and without \<^verbatim>\<open>USE_MB\<close>; without it the set is not looked at.\<close>

definition my_mbcharlen :: "bool \<Rightarrow> 'w charsets \<Rightarrow> addr \<Rightarrow> uint32 \<Rightarrow> 'w \<Rightarrow> handler_error + (uint32 \<times> 'w)" where
  "my_mbcharlen USE_MB C s a w = (if USE_MB then call_cset C s mbcharlen (\<lambda>f. f s a w) else Inr (1, w))"

section \<open>Guards\<close>

text \<open>The test \<^verbatim>\<open>use_mb\<close> is the guard of \<^verbatim>\<open>my_ismbchar\<close>: on a set with a handler it answers whether the call is
  possible, and \<^verbatim>\<open>use_mb(cs) && my_ismbchar(cs, p, end)\<close> has a value.\<close>

lemma use_mb_guards:
  assumes "C s = Some cs" "cset cs = Some h"
  shows "use_mb C s = Inr (\<exists>r. my_ismbchar C s a b w = Inr r)"
    and "my_ismbchar C s a b w = Inl Null_function \<or> use_mb C s = Inr True"
  using assms by (auto simp: use_mb_def my_ismbchar_def call_cset_def split: option.split)

text \<open>Every call through a handler passes the set itself first, and the comparison of whole strings is the comparison with prefixes switched off.\<close>

lemma handler_calls:
  assumes "C s = Some cs" "cset cs = Some h" "coll cs = Some k"
  shows "strnncoll k = Some f \<Longrightarrow> my_strnncoll C s a la b lb w = Inr (f s a la b lb False w)"
    and "charpos h = Some g \<Longrightarrow> my_charpos C s p e n w = Inr (g s p e n w)"
    and "mbcharlen h = Some m \<Longrightarrow> my_mbcharlen True C s c w = Inr (m s c w)"
  using assms by (simp_all add: my_strnncoll_def my_charpos_def my_mbcharlen_def call_coll_def call_cset_def)

text \<open>The flags are single bits, so setting one leaves the tests of \<open>Charset\<close> alone; the extended repertoire is the union of the other two.\<close>

lemmas charset_flag_defs = MY_CS_COMPILED_def MY_CS_CONFIG_def MY_CS_INDEX_def MY_CS_LOADED_def MY_CS_BINSORT_def MY_CS_PRIMARY_def
  MY_CS_STRNXFRM_def MY_CS_UNICODE_def MY_CS_READY_def MY_CS_AVAILABLE_def MY_CS_CSSORT_def MY_CS_HIDDEN_def MY_CS_PUREASCII_def
  MY_CS_NONASCII_def MY_CS_UNICODE_SUPPLEMENT_def

definition charset_flags :: "uint32 list" where
  "charset_flags = [MY_CS_COMPILED, MY_CS_CONFIG, MY_CS_INDEX, MY_CS_LOADED, MY_CS_BINSORT, MY_CS_PRIMARY, MY_CS_STRNXFRM, MY_CS_UNICODE,
     MY_CS_READY, MY_CS_AVAILABLE, MY_CS_CSSORT, MY_CS_HIDDEN, MY_CS_PUREASCII, MY_CS_NONASCII, MY_CS_UNICODE_SUPPLEMENT]"

lemma charset_bit_flags: "bit_flags charset_flags [0..<15]"
  by (simp add: bit_flags_def charset_flags_def charset_flag_defs upt_rec numeral_nat)

lemma charset_flags_independent:
  assumes "f \<in> set charset_flags" "f \<notin> {MY_CS_BINSORT, MY_CS_STRNXFRM}"
  shows "my_binary_compare (cs\<lparr>cs_state := or (cs_state cs) f\<rparr>) = my_binary_compare cs"
    and "use_strnxfrm (cs\<lparr>cs_state := or (cs_state cs) f\<rparr>) = use_strnxfrm cs"
proof -
  have "MY_CS_BINSORT \<in> set charset_flags" "MY_CS_STRNXFRM \<in> set charset_flags" by (simp_all add: charset_flags_def)
  from this [THEN bit_flags_independent(3) [OF charset_bit_flags assms(1)]] assms(2)
  show "my_binary_compare (cs\<lparr>cs_state := or (cs_state cs) f\<rparr>) = my_binary_compare cs"
    "use_strnxfrm (cs\<lparr>cs_state := or (cs_state cs) f\<rparr>) = use_strnxfrm cs"
    by (simp_all add: my_binary_compare_def use_strnxfrm_def)
qed

lemma repertoire_union: "MY_REPERTOIRE_UNICODE30 = or MY_REPERTOIRE_ASCII MY_REPERTOIRE_EXTENDED"
  by (simp add: MY_REPERTOIRE_UNICODE30_def MY_REPERTOIRE_ASCII_def MY_REPERTOIRE_EXTENDED_def)

end
