(* ===== verification/Psi.thy ===== *)
theory Psi
  imports Mysql_Prelude
begin

text \<open>
  The Performance Schema instrumentation interface of \<^verbatim>\<open>mysql/psi/psi.h\<close>, and the program state the
  instrumented wrappers of \<^verbatim>\<open>mysql/psi/mysql_thread.h\<close> and \<^verbatim>\<open>mysql/psi/mysql_file.h\<close> run on.

  \<^item> Pointers to the opaque structures are addresses, 0 is \<^verbatim>\<open>NULL\<close>.
  \<^item> The interface \<^verbatim>\<open>struct PSI_v1\<close> is a record of functions.  The server that implements it is not
    part of these headers, so every theorem is about an arbitrary such record.
  \<^item> A program is a value of the library's state monad over \<open>'w pstate\<close>.  The field \<open>PSI_server\<close> says
    whether the global pointer \<^verbatim>\<open>PSI_server\<close> is set; a call through the pointer while it is \<^verbatim>\<open>NULL\<close>
    sets \<open>fault\<close>, and an access through a dangling \<^verbatim>\<open>MYSQL_FILE\<close> pointer sets \<open>bad_stream\<close>.  \<open>world\<close> is everything the headers do not define: the operating system, the server's
    own tables, the bytes of the buffers.
  \<^item> The automatic variable \<^verbatim>\<open>state\<close> of the wrappers, whose address is handed to the server uninitialised,
    is storage only the server uses, and belongs to \<open>world\<close>.

  The theory ends with the interface of a wait wrapper, the locale \<open>psi_wait\<close>: the shape shared by all
  wrappers around a blocking call, with what follows from it, a simulation of the bare call, the
  exact sequence of events and the absence of faults.
\<close>

section \<open>Data types of \<^verbatim>\<open>psi.h\<close>\<close>

type_synonym PSI_mutex = addr
type_synonym PSI_rwlock = addr
type_synonym PSI_cond = addr
type_synonym PSI_table_share = addr
type_synonym PSI_table = addr
type_synonym PSI_thread = addr
type_synonym PSI_file = addr
type_synonym PSI_mutex_locker = addr
type_synonym PSI_rwlock_locker = addr
type_synonym PSI_cond_locker = addr
type_synonym PSI_file_locker = addr
type_synonym PSI_table_locker = addr
type_synonym PSI_mutex_key = uint32
type_synonym PSI_rwlock_key = uint32
type_synonym PSI_cond_key = uint32
type_synonym PSI_thread_key = uint32
type_synonym PSI_file_key = uint32
type_synonym c_str = addr
type_synonym c_uint = uint32
type_synonym File = int

datatype PSI_mutex_operation = PSI_MUTEX_LOCK | PSI_MUTEX_TRYLOCK

datatype PSI_rwlock_operation =
  PSI_RWLOCK_READLOCK | PSI_RWLOCK_WRITELOCK | PSI_RWLOCK_TRYREADLOCK | PSI_RWLOCK_TRYWRITELOCK

datatype PSI_cond_operation = PSI_COND_WAIT | PSI_COND_TIMEDWAIT

datatype PSI_file_operation =
  PSI_FILE_CREATE | PSI_FILE_CREATE_TMP | PSI_FILE_OPEN | PSI_FILE_STREAM_OPEN | PSI_FILE_CLOSE
| PSI_FILE_STREAM_CLOSE | PSI_FILE_READ | PSI_FILE_WRITE | PSI_FILE_SEEK | PSI_FILE_TELL
| PSI_FILE_FLUSH | PSI_FILE_STAT | PSI_FILE_FSTAT | PSI_FILE_CHSIZE | PSI_FILE_DELETE
| PSI_FILE_RENAME | PSI_FILE_SYNC

definition PSI_VERSION_1 :: int where
  "PSI_VERSION_1 = 1"

definition PSI_VERSION_2 :: int where
  "PSI_VERSION_2 = 2"

definition PSI_CURRENT_VERSION :: int where
  "PSI_CURRENT_VERSION = 1"

definition PSI_FLAG_GLOBAL :: int where
  "PSI_FLAG_GLOBAL = push_bit 0 1"

record PSI_mutex_info_v1 =
  mi_key :: addr
  mi_name :: c_str
  mi_flags :: int

record PSI_rwlock_info_v1 =
  ri_key :: addr
  ri_name :: c_str
  ri_flags :: int

record PSI_cond_info_v1 =
  ci_key :: addr
  ci_name :: c_str
  ci_flags :: int

record PSI_thread_info_v1 =
  ti_key :: addr
  ti_name :: c_str
  ti_flags :: int

record PSI_file_info_v1 =
  fi_key :: addr
  fi_name :: c_str
  fi_flags :: int

section \<open>The instrumented objects and the state\<close>

text \<open>
  The real mutex, rwlock or condition is the first member of its wrapper structure, so \<^verbatim>\<open>&that->m_mutex\<close>
  is the address of the structure; its contents belong to the operating system.
\<close>

record mysql_mutex_t =
  mutex_psi :: PSI_mutex

record mysql_rwlock_t =
  rwlock_psi :: PSI_rwlock

record mysql_prlock_t =
  prlock_psi :: PSI_rwlock

record mysql_cond_t =
  cond_psi :: PSI_cond

record MYSQL_FILE =
  m_file :: addr
  file_psi :: PSI_file

record 'w pstate =
  PSI_server :: bool
  fault :: bool
  bad_stream :: bool
  mutexes :: "addr \<Rightarrow> mysql_mutex_t"
  rwlocks :: "addr \<Rightarrow> mysql_rwlock_t"
  prlocks :: "addr \<Rightarrow> mysql_prlock_t"
  conds :: "addr \<Rightarrow> mysql_cond_t"
  files :: "addr \<Rightarrow> MYSQL_FILE option"
  world :: 'w

type_synonym ('w, 'a) prog = "('w pstate, 'a) state"

section \<open>The interface\<close>

text \<open>The function types, in the order of the header; the pointer to the locker state is left out, as said above.\<close>

type_synonym 'w register_mutex_v1_t = "c_str \<Rightarrow> PSI_mutex_info_v1 list \<Rightarrow> int \<Rightarrow> ('w, unit) prog"
type_synonym 'w register_rwlock_v1_t = "c_str \<Rightarrow> PSI_rwlock_info_v1 list \<Rightarrow> int \<Rightarrow> ('w, unit) prog"
type_synonym 'w register_cond_v1_t = "c_str \<Rightarrow> PSI_cond_info_v1 list \<Rightarrow> int \<Rightarrow> ('w, unit) prog"
type_synonym 'w register_thread_v1_t = "c_str \<Rightarrow> PSI_thread_info_v1 list \<Rightarrow> int \<Rightarrow> ('w, unit) prog"
type_synonym 'w register_file_v1_t = "c_str \<Rightarrow> PSI_file_info_v1 list \<Rightarrow> int \<Rightarrow> ('w, unit) prog"
type_synonym 'w init_mutex_v1_t = "PSI_mutex_key \<Rightarrow> addr \<Rightarrow> ('w, PSI_mutex) prog"
type_synonym 'w destroy_mutex_v1_t = "PSI_mutex \<Rightarrow> ('w, unit) prog"
type_synonym 'w init_rwlock_v1_t = "PSI_rwlock_key \<Rightarrow> addr \<Rightarrow> ('w, PSI_rwlock) prog"
type_synonym 'w destroy_rwlock_v1_t = "PSI_rwlock \<Rightarrow> ('w, unit) prog"
type_synonym 'w init_cond_v1_t = "PSI_cond_key \<Rightarrow> addr \<Rightarrow> ('w, PSI_cond) prog"
type_synonym 'w destroy_cond_v1_t = "PSI_cond \<Rightarrow> ('w, unit) prog"
type_synonym 'w get_table_share_v1_t = "c_str \<Rightarrow> int \<Rightarrow> c_str \<Rightarrow> int \<Rightarrow> addr \<Rightarrow> ('w, PSI_table_share) prog"
type_synonym 'w release_table_share_v1_t = "PSI_table_share \<Rightarrow> ('w, unit) prog"
type_synonym 'w open_table_v1_t = "PSI_table_share \<Rightarrow> addr \<Rightarrow> ('w, PSI_table) prog"
type_synonym 'w close_table_v1_t = "PSI_table \<Rightarrow> ('w, unit) prog"
type_synonym 'w create_file_v1_t = "PSI_file_key \<Rightarrow> c_str \<Rightarrow> File \<Rightarrow> ('w, unit) prog"
type_synonym 'w spawn_thread_v1_t = "PSI_thread_key \<Rightarrow> addr \<Rightarrow> addr \<Rightarrow> addr \<Rightarrow> addr \<Rightarrow> ('w, int) prog"
type_synonym 'w new_thread_v1_t = "PSI_thread_key \<Rightarrow> addr \<Rightarrow> uint32 \<Rightarrow> ('w, PSI_thread) prog"
type_synonym 'w set_thread_id_v1_t = "PSI_thread \<Rightarrow> uint32 \<Rightarrow> ('w, unit) prog"
type_synonym 'w get_thread_v1_t = "('w, PSI_thread) prog"
type_synonym 'w set_thread_v1_t = "PSI_thread \<Rightarrow> ('w, unit) prog"
type_synonym 'w delete_current_thread_v1_t = "('w, unit) prog"
type_synonym 'w delete_thread_v1_t = "PSI_thread \<Rightarrow> ('w, unit) prog"
type_synonym 'w get_thread_mutex_locker_v1_t = "PSI_mutex \<Rightarrow> PSI_mutex_operation \<Rightarrow> ('w, PSI_mutex_locker) prog"
type_synonym 'w get_thread_rwlock_locker_v1_t = "PSI_rwlock \<Rightarrow> PSI_rwlock_operation \<Rightarrow> ('w, PSI_rwlock_locker) prog"
type_synonym 'w get_thread_cond_locker_v1_t = "PSI_cond \<Rightarrow> PSI_mutex \<Rightarrow> PSI_cond_operation \<Rightarrow> ('w, PSI_cond_locker) prog"
type_synonym 'w get_thread_table_locker_v1_t = "PSI_table \<Rightarrow> ('w, PSI_table_locker) prog"
type_synonym 'w get_thread_file_name_locker_v1_t = "PSI_file_key \<Rightarrow> PSI_file_operation \<Rightarrow> c_str \<Rightarrow> addr \<Rightarrow> ('w, PSI_file_locker) prog"
type_synonym 'w get_thread_file_stream_locker_v1_t = "PSI_file \<Rightarrow> PSI_file_operation \<Rightarrow> ('w, PSI_file_locker) prog"
type_synonym 'w get_thread_file_descriptor_locker_v1_t = "File \<Rightarrow> PSI_file_operation \<Rightarrow> ('w, PSI_file_locker) prog"
type_synonym 'w unlock_mutex_v1_t = "PSI_mutex \<Rightarrow> ('w, unit) prog"
type_synonym 'w unlock_rwlock_v1_t = "PSI_rwlock \<Rightarrow> ('w, unit) prog"
type_synonym 'w signal_cond_v1_t = "PSI_cond \<Rightarrow> ('w, unit) prog"
type_synonym 'w broadcast_cond_v1_t = "PSI_cond \<Rightarrow> ('w, unit) prog"
type_synonym 'w start_mutex_wait_v1_t = "PSI_mutex_locker \<Rightarrow> c_str \<Rightarrow> c_uint \<Rightarrow> ('w, unit) prog"
type_synonym 'w end_mutex_wait_v1_t = "PSI_mutex_locker \<Rightarrow> int \<Rightarrow> ('w, unit) prog"
type_synonym 'w start_rwlock_rdwait_v1_t = "PSI_rwlock_locker \<Rightarrow> c_str \<Rightarrow> c_uint \<Rightarrow> ('w, unit) prog"
type_synonym 'w end_rwlock_rdwait_v1_t = "PSI_rwlock_locker \<Rightarrow> int \<Rightarrow> ('w, unit) prog"
type_synonym 'w start_rwlock_wrwait_v1_t = "PSI_rwlock_locker \<Rightarrow> c_str \<Rightarrow> c_uint \<Rightarrow> ('w, unit) prog"
type_synonym 'w end_rwlock_wrwait_v1_t = "PSI_rwlock_locker \<Rightarrow> int \<Rightarrow> ('w, unit) prog"
type_synonym 'w start_cond_wait_v1_t = "PSI_cond_locker \<Rightarrow> c_str \<Rightarrow> c_uint \<Rightarrow> ('w, unit) prog"
type_synonym 'w end_cond_wait_v1_t = "PSI_cond_locker \<Rightarrow> int \<Rightarrow> ('w, unit) prog"
type_synonym 'w start_table_wait_v1_t = "PSI_table_locker \<Rightarrow> c_str \<Rightarrow> c_uint \<Rightarrow> ('w, unit) prog"
type_synonym 'w end_table_wait_v1_t = "PSI_table_locker \<Rightarrow> ('w, unit) prog"
type_synonym 'w start_file_open_wait_v1_t = "PSI_file_locker \<Rightarrow> c_str \<Rightarrow> c_uint \<Rightarrow> ('w, PSI_file) prog"
type_synonym 'w end_file_open_wait_v1_t = "PSI_file_locker \<Rightarrow> ('w, unit) prog"
type_synonym 'w end_file_open_wait_and_bind_to_descriptor_v1_t = "PSI_file_locker \<Rightarrow> File \<Rightarrow> ('w, unit) prog"
type_synonym 'w start_file_wait_v1_t = "PSI_file_locker \<Rightarrow> size_t \<Rightarrow> c_str \<Rightarrow> c_uint \<Rightarrow> ('w, unit) prog"
type_synonym 'w end_file_wait_v1_t = "PSI_file_locker \<Rightarrow> size_t \<Rightarrow> ('w, unit) prog"

record 'w PSI_v1 =
  register_mutex :: "'w register_mutex_v1_t"
  register_rwlock :: "'w register_rwlock_v1_t"
  register_cond :: "'w register_cond_v1_t"
  register_thread :: "'w register_thread_v1_t"
  register_file :: "'w register_file_v1_t"
  init_mutex :: "'w init_mutex_v1_t"
  destroy_mutex :: "'w destroy_mutex_v1_t"
  init_rwlock :: "'w init_rwlock_v1_t"
  destroy_rwlock :: "'w destroy_rwlock_v1_t"
  init_cond :: "'w init_cond_v1_t"
  destroy_cond :: "'w destroy_cond_v1_t"
  get_table_share :: "'w get_table_share_v1_t"
  release_table_share :: "'w release_table_share_v1_t"
  open_table :: "'w open_table_v1_t"
  close_table :: "'w close_table_v1_t"
  create_file :: "'w create_file_v1_t"
  spawn_thread :: "'w spawn_thread_v1_t"
  new_thread :: "'w new_thread_v1_t"
  set_thread_id :: "'w set_thread_id_v1_t"
  get_thread :: "'w get_thread_v1_t"
  set_thread :: "'w set_thread_v1_t"
  delete_current_thread :: "'w delete_current_thread_v1_t"
  delete_thread :: "'w delete_thread_v1_t"
  get_thread_mutex_locker :: "'w get_thread_mutex_locker_v1_t"
  get_thread_rwlock_locker :: "'w get_thread_rwlock_locker_v1_t"
  get_thread_cond_locker :: "'w get_thread_cond_locker_v1_t"
  get_thread_table_locker :: "'w get_thread_table_locker_v1_t"
  get_thread_file_name_locker :: "'w get_thread_file_name_locker_v1_t"
  get_thread_file_stream_locker :: "'w get_thread_file_stream_locker_v1_t"
  get_thread_file_descriptor_locker :: "'w get_thread_file_descriptor_locker_v1_t"
  unlock_mutex :: "'w unlock_mutex_v1_t"
  unlock_rwlock :: "'w unlock_rwlock_v1_t"
  signal_cond :: "'w signal_cond_v1_t"
  broadcast_cond :: "'w broadcast_cond_v1_t"
  start_mutex_wait :: "'w start_mutex_wait_v1_t"
  end_mutex_wait :: "'w end_mutex_wait_v1_t"
  start_rwlock_rdwait :: "'w start_rwlock_rdwait_v1_t"
  end_rwlock_rdwait :: "'w end_rwlock_rdwait_v1_t"
  start_rwlock_wrwait :: "'w start_rwlock_wrwait_v1_t"
  end_rwlock_wrwait :: "'w end_rwlock_wrwait_v1_t"
  start_cond_wait :: "'w start_cond_wait_v1_t"
  end_cond_wait :: "'w end_cond_wait_v1_t"
  start_table_wait :: "'w start_table_wait_v1_t"
  end_table_wait :: "'w end_table_wait_v1_t"
  start_file_open_wait :: "'w start_file_open_wait_v1_t"
  end_file_open_wait :: "'w end_file_open_wait_v1_t"
  end_file_open_wait_and_bind_to_descriptor :: "'w end_file_open_wait_and_bind_to_descriptor_v1_t"
  start_file_wait :: "'w start_file_wait_v1_t"
  end_file_wait :: "'w end_file_wait_v1_t"

text \<open>The finder of the interface: the structure for a version number, or \<^verbatim>\<open>NULL\<close>.\<close>

record 'w PSI_bootstrap =
  get_interface :: "int \<Rightarrow> 'w PSI_v1 option"

text \<open>The source position the macros pass as \<^verbatim>\<open>__FILE__\<close> and \<^verbatim>\<open>__LINE__\<close>, and what stands for one they do not pass.\<close>

type_synonym site = "c_str \<times> c_uint"

definition no_site :: site where
  "no_site = (0, 0)"

text \<open>The build options the headers test with \<^verbatim>\<open>#ifdef\<close>.\<close>

record config =
  have_psi_interface :: bool
  safe_mutex :: bool

section \<open>Calls through \<^verbatim>\<open>PSI_server\<close>\<close>

definition psi_call :: "'a \<Rightarrow> ('w, 'a) prog \<Rightarrow> ('w, 'a) prog" where
  "psi_call dflt m = do {
     s \<leftarrow> State_Monad.get;
     if PSI_server s then m
     else do {
       State_Monad.update (\<lambda>s. s\<lparr>fault := True\<rparr>);
       State_Monad.return dflt
     }
   }"

section \<open>Contracts of the external code\<close>

text \<open>
  \<open>os_view g\<close> is the part of the state a caller of the bare functions sees: the streams behind the open
  files and the part \<open>g\<close> of the world.  \<open>psi_keeps v psi\<close> says that no function of the interface that only
  records changes the view \<open>v\<close>.
\<close>

definition os_view :: "('w \<Rightarrow> 'v) \<Rightarrow> 'w pstate \<Rightarrow> (addr \<Rightarrow> addr option) \<times> 'v" where
  "os_view g s = ((\<lambda>a. map_option m_file (files s a)), g (world s))"

definition psi_keeps_thread :: "('w pstate \<Rightarrow> 'v) \<Rightarrow> 'w PSI_v1 \<Rightarrow> bool" where
  "psi_keeps_thread v psi \<longleftrightarrow>
     (\<forall>k a. keeps v (init_mutex psi k a)) \<and> (\<forall>h. keeps v (destroy_mutex psi h)) \<and>
     (\<forall>k a. keeps v (init_rwlock psi k a)) \<and> (\<forall>h. keeps v (destroy_rwlock psi h)) \<and>
     (\<forall>k a. keeps v (init_cond psi k a)) \<and> (\<forall>h. keeps v (destroy_cond psi h)) \<and>
     (\<forall>h i. keeps v (set_thread_id psi h i)) \<and> keeps v (get_thread psi) \<and>
     (\<forall>h oper. keeps v (get_thread_mutex_locker psi h oper)) \<and>
     (\<forall>h oper. keeps v (get_thread_rwlock_locker psi h oper)) \<and>
     (\<forall>h k oper. keeps v (get_thread_cond_locker psi h k oper)) \<and>
     (\<forall>h. keeps v (unlock_mutex psi h)) \<and> (\<forall>h. keeps v (unlock_rwlock psi h)) \<and>
     (\<forall>h. keeps v (signal_cond psi h)) \<and> (\<forall>h. keeps v (broadcast_cond psi h)) \<and>
     (\<forall>l f n. keeps v (start_mutex_wait psi l f n)) \<and> (\<forall>l r. keeps v (end_mutex_wait psi l r)) \<and>
     (\<forall>l f n. keeps v (start_rwlock_rdwait psi l f n)) \<and> (\<forall>l r. keeps v (end_rwlock_rdwait psi l r)) \<and>
     (\<forall>l f n. keeps v (start_rwlock_wrwait psi l f n)) \<and> (\<forall>l r. keeps v (end_rwlock_wrwait psi l r)) \<and>
     (\<forall>l f n. keeps v (start_cond_wait psi l f n)) \<and> (\<forall>l r. keeps v (end_cond_wait psi l r))"

definition psi_keeps_file :: "('w pstate \<Rightarrow> 'v) \<Rightarrow> 'w PSI_v1 \<Rightarrow> bool" where
  "psi_keeps_file v psi \<longleftrightarrow>
     (\<forall>k n f. keeps v (create_file psi k n f)) \<and>
     (\<forall>k oper n i. keeps v (get_thread_file_name_locker psi k oper n i)) \<and>
     (\<forall>h oper. keeps v (get_thread_file_stream_locker psi h oper)) \<and>
     (\<forall>h oper. keeps v (get_thread_file_descriptor_locker psi h oper)) \<and>
     (\<forall>l f n. keeps v (start_file_open_wait psi l f n)) \<and>
     (\<forall>l. keeps v (end_file_open_wait psi l)) \<and>
     (\<forall>l f. keeps v (end_file_open_wait_and_bind_to_descriptor psi l f)) \<and>
     (\<forall>l c f n. keeps v (start_file_wait psi l c f n)) \<and>
     (\<forall>l c. keeps v (end_file_wait psi l c))"

text \<open>
  A history of calls.  \<open>records h m E\<close> says that running \<open>m\<close> appends the events \<open>E r\<close> to the history, \<open>r\<close>
  the result, leaves \<^verbatim>\<open>PSI_server\<close> alone and causes no fault.
\<close>

datatype psi_event =
    Get_locker addr
  | Start_wait addr
  | Real_call
  | End_wait addr int

definition records :: "('w pstate \<Rightarrow> psi_event list) \<Rightarrow> ('w, 'a) prog \<Rightarrow> ('a \<Rightarrow> psi_event list) \<Rightarrow> bool" where
  "records h m E \<longleftrightarrow> (\<forall>s. case run_state m s of (r, s') \<Rightarrow>
     h s' = h s @ E r \<and> PSI_server s' = PSI_server s \<and> fault s' = fault s)"

definition records_on :: "('w pstate \<Rightarrow> psi_event list) \<Rightarrow> ('w, 'a) prog \<Rightarrow> psi_event list \<Rightarrow> bool" where
  "records_on h m es \<longleftrightarrow> (\<forall>s. PSI_server s \<longrightarrow> (case run_state m s of (r, s') \<Rightarrow>
     h s' = h s @ es \<and> PSI_server s' \<and> fault s' = fault s))"

definition ends_wait :: "('w pstate \<Rightarrow> psi_event list) \<Rightarrow> ('w, 'a) prog \<Rightarrow> addr \<Rightarrow> (int \<Rightarrow> bool) \<Rightarrow> bool" where
  "ends_wait h m l Q \<longleftrightarrow> (\<forall>s. PSI_server s \<longrightarrow> (case run_state m s of (r, s') \<Rightarrow>
     \<exists>rc. Q rc \<and> h s' = h s @ [End_wait l rc] \<and> PSI_server s' \<and> fault s' = fault s))"

definition psi_records_thread :: "('w pstate \<Rightarrow> psi_event list) \<Rightarrow> 'w PSI_v1 \<Rightarrow> bool" where
  "psi_records_thread h psi \<longleftrightarrow>
     (\<forall>m oper. records h (get_thread_mutex_locker psi m oper) (\<lambda>l. [Get_locker l])) \<and>
     (\<forall>m oper. records h (get_thread_rwlock_locker psi m oper) (\<lambda>l. [Get_locker l])) \<and>
     (\<forall>c m oper. records h (get_thread_cond_locker psi c m oper) (\<lambda>l. [Get_locker l])) \<and>
     (\<forall>l f n. records h (start_mutex_wait psi l f n) (\<lambda>_. [Start_wait l])) \<and>
     (\<forall>l f n. records h (start_rwlock_rdwait psi l f n) (\<lambda>_. [Start_wait l])) \<and>
     (\<forall>l f n. records h (start_rwlock_wrwait psi l f n) (\<lambda>_. [Start_wait l])) \<and>
     (\<forall>l f n. records h (start_cond_wait psi l f n) (\<lambda>_. [Start_wait l])) \<and>
     (\<forall>l r. records h (end_mutex_wait psi l r) (\<lambda>_. [End_wait l r])) \<and>
     (\<forall>l r. records h (end_rwlock_rdwait psi l r) (\<lambda>_. [End_wait l r])) \<and>
     (\<forall>l r. records h (end_rwlock_wrwait psi l r) (\<lambda>_. [End_wait l r])) \<and>
     (\<forall>l r. records h (end_cond_wait psi l r) (\<lambda>_. [End_wait l r]))"

definition psi_records_file :: "('w pstate \<Rightarrow> psi_event list) \<Rightarrow> 'w PSI_v1 \<Rightarrow> bool" where
  "psi_records_file h psi \<longleftrightarrow>
     (\<forall>k oper n i. records h (get_thread_file_name_locker psi k oper n i) (\<lambda>l. [Get_locker l])) \<and>
     (\<forall>f oper. records h (get_thread_file_stream_locker psi f oper) (\<lambda>l. [Get_locker l])) \<and>
     (\<forall>f oper. records h (get_thread_file_descriptor_locker psi f oper) (\<lambda>l. [Get_locker l])) \<and>
     (\<forall>l f n. records h (start_file_open_wait psi l f n) (\<lambda>_. [Start_wait l])) \<and>
     (\<forall>l c f n. records h (start_file_wait psi l c f n) (\<lambda>_. [Start_wait l])) \<and>
     (\<forall>l f. records h (end_file_open_wait_and_bind_to_descriptor psi l f) (\<lambda>_. [End_wait l f])) \<and>
     (\<forall>l. records h (end_file_open_wait psi l) (\<lambda>_. [End_wait l 0])) \<and>
     (\<forall>l c. records h (end_file_wait psi l c) (\<lambda>_. [End_wait l (uint c)]))"

text \<open>
  The protocol of the interface as a state machine: a locker that is obtained is started before the
  real call and ended after it, and no wait is left open.
\<close>

datatype wait_state = Idle | Obtained addr | Waiting addr | Returned addr

inductive wait_step :: "wait_state \<Rightarrow> psi_event \<Rightarrow> wait_state \<Rightarrow> bool" where
  refused: "wait_step Idle (Get_locker 0) Idle"
| obtained: "l \<noteq> 0 \<Longrightarrow> wait_step Idle (Get_locker l) (Obtained l)"
| started: "wait_step (Obtained l) (Start_wait l) (Waiting l)"
| plain_call: "wait_step Idle Real_call Idle"
| timed_call: "wait_step (Waiting l) Real_call (Returned l)"
| ended: "wait_step (Returned l) (End_wait l r) Idle"

inductive_cases idle_stepE: "wait_step Idle e t"
inductive_cases waiting_stepE: "wait_step (Waiting l) e t"
inductive_simps wait_step_simps [simp]:
  "wait_step Idle (Get_locker l) t" "wait_step Idle Real_call t" "wait_step (Obtained l) (Start_wait k) t"
  "wait_step (Waiting l) Real_call t" "wait_step (Returned l) (End_wait k r) t"

fun wait_run :: "wait_state \<Rightarrow> psi_event list \<Rightarrow> wait_state \<Rightarrow> bool" where
  "wait_run t [] u \<longleftrightarrow> t = u"
| "wait_run t (e # es) u \<longleftrightarrow> (\<exists>t'. wait_step t e t' \<and> wait_run t' es u)"

text \<open>The events of one wrapper call that reports \<open>rc\<close>, by the locker it got (\<open>None\<close>: not instrumented).\<close>

definition wait_events :: "addr option \<Rightarrow> int \<Rightarrow> psi_event list" where
  "wait_events lo rc = (case lo of None \<Rightarrow> [Real_call]
     | Some l \<Rightarrow> if l = 0 then [Get_locker l, Real_call]
                 else [Get_locker l, Start_wait l, Real_call, End_wait l rc])"

text \<open>
  A wrapper that completes its wait: run from any state, it is instrumented exactly where \<open>inst\<close> holds, the
  history grows by the events of one wait, whose reported value stands in the relation \<open>R\<close> to the result,
  and no call goes through a null \<^verbatim>\<open>PSI_server\<close>.
\<close>

definition completes_wait ::
  "('w pstate \<Rightarrow> psi_event list) \<Rightarrow> ('w pstate \<Rightarrow> bool) \<Rightarrow> ('r \<Rightarrow> int \<Rightarrow> bool) \<Rightarrow> ('w, 'r) prog \<Rightarrow> bool" where
  "completes_wait h inst R m \<longleftrightarrow> (\<forall>s. case run_state m s of (r, s') \<Rightarrow>
     \<exists>lo rc. R r rc \<and> (lo = None \<longleftrightarrow> \<not> inst s) \<and> h s' = h s @ wait_events lo rc \<and>
       PSI_server s' = PSI_server s \<and> fault s' = fault s)"

text \<open>A program that makes a wait only where \<open>P\<close> holds, and elsewhere records nothing.\<close>

definition completes_wait_if ::
  "('w pstate \<Rightarrow> psi_event list) \<Rightarrow> ('w pstate \<Rightarrow> bool) \<Rightarrow> ('w pstate \<Rightarrow> bool) \<Rightarrow> ('r \<Rightarrow> int \<Rightarrow> bool) \<Rightarrow>
    ('w, 'r) prog \<Rightarrow> bool" where
  "completes_wait_if h P inst R m \<longleftrightarrow> (\<forall>s. case run_state m s of (r, s') \<Rightarrow>
     (if P s then \<exists>lo rc. R r rc \<and> (lo = None \<longleftrightarrow> \<not> inst s) \<and> h s' = h s @ wait_events lo rc else h s' = h s) \<and>
       PSI_server s' = PSI_server s \<and> fault s' = fault s)"

lemma wait_events_run: "wait_run Idle (wait_events lo rc) Idle"
  by (auto simp: wait_events_def split: option.splits)

lemma wait_run_append: "wait_run t (es @ fs) u \<longleftrightarrow> (\<exists>t'. wait_run t es t' \<and> wait_run t' fs u)"
  by (induction es arbitrary: t) auto

section \<open>Lemmas on calls through the pointer\<close>

lemma run_psi_call: "run_state (psi_call d m) s
    = (if PSI_server s then run_state m s else (d, s\<lparr>fault := True\<rparr>))"
  by (simp add: psi_call_def State_Monad.update_def)

lemma keeps_psi_call [keeps_rules]:
  assumes "\<And>s. v (s\<lparr>fault := True\<rparr>) = v s" and "keeps v m"
  shows "keeps v (psi_call d m)"
  using assms by (simp add: keeps_def run_psi_call)

lemma keeps_get [keeps_rules]: "keeps v State_Monad.get"
  by (simp add: keeps_def)

lemma os_view_fault [simp]: "os_view g (s\<lparr>fault := b\<rparr>) = os_view g s"
  by (simp add: os_view_def)

lemma recordsD:
  assumes "records h m E" and "run_state m s = (r, s')"
  shows "h s' = h s @ E r" "PSI_server s' = PSI_server s" "fault s' = fault s"
  using assms(1) [unfolded records_def, THEN spec, of s] assms(2) by simp_all

lemma records_onD:
  assumes "records_on h m es" and "run_state m s = (r, s')" and "PSI_server s"
  shows "h s' = h s @ es" "PSI_server s'" "fault s' = fault s"
  using assms(1) [unfolded records_on_def, THEN spec, of s] assms(2,3) by simp_all

lemma records_on_psi_call:
  assumes "records h m (\<lambda>_. es)"
  shows "records_on h (psi_call d m) es"
  using recordsD [OF assms] by (simp add: records_on_def run_psi_call split: prod.splits)

lemma ends_wait_psi_call:
  assumes "records h m (\<lambda>_. [End_wait l rc])" and "Q rc"
  shows "ends_wait h (psi_call d m) l Q"
  using records_onD [OF records_on_psi_call [OF assms(1)]] assms(2)
  by (force simp: ends_wait_def split: prod.splits)

lemma records_pair:
  "records h m (\<lambda>l. [Get_locker l]) \<Longrightarrow>
   records h (m \<bind> (\<lambda>l. State_Monad.return (l, c))) (\<lambda>lk. [Get_locker (fst lk)])"
  by (simp add: records_def split: prod.splits)

lemma ends_wait_result: "records h m (\<lambda>_. [End_wait l rc]) \<Longrightarrow> ends_wait h (psi_call d m) l ((=) rc)"
  by (rule ends_wait_psi_call) simp_all

lemma ends_wait_bind:
  fixes m :: "('a, 'b) prog"
  assumes "records h m (\<lambda>_. [])" and "\<And>x. ends_wait h (f x) l Q"
  shows "ends_wait h (m \<bind> f) l Q"
  unfolding ends_wait_def
proof (intro allI impI)
  fix s :: "'a pstate"
  assume on: "PSI_server s"
  obtain x s1 where 1: "run_state m s = (x, s1)" by (metis surj_pair)
  from recordsD [OF assms(1) 1] on have "h s1 = h s" "PSI_server s1" "fault s1 = fault s" by simp_all
  with assms(2) [of x, unfolded ends_wait_def, THEN spec, of s1] 1
  show "case run_state (m \<bind> f) s of (r, s') \<Rightarrow>
     \<exists>rc. Q rc \<and> h s' = h s @ [End_wait l rc] \<and> PSI_server s' \<and> fault s' = fault s" by simp
qed

lemma records_on_bind_silent:
  fixes m :: "('a, 'b) prog"
  assumes "records_on h m es" and "\<And>x. records h (f x) (\<lambda>_. [])"
  shows "records_on h (m \<bind> f) es"
  unfolding records_on_def
proof (intro allI impI)
  fix s :: "'a pstate"
  assume on: "PSI_server s"
  obtain x s1 where 1: "run_state m s = (x, s1)" by (metis surj_pair)
  obtain y s2 where 2: "run_state (f x) s1 = (y, s2)" by (metis surj_pair)
  from records_onD [OF assms(1) 1 on] recordsD [OF assms(2) 2] 1 2
  show "case run_state (m \<bind> f) s of (r, s') \<Rightarrow> h s' = h s @ es \<and> PSI_server s' \<and> fault s' = fault s" by simp
qed

lemma records_bind_silent:
  assumes "records h m E" and "\<And>x. records h (f x) (\<lambda>_. [])" and "\<And>x s. fst (run_state (f x) s) = g x"
    and "\<And>x. F (g x) = E x"
  shows "records h (m \<bind> f) F"
  unfolding records_def
proof
  fix s
  obtain x s1 where 1: "run_state m s = (x, s1)" by (metis surj_pair)
  obtain y s2 where 2: "run_state (f x) s1 = (y, s2)" by (metis surj_pair)
  have "y = g x" using assms(3) [of x s1] 2 by simp
  with recordsD [OF assms(1) 1] recordsD [OF assms(2) 2] 1 2 assms(4)
  show "case run_state (m \<bind> f) s of (r, s') \<Rightarrow>
     h s' = h s @ F r \<and> PSI_server s' = PSI_server s \<and> fault s' = fault s" by simp
qed

lemma records_silent_bind:
  assumes "records h m (\<lambda>_. [])" and "\<And>x. records h (f x) E"
  shows "records h (m \<bind> f) E"
  unfolding records_def
proof
  fix s
  obtain x s1 where 1: "run_state m s = (x, s1)" by (metis surj_pair)
  obtain y s2 where 2: "run_state (f x) s1 = (y, s2)" by (metis surj_pair)
  from recordsD [OF assms(1) 1] recordsD [OF assms(2) 2] 1 2
  show "case run_state (m \<bind> f) s of (r, s') \<Rightarrow>
     h s' = h s @ E r \<and> PSI_server s' = PSI_server s \<and> fault s' = fault s" by simp
qed

lemma records_return: "records h (State_Monad.return x) (\<lambda>_. [])"
  by (simp add: records_def)

lemma completes_wait_always:
  assumes "\<And>s. P s" and "completes_wait h inst R m"
  shows "completes_wait_if h P inst R m"
  unfolding completes_wait_if_def
proof
  fix s
  from assms(2) [unfolded completes_wait_def, THEN spec, of s] assms(1) [of s]
  show "case run_state m s of (r, s') \<Rightarrow>
     (if P s then \<exists>lo rc. R r rc \<and> (lo = None \<longleftrightarrow> \<not> inst s) \<and> h s' = h s @ wait_events lo rc else h s' = h s) \<and>
       PSI_server s' = PSI_server s \<and> fault s' = fault s"
    by (cases "run_state m s") auto
qed

lemma completes_wait_bind_silent:
  assumes "completes_wait h inst (\<lambda>_. Q) m" and "\<And>x. records h (f x) (\<lambda>_. [])"
  shows "completes_wait h inst (\<lambda>_. Q) (m \<bind> f)"
  unfolding completes_wait_def
proof
  fix s
  obtain x s1 where 1: "run_state m s = (x, s1)" by (metis surj_pair)
  obtain y s2 where 2: "run_state (f x) s1 = (y, s2)" by (metis surj_pair)
  from assms(1) [unfolded completes_wait_def, THEN spec, of s] recordsD [OF assms(2) 2] 1 2
  show "case run_state (m \<bind> f) s of (r, s') \<Rightarrow> \<exists>lo rc. Q rc \<and> (lo = None \<longleftrightarrow> \<not> inst s) \<and>
      h s' = h s @ wait_events lo rc \<and> PSI_server s' = PSI_server s \<and> fault s' = fault s" by simp
qed

lemma completes_wait_silent_bind:
  assumes "records h m (\<lambda>_. [])" and "\<And>x. completes_wait h inst R (f x)"
    and "\<And>s s'. PSI_server s' = PSI_server s \<Longrightarrow> inst s' = inst s"
  shows "completes_wait h inst R (m \<bind> f)"
  unfolding completes_wait_def
proof
  fix s
  obtain x s1 where 1: "run_state m s = (x, s1)" by (metis surj_pair)
  from assms(2) [of x, unfolded completes_wait_def, THEN spec, of s1] recordsD [OF assms(1) 1] 1 assms(3) [of s1 s]
  show "case run_state (m \<bind> f) s of (r, s') \<Rightarrow> \<exists>lo rc. R r rc \<and> (lo = None \<longleftrightarrow> \<not> inst s) \<and>
      h s' = h s @ wait_events lo rc \<and> PSI_server s' = PSI_server s \<and> fault s' = fault s"
    by (auto split: prod.splits)
qed

lemma completes_wait_if_bind:
  assumes "records h m (\<lambda>_. [])" and "\<And>x. P x \<Longrightarrow> completes_wait h inst R (f x)" and "\<And>x. \<not> P x \<Longrightarrow> records h (f x) (\<lambda>_. [])"
    and "\<And>s s'. PSI_server s' = PSI_server s \<Longrightarrow> inst s' = inst s"
  shows "completes_wait_if h (\<lambda>s. P (fst (run_state m s))) inst R (m \<bind> f)"
  unfolding completes_wait_if_def
proof
  fix s
  obtain x s1 where 1: "run_state m s = (x, s1)" by (metis surj_pair)
  obtain y s2 where 2: "run_state (f x) s1 = (y, s2)" by (metis surj_pair)
  note r = recordsD [OF assms(1) 1]
  have "if P x then \<exists>lo rc. R y rc \<and> (lo = None \<longleftrightarrow> \<not> inst s) \<and> h s2 = h s @ wait_events lo rc \<and>
      PSI_server s2 = PSI_server s \<and> fault s2 = fault s
    else h s2 = h s \<and> PSI_server s2 = PSI_server s \<and> fault s2 = fault s"
    using assms(2) [of x, unfolded completes_wait_def, THEN spec, of s1] recordsD [OF assms(3) 2] r 2 assms(4) [of s1 s]
    by auto
  then show "case run_state (m \<bind> f) s of (r, s') \<Rightarrow>
     (if P (fst (run_state m s)) then \<exists>lo rc. R r rc \<and> (lo = None \<longleftrightarrow> \<not> inst s) \<and> h s' = h s @ wait_events lo rc
      else h s' = h s) \<and> PSI_server s' = PSI_server s \<and> fault s' = fault s"
    using 1 2 by (auto split: if_splits)
qed

lemma ex_eq_result: "\<exists>rc. r = rc"
  by simp

lemma keeps_update: "(\<And>s. v (f s) = v s) \<Longrightarrow> keeps v (State_Monad.update f)"
  by (simp add: keeps_def State_Monad.update_def)
lemma sim_bind_return: "sim v m n \<Longrightarrow> sim v (m \<bind> State_Monad.return) n"
  by (simp add: sim_def split_beta)

lemma os_view_hooks [simp]:
  "os_view g (s\<lparr>mutexes := m\<rparr>) = os_view g s" "os_view g (s\<lparr>rwlocks := r\<rparr>) = os_view g s"
  "os_view g (s\<lparr>prlocks := p\<rparr>) = os_view g s" "os_view g (s\<lparr>conds := c\<rparr>) = os_view g s"
  by (simp_all add: os_view_def)

section \<open>The interface of a wait wrapper\<close>

text \<open>
  \<open>wrapper\<close> has the shape of all wrappers around a blocking call: when the instrumentation is compiled in
  and \<open>guarded\<close> holds of the state, obtain a locker and start the wait if it is not \<^verbatim>\<open>NULL\<close>; make
  the real call; end the wait if it was started; return the result of the call.  The locker comes with
  what the wrapper carries over the call besides.
\<close>

locale psi_wait =
  fixes have_psi :: bool
    and guarded :: "'w pstate \<Rightarrow> bool"
    and get_lk :: "'w pstate \<Rightarrow> ('w, addr \<times> 'c) prog"
    and start_wait :: "addr \<times> 'c \<Rightarrow> ('w, unit) prog"
    and real_call :: "('w, 'r) prog"
    and end_wait :: "addr \<times> 'c \<Rightarrow> 'r \<Rightarrow> ('w, unit) prog"
    and none :: 'c
    and wrapper :: "('w, 'r) prog"
  assumes guarded: "guarded s \<Longrightarrow> PSI_server s"
    and wrapper: "wrapper = do {
      lk \<leftarrow> (if have_psi then do {
          s \<leftarrow> State_Monad.get;
          if guarded s then do {
            lk \<leftarrow> get_lk s;
            (if fst lk \<noteq> 0 then start_wait lk else State_Monad.return ());
            State_Monad.return lk
          } else State_Monad.return (0, none)
        } else State_Monad.return (0, none));
      r \<leftarrow> real_call;
      (if fst lk \<noteq> 0 then end_wait lk r else State_Monad.return ());
      State_Monad.return r
    }"
begin

lemma off: "\<not> have_psi \<Longrightarrow> wrapper = real_call"
  by (rule state_ext) (simp add: wrapper split_beta)

lemma not_guarded: "\<not> guarded s \<Longrightarrow> run_state wrapper s = run_state real_call s"
  by (simp add: wrapper split_beta)

lemma drop_in:
  assumes "\<And>s. keeps v (get_lk s)" and "\<And>lk. keeps v (start_wait lk)" and "\<And>lk r. keeps v (end_wait lk r)"
    and "sim v real_call real_call"
  shows "sim v wrapper real_call"
  unfolding wrapper
  by (rule sim_keeps_before, (intro keeps_rules assms)[1])
    (rule sim_keeps_after [OF assms(4)], intro keeps_rules assms)

text \<open>The value a wait is ended with may depend on what the locker was obtained with and on the state in which the real call returned.\<close>

lemma completes_in:
  assumes get: "\<And>s. records h (get_lk s) (\<lambda>lk. [Get_locker (fst lk)])"
    and start: "\<And>lk. records_on h (start_wait lk) [Start_wait (fst lk)]"
    and call: "records h real_call (\<lambda>_. [Real_call])"
    and finish: "\<And>s0 lk s1 s2 r s3 x s4. run_state (get_lk s0) s0 = (lk, s1) \<Longrightarrow> fst lk \<noteq> 0 \<Longrightarrow>
      run_state real_call s2 = (r, s3) \<Longrightarrow> PSI_server s3 \<Longrightarrow> run_state (end_wait lk r) s3 = (x, s4) \<Longrightarrow>
      \<exists>rc. R r rc \<and> h s4 = h s3 @ [End_wait (fst lk) rc] \<and> PSI_server s4 \<and> fault s4 = fault s3"
    and some: "\<And>r s s'. run_state real_call s = (r, s') \<Longrightarrow> \<exists>rc. R r rc"
    and inst: "\<And>s. inst s \<longleftrightarrow> have_psi \<and> guarded s"
  shows "completes_wait h inst R wrapper"
  unfolding completes_wait_def
proof
  fix s
  show "case run_state wrapper s of (r, s') \<Rightarrow>
     \<exists>lo rc. R r rc \<and> (lo = None \<longleftrightarrow> \<not> inst s) \<and> h s' = h s @ wait_events lo rc \<and>
       PSI_server s' = PSI_server s \<and> fault s' = fault s"
  proof (cases "have_psi \<and> guarded s")
    case False
    obtain r s1 where 1: "run_state real_call s = (r, s1)" by (metis surj_pair)
    have "run_state wrapper s = run_state real_call s"
      using False off not_guarded by auto
    with False 1 recordsD [OF call 1] some [OF 1] inst show ?thesis
      by (intro exI [of _ None] case_prodI2) (auto simp: wait_events_def)
  next
    case True
    obtain l c s1 where 1: "run_state (get_lk s) s = ((l, c), s1)" by (metis surj_pair)
    note h1 = recordsD [OF get 1]
    show ?thesis
    proof (cases "l = 0")
      case l0: True
      obtain r s2 where 2: "run_state real_call s1 = (r, s2)" by (metis surj_pair)
      with True l0 1 have "run_state wrapper s = (r, s2)" by (simp add: wrapper)
      with recordsD [OF call 2] h1 True l0 some [OF 2] inst show ?thesis
        by (intro exI [of _ "Some 0"] case_prodI2) (auto simp: wait_events_def)
    next
      case l: False
      obtain s2 where 2: "run_state (start_wait (l, c)) s1 = ((), s2)" by (metis old.unit.exhaust surj_pair)
      obtain r s3 where 3: "run_state real_call s2 = (r, s3)" by (metis surj_pair)
      obtain s4 where 4: "run_state (end_wait (l, c) r) s3 = ((), s4)" by (metis old.unit.exhaust surj_pair)
      have on: "PSI_server s1" using guarded True h1 by simp
      note h2 = records_onD [OF start 2 on]
      note h3 = recordsD [OF call 3]
      have "PSI_server s3" using h2 h3 by simp
      with finish [OF 1 _ 3 _ 4] l obtain rc
        where h4: "R r rc" "h s4 = h s3 @ [End_wait l rc]" "PSI_server s4" "fault s4 = fault s3" by auto
      have "run_state wrapper s = (r, s4)" using True l 1 2 3 4 by (simp add: wrapper)
      with h1 h2 h3 h4 on l True inst show ?thesis
        by (intro exI [of _ "Some l"] exI [of _ rc] case_prodI2) (auto simp: wait_events_def)
    qed
  qed
qed

lemma completes:
  assumes get: "\<And>s. records h (get_lk s) (\<lambda>lk. [Get_locker (fst lk)])"
    and start: "\<And>lk. records_on h (start_wait lk) [Start_wait (fst lk)]"
    and call: "records h real_call (\<lambda>_. [Real_call])"
    and finish: "\<And>lk r. ends_wait h (end_wait lk r) (fst lk) (R r)"
    and some: "\<And>r. \<exists>rc. R r rc"
    and inst: "\<And>s. inst s \<longleftrightarrow> have_psi \<and> guarded s"
  shows "completes_wait h inst R wrapper"
  by (rule completes_in [OF get start call _ some inst])
    (use finish in \<open>fastforce simp: ends_wait_def split: prod.splits\<close>)

end

section \<open>A recording server\<close>

text \<open>
  The least server that satisfies the contracts: it appends the calls that belong to a wait to the history, the
  first part of the world, hands out the locker 7 and the hooks 11 to 14, and never touches the second part.
\<close>

definition emit :: "psi_event \<Rightarrow> 'a \<Rightarrow> (psi_event list \<times> 'x, 'a) prog" where
  "emit e r = do {
     State_Monad.update (\<lambda>s. s\<lparr>world := (fst (world s) @ [e], snd (world s))\<rparr>);
     State_Monad.return r
   }"

definition recorder :: "(psi_event list \<times> 'x) PSI_v1" where
  "recorder = \<lparr>
     register_mutex = (\<lambda>_ _ _. State_Monad.return ()),
     register_rwlock = (\<lambda>_ _ _. State_Monad.return ()),
     register_cond = (\<lambda>_ _ _. State_Monad.return ()),
     register_thread = (\<lambda>_ _ _. State_Monad.return ()),
     register_file = (\<lambda>_ _ _. State_Monad.return ()),
     init_mutex = (\<lambda>_ _. State_Monad.return 11),
     destroy_mutex = (\<lambda>_. State_Monad.return ()),
     init_rwlock = (\<lambda>_ _. State_Monad.return 12),
     destroy_rwlock = (\<lambda>_. State_Monad.return ()),
     init_cond = (\<lambda>_ _. State_Monad.return 13),
     destroy_cond = (\<lambda>_. State_Monad.return ()),
     get_table_share = (\<lambda>_ _ _ _ _. State_Monad.return 0),
     release_table_share = (\<lambda>_. State_Monad.return ()),
     open_table = (\<lambda>_ _. State_Monad.return 0),
     close_table = (\<lambda>_. State_Monad.return ()),
     create_file = (\<lambda>_ _ _. State_Monad.return ()),
     spawn_thread = (\<lambda>_ _ _ _ _. State_Monad.return 0),
     new_thread = (\<lambda>_ _ _. State_Monad.return 0),
     set_thread_id = (\<lambda>_ _. State_Monad.return ()),
     get_thread = (State_Monad.return 0),
     set_thread = (\<lambda>_. State_Monad.return ()),
     delete_current_thread = (State_Monad.return ()),
     delete_thread = (\<lambda>_. State_Monad.return ()),
     get_thread_mutex_locker = (\<lambda>_ _. emit (Get_locker 7) 7),
     get_thread_rwlock_locker = (\<lambda>_ _. emit (Get_locker 7) 7),
     get_thread_cond_locker = (\<lambda>_ _ _. emit (Get_locker 7) 7),
     get_thread_table_locker = (\<lambda>_. State_Monad.return 0),
     get_thread_file_name_locker = (\<lambda>_ _ _ _. emit (Get_locker 7) 7),
     get_thread_file_stream_locker = (\<lambda>_ _. emit (Get_locker 7) 7),
     get_thread_file_descriptor_locker = (\<lambda>_ _. emit (Get_locker 7) 7),
     unlock_mutex = (\<lambda>_. State_Monad.return ()),
     unlock_rwlock = (\<lambda>_. State_Monad.return ()),
     signal_cond = (\<lambda>_. State_Monad.return ()),
     broadcast_cond = (\<lambda>_. State_Monad.return ()),
     start_mutex_wait = (\<lambda>l _ _. emit (Start_wait l) ()),
     end_mutex_wait = (\<lambda>l r. emit (End_wait l r) ()),
     start_rwlock_rdwait = (\<lambda>l _ _. emit (Start_wait l) ()),
     end_rwlock_rdwait = (\<lambda>l r. emit (End_wait l r) ()),
     start_rwlock_wrwait = (\<lambda>l _ _. emit (Start_wait l) ()),
     end_rwlock_wrwait = (\<lambda>l r. emit (End_wait l r) ()),
     start_cond_wait = (\<lambda>l _ _. emit (Start_wait l) ()),
     end_cond_wait = (\<lambda>l r. emit (End_wait l r) ()),
     start_table_wait = (\<lambda>_ _ _. State_Monad.return ()),
     end_table_wait = (\<lambda>_. State_Monad.return ()),
     start_file_open_wait = (\<lambda>l _ _. emit (Start_wait l) 14),
     end_file_open_wait = (\<lambda>l. emit (End_wait l 0) ()),
     end_file_open_wait_and_bind_to_descriptor = (\<lambda>l r. emit (End_wait l r) ()),
     start_file_wait = (\<lambda>l _ _ _. emit (Start_wait l) ()),
     end_file_wait = (\<lambda>l c. emit (End_wait l (uint c)) ())\<rparr>"

lemma run_emit [simp]: "run_state (emit e r) s = (r, s\<lparr>world := (fst (world s) @ [e], snd (world s))\<rparr>)"
  by (simp add: emit_def State_Monad.update_def)

lemma recorder_keeps:
  "psi_keeps_thread (os_view snd) recorder" "psi_keeps_file (os_view snd) recorder"
  by (simp_all add: psi_keeps_thread_def psi_keeps_file_def recorder_def keeps_def os_view_def)

lemma recorder_records:
  "psi_records_thread (\<lambda>s. fst (world s)) recorder" "psi_records_file (\<lambda>s. fst (world s)) recorder"
  by (simp_all add: psi_records_thread_def psi_records_file_def recorder_def records_def)

section \<open>A sample platform\<close>

text \<open>
  A real call that succeeds: it counts the calls in the second part of the world and appends a \<open>Real_call\<close> to
  the history.
\<close>

definition counted_call :: "(psi_event list \<times> nat, int) prog" where
  "counted_call = do {
     State_Monad.update (\<lambda>s. s\<lparr>world := (fst (world s) @ [Real_call], snd (world s) + 1)\<rparr>);
     State_Monad.return 0
   }"

definition sample_state :: "(psi_event list \<times> nat) pstate" where
  "sample_state = \<lparr>PSI_server = True, fault = False, bad_stream = False, mutexes = (\<lambda>_. \<lparr>mutex_psi = 0\<rparr>),
     rwlocks = (\<lambda>_. \<lparr>rwlock_psi = 0\<rparr>), prlocks = (\<lambda>_. \<lparr>prlock_psi = 0\<rparr>), conds = (\<lambda>_. \<lparr>cond_psi = 0\<rparr>),
     files = (\<lambda>_. None), world = ([], 0)\<rparr>"

definition release_build :: config where
  "release_build = \<lparr>have_psi_interface = True, safe_mutex = False\<rparr>"

lemma run_counted_call [simp]: "run_state counted_call s
    = (0, s\<lparr>world := (fst (world s) @ [Real_call], snd (world s) + 1)\<rparr>)"
  by (simp add: counted_call_def State_Monad.update_def)

end
