(* ===== verification/Mysql_Thread.thy ===== *)
theory Mysql_Thread
  imports Psi
begin

text \<open>
  The instrumented thread primitives of \<^verbatim>\<open>mysql/psi/mysql_thread.h\<close>: mutexes, read-write locks, reader
  preferring locks, conditions and threads.  Every \<^verbatim>\<open>inline_mysql_*\<close> function is one definition, with the
  conditional compilation of the header as tests of the build options \<open>config\<close>; every public macro
  \<^verbatim>\<open>mysql_*\<close> is a definition that expands to it, \<open>site\<close> being the source position the macro passes as
  \<^verbatim>\<open>__FILE__\<close> and \<^verbatim>\<open>__LINE__\<close> (a position the header does not pass is \<open>no_site\<close>).  The primitives below, of
  the platform and of \<^verbatim>\<open>mysys\<close>, are the functions of the record \<open>thread_os\<close>, arbitrary in every theorem.

  The lemmas show that each wrapper can replace the bare primitive: it returns the same result and leaves
  the caller's view of the state the same, whatever the instrumentation does; that it drives the
  instrumentation through exactly one complete wait and reports the result of the primitive; that no
  call goes through a null \<^verbatim>\<open>PSI_server\<close>; and what the lifecycle of the instrumentation hook is.
\<close>

section \<open>The primitives below\<close>

record 'w thread_os =
  pthread_mutex_init :: "addr \<Rightarrow> addr \<Rightarrow> ('w, int) prog"
  safe_mutex_init :: "addr \<Rightarrow> addr \<Rightarrow> c_str \<Rightarrow> c_uint \<Rightarrow> ('w, int) prog"
  pthread_mutex_destroy :: "addr \<Rightarrow> ('w, int) prog"
  safe_mutex_destroy :: "addr \<Rightarrow> c_str \<Rightarrow> c_uint \<Rightarrow> ('w, int) prog"
  pthread_mutex_lock :: "addr \<Rightarrow> ('w, int) prog"
  pthread_mutex_trylock :: "addr \<Rightarrow> ('w, int) prog"
  safe_mutex_lock :: "addr \<Rightarrow> bool \<Rightarrow> c_str \<Rightarrow> c_uint \<Rightarrow> ('w, int) prog"
  pthread_mutex_unlock :: "addr \<Rightarrow> ('w, int) prog"
  safe_mutex_unlock :: "addr \<Rightarrow> c_str \<Rightarrow> c_uint \<Rightarrow> ('w, int) prog"
  my_rwlock_init :: "addr \<Rightarrow> addr \<Rightarrow> ('w, int) prog"
  rwlock_destroy :: "addr \<Rightarrow> ('w, int) prog"
  rw_rdlock :: "addr \<Rightarrow> ('w, int) prog"
  rw_wrlock :: "addr \<Rightarrow> ('w, int) prog"
  rw_tryrdlock :: "addr \<Rightarrow> ('w, int) prog"
  rw_trywrlock :: "addr \<Rightarrow> ('w, int) prog"
  rw_unlock :: "addr \<Rightarrow> ('w, int) prog"
  rw_pr_init :: "addr \<Rightarrow> ('w, int) prog"
  rw_pr_destroy :: "addr \<Rightarrow> ('w, int) prog"
  rw_pr_rdlock :: "addr \<Rightarrow> ('w, int) prog"
  rw_pr_wrlock :: "addr \<Rightarrow> ('w, int) prog"
  rw_pr_unlock :: "addr \<Rightarrow> ('w, int) prog"
  pthread_cond_init :: "addr \<Rightarrow> addr \<Rightarrow> ('w, int) prog"
  pthread_cond_destroy :: "addr \<Rightarrow> ('w, int) prog"
  pthread_cond_wait :: "addr \<Rightarrow> addr \<Rightarrow> ('w, int) prog"
  pthread_cond_timedwait :: "addr \<Rightarrow> addr \<Rightarrow> addr \<Rightarrow> ('w, int) prog"
  pthread_cond_signal :: "addr \<Rightarrow> ('w, int) prog"
  pthread_cond_broadcast :: "addr \<Rightarrow> ('w, int) prog"
  pthread_create :: "addr \<Rightarrow> addr \<Rightarrow> addr \<Rightarrow> addr \<Rightarrow> ('w, int) prog"


text \<open>The primitive a mutex operation reaches under the build options.\<close>

definition real_mutex_init :: "config \<Rightarrow> 'w thread_os \<Rightarrow> addr \<Rightarrow> addr \<Rightarrow> c_str \<Rightarrow> c_uint \<Rightarrow> ('w, int) prog" where
  "real_mutex_init cfg os that attr src_file src_line =
     (if safe_mutex cfg then safe_mutex_init os that attr src_file src_line
      else pthread_mutex_init os that attr)"

definition real_mutex_destroy :: "config \<Rightarrow> 'w thread_os \<Rightarrow> addr \<Rightarrow> c_str \<Rightarrow> c_uint \<Rightarrow> ('w, int) prog" where
  "real_mutex_destroy cfg os that src_file src_line =
     (if safe_mutex cfg then safe_mutex_destroy os that src_file src_line
      else pthread_mutex_destroy os that)"

definition real_mutex_lock :: "config \<Rightarrow> 'w thread_os \<Rightarrow> addr \<Rightarrow> c_str \<Rightarrow> c_uint \<Rightarrow> ('w, int) prog" where
  "real_mutex_lock cfg os that src_file src_line =
     (if safe_mutex cfg then safe_mutex_lock os that False src_file src_line
      else pthread_mutex_lock os that)"

definition real_mutex_trylock :: "config \<Rightarrow> 'w thread_os \<Rightarrow> addr \<Rightarrow> c_str \<Rightarrow> c_uint \<Rightarrow> ('w, int) prog" where
  "real_mutex_trylock cfg os that src_file src_line =
     (if safe_mutex cfg then safe_mutex_lock os that True src_file src_line
      else pthread_mutex_trylock os that)"

definition real_mutex_unlock :: "config \<Rightarrow> 'w thread_os \<Rightarrow> addr \<Rightarrow> c_str \<Rightarrow> c_uint \<Rightarrow> ('w, int) prog" where
  "real_mutex_unlock cfg os that src_file src_line =
     (if safe_mutex cfg then safe_mutex_unlock os that src_file src_line
      else pthread_mutex_unlock os that)"

section \<open>Mutexes\<close>

definition inline_mysql_mutex_init ::
  "config \<Rightarrow> 'w PSI_v1 \<Rightarrow> 'w thread_os \<Rightarrow> PSI_mutex_key \<Rightarrow> addr \<Rightarrow> addr \<Rightarrow> c_str \<Rightarrow> c_uint \<Rightarrow> ('w, int) prog" where
  "inline_mysql_mutex_init cfg psi os key that attr src_file src_line = do {
     hook \<leftarrow> (if have_psi_interface cfg then do {
         s \<leftarrow> State_Monad.get;
         if PSI_server s then init_mutex psi key that else State_Monad.return 0
       } else State_Monad.return 0);
     State_Monad.update (\<lambda>s. s\<lparr>mutexes := (mutexes s)(that := mutexes s that\<lparr>mutex_psi := hook\<rparr>)\<rparr>);
     real_mutex_init cfg os that attr src_file src_line
   }"

definition inline_mysql_mutex_destroy :: "config \<Rightarrow> 'w PSI_v1 \<Rightarrow> 'w thread_os \<Rightarrow> addr \<Rightarrow> c_str \<Rightarrow> c_uint \<Rightarrow> ('w, int) prog" where
  "inline_mysql_mutex_destroy cfg psi os that src_file src_line = do {
     (if have_psi_interface cfg then do {
         s \<leftarrow> State_Monad.get;
         if PSI_server s \<and> mutex_psi (mutexes s that) \<noteq> 0 then do {
           destroy_mutex psi (mutex_psi (mutexes s that));
           State_Monad.update (\<lambda>s. s\<lparr>mutexes := (mutexes s)(that := mutexes s that\<lparr>mutex_psi := 0\<rparr>)\<rparr>)
         } else State_Monad.return ()
       } else State_Monad.return ());
     real_mutex_destroy cfg os that src_file src_line
   }"

definition inline_mysql_mutex_lock :: "config \<Rightarrow> 'w PSI_v1 \<Rightarrow> 'w thread_os \<Rightarrow> addr \<Rightarrow> c_str \<Rightarrow> c_uint \<Rightarrow> ('w, int) prog" where
  "inline_mysql_mutex_lock cfg psi os that src_file src_line = do {
     locker \<leftarrow> (if have_psi_interface cfg then do {
         s \<leftarrow> State_Monad.get;
         if PSI_server s \<and> mutex_psi (mutexes s that) \<noteq> 0 then do {
           locker \<leftarrow> get_thread_mutex_locker psi (mutex_psi (mutexes s that)) PSI_MUTEX_LOCK;
           (if locker \<noteq> 0 then psi_call () (start_mutex_wait psi locker src_file src_line)
            else State_Monad.return ());
           State_Monad.return locker
         } else State_Monad.return 0
       } else State_Monad.return 0);
     result \<leftarrow> real_mutex_lock cfg os that src_file src_line;
     (if locker \<noteq> 0 then psi_call () (end_mutex_wait psi locker result) else State_Monad.return ());
     State_Monad.return result
   }"

definition inline_mysql_mutex_trylock :: "config \<Rightarrow> 'w PSI_v1 \<Rightarrow> 'w thread_os \<Rightarrow> addr \<Rightarrow> c_str \<Rightarrow> c_uint \<Rightarrow> ('w, int) prog" where
  "inline_mysql_mutex_trylock cfg psi os that src_file src_line = do {
     locker \<leftarrow> (if have_psi_interface cfg then do {
         s \<leftarrow> State_Monad.get;
         if PSI_server s \<and> mutex_psi (mutexes s that) \<noteq> 0 then do {
           locker \<leftarrow> get_thread_mutex_locker psi (mutex_psi (mutexes s that)) PSI_MUTEX_TRYLOCK;
           (if locker \<noteq> 0 then psi_call () (start_mutex_wait psi locker src_file src_line)
            else State_Monad.return ());
           State_Monad.return locker
         } else State_Monad.return 0
       } else State_Monad.return 0);
     result \<leftarrow> real_mutex_trylock cfg os that src_file src_line;
     (if locker \<noteq> 0 then psi_call () (end_mutex_wait psi locker result) else State_Monad.return ());
     State_Monad.return result
   }"

definition inline_mysql_mutex_unlock :: "config \<Rightarrow> 'w PSI_v1 \<Rightarrow> 'w thread_os \<Rightarrow> addr \<Rightarrow> c_str \<Rightarrow> c_uint \<Rightarrow> ('w, int) prog" where
  "inline_mysql_mutex_unlock cfg psi os that src_file src_line = do {
     (if have_psi_interface cfg then do {
         s \<leftarrow> State_Monad.get;
         if PSI_server s \<and> mutex_psi (mutexes s that) \<noteq> 0 then unlock_mutex psi (mutex_psi (mutexes s that))
         else State_Monad.return ()
       } else State_Monad.return ());
     result \<leftarrow> real_mutex_unlock cfg os that src_file src_line;
     State_Monad.return result
   }"

section \<open>Read-write locks\<close>

definition inline_mysql_rwlock_init ::
  "config \<Rightarrow> 'w PSI_v1 \<Rightarrow> 'w thread_os \<Rightarrow> PSI_rwlock_key \<Rightarrow> addr \<Rightarrow> ('w, int) prog" where
  "inline_mysql_rwlock_init cfg psi os key that = do {
     hook \<leftarrow> (if have_psi_interface cfg then do {
         s \<leftarrow> State_Monad.get;
         if PSI_server s then init_rwlock psi key that else State_Monad.return 0
       } else State_Monad.return 0);
     State_Monad.update (\<lambda>s. s\<lparr>rwlocks := (rwlocks s)(that := rwlocks s that\<lparr>rwlock_psi := hook\<rparr>)\<rparr>);
     my_rwlock_init os that 0
   }"

definition inline_mysql_prlock_init ::
  "config \<Rightarrow> 'w PSI_v1 \<Rightarrow> 'w thread_os \<Rightarrow> PSI_rwlock_key \<Rightarrow> addr \<Rightarrow> ('w, int) prog" where
  "inline_mysql_prlock_init cfg psi os key that = do {
     hook \<leftarrow> (if have_psi_interface cfg then do {
         s \<leftarrow> State_Monad.get;
         if PSI_server s then init_rwlock psi key that else State_Monad.return 0
       } else State_Monad.return 0);
     State_Monad.update (\<lambda>s. s\<lparr>prlocks := (prlocks s)(that := prlocks s that\<lparr>prlock_psi := hook\<rparr>)\<rparr>);
     rw_pr_init os that
   }"

definition inline_mysql_rwlock_destroy :: "config \<Rightarrow> 'w PSI_v1 \<Rightarrow> 'w thread_os \<Rightarrow> addr \<Rightarrow> ('w, int) prog" where
  "inline_mysql_rwlock_destroy cfg psi os that = do {
     (if have_psi_interface cfg then do {
         s \<leftarrow> State_Monad.get;
         if PSI_server s \<and> rwlock_psi (rwlocks s that) \<noteq> 0 then do {
           destroy_rwlock psi (rwlock_psi (rwlocks s that));
           State_Monad.update (\<lambda>s. s\<lparr>rwlocks := (rwlocks s)(that := rwlocks s that\<lparr>rwlock_psi := 0\<rparr>)\<rparr>)
         } else State_Monad.return ()
       } else State_Monad.return ());
     rwlock_destroy os that
   }"

definition inline_mysql_prlock_destroy :: "config \<Rightarrow> 'w PSI_v1 \<Rightarrow> 'w thread_os \<Rightarrow> addr \<Rightarrow> ('w, int) prog" where
  "inline_mysql_prlock_destroy cfg psi os that = do {
     (if have_psi_interface cfg then do {
         s \<leftarrow> State_Monad.get;
         if PSI_server s \<and> prlock_psi (prlocks s that) \<noteq> 0 then do {
           destroy_rwlock psi (prlock_psi (prlocks s that));
           State_Monad.update (\<lambda>s. s\<lparr>prlocks := (prlocks s)(that := prlocks s that\<lparr>prlock_psi := 0\<rparr>)\<rparr>)
         } else State_Monad.return ()
       } else State_Monad.return ());
     rw_pr_destroy os that
   }"

definition inline_mysql_rwlock_rdlock :: "config \<Rightarrow> 'w PSI_v1 \<Rightarrow> 'w thread_os \<Rightarrow> addr \<Rightarrow> c_str \<Rightarrow> c_uint \<Rightarrow> ('w, int) prog" where
  "inline_mysql_rwlock_rdlock cfg psi os that src_file src_line = do {
     locker \<leftarrow> (if have_psi_interface cfg then do {
         s \<leftarrow> State_Monad.get;
         if PSI_server s \<and> rwlock_psi (rwlocks s that) \<noteq> 0 then do {
           locker \<leftarrow> get_thread_rwlock_locker psi (rwlock_psi (rwlocks s that)) PSI_RWLOCK_READLOCK;
           (if locker \<noteq> 0 then psi_call () (start_rwlock_rdwait psi locker src_file src_line)
            else State_Monad.return ());
           State_Monad.return locker
         } else State_Monad.return 0
       } else State_Monad.return 0);
     result \<leftarrow> rw_rdlock os that;
     (if locker \<noteq> 0 then psi_call () (end_rwlock_rdwait psi locker result) else State_Monad.return ());
     State_Monad.return result
   }"

definition inline_mysql_prlock_rdlock :: "config \<Rightarrow> 'w PSI_v1 \<Rightarrow> 'w thread_os \<Rightarrow> addr \<Rightarrow> c_str \<Rightarrow> c_uint \<Rightarrow> ('w, int) prog" where
  "inline_mysql_prlock_rdlock cfg psi os that src_file src_line = do {
     locker \<leftarrow> (if have_psi_interface cfg then do {
         s \<leftarrow> State_Monad.get;
         if PSI_server s \<and> prlock_psi (prlocks s that) \<noteq> 0 then do {
           locker \<leftarrow> get_thread_rwlock_locker psi (prlock_psi (prlocks s that)) PSI_RWLOCK_READLOCK;
           (if locker \<noteq> 0 then psi_call () (start_rwlock_rdwait psi locker src_file src_line)
            else State_Monad.return ());
           State_Monad.return locker
         } else State_Monad.return 0
       } else State_Monad.return 0);
     result \<leftarrow> rw_pr_rdlock os that;
     (if locker \<noteq> 0 then psi_call () (end_rwlock_rdwait psi locker result) else State_Monad.return ());
     State_Monad.return result
   }"

definition inline_mysql_rwlock_wrlock :: "config \<Rightarrow> 'w PSI_v1 \<Rightarrow> 'w thread_os \<Rightarrow> addr \<Rightarrow> c_str \<Rightarrow> c_uint \<Rightarrow> ('w, int) prog" where
  "inline_mysql_rwlock_wrlock cfg psi os that src_file src_line = do {
     locker \<leftarrow> (if have_psi_interface cfg then do {
         s \<leftarrow> State_Monad.get;
         if PSI_server s \<and> rwlock_psi (rwlocks s that) \<noteq> 0 then do {
           locker \<leftarrow> get_thread_rwlock_locker psi (rwlock_psi (rwlocks s that)) PSI_RWLOCK_WRITELOCK;
           (if locker \<noteq> 0 then psi_call () (start_rwlock_wrwait psi locker src_file src_line)
            else State_Monad.return ());
           State_Monad.return locker
         } else State_Monad.return 0
       } else State_Monad.return 0);
     result \<leftarrow> rw_wrlock os that;
     (if locker \<noteq> 0 then psi_call () (end_rwlock_wrwait psi locker result) else State_Monad.return ());
     State_Monad.return result
   }"

definition inline_mysql_prlock_wrlock :: "config \<Rightarrow> 'w PSI_v1 \<Rightarrow> 'w thread_os \<Rightarrow> addr \<Rightarrow> c_str \<Rightarrow> c_uint \<Rightarrow> ('w, int) prog" where
  "inline_mysql_prlock_wrlock cfg psi os that src_file src_line = do {
     locker \<leftarrow> (if have_psi_interface cfg then do {
         s \<leftarrow> State_Monad.get;
         if PSI_server s \<and> prlock_psi (prlocks s that) \<noteq> 0 then do {
           locker \<leftarrow> get_thread_rwlock_locker psi (prlock_psi (prlocks s that)) PSI_RWLOCK_WRITELOCK;
           (if locker \<noteq> 0 then psi_call () (start_rwlock_wrwait psi locker src_file src_line)
            else State_Monad.return ());
           State_Monad.return locker
         } else State_Monad.return 0
       } else State_Monad.return 0);
     result \<leftarrow> rw_pr_wrlock os that;
     (if locker \<noteq> 0 then psi_call () (end_rwlock_wrwait psi locker result) else State_Monad.return ());
     State_Monad.return result
   }"

definition inline_mysql_rwlock_tryrdlock :: "config \<Rightarrow> 'w PSI_v1 \<Rightarrow> 'w thread_os \<Rightarrow> addr \<Rightarrow> c_str \<Rightarrow> c_uint \<Rightarrow> ('w, int) prog" where
  "inline_mysql_rwlock_tryrdlock cfg psi os that src_file src_line = do {
     locker \<leftarrow> (if have_psi_interface cfg then do {
         s \<leftarrow> State_Monad.get;
         if PSI_server s \<and> rwlock_psi (rwlocks s that) \<noteq> 0 then do {
           locker \<leftarrow> get_thread_rwlock_locker psi (rwlock_psi (rwlocks s that)) PSI_RWLOCK_TRYREADLOCK;
           (if locker \<noteq> 0 then psi_call () (start_rwlock_rdwait psi locker src_file src_line)
            else State_Monad.return ());
           State_Monad.return locker
         } else State_Monad.return 0
       } else State_Monad.return 0);
     result \<leftarrow> rw_tryrdlock os that;
     (if locker \<noteq> 0 then psi_call () (end_rwlock_rdwait psi locker result) else State_Monad.return ());
     State_Monad.return result
   }"

definition inline_mysql_rwlock_trywrlock :: "config \<Rightarrow> 'w PSI_v1 \<Rightarrow> 'w thread_os \<Rightarrow> addr \<Rightarrow> c_str \<Rightarrow> c_uint \<Rightarrow> ('w, int) prog" where
  "inline_mysql_rwlock_trywrlock cfg psi os that src_file src_line = do {
     locker \<leftarrow> (if have_psi_interface cfg then do {
         s \<leftarrow> State_Monad.get;
         if PSI_server s \<and> rwlock_psi (rwlocks s that) \<noteq> 0 then do {
           locker \<leftarrow> get_thread_rwlock_locker psi (rwlock_psi (rwlocks s that)) PSI_RWLOCK_TRYWRITELOCK;
           (if locker \<noteq> 0 then psi_call () (start_rwlock_wrwait psi locker src_file src_line)
            else State_Monad.return ());
           State_Monad.return locker
         } else State_Monad.return 0
       } else State_Monad.return 0);
     result \<leftarrow> rw_trywrlock os that;
     (if locker \<noteq> 0 then psi_call () (end_rwlock_wrwait psi locker result) else State_Monad.return ());
     State_Monad.return result
   }"

definition inline_mysql_rwlock_unlock :: "config \<Rightarrow> 'w PSI_v1 \<Rightarrow> 'w thread_os \<Rightarrow> addr \<Rightarrow> ('w, int) prog" where
  "inline_mysql_rwlock_unlock cfg psi os that = do {
     (if have_psi_interface cfg then do {
         s \<leftarrow> State_Monad.get;
         if PSI_server s \<and> rwlock_psi (rwlocks s that) \<noteq> 0 then unlock_rwlock psi (rwlock_psi (rwlocks s that))
         else State_Monad.return ()
       } else State_Monad.return ());
     result \<leftarrow> rw_unlock os that;
     State_Monad.return result
   }"

definition inline_mysql_prlock_unlock :: "config \<Rightarrow> 'w PSI_v1 \<Rightarrow> 'w thread_os \<Rightarrow> addr \<Rightarrow> ('w, int) prog" where
  "inline_mysql_prlock_unlock cfg psi os that = do {
     (if have_psi_interface cfg then do {
         s \<leftarrow> State_Monad.get;
         if PSI_server s \<and> prlock_psi (prlocks s that) \<noteq> 0 then unlock_rwlock psi (prlock_psi (prlocks s that))
         else State_Monad.return ()
       } else State_Monad.return ());
     result \<leftarrow> rw_pr_unlock os that;
     State_Monad.return result
   }"

section \<open>Conditions\<close>

definition inline_mysql_cond_init ::
  "config \<Rightarrow> 'w PSI_v1 \<Rightarrow> 'w thread_os \<Rightarrow> PSI_cond_key \<Rightarrow> addr \<Rightarrow> addr \<Rightarrow> ('w, int) prog" where
  "inline_mysql_cond_init cfg psi os key that attr = do {
     hook \<leftarrow> (if have_psi_interface cfg then do {
         s \<leftarrow> State_Monad.get;
         if PSI_server s then init_cond psi key that else State_Monad.return 0
       } else State_Monad.return 0);
     State_Monad.update (\<lambda>s. s\<lparr>conds := (conds s)(that := conds s that\<lparr>cond_psi := hook\<rparr>)\<rparr>);
     pthread_cond_init os that attr
   }"

definition inline_mysql_cond_destroy :: "config \<Rightarrow> 'w PSI_v1 \<Rightarrow> 'w thread_os \<Rightarrow> addr \<Rightarrow> ('w, int) prog" where
  "inline_mysql_cond_destroy cfg psi os that = do {
     (if have_psi_interface cfg then do {
         s \<leftarrow> State_Monad.get;
         if PSI_server s \<and> cond_psi (conds s that) \<noteq> 0 then do {
           destroy_cond psi (cond_psi (conds s that));
           State_Monad.update (\<lambda>s. s\<lparr>conds := (conds s)(that := conds s that\<lparr>cond_psi := 0\<rparr>)\<rparr>)
         } else State_Monad.return ()
       } else State_Monad.return ());
     pthread_cond_destroy os that
   }"

definition inline_mysql_cond_wait :: "config \<Rightarrow> 'w PSI_v1 \<Rightarrow> 'w thread_os \<Rightarrow> addr \<Rightarrow> addr \<Rightarrow> c_str \<Rightarrow> c_uint \<Rightarrow> ('w, int) prog" where
  "inline_mysql_cond_wait cfg psi os that mutex src_file src_line = do {
     locker \<leftarrow> (if have_psi_interface cfg then do {
         s \<leftarrow> State_Monad.get;
         if PSI_server s \<and> cond_psi (conds s that) \<noteq> 0 then do {
           locker \<leftarrow> get_thread_cond_locker psi (cond_psi (conds s that)) (mutex_psi (mutexes s mutex)) PSI_COND_WAIT;
           (if locker \<noteq> 0 then psi_call () (start_cond_wait psi locker src_file src_line)
            else State_Monad.return ());
           State_Monad.return locker
         } else State_Monad.return 0
       } else State_Monad.return 0);
     result \<leftarrow> pthread_cond_wait os that mutex;
     (if locker \<noteq> 0 then psi_call () (end_cond_wait psi locker result) else State_Monad.return ());
     State_Monad.return result
   }"

definition inline_mysql_cond_timedwait :: "config \<Rightarrow> 'w PSI_v1 \<Rightarrow> 'w thread_os \<Rightarrow> addr \<Rightarrow> addr \<Rightarrow> addr \<Rightarrow> c_str \<Rightarrow> c_uint \<Rightarrow> ('w, int) prog" where
  "inline_mysql_cond_timedwait cfg psi os that mutex abstime src_file src_line = do {
     locker \<leftarrow> (if have_psi_interface cfg then do {
         s \<leftarrow> State_Monad.get;
         if PSI_server s \<and> cond_psi (conds s that) \<noteq> 0 then do {
           locker \<leftarrow> get_thread_cond_locker psi (cond_psi (conds s that)) (mutex_psi (mutexes s mutex)) PSI_COND_TIMEDWAIT;
           (if locker \<noteq> 0 then psi_call () (start_cond_wait psi locker src_file src_line)
            else State_Monad.return ());
           State_Monad.return locker
         } else State_Monad.return 0
       } else State_Monad.return 0);
     result \<leftarrow> pthread_cond_timedwait os that mutex abstime;
     (if locker \<noteq> 0 then psi_call () (end_cond_wait psi locker result) else State_Monad.return ());
     State_Monad.return result
   }"

definition inline_mysql_cond_signal :: "config \<Rightarrow> 'w PSI_v1 \<Rightarrow> 'w thread_os \<Rightarrow> addr \<Rightarrow> ('w, int) prog" where
  "inline_mysql_cond_signal cfg psi os that = do {
     (if have_psi_interface cfg then do {
         s \<leftarrow> State_Monad.get;
         if PSI_server s \<and> cond_psi (conds s that) \<noteq> 0 then signal_cond psi (cond_psi (conds s that))
         else State_Monad.return ()
       } else State_Monad.return ());
     result \<leftarrow> pthread_cond_signal os that;
     State_Monad.return result
   }"

definition inline_mysql_cond_broadcast :: "config \<Rightarrow> 'w PSI_v1 \<Rightarrow> 'w thread_os \<Rightarrow> addr \<Rightarrow> ('w, int) prog" where
  "inline_mysql_cond_broadcast cfg psi os that = do {
     (if have_psi_interface cfg then do {
         s \<leftarrow> State_Monad.get;
         if PSI_server s \<and> cond_psi (conds s that) \<noteq> 0 then broadcast_cond psi (cond_psi (conds s that))
         else State_Monad.return ()
       } else State_Monad.return ());
     result \<leftarrow> pthread_cond_broadcast os that;
     State_Monad.return result
   }"

section \<open>Threads\<close>

definition inline_mysql_thread_create ::
  "'w PSI_v1 \<Rightarrow> 'w thread_os \<Rightarrow> PSI_thread_key \<Rightarrow> addr \<Rightarrow> addr \<Rightarrow> addr \<Rightarrow> addr \<Rightarrow> ('w, int) prog" where
  "inline_mysql_thread_create psi os key thread attr start_routine arg = do {
     s \<leftarrow> State_Monad.get;
     result \<leftarrow> (if PSI_server s then spawn_thread psi key thread attr start_routine arg
       else pthread_create os thread attr start_routine arg);
     State_Monad.return result
   }"

definition inline_mysql_thread_set_psi_id :: "'w PSI_v1 \<Rightarrow> uint32 \<Rightarrow> ('w, unit) prog" where
  "inline_mysql_thread_set_psi_id psi i = do {
     s \<leftarrow> State_Monad.get;
     if PSI_server s then do {
       h \<leftarrow> get_thread psi;
       if h \<noteq> 0 then psi_call () (set_thread_id psi h i) else State_Monad.return ()
     } else State_Monad.return ()
   }"

section \<open>The public macros\<close>

definition mysql_mutex_init :: "config \<Rightarrow> 'w PSI_v1 \<Rightarrow> 'w thread_os \<Rightarrow> PSI_mutex_key \<Rightarrow> addr \<Rightarrow> addr \<Rightarrow> site \<Rightarrow> ('w, int) prog" where
  "mysql_mutex_init cfg psi os K M A site = (if safe_mutex cfg
     then inline_mysql_mutex_init cfg psi os K M A (fst site) (snd site)
     else inline_mysql_mutex_init cfg psi os K M A (fst no_site) (snd no_site))"

definition mysql_mutex_destroy :: "config \<Rightarrow> 'w PSI_v1 \<Rightarrow> 'w thread_os \<Rightarrow> addr \<Rightarrow> site \<Rightarrow> ('w, int) prog" where
  "mysql_mutex_destroy cfg psi os M site = (if safe_mutex cfg
     then inline_mysql_mutex_destroy cfg psi os M (fst site) (snd site)
     else inline_mysql_mutex_destroy cfg psi os M (fst no_site) (snd no_site))"

definition mysql_mutex_unlock :: "config \<Rightarrow> 'w PSI_v1 \<Rightarrow> 'w thread_os \<Rightarrow> addr \<Rightarrow> site \<Rightarrow> ('w, int) prog" where
  "mysql_mutex_unlock cfg psi os M site = (if safe_mutex cfg
     then inline_mysql_mutex_unlock cfg psi os M (fst site) (snd site)
     else inline_mysql_mutex_unlock cfg psi os M (fst no_site) (snd no_site))"

definition mysql_mutex_lock :: "config \<Rightarrow> 'w PSI_v1 \<Rightarrow> 'w thread_os \<Rightarrow> addr \<Rightarrow> site \<Rightarrow> ('w, int) prog" where
  "mysql_mutex_lock cfg psi os M site = (if safe_mutex cfg \<or> have_psi_interface cfg
     then inline_mysql_mutex_lock cfg psi os M (fst site) (snd site)
     else inline_mysql_mutex_lock cfg psi os M (fst no_site) (snd no_site))"

definition mysql_mutex_trylock :: "config \<Rightarrow> 'w PSI_v1 \<Rightarrow> 'w thread_os \<Rightarrow> addr \<Rightarrow> site \<Rightarrow> ('w, int) prog" where
  "mysql_mutex_trylock cfg psi os M site = (if safe_mutex cfg \<or> have_psi_interface cfg
     then inline_mysql_mutex_trylock cfg psi os M (fst site) (snd site)
     else inline_mysql_mutex_trylock cfg psi os M (fst no_site) (snd no_site))"

definition mysql_rwlock_init :: "config \<Rightarrow> 'w PSI_v1 \<Rightarrow> 'w thread_os \<Rightarrow> PSI_rwlock_key \<Rightarrow> addr \<Rightarrow> ('w, int) prog" where
  "mysql_rwlock_init cfg psi os K RW = inline_mysql_rwlock_init cfg psi os K RW"

definition mysql_rwlock_destroy :: "config \<Rightarrow> 'w PSI_v1 \<Rightarrow> 'w thread_os \<Rightarrow> addr \<Rightarrow> ('w, int) prog" where
  "mysql_rwlock_destroy cfg psi os RW = inline_mysql_rwlock_destroy cfg psi os RW"

definition mysql_rwlock_unlock :: "config \<Rightarrow> 'w PSI_v1 \<Rightarrow> 'w thread_os \<Rightarrow> addr \<Rightarrow> ('w, int) prog" where
  "mysql_rwlock_unlock cfg psi os RW = inline_mysql_rwlock_unlock cfg psi os RW"

definition mysql_rwlock_rdlock :: "config \<Rightarrow> 'w PSI_v1 \<Rightarrow> 'w thread_os \<Rightarrow> addr \<Rightarrow> site \<Rightarrow> ('w, int) prog" where
  "mysql_rwlock_rdlock cfg psi os RW site = (if have_psi_interface cfg
     then inline_mysql_rwlock_rdlock cfg psi os RW (fst site) (snd site)
     else inline_mysql_rwlock_rdlock cfg psi os RW (fst no_site) (snd no_site))"

definition mysql_rwlock_wrlock :: "config \<Rightarrow> 'w PSI_v1 \<Rightarrow> 'w thread_os \<Rightarrow> addr \<Rightarrow> site \<Rightarrow> ('w, int) prog" where
  "mysql_rwlock_wrlock cfg psi os RW site = (if have_psi_interface cfg
     then inline_mysql_rwlock_wrlock cfg psi os RW (fst site) (snd site)
     else inline_mysql_rwlock_wrlock cfg psi os RW (fst no_site) (snd no_site))"

definition mysql_rwlock_tryrdlock :: "config \<Rightarrow> 'w PSI_v1 \<Rightarrow> 'w thread_os \<Rightarrow> addr \<Rightarrow> site \<Rightarrow> ('w, int) prog" where
  "mysql_rwlock_tryrdlock cfg psi os RW site = (if have_psi_interface cfg
     then inline_mysql_rwlock_tryrdlock cfg psi os RW (fst site) (snd site)
     else inline_mysql_rwlock_tryrdlock cfg psi os RW (fst no_site) (snd no_site))"

definition mysql_rwlock_trywrlock :: "config \<Rightarrow> 'w PSI_v1 \<Rightarrow> 'w thread_os \<Rightarrow> addr \<Rightarrow> site \<Rightarrow> ('w, int) prog" where
  "mysql_rwlock_trywrlock cfg psi os RW site = (if have_psi_interface cfg
     then inline_mysql_rwlock_trywrlock cfg psi os RW (fst site) (snd site)
     else inline_mysql_rwlock_trywrlock cfg psi os RW (fst no_site) (snd no_site))"

definition mysql_prlock_init :: "config \<Rightarrow> 'w PSI_v1 \<Rightarrow> 'w thread_os \<Rightarrow> PSI_rwlock_key \<Rightarrow> addr \<Rightarrow> ('w, int) prog" where
  "mysql_prlock_init cfg psi os K RW = inline_mysql_prlock_init cfg psi os K RW"

definition mysql_prlock_destroy :: "config \<Rightarrow> 'w PSI_v1 \<Rightarrow> 'w thread_os \<Rightarrow> addr \<Rightarrow> ('w, int) prog" where
  "mysql_prlock_destroy cfg psi os RW = inline_mysql_prlock_destroy cfg psi os RW"

definition mysql_prlock_unlock :: "config \<Rightarrow> 'w PSI_v1 \<Rightarrow> 'w thread_os \<Rightarrow> addr \<Rightarrow> ('w, int) prog" where
  "mysql_prlock_unlock cfg psi os RW = inline_mysql_prlock_unlock cfg psi os RW"

definition mysql_prlock_rdlock :: "config \<Rightarrow> 'w PSI_v1 \<Rightarrow> 'w thread_os \<Rightarrow> addr \<Rightarrow> site \<Rightarrow> ('w, int) prog" where
  "mysql_prlock_rdlock cfg psi os RW site = (if have_psi_interface cfg
     then inline_mysql_prlock_rdlock cfg psi os RW (fst site) (snd site)
     else inline_mysql_prlock_rdlock cfg psi os RW (fst no_site) (snd no_site))"

definition mysql_prlock_wrlock :: "config \<Rightarrow> 'w PSI_v1 \<Rightarrow> 'w thread_os \<Rightarrow> addr \<Rightarrow> site \<Rightarrow> ('w, int) prog" where
  "mysql_prlock_wrlock cfg psi os RW site = (if have_psi_interface cfg
     then inline_mysql_prlock_wrlock cfg psi os RW (fst site) (snd site)
     else inline_mysql_prlock_wrlock cfg psi os RW (fst no_site) (snd no_site))"

definition mysql_cond_init :: "config \<Rightarrow> 'w PSI_v1 \<Rightarrow> 'w thread_os \<Rightarrow> PSI_cond_key \<Rightarrow> addr \<Rightarrow> addr \<Rightarrow> ('w, int) prog" where
  "mysql_cond_init cfg psi os K C A = inline_mysql_cond_init cfg psi os K C A"

definition mysql_cond_destroy :: "config \<Rightarrow> 'w PSI_v1 \<Rightarrow> 'w thread_os \<Rightarrow> addr \<Rightarrow> ('w, int) prog" where
  "mysql_cond_destroy cfg psi os C = inline_mysql_cond_destroy cfg psi os C"

definition mysql_cond_signal :: "config \<Rightarrow> 'w PSI_v1 \<Rightarrow> 'w thread_os \<Rightarrow> addr \<Rightarrow> ('w, int) prog" where
  "mysql_cond_signal cfg psi os C = inline_mysql_cond_signal cfg psi os C"

definition mysql_cond_broadcast :: "config \<Rightarrow> 'w PSI_v1 \<Rightarrow> 'w thread_os \<Rightarrow> addr \<Rightarrow> ('w, int) prog" where
  "mysql_cond_broadcast cfg psi os C = inline_mysql_cond_broadcast cfg psi os C"

definition mysql_cond_wait :: "config \<Rightarrow> 'w PSI_v1 \<Rightarrow> 'w thread_os \<Rightarrow> addr \<Rightarrow> addr \<Rightarrow> site \<Rightarrow> ('w, int) prog" where
  "mysql_cond_wait cfg psi os C M site = (if have_psi_interface cfg
     then inline_mysql_cond_wait cfg psi os C M (fst site) (snd site)
     else inline_mysql_cond_wait cfg psi os C M (fst no_site) (snd no_site))"

definition mysql_cond_timedwait :: "config \<Rightarrow> 'w PSI_v1 \<Rightarrow> 'w thread_os \<Rightarrow> addr \<Rightarrow> addr \<Rightarrow> addr \<Rightarrow> site \<Rightarrow> ('w, int) prog" where
  "mysql_cond_timedwait cfg psi os C M W site = (if have_psi_interface cfg
     then inline_mysql_cond_timedwait cfg psi os C M W (fst site) (snd site)
     else inline_mysql_cond_timedwait cfg psi os C M W (fst no_site) (snd no_site))"

definition mysql_thread_create :: "config \<Rightarrow> 'w PSI_v1 \<Rightarrow> 'w thread_os \<Rightarrow> PSI_thread_key \<Rightarrow> addr \<Rightarrow> addr \<Rightarrow> addr \<Rightarrow> addr \<Rightarrow> ('w, int) prog" where
  "mysql_thread_create cfg psi os K P1 P2 P3 P4 = (if have_psi_interface cfg then inline_mysql_thread_create psi os K P1 P2 P3 P4
      else pthread_create os P1 P2 P3 P4)"

definition mysql_thread_set_psi_id :: "config \<Rightarrow> 'w PSI_v1 \<Rightarrow> uint32 \<Rightarrow> ('w, unit) prog" where
  "mysql_thread_set_psi_id cfg psi I =
     (if have_psi_interface cfg then inline_mysql_thread_set_psi_id psi I else State_Monad.return ())"

section \<open>Every blocking wrapper is a wait wrapper\<close>

interpretation mutex_lock: psi_wait "have_psi_interface cfg" "\<lambda>s. PSI_server s \<and> mutex_psi (mutexes s that) \<noteq> 0"
  "\<lambda>s. do { l \<leftarrow> get_thread_mutex_locker psi (mutex_psi (mutexes s that)) PSI_MUTEX_LOCK; State_Monad.return (l, ()) }"
  "\<lambda>lk. psi_call () (start_mutex_wait psi (fst lk) src_file src_line)"
  "real_mutex_lock cfg os that src_file src_line"
  "\<lambda>lk r. psi_call () (end_mutex_wait psi (fst lk) r)" "()"
  "inline_mysql_mutex_lock cfg psi os that src_file src_line"
  for cfg and psi :: "'w PSI_v1" and os that and src_file src_line
  by unfold_locales (auto intro!: state_ext simp: inline_mysql_mutex_lock_def split_beta)

interpretation mutex_trylock: psi_wait "have_psi_interface cfg" "\<lambda>s. PSI_server s \<and> mutex_psi (mutexes s that) \<noteq> 0"
  "\<lambda>s. do { l \<leftarrow> get_thread_mutex_locker psi (mutex_psi (mutexes s that)) PSI_MUTEX_TRYLOCK; State_Monad.return (l, ()) }"
  "\<lambda>lk. psi_call () (start_mutex_wait psi (fst lk) src_file src_line)"
  "real_mutex_trylock cfg os that src_file src_line"
  "\<lambda>lk r. psi_call () (end_mutex_wait psi (fst lk) r)" "()"
  "inline_mysql_mutex_trylock cfg psi os that src_file src_line"
  for cfg and psi :: "'w PSI_v1" and os that and src_file src_line
  by unfold_locales (auto intro!: state_ext simp: inline_mysql_mutex_trylock_def split_beta)

interpretation rwlock_rdlock: psi_wait "have_psi_interface cfg" "\<lambda>s. PSI_server s \<and> rwlock_psi (rwlocks s that) \<noteq> 0"
  "\<lambda>s. do { l \<leftarrow> get_thread_rwlock_locker psi (rwlock_psi (rwlocks s that)) PSI_RWLOCK_READLOCK; State_Monad.return (l, ()) }"
  "\<lambda>lk. psi_call () (start_rwlock_rdwait psi (fst lk) src_file src_line)"
  "rw_rdlock os that"
  "\<lambda>lk r. psi_call () (end_rwlock_rdwait psi (fst lk) r)" "()"
  "inline_mysql_rwlock_rdlock cfg psi os that src_file src_line"
  for cfg and psi :: "'w PSI_v1" and os that and src_file src_line
  by unfold_locales (auto intro!: state_ext simp: inline_mysql_rwlock_rdlock_def split_beta)

interpretation prlock_rdlock: psi_wait "have_psi_interface cfg" "\<lambda>s. PSI_server s \<and> prlock_psi (prlocks s that) \<noteq> 0"
  "\<lambda>s. do { l \<leftarrow> get_thread_rwlock_locker psi (prlock_psi (prlocks s that)) PSI_RWLOCK_READLOCK; State_Monad.return (l, ()) }"
  "\<lambda>lk. psi_call () (start_rwlock_rdwait psi (fst lk) src_file src_line)"
  "rw_pr_rdlock os that"
  "\<lambda>lk r. psi_call () (end_rwlock_rdwait psi (fst lk) r)" "()"
  "inline_mysql_prlock_rdlock cfg psi os that src_file src_line"
  for cfg and psi :: "'w PSI_v1" and os that and src_file src_line
  by unfold_locales (auto intro!: state_ext simp: inline_mysql_prlock_rdlock_def split_beta)

interpretation rwlock_wrlock: psi_wait "have_psi_interface cfg" "\<lambda>s. PSI_server s \<and> rwlock_psi (rwlocks s that) \<noteq> 0"
  "\<lambda>s. do { l \<leftarrow> get_thread_rwlock_locker psi (rwlock_psi (rwlocks s that)) PSI_RWLOCK_WRITELOCK; State_Monad.return (l, ()) }"
  "\<lambda>lk. psi_call () (start_rwlock_wrwait psi (fst lk) src_file src_line)"
  "rw_wrlock os that"
  "\<lambda>lk r. psi_call () (end_rwlock_wrwait psi (fst lk) r)" "()"
  "inline_mysql_rwlock_wrlock cfg psi os that src_file src_line"
  for cfg and psi :: "'w PSI_v1" and os that and src_file src_line
  by unfold_locales (auto intro!: state_ext simp: inline_mysql_rwlock_wrlock_def split_beta)

interpretation prlock_wrlock: psi_wait "have_psi_interface cfg" "\<lambda>s. PSI_server s \<and> prlock_psi (prlocks s that) \<noteq> 0"
  "\<lambda>s. do { l \<leftarrow> get_thread_rwlock_locker psi (prlock_psi (prlocks s that)) PSI_RWLOCK_WRITELOCK; State_Monad.return (l, ()) }"
  "\<lambda>lk. psi_call () (start_rwlock_wrwait psi (fst lk) src_file src_line)"
  "rw_pr_wrlock os that"
  "\<lambda>lk r. psi_call () (end_rwlock_wrwait psi (fst lk) r)" "()"
  "inline_mysql_prlock_wrlock cfg psi os that src_file src_line"
  for cfg and psi :: "'w PSI_v1" and os that and src_file src_line
  by unfold_locales (auto intro!: state_ext simp: inline_mysql_prlock_wrlock_def split_beta)

interpretation rwlock_tryrdlock: psi_wait "have_psi_interface cfg" "\<lambda>s. PSI_server s \<and> rwlock_psi (rwlocks s that) \<noteq> 0"
  "\<lambda>s. do { l \<leftarrow> get_thread_rwlock_locker psi (rwlock_psi (rwlocks s that)) PSI_RWLOCK_TRYREADLOCK; State_Monad.return (l, ()) }"
  "\<lambda>lk. psi_call () (start_rwlock_rdwait psi (fst lk) src_file src_line)"
  "rw_tryrdlock os that"
  "\<lambda>lk r. psi_call () (end_rwlock_rdwait psi (fst lk) r)" "()"
  "inline_mysql_rwlock_tryrdlock cfg psi os that src_file src_line"
  for cfg and psi :: "'w PSI_v1" and os that and src_file src_line
  by unfold_locales (auto intro!: state_ext simp: inline_mysql_rwlock_tryrdlock_def split_beta)

interpretation rwlock_trywrlock: psi_wait "have_psi_interface cfg" "\<lambda>s. PSI_server s \<and> rwlock_psi (rwlocks s that) \<noteq> 0"
  "\<lambda>s. do { l \<leftarrow> get_thread_rwlock_locker psi (rwlock_psi (rwlocks s that)) PSI_RWLOCK_TRYWRITELOCK; State_Monad.return (l, ()) }"
  "\<lambda>lk. psi_call () (start_rwlock_wrwait psi (fst lk) src_file src_line)"
  "rw_trywrlock os that"
  "\<lambda>lk r. psi_call () (end_rwlock_wrwait psi (fst lk) r)" "()"
  "inline_mysql_rwlock_trywrlock cfg psi os that src_file src_line"
  for cfg and psi :: "'w PSI_v1" and os that and src_file src_line
  by unfold_locales (auto intro!: state_ext simp: inline_mysql_rwlock_trywrlock_def split_beta)

interpretation cond_wait: psi_wait "have_psi_interface cfg" "\<lambda>s. PSI_server s \<and> cond_psi (conds s that) \<noteq> 0"
  "\<lambda>s. do { l \<leftarrow> get_thread_cond_locker psi (cond_psi (conds s that)) (mutex_psi (mutexes s mutex)) PSI_COND_WAIT; State_Monad.return (l, ()) }"
  "\<lambda>lk. psi_call () (start_cond_wait psi (fst lk) src_file src_line)"
  "pthread_cond_wait os that mutex"
  "\<lambda>lk r. psi_call () (end_cond_wait psi (fst lk) r)" "()"
  "inline_mysql_cond_wait cfg psi os that mutex src_file src_line"
  for cfg and psi :: "'w PSI_v1" and os that and mutex and src_file src_line
  by unfold_locales (auto intro!: state_ext simp: inline_mysql_cond_wait_def split_beta)

interpretation cond_timedwait: psi_wait "have_psi_interface cfg" "\<lambda>s. PSI_server s \<and> cond_psi (conds s that) \<noteq> 0"
  "\<lambda>s. do { l \<leftarrow> get_thread_cond_locker psi (cond_psi (conds s that)) (mutex_psi (mutexes s mutex)) PSI_COND_TIMEDWAIT; State_Monad.return (l, ()) }"
  "\<lambda>lk. psi_call () (start_cond_wait psi (fst lk) src_file src_line)"
  "pthread_cond_timedwait os that mutex abstime"
  "\<lambda>lk r. psi_call () (end_cond_wait psi (fst lk) r)" "()"
  "inline_mysql_cond_timedwait cfg psi os that mutex abstime src_file src_line"
  for cfg and psi :: "'w PSI_v1" and os that and mutex and abstime and src_file src_line
  by unfold_locales (auto intro!: state_ext simp: inline_mysql_cond_timedwait_def split_beta)

section \<open>Contracts of the primitives\<close>

text \<open>
  \<open>thread_os_respects v os\<close>: what a primitive returns and does to the view \<open>v\<close> depends on \<open>v\<close> only, so not
  on the data of the instrumentation.  \<open>thread_os_records h os\<close>: a blocking primitive is one event.
  \<open>thread_os_keeps v os\<close>: the primitives that initialise and destroy leave the view \<open>v\<close> alone.
\<close>

definition thread_os_respects :: "('w pstate \<Rightarrow> 'v) \<Rightarrow> 'w thread_os \<Rightarrow> bool" where
  "thread_os_respects v os \<longleftrightarrow>
     (\<forall>a b. sim v (pthread_mutex_init os a b) (pthread_mutex_init os a b)) \<and>
     (\<forall>a b f n. sim v (safe_mutex_init os a b f n) (safe_mutex_init os a b f n)) \<and>
     (\<forall>a. sim v (pthread_mutex_destroy os a) (pthread_mutex_destroy os a)) \<and>
     (\<forall>a f n. sim v (safe_mutex_destroy os a f n) (safe_mutex_destroy os a f n)) \<and>
     (\<forall>a. sim v (pthread_mutex_lock os a) (pthread_mutex_lock os a)) \<and>
     (\<forall>a. sim v (pthread_mutex_trylock os a) (pthread_mutex_trylock os a)) \<and>
     (\<forall>a t f n. sim v (safe_mutex_lock os a t f n) (safe_mutex_lock os a t f n)) \<and>
     (\<forall>a. sim v (pthread_mutex_unlock os a) (pthread_mutex_unlock os a)) \<and>
     (\<forall>a f n. sim v (safe_mutex_unlock os a f n) (safe_mutex_unlock os a f n)) \<and>
     (\<forall>a b. sim v (my_rwlock_init os a b) (my_rwlock_init os a b)) \<and>
     (\<forall>a. sim v (rwlock_destroy os a) (rwlock_destroy os a)) \<and>
     (\<forall>a. sim v (rw_rdlock os a) (rw_rdlock os a)) \<and>
     (\<forall>a. sim v (rw_wrlock os a) (rw_wrlock os a)) \<and>
     (\<forall>a. sim v (rw_tryrdlock os a) (rw_tryrdlock os a)) \<and>
     (\<forall>a. sim v (rw_trywrlock os a) (rw_trywrlock os a)) \<and>
     (\<forall>a. sim v (rw_unlock os a) (rw_unlock os a)) \<and>
     (\<forall>a. sim v (rw_pr_init os a) (rw_pr_init os a)) \<and>
     (\<forall>a. sim v (rw_pr_destroy os a) (rw_pr_destroy os a)) \<and>
     (\<forall>a. sim v (rw_pr_rdlock os a) (rw_pr_rdlock os a)) \<and>
     (\<forall>a. sim v (rw_pr_wrlock os a) (rw_pr_wrlock os a)) \<and>
     (\<forall>a. sim v (rw_pr_unlock os a) (rw_pr_unlock os a)) \<and>
     (\<forall>a b. sim v (pthread_cond_init os a b) (pthread_cond_init os a b)) \<and>
     (\<forall>a. sim v (pthread_cond_destroy os a) (pthread_cond_destroy os a)) \<and>
     (\<forall>a b. sim v (pthread_cond_wait os a b) (pthread_cond_wait os a b)) \<and>
     (\<forall>a b c. sim v (pthread_cond_timedwait os a b c) (pthread_cond_timedwait os a b c)) \<and>
     (\<forall>a. sim v (pthread_cond_signal os a) (pthread_cond_signal os a)) \<and>
     (\<forall>a. sim v (pthread_cond_broadcast os a) (pthread_cond_broadcast os a)) \<and>
     (\<forall>a b c d. sim v (pthread_create os a b c d) (pthread_create os a b c d))"

definition thread_os_records :: "('w pstate \<Rightarrow> psi_event list) \<Rightarrow> 'w thread_os \<Rightarrow> bool" where
  "thread_os_records h os \<longleftrightarrow>
     (\<forall>a. records h (pthread_mutex_lock os a) (\<lambda>_. [Real_call])) \<and>
     (\<forall>a. records h (pthread_mutex_trylock os a) (\<lambda>_. [Real_call])) \<and>
     (\<forall>a t f n. records h (safe_mutex_lock os a t f n) (\<lambda>_. [Real_call])) \<and>
     (\<forall>a. records h (rw_rdlock os a) (\<lambda>_. [Real_call])) \<and>
     (\<forall>a. records h (rw_wrlock os a) (\<lambda>_. [Real_call])) \<and>
     (\<forall>a. records h (rw_tryrdlock os a) (\<lambda>_. [Real_call])) \<and>
     (\<forall>a. records h (rw_trywrlock os a) (\<lambda>_. [Real_call])) \<and>
     (\<forall>a. records h (rw_pr_rdlock os a) (\<lambda>_. [Real_call])) \<and>
     (\<forall>a. records h (rw_pr_wrlock os a) (\<lambda>_. [Real_call])) \<and>
     (\<forall>a b. records h (pthread_cond_wait os a b) (\<lambda>_. [Real_call])) \<and>
     (\<forall>a b c. records h (pthread_cond_timedwait os a b c) (\<lambda>_. [Real_call]))"

definition thread_os_keeps :: "('w pstate \<Rightarrow> 'v) \<Rightarrow> 'w thread_os \<Rightarrow> bool" where
  "thread_os_keeps v os \<longleftrightarrow>
     (\<forall>a b. keeps v (pthread_mutex_init os a b)) \<and>
     (\<forall>a b f n. keeps v (safe_mutex_init os a b f n)) \<and>
     (\<forall>a. keeps v (pthread_mutex_destroy os a)) \<and>
     (\<forall>a f n. keeps v (safe_mutex_destroy os a f n)) \<and>
     (\<forall>a b. keeps v (my_rwlock_init os a b)) \<and>
     (\<forall>a. keeps v (rwlock_destroy os a)) \<and>
     (\<forall>a. keeps v (rw_pr_init os a)) \<and>
     (\<forall>a. keeps v (rw_pr_destroy os a)) \<and>
     (\<forall>a b. keeps v (pthread_cond_init os a b)) \<and>
     (\<forall>a. keeps v (pthread_cond_destroy os a))"

lemma thread_os_respectsD:
  assumes "thread_os_respects v os"
  shows "sim v (pthread_mutex_init os a b) (pthread_mutex_init os a b)"
    "sim v (safe_mutex_init os a b f n) (safe_mutex_init os a b f n)"
    "sim v (pthread_mutex_destroy os a) (pthread_mutex_destroy os a)"
    "sim v (safe_mutex_destroy os a f n) (safe_mutex_destroy os a f n)"
    "sim v (pthread_mutex_lock os a) (pthread_mutex_lock os a)"
    "sim v (pthread_mutex_trylock os a) (pthread_mutex_trylock os a)"
    "sim v (safe_mutex_lock os a t f n) (safe_mutex_lock os a t f n)"
    "sim v (pthread_mutex_unlock os a) (pthread_mutex_unlock os a)"
    "sim v (safe_mutex_unlock os a f n) (safe_mutex_unlock os a f n)"
    "sim v (my_rwlock_init os a b) (my_rwlock_init os a b)"
    "sim v (rwlock_destroy os a) (rwlock_destroy os a)"
    "sim v (rw_rdlock os a) (rw_rdlock os a)"
    "sim v (rw_wrlock os a) (rw_wrlock os a)"
    "sim v (rw_tryrdlock os a) (rw_tryrdlock os a)"
    "sim v (rw_trywrlock os a) (rw_trywrlock os a)"
    "sim v (rw_unlock os a) (rw_unlock os a)"
    "sim v (rw_pr_init os a) (rw_pr_init os a)"
    "sim v (rw_pr_destroy os a) (rw_pr_destroy os a)"
    "sim v (rw_pr_rdlock os a) (rw_pr_rdlock os a)"
    "sim v (rw_pr_wrlock os a) (rw_pr_wrlock os a)"
    "sim v (rw_pr_unlock os a) (rw_pr_unlock os a)"
    "sim v (pthread_cond_init os a b) (pthread_cond_init os a b)"
    "sim v (pthread_cond_destroy os a) (pthread_cond_destroy os a)"
    "sim v (pthread_cond_wait os a b) (pthread_cond_wait os a b)"
    "sim v (pthread_cond_timedwait os a b c) (pthread_cond_timedwait os a b c)"
    "sim v (pthread_cond_signal os a) (pthread_cond_signal os a)"
    "sim v (pthread_cond_broadcast os a) (pthread_cond_broadcast os a)"
    "sim v (pthread_create os a b c d) (pthread_create os a b c d)"
  using assms by (simp_all add: thread_os_respects_def)

lemma thread_os_recordsD:
  assumes "thread_os_records h os"
  shows "records h (pthread_mutex_lock os a) (\<lambda>_. [Real_call])"
    "records h (pthread_mutex_trylock os a) (\<lambda>_. [Real_call])"
    "records h (safe_mutex_lock os a t f n) (\<lambda>_. [Real_call])"
    "records h (rw_rdlock os a) (\<lambda>_. [Real_call])"
    "records h (rw_wrlock os a) (\<lambda>_. [Real_call])"
    "records h (rw_tryrdlock os a) (\<lambda>_. [Real_call])"
    "records h (rw_trywrlock os a) (\<lambda>_. [Real_call])"
    "records h (rw_pr_rdlock os a) (\<lambda>_. [Real_call])"
    "records h (rw_pr_wrlock os a) (\<lambda>_. [Real_call])"
    "records h (pthread_cond_wait os a b) (\<lambda>_. [Real_call])"
    "records h (pthread_cond_timedwait os a b c) (\<lambda>_. [Real_call])"
  using assms by (simp_all add: thread_os_records_def)

lemma real_mutex_respects:
  assumes "thread_os_respects v os"
  shows "sim v (real_mutex_init cfg os M A f n) (real_mutex_init cfg os M A f n)"
    "sim v (real_mutex_destroy cfg os M f n) (real_mutex_destroy cfg os M f n)"
    "sim v (real_mutex_lock cfg os M f n) (real_mutex_lock cfg os M f n)"
    "sim v (real_mutex_trylock cfg os M f n) (real_mutex_trylock cfg os M f n)"
    "sim v (real_mutex_unlock cfg os M f n) (real_mutex_unlock cfg os M f n)"
  using thread_os_respectsD [OF assms]
  by (simp_all add: real_mutex_init_def real_mutex_destroy_def real_mutex_lock_def
      real_mutex_trylock_def real_mutex_unlock_def)

lemma real_mutex_records:
  assumes "thread_os_records h os"
  shows "records h (real_mutex_lock cfg os M f n) (\<lambda>_. [Real_call])"
    "records h (real_mutex_trylock cfg os M f n) (\<lambda>_. [Real_call])"
  using thread_os_recordsD [OF assms] by (simp_all add: real_mutex_lock_def real_mutex_trylock_def)

lemmas mysql_mutex_defs = mysql_mutex_init_def mysql_mutex_destroy_def mysql_mutex_lock_def
  mysql_mutex_trylock_def mysql_mutex_unlock_def real_mutex_init_def real_mutex_destroy_def
  real_mutex_lock_def real_mutex_trylock_def real_mutex_unlock_def

lemma real_mutex_no_site:
  assumes "\<not> safe_mutex cfg"
  shows "real_mutex_init cfg os M A f n = real_mutex_init cfg os M A f' n'"
    "real_mutex_destroy cfg os M f n = real_mutex_destroy cfg os M f' n'"
    "real_mutex_lock cfg os M f n = real_mutex_lock cfg os M f' n'"
    "real_mutex_trylock cfg os M f n = real_mutex_trylock cfg os M f' n'"
    "real_mutex_unlock cfg os M f n = real_mutex_unlock cfg os M f' n'"
  using assms by (simp_all add: mysql_mutex_defs)


lemma psi_keeps_threadD:
  assumes "psi_keeps_thread v psi"
  shows "keeps v (init_mutex psi k a)"
    "keeps v (destroy_mutex psi h)"
    "keeps v (init_rwlock psi k a)"
    "keeps v (destroy_rwlock psi h)"
    "keeps v (init_cond psi k a)"
    "keeps v (destroy_cond psi h)"
    "keeps v (set_thread_id psi h i)"
    "keeps v (get_thread psi)"
    "keeps v (get_thread_mutex_locker psi h mop)"
    "keeps v (get_thread_rwlock_locker psi h rop)"
    "keeps v (get_thread_cond_locker psi h k cop)"
    "keeps v (unlock_mutex psi h)"
    "keeps v (unlock_rwlock psi h)"
    "keeps v (signal_cond psi h)"
    "keeps v (broadcast_cond psi h)"
    "keeps v (start_mutex_wait psi l f n)"
    "keeps v (end_mutex_wait psi l r)"
    "keeps v (start_rwlock_rdwait psi l f n)"
    "keeps v (end_rwlock_rdwait psi l r)"
    "keeps v (start_rwlock_wrwait psi l f n)"
    "keeps v (end_rwlock_wrwait psi l r)"
    "keeps v (start_cond_wait psi l f n)"
    "keeps v (end_cond_wait psi l r)"
  using assms by (simp_all add: psi_keeps_thread_def)

lemma psi_records_threadD:
  assumes "psi_records_thread h psi"
  shows "records h (get_thread_mutex_locker psi m mop) (\<lambda>l. [Get_locker l])"
    "records h (get_thread_rwlock_locker psi m rop) (\<lambda>l. [Get_locker l])"
    "records h (get_thread_cond_locker psi c m cop) (\<lambda>l. [Get_locker l])"
    "records h (start_mutex_wait psi l f n) (\<lambda>_. [Start_wait l])"
    "records h (start_rwlock_rdwait psi l f n) (\<lambda>_. [Start_wait l])"
    "records h (start_rwlock_wrwait psi l f n) (\<lambda>_. [Start_wait l])"
    "records h (start_cond_wait psi l f n) (\<lambda>_. [Start_wait l])"
    "records h (end_mutex_wait psi l r) (\<lambda>_. [End_wait l r])"
    "records h (end_rwlock_rdwait psi l r) (\<lambda>_. [End_wait l r])"
    "records h (end_rwlock_wrwait psi l r) (\<lambda>_. [End_wait l r])"
    "records h (end_cond_wait psi l r) (\<lambda>_. [End_wait l r])"
  using assms by (simp_all add: psi_records_thread_def)

section \<open>Drop-in replacement\<close>

text \<open>
  The part before the real call of an initialisation, a destruction or a notification keeps every view the hook
  fields and the fault flag are not part of.
\<close>

lemmas hook_rules = keeps_rules keeps_update keeps_psi_call sim_keeps_before sim_bind_return

lemmas wait_drop_in = mutex_lock.drop_in
  mutex_trylock.drop_in
  rwlock_rdlock.drop_in
  prlock_rdlock.drop_in
  rwlock_wrlock.drop_in
  prlock_wrlock.drop_in
  rwlock_tryrdlock.drop_in
  rwlock_trywrlock.drop_in
  cond_wait.drop_in
  cond_timedwait.drop_in

lemma wait_wrappers_sim:
  assumes psi: "psi_keeps_thread (os_view g) psi" and os: "thread_os_respects (os_view g) os"
  shows "sim (os_view g) (inline_mysql_mutex_lock cfg psi os that src_file src_line) (real_mutex_lock cfg os that src_file src_line)"
    "sim (os_view g) (inline_mysql_mutex_trylock cfg psi os that src_file src_line) (real_mutex_trylock cfg os that src_file src_line)"
    "sim (os_view g) (inline_mysql_rwlock_rdlock cfg psi os that src_file src_line) (rw_rdlock os that)"
    "sim (os_view g) (inline_mysql_prlock_rdlock cfg psi os that src_file src_line) (rw_pr_rdlock os that)"
    "sim (os_view g) (inline_mysql_rwlock_wrlock cfg psi os that src_file src_line) (rw_wrlock os that)"
    "sim (os_view g) (inline_mysql_prlock_wrlock cfg psi os that src_file src_line) (rw_pr_wrlock os that)"
    "sim (os_view g) (inline_mysql_rwlock_tryrdlock cfg psi os that src_file src_line) (rw_tryrdlock os that)"
    "sim (os_view g) (inline_mysql_rwlock_trywrlock cfg psi os that src_file src_line) (rw_trywrlock os that)"
    "sim (os_view g) (inline_mysql_cond_wait cfg psi os that mutex src_file src_line) (pthread_cond_wait os that mutex)"
    "sim (os_view g) (inline_mysql_cond_timedwait cfg psi os that mutex abstime src_file src_line) (pthread_cond_timedwait os that mutex abstime)"
  by (rule wait_drop_in; intro keeps_rules psi_keeps_threadD [OF psi] thread_os_respectsD [OF os]
      real_mutex_respects [OF os]; simp)+

lemma other_wrappers_sim:
  assumes psi: "psi_keeps_thread (os_view g) psi" and os: "thread_os_respects (os_view g) os"
  shows "sim (os_view g) (inline_mysql_mutex_init cfg psi os key that attr src_file src_line) (real_mutex_init cfg os that attr src_file src_line)"
    "sim (os_view g) (inline_mysql_mutex_destroy cfg psi os that src_file src_line) (real_mutex_destroy cfg os that src_file src_line)"
    "sim (os_view g) (inline_mysql_mutex_unlock cfg psi os that src_file src_line) (real_mutex_unlock cfg os that src_file src_line)"
    "sim (os_view g) (inline_mysql_rwlock_init cfg psi os key that) (my_rwlock_init os that 0)"
    "sim (os_view g) (inline_mysql_prlock_init cfg psi os key that) (rw_pr_init os that)"
    "sim (os_view g) (inline_mysql_rwlock_destroy cfg psi os that) (rwlock_destroy os that)"
    "sim (os_view g) (inline_mysql_prlock_destroy cfg psi os that) (rw_pr_destroy os that)"
    "sim (os_view g) (inline_mysql_rwlock_unlock cfg psi os that) (rw_unlock os that)"
    "sim (os_view g) (inline_mysql_prlock_unlock cfg psi os that) (rw_pr_unlock os that)"
    "sim (os_view g) (inline_mysql_cond_init cfg psi os key that attr) (pthread_cond_init os that attr)"
    "sim (os_view g) (inline_mysql_cond_destroy cfg psi os that) (pthread_cond_destroy os that)"
    "sim (os_view g) (inline_mysql_cond_signal cfg psi os that) (pthread_cond_signal os that)"
    "sim (os_view g) (inline_mysql_cond_broadcast cfg psi os that) (pthread_cond_broadcast os that)"
  unfolding inline_mysql_mutex_init_def
    inline_mysql_mutex_destroy_def
    inline_mysql_mutex_unlock_def
    inline_mysql_rwlock_init_def
    inline_mysql_prlock_init_def
    inline_mysql_rwlock_destroy_def
    inline_mysql_prlock_destroy_def
    inline_mysql_rwlock_unlock_def
    inline_mysql_prlock_unlock_def
    inline_mysql_cond_init_def
    inline_mysql_cond_destroy_def
    inline_mysql_cond_signal_def
    inline_mysql_cond_broadcast_def
  by (intro hook_rules psi_keeps_threadD [OF psi] thread_os_respectsD [OF os] real_mutex_respects [OF os]; simp)+

section \<open>Complete waits\<close>

lemmas wait_completes = mutex_lock.completes
  mutex_trylock.completes
  rwlock_rdlock.completes
  prlock_rdlock.completes
  rwlock_wrlock.completes
  prlock_wrlock.completes
  rwlock_tryrdlock.completes
  rwlock_trywrlock.completes
  cond_wait.completes
  cond_timedwait.completes

lemma wait_wrappers_complete:
  assumes psi: "psi_records_thread h psi" and os: "thread_os_records h os"
  shows "completes_wait h (\<lambda>s. have_psi_interface cfg \<and> PSI_server s \<and> mutex_psi (mutexes s that) \<noteq> 0) (=) (inline_mysql_mutex_lock cfg psi os that src_file src_line)"
    "completes_wait h (\<lambda>s. have_psi_interface cfg \<and> PSI_server s \<and> mutex_psi (mutexes s that) \<noteq> 0) (=) (inline_mysql_mutex_trylock cfg psi os that src_file src_line)"
    "completes_wait h (\<lambda>s. have_psi_interface cfg \<and> PSI_server s \<and> rwlock_psi (rwlocks s that) \<noteq> 0) (=) (inline_mysql_rwlock_rdlock cfg psi os that src_file src_line)"
    "completes_wait h (\<lambda>s. have_psi_interface cfg \<and> PSI_server s \<and> prlock_psi (prlocks s that) \<noteq> 0) (=) (inline_mysql_prlock_rdlock cfg psi os that src_file src_line)"
    "completes_wait h (\<lambda>s. have_psi_interface cfg \<and> PSI_server s \<and> rwlock_psi (rwlocks s that) \<noteq> 0) (=) (inline_mysql_rwlock_wrlock cfg psi os that src_file src_line)"
    "completes_wait h (\<lambda>s. have_psi_interface cfg \<and> PSI_server s \<and> prlock_psi (prlocks s that) \<noteq> 0) (=) (inline_mysql_prlock_wrlock cfg psi os that src_file src_line)"
    "completes_wait h (\<lambda>s. have_psi_interface cfg \<and> PSI_server s \<and> rwlock_psi (rwlocks s that) \<noteq> 0) (=) (inline_mysql_rwlock_tryrdlock cfg psi os that src_file src_line)"
    "completes_wait h (\<lambda>s. have_psi_interface cfg \<and> PSI_server s \<and> rwlock_psi (rwlocks s that) \<noteq> 0) (=) (inline_mysql_rwlock_trywrlock cfg psi os that src_file src_line)"
    "completes_wait h (\<lambda>s. have_psi_interface cfg \<and> PSI_server s \<and> cond_psi (conds s that) \<noteq> 0) (=) (inline_mysql_cond_wait cfg psi os that mutex src_file src_line)"
    "completes_wait h (\<lambda>s. have_psi_interface cfg \<and> PSI_server s \<and> cond_psi (conds s that) \<noteq> 0) (=) (inline_mysql_cond_timedwait cfg psi os that mutex abstime src_file src_line)"
  by (rule wait_completes;
      (intro refl ex_eq_result records_pair records_on_psi_call ends_wait_result psi_records_threadD [OF psi]
        thread_os_recordsD [OF os] real_mutex_records [OF os])?)+

lemma mutex_macros_sim:
  assumes "psi_keeps_thread (os_view g) psi" and "thread_os_respects (os_view g) os"
  shows "sim (os_view g) (mysql_mutex_init cfg psi os K M A site) (real_mutex_init cfg os M A (fst site) (snd site)) \<and>
    sim (os_view g) (mysql_mutex_destroy cfg psi os M site) (real_mutex_destroy cfg os M (fst site) (snd site)) \<and>
    sim (os_view g) (mysql_mutex_lock cfg psi os M site) (real_mutex_lock cfg os M (fst site) (snd site)) \<and>
    sim (os_view g) (mysql_mutex_trylock cfg psi os M site) (real_mutex_trylock cfg os M (fst site) (snd site)) \<and>
    sim (os_view g) (mysql_mutex_unlock cfg psi os M site) (real_mutex_unlock cfg os M (fst site) (snd site))"
proof (cases "safe_mutex cfg")
  case True
  then show ?thesis
    by (simp add: mysql_mutex_init_def mysql_mutex_destroy_def mysql_mutex_lock_def mysql_mutex_trylock_def
        mysql_mutex_unlock_def wait_wrappers_sim [OF assms] other_wrappers_sim [OF assms])
next
  case False
  note same = real_mutex_no_site [OF False, where f = "fst site" and n = "snd site"
      and f' = "fst no_site" and n' = "snd no_site"]
  from False show ?thesis
    by (cases "have_psi_interface cfg")
      (simp_all add: mysql_mutex_init_def mysql_mutex_destroy_def mysql_mutex_lock_def mysql_mutex_trylock_def
        mysql_mutex_unlock_def same wait_wrappers_sim [OF assms] other_wrappers_sim [OF assms]
        wait_wrappers_sim(1,2) [OF assms, of cfg M "fst site" "snd site", unfolded same])
qed

section \<open>A sample set of primitives\<close>

definition sample_os :: "(psi_event list \<times> nat) thread_os" where
  "sample_os = \<lparr>pthread_mutex_init = (\<lambda>_ _. counted_call),
     safe_mutex_init = (\<lambda>_ _ _ _. counted_call),
     pthread_mutex_destroy = (\<lambda>_. counted_call),
     safe_mutex_destroy = (\<lambda>_ _ _. counted_call),
     pthread_mutex_lock = (\<lambda>_. counted_call),
     pthread_mutex_trylock = (\<lambda>_. counted_call),
     safe_mutex_lock = (\<lambda>_ _ _ _. counted_call),
     pthread_mutex_unlock = (\<lambda>_. counted_call),
     safe_mutex_unlock = (\<lambda>_ _ _. counted_call),
     my_rwlock_init = (\<lambda>_ _. counted_call),
     rwlock_destroy = (\<lambda>_. counted_call),
     rw_rdlock = (\<lambda>_. counted_call),
     rw_wrlock = (\<lambda>_. counted_call),
     rw_tryrdlock = (\<lambda>_. counted_call),
     rw_trywrlock = (\<lambda>_. counted_call),
     rw_unlock = (\<lambda>_. counted_call),
     rw_pr_init = (\<lambda>_. counted_call),
     rw_pr_destroy = (\<lambda>_. counted_call),
     rw_pr_rdlock = (\<lambda>_. counted_call),
     rw_pr_wrlock = (\<lambda>_. counted_call),
     rw_pr_unlock = (\<lambda>_. counted_call),
     pthread_cond_init = (\<lambda>_ _. counted_call),
     pthread_cond_destroy = (\<lambda>_. counted_call),
     pthread_cond_wait = (\<lambda>_ _. counted_call),
     pthread_cond_timedwait = (\<lambda>_ _ _. counted_call),
     pthread_cond_signal = (\<lambda>_. counted_call),
     pthread_cond_broadcast = (\<lambda>_. counted_call),
     pthread_create = (\<lambda>_ _ _ _. counted_call)\<rparr>"

lemma sample_os_respects: "thread_os_respects (os_view snd) sample_os"
  by (simp add: thread_os_respects_def sample_os_def sim_def os_view_def)

lemma sample_os_records: "thread_os_records (\<lambda>s. fst (world s)) sample_os"
  by (simp add: thread_os_records_def sample_os_def records_def)

lemma sample_os_keeps: "thread_os_keeps (\<lambda>s. (mutexes s, rwlocks s, prlocks s, conds s)) sample_os"
  by (simp add: thread_os_keeps_def sample_os_def keeps_def)

lemma recorder_keeps_hooks: "psi_keeps_thread (\<lambda>s. (mutexes s, rwlocks s, prlocks s, conds s)) recorder"
  by (simp add: psi_keeps_thread_def recorder_def keeps_def)

definition spawning_recorder :: "(psi_event list \<times> nat) PSI_v1" where
  "spawning_recorder = recorder\<lparr>spawn_thread := \<lambda>_ _ _ _ _. counted_call\<rparr>"

lemma spawning_recorder_keeps: "psi_keeps_thread (os_view snd) spawning_recorder"
  by (simp add: psi_keeps_thread_def spawning_recorder_def recorder_def keeps_def os_view_def)

section \<open>Properties\<close>

text \<open>The instrumented mutex operations are drop-in replacements: for every server whose functions leave the
  caller's view alone and every platform whose primitives depend on that view only, each macro returns what
  the bare primitive of the build returns and leaves the same view, in instrumented and plain, debug
  and release builds, whether or not the server is present.\<close>
lemma mutex_drop_in:
  assumes "psi_keeps_thread (os_view g) psi" and "thread_os_respects (os_view g) os"
  shows "sim (os_view g) (mysql_mutex_init cfg psi os K M A site) (real_mutex_init cfg os M A (fst site) (snd site)) \<and>
    sim (os_view g) (mysql_mutex_destroy cfg psi os M site) (real_mutex_destroy cfg os M (fst site) (snd site)) \<and>
    sim (os_view g) (mysql_mutex_lock cfg psi os M site) (real_mutex_lock cfg os M (fst site) (snd site)) \<and>
    sim (os_view g) (mysql_mutex_trylock cfg psi os M site) (real_mutex_trylock cfg os M (fst site) (snd site)) \<and>
    sim (os_view g) (mysql_mutex_unlock cfg psi os M site) (real_mutex_unlock cfg os M (fst site) (snd site))"
  by (rule mutex_macros_sim [OF assms])

lemma mutex_drop_in_instance:
  "sim (os_view snd) (mysql_mutex_lock release_build recorder sample_os 5 (1, 2)) (pthread_mutex_lock sample_os 5)"
  using mutex_drop_in [OF recorder_keeps(1) sample_os_respects, of release_build 0 5 0 "(1, 2)"]
  by (simp add: real_mutex_lock_def release_build_def)

text \<open>The instrumented read-write locks and reader preferring locks are drop-in replacements of the bare
  ones, in the same sense.\<close>
lemma rwlock_drop_in:
  assumes "psi_keeps_thread (os_view g) psi" and "thread_os_respects (os_view g) os"
  shows "sim (os_view g) (mysql_rwlock_init cfg psi os K RW) (my_rwlock_init os RW 0) \<and>
    sim (os_view g) (mysql_rwlock_destroy cfg psi os RW) (rwlock_destroy os RW) \<and>
    sim (os_view g) (mysql_rwlock_rdlock cfg psi os RW site) (rw_rdlock os RW) \<and>
    sim (os_view g) (mysql_rwlock_wrlock cfg psi os RW site) (rw_wrlock os RW) \<and>
    sim (os_view g) (mysql_rwlock_tryrdlock cfg psi os RW site) (rw_tryrdlock os RW) \<and>
    sim (os_view g) (mysql_rwlock_trywrlock cfg psi os RW site) (rw_trywrlock os RW) \<and>
    sim (os_view g) (mysql_rwlock_unlock cfg psi os RW) (rw_unlock os RW) \<and>
    sim (os_view g) (mysql_prlock_init cfg psi os K RW) (rw_pr_init os RW) \<and>
    sim (os_view g) (mysql_prlock_destroy cfg psi os RW) (rw_pr_destroy os RW) \<and>
    sim (os_view g) (mysql_prlock_rdlock cfg psi os RW site) (rw_pr_rdlock os RW) \<and>
    sim (os_view g) (mysql_prlock_wrlock cfg psi os RW site) (rw_pr_wrlock os RW) \<and>
    sim (os_view g) (mysql_prlock_unlock cfg psi os RW) (rw_pr_unlock os RW)"
  by (simp add: wait_wrappers_sim [OF assms] other_wrappers_sim [OF assms] mysql_rwlock_init_def mysql_rwlock_destroy_def mysql_rwlock_rdlock_def mysql_rwlock_wrlock_def
      mysql_rwlock_tryrdlock_def mysql_rwlock_trywrlock_def mysql_rwlock_unlock_def mysql_prlock_init_def
      mysql_prlock_destroy_def mysql_prlock_rdlock_def mysql_prlock_wrlock_def mysql_prlock_unlock_def)

lemma rwlock_drop_in_instance:
  "sim (os_view snd) (mysql_rwlock_trywrlock release_build recorder sample_os 5 (1, 2)) (rw_trywrlock sample_os 5)"
  using rwlock_drop_in [OF recorder_keeps(1) sample_os_respects, of release_build 0 5 "(1, 2)"] by simp

text \<open>The instrumented conditions are drop-in replacements of \<^verbatim>\<open>pthread_cond_t\<close>, and so is the creation of
  threads when the server's \<^verbatim>\<open>spawn_thread\<close> does what \<^verbatim>\<open>pthread_create\<close> does; setting the thread
  identifier of the instrumentation is invisible.\<close>
lemma cond_and_thread_drop_in:
  assumes "psi_keeps_thread (os_view g) psi" and "thread_os_respects (os_view g) os"
    and "sim (os_view g) (spawn_thread psi K P1 P2 P3 P4) (pthread_create os P1 P2 P3 P4)"
  shows "sim (os_view g) (mysql_cond_init cfg psi os K C A) (pthread_cond_init os C A) \<and>
    sim (os_view g) (mysql_cond_destroy cfg psi os C) (pthread_cond_destroy os C) \<and>
    sim (os_view g) (mysql_cond_wait cfg psi os C M site) (pthread_cond_wait os C M) \<and>
    sim (os_view g) (mysql_cond_timedwait cfg psi os C M W site) (pthread_cond_timedwait os C M W) \<and>
    sim (os_view g) (mysql_cond_signal cfg psi os C) (pthread_cond_signal os C) \<and>
    sim (os_view g) (mysql_cond_broadcast cfg psi os C) (pthread_cond_broadcast os C) \<and>
    sim (os_view g) (mysql_thread_create cfg psi os K P1 P2 P3 P4) (pthread_create os P1 P2 P3 P4) \<and>
    keeps (os_view g) (mysql_thread_set_psi_id cfg psi I)"
proof -
  have "sim (os_view g) (mysql_thread_create cfg psi os K P1 P2 P3 P4) (pthread_create os P1 P2 P3 P4)"
    using assms(3) thread_os_respectsD(28) [OF assms(2), of P1 P2 P3 P4]
    by (auto simp: mysql_thread_create_def inline_mysql_thread_create_def
        intro!: sim_keeps_before [OF keeps_get] sim_bind_return)
  moreover have "keeps (os_view g) (mysql_thread_set_psi_id cfg psi I)"
    unfolding mysql_thread_set_psi_id_def inline_mysql_thread_set_psi_id_def
    by (intro keeps_rules psi_keeps_threadD [OF assms(1)]) simp
  ultimately show ?thesis
    by (simp add: mysql_cond_init_def mysql_cond_destroy_def mysql_cond_wait_def mysql_cond_timedwait_def
        mysql_cond_signal_def mysql_cond_broadcast_def wait_wrappers_sim(9,10) [OF assms(1,2)]
        other_wrappers_sim(10-13) [OF assms(1,2)])
qed

lemma cond_and_thread_drop_in_instance:
  "sim (os_view snd) (mysql_cond_wait release_build spawning_recorder sample_os 5 6 (1, 2))
     (pthread_cond_wait sample_os 5 6)"
proof -
  have "sim (os_view snd) (spawn_thread spawning_recorder 0 0 0 0 0) (pthread_create sample_os 0 0 0 0)"
    by (simp add: spawning_recorder_def sample_os_def sim_def os_view_def)
  then show ?thesis
    using cond_and_thread_drop_in [OF spawning_recorder_keeps sample_os_respects, of 0 0 0 0 0 release_build 5 0 6 "(1, 2)"]
    by blast
qed

text \<open>Every blocking operation on a mutex, read-write lock, reader preferring lock or condition completes
  its wait: where the object is instrumented it asks for a locker, starts the wait if it gets one, makes the
  real call once and ends the wait with the result code of that call; elsewhere it makes the real call only;
  and it never calls through a null \<^verbatim>\<open>PSI_server\<close>.\<close>
lemma thread_waits_complete:
  assumes "psi_records_thread h psi" and "thread_os_records h os"
  shows "completes_wait h (\<lambda>s. have_psi_interface cfg \<and> PSI_server s \<and> mutex_psi (mutexes s X) \<noteq> 0) (=)
      (mysql_mutex_lock cfg psi os X site) \<and>
    completes_wait h (\<lambda>s. have_psi_interface cfg \<and> PSI_server s \<and> mutex_psi (mutexes s X) \<noteq> 0) (=)
      (mysql_mutex_trylock cfg psi os X site) \<and>
    completes_wait h (\<lambda>s. have_psi_interface cfg \<and> PSI_server s \<and> rwlock_psi (rwlocks s X) \<noteq> 0) (=)
      (mysql_rwlock_rdlock cfg psi os X site) \<and>
    completes_wait h (\<lambda>s. have_psi_interface cfg \<and> PSI_server s \<and> rwlock_psi (rwlocks s X) \<noteq> 0) (=)
      (mysql_rwlock_wrlock cfg psi os X site) \<and>
    completes_wait h (\<lambda>s. have_psi_interface cfg \<and> PSI_server s \<and> rwlock_psi (rwlocks s X) \<noteq> 0) (=)
      (mysql_rwlock_tryrdlock cfg psi os X site) \<and>
    completes_wait h (\<lambda>s. have_psi_interface cfg \<and> PSI_server s \<and> rwlock_psi (rwlocks s X) \<noteq> 0) (=)
      (mysql_rwlock_trywrlock cfg psi os X site) \<and>
    completes_wait h (\<lambda>s. have_psi_interface cfg \<and> PSI_server s \<and> prlock_psi (prlocks s X) \<noteq> 0) (=)
      (mysql_prlock_rdlock cfg psi os X site) \<and>
    completes_wait h (\<lambda>s. have_psi_interface cfg \<and> PSI_server s \<and> prlock_psi (prlocks s X) \<noteq> 0) (=)
      (mysql_prlock_wrlock cfg psi os X site) \<and>
    completes_wait h (\<lambda>s. have_psi_interface cfg \<and> PSI_server s \<and> cond_psi (conds s X) \<noteq> 0) (=)
      (mysql_cond_wait cfg psi os X M site) \<and>
    completes_wait h (\<lambda>s. have_psi_interface cfg \<and> PSI_server s \<and> cond_psi (conds s X) \<noteq> 0) (=)
      (mysql_cond_timedwait cfg psi os X M W site)"
  unfolding mysql_mutex_lock_def mysql_mutex_trylock_def mysql_rwlock_rdlock_def mysql_rwlock_wrlock_def
    mysql_rwlock_tryrdlock_def mysql_rwlock_trywrlock_def mysql_prlock_rdlock_def mysql_prlock_wrlock_def
    mysql_cond_wait_def mysql_cond_timedwait_def
  by (intro conjI; split if_split; intro conjI impI; rule wait_wrappers_complete [OF assms])

lemma thread_waits_complete_instance:
  "fst (world (snd (run_state (mysql_mutex_init release_build recorder sample_os 3 5 0 (1, 2) \<bind>
      (\<lambda>_. mysql_mutex_lock release_build recorder sample_os 5 (1, 2))) sample_state)))
     = [Real_call, Get_locker 7, Start_wait 7, Real_call, End_wait 7 0]"
proof -
  let ?s = "snd (run_state (mysql_mutex_init release_build recorder sample_os 3 5 0 (1, 2)) sample_state)"
  have "completes_wait (\<lambda>s. fst (world s))
      (\<lambda>s. have_psi_interface release_build \<and> PSI_server s \<and> mutex_psi (mutexes s 5) \<noteq> 0) (=)
      (mysql_mutex_lock release_build recorder sample_os 5 (1, 2))"
    using thread_waits_complete [OF recorder_records(1) sample_os_records, of release_build 5 "(1, 2)"] by blast
  then have "fst (world (snd (run_state (mysql_mutex_lock release_build recorder sample_os 5 (1, 2)) ?s)))
      = [Real_call, Get_locker 7, Start_wait 7, Real_call, End_wait 7 0]"
    unfolding completes_wait_def
    by (drule_tac spec [of _ ?s])
      (auto simp: mysql_mutex_init_def inline_mysql_mutex_init_def release_build_def recorder_def
        sample_state_def real_mutex_init_def sample_os_def wait_events_def State_Monad.update_def
        mysql_mutex_lock_def inline_mysql_mutex_lock_def real_mutex_lock_def run_psi_call)
  then show ?thesis by (simp add: split_beta)
qed

text \<open>The life of a hook: initialisation stores the hook the server hands out, or \<^verbatim>\<open>NULL\<close> without
  server or instrumentation; no operation on one object touches the hook of another; destruction with the
  server present clears it, and from then on locking the mutex is the bare primitive, so a destroyed hook is never
  used again.\<close>
lemma mutex_hook_lifecycle:
  assumes "psi_keeps_thread mutexes psi" and "thread_os_keeps mutexes os"
  shows "mutexes (snd (run_state (mysql_mutex_init cfg psi os K M A site) s))
      = (mutexes s)(M := mutexes s M\<lparr>mutex_psi :=
          if have_psi_interface cfg \<and> PSI_server s then fst (run_state (init_mutex psi K M) s) else 0\<rparr>) \<and>
    mutexes (snd (run_state (mysql_mutex_destroy cfg psi os M site) s))
      = (if have_psi_interface cfg \<and> PSI_server s \<and> mutex_psi (mutexes s M) \<noteq> 0
         then (mutexes s)(M := mutexes s M\<lparr>mutex_psi := 0\<rparr>) else mutexes s) \<and>
    (PSI_server s \<longrightarrow>
      (let t = snd (run_state (mysql_mutex_destroy cfg psi os M site) s) in
       run_state (mysql_mutex_lock cfg psi os M site) t
         = run_state (real_mutex_lock cfg os M (fst site) (snd site)) t))"
proof -
  have init: "mutexes (snd (run_state (real_mutex_init cfg os M A f n) t)) = mutexes t"
    and destroy: "mutexes (snd (run_state (real_mutex_destroy cfg os M f n) t)) = mutexes t" for t f n
    using assms(2) by (simp_all add: thread_os_keeps_def keeps_def real_mutex_init_def real_mutex_destroy_def)
  have psi: "mutexes (snd (run_state (init_mutex psi K M) t)) = mutexes t"
    "mutexes (snd (run_state (destroy_mutex psi h) t)) = mutexes t" for t h
    using psi_keeps_threadD(1,2) [OF assms(1)] by (simp_all add: keeps_def)
  have 1: "mutexes (snd (run_state (inline_mysql_mutex_init cfg psi os K M A f n) s))
      = (mutexes s)(M := mutexes s M\<lparr>mutex_psi :=
          if have_psi_interface cfg \<and> PSI_server s then fst (run_state (init_mutex psi K M) s) else 0\<rparr>)" for f n
    by (simp add: inline_mysql_mutex_init_def State_Monad.update_def split_beta init psi)
  have 2: "mutexes (snd (run_state (inline_mysql_mutex_destroy cfg psi os M f n) s))
      = (if have_psi_interface cfg \<and> PSI_server s \<and> mutex_psi (mutexes s M) \<noteq> 0
         then (mutexes s)(M := mutexes s M\<lparr>mutex_psi := 0\<rparr>) else mutexes s)" for f n
    by (simp add: inline_mysql_mutex_destroy_def State_Monad.update_def split_beta destroy psi)
  have 3: "run_state (mysql_mutex_lock cfg psi os M site) t
      = run_state (real_mutex_lock cfg os M (fst site) (snd site)) t"
    if "\<not> have_psi_interface cfg \<or> mutex_psi (mutexes t M) = 0" for t
  proof (cases "have_psi_interface cfg")
    case True
    with that show ?thesis
      using mutex_lock.not_guarded [of t M cfg psi os "fst site" "snd site"] by (simp add: mysql_mutex_lock_def)
  next
    case False
    then show ?thesis by (simp add: mysql_mutex_lock_def mutex_lock.off real_mutex_lock_def)
  qed
  from 1 2 show ?thesis
    by (auto simp: mysql_mutex_init_def mysql_mutex_destroy_def Let_def intro!: 3)
qed

lemma mutex_hook_lifecycle_instance:
  "mutex_psi (mutexes (snd (run_state (mysql_mutex_init release_build recorder sample_os 3 5 0 (1, 2)) sample_state)) 5)
     = 11"
proof -
  have "psi_keeps_thread mutexes recorder" and "thread_os_keeps mutexes sample_os"
    by (simp_all add: psi_keeps_thread_def recorder_def keeps_def thread_os_keeps_def sample_os_def)
  from mutex_hook_lifecycle [OF this, of release_build 3 5 0 "(1, 2)" sample_state] show ?thesis
    by (simp add: release_build_def sample_state_def recorder_def)
qed

end
