(* ===== verification/Mysql_File.thy ===== *)
theory Mysql_File
  imports Psi
begin

text \<open>
  The instrumented file operations of \<^verbatim>\<open>mysql/psi/mysql_file.h\<close>: streams (\<^verbatim>\<open>MYSQL_FILE\<close>), descriptors
  and operations on names.  As in the thread wrappers, every \<^verbatim>\<open>inline_mysql_file_*\<close> function is one definition
  with the conditional compilation as tests of \<open>config\<close>, every macro \<^verbatim>\<open>mysql_file_*\<close> is a definition that
  passes the source position, and the functions of the C library and of \<^verbatim>\<open>mysys\<close> below are the record \<open>file_os\<close>.
  The objects of type \<^verbatim>\<open>MYSQL_FILE\<close> that \<^verbatim>\<open>my_malloc\<close> handed out live in the map \<open>files\<close> of the state; an
  access through any other pointer sets \<open>bad_stream\<close>.

  The lemmas show that every wrapper can replace the bare function, that it completes its wait and reports the
  number of bytes the operation moved, and what \<^verbatim>\<open>mysql_file_fopen\<close> and \<^verbatim>\<open>mysql_file_fclose\<close> do to the
  set of open streams on every path.
\<close>

section \<open>The functions below\<close>

type_synonym myf = uint32
type_synonym char_t = "8 word"

record 'w file_os =
  os_strlen :: "addr \<Rightarrow> ('w, size_t) prog"
  os_fgets :: "addr \<Rightarrow> int \<Rightarrow> addr \<Rightarrow> ('w, addr) prog"
  os_fgetc :: "addr \<Rightarrow> ('w, int) prog"
  os_fputs :: "addr \<Rightarrow> addr \<Rightarrow> ('w, int) prog"
  os_fputc :: "int \<Rightarrow> addr \<Rightarrow> ('w, int) prog"
  os_vfprintf :: "addr \<Rightarrow> addr \<Rightarrow> addr \<Rightarrow> ('w, int) prog"
  os_fflush :: "addr \<Rightarrow> ('w, int) prog"
  os_feof :: "addr \<Rightarrow> ('w, int) prog"
  os_my_fstat :: "File \<Rightarrow> addr \<Rightarrow> myf \<Rightarrow> ('w, int) prog"
  os_my_stat :: "c_str \<Rightarrow> addr \<Rightarrow> myf \<Rightarrow> ('w, addr) prog"
  os_my_chsize :: "File \<Rightarrow> my_off_t \<Rightarrow> int \<Rightarrow> myf \<Rightarrow> ('w, int) prog"
  os_my_malloc :: "size_t \<Rightarrow> myf \<Rightarrow> ('w, addr) prog"
  os_my_free :: "addr \<Rightarrow> ('w, unit) prog"
  os_my_fopen :: "c_str \<Rightarrow> int \<Rightarrow> myf \<Rightarrow> ('w, addr) prog"
  os_my_fclose :: "addr \<Rightarrow> myf \<Rightarrow> ('w, int) prog"
  os_my_fread :: "addr \<Rightarrow> addr \<Rightarrow> size_t \<Rightarrow> myf \<Rightarrow> ('w, size_t) prog"
  os_my_fwrite :: "addr \<Rightarrow> addr \<Rightarrow> size_t \<Rightarrow> myf \<Rightarrow> ('w, size_t) prog"
  os_my_fseek :: "addr \<Rightarrow> my_off_t \<Rightarrow> int \<Rightarrow> myf \<Rightarrow> ('w, my_off_t) prog"
  os_my_ftell :: "addr \<Rightarrow> myf \<Rightarrow> ('w, my_off_t) prog"
  os_my_create :: "c_str \<Rightarrow> int \<Rightarrow> int \<Rightarrow> myf \<Rightarrow> ('w, File) prog"
  os_create_temp_file :: "addr \<Rightarrow> c_str \<Rightarrow> c_str \<Rightarrow> int \<Rightarrow> myf \<Rightarrow> ('w, File) prog"
  os_my_open :: "c_str \<Rightarrow> int \<Rightarrow> myf \<Rightarrow> ('w, File) prog"
  os_my_close :: "File \<Rightarrow> myf \<Rightarrow> ('w, int) prog"
  os_my_read :: "File \<Rightarrow> addr \<Rightarrow> size_t \<Rightarrow> myf \<Rightarrow> ('w, size_t) prog"
  os_my_write :: "File \<Rightarrow> addr \<Rightarrow> size_t \<Rightarrow> myf \<Rightarrow> ('w, size_t) prog"
  os_my_pread :: "File \<Rightarrow> addr \<Rightarrow> size_t \<Rightarrow> my_off_t \<Rightarrow> myf \<Rightarrow> ('w, size_t) prog"
  os_my_pwrite :: "File \<Rightarrow> addr \<Rightarrow> size_t \<Rightarrow> my_off_t \<Rightarrow> myf \<Rightarrow> ('w, size_t) prog"
  os_my_seek :: "File \<Rightarrow> my_off_t \<Rightarrow> int \<Rightarrow> myf \<Rightarrow> ('w, my_off_t) prog"
  os_my_tell :: "File \<Rightarrow> myf \<Rightarrow> ('w, my_off_t) prog"
  os_my_delete :: "c_str \<Rightarrow> myf \<Rightarrow> ('w, int) prog"
  os_my_rename :: "c_str \<Rightarrow> c_str \<Rightarrow> myf \<Rightarrow> ('w, int) prog"
  os_my_create_with_symlink :: "c_str \<Rightarrow> c_str \<Rightarrow> int \<Rightarrow> int \<Rightarrow> myf \<Rightarrow> ('w, File) prog"
  os_my_delete_with_symlink :: "c_str \<Rightarrow> myf \<Rightarrow> ('w, int) prog"
  os_my_rename_with_symlink :: "c_str \<Rightarrow> c_str \<Rightarrow> myf \<Rightarrow> ('w, int) prog"
  os_my_sync :: "File \<Rightarrow> myf \<Rightarrow> ('w, int) prog"

definition MY_FNABP :: myf where
  "MY_FNABP = 2"

definition MY_NABP :: myf where
  "MY_NABP = 4"

definition MY_WME :: myf where
  "MY_WME = 16"

definition MY_FILE_ERROR :: size_t where
  "MY_FILE_ERROR = - 1"

definition sizeof_MYSQL_FILE :: size_t where
  "sizeof_MYSQL_FILE = 8"

section \<open>Access to the members of a stream\<close>

definition get_m_psi :: "'w pstate \<Rightarrow> addr \<Rightarrow> PSI_file" where
  "get_m_psi s file = (case files s file of None \<Rightarrow> 0 | Some f \<Rightarrow> file_psi f)"

definition deref_m_file :: "addr \<Rightarrow> ('w, addr) prog" where
  "deref_m_file file = do {
     s \<leftarrow> State_Monad.get;
     case files s file of
       Some f \<Rightarrow> State_Monad.return (m_file f)
     | None \<Rightarrow> do {
         State_Monad.update (\<lambda>s. s\<lparr>bad_stream := True\<rparr>);
         State_Monad.return 0
       }
   }"

text \<open>A bare call on the stream behind a \<^verbatim>\<open>MYSQL_FILE\<close>.\<close>

definition on_stream :: "addr \<Rightarrow> (addr \<Rightarrow> ('w, 'a) prog) \<Rightarrow> ('w, 'a) prog" where
  "on_stream file f = do {
     fp \<leftarrow> deref_m_file file;
     f fp
   }"

text \<open>The number of bytes reported for a read or a write, from its result and flags.\<close>

definition bytes_moved :: "myf \<Rightarrow> size_t \<Rightarrow> size_t \<Rightarrow> size_t" where
  "bytes_moved flags count result =
     (if and flags (or MY_NABP MY_FNABP) \<noteq> 0 then (if result = 0 then count else 0)
      else (if result \<noteq> MY_FILE_ERROR then result else 0))"

section \<open>Streams\<close>

definition inline_mysql_file_fgets ::
  "config \<Rightarrow> 'w PSI_v1 \<Rightarrow> 'w file_os \<Rightarrow> c_str \<Rightarrow> c_uint \<Rightarrow> addr \<Rightarrow> int \<Rightarrow> addr \<Rightarrow> ('w, addr) prog" where
  "inline_mysql_file_fgets cfg psi os src_file src_line str sz file = do {
     locker \<leftarrow> (if have_psi_interface cfg then do {
         s \<leftarrow> State_Monad.get;
         if PSI_server s \<and> get_m_psi s file \<noteq> 0 then do {
           locker \<leftarrow> get_thread_file_stream_locker psi (get_m_psi s file) PSI_FILE_READ;
           (if locker \<noteq> 0 then psi_call () (start_file_wait psi locker (word_of_int sz) src_file src_line) else State_Monad.return ());
           State_Monad.return locker
         } else State_Monad.return 0
       } else State_Monad.return 0);
     result \<leftarrow> on_stream file (os_fgets os str sz);
     (if locker \<noteq> 0 then do { n \<leftarrow> (if result \<noteq> 0 then os_strlen os result else State_Monad.return 0); psi_call () (end_file_wait psi locker n) } else State_Monad.return ());
     State_Monad.return result
   }"

definition inline_mysql_file_fgetc ::
  "config \<Rightarrow> 'w PSI_v1 \<Rightarrow> 'w file_os \<Rightarrow> c_str \<Rightarrow> c_uint \<Rightarrow> addr \<Rightarrow> ('w, int) prog" where
  "inline_mysql_file_fgetc cfg psi os src_file src_line file = do {
     locker \<leftarrow> (if have_psi_interface cfg then do {
         s \<leftarrow> State_Monad.get;
         if PSI_server s \<and> get_m_psi s file \<noteq> 0 then do {
           locker \<leftarrow> get_thread_file_stream_locker psi (get_m_psi s file) PSI_FILE_READ;
           (if locker \<noteq> 0 then psi_call () (start_file_wait psi locker 1 src_file src_line) else State_Monad.return ());
           State_Monad.return locker
         } else State_Monad.return 0
       } else State_Monad.return 0);
     result \<leftarrow> on_stream file (os_fgetc os);
     (if locker \<noteq> 0 then psi_call () (end_file_wait psi locker 1) else State_Monad.return ());
     State_Monad.return result
   }"

definition inline_mysql_file_fputs ::
  "config \<Rightarrow> 'w PSI_v1 \<Rightarrow> 'w file_os \<Rightarrow> c_str \<Rightarrow> c_uint \<Rightarrow> addr \<Rightarrow> addr \<Rightarrow> ('w, int) prog" where
  "inline_mysql_file_fputs cfg psi os src_file src_line str file = do {
     (locker, bytes) \<leftarrow> (if have_psi_interface cfg then do {
         s \<leftarrow> State_Monad.get;
         if PSI_server s \<and> get_m_psi s file \<noteq> 0 then do {
           locker \<leftarrow> get_thread_file_stream_locker psi (get_m_psi s file) PSI_FILE_WRITE;
           bytes \<leftarrow> (if locker \<noteq> 0 then (if str \<noteq> 0 then os_strlen os str else State_Monad.return 0) else State_Monad.return 0);
           (if locker \<noteq> 0 then psi_call () (start_file_wait psi locker bytes src_file src_line) else State_Monad.return ());
           State_Monad.return (locker, bytes)
         } else State_Monad.return (0, 0)
       } else State_Monad.return (0, 0));
     result \<leftarrow> on_stream file (os_fputs os str);
     (if locker \<noteq> 0 then psi_call () (end_file_wait psi locker bytes) else State_Monad.return ());
     State_Monad.return result
   }"

text \<open>The character is a \<^verbatim>\<open>char\<close>, which is signed on the target: the argument of the macro is reduced to
  eight bits, and \<^verbatim>\<open>fputc\<close> gets it extended with its sign.\<close>

definition inline_mysql_file_fputc ::
  "config \<Rightarrow> 'w PSI_v1 \<Rightarrow> 'w file_os \<Rightarrow> c_str \<Rightarrow> c_uint \<Rightarrow> char_t \<Rightarrow> addr \<Rightarrow> ('w, int) prog" where
  "inline_mysql_file_fputc cfg psi os src_file src_line c file = do {
     locker \<leftarrow> (if have_psi_interface cfg then do {
         s \<leftarrow> State_Monad.get;
         if PSI_server s \<and> get_m_psi s file \<noteq> 0 then do {
           locker \<leftarrow> get_thread_file_stream_locker psi (get_m_psi s file) PSI_FILE_WRITE;
           (if locker \<noteq> 0 then psi_call () (start_file_wait psi locker 1 src_file src_line) else State_Monad.return ());
           State_Monad.return locker
         } else State_Monad.return 0
       } else State_Monad.return 0);
     result \<leftarrow> on_stream file (os_fputc os (sint c));
     (if locker \<noteq> 0 then psi_call () (end_file_wait psi locker 1) else State_Monad.return ());
     State_Monad.return result
   }"

text \<open>
  \<^verbatim>\<open>inline_mysql_file_fprintf\<close> passes the position in the header itself, \<open>header_file\<close> and \<open>header_line\<close>, and hands its
  variable arguments, collected by \<^verbatim>\<open>va_start\<close>, to \<^verbatim>\<open>vfprintf\<close>.
\<close>

definition inline_mysql_file_fprintf ::
  "config \<Rightarrow> 'w PSI_v1 \<Rightarrow> 'w file_os \<Rightarrow> c_str \<Rightarrow> c_uint \<Rightarrow> addr \<Rightarrow> addr \<Rightarrow> addr \<Rightarrow> ('w, int) prog" where
  "inline_mysql_file_fprintf cfg psi os header_file header_line file format args = do {
     locker \<leftarrow> (if have_psi_interface cfg then do {
         s \<leftarrow> State_Monad.get;
         if PSI_server s \<and> get_m_psi s file \<noteq> 0 then do {
           locker \<leftarrow> get_thread_file_stream_locker psi (get_m_psi s file) PSI_FILE_WRITE;
           (if locker \<noteq> 0 then psi_call () (start_file_wait psi locker 0 header_file header_line) else State_Monad.return ());
           State_Monad.return locker
         } else State_Monad.return 0
       } else State_Monad.return 0);
     result \<leftarrow> on_stream file (\<lambda>fp. os_vfprintf os fp format args);
     (if locker \<noteq> 0 then psi_call () (end_file_wait psi locker (word_of_int result)) else State_Monad.return ());
     State_Monad.return result
   }"

definition inline_mysql_file_vfprintf ::
  "config \<Rightarrow> 'w PSI_v1 \<Rightarrow> 'w file_os \<Rightarrow> c_str \<Rightarrow> c_uint \<Rightarrow> addr \<Rightarrow> addr \<Rightarrow> addr \<Rightarrow> ('w, int) prog" where
  "inline_mysql_file_vfprintf cfg psi os src_file src_line file format args = do {
     locker \<leftarrow> (if have_psi_interface cfg then do {
         s \<leftarrow> State_Monad.get;
         if PSI_server s \<and> get_m_psi s file \<noteq> 0 then do {
           locker \<leftarrow> get_thread_file_stream_locker psi (get_m_psi s file) PSI_FILE_WRITE;
           (if locker \<noteq> 0 then psi_call () (start_file_wait psi locker 0 src_file src_line) else State_Monad.return ());
           State_Monad.return locker
         } else State_Monad.return 0
       } else State_Monad.return 0);
     result \<leftarrow> on_stream file (\<lambda>fp. os_vfprintf os fp format args);
     (if locker \<noteq> 0 then psi_call () (end_file_wait psi locker (word_of_int result)) else State_Monad.return ());
     State_Monad.return result
   }"

definition inline_mysql_file_fflush ::
  "config \<Rightarrow> 'w PSI_v1 \<Rightarrow> 'w file_os \<Rightarrow> c_str \<Rightarrow> c_uint \<Rightarrow> addr \<Rightarrow> ('w, int) prog" where
  "inline_mysql_file_fflush cfg psi os src_file src_line file = do {
     locker \<leftarrow> (if have_psi_interface cfg then do {
         s \<leftarrow> State_Monad.get;
         if PSI_server s \<and> get_m_psi s file \<noteq> 0 then do {
           locker \<leftarrow> get_thread_file_stream_locker psi (get_m_psi s file) PSI_FILE_FLUSH;
           (if locker \<noteq> 0 then psi_call () (start_file_wait psi locker 0 src_file src_line) else State_Monad.return ());
           State_Monad.return locker
         } else State_Monad.return 0
       } else State_Monad.return 0);
     result \<leftarrow> on_stream file (os_fflush os);
     (if locker \<noteq> 0 then psi_call () (end_file_wait psi locker 0) else State_Monad.return ());
     State_Monad.return result
   }"

definition inline_mysql_file_feof :: "'w file_os \<Rightarrow> addr \<Rightarrow> ('w, int) prog" where
  "inline_mysql_file_feof os file = on_stream file (os_feof os)"

section \<open>Status and size\<close>

definition inline_mysql_file_fstat ::
  "config \<Rightarrow> 'w PSI_v1 \<Rightarrow> 'w file_os \<Rightarrow> c_str \<Rightarrow> c_uint \<Rightarrow> int \<Rightarrow> addr \<Rightarrow> myf \<Rightarrow> ('w, int) prog" where
  "inline_mysql_file_fstat cfg psi os src_file src_line filenr stat_area flags = do {
     locker \<leftarrow> (if have_psi_interface cfg then do {
         s \<leftarrow> State_Monad.get;
         if PSI_server s then do {
           locker \<leftarrow> get_thread_file_descriptor_locker psi filenr PSI_FILE_FSTAT;
           (if locker \<noteq> 0 then psi_call () (start_file_wait psi locker 0 src_file src_line) else State_Monad.return ());
           State_Monad.return locker
         } else State_Monad.return 0
       } else State_Monad.return 0);
     result \<leftarrow> os_my_fstat os filenr stat_area flags;
     (if locker \<noteq> 0 then psi_call () (end_file_wait psi locker 0) else State_Monad.return ());
     State_Monad.return result
   }"

text \<open>
  Operations on names hand \<^verbatim>\<open>&locker\<close>, the address of a local variable, to the server as the identity of the
  caller; that address is the argument \<open>locker_addr\<close>.
\<close>

definition inline_mysql_file_stat ::
  "config \<Rightarrow> 'w PSI_v1 \<Rightarrow> 'w file_os \<Rightarrow> addr \<Rightarrow> PSI_file_key \<Rightarrow> c_str \<Rightarrow> c_uint \<Rightarrow> c_str \<Rightarrow> addr \<Rightarrow> myf \<Rightarrow> ('w, addr) prog" where
  "inline_mysql_file_stat cfg psi os locker_addr key src_file src_line path stat_area flags = do {
     locker \<leftarrow> (if have_psi_interface cfg then do {
         s \<leftarrow> State_Monad.get;
         if PSI_server s then do {
           locker \<leftarrow> get_thread_file_name_locker psi key PSI_FILE_STAT path locker_addr;
           (if locker \<noteq> 0 then do { psi_call 0 (start_file_open_wait psi locker src_file src_line); State_Monad.return () } else State_Monad.return ());
           State_Monad.return locker
         } else State_Monad.return 0
       } else State_Monad.return 0);
     result \<leftarrow> os_my_stat os path stat_area flags;
     (if locker \<noteq> 0 then psi_call () (end_file_wait psi locker 0) else State_Monad.return ());
     State_Monad.return result
   }"

definition inline_mysql_file_chsize ::
  "config \<Rightarrow> 'w PSI_v1 \<Rightarrow> 'w file_os \<Rightarrow> c_str \<Rightarrow> c_uint \<Rightarrow> File \<Rightarrow> my_off_t \<Rightarrow> int \<Rightarrow> myf \<Rightarrow> ('w, int) prog" where
  "inline_mysql_file_chsize cfg psi os src_file src_line file newlength filler flags = do {
     locker \<leftarrow> (if have_psi_interface cfg then do {
         s \<leftarrow> State_Monad.get;
         if PSI_server s then do {
           locker \<leftarrow> get_thread_file_descriptor_locker psi file PSI_FILE_CHSIZE;
           (if locker \<noteq> 0 then psi_call () (start_file_wait psi locker (ucast newlength) src_file src_line) else State_Monad.return ());
           State_Monad.return locker
         } else State_Monad.return 0
       } else State_Monad.return 0);
     result \<leftarrow> os_my_chsize os file newlength filler flags;
     (if locker \<noteq> 0 then psi_call () (end_file_wait psi locker (ucast newlength)) else State_Monad.return ());
     State_Monad.return result
   }"

section \<open>Opening and closing a stream\<close>

definition fopen_wait ::
  "config \<Rightarrow> 'w PSI_v1 \<Rightarrow> 'w file_os \<Rightarrow> PSI_file_key \<Rightarrow> c_str \<Rightarrow> c_uint \<Rightarrow> c_str \<Rightarrow> int \<Rightarrow> myf \<Rightarrow> addr \<Rightarrow> ('w, addr) prog" where
  "fopen_wait cfg psi os key src_file src_line filename flags myFlags that = do {
     locker \<leftarrow> (if have_psi_interface cfg then do {
         s \<leftarrow> State_Monad.get;
         if PSI_server s then do {
           locker \<leftarrow> get_thread_file_name_locker psi key PSI_FILE_STREAM_OPEN filename that;
           (if locker \<noteq> 0 then do {
              hook \<leftarrow> psi_call 0 (start_file_open_wait psi locker src_file src_line);
              State_Monad.update (\<lambda>s. s\<lparr>files := (files s)(that := map_option (\<lambda>f. f\<lparr>file_psi := hook\<rparr>) (files s that))\<rparr>)
            } else State_Monad.return ());
           State_Monad.return locker
         } else State_Monad.return 0
       } else State_Monad.return 0);
     fp \<leftarrow> do {
       fp \<leftarrow> os_my_fopen os filename flags myFlags;
       State_Monad.update (\<lambda>s. s\<lparr>files := (files s)(that := map_option (\<lambda>f. f\<lparr>m_file := fp\<rparr>) (files s that))\<rparr>);
       State_Monad.return fp
     };
     (if locker \<noteq> 0 then psi_call () (end_file_open_wait psi locker) else State_Monad.return ());
     State_Monad.return fp
   }"

definition free_stream :: "'w file_os \<Rightarrow> addr \<Rightarrow> ('w, unit) prog" where
  "free_stream os that = do {
     os_my_free os that;
     State_Monad.update (\<lambda>s. s\<lparr>files := (files s)(that := None)\<rparr>)
   }"

definition inline_mysql_file_fopen ::
  "config \<Rightarrow> 'w PSI_v1 \<Rightarrow> 'w file_os \<Rightarrow> PSI_file_key \<Rightarrow> c_str \<Rightarrow> c_uint \<Rightarrow> c_str \<Rightarrow> int \<Rightarrow> myf \<Rightarrow> ('w, addr) prog" where
  "inline_mysql_file_fopen cfg psi os key src_file src_line filename flags myFlags = do {
     that \<leftarrow> os_my_malloc os sizeof_MYSQL_FILE MY_WME;
     if that \<noteq> 0 then do {
       State_Monad.update (\<lambda>s. s\<lparr>files := (files s)(that \<mapsto> \<lparr>m_file = 0, file_psi = 0\<rparr>)\<rparr>);
       fopen_wait cfg psi os key src_file src_line filename flags myFlags that;
       fp \<leftarrow> deref_m_file that;
       if fp = 0 then do {
         free_stream os that;
         State_Monad.return 0
       } else State_Monad.return that
     } else State_Monad.return that
   }"

definition fclose_wait ::
  "config \<Rightarrow> 'w PSI_v1 \<Rightarrow> 'w file_os \<Rightarrow> c_str \<Rightarrow> c_uint \<Rightarrow> addr \<Rightarrow> myf \<Rightarrow> ('w, int) prog" where
  "fclose_wait cfg psi os src_file src_line file flags = do {
     locker \<leftarrow> (if have_psi_interface cfg then do {
         s \<leftarrow> State_Monad.get;
         if PSI_server s \<and> get_m_psi s file \<noteq> 0 then do {
           locker \<leftarrow> get_thread_file_stream_locker psi (get_m_psi s file) PSI_FILE_STREAM_CLOSE;
           (if locker \<noteq> 0 then psi_call () (start_file_wait psi locker 0 src_file src_line) else State_Monad.return ());
           State_Monad.return locker
         } else State_Monad.return 0
       } else State_Monad.return 0);
     result \<leftarrow> on_stream file (\<lambda>fp. os_my_fclose os fp flags);
     (if locker \<noteq> 0 then psi_call () (end_file_wait psi locker 0) else State_Monad.return ());
     State_Monad.return result
   }"

definition inline_mysql_file_fclose ::
  "config \<Rightarrow> 'w PSI_v1 \<Rightarrow> 'w file_os \<Rightarrow> c_str \<Rightarrow> c_uint \<Rightarrow> addr \<Rightarrow> myf \<Rightarrow> ('w, int) prog" where
  "inline_mysql_file_fclose cfg psi os src_file src_line file flags =
     (if file \<noteq> 0 then do {
        result \<leftarrow> fclose_wait cfg psi os src_file src_line file flags;
        free_stream os file;
        State_Monad.return result
      } else State_Monad.return 0)"

section \<open>Reading, writing and positioning of streams\<close>

definition inline_mysql_file_fread ::
  "config \<Rightarrow> 'w PSI_v1 \<Rightarrow> 'w file_os \<Rightarrow> c_str \<Rightarrow> c_uint \<Rightarrow> addr \<Rightarrow> addr \<Rightarrow> size_t \<Rightarrow> myf \<Rightarrow> ('w, size_t) prog" where
  "inline_mysql_file_fread cfg psi os src_file src_line file buffer count flags = do {
     locker \<leftarrow> (if have_psi_interface cfg then do {
         s \<leftarrow> State_Monad.get;
         if PSI_server s \<and> get_m_psi s file \<noteq> 0 then do {
           locker \<leftarrow> get_thread_file_stream_locker psi (get_m_psi s file) PSI_FILE_READ;
           (if locker \<noteq> 0 then psi_call () (start_file_wait psi locker count src_file src_line) else State_Monad.return ());
           State_Monad.return locker
         } else State_Monad.return 0
       } else State_Monad.return 0);
     result \<leftarrow> on_stream file (\<lambda>fp. os_my_fread os fp buffer count flags);
     (if locker \<noteq> 0 then psi_call () (end_file_wait psi locker (bytes_moved flags count result)) else State_Monad.return ());
     State_Monad.return result
   }"

definition inline_mysql_file_fwrite ::
  "config \<Rightarrow> 'w PSI_v1 \<Rightarrow> 'w file_os \<Rightarrow> c_str \<Rightarrow> c_uint \<Rightarrow> addr \<Rightarrow> addr \<Rightarrow> size_t \<Rightarrow> myf \<Rightarrow> ('w, size_t) prog" where
  "inline_mysql_file_fwrite cfg psi os src_file src_line file buffer count flags = do {
     locker \<leftarrow> (if have_psi_interface cfg then do {
         s \<leftarrow> State_Monad.get;
         if PSI_server s \<and> get_m_psi s file \<noteq> 0 then do {
           locker \<leftarrow> get_thread_file_stream_locker psi (get_m_psi s file) PSI_FILE_WRITE;
           (if locker \<noteq> 0 then psi_call () (start_file_wait psi locker count src_file src_line) else State_Monad.return ());
           State_Monad.return locker
         } else State_Monad.return 0
       } else State_Monad.return 0);
     result \<leftarrow> on_stream file (\<lambda>fp. os_my_fwrite os fp buffer count flags);
     (if locker \<noteq> 0 then psi_call () (end_file_wait psi locker (bytes_moved flags count result)) else State_Monad.return ());
     State_Monad.return result
   }"

definition inline_mysql_file_fseek ::
  "config \<Rightarrow> 'w PSI_v1 \<Rightarrow> 'w file_os \<Rightarrow> c_str \<Rightarrow> c_uint \<Rightarrow> addr \<Rightarrow> my_off_t \<Rightarrow> int \<Rightarrow> myf \<Rightarrow> ('w, my_off_t) prog" where
  "inline_mysql_file_fseek cfg psi os src_file src_line file pos whence flags = do {
     locker \<leftarrow> (if have_psi_interface cfg then do {
         s \<leftarrow> State_Monad.get;
         if PSI_server s \<and> get_m_psi s file \<noteq> 0 then do {
           locker \<leftarrow> get_thread_file_stream_locker psi (get_m_psi s file) PSI_FILE_SEEK;
           (if locker \<noteq> 0 then psi_call () (start_file_wait psi locker 0 src_file src_line) else State_Monad.return ());
           State_Monad.return locker
         } else State_Monad.return 0
       } else State_Monad.return 0);
     result \<leftarrow> on_stream file (\<lambda>fp. os_my_fseek os fp pos whence flags);
     (if locker \<noteq> 0 then psi_call () (end_file_wait psi locker 0) else State_Monad.return ());
     State_Monad.return result
   }"

definition inline_mysql_file_ftell ::
  "config \<Rightarrow> 'w PSI_v1 \<Rightarrow> 'w file_os \<Rightarrow> c_str \<Rightarrow> c_uint \<Rightarrow> addr \<Rightarrow> myf \<Rightarrow> ('w, my_off_t) prog" where
  "inline_mysql_file_ftell cfg psi os src_file src_line file flags = do {
     locker \<leftarrow> (if have_psi_interface cfg then do {
         s \<leftarrow> State_Monad.get;
         if PSI_server s \<and> get_m_psi s file \<noteq> 0 then do {
           locker \<leftarrow> get_thread_file_stream_locker psi (get_m_psi s file) PSI_FILE_TELL;
           (if locker \<noteq> 0 then psi_call () (start_file_wait psi locker 0 src_file src_line) else State_Monad.return ());
           State_Monad.return locker
         } else State_Monad.return 0
       } else State_Monad.return 0);
     result \<leftarrow> on_stream file (\<lambda>fp. os_my_ftell os fp flags);
     (if locker \<noteq> 0 then psi_call () (end_file_wait psi locker 0) else State_Monad.return ());
     State_Monad.return result
   }"

section \<open>Descriptors\<close>

definition inline_mysql_file_create ::
  "config \<Rightarrow> 'w PSI_v1 \<Rightarrow> 'w file_os \<Rightarrow> addr \<Rightarrow> PSI_file_key \<Rightarrow> c_str \<Rightarrow> c_uint \<Rightarrow> c_str \<Rightarrow> int \<Rightarrow> int \<Rightarrow> myf \<Rightarrow> ('w, File) prog" where
  "inline_mysql_file_create cfg psi os locker_addr key src_file src_line filename create_flags access_flags myFlags = do {
     locker \<leftarrow> (if have_psi_interface cfg then do {
         s \<leftarrow> State_Monad.get;
         if PSI_server s then do {
           locker \<leftarrow> get_thread_file_name_locker psi key PSI_FILE_CREATE filename locker_addr;
           (if locker \<noteq> 0 then do { psi_call 0 (start_file_open_wait psi locker src_file src_line); State_Monad.return () } else State_Monad.return ());
           State_Monad.return locker
         } else State_Monad.return 0
       } else State_Monad.return 0);
     result \<leftarrow> os_my_create os filename create_flags access_flags myFlags;
     (if locker \<noteq> 0 then psi_call () (end_file_open_wait_and_bind_to_descriptor psi locker result) else State_Monad.return ());
     State_Monad.return result
   }"

definition inline_mysql_file_create_temp ::
  "config \<Rightarrow> 'w PSI_v1 \<Rightarrow> 'w file_os \<Rightarrow> PSI_file_key \<Rightarrow> addr \<Rightarrow> c_str \<Rightarrow> c_str \<Rightarrow> int \<Rightarrow> myf \<Rightarrow> ('w, File) prog" where
  "inline_mysql_file_create_temp cfg psi os key dst dir pfx mode myFlags = do {
     file \<leftarrow> os_create_temp_file os dst dir pfx mode myFlags;
     (if have_psi_interface cfg then do {
        s \<leftarrow> State_Monad.get;
        if PSI_server s then create_file psi key dst file else State_Monad.return ()
      } else State_Monad.return ());
     State_Monad.return file
   }"

definition inline_mysql_file_open ::
  "config \<Rightarrow> 'w PSI_v1 \<Rightarrow> 'w file_os \<Rightarrow> addr \<Rightarrow> PSI_file_key \<Rightarrow> c_str \<Rightarrow> c_uint \<Rightarrow> c_str \<Rightarrow> int \<Rightarrow> myf \<Rightarrow> ('w, File) prog" where
  "inline_mysql_file_open cfg psi os locker_addr key src_file src_line filename flags myFlags = do {
     locker \<leftarrow> (if have_psi_interface cfg then do {
         s \<leftarrow> State_Monad.get;
         if PSI_server s then do {
           locker \<leftarrow> get_thread_file_name_locker psi key PSI_FILE_OPEN filename locker_addr;
           (if locker \<noteq> 0 then do { psi_call 0 (start_file_open_wait psi locker src_file src_line); State_Monad.return () } else State_Monad.return ());
           State_Monad.return locker
         } else State_Monad.return 0
       } else State_Monad.return 0);
     result \<leftarrow> os_my_open os filename flags myFlags;
     (if locker \<noteq> 0 then psi_call () (end_file_open_wait_and_bind_to_descriptor psi locker result) else State_Monad.return ());
     State_Monad.return result
   }"

definition inline_mysql_file_close ::
  "config \<Rightarrow> 'w PSI_v1 \<Rightarrow> 'w file_os \<Rightarrow> c_str \<Rightarrow> c_uint \<Rightarrow> File \<Rightarrow> myf \<Rightarrow> ('w, int) prog" where
  "inline_mysql_file_close cfg psi os src_file src_line file flags = do {
     locker \<leftarrow> (if have_psi_interface cfg then do {
         s \<leftarrow> State_Monad.get;
         if PSI_server s then do {
           locker \<leftarrow> get_thread_file_descriptor_locker psi file PSI_FILE_CLOSE;
           (if locker \<noteq> 0 then psi_call () (start_file_wait psi locker 0 src_file src_line) else State_Monad.return ());
           State_Monad.return locker
         } else State_Monad.return 0
       } else State_Monad.return 0);
     result \<leftarrow> os_my_close os file flags;
     (if locker \<noteq> 0 then psi_call () (end_file_wait psi locker 0) else State_Monad.return ());
     State_Monad.return result
   }"

definition inline_mysql_file_read ::
  "config \<Rightarrow> 'w PSI_v1 \<Rightarrow> 'w file_os \<Rightarrow> c_str \<Rightarrow> c_uint \<Rightarrow> File \<Rightarrow> addr \<Rightarrow> size_t \<Rightarrow> myf \<Rightarrow> ('w, size_t) prog" where
  "inline_mysql_file_read cfg psi os src_file src_line file buffer count flags = do {
     locker \<leftarrow> (if have_psi_interface cfg then do {
         s \<leftarrow> State_Monad.get;
         if PSI_server s then do {
           locker \<leftarrow> get_thread_file_descriptor_locker psi file PSI_FILE_READ;
           (if locker \<noteq> 0 then psi_call () (start_file_wait psi locker count src_file src_line) else State_Monad.return ());
           State_Monad.return locker
         } else State_Monad.return 0
       } else State_Monad.return 0);
     result \<leftarrow> os_my_read os file buffer count flags;
     (if locker \<noteq> 0 then psi_call () (end_file_wait psi locker (bytes_moved flags count result)) else State_Monad.return ());
     State_Monad.return result
   }"

definition inline_mysql_file_write ::
  "config \<Rightarrow> 'w PSI_v1 \<Rightarrow> 'w file_os \<Rightarrow> c_str \<Rightarrow> c_uint \<Rightarrow> File \<Rightarrow> addr \<Rightarrow> size_t \<Rightarrow> myf \<Rightarrow> ('w, size_t) prog" where
  "inline_mysql_file_write cfg psi os src_file src_line file buffer count flags = do {
     locker \<leftarrow> (if have_psi_interface cfg then do {
         s \<leftarrow> State_Monad.get;
         if PSI_server s then do {
           locker \<leftarrow> get_thread_file_descriptor_locker psi file PSI_FILE_WRITE;
           (if locker \<noteq> 0 then psi_call () (start_file_wait psi locker count src_file src_line) else State_Monad.return ());
           State_Monad.return locker
         } else State_Monad.return 0
       } else State_Monad.return 0);
     result \<leftarrow> os_my_write os file buffer count flags;
     (if locker \<noteq> 0 then psi_call () (end_file_wait psi locker (bytes_moved flags count result)) else State_Monad.return ());
     State_Monad.return result
   }"

definition inline_mysql_file_pread ::
  "config \<Rightarrow> 'w PSI_v1 \<Rightarrow> 'w file_os \<Rightarrow> c_str \<Rightarrow> c_uint \<Rightarrow> File \<Rightarrow> addr \<Rightarrow> size_t \<Rightarrow> my_off_t \<Rightarrow> myf \<Rightarrow> ('w, size_t) prog" where
  "inline_mysql_file_pread cfg psi os src_file src_line file buffer count offset flags = do {
     locker \<leftarrow> (if have_psi_interface cfg then do {
         s \<leftarrow> State_Monad.get;
         if PSI_server s then do {
           locker \<leftarrow> get_thread_file_descriptor_locker psi file PSI_FILE_READ;
           (if locker \<noteq> 0 then psi_call () (start_file_wait psi locker count src_file src_line) else State_Monad.return ());
           State_Monad.return locker
         } else State_Monad.return 0
       } else State_Monad.return 0);
     result \<leftarrow> os_my_pread os file buffer count offset flags;
     (if locker \<noteq> 0 then psi_call () (end_file_wait psi locker (bytes_moved flags count result)) else State_Monad.return ());
     State_Monad.return result
   }"

definition inline_mysql_file_pwrite ::
  "config \<Rightarrow> 'w PSI_v1 \<Rightarrow> 'w file_os \<Rightarrow> c_str \<Rightarrow> c_uint \<Rightarrow> File \<Rightarrow> addr \<Rightarrow> size_t \<Rightarrow> my_off_t \<Rightarrow> myf \<Rightarrow> ('w, size_t) prog" where
  "inline_mysql_file_pwrite cfg psi os src_file src_line file buffer count offset flags = do {
     locker \<leftarrow> (if have_psi_interface cfg then do {
         s \<leftarrow> State_Monad.get;
         if PSI_server s then do {
           locker \<leftarrow> get_thread_file_descriptor_locker psi file PSI_FILE_WRITE;
           (if locker \<noteq> 0 then psi_call () (start_file_wait psi locker count src_file src_line) else State_Monad.return ());
           State_Monad.return locker
         } else State_Monad.return 0
       } else State_Monad.return 0);
     result \<leftarrow> os_my_pwrite os file buffer count offset flags;
     (if locker \<noteq> 0 then psi_call () (end_file_wait psi locker (bytes_moved flags count result)) else State_Monad.return ());
     State_Monad.return result
   }"

definition inline_mysql_file_seek ::
  "config \<Rightarrow> 'w PSI_v1 \<Rightarrow> 'w file_os \<Rightarrow> c_str \<Rightarrow> c_uint \<Rightarrow> File \<Rightarrow> my_off_t \<Rightarrow> int \<Rightarrow> myf \<Rightarrow> ('w, my_off_t) prog" where
  "inline_mysql_file_seek cfg psi os src_file src_line file pos whence flags = do {
     locker \<leftarrow> (if have_psi_interface cfg then do {
         s \<leftarrow> State_Monad.get;
         if PSI_server s then do {
           locker \<leftarrow> get_thread_file_descriptor_locker psi file PSI_FILE_SEEK;
           (if locker \<noteq> 0 then psi_call () (start_file_wait psi locker 0 src_file src_line) else State_Monad.return ());
           State_Monad.return locker
         } else State_Monad.return 0
       } else State_Monad.return 0);
     result \<leftarrow> os_my_seek os file pos whence flags;
     (if locker \<noteq> 0 then psi_call () (end_file_wait psi locker 0) else State_Monad.return ());
     State_Monad.return result
   }"

definition inline_mysql_file_tell ::
  "config \<Rightarrow> 'w PSI_v1 \<Rightarrow> 'w file_os \<Rightarrow> c_str \<Rightarrow> c_uint \<Rightarrow> File \<Rightarrow> myf \<Rightarrow> ('w, my_off_t) prog" where
  "inline_mysql_file_tell cfg psi os src_file src_line file flags = do {
     locker \<leftarrow> (if have_psi_interface cfg then do {
         s \<leftarrow> State_Monad.get;
         if PSI_server s then do {
           locker \<leftarrow> get_thread_file_descriptor_locker psi file PSI_FILE_TELL;
           (if locker \<noteq> 0 then psi_call () (start_file_wait psi locker 0 src_file src_line) else State_Monad.return ());
           State_Monad.return locker
         } else State_Monad.return 0
       } else State_Monad.return 0);
     result \<leftarrow> os_my_tell os file flags;
     (if locker \<noteq> 0 then psi_call () (end_file_wait psi locker 0) else State_Monad.return ());
     State_Monad.return result
   }"

section \<open>Names\<close>

definition inline_mysql_file_delete ::
  "config \<Rightarrow> 'w PSI_v1 \<Rightarrow> 'w file_os \<Rightarrow> addr \<Rightarrow> PSI_file_key \<Rightarrow> c_str \<Rightarrow> c_uint \<Rightarrow> c_str \<Rightarrow> myf \<Rightarrow> ('w, int) prog" where
  "inline_mysql_file_delete cfg psi os locker_addr key src_file src_line name flags = do {
     locker \<leftarrow> (if have_psi_interface cfg then do {
         s \<leftarrow> State_Monad.get;
         if PSI_server s then do {
           locker \<leftarrow> get_thread_file_name_locker psi key PSI_FILE_DELETE name locker_addr;
           (if locker \<noteq> 0 then psi_call () (start_file_wait psi locker 0 src_file src_line) else State_Monad.return ());
           State_Monad.return locker
         } else State_Monad.return 0
       } else State_Monad.return 0);
     result \<leftarrow> os_my_delete os name flags;
     (if locker \<noteq> 0 then psi_call () (end_file_wait psi locker 0) else State_Monad.return ());
     State_Monad.return result
   }"

definition inline_mysql_file_rename ::
  "config \<Rightarrow> 'w PSI_v1 \<Rightarrow> 'w file_os \<Rightarrow> addr \<Rightarrow> PSI_file_key \<Rightarrow> c_str \<Rightarrow> c_uint \<Rightarrow> c_str \<Rightarrow> c_str \<Rightarrow> myf \<Rightarrow> ('w, int) prog" where
  "inline_mysql_file_rename cfg psi os locker_addr key src_file src_line frm dst flags = do {
     locker \<leftarrow> (if have_psi_interface cfg then do {
         s \<leftarrow> State_Monad.get;
         if PSI_server s then do {
           locker \<leftarrow> get_thread_file_name_locker psi key PSI_FILE_RENAME dst locker_addr;
           (if locker \<noteq> 0 then psi_call () (start_file_wait psi locker 0 src_file src_line) else State_Monad.return ());
           State_Monad.return locker
         } else State_Monad.return 0
       } else State_Monad.return 0);
     result \<leftarrow> os_my_rename os frm dst flags;
     (if locker \<noteq> 0 then psi_call () (end_file_wait psi locker 0) else State_Monad.return ());
     State_Monad.return result
   }"

definition inline_mysql_file_create_with_symlink ::
  "config \<Rightarrow> 'w PSI_v1 \<Rightarrow> 'w file_os \<Rightarrow> addr \<Rightarrow> PSI_file_key \<Rightarrow> c_str \<Rightarrow> c_uint \<Rightarrow> c_str \<Rightarrow> c_str \<Rightarrow> int \<Rightarrow> int \<Rightarrow> myf \<Rightarrow> ('w, File) prog" where
  "inline_mysql_file_create_with_symlink cfg psi os locker_addr key src_file src_line linkname filename create_flags access_flags flags = do {
     locker \<leftarrow> (if have_psi_interface cfg then do {
         s \<leftarrow> State_Monad.get;
         if PSI_server s then do {
           locker \<leftarrow> get_thread_file_name_locker psi key PSI_FILE_CREATE filename locker_addr;
           (if locker \<noteq> 0 then do { psi_call 0 (start_file_open_wait psi locker src_file src_line); State_Monad.return () } else State_Monad.return ());
           State_Monad.return locker
         } else State_Monad.return 0
       } else State_Monad.return 0);
     result \<leftarrow> os_my_create_with_symlink os linkname filename create_flags access_flags flags;
     (if locker \<noteq> 0 then psi_call () (end_file_open_wait_and_bind_to_descriptor psi locker result) else State_Monad.return ());
     State_Monad.return result
   }"

definition inline_mysql_file_delete_with_symlink ::
  "config \<Rightarrow> 'w PSI_v1 \<Rightarrow> 'w file_os \<Rightarrow> addr \<Rightarrow> PSI_file_key \<Rightarrow> c_str \<Rightarrow> c_uint \<Rightarrow> c_str \<Rightarrow> myf \<Rightarrow> ('w, int) prog" where
  "inline_mysql_file_delete_with_symlink cfg psi os locker_addr key src_file src_line name flags = do {
     locker \<leftarrow> (if have_psi_interface cfg then do {
         s \<leftarrow> State_Monad.get;
         if PSI_server s then do {
           locker \<leftarrow> get_thread_file_name_locker psi key PSI_FILE_DELETE name locker_addr;
           (if locker \<noteq> 0 then psi_call () (start_file_wait psi locker 0 src_file src_line) else State_Monad.return ());
           State_Monad.return locker
         } else State_Monad.return 0
       } else State_Monad.return 0);
     result \<leftarrow> os_my_delete_with_symlink os name flags;
     (if locker \<noteq> 0 then psi_call () (end_file_wait psi locker 0) else State_Monad.return ());
     State_Monad.return result
   }"

definition inline_mysql_file_rename_with_symlink ::
  "config \<Rightarrow> 'w PSI_v1 \<Rightarrow> 'w file_os \<Rightarrow> addr \<Rightarrow> PSI_file_key \<Rightarrow> c_str \<Rightarrow> c_uint \<Rightarrow> c_str \<Rightarrow> c_str \<Rightarrow> myf \<Rightarrow> ('w, int) prog" where
  "inline_mysql_file_rename_with_symlink cfg psi os locker_addr key src_file src_line frm dst flags = do {
     locker \<leftarrow> (if have_psi_interface cfg then do {
         s \<leftarrow> State_Monad.get;
         if PSI_server s then do {
           locker \<leftarrow> get_thread_file_name_locker psi key PSI_FILE_RENAME dst locker_addr;
           (if locker \<noteq> 0 then psi_call () (start_file_wait psi locker 0 src_file src_line) else State_Monad.return ());
           State_Monad.return locker
         } else State_Monad.return 0
       } else State_Monad.return 0);
     result \<leftarrow> os_my_rename_with_symlink os frm dst flags;
     (if locker \<noteq> 0 then psi_call () (end_file_wait psi locker 0) else State_Monad.return ());
     State_Monad.return result
   }"

definition inline_mysql_file_sync ::
  "config \<Rightarrow> 'w PSI_v1 \<Rightarrow> 'w file_os \<Rightarrow> c_str \<Rightarrow> c_uint \<Rightarrow> File \<Rightarrow> myf \<Rightarrow> ('w, int) prog" where
  "inline_mysql_file_sync cfg psi os src_file src_line fd flags = do {
     locker \<leftarrow> (if have_psi_interface cfg then do {
         s \<leftarrow> State_Monad.get;
         if PSI_server s then do {
           locker \<leftarrow> get_thread_file_descriptor_locker psi fd PSI_FILE_SYNC;
           (if locker \<noteq> 0 then psi_call () (start_file_wait psi locker 0 src_file src_line) else State_Monad.return ());
           State_Monad.return locker
         } else State_Monad.return 0
       } else State_Monad.return 0);
     result \<leftarrow> os_my_sync os fd flags;
     (if locker \<noteq> 0 then psi_call () (end_file_wait psi locker 0) else State_Monad.return ());
     State_Monad.return result
   }"

section \<open>The public macros\<close>

definition mysql_file_fgets ::
  "config \<Rightarrow> 'w PSI_v1 \<Rightarrow> 'w file_os \<Rightarrow> addr \<Rightarrow> int \<Rightarrow> addr \<Rightarrow> site \<Rightarrow> ('w, addr) prog" where
  "mysql_file_fgets cfg psi os str sz file site =
     (if have_psi_interface cfg
      then inline_mysql_file_fgets cfg psi os (fst site) (snd site) str sz file
      else inline_mysql_file_fgets cfg psi os (fst no_site) (snd no_site) str sz file)"

definition mysql_file_fgetc ::
  "config \<Rightarrow> 'w PSI_v1 \<Rightarrow> 'w file_os \<Rightarrow> addr \<Rightarrow> site \<Rightarrow> ('w, int) prog" where
  "mysql_file_fgetc cfg psi os file site =
     (if have_psi_interface cfg
      then inline_mysql_file_fgetc cfg psi os (fst site) (snd site) file
      else inline_mysql_file_fgetc cfg psi os (fst no_site) (snd no_site) file)"

definition mysql_file_fputs ::
  "config \<Rightarrow> 'w PSI_v1 \<Rightarrow> 'w file_os \<Rightarrow> addr \<Rightarrow> addr \<Rightarrow> site \<Rightarrow> ('w, int) prog" where
  "mysql_file_fputs cfg psi os str file site =
     (if have_psi_interface cfg
      then inline_mysql_file_fputs cfg psi os (fst site) (snd site) str file
      else inline_mysql_file_fputs cfg psi os (fst no_site) (snd no_site) str file)"

definition mysql_file_fputc ::
  "config \<Rightarrow> 'w PSI_v1 \<Rightarrow> 'w file_os \<Rightarrow> int \<Rightarrow> addr \<Rightarrow> site \<Rightarrow> ('w, int) prog" where
  "mysql_file_fputc cfg psi os c file site =
     (if have_psi_interface cfg
      then inline_mysql_file_fputc cfg psi os (fst site) (snd site) (word_of_int c) file
      else inline_mysql_file_fputc cfg psi os (fst no_site) (snd no_site) (word_of_int c) file)"

definition mysql_file_fprintf ::
  "config \<Rightarrow> 'w PSI_v1 \<Rightarrow> 'w file_os \<Rightarrow> c_str \<Rightarrow> c_uint \<Rightarrow> addr \<Rightarrow> addr \<Rightarrow> addr \<Rightarrow> ('w, int) prog" where
  "mysql_file_fprintf = inline_mysql_file_fprintf"

definition mysql_file_vfprintf ::
  "config \<Rightarrow> 'w PSI_v1 \<Rightarrow> 'w file_os \<Rightarrow> addr \<Rightarrow> addr \<Rightarrow> addr \<Rightarrow> site \<Rightarrow> ('w, int) prog" where
  "mysql_file_vfprintf cfg psi os file format args site =
     (if have_psi_interface cfg
      then inline_mysql_file_vfprintf cfg psi os (fst site) (snd site) file format args
      else inline_mysql_file_vfprintf cfg psi os (fst no_site) (snd no_site) file format args)"

definition mysql_file_fflush ::
  "config \<Rightarrow> 'w PSI_v1 \<Rightarrow> 'w file_os \<Rightarrow> addr \<Rightarrow> site \<Rightarrow> ('w, int) prog" where
  "mysql_file_fflush cfg psi os file site =
     (if have_psi_interface cfg
      then inline_mysql_file_fflush cfg psi os (fst site) (snd site) file
      else inline_mysql_file_fflush cfg psi os (fst no_site) (snd no_site) file)"

definition mysql_file_feof ::
  "'w file_os \<Rightarrow> addr \<Rightarrow> ('w, int) prog" where
  "mysql_file_feof = inline_mysql_file_feof"

definition mysql_file_fstat ::
  "config \<Rightarrow> 'w PSI_v1 \<Rightarrow> 'w file_os \<Rightarrow> int \<Rightarrow> addr \<Rightarrow> myf \<Rightarrow> site \<Rightarrow> ('w, int) prog" where
  "mysql_file_fstat cfg psi os filenr stat_area flags site =
     (if have_psi_interface cfg
      then inline_mysql_file_fstat cfg psi os (fst site) (snd site) filenr stat_area flags
      else inline_mysql_file_fstat cfg psi os (fst no_site) (snd no_site) filenr stat_area flags)"

definition mysql_file_stat ::
  "config \<Rightarrow> 'w PSI_v1 \<Rightarrow> 'w file_os \<Rightarrow> addr \<Rightarrow> PSI_file_key \<Rightarrow> c_str \<Rightarrow> addr \<Rightarrow> myf \<Rightarrow> site \<Rightarrow> ('w, addr) prog" where
  "mysql_file_stat cfg psi os locker_addr key path stat_area flags site =
     (if have_psi_interface cfg
      then inline_mysql_file_stat cfg psi os locker_addr key (fst site) (snd site) path stat_area flags
      else inline_mysql_file_stat cfg psi os locker_addr key (fst no_site) (snd no_site) path stat_area flags)"

definition mysql_file_chsize ::
  "config \<Rightarrow> 'w PSI_v1 \<Rightarrow> 'w file_os \<Rightarrow> File \<Rightarrow> my_off_t \<Rightarrow> int \<Rightarrow> myf \<Rightarrow> site \<Rightarrow> ('w, int) prog" where
  "mysql_file_chsize cfg psi os file newlength filler flags site =
     (if have_psi_interface cfg
      then inline_mysql_file_chsize cfg psi os (fst site) (snd site) file newlength filler flags
      else inline_mysql_file_chsize cfg psi os (fst no_site) (snd no_site) file newlength filler flags)"

definition mysql_file_fopen ::
  "config \<Rightarrow> 'w PSI_v1 \<Rightarrow> 'w file_os \<Rightarrow> PSI_file_key \<Rightarrow> c_str \<Rightarrow> int \<Rightarrow> myf \<Rightarrow> site \<Rightarrow> ('w, addr) prog" where
  "mysql_file_fopen cfg psi os key filename flags myFlags site =
     (if have_psi_interface cfg
      then inline_mysql_file_fopen cfg psi os key (fst site) (snd site) filename flags myFlags
      else inline_mysql_file_fopen cfg psi os key (fst no_site) (snd no_site) filename flags myFlags)"

definition mysql_file_fclose ::
  "config \<Rightarrow> 'w PSI_v1 \<Rightarrow> 'w file_os \<Rightarrow> addr \<Rightarrow> myf \<Rightarrow> site \<Rightarrow> ('w, int) prog" where
  "mysql_file_fclose cfg psi os file flags site =
     (if have_psi_interface cfg
      then inline_mysql_file_fclose cfg psi os (fst site) (snd site) file flags
      else inline_mysql_file_fclose cfg psi os (fst no_site) (snd no_site) file flags)"

definition mysql_file_fread ::
  "config \<Rightarrow> 'w PSI_v1 \<Rightarrow> 'w file_os \<Rightarrow> addr \<Rightarrow> addr \<Rightarrow> size_t \<Rightarrow> myf \<Rightarrow> site \<Rightarrow> ('w, size_t) prog" where
  "mysql_file_fread cfg psi os file buffer count flags site =
     (if have_psi_interface cfg
      then inline_mysql_file_fread cfg psi os (fst site) (snd site) file buffer count flags
      else inline_mysql_file_fread cfg psi os (fst no_site) (snd no_site) file buffer count flags)"

definition mysql_file_fwrite ::
  "config \<Rightarrow> 'w PSI_v1 \<Rightarrow> 'w file_os \<Rightarrow> addr \<Rightarrow> addr \<Rightarrow> size_t \<Rightarrow> myf \<Rightarrow> site \<Rightarrow> ('w, size_t) prog" where
  "mysql_file_fwrite cfg psi os file buffer count flags site =
     (if have_psi_interface cfg
      then inline_mysql_file_fwrite cfg psi os (fst site) (snd site) file buffer count flags
      else inline_mysql_file_fwrite cfg psi os (fst no_site) (snd no_site) file buffer count flags)"

definition mysql_file_fseek ::
  "config \<Rightarrow> 'w PSI_v1 \<Rightarrow> 'w file_os \<Rightarrow> addr \<Rightarrow> my_off_t \<Rightarrow> int \<Rightarrow> myf \<Rightarrow> site \<Rightarrow> ('w, my_off_t) prog" where
  "mysql_file_fseek cfg psi os file pos whence flags site =
     (if have_psi_interface cfg
      then inline_mysql_file_fseek cfg psi os (fst site) (snd site) file pos whence flags
      else inline_mysql_file_fseek cfg psi os (fst no_site) (snd no_site) file pos whence flags)"

definition mysql_file_ftell ::
  "config \<Rightarrow> 'w PSI_v1 \<Rightarrow> 'w file_os \<Rightarrow> addr \<Rightarrow> myf \<Rightarrow> site \<Rightarrow> ('w, my_off_t) prog" where
  "mysql_file_ftell cfg psi os file flags site =
     (if have_psi_interface cfg
      then inline_mysql_file_ftell cfg psi os (fst site) (snd site) file flags
      else inline_mysql_file_ftell cfg psi os (fst no_site) (snd no_site) file flags)"

definition mysql_file_create ::
  "config \<Rightarrow> 'w PSI_v1 \<Rightarrow> 'w file_os \<Rightarrow> addr \<Rightarrow> PSI_file_key \<Rightarrow> c_str \<Rightarrow> int \<Rightarrow> int \<Rightarrow> myf \<Rightarrow> site \<Rightarrow> ('w, File) prog" where
  "mysql_file_create cfg psi os locker_addr key filename create_flags access_flags myFlags site =
     (if have_psi_interface cfg
      then inline_mysql_file_create cfg psi os locker_addr key (fst site) (snd site) filename create_flags access_flags myFlags
      else inline_mysql_file_create cfg psi os locker_addr key (fst no_site) (snd no_site) filename create_flags access_flags myFlags)"

definition mysql_file_create_temp ::
  "config \<Rightarrow> 'w PSI_v1 \<Rightarrow> 'w file_os \<Rightarrow> PSI_file_key \<Rightarrow> addr \<Rightarrow> c_str \<Rightarrow> c_str \<Rightarrow> int \<Rightarrow> myf \<Rightarrow> ('w, File) prog" where
  "mysql_file_create_temp = inline_mysql_file_create_temp"

definition mysql_file_open ::
  "config \<Rightarrow> 'w PSI_v1 \<Rightarrow> 'w file_os \<Rightarrow> addr \<Rightarrow> PSI_file_key \<Rightarrow> c_str \<Rightarrow> int \<Rightarrow> myf \<Rightarrow> site \<Rightarrow> ('w, File) prog" where
  "mysql_file_open cfg psi os locker_addr key filename flags myFlags site =
     (if have_psi_interface cfg
      then inline_mysql_file_open cfg psi os locker_addr key (fst site) (snd site) filename flags myFlags
      else inline_mysql_file_open cfg psi os locker_addr key (fst no_site) (snd no_site) filename flags myFlags)"

definition mysql_file_close ::
  "config \<Rightarrow> 'w PSI_v1 \<Rightarrow> 'w file_os \<Rightarrow> File \<Rightarrow> myf \<Rightarrow> site \<Rightarrow> ('w, int) prog" where
  "mysql_file_close cfg psi os file flags site =
     (if have_psi_interface cfg
      then inline_mysql_file_close cfg psi os (fst site) (snd site) file flags
      else inline_mysql_file_close cfg psi os (fst no_site) (snd no_site) file flags)"

definition mysql_file_read ::
  "config \<Rightarrow> 'w PSI_v1 \<Rightarrow> 'w file_os \<Rightarrow> File \<Rightarrow> addr \<Rightarrow> size_t \<Rightarrow> myf \<Rightarrow> site \<Rightarrow> ('w, size_t) prog" where
  "mysql_file_read cfg psi os file buffer count flags site =
     (if have_psi_interface cfg
      then inline_mysql_file_read cfg psi os (fst site) (snd site) file buffer count flags
      else inline_mysql_file_read cfg psi os (fst no_site) (snd no_site) file buffer count flags)"

definition mysql_file_write ::
  "config \<Rightarrow> 'w PSI_v1 \<Rightarrow> 'w file_os \<Rightarrow> File \<Rightarrow> addr \<Rightarrow> size_t \<Rightarrow> myf \<Rightarrow> site \<Rightarrow> ('w, size_t) prog" where
  "mysql_file_write cfg psi os file buffer count flags site =
     (if have_psi_interface cfg
      then inline_mysql_file_write cfg psi os (fst site) (snd site) file buffer count flags
      else inline_mysql_file_write cfg psi os (fst no_site) (snd no_site) file buffer count flags)"

definition mysql_file_pread ::
  "config \<Rightarrow> 'w PSI_v1 \<Rightarrow> 'w file_os \<Rightarrow> File \<Rightarrow> addr \<Rightarrow> size_t \<Rightarrow> my_off_t \<Rightarrow> myf \<Rightarrow> site \<Rightarrow> ('w, size_t) prog" where
  "mysql_file_pread cfg psi os file buffer count offset flags site =
     (if have_psi_interface cfg
      then inline_mysql_file_pread cfg psi os (fst site) (snd site) file buffer count offset flags
      else inline_mysql_file_pread cfg psi os (fst no_site) (snd no_site) file buffer count offset flags)"

definition mysql_file_pwrite ::
  "config \<Rightarrow> 'w PSI_v1 \<Rightarrow> 'w file_os \<Rightarrow> File \<Rightarrow> addr \<Rightarrow> size_t \<Rightarrow> my_off_t \<Rightarrow> myf \<Rightarrow> site \<Rightarrow> ('w, size_t) prog" where
  "mysql_file_pwrite cfg psi os file buffer count offset flags site =
     (if have_psi_interface cfg
      then inline_mysql_file_pwrite cfg psi os (fst site) (snd site) file buffer count offset flags
      else inline_mysql_file_pwrite cfg psi os (fst no_site) (snd no_site) file buffer count offset flags)"

definition mysql_file_seek ::
  "config \<Rightarrow> 'w PSI_v1 \<Rightarrow> 'w file_os \<Rightarrow> File \<Rightarrow> my_off_t \<Rightarrow> int \<Rightarrow> myf \<Rightarrow> site \<Rightarrow> ('w, my_off_t) prog" where
  "mysql_file_seek cfg psi os file pos whence flags site =
     (if have_psi_interface cfg
      then inline_mysql_file_seek cfg psi os (fst site) (snd site) file pos whence flags
      else inline_mysql_file_seek cfg psi os (fst no_site) (snd no_site) file pos whence flags)"

definition mysql_file_tell ::
  "config \<Rightarrow> 'w PSI_v1 \<Rightarrow> 'w file_os \<Rightarrow> File \<Rightarrow> myf \<Rightarrow> site \<Rightarrow> ('w, my_off_t) prog" where
  "mysql_file_tell cfg psi os file flags site =
     (if have_psi_interface cfg
      then inline_mysql_file_tell cfg psi os (fst site) (snd site) file flags
      else inline_mysql_file_tell cfg psi os (fst no_site) (snd no_site) file flags)"

definition mysql_file_delete ::
  "config \<Rightarrow> 'w PSI_v1 \<Rightarrow> 'w file_os \<Rightarrow> addr \<Rightarrow> PSI_file_key \<Rightarrow> c_str \<Rightarrow> myf \<Rightarrow> site \<Rightarrow> ('w, int) prog" where
  "mysql_file_delete cfg psi os locker_addr key name flags site =
     (if have_psi_interface cfg
      then inline_mysql_file_delete cfg psi os locker_addr key (fst site) (snd site) name flags
      else inline_mysql_file_delete cfg psi os locker_addr key (fst no_site) (snd no_site) name flags)"

definition mysql_file_rename ::
  "config \<Rightarrow> 'w PSI_v1 \<Rightarrow> 'w file_os \<Rightarrow> addr \<Rightarrow> PSI_file_key \<Rightarrow> c_str \<Rightarrow> c_str \<Rightarrow> myf \<Rightarrow> site \<Rightarrow> ('w, int) prog" where
  "mysql_file_rename cfg psi os locker_addr key frm dst flags site =
     (if have_psi_interface cfg
      then inline_mysql_file_rename cfg psi os locker_addr key (fst site) (snd site) frm dst flags
      else inline_mysql_file_rename cfg psi os locker_addr key (fst no_site) (snd no_site) frm dst flags)"

definition mysql_file_create_with_symlink ::
  "config \<Rightarrow> 'w PSI_v1 \<Rightarrow> 'w file_os \<Rightarrow> addr \<Rightarrow> PSI_file_key \<Rightarrow> c_str \<Rightarrow> c_str \<Rightarrow> int \<Rightarrow> int \<Rightarrow> myf \<Rightarrow> site \<Rightarrow> ('w, File) prog" where
  "mysql_file_create_with_symlink cfg psi os locker_addr key linkname filename create_flags access_flags flags site =
     (if have_psi_interface cfg
      then inline_mysql_file_create_with_symlink cfg psi os locker_addr key (fst site) (snd site) linkname filename create_flags access_flags flags
      else inline_mysql_file_create_with_symlink cfg psi os locker_addr key (fst no_site) (snd no_site) linkname filename create_flags access_flags flags)"

definition mysql_file_delete_with_symlink ::
  "config \<Rightarrow> 'w PSI_v1 \<Rightarrow> 'w file_os \<Rightarrow> addr \<Rightarrow> PSI_file_key \<Rightarrow> c_str \<Rightarrow> myf \<Rightarrow> site \<Rightarrow> ('w, int) prog" where
  "mysql_file_delete_with_symlink cfg psi os locker_addr key name flags site =
     (if have_psi_interface cfg
      then inline_mysql_file_delete_with_symlink cfg psi os locker_addr key (fst site) (snd site) name flags
      else inline_mysql_file_delete_with_symlink cfg psi os locker_addr key (fst no_site) (snd no_site) name flags)"

definition mysql_file_rename_with_symlink ::
  "config \<Rightarrow> 'w PSI_v1 \<Rightarrow> 'w file_os \<Rightarrow> addr \<Rightarrow> PSI_file_key \<Rightarrow> c_str \<Rightarrow> c_str \<Rightarrow> myf \<Rightarrow> site \<Rightarrow> ('w, int) prog" where
  "mysql_file_rename_with_symlink cfg psi os locker_addr key frm dst flags site =
     (if have_psi_interface cfg
      then inline_mysql_file_rename_with_symlink cfg psi os locker_addr key (fst site) (snd site) frm dst flags
      else inline_mysql_file_rename_with_symlink cfg psi os locker_addr key (fst no_site) (snd no_site) frm dst flags)"

definition mysql_file_sync ::
  "config \<Rightarrow> 'w PSI_v1 \<Rightarrow> 'w file_os \<Rightarrow> File \<Rightarrow> myf \<Rightarrow> site \<Rightarrow> ('w, int) prog" where
  "mysql_file_sync cfg psi os fd flags site =
     (if have_psi_interface cfg
      then inline_mysql_file_sync cfg psi os (fst site) (snd site) fd flags
      else inline_mysql_file_sync cfg psi os (fst no_site) (snd no_site) fd flags)"

section \<open>Every wrapper is a wait wrapper\<close>

interpretation file_fgets: psi_wait "have_psi_interface cfg" "\<lambda>s. PSI_server s \<and> get_m_psi s file \<noteq> 0"
  "\<lambda>s. do { l \<leftarrow> get_thread_file_stream_locker psi (get_m_psi s file) PSI_FILE_READ; State_Monad.return (l, ()) }"
  "\<lambda>lk. psi_call () (start_file_wait psi (fst lk) (word_of_int sz) src_file src_line)"
  "on_stream file (os_fgets os str sz)"
  "\<lambda>lk r. do { n \<leftarrow> (if r \<noteq> 0 then os_strlen os r else State_Monad.return 0); psi_call () (end_file_wait psi (fst lk) n) }" "()"
  "inline_mysql_file_fgets cfg psi os src_file src_line str sz file"
  for cfg and psi :: "'w PSI_v1" and os src_file and src_line and str and sz and "file"
  by unfold_locales (auto intro!: state_ext simp: inline_mysql_file_fgets_def split_beta)

interpretation file_fgetc: psi_wait "have_psi_interface cfg" "\<lambda>s. PSI_server s \<and> get_m_psi s file \<noteq> 0"
  "\<lambda>s. do { l \<leftarrow> get_thread_file_stream_locker psi (get_m_psi s file) PSI_FILE_READ; State_Monad.return (l, ()) }"
  "\<lambda>lk. psi_call () (start_file_wait psi (fst lk) 1 src_file src_line)"
  "on_stream file (os_fgetc os)"
  "\<lambda>lk r. psi_call () (end_file_wait psi (fst lk) 1)" "()"
  "inline_mysql_file_fgetc cfg psi os src_file src_line file"
  for cfg and psi :: "'w PSI_v1" and os src_file and src_line and "file"
  by unfold_locales (auto intro!: state_ext simp: inline_mysql_file_fgetc_def split_beta)

interpretation file_fputs: psi_wait "have_psi_interface cfg" "\<lambda>s. PSI_server s \<and> get_m_psi s file \<noteq> 0"
  "\<lambda>s. do { l \<leftarrow> get_thread_file_stream_locker psi (get_m_psi s file) PSI_FILE_WRITE; b \<leftarrow> (if l \<noteq> 0 then (if str \<noteq> 0 then os_strlen os str else State_Monad.return 0) else State_Monad.return 0); State_Monad.return (l, b) }"
  "\<lambda>lk. psi_call () (start_file_wait psi (fst lk) (snd lk) src_file src_line)"
  "on_stream file (os_fputs os str)"
  "\<lambda>lk r. psi_call () (end_file_wait psi (fst lk) (snd lk))" "(0 :: size_t)"
  "inline_mysql_file_fputs cfg psi os src_file src_line str file"
  for cfg and psi :: "'w PSI_v1" and os src_file and src_line and str and "file"
  by unfold_locales (auto intro!: state_ext simp: inline_mysql_file_fputs_def split_beta)

interpretation file_fputc: psi_wait "have_psi_interface cfg" "\<lambda>s. PSI_server s \<and> get_m_psi s file \<noteq> 0"
  "\<lambda>s. do { l \<leftarrow> get_thread_file_stream_locker psi (get_m_psi s file) PSI_FILE_WRITE; State_Monad.return (l, ()) }"
  "\<lambda>lk. psi_call () (start_file_wait psi (fst lk) 1 src_file src_line)"
  "on_stream file (os_fputc os (sint c))"
  "\<lambda>lk r. psi_call () (end_file_wait psi (fst lk) 1)" "()"
  "inline_mysql_file_fputc cfg psi os src_file src_line c file"
  for cfg and psi :: "'w PSI_v1" and os src_file and src_line and c and "file"
  by unfold_locales (auto intro!: state_ext simp: inline_mysql_file_fputc_def split_beta)

interpretation file_fprintf: psi_wait "have_psi_interface cfg" "\<lambda>s. PSI_server s \<and> get_m_psi s file \<noteq> 0"
  "\<lambda>s. do { l \<leftarrow> get_thread_file_stream_locker psi (get_m_psi s file) PSI_FILE_WRITE; State_Monad.return (l, ()) }"
  "\<lambda>lk. psi_call () (start_file_wait psi (fst lk) 0 header_file header_line)"
  "on_stream file (\<lambda>fp. os_vfprintf os fp format args)"
  "\<lambda>lk r. psi_call () (end_file_wait psi (fst lk) (word_of_int r))" "()"
  "inline_mysql_file_fprintf cfg psi os header_file header_line file format args"
  for cfg and psi :: "'w PSI_v1" and os header_file and header_line and "file" and format and args
  by unfold_locales (auto intro!: state_ext simp: inline_mysql_file_fprintf_def split_beta)

interpretation file_vfprintf: psi_wait "have_psi_interface cfg" "\<lambda>s. PSI_server s \<and> get_m_psi s file \<noteq> 0"
  "\<lambda>s. do { l \<leftarrow> get_thread_file_stream_locker psi (get_m_psi s file) PSI_FILE_WRITE; State_Monad.return (l, ()) }"
  "\<lambda>lk. psi_call () (start_file_wait psi (fst lk) 0 src_file src_line)"
  "on_stream file (\<lambda>fp. os_vfprintf os fp format args)"
  "\<lambda>lk r. psi_call () (end_file_wait psi (fst lk) (word_of_int r))" "()"
  "inline_mysql_file_vfprintf cfg psi os src_file src_line file format args"
  for cfg and psi :: "'w PSI_v1" and os src_file and src_line and "file" and format and args
  by unfold_locales (auto intro!: state_ext simp: inline_mysql_file_vfprintf_def split_beta)

interpretation file_fflush: psi_wait "have_psi_interface cfg" "\<lambda>s. PSI_server s \<and> get_m_psi s file \<noteq> 0"
  "\<lambda>s. do { l \<leftarrow> get_thread_file_stream_locker psi (get_m_psi s file) PSI_FILE_FLUSH; State_Monad.return (l, ()) }"
  "\<lambda>lk. psi_call () (start_file_wait psi (fst lk) 0 src_file src_line)"
  "on_stream file (os_fflush os)"
  "\<lambda>lk r. psi_call () (end_file_wait psi (fst lk) 0)" "()"
  "inline_mysql_file_fflush cfg psi os src_file src_line file"
  for cfg and psi :: "'w PSI_v1" and os src_file and src_line and "file"
  by unfold_locales (auto intro!: state_ext simp: inline_mysql_file_fflush_def split_beta)

interpretation file_fstat: psi_wait "have_psi_interface cfg" "\<lambda>s. PSI_server s"
  "\<lambda>s. do { l \<leftarrow> get_thread_file_descriptor_locker psi filenr PSI_FILE_FSTAT; State_Monad.return (l, ()) }"
  "\<lambda>lk. psi_call () (start_file_wait psi (fst lk) 0 src_file src_line)"
  "os_my_fstat os filenr stat_area flags"
  "\<lambda>lk r. psi_call () (end_file_wait psi (fst lk) 0)" "()"
  "inline_mysql_file_fstat cfg psi os src_file src_line filenr stat_area flags"
  for cfg and psi :: "'w PSI_v1" and os src_file and src_line and filenr and stat_area and flags
  by unfold_locales (auto intro!: state_ext simp: inline_mysql_file_fstat_def split_beta)

interpretation file_stat: psi_wait "have_psi_interface cfg" "\<lambda>s. PSI_server s"
  "\<lambda>s. do { l \<leftarrow> get_thread_file_name_locker psi key PSI_FILE_STAT path locker_addr; State_Monad.return (l, ()) }"
  "\<lambda>lk. do { psi_call 0 (start_file_open_wait psi (fst lk) src_file src_line); State_Monad.return () }"
  "os_my_stat os path stat_area flags"
  "\<lambda>lk r. psi_call () (end_file_wait psi (fst lk) 0)" "()"
  "inline_mysql_file_stat cfg psi os locker_addr key src_file src_line path stat_area flags"
  for cfg and psi :: "'w PSI_v1" and os locker_addr and key and src_file and src_line and path and stat_area and flags
  by unfold_locales (auto intro!: state_ext simp: inline_mysql_file_stat_def split_beta)

interpretation file_chsize: psi_wait "have_psi_interface cfg" "\<lambda>s. PSI_server s"
  "\<lambda>s. do { l \<leftarrow> get_thread_file_descriptor_locker psi file PSI_FILE_CHSIZE; State_Monad.return (l, ()) }"
  "\<lambda>lk. psi_call () (start_file_wait psi (fst lk) (ucast newlength) src_file src_line)"
  "os_my_chsize os file newlength filler flags"
  "\<lambda>lk r. psi_call () (end_file_wait psi (fst lk) (ucast newlength))" "()"
  "inline_mysql_file_chsize cfg psi os src_file src_line file newlength filler flags"
  for cfg and psi :: "'w PSI_v1" and os src_file and src_line and "file" and newlength and filler and flags
  by unfold_locales (auto intro!: state_ext simp: inline_mysql_file_chsize_def split_beta)

interpretation file_fread: psi_wait "have_psi_interface cfg" "\<lambda>s. PSI_server s \<and> get_m_psi s file \<noteq> 0"
  "\<lambda>s. do { l \<leftarrow> get_thread_file_stream_locker psi (get_m_psi s file) PSI_FILE_READ; State_Monad.return (l, ()) }"
  "\<lambda>lk. psi_call () (start_file_wait psi (fst lk) count src_file src_line)"
  "on_stream file (\<lambda>fp. os_my_fread os fp buffer count flags)"
  "\<lambda>lk r. psi_call () (end_file_wait psi (fst lk) (bytes_moved flags count r))" "()"
  "inline_mysql_file_fread cfg psi os src_file src_line file buffer count flags"
  for cfg and psi :: "'w PSI_v1" and os src_file and src_line and "file" and buffer and count and flags
  by unfold_locales (auto intro!: state_ext simp: inline_mysql_file_fread_def split_beta)

interpretation file_fwrite: psi_wait "have_psi_interface cfg" "\<lambda>s. PSI_server s \<and> get_m_psi s file \<noteq> 0"
  "\<lambda>s. do { l \<leftarrow> get_thread_file_stream_locker psi (get_m_psi s file) PSI_FILE_WRITE; State_Monad.return (l, ()) }"
  "\<lambda>lk. psi_call () (start_file_wait psi (fst lk) count src_file src_line)"
  "on_stream file (\<lambda>fp. os_my_fwrite os fp buffer count flags)"
  "\<lambda>lk r. psi_call () (end_file_wait psi (fst lk) (bytes_moved flags count r))" "()"
  "inline_mysql_file_fwrite cfg psi os src_file src_line file buffer count flags"
  for cfg and psi :: "'w PSI_v1" and os src_file and src_line and "file" and buffer and count and flags
  by unfold_locales (auto intro!: state_ext simp: inline_mysql_file_fwrite_def split_beta)

interpretation file_fseek: psi_wait "have_psi_interface cfg" "\<lambda>s. PSI_server s \<and> get_m_psi s file \<noteq> 0"
  "\<lambda>s. do { l \<leftarrow> get_thread_file_stream_locker psi (get_m_psi s file) PSI_FILE_SEEK; State_Monad.return (l, ()) }"
  "\<lambda>lk. psi_call () (start_file_wait psi (fst lk) 0 src_file src_line)"
  "on_stream file (\<lambda>fp. os_my_fseek os fp pos whence flags)"
  "\<lambda>lk r. psi_call () (end_file_wait psi (fst lk) 0)" "()"
  "inline_mysql_file_fseek cfg psi os src_file src_line file pos whence flags"
  for cfg and psi :: "'w PSI_v1" and os src_file and src_line and "file" and pos and whence and flags
  by unfold_locales (auto intro!: state_ext simp: inline_mysql_file_fseek_def split_beta)

interpretation file_ftell: psi_wait "have_psi_interface cfg" "\<lambda>s. PSI_server s \<and> get_m_psi s file \<noteq> 0"
  "\<lambda>s. do { l \<leftarrow> get_thread_file_stream_locker psi (get_m_psi s file) PSI_FILE_TELL; State_Monad.return (l, ()) }"
  "\<lambda>lk. psi_call () (start_file_wait psi (fst lk) 0 src_file src_line)"
  "on_stream file (\<lambda>fp. os_my_ftell os fp flags)"
  "\<lambda>lk r. psi_call () (end_file_wait psi (fst lk) 0)" "()"
  "inline_mysql_file_ftell cfg psi os src_file src_line file flags"
  for cfg and psi :: "'w PSI_v1" and os src_file and src_line and "file" and flags
  by unfold_locales (auto intro!: state_ext simp: inline_mysql_file_ftell_def split_beta)

interpretation file_create: psi_wait "have_psi_interface cfg" "\<lambda>s. PSI_server s"
  "\<lambda>s. do { l \<leftarrow> get_thread_file_name_locker psi key PSI_FILE_CREATE filename locker_addr; State_Monad.return (l, ()) }"
  "\<lambda>lk. do { psi_call 0 (start_file_open_wait psi (fst lk) src_file src_line); State_Monad.return () }"
  "os_my_create os filename create_flags access_flags myFlags"
  "\<lambda>lk r. psi_call () (end_file_open_wait_and_bind_to_descriptor psi (fst lk) r)" "()"
  "inline_mysql_file_create cfg psi os locker_addr key src_file src_line filename create_flags access_flags myFlags"
  for cfg and psi :: "'w PSI_v1" and os locker_addr and key and src_file and src_line and filename and create_flags and access_flags and myFlags
  by unfold_locales (auto intro!: state_ext simp: inline_mysql_file_create_def split_beta)

interpretation file_open: psi_wait "have_psi_interface cfg" "\<lambda>s. PSI_server s"
  "\<lambda>s. do { l \<leftarrow> get_thread_file_name_locker psi key PSI_FILE_OPEN filename locker_addr; State_Monad.return (l, ()) }"
  "\<lambda>lk. do { psi_call 0 (start_file_open_wait psi (fst lk) src_file src_line); State_Monad.return () }"
  "os_my_open os filename flags myFlags"
  "\<lambda>lk r. psi_call () (end_file_open_wait_and_bind_to_descriptor psi (fst lk) r)" "()"
  "inline_mysql_file_open cfg psi os locker_addr key src_file src_line filename flags myFlags"
  for cfg and psi :: "'w PSI_v1" and os locker_addr and key and src_file and src_line and filename and flags and myFlags
  by unfold_locales (auto intro!: state_ext simp: inline_mysql_file_open_def split_beta)

interpretation file_close: psi_wait "have_psi_interface cfg" "\<lambda>s. PSI_server s"
  "\<lambda>s. do { l \<leftarrow> get_thread_file_descriptor_locker psi file PSI_FILE_CLOSE; State_Monad.return (l, ()) }"
  "\<lambda>lk. psi_call () (start_file_wait psi (fst lk) 0 src_file src_line)"
  "os_my_close os file flags"
  "\<lambda>lk r. psi_call () (end_file_wait psi (fst lk) 0)" "()"
  "inline_mysql_file_close cfg psi os src_file src_line file flags"
  for cfg and psi :: "'w PSI_v1" and os src_file and src_line and "file" and flags
  by unfold_locales (auto intro!: state_ext simp: inline_mysql_file_close_def split_beta)

interpretation file_read: psi_wait "have_psi_interface cfg" "\<lambda>s. PSI_server s"
  "\<lambda>s. do { l \<leftarrow> get_thread_file_descriptor_locker psi file PSI_FILE_READ; State_Monad.return (l, ()) }"
  "\<lambda>lk. psi_call () (start_file_wait psi (fst lk) count src_file src_line)"
  "os_my_read os file buffer count flags"
  "\<lambda>lk r. psi_call () (end_file_wait psi (fst lk) (bytes_moved flags count r))" "()"
  "inline_mysql_file_read cfg psi os src_file src_line file buffer count flags"
  for cfg and psi :: "'w PSI_v1" and os src_file and src_line and "file" and buffer and count and flags
  by unfold_locales (auto intro!: state_ext simp: inline_mysql_file_read_def split_beta)

interpretation file_write: psi_wait "have_psi_interface cfg" "\<lambda>s. PSI_server s"
  "\<lambda>s. do { l \<leftarrow> get_thread_file_descriptor_locker psi file PSI_FILE_WRITE; State_Monad.return (l, ()) }"
  "\<lambda>lk. psi_call () (start_file_wait psi (fst lk) count src_file src_line)"
  "os_my_write os file buffer count flags"
  "\<lambda>lk r. psi_call () (end_file_wait psi (fst lk) (bytes_moved flags count r))" "()"
  "inline_mysql_file_write cfg psi os src_file src_line file buffer count flags"
  for cfg and psi :: "'w PSI_v1" and os src_file and src_line and "file" and buffer and count and flags
  by unfold_locales (auto intro!: state_ext simp: inline_mysql_file_write_def split_beta)

interpretation file_pread: psi_wait "have_psi_interface cfg" "\<lambda>s. PSI_server s"
  "\<lambda>s. do { l \<leftarrow> get_thread_file_descriptor_locker psi file PSI_FILE_READ; State_Monad.return (l, ()) }"
  "\<lambda>lk. psi_call () (start_file_wait psi (fst lk) count src_file src_line)"
  "os_my_pread os file buffer count offset flags"
  "\<lambda>lk r. psi_call () (end_file_wait psi (fst lk) (bytes_moved flags count r))" "()"
  "inline_mysql_file_pread cfg psi os src_file src_line file buffer count offset flags"
  for cfg and psi :: "'w PSI_v1" and os src_file and src_line and "file" and buffer and count and offset and flags
  by unfold_locales (auto intro!: state_ext simp: inline_mysql_file_pread_def split_beta)

interpretation file_pwrite: psi_wait "have_psi_interface cfg" "\<lambda>s. PSI_server s"
  "\<lambda>s. do { l \<leftarrow> get_thread_file_descriptor_locker psi file PSI_FILE_WRITE; State_Monad.return (l, ()) }"
  "\<lambda>lk. psi_call () (start_file_wait psi (fst lk) count src_file src_line)"
  "os_my_pwrite os file buffer count offset flags"
  "\<lambda>lk r. psi_call () (end_file_wait psi (fst lk) (bytes_moved flags count r))" "()"
  "inline_mysql_file_pwrite cfg psi os src_file src_line file buffer count offset flags"
  for cfg and psi :: "'w PSI_v1" and os src_file and src_line and "file" and buffer and count and offset and flags
  by unfold_locales (auto intro!: state_ext simp: inline_mysql_file_pwrite_def split_beta)

interpretation file_seek: psi_wait "have_psi_interface cfg" "\<lambda>s. PSI_server s"
  "\<lambda>s. do { l \<leftarrow> get_thread_file_descriptor_locker psi file PSI_FILE_SEEK; State_Monad.return (l, ()) }"
  "\<lambda>lk. psi_call () (start_file_wait psi (fst lk) 0 src_file src_line)"
  "os_my_seek os file pos whence flags"
  "\<lambda>lk r. psi_call () (end_file_wait psi (fst lk) 0)" "()"
  "inline_mysql_file_seek cfg psi os src_file src_line file pos whence flags"
  for cfg and psi :: "'w PSI_v1" and os src_file and src_line and "file" and pos and whence and flags
  by unfold_locales (auto intro!: state_ext simp: inline_mysql_file_seek_def split_beta)

interpretation file_tell: psi_wait "have_psi_interface cfg" "\<lambda>s. PSI_server s"
  "\<lambda>s. do { l \<leftarrow> get_thread_file_descriptor_locker psi file PSI_FILE_TELL; State_Monad.return (l, ()) }"
  "\<lambda>lk. psi_call () (start_file_wait psi (fst lk) 0 src_file src_line)"
  "os_my_tell os file flags"
  "\<lambda>lk r. psi_call () (end_file_wait psi (fst lk) 0)" "()"
  "inline_mysql_file_tell cfg psi os src_file src_line file flags"
  for cfg and psi :: "'w PSI_v1" and os src_file and src_line and "file" and flags
  by unfold_locales (auto intro!: state_ext simp: inline_mysql_file_tell_def split_beta)

interpretation file_delete: psi_wait "have_psi_interface cfg" "\<lambda>s. PSI_server s"
  "\<lambda>s. do { l \<leftarrow> get_thread_file_name_locker psi key PSI_FILE_DELETE name locker_addr; State_Monad.return (l, ()) }"
  "\<lambda>lk. psi_call () (start_file_wait psi (fst lk) 0 src_file src_line)"
  "os_my_delete os name flags"
  "\<lambda>lk r. psi_call () (end_file_wait psi (fst lk) 0)" "()"
  "inline_mysql_file_delete cfg psi os locker_addr key src_file src_line name flags"
  for cfg and psi :: "'w PSI_v1" and os locker_addr and key and src_file and src_line and name and flags
  by unfold_locales (auto intro!: state_ext simp: inline_mysql_file_delete_def split_beta)

interpretation file_rename: psi_wait "have_psi_interface cfg" "\<lambda>s. PSI_server s"
  "\<lambda>s. do { l \<leftarrow> get_thread_file_name_locker psi key PSI_FILE_RENAME dst locker_addr; State_Monad.return (l, ()) }"
  "\<lambda>lk. psi_call () (start_file_wait psi (fst lk) 0 src_file src_line)"
  "os_my_rename os frm dst flags"
  "\<lambda>lk r. psi_call () (end_file_wait psi (fst lk) 0)" "()"
  "inline_mysql_file_rename cfg psi os locker_addr key src_file src_line frm dst flags"
  for cfg and psi :: "'w PSI_v1" and os locker_addr and key and src_file and src_line and frm and dst and flags
  by unfold_locales (auto intro!: state_ext simp: inline_mysql_file_rename_def split_beta)

interpretation file_create_with_symlink: psi_wait "have_psi_interface cfg" "\<lambda>s. PSI_server s"
  "\<lambda>s. do { l \<leftarrow> get_thread_file_name_locker psi key PSI_FILE_CREATE filename locker_addr; State_Monad.return (l, ()) }"
  "\<lambda>lk. do { psi_call 0 (start_file_open_wait psi (fst lk) src_file src_line); State_Monad.return () }"
  "os_my_create_with_symlink os linkname filename create_flags access_flags flags"
  "\<lambda>lk r. psi_call () (end_file_open_wait_and_bind_to_descriptor psi (fst lk) r)" "()"
  "inline_mysql_file_create_with_symlink cfg psi os locker_addr key src_file src_line linkname filename create_flags access_flags flags"
  for cfg and psi :: "'w PSI_v1" and os locker_addr and key and src_file and src_line and linkname and filename and create_flags and access_flags and flags
  by unfold_locales (auto intro!: state_ext simp: inline_mysql_file_create_with_symlink_def split_beta)

interpretation file_delete_with_symlink: psi_wait "have_psi_interface cfg" "\<lambda>s. PSI_server s"
  "\<lambda>s. do { l \<leftarrow> get_thread_file_name_locker psi key PSI_FILE_DELETE name locker_addr; State_Monad.return (l, ()) }"
  "\<lambda>lk. psi_call () (start_file_wait psi (fst lk) 0 src_file src_line)"
  "os_my_delete_with_symlink os name flags"
  "\<lambda>lk r. psi_call () (end_file_wait psi (fst lk) 0)" "()"
  "inline_mysql_file_delete_with_symlink cfg psi os locker_addr key src_file src_line name flags"
  for cfg and psi :: "'w PSI_v1" and os locker_addr and key and src_file and src_line and name and flags
  by unfold_locales (auto intro!: state_ext simp: inline_mysql_file_delete_with_symlink_def split_beta)

interpretation file_rename_with_symlink: psi_wait "have_psi_interface cfg" "\<lambda>s. PSI_server s"
  "\<lambda>s. do { l \<leftarrow> get_thread_file_name_locker psi key PSI_FILE_RENAME dst locker_addr; State_Monad.return (l, ()) }"
  "\<lambda>lk. psi_call () (start_file_wait psi (fst lk) 0 src_file src_line)"
  "os_my_rename_with_symlink os frm dst flags"
  "\<lambda>lk r. psi_call () (end_file_wait psi (fst lk) 0)" "()"
  "inline_mysql_file_rename_with_symlink cfg psi os locker_addr key src_file src_line frm dst flags"
  for cfg and psi :: "'w PSI_v1" and os locker_addr and key and src_file and src_line and frm and dst and flags
  by unfold_locales (auto intro!: state_ext simp: inline_mysql_file_rename_with_symlink_def split_beta)

interpretation file_sync: psi_wait "have_psi_interface cfg" "\<lambda>s. PSI_server s"
  "\<lambda>s. do { l \<leftarrow> get_thread_file_descriptor_locker psi fd PSI_FILE_SYNC; State_Monad.return (l, ()) }"
  "\<lambda>lk. psi_call () (start_file_wait psi (fst lk) 0 src_file src_line)"
  "os_my_sync os fd flags"
  "\<lambda>lk r. psi_call () (end_file_wait psi (fst lk) 0)" "()"
  "inline_mysql_file_sync cfg psi os src_file src_line fd flags"
  for cfg and psi :: "'w PSI_v1" and os src_file and src_line and fd and flags
  by unfold_locales (auto intro!: state_ext simp: inline_mysql_file_sync_def split_beta)

interpretation file_fclose: psi_wait "have_psi_interface cfg" "\<lambda>s. PSI_server s \<and> get_m_psi s file \<noteq> 0"
  "\<lambda>s. do { l \<leftarrow> get_thread_file_stream_locker psi (get_m_psi s file) PSI_FILE_STREAM_CLOSE; State_Monad.return (l, ()) }"
  "\<lambda>lk. psi_call () (start_file_wait psi (fst lk) 0 src_file src_line)"
  "on_stream file (\<lambda>fp. os_my_fclose os fp flags)"
  "\<lambda>lk r. psi_call () (end_file_wait psi (fst lk) 0)" "()"
  "fclose_wait cfg psi os src_file src_line file flags"
  for cfg and psi :: "'w PSI_v1" and os src_file and src_line and "file" and flags
  by unfold_locales (auto intro!: state_ext simp: fclose_wait_def split_beta)

interpretation file_fopen: psi_wait "have_psi_interface cfg" "\<lambda>s. PSI_server s"
  "\<lambda>s. do { l \<leftarrow> get_thread_file_name_locker psi key PSI_FILE_STREAM_OPEN filename that; State_Monad.return (l, ()) }"
  "\<lambda>lk. do { hook \<leftarrow> psi_call 0 (start_file_open_wait psi (fst lk) src_file src_line); State_Monad.update (\<lambda>s. s\<lparr>files := (files s)(that := map_option (\<lambda>f. f\<lparr>file_psi := hook\<rparr>) (files s that))\<rparr>) }"
  "do { fp \<leftarrow> os_my_fopen os filename flags myFlags; State_Monad.update (\<lambda>s. s\<lparr>files := (files s)(that := map_option (\<lambda>f. f\<lparr>m_file := fp\<rparr>) (files s that))\<rparr>); State_Monad.return fp }"
  "\<lambda>lk r. psi_call () (end_file_open_wait psi (fst lk))" "()"
  "fopen_wait cfg psi os key src_file src_line filename flags myFlags that"
  for cfg and psi :: "'w PSI_v1" and os key and src_file and src_line and filename and flags and myFlags and that
  by unfold_locales (auto intro!: state_ext simp: fopen_wait_def split_beta)

section \<open>Contracts of the functions below\<close>

text \<open>
  \<open>file_os_respects v os\<close>: what a function returns and does to the view \<open>v\<close> depends on \<open>v\<close> only.
  \<open>file_os_records h os\<close>: an operation on a file is one event, and measuring a string is none.
\<close>

definition file_os_respects :: "('w pstate \<Rightarrow> 'v) \<Rightarrow> 'w file_os \<Rightarrow> bool" where
  "file_os_respects v os \<longleftrightarrow>
     (\<forall>a. sim v (os_strlen os a) (os_strlen os a)) \<and>
     (\<forall>a i a2. sim v (os_fgets os a i a2) (os_fgets os a i a2)) \<and>
     (\<forall>a. sim v (os_fgetc os a) (os_fgetc os a)) \<and>
     (\<forall>a a2. sim v (os_fputs os a a2) (os_fputs os a a2)) \<and>
     (\<forall>i a. sim v (os_fputc os i a) (os_fputc os i a)) \<and>
     (\<forall>a a2 a3. sim v (os_vfprintf os a a2 a3) (os_vfprintf os a a2 a3)) \<and>
     (\<forall>a. sim v (os_fflush os a) (os_fflush os a)) \<and>
     (\<forall>a. sim v (os_feof os a) (os_feof os a)) \<and>
     (\<forall>fd a fl. sim v (os_my_fstat os fd a fl) (os_my_fstat os fd a fl)) \<and>
     (\<forall>a a2 fl. sim v (os_my_stat os a a2 fl) (os_my_stat os a a2 fl)) \<and>
     (\<forall>fd off i fl. sim v (os_my_chsize os fd off i fl) (os_my_chsize os fd off i fl)) \<and>
     (\<forall>n fl. sim v (os_my_malloc os n fl) (os_my_malloc os n fl)) \<and>
     (\<forall>a. sim v (os_my_free os a) (os_my_free os a)) \<and>
     (\<forall>a i fl. sim v (os_my_fopen os a i fl) (os_my_fopen os a i fl)) \<and>
     (\<forall>a fl. sim v (os_my_fclose os a fl) (os_my_fclose os a fl)) \<and>
     (\<forall>a a2 n fl. sim v (os_my_fread os a a2 n fl) (os_my_fread os a a2 n fl)) \<and>
     (\<forall>a a2 n fl. sim v (os_my_fwrite os a a2 n fl) (os_my_fwrite os a a2 n fl)) \<and>
     (\<forall>a off i fl. sim v (os_my_fseek os a off i fl) (os_my_fseek os a off i fl)) \<and>
     (\<forall>a fl. sim v (os_my_ftell os a fl) (os_my_ftell os a fl)) \<and>
     (\<forall>a i i2 fl. sim v (os_my_create os a i i2 fl) (os_my_create os a i i2 fl)) \<and>
     (\<forall>a a2 a3 i fl. sim v (os_create_temp_file os a a2 a3 i fl) (os_create_temp_file os a a2 a3 i fl)) \<and>
     (\<forall>a i fl. sim v (os_my_open os a i fl) (os_my_open os a i fl)) \<and>
     (\<forall>fd fl. sim v (os_my_close os fd fl) (os_my_close os fd fl)) \<and>
     (\<forall>fd a n fl. sim v (os_my_read os fd a n fl) (os_my_read os fd a n fl)) \<and>
     (\<forall>fd a n fl. sim v (os_my_write os fd a n fl) (os_my_write os fd a n fl)) \<and>
     (\<forall>fd a n off fl. sim v (os_my_pread os fd a n off fl) (os_my_pread os fd a n off fl)) \<and>
     (\<forall>fd a n off fl. sim v (os_my_pwrite os fd a n off fl) (os_my_pwrite os fd a n off fl)) \<and>
     (\<forall>fd off i fl. sim v (os_my_seek os fd off i fl) (os_my_seek os fd off i fl)) \<and>
     (\<forall>fd fl. sim v (os_my_tell os fd fl) (os_my_tell os fd fl)) \<and>
     (\<forall>a fl. sim v (os_my_delete os a fl) (os_my_delete os a fl)) \<and>
     (\<forall>a a2 fl. sim v (os_my_rename os a a2 fl) (os_my_rename os a a2 fl)) \<and>
     (\<forall>a a2 i i2 fl. sim v (os_my_create_with_symlink os a a2 i i2 fl) (os_my_create_with_symlink os a a2 i i2 fl)) \<and>
     (\<forall>a fl. sim v (os_my_delete_with_symlink os a fl) (os_my_delete_with_symlink os a fl)) \<and>
     (\<forall>a a2 fl. sim v (os_my_rename_with_symlink os a a2 fl) (os_my_rename_with_symlink os a a2 fl)) \<and>
     (\<forall>fd fl. sim v (os_my_sync os fd fl) (os_my_sync os fd fl))"

definition file_os_records :: "('w pstate \<Rightarrow> psi_event list) \<Rightarrow> 'w file_os \<Rightarrow> bool" where
  "file_os_records h os \<longleftrightarrow>
     (\<forall>a. records h (os_strlen os a) (\<lambda>_. [])) \<and>
     (\<forall>a i a2. records h (os_fgets os a i a2) (\<lambda>_. [Real_call])) \<and>
     (\<forall>a. records h (os_fgetc os a) (\<lambda>_. [Real_call])) \<and>
     (\<forall>a a2. records h (os_fputs os a a2) (\<lambda>_. [Real_call])) \<and>
     (\<forall>i a. records h (os_fputc os i a) (\<lambda>_. [Real_call])) \<and>
     (\<forall>a a2 a3. records h (os_vfprintf os a a2 a3) (\<lambda>_. [Real_call])) \<and>
     (\<forall>a. records h (os_fflush os a) (\<lambda>_. [Real_call])) \<and>
     (\<forall>fd a fl. records h (os_my_fstat os fd a fl) (\<lambda>_. [Real_call])) \<and>
     (\<forall>a a2 fl. records h (os_my_stat os a a2 fl) (\<lambda>_. [Real_call])) \<and>
     (\<forall>fd off i fl. records h (os_my_chsize os fd off i fl) (\<lambda>_. [Real_call])) \<and>
     (\<forall>a i fl. records h (os_my_fopen os a i fl) (\<lambda>_. [Real_call])) \<and>
     (\<forall>a fl. records h (os_my_fclose os a fl) (\<lambda>_. [Real_call])) \<and>
     (\<forall>a a2 n fl. records h (os_my_fread os a a2 n fl) (\<lambda>_. [Real_call])) \<and>
     (\<forall>a a2 n fl. records h (os_my_fwrite os a a2 n fl) (\<lambda>_. [Real_call])) \<and>
     (\<forall>a off i fl. records h (os_my_fseek os a off i fl) (\<lambda>_. [Real_call])) \<and>
     (\<forall>a fl. records h (os_my_ftell os a fl) (\<lambda>_. [Real_call])) \<and>
     (\<forall>a i i2 fl. records h (os_my_create os a i i2 fl) (\<lambda>_. [Real_call])) \<and>
     (\<forall>a i fl. records h (os_my_open os a i fl) (\<lambda>_. [Real_call])) \<and>
     (\<forall>fd fl. records h (os_my_close os fd fl) (\<lambda>_. [Real_call])) \<and>
     (\<forall>fd a n fl. records h (os_my_read os fd a n fl) (\<lambda>_. [Real_call])) \<and>
     (\<forall>fd a n fl. records h (os_my_write os fd a n fl) (\<lambda>_. [Real_call])) \<and>
     (\<forall>fd a n off fl. records h (os_my_pread os fd a n off fl) (\<lambda>_. [Real_call])) \<and>
     (\<forall>fd a n off fl. records h (os_my_pwrite os fd a n off fl) (\<lambda>_. [Real_call])) \<and>
     (\<forall>fd off i fl. records h (os_my_seek os fd off i fl) (\<lambda>_. [Real_call])) \<and>
     (\<forall>fd fl. records h (os_my_tell os fd fl) (\<lambda>_. [Real_call])) \<and>
     (\<forall>a fl. records h (os_my_delete os a fl) (\<lambda>_. [Real_call])) \<and>
     (\<forall>a a2 fl. records h (os_my_rename os a a2 fl) (\<lambda>_. [Real_call])) \<and>
     (\<forall>a a2 i i2 fl. records h (os_my_create_with_symlink os a a2 i i2 fl) (\<lambda>_. [Real_call])) \<and>
     (\<forall>a fl. records h (os_my_delete_with_symlink os a fl) (\<lambda>_. [Real_call])) \<and>
     (\<forall>a a2 fl. records h (os_my_rename_with_symlink os a a2 fl) (\<lambda>_. [Real_call])) \<and>
     (\<forall>fd fl. records h (os_my_sync os fd fl) (\<lambda>_. [Real_call]))"

text \<open>What the C standard says of \<^verbatim>\<open>fputc\<close>: it writes its argument converted to an unsigned character, so two
  arguments with the same low byte do the same.\<close>

definition fputc_writes_byte :: "('w pstate \<Rightarrow> 'v) \<Rightarrow> 'w file_os \<Rightarrow> bool" where
  "fputc_writes_byte v os \<longleftrightarrow> (\<forall>c c' a. (word_of_int c :: char_t) = word_of_int c' \<longrightarrow>
     sim v (os_fputc os c a) (os_fputc os c' a))"

definition file_os_keeps :: "('w pstate \<Rightarrow> 'v) \<Rightarrow> 'w file_os \<Rightarrow> bool" where
  "file_os_keeps v os \<longleftrightarrow>
     (\<forall>n fl. keeps v (os_my_malloc os n fl)) \<and> (\<forall>a. keeps v (os_my_free os a)) \<and>
     (\<forall>a i fl. keeps v (os_my_fopen os a i fl)) \<and> (\<forall>a fl. keeps v (os_my_fclose os a fl))"

lemma file_os_respectsD:
  assumes "file_os_respects v os"
  shows "sim v (os_strlen os a) (os_strlen os a)"
    "sim v (os_fgets os a i a2) (os_fgets os a i a2)"
    "sim v (os_fgetc os a) (os_fgetc os a)"
    "sim v (os_fputs os a a2) (os_fputs os a a2)"
    "sim v (os_fputc os i a) (os_fputc os i a)"
    "sim v (os_vfprintf os a a2 a3) (os_vfprintf os a a2 a3)"
    "sim v (os_fflush os a) (os_fflush os a)"
    "sim v (os_feof os a) (os_feof os a)"
    "sim v (os_my_fstat os fd a fl) (os_my_fstat os fd a fl)"
    "sim v (os_my_stat os a a2 fl) (os_my_stat os a a2 fl)"
    "sim v (os_my_chsize os fd off i fl) (os_my_chsize os fd off i fl)"
    "sim v (os_my_malloc os n fl) (os_my_malloc os n fl)"
    "sim v (os_my_free os a) (os_my_free os a)"
    "sim v (os_my_fopen os a i fl) (os_my_fopen os a i fl)"
    "sim v (os_my_fclose os a fl) (os_my_fclose os a fl)"
    "sim v (os_my_fread os a a2 n fl) (os_my_fread os a a2 n fl)"
    "sim v (os_my_fwrite os a a2 n fl) (os_my_fwrite os a a2 n fl)"
    "sim v (os_my_fseek os a off i fl) (os_my_fseek os a off i fl)"
    "sim v (os_my_ftell os a fl) (os_my_ftell os a fl)"
    "sim v (os_my_create os a i i2 fl) (os_my_create os a i i2 fl)"
    "sim v (os_create_temp_file os a a2 a3 i fl) (os_create_temp_file os a a2 a3 i fl)"
    "sim v (os_my_open os a i fl) (os_my_open os a i fl)"
    "sim v (os_my_close os fd fl) (os_my_close os fd fl)"
    "sim v (os_my_read os fd a n fl) (os_my_read os fd a n fl)"
    "sim v (os_my_write os fd a n fl) (os_my_write os fd a n fl)"
    "sim v (os_my_pread os fd a n off fl) (os_my_pread os fd a n off fl)"
    "sim v (os_my_pwrite os fd a n off fl) (os_my_pwrite os fd a n off fl)"
    "sim v (os_my_seek os fd off i fl) (os_my_seek os fd off i fl)"
    "sim v (os_my_tell os fd fl) (os_my_tell os fd fl)"
    "sim v (os_my_delete os a fl) (os_my_delete os a fl)"
    "sim v (os_my_rename os a a2 fl) (os_my_rename os a a2 fl)"
    "sim v (os_my_create_with_symlink os a a2 i i2 fl) (os_my_create_with_symlink os a a2 i i2 fl)"
    "sim v (os_my_delete_with_symlink os a fl) (os_my_delete_with_symlink os a fl)"
    "sim v (os_my_rename_with_symlink os a a2 fl) (os_my_rename_with_symlink os a a2 fl)"
    "sim v (os_my_sync os fd fl) (os_my_sync os fd fl)"
  using assms by (simp_all add: file_os_respects_def)

lemma file_os_recordsD:
  assumes "file_os_records h os"
  shows "records h (os_strlen os a) (\<lambda>_. [])"
    "records h (os_fgets os a i a2) (\<lambda>_. [Real_call])"
    "records h (os_fgetc os a) (\<lambda>_. [Real_call])"
    "records h (os_fputs os a a2) (\<lambda>_. [Real_call])"
    "records h (os_fputc os i a) (\<lambda>_. [Real_call])"
    "records h (os_vfprintf os a a2 a3) (\<lambda>_. [Real_call])"
    "records h (os_fflush os a) (\<lambda>_. [Real_call])"
    "records h (os_my_fstat os fd a fl) (\<lambda>_. [Real_call])"
    "records h (os_my_stat os a a2 fl) (\<lambda>_. [Real_call])"
    "records h (os_my_chsize os fd off i fl) (\<lambda>_. [Real_call])"
    "records h (os_my_fopen os a i fl) (\<lambda>_. [Real_call])"
    "records h (os_my_fclose os a fl) (\<lambda>_. [Real_call])"
    "records h (os_my_fread os a a2 n fl) (\<lambda>_. [Real_call])"
    "records h (os_my_fwrite os a a2 n fl) (\<lambda>_. [Real_call])"
    "records h (os_my_fseek os a off i fl) (\<lambda>_. [Real_call])"
    "records h (os_my_ftell os a fl) (\<lambda>_. [Real_call])"
    "records h (os_my_create os a i i2 fl) (\<lambda>_. [Real_call])"
    "records h (os_my_open os a i fl) (\<lambda>_. [Real_call])"
    "records h (os_my_close os fd fl) (\<lambda>_. [Real_call])"
    "records h (os_my_read os fd a n fl) (\<lambda>_. [Real_call])"
    "records h (os_my_write os fd a n fl) (\<lambda>_. [Real_call])"
    "records h (os_my_pread os fd a n off fl) (\<lambda>_. [Real_call])"
    "records h (os_my_pwrite os fd a n off fl) (\<lambda>_. [Real_call])"
    "records h (os_my_seek os fd off i fl) (\<lambda>_. [Real_call])"
    "records h (os_my_tell os fd fl) (\<lambda>_. [Real_call])"
    "records h (os_my_delete os a fl) (\<lambda>_. [Real_call])"
    "records h (os_my_rename os a a2 fl) (\<lambda>_. [Real_call])"
    "records h (os_my_create_with_symlink os a a2 i i2 fl) (\<lambda>_. [Real_call])"
    "records h (os_my_delete_with_symlink os a fl) (\<lambda>_. [Real_call])"
    "records h (os_my_rename_with_symlink os a a2 fl) (\<lambda>_. [Real_call])"
    "records h (os_my_sync os fd fl) (\<lambda>_. [Real_call])"
  using assms by (simp_all add: file_os_records_def)

lemma psi_keeps_fileD:
  assumes "psi_keeps_file v psi"
  shows "keeps v (create_file psi k n fd)"
    "keeps v (get_thread_file_name_locker psi k op1 n i)"
    "keeps v (get_thread_file_stream_locker psi h op2)"
    "keeps v (get_thread_file_descriptor_locker psi fd op2)"
    "keeps v (start_file_open_wait psi l f n)"
    "keeps v (end_file_open_wait psi l)"
    "keeps v (end_file_open_wait_and_bind_to_descriptor psi l fd)"
    "keeps v (start_file_wait psi l c f n)"
    "keeps v (end_file_wait psi l c)"
  using assms by (simp_all add: psi_keeps_file_def)

lemma psi_records_fileD:
  assumes "psi_records_file h psi"
  shows "records h (get_thread_file_name_locker psi k op1 n i) (\<lambda>l. [Get_locker l])"
    "records h (get_thread_file_stream_locker psi f op1) (\<lambda>l. [Get_locker l])"
    "records h (get_thread_file_descriptor_locker psi fd op1) (\<lambda>l. [Get_locker l])"
    "records h (start_file_open_wait psi l f p) (\<lambda>_. [Start_wait l])"
    "records h (start_file_wait psi l c f p) (\<lambda>_. [Start_wait l])"
    "records h (end_file_open_wait_and_bind_to_descriptor psi l fd) (\<lambda>_. [End_wait l fd])"
    "records h (end_file_open_wait psi l) (\<lambda>_. [End_wait l 0])"
    "records h (end_file_wait psi l c) (\<lambda>_. [End_wait l (uint c)])"
  using assms by (simp_all add: psi_records_file_def)

lemma sim_if: "(b \<Longrightarrow> sim v m n) \<Longrightarrow> (\<not> b \<Longrightarrow> sim v m' n) \<Longrightarrow> sim v (if b then m else m') n"
  by simp

lemma sim_deref_m_file: "sim (os_view g) (deref_m_file file) (deref_m_file file)"
  unfolding sim_def
proof (intro allI impI)
  fix s t :: "'a pstate"
  assume eq: "os_view g s = os_view g t"
  then have "map_option m_file (files s file) = map_option m_file (files t file)"
    by (auto simp: os_view_def dest: fun_cong [of _ _ "file"])
  with eq show "fst (run_state (deref_m_file file) s) = fst (run_state (deref_m_file file) t) \<and>
    os_view g (snd (run_state (deref_m_file file) s)) = os_view g (snd (run_state (deref_m_file file) t))"
    by (auto simp: deref_m_file_def State_Monad.update_def os_view_def split: option.splits)
qed

lemma sim_on_stream: "(\<And>fp. sim (os_view g) (f fp) (f fp)) \<Longrightarrow> sim (os_view g) (on_stream file f) (on_stream file f)"
  unfolding on_stream_def by (intro sim_bind sim_deref_m_file)

lemma records_deref_m_file: "(\<And>s b. h (s\<lparr>bad_stream := b\<rparr>) = h s) \<Longrightarrow> records h (deref_m_file file) (\<lambda>_. [])"
  by (simp add: records_def deref_m_file_def State_Monad.update_def split: option.splits)

lemma records_on_stream:
  assumes "\<And>fp. records (\<lambda>s. hw (world s)) (f fp) E"
  shows "records (\<lambda>s. hw (world s)) (on_stream file f) E"
  unfolding on_stream_def by (intro records_silent_bind records_deref_m_file assms) simp

section \<open>Drop-in replacement\<close>

lemmas file_drop_in = file_fgets.drop_in
  file_fgetc.drop_in
  file_fputs.drop_in
  file_fputc.drop_in
  file_fprintf.drop_in
  file_vfprintf.drop_in
  file_fflush.drop_in
  file_fstat.drop_in
  file_stat.drop_in
  file_chsize.drop_in
  file_fread.drop_in
  file_fwrite.drop_in
  file_fseek.drop_in
  file_ftell.drop_in
  file_create.drop_in
  file_open.drop_in
  file_close.drop_in
  file_read.drop_in
  file_write.drop_in
  file_pread.drop_in
  file_pwrite.drop_in
  file_seek.drop_in
  file_tell.drop_in
  file_delete.drop_in
  file_rename.drop_in
  file_create_with_symlink.drop_in
  file_delete_with_symlink.drop_in
  file_rename_with_symlink.drop_in
  file_sync.drop_in
  file_fclose.drop_in

lemma file_wrappers_sim:
  assumes psi: "psi_keeps_file (os_view g) psi" and os: "file_os_respects (os_view g) os"
    and len: "\<And>a. keeps (os_view g) (os_strlen os a)"
  shows "sim (os_view g) (inline_mysql_file_fgets cfg psi os src_file src_line str sz file) (on_stream file (os_fgets os str sz))"
    "sim (os_view g) (inline_mysql_file_fgetc cfg psi os src_file src_line file) (on_stream file (os_fgetc os))"
    "sim (os_view g) (inline_mysql_file_fputs cfg psi os src_file src_line str file) (on_stream file (os_fputs os str))"
    "sim (os_view g) (inline_mysql_file_fputc cfg psi os src_file src_line ch file) (on_stream file (os_fputc os (sint ch)))"
    "sim (os_view g) (inline_mysql_file_fprintf cfg psi os header_file header_line file format args) (on_stream file (\<lambda>fp. os_vfprintf os fp format args))"
    "sim (os_view g) (inline_mysql_file_vfprintf cfg psi os src_file src_line file format args) (on_stream file (\<lambda>fp. os_vfprintf os fp format args))"
    "sim (os_view g) (inline_mysql_file_fflush cfg psi os src_file src_line file) (on_stream file (os_fflush os))"
    "sim (os_view g) (inline_mysql_file_fstat cfg psi os src_file src_line filenr stat_area flags) (os_my_fstat os filenr stat_area flags)"
    "sim (os_view g) (inline_mysql_file_stat cfg psi os locker_addr key src_file src_line path stat_area flags) (os_my_stat os path stat_area flags)"
    "sim (os_view g) (inline_mysql_file_chsize cfg psi os src_file src_line fd newlength filler flags) (os_my_chsize os fd newlength filler flags)"
    "sim (os_view g) (inline_mysql_file_fread cfg psi os src_file src_line file buffer count flags) (on_stream file (\<lambda>fp. os_my_fread os fp buffer count flags))"
    "sim (os_view g) (inline_mysql_file_fwrite cfg psi os src_file src_line file buffer count flags) (on_stream file (\<lambda>fp. os_my_fwrite os fp buffer count flags))"
    "sim (os_view g) (inline_mysql_file_fseek cfg psi os src_file src_line file pos whence flags) (on_stream file (\<lambda>fp. os_my_fseek os fp pos whence flags))"
    "sim (os_view g) (inline_mysql_file_ftell cfg psi os src_file src_line file flags) (on_stream file (\<lambda>fp. os_my_ftell os fp flags))"
    "sim (os_view g) (inline_mysql_file_create cfg psi os locker_addr key src_file src_line filename create_flags access_flags myFlags) (os_my_create os filename create_flags access_flags myFlags)"
    "sim (os_view g) (inline_mysql_file_open cfg psi os locker_addr key src_file src_line filename oflags myFlags) (os_my_open os filename oflags myFlags)"
    "sim (os_view g) (inline_mysql_file_close cfg psi os src_file src_line fd flags) (os_my_close os fd flags)"
    "sim (os_view g) (inline_mysql_file_read cfg psi os src_file src_line fd buffer count flags) (os_my_read os fd buffer count flags)"
    "sim (os_view g) (inline_mysql_file_write cfg psi os src_file src_line fd buffer count flags) (os_my_write os fd buffer count flags)"
    "sim (os_view g) (inline_mysql_file_pread cfg psi os src_file src_line fd buffer count offset flags) (os_my_pread os fd buffer count offset flags)"
    "sim (os_view g) (inline_mysql_file_pwrite cfg psi os src_file src_line fd buffer count offset flags) (os_my_pwrite os fd buffer count offset flags)"
    "sim (os_view g) (inline_mysql_file_seek cfg psi os src_file src_line fd pos whence flags) (os_my_seek os fd pos whence flags)"
    "sim (os_view g) (inline_mysql_file_tell cfg psi os src_file src_line fd flags) (os_my_tell os fd flags)"
    "sim (os_view g) (inline_mysql_file_delete cfg psi os locker_addr key src_file src_line name flags) (os_my_delete os name flags)"
    "sim (os_view g) (inline_mysql_file_rename cfg psi os locker_addr key src_file src_line frm dst flags) (os_my_rename os frm dst flags)"
    "sim (os_view g) (inline_mysql_file_create_with_symlink cfg psi os locker_addr key src_file src_line linkname filename create_flags access_flags flags) (os_my_create_with_symlink os linkname filename create_flags access_flags flags)"
    "sim (os_view g) (inline_mysql_file_delete_with_symlink cfg psi os locker_addr key src_file src_line name flags) (os_my_delete_with_symlink os name flags)"
    "sim (os_view g) (inline_mysql_file_rename_with_symlink cfg psi os locker_addr key src_file src_line frm dst flags) (os_my_rename_with_symlink os frm dst flags)"
    "sim (os_view g) (inline_mysql_file_sync cfg psi os src_file src_line fd flags) (os_my_sync os fd flags)"
    "sim (os_view g) (fclose_wait cfg psi os src_file src_line file flags) (on_stream file (\<lambda>fp. os_my_fclose os fp flags))"
  by (rule file_drop_in; intro keeps_rules len psi_keeps_fileD [OF psi] sim_on_stream file_os_respectsD [OF os]; simp)+

lemma sim_fputc_byte:
  assumes "psi_keeps_file (os_view g) psi" "file_os_respects (os_view g) os"
    "\<And>a. keeps (os_view g) (os_strlen os a)" "fputc_writes_byte (os_view g) os"
  shows "sim (os_view g) (mysql_file_fputc cfg psi os c file site) (on_stream file (os_fputc os c))"
proof -
  have wrap: "sim (os_view g) (mysql_file_fputc cfg psi os c file site) (on_stream file (os_fputc os (sint (word_of_int c :: char_t))))"
    by (simp add: mysql_file_fputc_def file_wrappers_sim [OF assms(1-3)])
  have "sim (os_view g) (on_stream file (os_fputc os (sint (word_of_int c :: char_t)))) (on_stream file (os_fputc os c))"
    unfolding on_stream_def
    by (rule sim_bind [OF sim_deref_m_file]) (use assms(4) in \<open>simp add: fputc_writes_byte_def\<close>)
  with wrap show ?thesis by (rule sim_trans)
qed

section \<open>Complete waits\<close>

lemma ends_file_wait:
  assumes "psi_records_file h psi"
  shows "Q (uint c) \<Longrightarrow> ends_wait h (psi_call () (end_file_wait psi l c)) l Q"
    "Q fd \<Longrightarrow> ends_wait h (psi_call () (end_file_open_wait_and_bind_to_descriptor psi l fd)) l Q"
    "Q 0 \<Longrightarrow> ends_wait h (psi_call () (end_file_open_wait psi l)) l Q"
  by (rule ends_wait_psi_call [OF psi_records_fileD(8) [OF assms]], assumption,
      rule ends_wait_psi_call [OF psi_records_fileD(6) [OF assms]], assumption,
      rule ends_wait_psi_call [OF psi_records_fileD(7) [OF assms]])

lemma records_carry:
  assumes "records h m (\<lambda>l. [Get_locker l])" and "\<And>l. records h (p l) (\<lambda>_. [])"
  shows "records h (m \<bind> (\<lambda>l. p l \<bind> (\<lambda>b. State_Monad.return (l, b)))) (\<lambda>lk. [Get_locker (fst lk)])"
proof -
  have "records h (p l \<bind> (\<lambda>b. State_Monad.return (l, b))) (\<lambda>_. [])" for l
    by (intro records_silent_bind assms records_return)
  moreover have "fst (fst (run_state (p l \<bind> (\<lambda>b. State_Monad.return (l, b))) s)) = l" for l s
    by (simp add: split_beta)
  ultimately show ?thesis
    using assms(1) by (simp add: records_def split_beta)
qed

lemma records_if: "(b \<Longrightarrow> records h m E) \<Longrightarrow> (\<not> b \<Longrightarrow> records h n E) \<Longrightarrow> records h (if b then m else n) E"
  by simp

lemmas file_completes = file_fgetc.completes
  file_fputc.completes
  file_fprintf.completes
  file_vfprintf.completes
  file_fflush.completes
  file_fstat.completes
  file_stat.completes
  file_chsize.completes
  file_fread.completes
  file_fwrite.completes
  file_fseek.completes
  file_ftell.completes
  file_create.completes
  file_open.completes
  file_close.completes
  file_read.completes
  file_write.completes
  file_pread.completes
  file_pwrite.completes
  file_seek.completes
  file_tell.completes
  file_delete.completes
  file_rename.completes
  file_create_with_symlink.completes
  file_delete_with_symlink.completes
  file_rename_with_symlink.completes
  file_sync.completes
  file_fclose.completes

lemma file_wrappers_complete:
  assumes psi: "psi_records_file (\<lambda>s. hw (world s)) psi" and os: "file_os_records (\<lambda>s. hw (world s)) os"
  shows "completes_wait (\<lambda>s. hw (world s)) (\<lambda>s. have_psi_interface cfg \<and> PSI_server s \<and> get_m_psi s file \<noteq> 0) (\<lambda>r rc. rc = 1) (inline_mysql_file_fgetc cfg psi os src_file src_line file)"
    "completes_wait (\<lambda>s. hw (world s)) (\<lambda>s. have_psi_interface cfg \<and> PSI_server s \<and> get_m_psi s file \<noteq> 0) (\<lambda>r rc. rc = 1) (inline_mysql_file_fputc cfg psi os src_file src_line ch file)"
    "completes_wait (\<lambda>s. hw (world s)) (\<lambda>s. have_psi_interface cfg \<and> PSI_server s \<and> get_m_psi s file \<noteq> 0) (\<lambda>r rc. rc = r mod 2 ^ 32) (inline_mysql_file_fprintf cfg psi os header_file header_line file format args)"
    "completes_wait (\<lambda>s. hw (world s)) (\<lambda>s. have_psi_interface cfg \<and> PSI_server s \<and> get_m_psi s file \<noteq> 0) (\<lambda>r rc. rc = r mod 2 ^ 32) (inline_mysql_file_vfprintf cfg psi os src_file src_line file format args)"
    "completes_wait (\<lambda>s. hw (world s)) (\<lambda>s. have_psi_interface cfg \<and> PSI_server s \<and> get_m_psi s file \<noteq> 0) (\<lambda>r rc. rc = 0) (inline_mysql_file_fflush cfg psi os src_file src_line file)"
    "completes_wait (\<lambda>s. hw (world s)) (\<lambda>s. have_psi_interface cfg \<and> PSI_server s) (\<lambda>r rc. rc = 0) (inline_mysql_file_fstat cfg psi os src_file src_line filenr stat_area flags)"
    "completes_wait (\<lambda>s. hw (world s)) (\<lambda>s. have_psi_interface cfg \<and> PSI_server s) (\<lambda>r rc. rc = 0) (inline_mysql_file_stat cfg psi os locker_addr key src_file src_line path stat_area flags)"
    "completes_wait (\<lambda>s. hw (world s)) (\<lambda>s. have_psi_interface cfg \<and> PSI_server s) (\<lambda>r rc. rc = uint (ucast newlength :: size_t)) (inline_mysql_file_chsize cfg psi os src_file src_line fd newlength filler flags)"
    "completes_wait (\<lambda>s. hw (world s)) (\<lambda>s. have_psi_interface cfg \<and> PSI_server s \<and> get_m_psi s file \<noteq> 0) (\<lambda>r rc. rc = uint (bytes_moved flags count r)) (inline_mysql_file_fread cfg psi os src_file src_line file buffer count flags)"
    "completes_wait (\<lambda>s. hw (world s)) (\<lambda>s. have_psi_interface cfg \<and> PSI_server s \<and> get_m_psi s file \<noteq> 0) (\<lambda>r rc. rc = uint (bytes_moved flags count r)) (inline_mysql_file_fwrite cfg psi os src_file src_line file buffer count flags)"
    "completes_wait (\<lambda>s. hw (world s)) (\<lambda>s. have_psi_interface cfg \<and> PSI_server s \<and> get_m_psi s file \<noteq> 0) (\<lambda>r rc. rc = 0) (inline_mysql_file_fseek cfg psi os src_file src_line file pos whence flags)"
    "completes_wait (\<lambda>s. hw (world s)) (\<lambda>s. have_psi_interface cfg \<and> PSI_server s \<and> get_m_psi s file \<noteq> 0) (\<lambda>r rc. rc = 0) (inline_mysql_file_ftell cfg psi os src_file src_line file flags)"
    "completes_wait (\<lambda>s. hw (world s)) (\<lambda>s. have_psi_interface cfg \<and> PSI_server s) (\<lambda>r rc. rc = r) (inline_mysql_file_create cfg psi os locker_addr key src_file src_line filename create_flags access_flags myFlags)"
    "completes_wait (\<lambda>s. hw (world s)) (\<lambda>s. have_psi_interface cfg \<and> PSI_server s) (\<lambda>r rc. rc = r) (inline_mysql_file_open cfg psi os locker_addr key src_file src_line filename oflags myFlags)"
    "completes_wait (\<lambda>s. hw (world s)) (\<lambda>s. have_psi_interface cfg \<and> PSI_server s) (\<lambda>r rc. rc = 0) (inline_mysql_file_close cfg psi os src_file src_line fd flags)"
    "completes_wait (\<lambda>s. hw (world s)) (\<lambda>s. have_psi_interface cfg \<and> PSI_server s) (\<lambda>r rc. rc = uint (bytes_moved flags count r)) (inline_mysql_file_read cfg psi os src_file src_line fd buffer count flags)"
    "completes_wait (\<lambda>s. hw (world s)) (\<lambda>s. have_psi_interface cfg \<and> PSI_server s) (\<lambda>r rc. rc = uint (bytes_moved flags count r)) (inline_mysql_file_write cfg psi os src_file src_line fd buffer count flags)"
    "completes_wait (\<lambda>s. hw (world s)) (\<lambda>s. have_psi_interface cfg \<and> PSI_server s) (\<lambda>r rc. rc = uint (bytes_moved flags count r)) (inline_mysql_file_pread cfg psi os src_file src_line fd buffer count offset flags)"
    "completes_wait (\<lambda>s. hw (world s)) (\<lambda>s. have_psi_interface cfg \<and> PSI_server s) (\<lambda>r rc. rc = uint (bytes_moved flags count r)) (inline_mysql_file_pwrite cfg psi os src_file src_line fd buffer count offset flags)"
    "completes_wait (\<lambda>s. hw (world s)) (\<lambda>s. have_psi_interface cfg \<and> PSI_server s) (\<lambda>r rc. rc = 0) (inline_mysql_file_seek cfg psi os src_file src_line fd pos whence flags)"
    "completes_wait (\<lambda>s. hw (world s)) (\<lambda>s. have_psi_interface cfg \<and> PSI_server s) (\<lambda>r rc. rc = 0) (inline_mysql_file_tell cfg psi os src_file src_line fd flags)"
    "completes_wait (\<lambda>s. hw (world s)) (\<lambda>s. have_psi_interface cfg \<and> PSI_server s) (\<lambda>r rc. rc = 0) (inline_mysql_file_delete cfg psi os locker_addr key src_file src_line name flags)"
    "completes_wait (\<lambda>s. hw (world s)) (\<lambda>s. have_psi_interface cfg \<and> PSI_server s) (\<lambda>r rc. rc = 0) (inline_mysql_file_rename cfg psi os locker_addr key src_file src_line frm dst flags)"
    "completes_wait (\<lambda>s. hw (world s)) (\<lambda>s. have_psi_interface cfg \<and> PSI_server s) (\<lambda>r rc. rc = r) (inline_mysql_file_create_with_symlink cfg psi os locker_addr key src_file src_line linkname filename create_flags access_flags flags)"
    "completes_wait (\<lambda>s. hw (world s)) (\<lambda>s. have_psi_interface cfg \<and> PSI_server s) (\<lambda>r rc. rc = 0) (inline_mysql_file_delete_with_symlink cfg psi os locker_addr key src_file src_line name flags)"
    "completes_wait (\<lambda>s. hw (world s)) (\<lambda>s. have_psi_interface cfg \<and> PSI_server s) (\<lambda>r rc. rc = 0) (inline_mysql_file_rename_with_symlink cfg psi os locker_addr key src_file src_line frm dst flags)"
    "completes_wait (\<lambda>s. hw (world s)) (\<lambda>s. have_psi_interface cfg \<and> PSI_server s) (\<lambda>r rc. rc = 0) (inline_mysql_file_sync cfg psi os src_file src_line fd flags)"
    "completes_wait (\<lambda>s. hw (world s)) (\<lambda>s. have_psi_interface cfg \<and> PSI_server s \<and> get_m_psi s file \<noteq> 0) (\<lambda>r rc. rc = 0) (fclose_wait cfg psi os src_file src_line file flags)"
  by (rule file_completes;
      (intro refl records_pair records_carry records_if records_return records_on_bind_silent records_on_psi_call
        ends_wait_bind ends_file_wait [OF psi] psi_records_fileD [OF psi] records_on_stream file_os_recordsD [OF os])?;
      (simp add: uint_word_of_int)?)+

text \<open>The bytes of the two operations on strings: \<^verbatim>\<open>fgets\<close> reports the length of the string it returned, measured in
  the state \<open>t\<close> in which it returned, and none after a failure; \<^verbatim>\<open>fputs\<close> the length of its argument,
  measured in the state in which the locker was obtained, whether or not it can be written.\<close>

definition fgets_bytes :: "'w file_os \<Rightarrow> addr \<Rightarrow> int \<Rightarrow> addr \<Rightarrow> addr \<Rightarrow> int \<Rightarrow> bool" where
  "fgets_bytes os str sz file r rc \<longleftrightarrow> (\<exists>s t. run_state (on_stream file (os_fgets os str sz)) s = (r, t) \<and>
     rc = (if r = 0 then 0 else uint (fst (run_state (os_strlen os r) t))))"

definition fputs_bytes :: "'w PSI_v1 \<Rightarrow> 'w file_os \<Rightarrow> addr \<Rightarrow> addr \<Rightarrow> int \<Rightarrow> bool" where
  "fputs_bytes psi os str file rc \<longleftrightarrow>
     (\<exists>s l t. run_state (get_thread_file_stream_locker psi (get_m_psi s file) PSI_FILE_WRITE) s = (l, t) \<and>
       rc = (if str = 0 then 0 else uint (fst (run_state (os_strlen os str) t))))"

lemma fgets_completes:
  assumes psi: "psi_records_file (\<lambda>s. hw (world s)) psi" and os: "file_os_records (\<lambda>s. hw (world s)) os"
  shows "completes_wait (\<lambda>s. hw (world s)) (\<lambda>s. have_psi_interface cfg \<and> PSI_server s \<and> get_m_psi s file \<noteq> 0)
    (fgets_bytes os str sz file) (inline_mysql_file_fgets cfg psi os src_file src_line str sz file)"
proof (rule file_fgets.completes_in, goal_cases)
  case (1 s)
  show ?case by (intro records_pair psi_records_fileD [OF psi])
next
  case (2 lk)
  show ?case by (intro records_on_psi_call psi_records_fileD [OF psi])
next
  case 3
  show ?case by (intro records_on_stream file_os_recordsD [OF os])
next
  case (4 s0 lk s1 s2 r s3 x s4)
  obtain n t where n: "run_state (if r \<noteq> 0 then os_strlen os r else State_Monad.return 0) s3 = (n, t)" by (metis surj_pair)
  have "records (\<lambda>s. hw (world s)) (if r \<noteq> 0 then os_strlen os r else State_Monad.return 0) (\<lambda>_. [])"
    by (intro records_if file_os_recordsD [OF os] records_return)
  note t = recordsD [OF this n]
  have "run_state (end_file_wait psi (fst lk) n) t = (x, s4)" using 4(4,5) n t by (simp add: run_psi_call)
  note e = recordsD [OF psi_records_fileD(8) [OF psi] this]
  have "fgets_bytes os str sz file r (uint n)"
    unfolding fgets_bytes_def using 4(3) n by (intro exI [of _ s2] exI [of _ s3]) auto
  with e t 4(4) show ?case by auto
next
  case (5 r s s')
  then show ?case by (auto simp: fgets_bytes_def)
next
  case 6
  show ?case by (rule refl)
qed

lemma fputs_completes:
  assumes psi: "psi_records_file (\<lambda>s. hw (world s)) psi" and os: "file_os_records (\<lambda>s. hw (world s)) os"
  shows "completes_wait (\<lambda>s. hw (world s)) (\<lambda>s. have_psi_interface cfg \<and> PSI_server s \<and> get_m_psi s file \<noteq> 0)
    (\<lambda>r. fputs_bytes psi os str file) (inline_mysql_file_fputs cfg psi os src_file src_line str file)"
proof (rule file_fputs.completes_in, goal_cases)
  case (1 s)
  show ?case by (intro records_carry records_if psi_records_fileD [OF psi] file_os_recordsD [OF os] records_return)
next
  case (2 lk)
  show ?case by (intro records_on_psi_call psi_records_fileD [OF psi])
next
  case 3
  show ?case by (intro records_on_stream file_os_recordsD [OF os])
next
  case (4 s0 lk s1 s2 r s3 x s4)
  have "run_state (end_file_wait psi (fst lk) (snd lk)) s3 = (x, s4)" using 4(4,5) by (simp add: run_psi_call)
  note e = recordsD [OF psi_records_fileD(8) [OF psi] this]
  have "fputs_bytes psi os str file (uint (snd lk))"
    unfolding fputs_bytes_def using 4(1,2)
    by (intro exI [of _ s0] exI [of _ "fst (run_state (get_thread_file_stream_locker psi (get_m_psi s0 file) PSI_FILE_WRITE) s0)"]
        exI [of _ "snd (run_state (get_thread_file_stream_locker psi (get_m_psi s0 file) PSI_FILE_WRITE) s0)"])
      (auto simp: split_beta split: if_splits)
  with e 4(4) show ?case by auto
next
  case (5 r s s')
  obtain l t where "run_state (get_thread_file_stream_locker psi (get_m_psi s file) PSI_FILE_WRITE) s = (l, t)" by (metis surj_pair)
  then have "fputs_bytes psi os str file (if str = 0 then 0 else uint (fst (run_state (os_strlen os str) t)))"
    unfolding fputs_bytes_def by blast
  then show ?case by blast
next
  case 6
  show ?case by (rule refl)
qed

text \<open>Opening a stream makes its wait once the object is allocated, whatever follows; closing one, unless it is \<^verbatim>\<open>NULL\<close>.\<close>

lemma records_files: "records (\<lambda>s. hw (world s)) (State_Monad.update (\<lambda>s. s\<lparr>files := f s\<rparr>)) (\<lambda>_. [])"
  by (simp add: records_def State_Monad.update_def)

lemma records_free_stream:
  assumes "\<And>a. records (\<lambda>s. hw (world s)) (os_my_free os a) (\<lambda>_. [])"
  shows "records (\<lambda>s. hw (world s)) (free_stream os that) (\<lambda>_. [])"
  unfolding free_stream_def by (intro records_silent_bind assms records_files)

lemma fopen_wait_completes:
  assumes psi: "psi_records_file (\<lambda>s. hw (world s)) psi" and os: "file_os_records (\<lambda>s. hw (world s)) os"
  shows "completes_wait (\<lambda>s. hw (world s)) (\<lambda>s. have_psi_interface cfg \<and> PSI_server s) (\<lambda>_ rc. rc = 0)
    (fopen_wait cfg psi os key src_file src_line filename flags myFlags that)"
proof (rule file_fopen.completes, goal_cases)
  case (1 s)
  show ?case by (intro records_pair psi_records_fileD [OF psi])
next
  case (2 lk)
  show ?case by (intro records_on_bind_silent records_on_psi_call psi_records_fileD [OF psi] records_files)
next
  case 3
  show ?case
    by (rule records_bind_silent [OF file_os_recordsD(11) [OF os], where g = id])
      (simp_all add: records_def State_Monad.update_def)
next
  case (4 lk r)
  show ?case by (intro ends_file_wait [OF psi] refl)
qed simp_all

lemma fopen_completes:
  assumes psi: "psi_records_file (\<lambda>s. hw (world s)) psi" and os: "file_os_records (\<lambda>s. hw (world s)) os"
    and malloc: "\<And>n fl. records (\<lambda>s. hw (world s)) (os_my_malloc os n fl) (\<lambda>_. [])"
    and free: "\<And>a. records (\<lambda>s. hw (world s)) (os_my_free os a) (\<lambda>_. [])"
  shows "completes_wait_if (\<lambda>s. hw (world s)) (\<lambda>s. fst (run_state (os_my_malloc os sizeof_MYSQL_FILE MY_WME) s) \<noteq> 0)
    (\<lambda>s. have_psi_interface cfg \<and> PSI_server s) (\<lambda>_ rc. rc = 0)
    (inline_mysql_file_fopen cfg psi os key src_file src_line filename flags myFlags)"
  unfolding inline_mysql_file_fopen_def
proof (rule completes_wait_if_bind [OF malloc], goal_cases)
  case (1 that)
  have deref: "records (\<lambda>s. hw (world s)) (deref_m_file that) (\<lambda>_. [])" by (rule records_deref_m_file) simp
  show ?case
    by (simp only: 1 if_True not_False_eq_True, rule completes_wait_silent_bind [OF records_files],
        rule completes_wait_bind_silent [OF fopen_wait_completes [OF psi os]])
      (auto intro!: records_silent_bind deref records_if records_free_stream free records_return)
next
  case (2 that)
  then show ?case by (simp add: records_return)
next
  case (3 s s')
  then show ?case by simp
qed

lemma fclose_completes:
  assumes psi: "psi_records_file (\<lambda>s. hw (world s)) psi" and os: "file_os_records (\<lambda>s. hw (world s)) os"
    and free: "\<And>a. records (\<lambda>s. hw (world s)) (os_my_free os a) (\<lambda>_. [])"
  shows "completes_wait_if (\<lambda>s. hw (world s)) (\<lambda>s. file \<noteq> 0)
    (\<lambda>s. have_psi_interface cfg \<and> PSI_server s \<and> get_m_psi s file \<noteq> 0) (\<lambda>_ rc. rc = 0)
    (inline_mysql_file_fclose cfg psi os src_file src_line file flags)"
proof (cases "file = 0")
  case True
  then show ?thesis by (simp add: completes_wait_if_def inline_mysql_file_fclose_def)
next
  case False
  have "completes_wait (\<lambda>s. hw (world s)) (\<lambda>s. have_psi_interface cfg \<and> PSI_server s \<and> get_m_psi s file \<noteq> 0) (\<lambda>_ rc. rc = 0)
      (inline_mysql_file_fclose cfg psi os src_file src_line file flags)"
    unfolding inline_mysql_file_fclose_def using False
    by (simp only: if_True not_False_eq_True)
      (rule completes_wait_bind_silent [OF file_wrappers_complete(28) [OF psi os]],
        intro records_silent_bind records_free_stream free records_return)
  then show ?thesis by (rule completes_wait_always [rotated]) (simp add: False)
qed

section \<open>The set of open streams\<close>

lemma run_deref_m_file: "run_state (deref_m_file file) s = (case files s file of
    Some f \<Rightarrow> (m_file f, s) | None \<Rightarrow> (0, s\<lparr>bad_stream := True\<rparr>))"
  by (simp add: deref_m_file_def State_Monad.update_def split: option.splits)

abbreviation streams :: "'w pstate \<Rightarrow> (addr \<Rightarrow> MYSQL_FILE option) \<times> bool" where
  "streams s \<equiv> (files s, bad_stream s)"

lemma fopen_wait_streams:
  assumes psi: "psi_keeps_file streams psi" and os: "file_os_keeps streams os" and "files s that = Some f"
  shows "case run_state (fopen_wait cfg psi os key src_file src_line filename flags myFlags that) s of (fp, s') \<Rightarrow>
    bad_stream s' = bad_stream s \<and> (\<exists>k. files s' = (files s)(that \<mapsto> \<lparr>m_file = fp, file_psi = k\<rparr>))"
proof -
  note keep = psi_keeps_fileD [OF psi, unfolded keeps_def, THEN spec]
  have fop: "streams (snd (run_state (os_my_fopen os filename flags myFlags) t)) = streams t" for t
    using os by (simp add: file_os_keeps_def keeps_def)
  have fin: "\<exists>k. g\<lparr>m_file := x\<rparr> = \<lparr>m_file = x, file_psi = k\<rparr>" for g :: MYSQL_FILE and x
    by (rule exI [of _ "file_psi g"]) simp
  obtain l s1 where 1: "run_state (get_thread_file_name_locker psi key PSI_FILE_STREAM_OPEN filename that) s = (l, s1)"
    by (metis surj_pair)
  have s1: "streams s1 = streams s" using keep(2) [of key PSI_FILE_STREAM_OPEN filename that s] 1 by simp
  obtain k s2 where 2: "run_state (psi_call 0 (start_file_open_wait psi l src_file src_line)) s1 = (k, s2)"
    by (metis surj_pair)
  have s2: "streams s2 = streams s1" using keep(5) [of l src_file src_line s1] 2 by (auto simp: run_psi_call split: if_splits)
  have fin2: "streams (snd (run_state (psi_call () (end_file_open_wait psi l)) t)) = streams t" for t
    using keep(6) [of l t] by (simp add: run_psi_call)
  show ?thesis
    using assms(3) 1 2 s1 s2 fop fin fin2
    by (auto simp: fopen_wait_def State_Monad.update_def split_beta fun_eq_iff)
qed

lemma fopen_wait_result:
  "\<exists>t. fst (run_state (fopen_wait cfg psi os key src_file src_line filename flags myFlags that) s)
     = fst (run_state (os_my_fopen os filename flags myFlags) t)"
  by (auto simp: fopen_wait_def State_Monad.update_def split_beta)

lemma fopen_streams:
  assumes psi: "psi_keeps_file streams psi" and os: "file_os_keeps streams os"
    and malloc: "run_state (os_my_malloc os sizeof_MYSQL_FILE MY_WME) s = (that, s1)"
    and run: "run_state (inline_mysql_file_fopen cfg psi os key src_file src_line filename flags myFlags) s = (r, s')"
  shows "bad_stream s' = bad_stream s"
    and "that = 0 \<Longrightarrow> r = 0 \<and> files s' = files s"
    and "that \<noteq> 0 \<Longrightarrow> r = 0 \<Longrightarrow> files s' = (files s)(that := None)"
    and "r \<noteq> 0 \<Longrightarrow> r = that \<and> (\<exists>f. m_file f \<noteq> 0 \<and> files s' = (files s)(that \<mapsto> f))"
    and "that \<noteq> 0 \<Longrightarrow> \<exists>t. (r = 0) = (fst (run_state (os_my_fopen os filename flags myFlags) t) = 0)"
proof -
  have "streams (snd (run_state (os_my_malloc os sizeof_MYSQL_FILE MY_WME) s)) = streams s"
    using os by (simp add: file_os_keeps_def keeps_def)
  then have m: "streams s1 = streams s" by (simp add: malloc)
  have free: "streams (snd (run_state (os_my_free os a) t)) = streams t" for a t
    using os by (simp add: file_os_keeps_def keeps_def)
  show null: "that = 0 \<Longrightarrow> r = 0 \<and> files s' = files s"
    using malloc run m by (auto simp: inline_mysql_file_fopen_def)
  let ?s2 = "s1\<lparr>files := (files s1)(that \<mapsto> \<lparr>m_file = 0, file_psi = 0\<rparr>)\<rparr>"
  obtain fp s3 where 3: "run_state (fopen_wait cfg psi os key src_file src_line filename flags myFlags that) ?s2 = (fp, s3)"
    by (metis surj_pair)
  from fopen_wait_streams [OF psi os, of ?s2 that _ cfg key src_file src_line filename flags myFlags] 3 obtain k
    where s3: "bad_stream s3 = bad_stream s1" "files s3 = (files s1)(that \<mapsto> \<lparr>m_file = fp, file_psi = k\<rparr>)" by auto
  obtain t where t: "fp = fst (run_state (os_my_fopen os filename flags myFlags) t)"
    using fopen_wait_result [of cfg psi os key src_file src_line filename flags myFlags that ?s2] 3 by auto
  have red: "(r, s') = (if fp = 0 then
      (0, (snd (run_state (os_my_free os that) s3))\<lparr>files := (files (snd (run_state (os_my_free os that) s3)))(that := None)\<rparr>)
      else (that, s3))" if "that \<noteq> 0"
    using that run malloc 3 s3
    by (cases "fp = 0")
      (simp_all add: inline_mysql_file_fopen_def State_Monad.update_def run_deref_m_file free_stream_def split_beta)
  show "bad_stream s' = bad_stream s"
    using malloc run m s3 free [of that s3] red by (cases "that = 0") (auto simp: inline_mysql_file_fopen_def split: if_splits)
  show "that \<noteq> 0 \<Longrightarrow> r = 0 \<Longrightarrow> files s' = (files s)(that := None)"
    using m s3 free [of that s3] red by (auto split: if_splits)
  show "r \<noteq> 0 \<Longrightarrow> r = that \<and> (\<exists>f. m_file f \<noteq> 0 \<and> files s' = (files s)(that \<mapsto> f))"
  proof -
    assume r: "r \<noteq> 0"
    with null have "that \<noteq> 0" by blast
    with red r have "r = that" "s' = s3" "fp \<noteq> 0" by (auto split: if_splits)
    with m s3 show ?thesis by (intro conjI exI [of _ "\<lparr>m_file = fp, file_psi = k\<rparr>"]) simp_all
  qed
  show "that \<noteq> 0 \<Longrightarrow> \<exists>t. (r = 0) = (fst (run_state (os_my_fopen os filename flags myFlags) t) = 0)"
    using red t by (auto split: if_splits)
qed

lemma fopen_macro:
  assumes "run_state (mysql_file_fopen cfg psi os key filename flags myFlags site) s = (r, s')"
  obtains p n where "run_state (inline_mysql_file_fopen cfg psi os key p n filename flags myFlags) s = (r, s')"
  using assms that by (auto simp: mysql_file_fopen_def split: if_splits)

section \<open>A sample set of functions\<close>

definition counted_call_of :: "'a \<Rightarrow> (psi_event list \<times> nat, 'a) prog" where
  "counted_call_of r = do {
     counted_call;
     State_Monad.return r
   }"

definition sample_file_os :: "(psi_event list \<times> nat) file_os" where
  "sample_file_os = \<lparr>os_strlen = (\<lambda>_. State_Monad.return 0),
     os_fgets = (\<lambda>_ _ _. counted_call_of 0),
     os_fgetc = (\<lambda>_. counted_call_of 0),
     os_fputs = (\<lambda>_ _. counted_call_of 0),
     os_fputc = (\<lambda>_ _. counted_call_of 0),
     os_vfprintf = (\<lambda>_ _ _. counted_call_of 0),
     os_fflush = (\<lambda>_. counted_call_of 0),
     os_feof = (\<lambda>_. counted_call_of 0),
     os_my_fstat = (\<lambda>_ _ _. counted_call_of 0),
     os_my_stat = (\<lambda>_ _ _. counted_call_of 0),
     os_my_chsize = (\<lambda>_ _ _ _. counted_call_of 0),
     os_my_malloc = (\<lambda>_ _. State_Monad.return 64),
     os_my_free = (\<lambda>_. State_Monad.return ()),
     os_my_fopen = (\<lambda>_ _ _. counted_call_of 9),
     os_my_fclose = (\<lambda>_ _. counted_call_of 0),
     os_my_fread = (\<lambda>_ _ _ _. counted_call_of 0),
     os_my_fwrite = (\<lambda>_ _ _ _. counted_call_of 0),
     os_my_fseek = (\<lambda>_ _ _ _. counted_call_of 0),
     os_my_ftell = (\<lambda>_ _. counted_call_of 0),
     os_my_create = (\<lambda>_ _ _ _. counted_call_of 0),
     os_create_temp_file = (\<lambda>_ _ _ _ _. counted_call_of 0),
     os_my_open = (\<lambda>_ _ _. counted_call_of 0),
     os_my_close = (\<lambda>_ _. counted_call_of 0),
     os_my_read = (\<lambda>_ _ _ _. counted_call_of 0),
     os_my_write = (\<lambda>_ _ _ _. counted_call_of 0),
     os_my_pread = (\<lambda>_ _ _ _ _. counted_call_of 0),
     os_my_pwrite = (\<lambda>_ _ _ _ _. counted_call_of 0),
     os_my_seek = (\<lambda>_ _ _ _. counted_call_of 0),
     os_my_tell = (\<lambda>_ _. counted_call_of 0),
     os_my_delete = (\<lambda>_ _. counted_call_of 0),
     os_my_rename = (\<lambda>_ _ _. counted_call_of 0),
     os_my_create_with_symlink = (\<lambda>_ _ _ _ _. counted_call_of 0),
     os_my_delete_with_symlink = (\<lambda>_ _. counted_call_of 0),
     os_my_rename_with_symlink = (\<lambda>_ _ _. counted_call_of 0),
     os_my_sync = (\<lambda>_ _. counted_call_of 0)\<rparr>"

lemma run_counted_call_of [simp]: "run_state (counted_call_of r) s
    = (r, s\<lparr>world := (fst (world s) @ [Real_call], snd (world s) + 1)\<rparr>)"
  by (simp add: counted_call_of_def)

lemma sample_file_os_contracts:
  "file_os_respects (os_view snd) sample_file_os" "file_os_records (\<lambda>s. fst (world s)) sample_file_os"
  "file_os_keeps streams sample_file_os" "keeps (os_view snd) (os_strlen sample_file_os a)"
  "fputc_writes_byte (os_view snd) sample_file_os"
  by (simp_all add: fputc_writes_byte_def file_os_respects_def file_os_records_def file_os_keeps_def sample_file_os_def sim_def records_def
      keeps_def os_view_def)

lemma sample_file_os_memory:
  "records (\<lambda>s. fst (world s)) (os_my_malloc sample_file_os n fl) (\<lambda>_. [])"
  "records (\<lambda>s. fst (world s)) (os_my_free sample_file_os a) (\<lambda>_. [])"
  by (simp_all add: sample_file_os_def records_def)

lemma recorder_keeps_streams: "psi_keeps_file streams recorder"
  by (simp add: psi_keeps_file_def recorder_def keeps_def)

section \<open>Properties\<close>

text \<open>The instrumented stream operations (reading, writing, formatting, flushing, positioning) are drop-in
  replacements: each returns what the bare function on the underlying stream returns and leaves the caller's view the same,
  for every server that leaves that view alone, in every build, whether or not the stream is instrumented.\<close>
lemma stream_drop_in:
  assumes "psi_keeps_file (os_view g) psi" and "file_os_respects (os_view g) os"
    and "\<And>a. keeps (os_view g) (os_strlen os a)"
  shows "sim (os_view g) (mysql_file_fgets cfg psi os str sz file site) (on_stream file (os_fgets os str sz)) \<and>
    sim (os_view g) (mysql_file_fgetc cfg psi os file site) (on_stream file (os_fgetc os)) \<and>
    sim (os_view g) (mysql_file_fputs cfg psi os str file site) (on_stream file (os_fputs os str)) \<and>
    sim (os_view g) (mysql_file_fputc cfg psi os c file site) (on_stream file (os_fputc os (sint (word_of_int c :: char_t)))) \<and>
    sim (os_view g) (mysql_file_fprintf cfg psi os header_file header_line file format args) (on_stream file (\<lambda>fp. os_vfprintf os fp format args)) \<and>
    sim (os_view g) (mysql_file_vfprintf cfg psi os file format args site) (on_stream file (\<lambda>fp. os_vfprintf os fp format args)) \<and>
    sim (os_view g) (mysql_file_fflush cfg psi os file site) (on_stream file (os_fflush os)) \<and>
    sim (os_view g) (mysql_file_fread cfg psi os file buffer count flags site) (on_stream file (\<lambda>fp. os_my_fread os fp buffer count flags)) \<and>
    sim (os_view g) (mysql_file_fwrite cfg psi os file buffer count flags site) (on_stream file (\<lambda>fp. os_my_fwrite os fp buffer count flags)) \<and>
    sim (os_view g) (mysql_file_fseek cfg psi os file pos whence flags site) (on_stream file (\<lambda>fp. os_my_fseek os fp pos whence flags)) \<and>
    sim (os_view g) (mysql_file_ftell cfg psi os file flags site) (on_stream file (\<lambda>fp. os_my_ftell os fp flags))"
  by (simp add: mysql_file_fgets_def mysql_file_fgetc_def mysql_file_fputs_def mysql_file_fputc_def
      mysql_file_fprintf_def mysql_file_vfprintf_def mysql_file_fflush_def mysql_file_fread_def
      mysql_file_fwrite_def mysql_file_fseek_def mysql_file_ftell_def
      file_wrappers_sim [OF assms])

lemma stream_drop_in_instance:
  "sim (os_view snd) (mysql_file_fgetc release_build recorder sample_file_os 64 (1, 2)) (on_stream 64 (os_fgetc sample_file_os))"
  using stream_drop_in [OF recorder_keeps(2) sample_file_os_contracts(1,4)] by blast

text \<open>The instrumented operations on file descriptors, with opening and creating files, are drop-in replacements of
  the \<^verbatim>\<open>mysys\<close> functions they wrap, in the same sense.\<close>
lemma descriptor_drop_in:
  assumes "psi_keeps_file (os_view g) psi" and "file_os_respects (os_view g) os"
    and "\<And>a. keeps (os_view g) (os_strlen os a)"
  shows "sim (os_view g) (mysql_file_fstat cfg psi os filenr stat_area flags site) (os_my_fstat os filenr stat_area flags) \<and>
    sim (os_view g) (mysql_file_chsize cfg psi os fd newlength filler flags site) (os_my_chsize os fd newlength filler flags) \<and>
    sim (os_view g) (mysql_file_open cfg psi os locker_addr key filename oflags myFlags site) (os_my_open os filename oflags myFlags) \<and>
    sim (os_view g) (mysql_file_create cfg psi os locker_addr key filename create_flags access_flags myFlags site) (os_my_create os filename create_flags access_flags myFlags) \<and>
    sim (os_view g) (mysql_file_close cfg psi os fd flags site) (os_my_close os fd flags) \<and>
    sim (os_view g) (mysql_file_read cfg psi os fd buffer count flags site) (os_my_read os fd buffer count flags) \<and>
    sim (os_view g) (mysql_file_write cfg psi os fd buffer count flags site) (os_my_write os fd buffer count flags) \<and>
    sim (os_view g) (mysql_file_pread cfg psi os fd buffer count offset flags site) (os_my_pread os fd buffer count offset flags) \<and>
    sim (os_view g) (mysql_file_pwrite cfg psi os fd buffer count offset flags site) (os_my_pwrite os fd buffer count offset flags) \<and>
    sim (os_view g) (mysql_file_seek cfg psi os fd pos whence flags site) (os_my_seek os fd pos whence flags) \<and>
    sim (os_view g) (mysql_file_tell cfg psi os fd flags site) (os_my_tell os fd flags) \<and>
    sim (os_view g) (mysql_file_sync cfg psi os fd flags site) (os_my_sync os fd flags)"
  by (simp add: mysql_file_fstat_def mysql_file_chsize_def mysql_file_open_def mysql_file_create_def
      mysql_file_close_def mysql_file_read_def mysql_file_write_def mysql_file_pread_def
      mysql_file_pwrite_def mysql_file_seek_def mysql_file_tell_def mysql_file_sync_def
      file_wrappers_sim [OF assms])

lemma descriptor_drop_in_instance:
  "sim (os_view snd) (mysql_file_read release_build recorder sample_file_os 3 100 10 0 (1, 2)) (os_my_read sample_file_os 3 100 10 0)"
  using descriptor_drop_in [OF recorder_keeps(2) sample_file_os_contracts(1,4)] by blast

text \<open>The instrumented operations on file names (status, deletion, renaming, with and without symbolic links) are
  drop-in replacements, in the same sense.\<close>
lemma file_name_drop_in:
  assumes "psi_keeps_file (os_view g) psi" and "file_os_respects (os_view g) os"
    and "\<And>a. keeps (os_view g) (os_strlen os a)"
  shows "sim (os_view g) (mysql_file_stat cfg psi os locker_addr key path stat_area flags site) (os_my_stat os path stat_area flags) \<and>
    sim (os_view g) (mysql_file_delete cfg psi os locker_addr key name flags site) (os_my_delete os name flags) \<and>
    sim (os_view g) (mysql_file_rename cfg psi os locker_addr key frm dst flags site) (os_my_rename os frm dst flags) \<and>
    sim (os_view g) (mysql_file_create_with_symlink cfg psi os locker_addr key linkname filename create_flags access_flags flags site) (os_my_create_with_symlink os linkname filename create_flags access_flags flags) \<and>
    sim (os_view g) (mysql_file_delete_with_symlink cfg psi os locker_addr key name flags site) (os_my_delete_with_symlink os name flags) \<and>
    sim (os_view g) (mysql_file_rename_with_symlink cfg psi os locker_addr key frm dst flags site) (os_my_rename_with_symlink os frm dst flags)"
  by (simp add: mysql_file_stat_def mysql_file_delete_def mysql_file_rename_def mysql_file_create_with_symlink_def
      mysql_file_delete_with_symlink_def mysql_file_rename_with_symlink_def
      file_wrappers_sim [OF assms])

lemma file_name_drop_in_instance:
  "sim (os_view snd) (mysql_file_delete release_build recorder sample_file_os 4096 5 100 0 (1, 2)) (os_my_delete sample_file_os 100 0)"
  using file_name_drop_in [OF recorder_keeps(2) sample_file_os_contracts(1,4)] by blast

text \<open>C22: every instrumented stream operation, opening and closing included, completes its wait, never calls through a null \<^verbatim>\<open>PSI_server\<close>,
  and ends the wait with the bytes moved: for reads and writes all bytes asked for or none when all bytes were demanded, else the
  result of a successful call and 0 after an error; for \<^verbatim>\<open>fgets\<close> the length of the string it returned, as it is when the call returns, and 0 after
  a failure; for \<^verbatim>\<open>fputs\<close> the length of the string to write, as it is before the call, also when writing fails; 1 for a character, read or
  written or not; the result modulo 2 to the 32 for formatted output; 0 for flushing, positioning, opening and closing.  Opening waits exactly when the object of the
  stream could be allocated, whether or not the file can then be opened, and closing unless the stream is \<^verbatim>\<open>NULL\<close>; otherwise nothing is recorded.
  A failed read or write is reported as 0 bytes, where the interface in \<^verbatim>\<open>psi.h\<close> asks for -1.  The server records what it is told, the platform its calls,
  and allocating and freeing memory records nothing.\<close>
theorem stream_waits_complete:
  assumes "psi_records_file (\<lambda>s. hw (world s)) psi" and "file_os_records (\<lambda>s. hw (world s)) os"
    and "\<And>n fl. records (\<lambda>s. hw (world s)) (os_my_malloc os n fl) (\<lambda>_. [])"
    and "\<And>a. records (\<lambda>s. hw (world s)) (os_my_free os a) (\<lambda>_. [])"
  shows "completes_wait (\<lambda>s. hw (world s)) (\<lambda>s. have_psi_interface cfg \<and> PSI_server s \<and> get_m_psi s file \<noteq> 0) (fgets_bytes os str sz file)
      (mysql_file_fgets cfg psi os str sz file site) \<and>
    completes_wait (\<lambda>s. hw (world s)) (\<lambda>s. have_psi_interface cfg \<and> PSI_server s \<and> get_m_psi s file \<noteq> 0) (\<lambda>r rc. rc = 1)
      (mysql_file_fgetc cfg psi os file site) \<and>
    completes_wait (\<lambda>s. hw (world s)) (\<lambda>s. have_psi_interface cfg \<and> PSI_server s \<and> get_m_psi s file \<noteq> 0) (\<lambda>r. fputs_bytes psi os str file)
      (mysql_file_fputs cfg psi os str file site) \<and>
    completes_wait (\<lambda>s. hw (world s)) (\<lambda>s. have_psi_interface cfg \<and> PSI_server s \<and> get_m_psi s file \<noteq> 0) (\<lambda>r rc. rc = 1)
      (mysql_file_fputc cfg psi os c file site) \<and>
    completes_wait (\<lambda>s. hw (world s)) (\<lambda>s. have_psi_interface cfg \<and> PSI_server s \<and> get_m_psi s file \<noteq> 0) (\<lambda>r rc. rc = r mod 2 ^ 32)
      (mysql_file_fprintf cfg psi os header_file header_line file format args) \<and>
    completes_wait (\<lambda>s. hw (world s)) (\<lambda>s. have_psi_interface cfg \<and> PSI_server s \<and> get_m_psi s file \<noteq> 0) (\<lambda>r rc. rc = r mod 2 ^ 32)
      (mysql_file_vfprintf cfg psi os file format args site) \<and>
    completes_wait (\<lambda>s. hw (world s)) (\<lambda>s. have_psi_interface cfg \<and> PSI_server s \<and> get_m_psi s file \<noteq> 0) (\<lambda>r rc. rc = 0)
      (mysql_file_fflush cfg psi os file site) \<and>
    completes_wait (\<lambda>s. hw (world s)) (\<lambda>s. have_psi_interface cfg \<and> PSI_server s \<and> get_m_psi s file \<noteq> 0) (\<lambda>r rc. rc = uint (bytes_moved flags count r))
      (mysql_file_fread cfg psi os file buffer count flags site) \<and>
    completes_wait (\<lambda>s. hw (world s)) (\<lambda>s. have_psi_interface cfg \<and> PSI_server s \<and> get_m_psi s file \<noteq> 0) (\<lambda>r rc. rc = uint (bytes_moved flags count r))
      (mysql_file_fwrite cfg psi os file buffer count flags site) \<and>
    completes_wait (\<lambda>s. hw (world s)) (\<lambda>s. have_psi_interface cfg \<and> PSI_server s \<and> get_m_psi s file \<noteq> 0) (\<lambda>r rc. rc = 0)
      (mysql_file_fseek cfg psi os file pos whence flags site) \<and>
    completes_wait (\<lambda>s. hw (world s)) (\<lambda>s. have_psi_interface cfg \<and> PSI_server s \<and> get_m_psi s file \<noteq> 0) (\<lambda>r rc. rc = 0)
      (mysql_file_ftell cfg psi os file flags site) \<and>
    completes_wait_if (\<lambda>s. hw (world s)) (\<lambda>s. fst (run_state (os_my_malloc os sizeof_MYSQL_FILE MY_WME) s) \<noteq> 0)
      (\<lambda>s. have_psi_interface cfg \<and> PSI_server s) (\<lambda>r rc. rc = 0) (mysql_file_fopen cfg psi os key filename flags' myFlags site) \<and>
    completes_wait_if (\<lambda>s. hw (world s)) (\<lambda>s. file \<noteq> 0) (\<lambda>s. have_psi_interface cfg \<and> PSI_server s \<and> get_m_psi s file \<noteq> 0)
      (\<lambda>r rc. rc = 0) (mysql_file_fclose cfg psi os file flags site)"
  unfolding mysql_file_fgets_def mysql_file_fgetc_def mysql_file_fputs_def mysql_file_fputc_def
    mysql_file_fprintf_def mysql_file_vfprintf_def mysql_file_fflush_def mysql_file_fread_def
    mysql_file_fwrite_def mysql_file_fseek_def mysql_file_ftell_def mysql_file_fopen_def mysql_file_fclose_def
  by (intro conjI; (split if_split; intro conjI impI)?;
      rule fgets_completes [OF assms(1,2)] fputs_completes [OF assms(1,2)] file_wrappers_complete [OF assms(1,2)]
        fopen_completes [OF assms] fclose_completes [OF assms(1,2,4)])

theorem stream_waits_complete_witness:
  "completes_wait (\<lambda>s. fst (world s)) (\<lambda>s. have_psi_interface release_build \<and> PSI_server s \<and> get_m_psi s 64 \<noteq> 0)
     (\<lambda>r rc. rc = 1) (mysql_file_fgetc release_build recorder sample_file_os 64 (1, 2))"
  using stream_waits_complete [OF recorder_records(2) sample_file_os_contracts(2) sample_file_os_memory] by blast

text \<open>Every instrumented operation on a descriptor completes its wait, opening and creating bind the wait to the
  descriptor they return, reads and writes report the bytes moved, a change of size the low 32 bits of the new length, the others 0.\<close>
lemma descriptor_waits_complete:
  assumes "psi_records_file (\<lambda>s. hw (world s)) psi" and "file_os_records (\<lambda>s. hw (world s)) os"
  shows "completes_wait (\<lambda>s. hw (world s)) (\<lambda>s. have_psi_interface cfg \<and> PSI_server s) (\<lambda>r rc. rc = 0)
      (mysql_file_fstat cfg psi os filenr stat_area flags site) \<and>
    completes_wait (\<lambda>s. hw (world s)) (\<lambda>s. have_psi_interface cfg \<and> PSI_server s) (\<lambda>r rc. rc = uint (ucast newlength :: size_t))
      (mysql_file_chsize cfg psi os fd newlength filler flags site) \<and>
    completes_wait (\<lambda>s. hw (world s)) (\<lambda>s. have_psi_interface cfg \<and> PSI_server s) (\<lambda>r rc. rc = r)
      (mysql_file_open cfg psi os locker_addr key filename oflags myFlags site) \<and>
    completes_wait (\<lambda>s. hw (world s)) (\<lambda>s. have_psi_interface cfg \<and> PSI_server s) (\<lambda>r rc. rc = r)
      (mysql_file_create cfg psi os locker_addr key filename create_flags access_flags myFlags site) \<and>
    completes_wait (\<lambda>s. hw (world s)) (\<lambda>s. have_psi_interface cfg \<and> PSI_server s) (\<lambda>r rc. rc = 0)
      (mysql_file_close cfg psi os fd flags site) \<and>
    completes_wait (\<lambda>s. hw (world s)) (\<lambda>s. have_psi_interface cfg \<and> PSI_server s) (\<lambda>r rc. rc = uint (bytes_moved flags count r))
      (mysql_file_read cfg psi os fd buffer count flags site) \<and>
    completes_wait (\<lambda>s. hw (world s)) (\<lambda>s. have_psi_interface cfg \<and> PSI_server s) (\<lambda>r rc. rc = uint (bytes_moved flags count r))
      (mysql_file_write cfg psi os fd buffer count flags site) \<and>
    completes_wait (\<lambda>s. hw (world s)) (\<lambda>s. have_psi_interface cfg \<and> PSI_server s) (\<lambda>r rc. rc = uint (bytes_moved flags count r))
      (mysql_file_pread cfg psi os fd buffer count offset flags site) \<and>
    completes_wait (\<lambda>s. hw (world s)) (\<lambda>s. have_psi_interface cfg \<and> PSI_server s) (\<lambda>r rc. rc = uint (bytes_moved flags count r))
      (mysql_file_pwrite cfg psi os fd buffer count offset flags site) \<and>
    completes_wait (\<lambda>s. hw (world s)) (\<lambda>s. have_psi_interface cfg \<and> PSI_server s) (\<lambda>r rc. rc = 0)
      (mysql_file_seek cfg psi os fd pos whence flags site) \<and>
    completes_wait (\<lambda>s. hw (world s)) (\<lambda>s. have_psi_interface cfg \<and> PSI_server s) (\<lambda>r rc. rc = 0)
      (mysql_file_tell cfg psi os fd flags site) \<and>
    completes_wait (\<lambda>s. hw (world s)) (\<lambda>s. have_psi_interface cfg \<and> PSI_server s) (\<lambda>r rc. rc = 0)
      (mysql_file_sync cfg psi os fd flags site)"
  unfolding mysql_file_fstat_def mysql_file_chsize_def mysql_file_open_def mysql_file_create_def
    mysql_file_close_def mysql_file_read_def mysql_file_write_def mysql_file_pread_def
    mysql_file_pwrite_def mysql_file_seek_def mysql_file_tell_def mysql_file_sync_def
  by (intro conjI; (split if_split; intro conjI impI)?; rule file_wrappers_complete [OF assms])

lemma descriptor_waits_complete_instance:
  "completes_wait (\<lambda>s. fst (world s)) (\<lambda>s. have_psi_interface release_build \<and> PSI_server s)
     (\<lambda>r rc. rc = uint (bytes_moved 4 10 r)) (mysql_file_read release_build recorder sample_file_os 3 100 10 4 (1, 2))"
  using descriptor_waits_complete [OF recorder_records(2) sample_file_os_contracts(2)] by blast

text \<open>Every instrumented operation on a file name completes its wait, creation through a link bound to the
  descriptor it returns, the others ended with 0 bytes.\<close>
lemma file_name_waits_complete:
  assumes "psi_records_file (\<lambda>s. hw (world s)) psi" and "file_os_records (\<lambda>s. hw (world s)) os"
  shows "completes_wait (\<lambda>s. hw (world s)) (\<lambda>s. have_psi_interface cfg \<and> PSI_server s) (\<lambda>r rc. rc = 0)
      (mysql_file_stat cfg psi os locker_addr key path stat_area flags site) \<and>
    completes_wait (\<lambda>s. hw (world s)) (\<lambda>s. have_psi_interface cfg \<and> PSI_server s) (\<lambda>r rc. rc = 0)
      (mysql_file_delete cfg psi os locker_addr key name flags site) \<and>
    completes_wait (\<lambda>s. hw (world s)) (\<lambda>s. have_psi_interface cfg \<and> PSI_server s) (\<lambda>r rc. rc = 0)
      (mysql_file_rename cfg psi os locker_addr key frm dst flags site) \<and>
    completes_wait (\<lambda>s. hw (world s)) (\<lambda>s. have_psi_interface cfg \<and> PSI_server s) (\<lambda>r rc. rc = r)
      (mysql_file_create_with_symlink cfg psi os locker_addr key linkname filename create_flags access_flags flags site) \<and>
    completes_wait (\<lambda>s. hw (world s)) (\<lambda>s. have_psi_interface cfg \<and> PSI_server s) (\<lambda>r rc. rc = 0)
      (mysql_file_delete_with_symlink cfg psi os locker_addr key name flags site) \<and>
    completes_wait (\<lambda>s. hw (world s)) (\<lambda>s. have_psi_interface cfg \<and> PSI_server s) (\<lambda>r rc. rc = 0)
      (mysql_file_rename_with_symlink cfg psi os locker_addr key frm dst flags site)"
  unfolding mysql_file_stat_def mysql_file_delete_def mysql_file_rename_def mysql_file_create_with_symlink_def
    mysql_file_delete_with_symlink_def mysql_file_rename_with_symlink_def
  by (intro conjI; (split if_split; intro conjI impI)?; rule file_wrappers_complete [OF assms])

lemma file_name_waits_complete_instance:
  "completes_wait (\<lambda>s. fst (world s)) (\<lambda>s. have_psi_interface release_build \<and> PSI_server s)
     (\<lambda>r rc. rc = 0) (mysql_file_delete release_build recorder sample_file_os 4096 5 100 0 (1, 2))"
  using file_name_waits_complete [OF recorder_records(2) sample_file_os_contracts(2)] by blast

text \<open>The byte count a read or write reports never exceeds the bytes asked for when the underlying call respects its
  own contract (a plain call returns the error value or at most the count), it is 0 after every failure, and with
  \<^verbatim>\<open>MY_NABP\<close> or \<^verbatim>\<open>MY_FNABP\<close> it is all or nothing.\<close>
lemma bytes_moved_bounds:
  assumes "and flags (or MY_NABP MY_FNABP) = 0 \<longrightarrow> result = MY_FILE_ERROR \<or> result \<le> count"
  shows "bytes_moved flags count result \<le> count \<and>
    (result = MY_FILE_ERROR \<longrightarrow> bytes_moved flags count result = 0) \<and>
    (and flags (or MY_NABP MY_FNABP) \<noteq> 0 \<longrightarrow> bytes_moved flags count result \<in> {0, count}) \<and>
    (and flags (or MY_NABP MY_FNABP) = 0 \<and> result \<noteq> MY_FILE_ERROR \<longrightarrow> bytes_moved flags count result = result)"
  using assms by (auto simp: bytes_moved_def MY_FILE_ERROR_def)

lemma bytes_moved_bounds_instance: "bytes_moved 4 10 0 = 10 \<and> bytes_moved 0 10 7 \<le> 10"
  using bytes_moved_bounds [of 4 0 10] bytes_moved_bounds [of 0 7 10]
  by (simp add: bytes_moved_def MY_NABP_def MY_FNABP_def MY_FILE_ERROR_def)

text \<open>C8: what \<^verbatim>\<open>mysql_file_fopen\<close> does to the set of open streams on every path: when the allocation fails it
  returns \<^verbatim>\<open>NULL\<close> and changes nothing; when the file cannot be opened it returns \<^verbatim>\<open>NULL\<close> and the
  allocated object is freed; otherwise it returns the allocated object, whose stream is not \<^verbatim>\<open>NULL\<close>.  It
  never touches another stream and never accesses an object that is not allocated.\<close>
theorem fopen_open_streams:
  assumes "psi_keeps_file streams psi" and "file_os_keeps streams os"
    and "run_state (os_my_malloc os sizeof_MYSQL_FILE MY_WME) s = (that, s1)"
    and "run_state (mysql_file_fopen cfg psi os key filename flags myFlags site) s = (r, s')"
  shows "bad_stream s' = bad_stream s \<and>
    (that = 0 \<longrightarrow> r = 0 \<and> files s' = files s) \<and>
    (that \<noteq> 0 \<and> r = 0 \<longrightarrow> files s' = (files s)(that := None)) \<and>
    (r \<noteq> 0 \<longrightarrow> r = that \<and> (\<exists>f. m_file f \<noteq> 0 \<and> files s' = (files s)(that \<mapsto> f))) \<and>
    (that \<noteq> 0 \<longrightarrow> (\<exists>t. r = 0 \<longleftrightarrow> fst (run_state (os_my_fopen os filename flags myFlags) t) = 0))"
proof -
  obtain p n where "run_state (inline_mysql_file_fopen cfg psi os key p n filename flags myFlags) s = (r, s')"
    by (rule fopen_macro [OF assms(4)])
  note effect = fopen_streams [OF assms(1-3) this]
  show ?thesis
    by (intro conjI impI) (rule effect, use effect(2-4) in blast, use effect(2-4) in blast, use effect(3) in blast,
        use effect(4) in blast, use effect(4) in blast, rule effect(5))
qed

theorem fopen_open_streams_witness:
  "fst (run_state (mysql_file_fopen release_build recorder sample_file_os 5 100 0 0 (1, 2)) sample_state) = 64"
proof -
  have m: "run_state (os_my_malloc sample_file_os sizeof_MYSQL_FILE MY_WME) sample_state = (64, sample_state)"
    by (simp add: sample_file_os_def)
  obtain r s' where r: "run_state (mysql_file_fopen release_build recorder sample_file_os 5 100 0 0 (1, 2)) sample_state = (r, s')"
    by (metis surj_pair)
  show ?thesis
    using fopen_open_streams [OF recorder_keeps_streams sample_file_os_contracts(3) m r] r
    by (auto simp: sample_file_os_def)
qed

text \<open>C7: a stream that \<^verbatim>\<open>mysql_file_fopen\<close> opened in fresh storage and \<^verbatim>\<open>mysql_file_fclose\<close> closed leaves the set of
  open streams as it was, so nothing leaks, without any access to a dangling pointer on the way; and a read from the closed stream is an access to a dangling pointer.
  Closing \<^verbatim>\<open>NULL\<close> returns 0 and does nothing, in every build: the comment of the macro says so for builds with the instrumentation only, and
  promises for the others what \<^verbatim>\<open>my_fclose(NULL)\<close> does, but the test for \<^verbatim>\<open>NULL\<close> in the code is in both, and \<^verbatim>\<open>my_fclose\<close> is not called.\<close>
theorem fopen_fclose_roundtrip:
  assumes "psi_keeps_file streams psi" and "file_os_keeps streams os"
    and "run_state (os_my_malloc os sizeof_MYSQL_FILE MY_WME) s = (that, s1)" and "files s that = None"
    and "run_state (mysql_file_fopen cfg psi os key filename flags myFlags site) s = (r, s')" and "r \<noteq> 0"
  shows "streams (snd (run_state (mysql_file_fclose cfg psi os r fl site) s')) = streams s \<and>
    run_state (mysql_file_fclose cfg psi os 0 fl site) s' = (0, s') \<and>
    bad_stream (snd (run_state (deref_m_file r) (snd (run_state (mysql_file_fclose cfg psi os r fl site) s'))))"
proof -
  note keep = psi_keeps_fileD [OF assms(1), unfolded keeps_def, THEN spec]
  obtain f where f: "r = that" "files s' = (files s)(that \<mapsto> f)" "bad_stream s' = bad_stream s"
    by (rule fopen_macro [OF assms(5)]) (use fopen_streams(1,4) [OF assms(1-3)] assms(6) in blast)
  have os: "streams (snd (run_state (os_my_fclose os a fl) t)) = streams t"
    "streams (snd (run_state (os_my_free os a) t)) = streams t" for a t
    using assms(2) by (simp_all add: file_os_keeps_def keeps_def)
  have psi: "streams (snd (run_state (psi_call () (start_file_wait psi l 0 p n)) t)) = streams t"
    "streams (snd (run_state (psi_call () (end_file_wait psi l 0)) t)) = streams t"
    "streams (snd (run_state (get_thread_file_stream_locker psi h PSI_FILE_STREAM_CLOSE) t)) = streams t" for l p n h t
    using keep(8) [of l 0 p n t] keep(9) [of l 0 t] keep(3) [of h PSI_FILE_STREAM_CLOSE t]
    by (simp_all add: run_psi_call)
  have wait: "streams (snd (run_state (fclose_wait cfg psi os p n r fl) s')) = streams s'" for p n
    using os psi f by (simp add: fclose_wait_def on_stream_def run_deref_m_file split_beta split: option.splits)
  have "streams (snd (run_state (inline_mysql_file_fclose cfg psi os p n r fl) s'))
      = ((files s')(r := None), bad_stream s')" for p n
    using wait [of p n] os(2) assms(6)
    by (simp add: inline_mysql_file_fclose_def free_stream_def State_Monad.update_def split_beta)
  then have closed: "streams (snd (run_state (mysql_file_fclose cfg psi os r fl site) s')) = streams s"
    using f assms(4) by (auto simp: mysql_file_fclose_def fun_eq_iff)
  moreover have "run_state (mysql_file_fclose cfg psi os 0 fl site) s' = (0, s')"
    by (simp add: mysql_file_fclose_def inline_mysql_file_fclose_def)
  ultimately show ?thesis using f(1) assms(4) by (simp add: run_deref_m_file)
qed

theorem fopen_fclose_roundtrip_witness:
  "streams (snd (run_state (mysql_file_fopen release_build recorder sample_file_os 5 100 0 0 (1, 2) \<bind>
     (\<lambda>f. mysql_file_fclose release_build recorder sample_file_os f 0 (1, 2))) sample_state)) = streams sample_state"
proof -
  have m: "run_state (os_my_malloc sample_file_os sizeof_MYSQL_FILE MY_WME) sample_state = (64, sample_state)"
    by (simp add: sample_file_os_def)
  obtain r s' where r: "run_state (mysql_file_fopen release_build recorder sample_file_os 5 100 0 0 (1, 2)) sample_state = (r, s')"
    by (metis surj_pair)
  have "files sample_state 64 = None" by (simp add: sample_state_def)
  moreover have "r \<noteq> 0"
    using r by (auto simp: mysql_file_fopen_def inline_mysql_file_fopen_def release_build_def fopen_wait_def
        sample_file_os_def recorder_def sample_state_def State_Monad.update_def run_deref_m_file run_psi_call)
  ultimately show ?thesis
    using fopen_fclose_roundtrip [OF recorder_keeps_streams sample_file_os_contracts(3) m _ r, of 0] r by simp
qed

end
