(* ===== verification/Session.thy ===== *)
theory Session
  imports Mysql_Thread Mysql_File
begin

text \<open>
  Sessions: the programs a client of the instrumented interfaces writes.  \<open>instrumented_call\<close> names the operations of
  \<^verbatim>\<open>mysql_thread.h\<close> and \<^verbatim>\<open>mysql_file.h\<close> that a running thread makes on locks, conditions, descriptors, file
  names and streams; a \<open>session\<close> makes one and chooses the next by its result.  \<open>run_session\<close> expands every call to the macro of the
  headers, \<open>run_bare\<close> to the function the macro stands for.

  The lemmas lift the contracts of the two components from one call to sessions of any length.
\<close>

section \<open>Calls and sessions\<close>

datatype result = Code int | Size size_t | Offset my_off_t | Pointer addr

datatype (plugins only: size) instrumented_call =
  Mutex_lock addr site
| Mutex_trylock addr site
| Mutex_unlock addr site
| Rwlock_rdlock addr site
| Rwlock_wrlock addr site
| Rwlock_tryrdlock addr site
| Rwlock_trywrlock addr site
| Rwlock_unlock addr
| Prlock_rdlock addr site
| Prlock_wrlock addr site
| Prlock_unlock addr
| Cond_wait addr addr site
| Cond_timedwait addr addr addr site
| Cond_signal addr
| Cond_broadcast addr
| File_open addr PSI_file_key c_str int myf site
| File_create addr PSI_file_key c_str int int myf site
| File_close File myf site
| File_read File addr size_t myf site
| File_write File addr size_t myf site
| File_pread File addr size_t my_off_t myf site
| File_pwrite File addr size_t my_off_t myf site
| File_seek File my_off_t int myf site
| File_tell File myf site
| File_sync File myf site
| File_chsize File my_off_t int myf site
| File_delete addr PSI_file_key c_str myf site
| File_rename addr PSI_file_key c_str c_str myf site
| Stream_fgets addr int addr site
| Stream_fputs addr addr site
| Stream_fgetc addr site
| Stream_fputc int addr site
| Stream_fflush addr site
| Stream_fread addr addr size_t myf site
| Stream_fwrite addr addr size_t myf site
| Stream_fseek addr my_off_t int myf site
| Stream_ftell addr myf site

text \<open>The macro each call is written with.\<close>

fun perform :: "config \<Rightarrow> 'w PSI_v1 \<Rightarrow> 'w thread_os \<Rightarrow> 'w file_os \<Rightarrow> instrumented_call \<Rightarrow> ('w, result) prog" where
  "perform cfg psi os fos (Mutex_lock m st) = mysql_mutex_lock cfg psi os m st \<bind> (\<lambda>r. State_Monad.return (Code r))"
| "perform cfg psi os fos (Mutex_trylock m st) = mysql_mutex_trylock cfg psi os m st \<bind> (\<lambda>r. State_Monad.return (Code r))"
| "perform cfg psi os fos (Mutex_unlock m st) = mysql_mutex_unlock cfg psi os m st \<bind> (\<lambda>r. State_Monad.return (Code r))"
| "perform cfg psi os fos (Rwlock_rdlock l st) = mysql_rwlock_rdlock cfg psi os l st \<bind> (\<lambda>r. State_Monad.return (Code r))"
| "perform cfg psi os fos (Rwlock_wrlock l st) = mysql_rwlock_wrlock cfg psi os l st \<bind> (\<lambda>r. State_Monad.return (Code r))"
| "perform cfg psi os fos (Rwlock_tryrdlock l st) = mysql_rwlock_tryrdlock cfg psi os l st \<bind> (\<lambda>r. State_Monad.return (Code r))"
| "perform cfg psi os fos (Rwlock_trywrlock l st) = mysql_rwlock_trywrlock cfg psi os l st \<bind> (\<lambda>r. State_Monad.return (Code r))"
| "perform cfg psi os fos (Rwlock_unlock l) = mysql_rwlock_unlock cfg psi os l \<bind> (\<lambda>r. State_Monad.return (Code r))"
| "perform cfg psi os fos (Prlock_rdlock l st) = mysql_prlock_rdlock cfg psi os l st \<bind> (\<lambda>r. State_Monad.return (Code r))"
| "perform cfg psi os fos (Prlock_wrlock l st) = mysql_prlock_wrlock cfg psi os l st \<bind> (\<lambda>r. State_Monad.return (Code r))"
| "perform cfg psi os fos (Prlock_unlock l) = mysql_prlock_unlock cfg psi os l \<bind> (\<lambda>r. State_Monad.return (Code r))"
| "perform cfg psi os fos (Cond_wait c m st) = mysql_cond_wait cfg psi os c m st \<bind> (\<lambda>r. State_Monad.return (Code r))"
| "perform cfg psi os fos (Cond_timedwait c m t st) = mysql_cond_timedwait cfg psi os c m t st \<bind> (\<lambda>r. State_Monad.return (Code r))"
| "perform cfg psi os fos (Cond_signal c) = mysql_cond_signal cfg psi os c \<bind> (\<lambda>r. State_Monad.return (Code r))"
| "perform cfg psi os fos (Cond_broadcast c) = mysql_cond_broadcast cfg psi os c \<bind> (\<lambda>r. State_Monad.return (Code r))"
| "perform cfg psi os fos (File_open la k n fl mf st) = mysql_file_open cfg psi fos la k n fl mf st \<bind> (\<lambda>r. State_Monad.return (Code r))"
| "perform cfg psi os fos (File_create la k n cf af mf st) = mysql_file_create cfg psi fos la k n cf af mf st \<bind> (\<lambda>r. State_Monad.return (Code r))"
| "perform cfg psi os fos (File_close fd mf st) = mysql_file_close cfg psi fos fd mf st \<bind> (\<lambda>r. State_Monad.return (Code r))"
| "perform cfg psi os fos (File_read fd b n mf st) = mysql_file_read cfg psi fos fd b n mf st \<bind> (\<lambda>r. State_Monad.return (Size r))"
| "perform cfg psi os fos (File_write fd b n mf st) = mysql_file_write cfg psi fos fd b n mf st \<bind> (\<lambda>r. State_Monad.return (Size r))"
| "perform cfg psi os fos (File_pread fd b n p mf st) = mysql_file_pread cfg psi fos fd b n p mf st \<bind> (\<lambda>r. State_Monad.return (Size r))"
| "perform cfg psi os fos (File_pwrite fd b n p mf st) = mysql_file_pwrite cfg psi fos fd b n p mf st \<bind> (\<lambda>r. State_Monad.return (Size r))"
| "perform cfg psi os fos (File_seek fd p w mf st) = mysql_file_seek cfg psi fos fd p w mf st \<bind> (\<lambda>r. State_Monad.return (Offset r))"
| "perform cfg psi os fos (File_tell fd mf st) = mysql_file_tell cfg psi fos fd mf st \<bind> (\<lambda>r. State_Monad.return (Offset r))"
| "perform cfg psi os fos (File_sync fd mf st) = mysql_file_sync cfg psi fos fd mf st \<bind> (\<lambda>r. State_Monad.return (Code r))"
| "perform cfg psi os fos (File_chsize fd p fi mf st) = mysql_file_chsize cfg psi fos fd p fi mf st \<bind> (\<lambda>r. State_Monad.return (Code r))"
| "perform cfg psi os fos (File_delete la k n mf st) = mysql_file_delete cfg psi fos la k n mf st \<bind> (\<lambda>r. State_Monad.return (Code r))"
| "perform cfg psi os fos (File_rename la k n n2 mf st) = mysql_file_rename cfg psi fos la k n n2 mf st \<bind> (\<lambda>r. State_Monad.return (Code r))"
| "perform cfg psi os fos (Stream_fgets b n f st) = mysql_file_fgets cfg psi fos b n f st \<bind> (\<lambda>r. State_Monad.return (Pointer r))"
| "perform cfg psi os fos (Stream_fputs b f st) = mysql_file_fputs cfg psi fos b f st \<bind> (\<lambda>r. State_Monad.return (Code r))"
| "perform cfg psi os fos (Stream_fgetc f st) = mysql_file_fgetc cfg psi fos f st \<bind> (\<lambda>r. State_Monad.return (Code r))"
| "perform cfg psi os fos (Stream_fputc c f st) = mysql_file_fputc cfg psi fos c f st \<bind> (\<lambda>r. State_Monad.return (Code r))"
| "perform cfg psi os fos (Stream_fflush f st) = mysql_file_fflush cfg psi fos f st \<bind> (\<lambda>r. State_Monad.return (Code r))"
| "perform cfg psi os fos (Stream_fread f b n mf st) = mysql_file_fread cfg psi fos f b n mf st \<bind> (\<lambda>r. State_Monad.return (Size r))"
| "perform cfg psi os fos (Stream_fwrite f b n mf st) = mysql_file_fwrite cfg psi fos f b n mf st \<bind> (\<lambda>r. State_Monad.return (Size r))"
| "perform cfg psi os fos (Stream_fseek f p w mf st) = mysql_file_fseek cfg psi fos f p w mf st \<bind> (\<lambda>r. State_Monad.return (Offset r))"
| "perform cfg psi os fos (Stream_ftell f mf st) = mysql_file_ftell cfg psi fos f mf st \<bind> (\<lambda>r. State_Monad.return (Offset r))"

text \<open>The function each call stands for.\<close>

fun perform_bare :: "config \<Rightarrow> 'w thread_os \<Rightarrow> 'w file_os \<Rightarrow> instrumented_call \<Rightarrow> ('w, result) prog" where
  "perform_bare cfg os fos (Mutex_lock m st) = real_mutex_lock cfg os m (fst st) (snd st) \<bind> (\<lambda>r. State_Monad.return (Code r))"
| "perform_bare cfg os fos (Mutex_trylock m st) = real_mutex_trylock cfg os m (fst st) (snd st) \<bind> (\<lambda>r. State_Monad.return (Code r))"
| "perform_bare cfg os fos (Mutex_unlock m st) = real_mutex_unlock cfg os m (fst st) (snd st) \<bind> (\<lambda>r. State_Monad.return (Code r))"
| "perform_bare cfg os fos (Rwlock_rdlock l st) = rw_rdlock os l \<bind> (\<lambda>r. State_Monad.return (Code r))"
| "perform_bare cfg os fos (Rwlock_wrlock l st) = rw_wrlock os l \<bind> (\<lambda>r. State_Monad.return (Code r))"
| "perform_bare cfg os fos (Rwlock_tryrdlock l st) = rw_tryrdlock os l \<bind> (\<lambda>r. State_Monad.return (Code r))"
| "perform_bare cfg os fos (Rwlock_trywrlock l st) = rw_trywrlock os l \<bind> (\<lambda>r. State_Monad.return (Code r))"
| "perform_bare cfg os fos (Rwlock_unlock l) = rw_unlock os l \<bind> (\<lambda>r. State_Monad.return (Code r))"
| "perform_bare cfg os fos (Prlock_rdlock l st) = rw_pr_rdlock os l \<bind> (\<lambda>r. State_Monad.return (Code r))"
| "perform_bare cfg os fos (Prlock_wrlock l st) = rw_pr_wrlock os l \<bind> (\<lambda>r. State_Monad.return (Code r))"
| "perform_bare cfg os fos (Prlock_unlock l) = rw_pr_unlock os l \<bind> (\<lambda>r. State_Monad.return (Code r))"
| "perform_bare cfg os fos (Cond_wait c m st) = pthread_cond_wait os c m \<bind> (\<lambda>r. State_Monad.return (Code r))"
| "perform_bare cfg os fos (Cond_timedwait c m t st) = pthread_cond_timedwait os c m t \<bind> (\<lambda>r. State_Monad.return (Code r))"
| "perform_bare cfg os fos (Cond_signal c) = pthread_cond_signal os c \<bind> (\<lambda>r. State_Monad.return (Code r))"
| "perform_bare cfg os fos (Cond_broadcast c) = pthread_cond_broadcast os c \<bind> (\<lambda>r. State_Monad.return (Code r))"
| "perform_bare cfg os fos (File_open la k n fl mf st) = os_my_open fos n fl mf \<bind> (\<lambda>r. State_Monad.return (Code r))"
| "perform_bare cfg os fos (File_create la k n cf af mf st) = os_my_create fos n cf af mf \<bind> (\<lambda>r. State_Monad.return (Code r))"
| "perform_bare cfg os fos (File_close fd mf st) = os_my_close fos fd mf \<bind> (\<lambda>r. State_Monad.return (Code r))"
| "perform_bare cfg os fos (File_read fd b n mf st) = os_my_read fos fd b n mf \<bind> (\<lambda>r. State_Monad.return (Size r))"
| "perform_bare cfg os fos (File_write fd b n mf st) = os_my_write fos fd b n mf \<bind> (\<lambda>r. State_Monad.return (Size r))"
| "perform_bare cfg os fos (File_pread fd b n p mf st) = os_my_pread fos fd b n p mf \<bind> (\<lambda>r. State_Monad.return (Size r))"
| "perform_bare cfg os fos (File_pwrite fd b n p mf st) = os_my_pwrite fos fd b n p mf \<bind> (\<lambda>r. State_Monad.return (Size r))"
| "perform_bare cfg os fos (File_seek fd p w mf st) = os_my_seek fos fd p w mf \<bind> (\<lambda>r. State_Monad.return (Offset r))"
| "perform_bare cfg os fos (File_tell fd mf st) = os_my_tell fos fd mf \<bind> (\<lambda>r. State_Monad.return (Offset r))"
| "perform_bare cfg os fos (File_sync fd mf st) = os_my_sync fos fd mf \<bind> (\<lambda>r. State_Monad.return (Code r))"
| "perform_bare cfg os fos (File_chsize fd p fi mf st) = os_my_chsize fos fd p fi mf \<bind> (\<lambda>r. State_Monad.return (Code r))"
| "perform_bare cfg os fos (File_delete la k n mf st) = os_my_delete fos n mf \<bind> (\<lambda>r. State_Monad.return (Code r))"
| "perform_bare cfg os fos (File_rename la k n n2 mf st) = os_my_rename fos n n2 mf \<bind> (\<lambda>r. State_Monad.return (Code r))"
| "perform_bare cfg os fos (Stream_fgets b n f st) = on_stream f (os_fgets fos b n) \<bind> (\<lambda>r. State_Monad.return (Pointer r))"
| "perform_bare cfg os fos (Stream_fputs b f st) = on_stream f (os_fputs fos b) \<bind> (\<lambda>r. State_Monad.return (Code r))"
| "perform_bare cfg os fos (Stream_fgetc f st) = on_stream f (os_fgetc fos) \<bind> (\<lambda>r. State_Monad.return (Code r))"
| "perform_bare cfg os fos (Stream_fputc c f st) = on_stream f (os_fputc fos c) \<bind> (\<lambda>r. State_Monad.return (Code r))"
| "perform_bare cfg os fos (Stream_fflush f st) = on_stream f (os_fflush fos) \<bind> (\<lambda>r. State_Monad.return (Code r))"
| "perform_bare cfg os fos (Stream_fread f b n mf st) = on_stream f (\<lambda>fp. os_my_fread fos fp b n mf) \<bind> (\<lambda>r. State_Monad.return (Size r))"
| "perform_bare cfg os fos (Stream_fwrite f b n mf st) = on_stream f (\<lambda>fp. os_my_fwrite fos fp b n mf) \<bind> (\<lambda>r. State_Monad.return (Size r))"
| "perform_bare cfg os fos (Stream_fseek f p w mf st) = on_stream f (\<lambda>fp. os_my_fseek fos fp p w mf) \<bind> (\<lambda>r. State_Monad.return (Offset r))"
| "perform_bare cfg os fos (Stream_ftell f mf st) = on_stream f (\<lambda>fp. os_my_ftell fos fp mf) \<bind> (\<lambda>r. State_Monad.return (Offset r))"

lemmas session_macro_defs = mysql_cond_broadcast_def
  mysql_cond_signal_def
  mysql_cond_timedwait_def
  mysql_cond_wait_def
  mysql_file_chsize_def
  mysql_file_close_def
  mysql_file_create_def
  mysql_file_delete_def
  mysql_file_fflush_def
  mysql_file_fgetc_def
  mysql_file_fgets_def
  mysql_file_fputc_def
  mysql_file_fputs_def
  mysql_file_fread_def
  mysql_file_fseek_def
  mysql_file_ftell_def
  mysql_file_fwrite_def
  mysql_file_open_def
  mysql_file_pread_def
  mysql_file_pwrite_def
  mysql_file_read_def
  mysql_file_rename_def
  mysql_file_seek_def
  mysql_file_sync_def
  mysql_file_tell_def
  mysql_file_write_def
  mysql_mutex_lock_def
  mysql_mutex_trylock_def
  mysql_mutex_unlock_def
  mysql_prlock_rdlock_def
  mysql_prlock_unlock_def
  mysql_prlock_wrlock_def
  mysql_rwlock_rdlock_def
  mysql_rwlock_tryrdlock_def
  mysql_rwlock_trywrlock_def
  mysql_rwlock_unlock_def
  mysql_rwlock_wrlock_def

datatype session = Finish | Then instrumented_call "result \<Rightarrow> session"

primrec run_session ::
  "config \<Rightarrow> 'w PSI_v1 \<Rightarrow> 'w thread_os \<Rightarrow> 'w file_os \<Rightarrow> session \<Rightarrow> ('w, result list) prog" where
  "run_session cfg psi os fos Finish = State_Monad.return []"
| "run_session cfg psi os fos (Then c k) = do {
     r \<leftarrow> perform cfg psi os fos c;
     rs \<leftarrow> run_session cfg psi os fos (k r);
     State_Monad.return (r # rs)
   }"

primrec run_bare :: "config \<Rightarrow> 'w thread_os \<Rightarrow> 'w file_os \<Rightarrow> session \<Rightarrow> ('w, result list) prog" where
  "run_bare cfg os fos Finish = State_Monad.return []"
| "run_bare cfg os fos (Then c k) = do {
     r \<leftarrow> perform_bare cfg os fos c;
     rs \<leftarrow> run_bare cfg os fos (k r);
     State_Monad.return (r # rs)
   }"

section \<open>Sessions are drop-in replacements\<close>

lemma sim_perform:
  assumes "psi_keeps_thread (os_view g) psi" "thread_os_respects (os_view g) os"
    "psi_keeps_file (os_view g) psi" "file_os_respects (os_view g) fos" "\<And>a. keeps (os_view g) (os_strlen fos a)"
    "fputc_writes_byte (os_view g) fos"
  shows "sim (os_view g) (perform cfg psi os fos c) (perform_bare cfg os fos c)"
proof -
  note mutexes = mutex_macros_sim [OF assms(1,2)]
  note on_files = file_wrappers_sim [OF assms(3,4,5)]
  note fputc = sim_fputc_byte [OF assms(3,4,5,6)]
  note thread = wait_wrappers_sim [OF assms(1,2)] other_wrappers_sim [OF assms(1,2)]
  show ?thesis
    by (cases c; simp only: perform.simps perform_bare.simps; intro sim_bind sim_return;
        (simp only: mutexes fputc | simp add: session_macro_defs on_files thread))
qed

lemma sim_session:
  assumes "psi_keeps_thread (os_view g) psi" "thread_os_respects (os_view g) os"
    "psi_keeps_file (os_view g) psi" "file_os_respects (os_view g) fos" "\<And>a. keeps (os_view g) (os_strlen fos a)"
    "fputc_writes_byte (os_view g) fos"
  shows "sim (os_view g) (run_session cfg psi os fos p) (run_bare cfg os fos p)"
proof (induction p)
  case Finish
  show ?case by (simp add: sim_return)
next
  case (Then c k)
  show ?case
    by (simp, intro sim_bind sim_return sim_perform [OF assms] Then.IH) simp
qed

section \<open>Sessions complete their waits\<close>

text \<open>The calls that only release: the hooks of the server record nothing of a wait, the primitives the real call.\<close>

definition release_records :: "('w pstate \<Rightarrow> psi_event list) \<Rightarrow> 'w PSI_v1 \<Rightarrow> 'w thread_os \<Rightarrow> bool" where
  "release_records h psi os \<longleftrightarrow>
     (\<forall>m. records h (unlock_mutex psi m) (\<lambda>_. [])) \<and>
     (\<forall>l. records h (unlock_rwlock psi l) (\<lambda>_. [])) \<and>
     (\<forall>c. records h (signal_cond psi c) (\<lambda>_. [])) \<and>
     (\<forall>c. records h (broadcast_cond psi c) (\<lambda>_. [])) \<and>
     (\<forall>a. records h (pthread_mutex_unlock os a) (\<lambda>_. [Real_call])) \<and>
     (\<forall>a f n. records h (safe_mutex_unlock os a f n) (\<lambda>_. [Real_call])) \<and>
     (\<forall>a. records h (rw_unlock os a) (\<lambda>_. [Real_call])) \<and>
     (\<forall>a. records h (rw_pr_unlock os a) (\<lambda>_. [Real_call])) \<and>
     (\<forall>a. records h (pthread_cond_signal os a) (\<lambda>_. [Real_call])) \<and>
     (\<forall>a. records h (pthread_cond_broadcast os a) (\<lambda>_. [Real_call]))"

text \<open>A program whose events are whole waits, one real call each, \<open>n r\<close> of them when it returns \<open>r\<close>.\<close>

definition whole_waits :: "('w pstate \<Rightarrow> psi_event list) \<Rightarrow> ('a \<Rightarrow> nat) \<Rightarrow> ('w, 'a) prog \<Rightarrow> bool" where
  "whole_waits h n m \<longleftrightarrow> (\<forall>s. case run_state m s of (r, s') \<Rightarrow>
     \<exists>es. h s' = h s @ es \<and> wait_run Idle es Idle \<and> count_list es Real_call = n r \<and>
       PSI_server s' = PSI_server s \<and> fault s' = fault s)"

lemma count_wait_events [simp]: "count_list (wait_events lo rc) Real_call = 1"
  by (simp add: wait_events_def split: option.splits)

lemma whole_waits_completes:
  assumes "completes_wait h inst R m"
  shows "whole_waits h (\<lambda>_. 1) m"
  unfolding whole_waits_def
proof
  fix s
  obtain r s' where run: "run_state m s = (r, s')" by (metis surj_pair)
  with assms [unfolded completes_wait_def, THEN spec, of s] obtain lo rc where
    "h s' = h s @ wait_events lo rc" "PSI_server s' = PSI_server s" "fault s' = fault s" by auto
  then show "case run_state m s of (r, s') \<Rightarrow> \<exists>es. h s' = h s @ es \<and> wait_run Idle es Idle \<and>
      count_list es Real_call = 1 \<and> PSI_server s' = PSI_server s \<and> fault s' = fault s"
    using run wait_events_run [of lo rc] by simp
qed

lemma whole_waits_records: "records h m (\<lambda>_. [Real_call]) \<Longrightarrow> whole_waits h (\<lambda>_. 1) m"
  by (auto simp: records_def whole_waits_def split: prod.splits)

lemma whole_waits_return: "n r = 0 \<Longrightarrow> whole_waits h n (State_Monad.return r)"
  by (simp add: whole_waits_def)

lemma whole_waits_bind:
  assumes "whole_waits h (\<lambda>_. a) m" and "\<And>r. whole_waits h (\<lambda>x. n x - a) (f r)"
    and "\<And>r s x s'. run_state (f r) s = (x, s') \<Longrightarrow> a \<le> n x"
  shows "whole_waits h n (m \<bind> f)"
  unfolding whole_waits_def
proof
  fix s
  obtain r s1 where 1: "run_state m s = (r, s1)" by (metis surj_pair)
  obtain x s2 where 2: "run_state (f r) s1 = (x, s2)" by (metis surj_pair)
  from assms(1) [unfolded whole_waits_def, THEN spec, of s] 1 obtain es where
    es: "h s1 = h s @ es" "wait_run Idle es Idle" "count_list es Real_call = a" "PSI_server s1 = PSI_server s" "fault s1 = fault s"
    by auto
  from assms(2) [of r, unfolded whole_waits_def, THEN spec, of s1] 2 obtain fs where
    fs: "h s2 = h s1 @ fs" "wait_run Idle fs Idle" "count_list fs Real_call = n x - a" "PSI_server s2 = PSI_server s1"
      "fault s2 = fault s1"
    by auto
  have "wait_run Idle (es @ fs) Idle" using es(2) fs(2) by (auto simp: wait_run_append)
  moreover have "count_list (es @ fs) Real_call = n x" using es(3) fs(3) assms(3) [OF 2] by simp
  ultimately show "case run_state (m \<bind> f) s of (r, s') \<Rightarrow> \<exists>es. h s' = h s @ es \<and> wait_run Idle es Idle \<and>
      count_list es Real_call = n r \<and> PSI_server s' = PSI_server s \<and> fault s' = fault s"
    using 1 2 es fs by auto
qed

lemma whole_waits_map:
  assumes "whole_waits h (\<lambda>_. a) m"
  shows "whole_waits h (\<lambda>_. a) (m \<bind> (\<lambda>r. State_Monad.return (g r)))"
  by (rule whole_waits_bind [OF assms]) (simp_all add: whole_waits_return)

lemma whole_waits_Cons:
  assumes "whole_waits h length m"
  shows "whole_waits h (\<lambda>x. length x - 1) (do {rs \<leftarrow> m; State_Monad.return (r # rs)})"
  using assms unfolding whole_waits_def by (auto simp: split_beta)

lemma release_records_wrapper:
  assumes "\<And>l. records h (hook l) (\<lambda>_. [])" and "records h real (\<lambda>_. [Real_call])"
  shows "records h (do {
     (if inst then do {s \<leftarrow> State_Monad.get; if P s then hook (l s) else State_Monad.return ()} else State_Monad.return ());
     result \<leftarrow> real;
     State_Monad.return result}) (\<lambda>_. [Real_call])"
proof (rule records_silent_bind)
  show "records h (if inst then do {s \<leftarrow> State_Monad.get; if P s then hook (l s) else State_Monad.return ()}
      else State_Monad.return ()) (\<lambda>_. [])"
    using assms(1) by (simp add: records_def)
  show "records h (do {result \<leftarrow> real; State_Monad.return result}) (\<lambda>_. [Real_call])" for x
    using assms(2) by (simp add: records_def split: prod.splits)
qed

lemma release_recordsD:
  assumes "release_records h psi os"
  shows "records h (unlock_mutex psi l) (\<lambda>_. [])" "records h (unlock_rwlock psi l) (\<lambda>_. [])"
    "records h (signal_cond psi l) (\<lambda>_. [])" "records h (broadcast_cond psi l) (\<lambda>_. [])"
    "records h (pthread_mutex_unlock os a) (\<lambda>_. [Real_call])" "records h (safe_mutex_unlock os a f n) (\<lambda>_. [Real_call])"
    "records h (rw_unlock os a) (\<lambda>_. [Real_call])" "records h (rw_pr_unlock os a) (\<lambda>_. [Real_call])"
    "records h (pthread_cond_signal os a) (\<lambda>_. [Real_call])" "records h (pthread_cond_broadcast os a) (\<lambda>_. [Real_call])"
  using assms by (simp_all add: release_records_def)

lemma release_macros_record:
  assumes "release_records h psi os"
  shows "records h (mysql_mutex_unlock cfg psi os m site) (\<lambda>_. [Real_call])"
    "records h (mysql_rwlock_unlock cfg psi os l) (\<lambda>_. [Real_call])"
    "records h (mysql_prlock_unlock cfg psi os l) (\<lambda>_. [Real_call])"
    "records h (mysql_cond_signal cfg psi os c) (\<lambda>_. [Real_call])"
    "records h (mysql_cond_broadcast cfg psi os c) (\<lambda>_. [Real_call])"
  unfolding mysql_mutex_unlock_def mysql_rwlock_unlock_def mysql_prlock_unlock_def mysql_cond_signal_def
    mysql_cond_broadcast_def inline_mysql_mutex_unlock_def inline_mysql_rwlock_unlock_def
    inline_mysql_prlock_unlock_def inline_mysql_cond_signal_def inline_mysql_cond_broadcast_def real_mutex_unlock_def
  by (intro records_if release_records_wrapper release_recordsD [OF assms])+

lemma whole_waits_perform:
  assumes "psi_records_thread (\<lambda>s. hw (world s)) psi" "thread_os_records (\<lambda>s. hw (world s)) os"
    "psi_records_file (\<lambda>s. hw (world s)) psi" "file_os_records (\<lambda>s. hw (world s)) fos"
    "release_records (\<lambda>s. hw (world s)) psi os"
  shows "whole_waits (\<lambda>s. hw (world s)) (\<lambda>_. 1) (perform cfg psi os fos c)"
proof -
  note on_files = file_wrappers_complete [OF assms(3,4), THEN whole_waits_completes]
    fgets_completes [OF assms(3,4), THEN whole_waits_completes] fputs_completes [OF assms(3,4), THEN whole_waits_completes]
  note thread = wait_wrappers_complete [OF assms(1,2), THEN whole_waits_completes]
  note release = release_macros_record [OF assms(5), THEN whole_waits_records]
  show ?thesis
    by (cases c; simp only: perform.simps; rule whole_waits_map;
        (rule release | simp only: session_macro_defs if_distrib [of "whole_waits h (\<lambda>_. 1)" for h] on_files thread if_cancel simp_thms))
qed

lemma whole_waits_session:
  assumes "psi_records_thread (\<lambda>s. hw (world s)) psi" "thread_os_records (\<lambda>s. hw (world s)) os"
    "psi_records_file (\<lambda>s. hw (world s)) psi" "file_os_records (\<lambda>s. hw (world s)) fos"
    "release_records (\<lambda>s. hw (world s)) psi os"
  shows "whole_waits (\<lambda>s. hw (world s)) length (run_session cfg psi os fos p)"
proof (induction p)
  case Finish
  show ?case by (simp add: whole_waits_return)
next
  case (Then c k)
  show ?case
    by (simp, intro whole_waits_bind [OF whole_waits_perform [OF assms]] whole_waits_Cons Then.IH) (auto split: prod.splits)
qed

end
