(* ===== verification/My_Pthread.thy ===== *)
theory My_Pthread
  imports Mysql_Prelude "HOL-Library.Signed_Division"
begin

text \<open>
  The portable threading layer of \<^verbatim>\<open>my_pthread.h\<close>: absolute times for timed waits, the ownership assertions of the
  debugging locks, and the counters shared by threads.  Clock readings are arguments.

  Absolute times exist in two forms, seconds with nanoseconds (\<open>timespec\<close>) and the 100 ns count of Windows
  (\<open>win_timespec\<close>).  \<^verbatim>\<open>cmp_timespec\<close> makes \<open>timespec\<close> an instance of the library's linear orders.

  A shared counter is updated by threads whose steps interleave.  \<^verbatim>\<open>thread_safe_add\<close> locks a mutex, loads, stores
  and unlocks; \<^verbatim>\<open>statistic_add\<close> without \<^verbatim>\<open>SAFE_STATISTICS\<close> only loads and stores.  The steps are an
  inductive relation, in which locking is possible only while the mutex is free.
\<close>

section \<open>Absolute times\<close>

datatype timespec = Timespec (tv_sec: int) (tv_nsec: int)

definition set_timespec_ts :: "int \<Rightarrow> int \<Rightarrow> timespec" where
  "set_timespec_ts now SEC = Timespec (now + SEC) 0"

definition set_timespec :: "int \<times> int \<Rightarrow> int \<Rightarrow> timespec" where
  "set_timespec tv SEC = Timespec (fst tv + SEC) (snd tv * 1000)"

definition set_timespec_nsec :: "ulonglong \<Rightarrow> ulonglong \<Rightarrow> timespec" where
  "set_timespec_nsec systime NSEC =
     (let now = systime + NSEC div 100
      in Timespec (uint (now div 10000000)) (uint (now mod 10000000 * 100 + NSEC mod 100)))"

text \<open>The same macro called with a sum: its text has \<^verbatim>\<open>(NSEC/100)\<close> without parentheses around the argument.\<close>

definition set_timespec_nsec_sum :: "ulonglong \<Rightarrow> ulonglong \<Rightarrow> ulonglong \<Rightarrow> timespec" where
  "set_timespec_nsec_sum systime a b =
     (let now = systime + (a + b div 100)
      in Timespec (uint (now div 10000000)) (uint (now mod 10000000 * 100 + (a + b) mod 100)))"

definition cmp_timespec :: "timespec \<Rightarrow> timespec \<Rightarrow> int" where
  "cmp_timespec TS1 TS2 =
     (if tv_sec TS1 > tv_sec TS2 \<or> (tv_sec TS1 = tv_sec TS2 \<and> tv_nsec TS1 > tv_nsec TS2) then 1
      else if tv_sec TS1 < tv_sec TS2 \<or> (tv_sec TS1 = tv_sec TS2 \<and> tv_nsec TS1 < tv_nsec TS2) then - 1 else 0)"

record win_timespec =
  i64 :: int
  max_timeout_msec :: int

definition win_set_timespec :: "int \<Rightarrow> int \<Rightarrow> win_timespec" where
  "win_set_timespec filetime SEC =
     \<lparr>i64 = c_int64 (filetime + c_int64 SEC * 10000000), max_timeout_msec = c_int32 (SEC * 1000)\<rparr>"

definition win_set_timespec_nsec :: "int \<Rightarrow> int \<Rightarrow> win_timespec" where
  "win_set_timespec_nsec filetime NSEC =
     \<lparr>i64 = c_int64 (filetime + c_int64 NSEC sdiv 100), max_timeout_msec = c_int32 (NSEC sdiv 1000000)\<rparr>"

definition win_cmp_timespec :: "win_timespec \<Rightarrow> win_timespec \<Rightarrow> int" where
  "win_cmp_timespec TS1 TS2 = (if i64 TS1 > i64 TS2 then 1 else if i64 TS1 < i64 TS2 then - 1 else 0)"

instantiation timespec :: linorder
begin

definition less_eq_timespec :: "timespec \<Rightarrow> timespec \<Rightarrow> bool" where
  "less_eq_timespec a b \<longleftrightarrow> cmp_timespec a b \<le> 0"

definition less_timespec :: "timespec \<Rightarrow> timespec \<Rightarrow> bool" where
  "less_timespec a b \<longleftrightarrow> cmp_timespec a b < 0"

instance
proof
  fix x y z :: timespec
  show "x < y \<longleftrightarrow> x \<le> y \<and> \<not> y \<le> x"
    by (auto simp: less_eq_timespec_def less_timespec_def cmp_timespec_def split: if_splits)
  show "x \<le> x" by (simp add: less_eq_timespec_def cmp_timespec_def)
  show "x \<le> y \<Longrightarrow> y \<le> z \<Longrightarrow> x \<le> z"
    by (auto simp: less_eq_timespec_def cmp_timespec_def split: if_splits)
  show "x \<le> y \<Longrightarrow> y \<le> x \<Longrightarrow> x = y"
    by (auto simp: less_eq_timespec_def cmp_timespec_def timespec.expand split: if_splits)
  show "x \<le> y \<or> y \<le> x"
    by (auto simp: less_eq_timespec_def cmp_timespec_def)
qed

end

definition total_nsec :: "timespec \<Rightarrow> int" where
  "total_nsec t = tv_sec t * 1000000000 + tv_nsec t"

section \<open>Ownership assertions\<close>

type_synonym pthread_t = nat

text \<open>The mutexes and conditions inside of the debugging locks belong to the platform.\<close>

type_synonym os_object = addr

record safe_mutex_t =
  sm_global :: os_object
  sm_mutex :: os_object
  sm_file :: addr
  sm_line :: uint32
  sm_count :: uint32
  sm_thread :: pthread_t

record rw_pr_lock_t =
  pr_lock :: os_object
  no_active_readers :: os_object
  active_readers :: uint32
  writers_waiting_readers :: uint32
  active_writer :: bool
  writer_thread :: pthread_t

record my_rw_lock_t =
  rw_lock :: os_object
  rw_readers :: os_object
  rw_writers :: os_object
  rw_state :: int
  rw_waiters :: int
  write_thread :: pthread_t

definition safe_mutex_assert_owner :: "pthread_t \<Rightarrow> safe_mutex_t \<Rightarrow> bool" where
  "safe_mutex_assert_owner self mp \<longleftrightarrow> sm_count mp > 0 \<and> self = sm_thread mp"

definition safe_mutex_assert_not_owner :: "pthread_t \<Rightarrow> safe_mutex_t \<Rightarrow> bool" where
  "safe_mutex_assert_not_owner self mp \<longleftrightarrow> sm_count mp = 0 \<or> self \<noteq> sm_thread mp"

definition rw_pr_lock_assert_write_owner :: "pthread_t \<Rightarrow> rw_pr_lock_t \<Rightarrow> bool" where
  "rw_pr_lock_assert_write_owner self A \<longleftrightarrow> active_writer A \<and> self = writer_thread A"

definition rw_pr_lock_assert_not_write_owner :: "pthread_t \<Rightarrow> rw_pr_lock_t \<Rightarrow> bool" where
  "rw_pr_lock_assert_not_write_owner self A \<longleftrightarrow> \<not> active_writer A \<or> self \<noteq> writer_thread A"

definition my_rw_lock_assert_write_owner :: "pthread_t \<Rightarrow> my_rw_lock_t \<Rightarrow> bool" where
  "my_rw_lock_assert_write_owner self A \<longleftrightarrow> rw_state A = - 1 \<and> self = write_thread A"

definition my_rw_lock_assert_not_write_owner :: "pthread_t \<Rightarrow> my_rw_lock_t \<Rightarrow> bool" where
  "my_rw_lock_assert_not_write_owner self A \<longleftrightarrow> rw_state A \<ge> 0 \<or> self \<noteq> write_thread A"

text \<open>The assertions on instrumented objects, of \<^verbatim>\<open>mysql_thread.h\<close>; without \<^verbatim>\<open>SAFE_MUTEX\<close> the assertions are empty and hold.\<close>

definition mysql_mutex_assert_owner :: "bool \<Rightarrow> pthread_t \<Rightarrow> safe_mutex_t \<Rightarrow> bool" where
  "mysql_mutex_assert_owner safe_mutex self m_mutex \<longleftrightarrow> (if safe_mutex then safe_mutex_assert_owner self m_mutex else True)"

definition mysql_mutex_assert_not_owner :: "bool \<Rightarrow> pthread_t \<Rightarrow> safe_mutex_t \<Rightarrow> bool" where
  "mysql_mutex_assert_not_owner safe_mutex self m_mutex \<longleftrightarrow> (if safe_mutex then safe_mutex_assert_not_owner self m_mutex else True)"

definition mysql_prlock_assert_write_owner :: "bool \<Rightarrow> pthread_t \<Rightarrow> rw_pr_lock_t \<Rightarrow> bool" where
  "mysql_prlock_assert_write_owner safe_mutex self m_prlock \<longleftrightarrow> (if safe_mutex then rw_pr_lock_assert_write_owner self m_prlock else True)"

definition mysql_prlock_assert_not_write_owner :: "bool \<Rightarrow> pthread_t \<Rightarrow> rw_pr_lock_t \<Rightarrow> bool" where
  "mysql_prlock_assert_not_write_owner safe_mutex self m_prlock \<longleftrightarrow> (if safe_mutex then rw_pr_lock_assert_not_write_owner self m_prlock else True)"

section \<open>Shared counters\<close>

text \<open>The steps of one update, and where a thread is in it; \<open>reg\<close> is the register it loads the counter into.\<close>

datatype pc = At_lock | At_load | At_store | At_unlock | At_end

record counter_state =
  counter :: uint32
  holder :: "nat option"
  pcs :: "nat \<Rightarrow> pc"
  regs :: "nat \<Rightarrow> uint32"

definition goto :: "nat \<Rightarrow> pc \<Rightarrow> counter_state \<Rightarrow> counter_state" where
  "goto t p s = s\<lparr>pcs := (pcs s)(t := p)\<rparr>"

text \<open>\<^verbatim>\<open>thread_safe_add(V,C,L)\<close>, with thread \<open>t\<close> adding \<open>C t\<close>; increment, decrement and subtraction are the amounts 1, -1 and \<open>- C\<close>.
  The macro takes a variable of any integer type; the model is for the 32 bits of a \<^verbatim>\<open>ulong\<close> or \<^verbatim>\<open>int\<close> of the target.\<close>

inductive thread_safe_add :: "(nat \<Rightarrow> uint32) \<Rightarrow> counter_state \<Rightarrow> counter_state \<Rightarrow> bool" for C where
  lock: "pcs s t = At_lock \<Longrightarrow> holder s = None \<Longrightarrow> thread_safe_add C s (goto t At_load (s\<lparr>holder := Some t\<rparr>))"
| load: "pcs s t = At_load \<Longrightarrow> thread_safe_add C s (goto t At_store (s\<lparr>regs := (regs s)(t := counter s)\<rparr>))"
| store: "pcs s t = At_store \<Longrightarrow> thread_safe_add C s (goto t At_unlock (s\<lparr>counter := regs s t + C t\<rparr>))"
| unlock: "pcs s t = At_unlock \<Longrightarrow> thread_safe_add C s (goto t At_end (s\<lparr>holder := None\<rparr>))"

text \<open>\<^verbatim>\<open>statistic_add(V,C,L)\<close> of a build without \<^verbatim>\<open>SAFE_STATISTICS\<close>: the lock is not honoured.\<close>

inductive statistic_add :: "(nat \<Rightarrow> uint32) \<Rightarrow> counter_state \<Rightarrow> counter_state \<Rightarrow> bool" for C where
  stat_load: "pcs s t = At_load \<Longrightarrow> statistic_add C s (goto t At_store (s\<lparr>regs := (regs s)(t := counter s)\<rparr>))"
| stat_store: "pcs s t = At_store \<Longrightarrow> statistic_add C s (goto t At_end (s\<lparr>counter := regs s t + C t\<rparr>))"

inductive_cases thread_safe_addE: "thread_safe_add C s s'"

definition interlocked_add :: "uint32 \<Rightarrow> uint32 \<Rightarrow> uint32" where
  "interlocked_add V C = V + C"

definition threads_start :: "pc \<Rightarrow> nat \<Rightarrow> uint32 \<Rightarrow> counter_state" where
  "threads_start p n V = \<lparr>counter = V, holder = None, pcs = (\<lambda>t. if t < n then p else At_end), regs = (\<lambda>_. 0)\<rparr>"

text \<open>
  The invariant: only the holder of the mutex is between lock and unlock, what it loaded is the counter, and
  the counter is the start value plus the amounts of the threads that have stored.
\<close>

definition counter_inv :: "(nat \<Rightarrow> uint32) \<Rightarrow> nat \<Rightarrow> uint32 \<Rightarrow> counter_state \<Rightarrow> bool" where
  "counter_inv C n V s \<longleftrightarrow>
     (\<forall>t. pcs s t \<in> {At_load, At_store, At_unlock} \<longleftrightarrow> holder s = Some t) \<and>
     (\<forall>t. pcs s t = At_store \<longrightarrow> regs s t = counter s) \<and>
     (\<forall>t. n \<le> t \<longrightarrow> pcs s t = At_end) \<and>
     counter s = V + (\<Sum>t\<in>{t. t < n \<and> pcs s t \<in> {At_unlock, At_end}}. C t)"

lemma counter_inv_start: "counter_inv C n V (threads_start At_lock n V)"
  by (auto simp: counter_inv_def threads_start_def)

lemma counter_inv_unique:
  assumes "counter_inv C n V s" "pcs s t \<in> {At_load, At_store, At_unlock}" "pcs s u \<in> {At_load, At_store, At_unlock}"
  shows "u = t"
proof -
  from assms have "holder s = Some t" "holder s = Some u" by (simp_all only: counter_inv_def)
  then show ?thesis by simp
qed

lemma counter_inv_step: "thread_safe_add C s s' \<Longrightarrow> counter_inv C n V s \<Longrightarrow> counter_inv C n V s'"
proof (induction rule: thread_safe_add.induct)
  case (lock s t)
  then have "t < n" by (metis counter_inv_def linorder_not_less pc.distinct(7))
  moreover have "{u. u < n \<and> (if u = t then At_load else pcs s u) \<in> {At_unlock, At_end}}
      = {u. u < n \<and> pcs s u \<in> {At_unlock, At_end}}"
    using lock by auto
  ultimately show ?case
    using lock by (auto simp: counter_inv_def goto_def)
next
  case (load s t)
  have "{u. u < n \<and> (if u = t then At_store else pcs s u) \<in> {At_unlock, At_end}}
      = {u. u < n \<and> pcs s u \<in> {At_unlock, At_end}}"
    using load by auto
  with load show ?case
    by (auto simp: counter_inv_def goto_def)
next
  case (store s t)
  let ?done = "{u. u < n \<and> pcs s u \<in> {At_unlock, At_end}}"
  have t: "t < n" using store by (metis counter_inv_def linorder_not_less pc.distinct(17))
  then have "{u. u < n \<and> (if u = t then At_unlock else pcs s u) \<in> {At_unlock, At_end}} = insert t ?done"
    by auto
  moreover have "t \<notin> ?done" "finite ?done" using store by auto
  ultimately have "(\<Sum>u\<in>{u. u < n \<and> (if u = t then At_unlock else pcs s u) \<in> {At_unlock, At_end}}. C u)
      = C t + (\<Sum>u\<in>?done. C u)" by simp
  moreover have "pcs s u \<noteq> At_store" if "u \<noteq> t" for u
    using counter_inv_unique [OF store(2), of t u] store(1) that by auto
  ultimately show ?case
    using store by (auto simp: counter_inv_def goto_def)
next
  case (unlock s t)
  have "{u. u < n \<and> (if u = t then At_end else pcs s u) \<in> {At_unlock, At_end}}
      = {u. u < n \<and> pcs s u \<in> {At_unlock, At_end}}"
    using unlock by auto
  moreover have "pcs s u \<notin> {At_load, At_store, At_unlock}" if "u \<noteq> t" for u
    using counter_inv_unique [OF unlock(2), of t u] unlock(1) that by auto
  ultimately show ?case
    using unlock by (auto simp: counter_inv_def goto_def)
qed

lemma counter_inv_reach: "(thread_safe_add C)\<^sup>*\<^sup>* s s' \<Longrightarrow> counter_inv C n V s \<Longrightarrow> counter_inv C n V s'"
  by (induction rule: rtranclp_induct) (auto intro: counter_inv_step)

lemma thread_safe_add_progress:
  assumes "counter_inv C n V s" and "pcs s t \<noteq> At_end"
  shows "\<exists>s'. thread_safe_add C s s'"
proof (cases "holder s")
  case None
  with assms have "pcs s t = At_lock"
    by (cases "pcs s t") (auto simp: counter_inv_def dest: spec [of _ t])
  with None show ?thesis by (blast intro: lock)
next
  case (Some u)
  with assms(1) have "pcs s u \<in> {At_load, At_store, At_unlock}" by (auto simp: counter_inv_def)
  then show ?thesis by (auto intro: load store unlock)
qed

text \<open>The steps thread \<open>t\<close> still has to take, and all threads together.\<close>

fun steps_left :: "pc \<Rightarrow> nat" where
  "steps_left At_lock = 4"
| "steps_left At_load = 3"
| "steps_left At_store = 2"
| "steps_left At_unlock = 1"
| "steps_left At_end = 0"

lemma steps_left_0 [simp]: "steps_left p = 0 \<longleftrightarrow> p = At_end"
  by (cases p) simp_all

lemma steps_left_goto:
  assumes "t < n" and "steps_left (pcs s t) = Suc (steps_left p)"
  shows "(\<Sum>u < n. steps_left (pcs s u)) = Suc (\<Sum>u < n. steps_left (((pcs s)(t := p)) u))"
  using assms by (simp add: sum.remove [of "{..<n}" t])

lemma steps_left_step:
  assumes "thread_safe_add C s s'" and "counter_inv C n V s"
  shows "(\<Sum>u < n. steps_left (pcs s u)) = Suc (\<Sum>u < n. steps_left (pcs s' u))"
proof -
  obtain t p v where t: "pcs s' = (pcs s)(t := p)" and "steps_left (pcs s t) = Suc (steps_left p)"
    using assms(1) by (cases rule: thread_safe_add.cases) (auto simp: goto_def)
  moreover from this have "pcs s t \<noteq> At_end" by auto
  then have "t < n" using assms(2) by (metis counter_inv_def linorder_not_less)
  ultimately show ?thesis using steps_left_goto by metis
qed

lemma steps_left_run:
  assumes "(thread_safe_add C ^^ k) (threads_start At_lock n V) s"
  shows "counter_inv C n V s \<and> k + (\<Sum>u < n. steps_left (pcs s u)) = 4 * n"
  using assms
proof (induction k arbitrary: s)
  case 0
  then have s: "s = threads_start At_lock n V" by simp
  have "(\<Sum>u < n. steps_left (pcs s u)) = 4 * n" by (simp add: s threads_start_def)
  then show ?case by (simp add: s counter_inv_start)
next
  case (Suc k)
  then obtain r where "(thread_safe_add C ^^ k) (threads_start At_lock n V) r" "thread_safe_add C r s" by auto
  with Suc.IH [of r] steps_left_step [of C r s n V] counter_inv_step [of C r s n V] show ?case by auto
qed

lemma uint_div_mod_parts:
  fixes now :: ulonglong
  shows "uint (now div 10000000) = uint now div 10000000" "uint (now mod 10000000) = uint now mod 10000000"
  by (simp_all add: uint_div_distrib uint_mod_distrib)

section \<open>Properties\<close>

text \<open>C9: no update of a counter through \<^verbatim>\<open>thread_safe_increment\<close>, \<^verbatim>\<open>thread_safe_add\<close> and their inverses is lost: in every
  interleaving of any number of threads the final value is the start value plus all amounts, with the wrap-around of
  the counter, which is also what atomic additions in any order give; and until all threads are done some thread
  can go on, so the lock never blocks all of them.\<close>
theorem thread_safe_add_exact:
  assumes "(thread_safe_add C)\<^sup>*\<^sup>* (threads_start At_lock n V) s"
  shows "((\<forall>t < n. pcs s t = At_end) \<longrightarrow>
      counter s = V + (\<Sum>t < n. C t) \<and> counter s = fold (\<lambda>t v. interlocked_add v (C t)) [0..<n] V) \<and>
    ((\<exists>t < n. pcs s t \<noteq> At_end) \<longrightarrow> (\<exists>s'. thread_safe_add C s s'))"
proof -
  have inv: "counter_inv C n V s" by (rule counter_inv_reach [OF assms counter_inv_start])
  have "fold (\<lambda>t v. interlocked_add v (C t)) [0..<n] V = V + (\<Sum>t < n. C t)"
    by (induction n) (simp_all add: interlocked_add_def ac_simps)
  moreover have "counter s = V + (\<Sum>t < n. C t)" if "\<forall>t < n. pcs s t = At_end"
  proof -
    have "{t. t < n \<and> pcs s t \<in> {At_unlock, At_end}} = {..<n}" using that by auto
    with inv show ?thesis by (simp add: counter_inv_def)
  qed
  ultimately show ?thesis using thread_safe_add_progress [OF inv] by auto
qed

theorem thread_safe_add_exact_witness: "\<exists>s'. thread_safe_add (\<lambda>_. 1) (threads_start At_lock 2 5) s'"
  using thread_safe_add_exact [of "\<lambda>_. 1" 2 5 "threads_start At_lock 2 5"]
  by (auto simp: threads_start_def)

text \<open>C10: updates through the lock always finish: whatever the order the threads run in, after \<open>k\<close> steps either \<open>k\<close> is four times the
  number of threads, all of them are done and none can move, or \<open>k\<close> is less and some thread can take the next step; so there
  is no deadlock and no run of more than four steps for each thread.\<close>
theorem thread_safe_add_finishes:
  assumes "(thread_safe_add C ^^ k) (threads_start At_lock n V) s"
  shows "k < 4 * n \<and> (\<exists>s'. thread_safe_add C s s') \<or>
    k = 4 * n \<and> (\<forall>t < n. pcs s t = At_end) \<and> \<not> (\<exists>s'. thread_safe_add C s s')"
proof -
  from steps_left_run [OF assms] have inv: "counter_inv C n V s" and left: "k + (\<Sum>u < n. steps_left (pcs s u)) = 4 * n"
    by auto
  show ?thesis
  proof (cases "\<forall>t < n. pcs s t = At_end")
    case True
    then have "(\<Sum>u < n. steps_left (pcs s u)) = 0" by simp
    moreover from this have "\<not> thread_safe_add C s s'" for s' using steps_left_step [OF _ inv] by fastforce
    ultimately show ?thesis using left True by auto
  next
    case False
    then obtain t where t: "t < n" "pcs s t \<noteq> At_end" by auto
    then have "0 < (\<Sum>u < n. steps_left (pcs s u))" by (auto intro!: sum_pos2 [of _ t] simp: zero_less_iff_neq_zero)
    then show ?thesis using left thread_safe_add_progress [OF inv t(2)] by auto
  qed
qed

theorem thread_safe_add_finishes_witness: "\<exists>s'. thread_safe_add (\<lambda>_. 1) (threads_start At_lock 2 5) s'"
  using thread_safe_add_finishes [of 0 "\<lambda>_. 1" 2 5 "threads_start At_lock 2 5"] by auto

text \<open>Without \<^verbatim>\<open>SAFE_STATISTICS\<close> an update can be lost: two threads that add 1 to a counter of 0 can leave it at 1.\<close>
lemma statistic_add_loses_updates:
  "\<exists>s. (statistic_add (\<lambda>_. 1))\<^sup>*\<^sup>* (threads_start At_load 2 0) s \<and> pcs s 0 = At_end \<and> pcs s 1 = At_end \<and> counter s = 1"
proof -
  let ?s0 = "threads_start At_load 2 0"
  let ?s1 = "goto 0 At_store (?s0\<lparr>regs := (regs ?s0)(0 := counter ?s0)\<rparr>)"
  let ?s2 = "goto 1 At_store (?s1\<lparr>regs := (regs ?s1)(1 := counter ?s1)\<rparr>)"
  let ?s3 = "goto 0 At_end (?s2\<lparr>counter := regs ?s2 0 + 1\<rparr>)"
  let ?s4 = "goto 1 At_end (?s3\<lparr>counter := regs ?s3 1 + 1\<rparr>)"
  have "statistic_add (\<lambda>_. 1) ?s0 ?s1" by (rule stat_load) (simp add: threads_start_def)
  moreover have "statistic_add (\<lambda>_. 1) ?s1 ?s2" by (rule stat_load) (simp add: threads_start_def goto_def)
  moreover have "statistic_add (\<lambda>_. 1) ?s2 ?s3" by (rule stat_store) (simp add: threads_start_def goto_def)
  moreover have "statistic_add (\<lambda>_. 1) ?s3 ?s4" by (rule stat_store) (simp add: threads_start_def goto_def)
  ultimately have "(statistic_add (\<lambda>_. 1))\<^sup>*\<^sup>* ?s0 ?s4"
    by (meson rtranclp.rtrancl_into_rtrancl rtranclp.rtrancl_refl)
  moreover have "pcs ?s4 0 = At_end \<and> pcs ?s4 1 = At_end \<and> counter ?s4 = 1"
    by (simp add: threads_start_def goto_def)
  ultimately show ?thesis by blast
qed

text \<open>C36: \<^verbatim>\<open>set_timespec_nsec\<close> computes the exact absolute time: the nanoseconds of the result are in range, and the whole is
  the clock reading (in units of 100 ns) plus the interval, as long as their sum fits 64 bits.\<close>
theorem set_timespec_nsec_exact:
  assumes "uint systime + uint NSEC div 100 < 2 ^ 64"
  shows "total_nsec (set_timespec_nsec systime NSEC) = uint systime * 100 + uint NSEC \<and>
    0 \<le> tv_nsec (set_timespec_nsec systime NSEC) \<and> tv_nsec (set_timespec_nsec systime NSEC) < 1000000000"
proof -
  let ?now = "systime + NSEC div 100"
  have now: "uint ?now = uint systime + uint NSEC div 100"
  proof -
    have "0 \<le> uint systime + uint NSEC div 100"
      by (intro add_nonneg_nonneg uint_ge_0) (simp add: pos_imp_zdiv_nonneg_iff)
    then show ?thesis using assms by (simp add: uint_word_ariths uint_div_distrib mod_pos_pos_trivial)
  qed
  have regroup: "q * 1000000000 + (r * 100 + k) = (q * 10000000 + r) * 100 + k" for q r k :: int by simp
  have m: "uint (NSEC mod 100) = uint NSEC mod 100" by (simp add: uint_mod_distrib)
  have le: "uint (?now mod 10000000) < 10000000" "0 \<le> uint (?now mod 10000000)" "uint NSEC mod 100 < 100" "0 \<le> uint NSEC mod 100"
    by (simp_all add: uint_div_mod_parts)
  then have ns: "uint (?now mod 10000000 * 100 + NSEC mod 100) = uint ?now mod 10000000 * 100 + uint NSEC mod 100"
    using uint_div_mod_parts(2) [of ?now] m by (simp add: uint_word_ariths)
  have "total_nsec (set_timespec_nsec systime NSEC)
      = uint ?now div 10000000 * 1000000000 + (uint ?now mod 10000000 * 100 + uint NSEC mod 100)"
    by (simp only: set_timespec_nsec_def Let_def total_nsec_def timespec.sel ns uint_div_mod_parts(1))
  also have "\<dots> = (uint ?now div 10000000 * 10000000 + uint ?now mod 10000000) * 100 + uint NSEC mod 100"
    by (rule regroup)
  also have "\<dots> = (uint systime + uint NSEC div 100) * 100 + uint NSEC mod 100"
    by (simp only: div_mult_mod_eq now)
  also have "\<dots> = uint systime * 100 + uint NSEC" by (simp add: algebra_simps)
  finally show ?thesis
    using le uint_div_mod_parts(2) [of ?now] ns by (simp add: set_timespec_nsec_def Let_def)
qed

theorem set_timespec_nsec_exact_witness: "total_nsec (set_timespec_nsec 10000000 1999) = 1000001999"
  using set_timespec_nsec_exact [of 10000000 1999] by simp

text \<open>\<^verbatim>\<open>set_timespec_nsec\<close> is not safe for a sum as its argument: called with the text \<^verbatim>\<open>a + b\<close> it divides only \<^verbatim>\<open>b\<close> by 100,
  and the wait ends about \<^verbatim>\<open>99 * a\<close> nanoseconds late; for one second and 0 that is 99 seconds.\<close>
lemma set_timespec_nsec_sum_wrong:
  "total_nsec (set_timespec_nsec_sum 0 1000000000 0) = 100000000000 \<and>
   total_nsec (set_timespec_nsec 0 (1000000000 + 0)) = 1000000000"
  by (simp add: total_nsec_def set_timespec_nsec_sum_def set_timespec_nsec_def)

text \<open>\<^verbatim>\<open>cmp_timespec\<close> is 1, 0 or -1 as the first absolute time is after, at or before the second, for normalised times,
  and the Windows version agrees with the order of its 100 ns counts.\<close>
lemma cmp_timespec_sgn:
  assumes "0 \<le> tv_nsec a" "tv_nsec a < 1000000000" "0 \<le> tv_nsec b" "tv_nsec b < 1000000000"
  shows "cmp_timespec a b = sgn (total_nsec a - total_nsec b) \<and> cmp_timespec b a = - cmp_timespec a b \<and>
    win_cmp_timespec x y = sgn (i64 x - i64 y)"
  using assms by (auto simp: cmp_timespec_def total_nsec_def win_cmp_timespec_def sgn_if)

lemma cmp_timespec_sgn_instance: "cmp_timespec (Timespec 2 5) (Timespec 1 999999999) = 1"
  using cmp_timespec_sgn [of "Timespec 2 5" "Timespec 1 999999999"] by (simp add: total_nsec_def)

text \<open>In a debug build exactly one assertion of a pair on an instrumented object passes, in a release build both do.\<close>
lemma mysql_assertions:
  "(mysql_mutex_assert_owner safe self mp \<and> mysql_mutex_assert_not_owner safe self mp) = (\<not> safe)"
  "mysql_mutex_assert_owner safe self mp \<or> mysql_mutex_assert_not_owner safe self mp"
  "(mysql_prlock_assert_write_owner safe self pr \<and> mysql_prlock_assert_not_write_owner safe self pr) = (\<not> safe)"
  "mysql_prlock_assert_write_owner safe self pr \<or> mysql_prlock_assert_not_write_owner safe self pr"
  by (auto simp: mysql_mutex_assert_owner_def mysql_mutex_assert_not_owner_def mysql_prlock_assert_write_owner_def
      mysql_prlock_assert_not_write_owner_def safe_mutex_assert_owner_def safe_mutex_assert_not_owner_def word_gt_0
      rw_pr_lock_assert_write_owner_def rw_pr_lock_assert_not_write_owner_def)

text \<open>The ownership assertions of the three debugging locks exclude each other and one of each pair holds: a thread passes
  \<^verbatim>\<open>assert_owner\<close> exactly when it fails \<^verbatim>\<open>assert_not_owner\<close> (for the read-write lock as long as its state is -1, 0
  or a number of readers).\<close>
lemma ownership_assertions_complementary:
  assumes "- 1 \<le> rw_state rw"
  shows "(safe_mutex_assert_owner self mp \<longleftrightarrow> \<not> safe_mutex_assert_not_owner self mp) \<and>
    (rw_pr_lock_assert_write_owner self pr \<longleftrightarrow> \<not> rw_pr_lock_assert_not_write_owner self pr) \<and>
    (my_rw_lock_assert_write_owner self rw \<longleftrightarrow> \<not> my_rw_lock_assert_not_write_owner self rw)"
  using assms by (auto simp: safe_mutex_assert_owner_def safe_mutex_assert_not_owner_def word_gt_0
      rw_pr_lock_assert_write_owner_def rw_pr_lock_assert_not_write_owner_def my_rw_lock_assert_write_owner_def
      my_rw_lock_assert_not_write_owner_def)

lemma ownership_assertions_complementary_instance:
  "my_rw_lock_assert_write_owner 4 \<lparr>rw_lock = 0, rw_readers = 0, rw_writers = 0, rw_state = - 1, rw_waiters = 0, write_thread = 4\<rparr>"
  using ownership_assertions_complementary [of "\<lparr>rw_lock = 0, rw_readers = 0, rw_writers = 0, rw_state = - 1, rw_waiters = 0, write_thread = 4\<rparr>" 4]
  by (simp add: my_rw_lock_assert_not_write_owner_def)

end
