(* ===== verification/Pthread_Layer.thy ===== *)
theory Pthread_Layer
  imports Session My_Pthread
begin

text \<open>
  The portability layer of \<^verbatim>\<open>my_pthread.h\<close>: which function a mutex, condition or read-write lock operation reaches on each
  platform and in each build.  The native functions are the record \<open>native\<close>, an argument of every definition; the preprocessor symbols that choose
  among them are the record \<open>build\<close>.  A macro that takes \<^verbatim>\<open>__FILE__\<close> and \<^verbatim>\<open>__LINE__\<close> has the place as an argument.

  \<open>thread_os_of\<close> puts the macros together to the set of primitives that the instrumented operations of \<open>Mysql_Thread\<close> call.  The
  lemmas carry the contracts of the native functions over the layer, so that the theorems on sessions hold of the whole stack, and show what the layer does
  to the meaning of a lock: on Windows, and where mutexes stand for read-write locks.  The last part is the thread specific data of Windows.
\<close>

section \<open>Platforms and builds\<close>

record 'w native =
  InitializeCriticalSection :: "addr \<Rightarrow> ('w, unit) prog"
  EnterCriticalSection :: "addr \<Rightarrow> ('w, unit) prog"
  LeaveCriticalSection :: "addr \<Rightarrow> ('w, unit) prog"
  DeleteCriticalSection :: "addr \<Rightarrow> ('w, unit) prog"
  win_pthread_mutex_trylock :: "addr \<Rightarrow> ('w, int) prog"
  posix_mutex_init :: "addr \<Rightarrow> addr \<Rightarrow> ('w, int) prog"
  posix_mutex_lock :: "addr \<Rightarrow> ('w, int) prog"
  posix_mutex_trylock :: "addr \<Rightarrow> ('w, int) prog"
  posix_mutex_unlock :: "addr \<Rightarrow> ('w, int) prog"
  posix_mutex_destroy :: "addr \<Rightarrow> ('w, int) prog"
  my_pthread_mutex_init :: "addr \<Rightarrow> addr \<Rightarrow> ('w, int) prog"
  my_pthread_mutex_trylock :: "addr \<Rightarrow> ('w, int) prog"
  fn_cond_init :: "addr \<Rightarrow> addr \<Rightarrow> ('w, int) prog"
  my_pthread_cond_init :: "addr \<Rightarrow> addr \<Rightarrow> ('w, int) prog"
  fn_cond_wait :: "addr \<Rightarrow> addr \<Rightarrow> ('w, int) prog"
  fn_cond_timedwait :: "addr \<Rightarrow> addr \<Rightarrow> addr \<Rightarrow> ('w, int) prog"
  my_pthread_cond_timedwait :: "addr \<Rightarrow> addr \<Rightarrow> addr \<Rightarrow> ('w, int) prog"
  fn_cond_signal :: "addr \<Rightarrow> ('w, int) prog"
  fn_cond_broadcast :: "addr \<Rightarrow> ('w, int) prog"
  fn_cond_destroy :: "addr \<Rightarrow> ('w, int) prog"
  fn_create :: "addr \<Rightarrow> addr \<Rightarrow> addr \<Rightarrow> addr \<Rightarrow> ('w, int) prog"
  fn_safe_mutex_init :: "addr \<Rightarrow> addr \<Rightarrow> c_str \<Rightarrow> c_uint \<Rightarrow> ('w, int) prog"
  fn_safe_mutex_lock :: "addr \<Rightarrow> bool \<Rightarrow> c_str \<Rightarrow> c_uint \<Rightarrow> ('w, int) prog"
  fn_safe_mutex_unlock :: "addr \<Rightarrow> c_str \<Rightarrow> c_uint \<Rightarrow> ('w, int) prog"
  fn_safe_mutex_destroy :: "addr \<Rightarrow> c_str \<Rightarrow> c_uint \<Rightarrow> ('w, int) prog"
  safe_cond_wait :: "addr \<Rightarrow> addr \<Rightarrow> c_str \<Rightarrow> c_uint \<Rightarrow> ('w, int) prog"
  safe_cond_timedwait :: "addr \<Rightarrow> addr \<Rightarrow> addr \<Rightarrow> c_str \<Rightarrow> c_uint \<Rightarrow> ('w, int) prog"
  my_pthread_fastmutex_init :: "addr \<Rightarrow> addr \<Rightarrow> ('w, int) prog"
  my_pthread_fastmutex_lock :: "addr \<Rightarrow> ('w, int) prog"
  pthread_rwlock_init :: "addr \<Rightarrow> addr \<Rightarrow> ('w, int) prog"
  pthread_rwlock_rdlock :: "addr \<Rightarrow> ('w, int) prog"
  pthread_rwlock_wrlock :: "addr \<Rightarrow> ('w, int) prog"
  pthread_rwlock_tryrdlock :: "addr \<Rightarrow> ('w, int) prog"
  pthread_rwlock_trywrlock :: "addr \<Rightarrow> ('w, int) prog"
  pthread_rwlock_unlock :: "addr \<Rightarrow> ('w, int) prog"
  pthread_rwlock_destroy :: "addr \<Rightarrow> ('w, int) prog"
  fn_rwlock_init :: "addr \<Rightarrow> ('w, int) prog"
  fn_rw_rdlock :: "addr \<Rightarrow> ('w, int) prog"
  fn_rw_wrlock :: "addr \<Rightarrow> ('w, int) prog"
  fn_rw_tryrdlock :: "addr \<Rightarrow> ('w, int) prog"
  fn_rw_trywrlock :: "addr \<Rightarrow> ('w, int) prog"
  fn_rw_unlock :: "addr \<Rightarrow> ('w, int) prog"
  fn_rwlock_destroy :: "addr \<Rightarrow> ('w, int) prog"
  my_rw_init :: "addr \<Rightarrow> ('w, int) prog"
  my_rw_rdlock :: "addr \<Rightarrow> ('w, int) prog"
  my_rw_wrlock :: "addr \<Rightarrow> ('w, int) prog"
  my_rw_tryrdlock :: "addr \<Rightarrow> ('w, int) prog"
  my_rw_trywrlock :: "addr \<Rightarrow> ('w, int) prog"
  my_rw_unlock :: "addr \<Rightarrow> ('w, int) prog"
  my_rw_destroy :: "addr \<Rightarrow> ('w, int) prog"
  fn_rw_pr_init :: "addr \<Rightarrow> ('w, int) prog"
  fn_rw_pr_destroy :: "addr \<Rightarrow> ('w, int) prog"
  fn_rw_pr_rdlock :: "addr \<Rightarrow> ('w, int) prog"
  fn_rw_pr_wrlock :: "addr \<Rightarrow> ('w, int) prog"
  fn_rw_pr_unlock :: "addr \<Rightarrow> ('w, int) prog"
  pthread_dummy :: "int \<Rightarrow> ('w, int) prog"
  load_attr :: "addr \<Rightarrow> ('w, addr) prog"

text \<open>
  The symbols: \<^verbatim>\<open>_WIN32\<close>, \<^verbatim>\<open>SAFE_MUTEX\<close>, \<^verbatim>\<open>MY_PTHREAD_FASTMUTEX\<close>, \<^verbatim>\<open>USE_MUTEX_INSTEAD_OF_RW_LOCKS\<close>,
  \<^verbatim>\<open>HAVE_BROKEN_RWLOCK\<close>, \<^verbatim>\<open>HAVE_PTHREAD_RWLOCK_RDLOCK\<close>, \<^verbatim>\<open>HAVE_RWLOCK_INIT\<close>, \<^verbatim>\<open>HAVE_CTHREADS_WRAPPER\<close>,
  \<^verbatim>\<open>HAVE_BROKEN_PTHREAD_COND_TIMEDWAIT\<close>, \<^verbatim>\<open>HPUX10\<close>, \<^verbatim>\<open>HAVE_POSIX1003_4a_MUTEX\<close>, \<^verbatim>\<open>HAVE_NONPOSIX_PTHREAD_MUTEX_INIT\<close>,
  \<^verbatim>\<open>HAVE_PTHREAD_ATTR_CREATE\<close>, \<^verbatim>\<open>HAVE_SIGWAIT\<close>, \<^verbatim>\<open>HAVE_DEC_3_2_THREADS\<close>.
\<close>

record build =
  win32 :: bool
  def_safe_mutex :: bool
  def_fastmutex :: bool
  def_mutex_for_rw :: bool
  def_broken_rwlock :: bool
  def_pthread_rwlock :: bool
  def_rwlock_init :: bool
  def_cthreads :: bool
  def_broken_timedwait :: bool
  def_hpux10 :: bool
  def_posix4a_mutex :: bool
  def_nonposix_init :: bool
  def_attr_create :: bool
  def_sigwait :: bool
  def_dec32_threads :: bool

text \<open>On Windows \<^verbatim>\<open>SAFE_MUTEX\<close> is undefined again; a broken read-write lock hides the native ones.\<close>

definition uses_safe_mutex :: "build \<Rightarrow> bool" where
  "uses_safe_mutex b \<longleftrightarrow> def_safe_mutex b \<and> \<not> win32 b"

definition uses_fastmutex :: "build \<Rightarrow> bool" where
  "uses_fastmutex b \<longleftrightarrow> def_fastmutex b \<and> \<not> uses_safe_mutex b"

definition uses_pthread_rwlock :: "build \<Rightarrow> bool" where
  "uses_pthread_rwlock b \<longleftrightarrow> def_pthread_rwlock b \<and> \<not> def_broken_rwlock b"

definition uses_rwlock_init :: "build \<Rightarrow> bool" where
  "uses_rwlock_init b \<longleftrightarrow> def_rwlock_init b \<and> \<not> def_broken_rwlock b"

definition NEED_MY_RW_LOCK :: "build \<Rightarrow> bool" where
  "NEED_MY_RW_LOCK b \<longleftrightarrow> \<not> def_mutex_for_rw b \<and> \<not> uses_pthread_rwlock b \<and> \<not> uses_rwlock_init b"

section \<open>Mutexes\<close>

record my_pthread_fastmutex_t =
  fm_mutex :: os_object
  fm_spins :: uint32
  fm_rng_state :: uint32

text \<open>\<^verbatim>\<open>&(A)->mutex\<close> is the address of the first member.\<close>

definition fastmutex_mutex :: "addr \<Rightarrow> addr" where
  "fastmutex_mutex A = A"

text \<open>What the name stands for before \<^verbatim>\<open>SAFE_MUTEX\<close> and \<^verbatim>\<open>MY_PTHREAD_FASTMUTEX\<close> redefine it.\<close>

definition platform_mutex_init :: "build \<Rightarrow> 'w native \<Rightarrow> addr \<Rightarrow> addr \<Rightarrow> ('w, int) prog" where
  "platform_mutex_init b n A B =
     (if win32 b then do { InitializeCriticalSection n A; State_Monad.return 0 }
      else if def_nonposix_init b then my_pthread_mutex_init n A B
      else posix_mutex_init n A B)"

definition platform_mutex_lock :: "build \<Rightarrow> 'w native \<Rightarrow> addr \<Rightarrow> ('w, int) prog" where
  "platform_mutex_lock b n A =
     (if win32 b then do { EnterCriticalSection n A; State_Monad.return 0 } else posix_mutex_lock n A)"

definition platform_mutex_trylock :: "build \<Rightarrow> 'w native \<Rightarrow> addr \<Rightarrow> ('w, int) prog" where
  "platform_mutex_trylock b n A =
     (if def_posix4a_mutex b then my_pthread_mutex_trylock n A
      else if win32 b then win_pthread_mutex_trylock n A
      else posix_mutex_trylock n A)"

definition platform_mutex_unlock :: "build \<Rightarrow> 'w native \<Rightarrow> addr \<Rightarrow> ('w, int) prog" where
  "platform_mutex_unlock b n A =
     (if win32 b then do { LeaveCriticalSection n A; State_Monad.return 0 } else posix_mutex_unlock n A)"

definition platform_mutex_destroy :: "build \<Rightarrow> 'w native \<Rightarrow> addr \<Rightarrow> ('w, int) prog" where
  "platform_mutex_destroy b n A =
     (if win32 b then do { DeleteCriticalSection n A; State_Monad.return 0 }
      else if def_cthreads b then pthread_dummy n 0
      else posix_mutex_destroy n A)"

definition platform_cond_timedwait :: "build \<Rightarrow> 'w native \<Rightarrow> addr \<Rightarrow> addr \<Rightarrow> addr \<Rightarrow> ('w, int) prog" where
  "platform_cond_timedwait b n A B C =
     (if def_hpux10 b then my_pthread_cond_timedwait n A B C
      else if win32 b then fn_cond_timedwait n A B C
      else if def_cthreads b then fn_cond_wait n A B
      else if def_broken_timedwait b then my_pthread_cond_timedwait n A B C
      else fn_cond_timedwait n A B C)"

definition pthread_mutex_init_macro :: "build \<Rightarrow> 'w native \<Rightarrow> site \<Rightarrow> addr \<Rightarrow> addr \<Rightarrow> ('w, int) prog" where
  "pthread_mutex_init_macro b n place A B =
     (if uses_safe_mutex b then fn_safe_mutex_init n A B (fst place) (snd place)
      else if uses_fastmutex b then my_pthread_fastmutex_init n A B
      else platform_mutex_init b n A B)"

definition pthread_mutex_lock_macro :: "build \<Rightarrow> 'w native \<Rightarrow> site \<Rightarrow> addr \<Rightarrow> ('w, int) prog" where
  "pthread_mutex_lock_macro b n place A =
     (if uses_safe_mutex b then fn_safe_mutex_lock n A False (fst place) (snd place)
      else if uses_fastmutex b then my_pthread_fastmutex_lock n A
      else platform_mutex_lock b n A)"

definition pthread_mutex_trylock_macro :: "build \<Rightarrow> 'w native \<Rightarrow> site \<Rightarrow> addr \<Rightarrow> ('w, int) prog" where
  "pthread_mutex_trylock_macro b n place A =
     (if uses_safe_mutex b then fn_safe_mutex_lock n A True (fst place) (snd place)
      else if uses_fastmutex b then posix_mutex_trylock n (fastmutex_mutex A)
      else platform_mutex_trylock b n A)"

definition pthread_mutex_unlock_macro :: "build \<Rightarrow> 'w native \<Rightarrow> site \<Rightarrow> addr \<Rightarrow> ('w, int) prog" where
  "pthread_mutex_unlock_macro b n place A =
     (if uses_safe_mutex b then fn_safe_mutex_unlock n A (fst place) (snd place)
      else if uses_fastmutex b then posix_mutex_unlock n (fastmutex_mutex A)
      else platform_mutex_unlock b n A)"

definition pthread_mutex_destroy_macro :: "build \<Rightarrow> 'w native \<Rightarrow> site \<Rightarrow> addr \<Rightarrow> ('w, int) prog" where
  "pthread_mutex_destroy_macro b n place A =
     (if uses_safe_mutex b then fn_safe_mutex_destroy n A (fst place) (snd place)
      else if uses_fastmutex b then posix_mutex_destroy n (fastmutex_mutex A)
      else platform_mutex_destroy b n A)"

section \<open>Conditions and threads\<close>

definition pthread_cond_init_macro :: "build \<Rightarrow> 'w native \<Rightarrow> addr \<Rightarrow> addr \<Rightarrow> ('w, int) prog" where
  "pthread_cond_init_macro b n C A =
     (if \<not> win32 b \<and> def_nonposix_init b then my_pthread_cond_init n C A else fn_cond_init n C A)"

definition pthread_cond_wait_macro :: "build \<Rightarrow> 'w native \<Rightarrow> site \<Rightarrow> addr \<Rightarrow> addr \<Rightarrow> ('w, int) prog" where
  "pthread_cond_wait_macro b n place A B =
     (if uses_safe_mutex b then safe_cond_wait n A B (fst place) (snd place)
      else if uses_fastmutex b then fn_cond_wait n A (fastmutex_mutex B)
      else fn_cond_wait n A B)"

definition pthread_cond_timedwait_macro :: "build \<Rightarrow> 'w native \<Rightarrow> site \<Rightarrow> addr \<Rightarrow> addr \<Rightarrow> addr \<Rightarrow> ('w, int) prog" where
  "pthread_cond_timedwait_macro b n place A B C =
     (if uses_safe_mutex b then safe_cond_timedwait n A B C (fst place) (snd place)
      else if uses_fastmutex b then fn_cond_timedwait n A (fastmutex_mutex B) C
      else platform_cond_timedwait b n A B C)"

definition pthread_cond_destroy_macro :: "build \<Rightarrow> 'w native \<Rightarrow> addr \<Rightarrow> ('w, int) prog" where
  "pthread_cond_destroy_macro b n A =
     (if \<not> win32 b \<and> def_cthreads b then pthread_dummy n 0 else fn_cond_destroy n A)"

text \<open>The wrapper passes the attribute by value.\<close>

definition pthread_create_macro :: "build \<Rightarrow> 'w native \<Rightarrow> addr \<Rightarrow> addr \<Rightarrow> addr \<Rightarrow> addr \<Rightarrow> ('w, int) prog" where
  "pthread_create_macro b n A B C D =
     (if \<not> win32 b \<and> (def_cthreads b \<or> def_attr_create b \<and> \<not> def_sigwait b \<or> def_dec32_threads b) then do { attr \<leftarrow> load_attr n B; fn_create n A attr C D }
      else fn_create n A B C D)"

section \<open>Read-write locks\<close>

definition my_rwlock_init_macro :: "build \<Rightarrow> 'w native \<Rightarrow> site \<Rightarrow> addr \<Rightarrow> addr \<Rightarrow> ('w, int) prog" where
  "my_rwlock_init_macro b n place A B =
     (if def_mutex_for_rw b then pthread_mutex_init_macro b n place A B
      else if uses_pthread_rwlock b then pthread_rwlock_init n A B
      else if uses_rwlock_init b then fn_rwlock_init n A
      else my_rw_init n A)"

definition rw_rdlock_macro :: "build \<Rightarrow> 'w native \<Rightarrow> site \<Rightarrow> addr \<Rightarrow> ('w, int) prog" where
  "rw_rdlock_macro b n place A =
     (if def_mutex_for_rw b then pthread_mutex_lock_macro b n place A
      else if uses_pthread_rwlock b then pthread_rwlock_rdlock n A
      else if uses_rwlock_init b then fn_rw_rdlock n A
      else my_rw_rdlock n A)"

definition rw_wrlock_macro :: "build \<Rightarrow> 'w native \<Rightarrow> site \<Rightarrow> addr \<Rightarrow> ('w, int) prog" where
  "rw_wrlock_macro b n place A =
     (if def_mutex_for_rw b then pthread_mutex_lock_macro b n place A
      else if uses_pthread_rwlock b then pthread_rwlock_wrlock n A
      else if uses_rwlock_init b then fn_rw_wrlock n A
      else my_rw_wrlock n A)"

definition rw_tryrdlock_macro :: "build \<Rightarrow> 'w native \<Rightarrow> site \<Rightarrow> addr \<Rightarrow> ('w, int) prog" where
  "rw_tryrdlock_macro b n place A =
     (if def_mutex_for_rw b then pthread_mutex_trylock_macro b n place A
      else if uses_pthread_rwlock b then pthread_rwlock_tryrdlock n A
      else if uses_rwlock_init b then fn_rw_tryrdlock n A
      else my_rw_tryrdlock n A)"

definition rw_trywrlock_macro :: "build \<Rightarrow> 'w native \<Rightarrow> site \<Rightarrow> addr \<Rightarrow> ('w, int) prog" where
  "rw_trywrlock_macro b n place A =
     (if def_mutex_for_rw b then pthread_mutex_trylock_macro b n place A
      else if uses_pthread_rwlock b then pthread_rwlock_trywrlock n A
      else if uses_rwlock_init b then fn_rw_trywrlock n A
      else my_rw_trywrlock n A)"

definition rw_unlock_macro :: "build \<Rightarrow> 'w native \<Rightarrow> site \<Rightarrow> addr \<Rightarrow> ('w, int) prog" where
  "rw_unlock_macro b n place A =
     (if def_mutex_for_rw b then pthread_mutex_unlock_macro b n place A
      else if uses_pthread_rwlock b then pthread_rwlock_unlock n A
      else if uses_rwlock_init b then fn_rw_unlock n A
      else my_rw_unlock n A)"

definition rwlock_destroy_macro :: "build \<Rightarrow> 'w native \<Rightarrow> site \<Rightarrow> addr \<Rightarrow> ('w, int) prog" where
  "rwlock_destroy_macro b n place A =
     (if def_mutex_for_rw b then pthread_mutex_destroy_macro b n place A
      else if uses_pthread_rwlock b then pthread_rwlock_destroy n A
      else if uses_rwlock_init b then fn_rwlock_destroy n A
      else my_rw_destroy n A)"

section \<open>The layer as a set of primitives\<close>

text \<open>\<open>place\<close> is where \<^verbatim>\<open>mysql_thread.h\<close> uses the macros.\<close>

definition thread_os_of :: "build \<Rightarrow> 'w native \<Rightarrow> site \<Rightarrow> 'w thread_os" where
  "thread_os_of b n place = \<lparr>
     pthread_mutex_init = pthread_mutex_init_macro b n place,
     safe_mutex_init = fn_safe_mutex_init n,
     pthread_mutex_destroy = pthread_mutex_destroy_macro b n place,
     safe_mutex_destroy = fn_safe_mutex_destroy n,
     pthread_mutex_lock = pthread_mutex_lock_macro b n place,
     pthread_mutex_trylock = pthread_mutex_trylock_macro b n place,
     safe_mutex_lock = fn_safe_mutex_lock n,
     pthread_mutex_unlock = pthread_mutex_unlock_macro b n place,
     safe_mutex_unlock = fn_safe_mutex_unlock n,
     my_rwlock_init = my_rwlock_init_macro b n place,
     rwlock_destroy = rwlock_destroy_macro b n place,
     rw_rdlock = rw_rdlock_macro b n place,
     rw_wrlock = rw_wrlock_macro b n place,
     rw_tryrdlock = rw_tryrdlock_macro b n place,
     rw_trywrlock = rw_trywrlock_macro b n place,
     rw_unlock = rw_unlock_macro b n place,
     rw_pr_init = fn_rw_pr_init n,
     rw_pr_destroy = fn_rw_pr_destroy n,
     rw_pr_rdlock = fn_rw_pr_rdlock n,
     rw_pr_wrlock = fn_rw_pr_wrlock n,
     rw_pr_unlock = fn_rw_pr_unlock n,
     pthread_cond_init = pthread_cond_init_macro b n,
     pthread_cond_destroy = pthread_cond_destroy_macro b n,
     pthread_cond_wait = pthread_cond_wait_macro b n place,
     pthread_cond_timedwait = pthread_cond_timedwait_macro b n place,
     pthread_cond_signal = fn_cond_signal n,
     pthread_cond_broadcast = fn_cond_broadcast n,
     pthread_create = pthread_create_macro b n\<rparr>"

section \<open>Contracts of the native functions\<close>

text \<open>A property of every native function that returns a code.\<close>

definition on_primitives :: "(('w, int) prog \<Rightarrow> bool) \<Rightarrow> 'w native \<Rightarrow> bool" where
  "on_primitives X n \<longleftrightarrow>
     (\<forall>a. X (win_pthread_mutex_trylock n a)) \<and>
     (\<forall>a b. X (posix_mutex_init n a b)) \<and>
     (\<forall>a. X (posix_mutex_lock n a)) \<and>
     (\<forall>a. X (posix_mutex_trylock n a)) \<and>
     (\<forall>a. X (posix_mutex_unlock n a)) \<and>
     (\<forall>a. X (posix_mutex_destroy n a)) \<and>
     (\<forall>a b. X (my_pthread_mutex_init n a b)) \<and>
     (\<forall>a. X (my_pthread_mutex_trylock n a)) \<and>
     (\<forall>a b. X (fn_cond_init n a b)) \<and>
     (\<forall>a b. X (my_pthread_cond_init n a b)) \<and>
     (\<forall>a b. X (fn_cond_wait n a b)) \<and>
     (\<forall>a b c. X (fn_cond_timedwait n a b c)) \<and>
     (\<forall>a b c. X (my_pthread_cond_timedwait n a b c)) \<and>
     (\<forall>a. X (fn_cond_signal n a)) \<and>
     (\<forall>a. X (fn_cond_broadcast n a)) \<and>
     (\<forall>a. X (fn_cond_destroy n a)) \<and>
     (\<forall>a b c d. X (fn_create n a b c d)) \<and>
     (\<forall>a b f l. X (fn_safe_mutex_init n a b f l)) \<and>
     (\<forall>a t f l. X (fn_safe_mutex_lock n a t f l)) \<and>
     (\<forall>a f l. X (fn_safe_mutex_unlock n a f l)) \<and>
     (\<forall>a f l. X (fn_safe_mutex_destroy n a f l)) \<and>
     (\<forall>a b f l. X (safe_cond_wait n a b f l)) \<and>
     (\<forall>a b c f l. X (safe_cond_timedwait n a b c f l)) \<and>
     (\<forall>a b. X (my_pthread_fastmutex_init n a b)) \<and>
     (\<forall>a. X (my_pthread_fastmutex_lock n a)) \<and>
     (\<forall>a b. X (pthread_rwlock_init n a b)) \<and>
     (\<forall>a. X (pthread_rwlock_rdlock n a)) \<and>
     (\<forall>a. X (pthread_rwlock_wrlock n a)) \<and>
     (\<forall>a. X (pthread_rwlock_tryrdlock n a)) \<and>
     (\<forall>a. X (pthread_rwlock_trywrlock n a)) \<and>
     (\<forall>a. X (pthread_rwlock_unlock n a)) \<and>
     (\<forall>a. X (pthread_rwlock_destroy n a)) \<and>
     (\<forall>a. X (fn_rwlock_init n a)) \<and>
     (\<forall>a. X (fn_rw_rdlock n a)) \<and>
     (\<forall>a. X (fn_rw_wrlock n a)) \<and>
     (\<forall>a. X (fn_rw_tryrdlock n a)) \<and>
     (\<forall>a. X (fn_rw_trywrlock n a)) \<and>
     (\<forall>a. X (fn_rw_unlock n a)) \<and>
     (\<forall>a. X (fn_rwlock_destroy n a)) \<and>
     (\<forall>a. X (my_rw_init n a)) \<and>
     (\<forall>a. X (my_rw_rdlock n a)) \<and>
     (\<forall>a. X (my_rw_wrlock n a)) \<and>
     (\<forall>a. X (my_rw_tryrdlock n a)) \<and>
     (\<forall>a. X (my_rw_trywrlock n a)) \<and>
     (\<forall>a. X (my_rw_unlock n a)) \<and>
     (\<forall>a. X (my_rw_destroy n a)) \<and>
     (\<forall>a. X (fn_rw_pr_init n a)) \<and>
     (\<forall>a. X (fn_rw_pr_destroy n a)) \<and>
     (\<forall>a. X (fn_rw_pr_rdlock n a)) \<and>
     (\<forall>a. X (fn_rw_pr_wrlock n a)) \<and>
     (\<forall>a. X (fn_rw_pr_unlock n a)) \<and>
     (\<forall>k. X (pthread_dummy n k))"

lemma on_primitivesD:
  assumes "on_primitives X n"
  shows "X (win_pthread_mutex_trylock n a)"
    "X (posix_mutex_init n a b)"
    "X (posix_mutex_lock n a)"
    "X (posix_mutex_trylock n a)"
    "X (posix_mutex_unlock n a)"
    "X (posix_mutex_destroy n a)"
    "X (my_pthread_mutex_init n a b)"
    "X (my_pthread_mutex_trylock n a)"
    "X (fn_cond_init n a b)"
    "X (my_pthread_cond_init n a b)"
    "X (fn_cond_wait n a b)"
    "X (fn_cond_timedwait n a b c)"
    "X (my_pthread_cond_timedwait n a b c)"
    "X (fn_cond_signal n a)"
    "X (fn_cond_broadcast n a)"
    "X (fn_cond_destroy n a)"
    "X (fn_create n a b c d)"
    "X (fn_safe_mutex_init n a b f l)"
    "X (fn_safe_mutex_lock n a t f l)"
    "X (fn_safe_mutex_unlock n a f l)"
    "X (fn_safe_mutex_destroy n a f l)"
    "X (safe_cond_wait n a b f l)"
    "X (safe_cond_timedwait n a b c f l)"
    "X (my_pthread_fastmutex_init n a b)"
    "X (my_pthread_fastmutex_lock n a)"
    "X (pthread_rwlock_init n a b)"
    "X (pthread_rwlock_rdlock n a)"
    "X (pthread_rwlock_wrlock n a)"
    "X (pthread_rwlock_tryrdlock n a)"
    "X (pthread_rwlock_trywrlock n a)"
    "X (pthread_rwlock_unlock n a)"
    "X (pthread_rwlock_destroy n a)"
    "X (fn_rwlock_init n a)"
    "X (fn_rw_rdlock n a)"
    "X (fn_rw_wrlock n a)"
    "X (fn_rw_tryrdlock n a)"
    "X (fn_rw_trywrlock n a)"
    "X (fn_rw_unlock n a)"
    "X (fn_rwlock_destroy n a)"
    "X (my_rw_init n a)"
    "X (my_rw_rdlock n a)"
    "X (my_rw_wrlock n a)"
    "X (my_rw_tryrdlock n a)"
    "X (my_rw_trywrlock n a)"
    "X (my_rw_unlock n a)"
    "X (my_rw_destroy n a)"
    "X (fn_rw_pr_init n a)"
    "X (fn_rw_pr_destroy n a)"
    "X (fn_rw_pr_rdlock n a)"
    "X (fn_rw_pr_wrlock n a)"
    "X (fn_rw_pr_unlock n a)"
    "X (pthread_dummy n k)"
  using assms by (simp_all only: on_primitives_def)

definition native_respects :: "('w pstate \<Rightarrow> 'v) \<Rightarrow> 'w native \<Rightarrow> bool" where
  "native_respects v n \<longleftrightarrow> on_primitives (\<lambda>m. sim v m m) n \<and>
     (\<forall>a. sim v (InitializeCriticalSection n a) (InitializeCriticalSection n a)) \<and>
     (\<forall>a. sim v (EnterCriticalSection n a) (EnterCriticalSection n a)) \<and>
     (\<forall>a. sim v (LeaveCriticalSection n a) (LeaveCriticalSection n a)) \<and>
     (\<forall>a. sim v (DeleteCriticalSection n a) (DeleteCriticalSection n a)) \<and>
     (\<forall>a. sim v (load_attr n a) (load_attr n a))"

definition native_records :: "('w pstate \<Rightarrow> psi_event list) \<Rightarrow> 'w native \<Rightarrow> bool" where
  "native_records h n \<longleftrightarrow> on_primitives (\<lambda>m. records h m (\<lambda>_. [Real_call])) n \<and>
     (\<forall>a. records h (EnterCriticalSection n a) (\<lambda>_. [Real_call])) \<and>
     (\<forall>a. records h (LeaveCriticalSection n a) (\<lambda>_. [Real_call]))"

lemmas mutex_macro_defs = pthread_mutex_init_macro_def pthread_mutex_lock_macro_def pthread_mutex_trylock_macro_def
  pthread_mutex_unlock_macro_def pthread_mutex_destroy_macro_def platform_mutex_init_def platform_mutex_lock_def
  platform_mutex_trylock_def platform_mutex_unlock_def platform_mutex_destroy_def

lemmas cond_macro_defs = platform_cond_timedwait_def pthread_cond_init_macro_def pthread_cond_wait_macro_def pthread_cond_timedwait_macro_def
  pthread_cond_destroy_macro_def pthread_create_macro_def

lemmas rw_macro_defs = my_rwlock_init_macro_def rw_rdlock_macro_def rw_wrlock_macro_def rw_tryrdlock_macro_def
  rw_trywrlock_macro_def rw_unlock_macro_def rwlock_destroy_macro_def

lemma sim_then_return: "sim v m m \<Longrightarrow> sim v (do { m; State_Monad.return r }) (do { m; State_Monad.return r })"
  by (intro sim_bind sim_return)

lemma records_then_return: "records h m (\<lambda>_. es) \<Longrightarrow> records h (do { m; State_Monad.return r }) (\<lambda>_. es)"
  by (simp add: records_def split: prod.splits)

lemma native_respectsD:
  assumes "native_respects v n"
  shows "on_primitives (\<lambda>m. sim v m m) n" "sim v (InitializeCriticalSection n a) (InitializeCriticalSection n a)"
    "sim v (EnterCriticalSection n a) (EnterCriticalSection n a)" "sim v (LeaveCriticalSection n a) (LeaveCriticalSection n a)"
    "sim v (DeleteCriticalSection n a) (DeleteCriticalSection n a)" "sim v (load_attr n a) (load_attr n a)"
  using assms by (simp_all add: native_respects_def)

text \<open>The layer hands the contracts on.\<close>

lemma mutex_macros_respect:
  assumes "native_respects v n"
  shows "sim v (pthread_mutex_init_macro b n place A B) (pthread_mutex_init_macro b n place A B)"
    "sim v (pthread_mutex_lock_macro b n place A) (pthread_mutex_lock_macro b n place A)"
    "sim v (pthread_mutex_trylock_macro b n place A) (pthread_mutex_trylock_macro b n place A)"
    "sim v (pthread_mutex_unlock_macro b n place A) (pthread_mutex_unlock_macro b n place A)"
    "sim v (pthread_mutex_destroy_macro b n place A) (pthread_mutex_destroy_macro b n place A)"
  by (simp_all add: mutex_macro_defs sim_then_return native_respectsD(2-5) [OF assms] on_primitivesD [OF native_respectsD(1) [OF assms]])

lemma cond_macros_respect:
  assumes "native_respects v n"
  shows "sim v (pthread_cond_init_macro b n A B) (pthread_cond_init_macro b n A B)"
    "sim v (pthread_cond_wait_macro b n place A B) (pthread_cond_wait_macro b n place A B)"
    "sim v (pthread_cond_timedwait_macro b n place A B C) (pthread_cond_timedwait_macro b n place A B C)"
    "sim v (pthread_cond_destroy_macro b n A) (pthread_cond_destroy_macro b n A)"
    "sim v (pthread_create_macro b n A B C D) (pthread_create_macro b n A B C D)"
  by (simp_all add: cond_macro_defs sim_bind native_respectsD(6) [OF assms] on_primitivesD [OF native_respectsD(1) [OF assms]])

lemma rw_macros_respect:
  assumes "native_respects v n"
  shows "sim v (my_rwlock_init_macro b n place A B) (my_rwlock_init_macro b n place A B)"
    "sim v (rw_rdlock_macro b n place A) (rw_rdlock_macro b n place A)"
    "sim v (rw_wrlock_macro b n place A) (rw_wrlock_macro b n place A)"
    "sim v (rw_tryrdlock_macro b n place A) (rw_tryrdlock_macro b n place A)"
    "sim v (rw_trywrlock_macro b n place A) (rw_trywrlock_macro b n place A)"
    "sim v (rw_unlock_macro b n place A) (rw_unlock_macro b n place A)"
    "sim v (rwlock_destroy_macro b n place A) (rwlock_destroy_macro b n place A)"
  by (simp_all add: rw_macro_defs mutex_macros_respect [OF assms] on_primitivesD [OF native_respectsD(1) [OF assms]])

lemma thread_os_of_respects:
  assumes "native_respects v n"
  shows "thread_os_respects v (thread_os_of b n place)"
  by (simp add: thread_os_respects_def thread_os_of_def mutex_macros_respect [OF assms] cond_macros_respect [OF assms]
      rw_macros_respect [OF assms] on_primitivesD [OF native_respectsD(1) [OF assms]])

lemma layer_records:
  assumes "native_records h n"
  shows "records h (pthread_mutex_lock_macro b n place A) (\<lambda>_. [Real_call])"
    "records h (pthread_mutex_trylock_macro b n place A) (\<lambda>_. [Real_call])"
    "records h (pthread_mutex_unlock_macro b n place A) (\<lambda>_. [Real_call])"
    "records h (pthread_cond_wait_macro b n place A B) (\<lambda>_. [Real_call])"
    "records h (pthread_cond_timedwait_macro b n place A B C) (\<lambda>_. [Real_call])"
proof -
  from assms have prims: "on_primitives (\<lambda>m. records h m (\<lambda>_. [Real_call])) n"
    and cs: "\<And>a. records h (EnterCriticalSection n a) (\<lambda>_. [Real_call])" "\<And>a. records h (LeaveCriticalSection n a) (\<lambda>_. [Real_call])"
    by (simp_all add: native_records_def)
  show "records h (pthread_mutex_lock_macro b n place A) (\<lambda>_. [Real_call])"
    "records h (pthread_mutex_trylock_macro b n place A) (\<lambda>_. [Real_call])"
    "records h (pthread_mutex_unlock_macro b n place A) (\<lambda>_. [Real_call])"
    "records h (pthread_cond_wait_macro b n place A B) (\<lambda>_. [Real_call])"
    "records h (pthread_cond_timedwait_macro b n place A B C) (\<lambda>_. [Real_call])"
    by (simp_all add: mutex_macro_defs cond_macro_defs records_then_return cs on_primitivesD [OF prims])
qed

lemma thread_os_of_records:
  assumes "native_records h n"
  shows "thread_os_records h (thread_os_of b n place)"
proof -
  from assms have prims: "on_primitives (\<lambda>m. records h m (\<lambda>_. [Real_call])) n" by (simp add: native_records_def)
  show ?thesis
    by (simp add: thread_os_records_def thread_os_of_def rw_macro_defs layer_records [OF assms] on_primitivesD [OF prims])
qed

section \<open>Mutexes as read-write locks\<close>

text \<open>
  What POSIX says of a normal mutex.  \<open>own\<close> reads the owner of each mutex off the view \<open>g\<close> of the world and \<open>me\<close> the running thread:
  a lock that returns 0 has made the thread the owner, an attempt fails exactly while there is an owner, the owner can unlock.
\<close>

definition mutex_contract :: "('v \<Rightarrow> addr \<Rightarrow> nat option) \<Rightarrow> ('v \<Rightarrow> nat) \<Rightarrow> ('w \<Rightarrow> 'v) \<Rightarrow> 'w native \<Rightarrow> bool" where
  "mutex_contract own me g n \<longleftrightarrow>
     (\<forall>A s. case run_state (posix_mutex_lock n A) s of (r, s') \<Rightarrow>
        r = 0 \<longrightarrow> own (g (world s')) = (own (g (world s)))(A := Some (me (g (world s)))) \<and> me (g (world s')) = me (g (world s))) \<and>
     (\<forall>A s. case run_state (posix_mutex_trylock n A) s of (r, s') \<Rightarrow> me (g (world s')) = me (g (world s)) \<and>
        (if own (g (world s)) A = None then r = 0 \<and> own (g (world s')) = (own (g (world s)))(A := Some (me (g (world s))))
         else r \<noteq> 0 \<and> own (g (world s')) = own (g (world s)))) \<and>
     (\<forall>A s. case run_state (posix_mutex_unlock n A) s of (r, s') \<Rightarrow>
        own (g (world s)) A = Some (me (g (world s))) \<longrightarrow>
        r = 0 \<and> own (g (world s')) = (own (g (world s)))(A := None) \<and> me (g (world s')) = me (g (world s)))"

lemma mutex_contractD:
  assumes "mutex_contract own me g n"
  shows "run_state (posix_mutex_lock n A) s = (0, s') \<Longrightarrow> own (g (world s')) = (own (g (world s)))(A := Some (me (g (world s))))"
    and "run_state (posix_mutex_trylock n A) s = (r, s') \<Longrightarrow> own (g (world s)) A \<noteq> None \<Longrightarrow> r \<noteq> 0 \<and> own (g (world s')) = own (g (world s))"
    and "run_state (posix_mutex_trylock n A) s = (r, s') \<Longrightarrow> own (g (world s)) A = None \<Longrightarrow>
       r = 0 \<and> own (g (world s')) = (own (g (world s)))(A := Some (me (g (world s))))"
    and "run_state (posix_mutex_unlock n A) s = (r, s') \<Longrightarrow> own (g (world s)) A = Some (me (g (world s))) \<Longrightarrow>
       r = 0 \<and> own (g (world s')) = (own (g (world s)))(A := None)"
proof -
  note c = assms [unfolded mutex_contract_def]
  show "run_state (posix_mutex_lock n A) s = (0, s') \<Longrightarrow> own (g (world s')) = (own (g (world s)))(A := Some (me (g (world s))))"
    using c [THEN conjunct1, THEN spec, of A, THEN spec, of s] by simp
  show "run_state (posix_mutex_trylock n A) s = (r, s') \<Longrightarrow> own (g (world s)) A \<noteq> None \<Longrightarrow> r \<noteq> 0 \<and> own (g (world s')) = own (g (world s))"
    "run_state (posix_mutex_trylock n A) s = (r, s') \<Longrightarrow> own (g (world s)) A = None \<Longrightarrow>
       r = 0 \<and> own (g (world s')) = (own (g (world s)))(A := Some (me (g (world s))))"
    using c [THEN conjunct2, THEN conjunct1, THEN spec, of A, THEN spec, of s] by simp_all
  show "run_state (posix_mutex_unlock n A) s = (r, s') \<Longrightarrow> own (g (world s)) A = Some (me (g (world s))) \<Longrightarrow>
       r = 0 \<and> own (g (world s')) = (own (g (world s)))(A := None)"
    using c [THEN conjunct2, THEN conjunct2, THEN spec, of A, THEN spec, of s] by simp
qed

text \<open>A POSIX build with plain mutexes for read-write locks.\<close>

definition plain_mutex_for_rw :: "build \<Rightarrow> bool" where
  "plain_mutex_for_rw b \<longleftrightarrow> def_mutex_for_rw b \<and> \<not> win32 b \<and> \<not> def_safe_mutex b \<and> \<not> def_fastmutex b \<and> \<not> def_posix4a_mutex b"

lemma plain_mutex_rw:
  assumes "plain_mutex_for_rw b"
  shows "rw_rdlock_macro b n place = posix_mutex_lock n" "rw_wrlock_macro b n place = posix_mutex_lock n"
    "rw_tryrdlock_macro b n place = posix_mutex_trylock n" "rw_trywrlock_macro b n place = posix_mutex_trylock n"
    "rw_unlock_macro b n place = posix_mutex_unlock n"
  using assms
  by (auto simp: fun_eq_iff plain_mutex_for_rw_def rw_macro_defs mutex_macro_defs uses_safe_mutex_def uses_fastmutex_def)

text \<open>A wrapper that agrees with a bare operation behaves as it from the state it is run in.\<close>

lemma sim_run:
  assumes "sim (os_view g) m k" "run_state m s = (r, s')"
  obtains t' where "run_state k s = (r, t')" "g (world t') = g (world s')"
proof -
  obtain r' t' where k: "run_state k s = (r', t')" by (metis surj_pair)
  have "fst (run_state m s) = fst (run_state k s)" "os_view g (snd (run_state m s)) = os_view g (snd (run_state k s))"
    using assms(1) by (auto simp: sim_def)
  with assms(2) k have "r' = r" "g (world t') = g (world s')" by (simp_all add: os_view_def)
  with k that show ?thesis by simp
qed

lemma rwlock_macros_sim:
  assumes "psi_keeps_thread (os_view g) psi" and "native_respects (os_view g) n"
  shows "sim (os_view g) (mysql_rwlock_rdlock cfg psi (thread_os_of b n place) L st) (rw_rdlock_macro b n place L)"
    "sim (os_view g) (mysql_rwlock_wrlock cfg psi (thread_os_of b n place) L st) (rw_wrlock_macro b n place L)"
    "sim (os_view g) (mysql_rwlock_tryrdlock cfg psi (thread_os_of b n place) L st) (rw_tryrdlock_macro b n place L)"
    "sim (os_view g) (mysql_rwlock_trywrlock cfg psi (thread_os_of b n place) L st) (rw_trywrlock_macro b n place L)"
    "sim (os_view g) (mysql_rwlock_unlock cfg psi (thread_os_of b n place) L) (rw_unlock_macro b n place L)"
proof -
  note os = thread_os_of_respects [OF assms(2), of b place]
  have fields: "rw_rdlock (thread_os_of b n place) = rw_rdlock_macro b n place" "rw_wrlock (thread_os_of b n place) = rw_wrlock_macro b n place"
    "rw_tryrdlock (thread_os_of b n place) = rw_tryrdlock_macro b n place" "rw_trywrlock (thread_os_of b n place) = rw_trywrlock_macro b n place"
    "rw_unlock (thread_os_of b n place) = rw_unlock_macro b n place"
    by (simp_all add: thread_os_of_def)
  note wrappers = wait_wrappers_sim [OF assms(1) os, unfolded fields] other_wrappers_sim [OF assms(1) os, unfolded fields]
  show "sim (os_view g) (mysql_rwlock_rdlock cfg psi (thread_os_of b n place) L st) (rw_rdlock_macro b n place L)"
    "sim (os_view g) (mysql_rwlock_wrlock cfg psi (thread_os_of b n place) L st) (rw_wrlock_macro b n place L)"
    "sim (os_view g) (mysql_rwlock_tryrdlock cfg psi (thread_os_of b n place) L st) (rw_tryrdlock_macro b n place L)"
    "sim (os_view g) (mysql_rwlock_trywrlock cfg psi (thread_os_of b n place) L st) (rw_trywrlock_macro b n place L)"
    "sim (os_view g) (mysql_rwlock_unlock cfg psi (thread_os_of b n place) L) (rw_unlock_macro b n place L)"
    by (simp_all add: mysql_rwlock_rdlock_def mysql_rwlock_wrlock_def mysql_rwlock_tryrdlock_def mysql_rwlock_trywrlock_def
        mysql_rwlock_unlock_def wrappers)
qed

section \<open>Thread specific data of Windows\<close>

record 'w tls_api =
  TlsAlloc :: "('w, uint32) prog"
  TlsFree :: "uint32 \<Rightarrow> ('w, int) prog"
  TlsSetValue :: "uint32 \<Rightarrow> addr \<Rightarrow> ('w, int) prog"
  TlsGetValue :: "uint32 \<Rightarrow> ('w, addr) prog"

text \<open>\<^verbatim>\<open>pthread_key_create(A,B)\<close> stores the index in \<^verbatim>\<open>*A\<close>, here the second result, whether or not it is valid.\<close>

definition pthread_key_create :: "'w tls_api \<Rightarrow> ('w, int \<times> uint32) prog" where
  "pthread_key_create api = do { k \<leftarrow> TlsAlloc api; State_Monad.return (of_bool (k = 0xFFFFFFFF), k) }"

definition pthread_key_delete :: "'w tls_api \<Rightarrow> uint32 \<Rightarrow> ('w, int) prog" where
  "pthread_key_delete api A = TlsFree api A"

definition pthread_setspecific :: "'w tls_api \<Rightarrow> uint32 \<Rightarrow> addr \<Rightarrow> ('w, int) prog" where
  "pthread_setspecific api A B = do { r \<leftarrow> TlsSetValue api A B; State_Monad.return (of_bool (r = 0)) }"

definition my_pthread_setspecific_ptr :: "'w tls_api \<Rightarrow> uint32 \<Rightarrow> addr \<Rightarrow> ('w, int) prog" where
  "my_pthread_setspecific_ptr api T V = do { r \<leftarrow> TlsSetValue api T V; State_Monad.return (of_bool (r = 0)) }"

definition pthread_getspecific :: "'w tls_api \<Rightarrow> uint32 \<Rightarrow> ('w, addr) prog" where
  "pthread_getspecific api A = TlsGetValue api A"

text \<open>What the documentation of the interface says, over the slots of the running thread: an index is allocated with the value 0 and is
  valid until it is freed, and on a valid index the functions succeed, which they say with a value that is not 0.  Nothing is said of other indexes.\<close>

definition tls_contract :: "('w pstate \<Rightarrow> uint32 \<Rightarrow> addr option) \<Rightarrow> 'w tls_api \<Rightarrow> bool" where
  "tls_contract slots api \<longleftrightarrow>
     (\<forall>s. case run_state (TlsAlloc api) s of (k, s') \<Rightarrow> if k = 0xFFFFFFFF then slots s' = slots s
        else slots s k = None \<and> slots s' = (slots s)(k \<mapsto> 0)) \<and>
     (\<forall>s k. case run_state (TlsFree api k) s of (r, s') \<Rightarrow> slots s k \<noteq> None \<longrightarrow> r \<noteq> 0 \<and> slots s' = (slots s)(k := None)) \<and>
     (\<forall>s k v. case run_state (TlsSetValue api k v) s of (r, s') \<Rightarrow> slots s k \<noteq> None \<longrightarrow> r \<noteq> 0 \<and> slots s' = (slots s)(k \<mapsto> v)) \<and>
     (\<forall>s k. case run_state (TlsGetValue api k) s of (r, s') \<Rightarrow> slots s k \<noteq> None \<longrightarrow> slots s' = slots s \<and> slots s k = Some r)"

section \<open>A sample platform\<close>

text \<open>Mutexes are a map to their owners, with the running thread beside it; the other functions do nothing.\<close>

type_synonym lock_world = "psi_event list \<times> (addr \<Rightarrow> nat option) \<times> nat"

definition on_locks :: "((addr \<Rightarrow> nat option) \<Rightarrow> nat \<Rightarrow> int \<times> (addr \<Rightarrow> nat option)) \<Rightarrow> (lock_world, int) prog" where
  "on_locks f = do {
     s \<leftarrow> State_Monad.get;
     State_Monad.set (s\<lparr>world := (fst (world s), snd (f (fst (snd (world s))) (snd (snd (world s)))), snd (snd (world s)))\<rparr>);
     State_Monad.return (fst (f (fst (snd (world s))) (snd (snd (world s)))))
   }"

lemma run_on_locks [simp]: "run_state (on_locks f) s = (fst (f (fst (snd (world s))) (snd (snd (world s)))),
    s\<lparr>world := (fst (world s), snd (f (fst (snd (world s))) (snd (snd (world s)))), snd (snd (world s)))\<rparr>)"
  by (simp add: on_locks_def)

definition sample_native :: "lock_world native" where
  "sample_native = \<lparr>
     InitializeCriticalSection = (\<lambda>_. State_Monad.return ()),
     EnterCriticalSection = (\<lambda>_. State_Monad.return ()),
     LeaveCriticalSection = (\<lambda>_. State_Monad.return ()),
     DeleteCriticalSection = (\<lambda>_. State_Monad.return ()),
     win_pthread_mutex_trylock = (\<lambda>_. State_Monad.return 0),
     posix_mutex_init = (\<lambda>_ _. State_Monad.return 0),
     posix_mutex_lock = (\<lambda>A. on_locks (\<lambda>own me. (0, own(A := Some me)))),
     posix_mutex_trylock = (\<lambda>A. on_locks (\<lambda>own me. if own A = None then (0, own(A := Some me)) else (16, own))),
     posix_mutex_unlock = (\<lambda>A. on_locks (\<lambda>own me. (0, own(A := None)))),
     posix_mutex_destroy = (\<lambda>_. State_Monad.return 0),
     my_pthread_mutex_init = (\<lambda>_ _. State_Monad.return 0),
     my_pthread_mutex_trylock = (\<lambda>_. State_Monad.return 0),
     fn_cond_init = (\<lambda>_ _. State_Monad.return 0),
     my_pthread_cond_init = (\<lambda>_ _. State_Monad.return 0),
     fn_cond_wait = (\<lambda>_ _. State_Monad.return 0),
     fn_cond_timedwait = (\<lambda>_ _ _. State_Monad.return 0),
     my_pthread_cond_timedwait = (\<lambda>_ _ _. State_Monad.return 0),
     fn_cond_signal = (\<lambda>_. State_Monad.return 0),
     fn_cond_broadcast = (\<lambda>_. State_Monad.return 0),
     fn_cond_destroy = (\<lambda>_. State_Monad.return 0),
     fn_create = (\<lambda>_ _ _ _. State_Monad.return 0),
     fn_safe_mutex_init = (\<lambda>_ _ _ _. State_Monad.return 0),
     fn_safe_mutex_lock = (\<lambda>_ _ _ _. State_Monad.return 0),
     fn_safe_mutex_unlock = (\<lambda>_ _ _. State_Monad.return 0),
     fn_safe_mutex_destroy = (\<lambda>_ _ _. State_Monad.return 0),
     safe_cond_wait = (\<lambda>_ _ _ _. State_Monad.return 0),
     safe_cond_timedwait = (\<lambda>_ _ _ _ _. State_Monad.return 0),
     my_pthread_fastmutex_init = (\<lambda>_ _. State_Monad.return 0),
     my_pthread_fastmutex_lock = (\<lambda>_. State_Monad.return 0),
     pthread_rwlock_init = (\<lambda>_ _. State_Monad.return 0),
     pthread_rwlock_rdlock = (\<lambda>_. State_Monad.return 0),
     pthread_rwlock_wrlock = (\<lambda>_. State_Monad.return 0),
     pthread_rwlock_tryrdlock = (\<lambda>_. State_Monad.return 0),
     pthread_rwlock_trywrlock = (\<lambda>_. State_Monad.return 0),
     pthread_rwlock_unlock = (\<lambda>_. State_Monad.return 0),
     pthread_rwlock_destroy = (\<lambda>_. State_Monad.return 0),
     fn_rwlock_init = (\<lambda>_. State_Monad.return 0),
     fn_rw_rdlock = (\<lambda>_. State_Monad.return 0),
     fn_rw_wrlock = (\<lambda>_. State_Monad.return 0),
     fn_rw_tryrdlock = (\<lambda>_. State_Monad.return 0),
     fn_rw_trywrlock = (\<lambda>_. State_Monad.return 0),
     fn_rw_unlock = (\<lambda>_. State_Monad.return 0),
     fn_rwlock_destroy = (\<lambda>_. State_Monad.return 0),
     my_rw_init = (\<lambda>_. State_Monad.return 0),
     my_rw_rdlock = (\<lambda>_. State_Monad.return 0),
     my_rw_wrlock = (\<lambda>_. State_Monad.return 0),
     my_rw_tryrdlock = (\<lambda>_. State_Monad.return 0),
     my_rw_trywrlock = (\<lambda>_. State_Monad.return 0),
     my_rw_unlock = (\<lambda>_. State_Monad.return 0),
     my_rw_destroy = (\<lambda>_. State_Monad.return 0),
     fn_rw_pr_init = (\<lambda>_. State_Monad.return 0),
     fn_rw_pr_destroy = (\<lambda>_. State_Monad.return 0),
     fn_rw_pr_rdlock = (\<lambda>_. State_Monad.return 0),
     fn_rw_pr_wrlock = (\<lambda>_. State_Monad.return 0),
     fn_rw_pr_unlock = (\<lambda>_. State_Monad.return 0),
     pthread_dummy = (\<lambda>_. State_Monad.return 0),
     load_attr = (\<lambda>_. State_Monad.return 0)\<rparr>"

lemma sample_locks:
  "posix_mutex_lock sample_native A = on_locks (\<lambda>own me. (0, own(A := Some me)))"
  by (simp add: sample_native_def)

lemma sim_on_locks: "sim (os_view snd) (on_locks f) (on_locks f)"
  by (simp add: sim_def os_view_def)

lemma sample_native_respects: "native_respects (os_view snd) sample_native"
  by (simp add: native_respects_def on_primitives_def sample_native_def sim_return sim_on_locks)

lemma sample_native_contract: "mutex_contract fst snd snd sample_native"
  by (simp add: mutex_contract_def sample_native_def)

definition posix_build :: build where
  "posix_build = \<lparr>win32 = False, def_safe_mutex = False, def_fastmutex = False, def_mutex_for_rw = True, def_broken_rwlock = False,
     def_pthread_rwlock = False, def_rwlock_init = False, def_cthreads = False, def_broken_timedwait = False, def_hpux10 = False,
     def_posix4a_mutex = False, def_nonposix_init = False, def_attr_create = False,
     def_sigwait = True, def_dec32_threads = False\<rparr>"

definition windows_build :: build where
  "windows_build = posix_build\<lparr>win32 := True, def_safe_mutex := True, def_mutex_for_rw := False\<rparr>"

definition locks_state :: "nat \<Rightarrow> (addr \<Rightarrow> nat option) \<Rightarrow> lock_world pstate" where
  "locks_state t own = \<lparr>PSI_server = True, fault = False, bad_stream = False, mutexes = (\<lambda>_. \<lparr>mutex_psi = 0\<rparr>),
     rwlocks = (\<lambda>_. \<lparr>rwlock_psi = 0\<rparr>), prlocks = (\<lambda>_. \<lparr>prlock_psi = 0\<rparr>), conds = (\<lambda>_. \<lparr>cond_psi = 0\<rparr>),
     files = (\<lambda>_. None), world = ([], own, t)\<rparr>"

text \<open>Slots of thread specific data with the next index to try.\<close>

definition sample_tls :: "(uint32 \<times> (uint32 \<Rightarrow> addr option)) tls_api" where
  "sample_tls = \<lparr>
     TlsAlloc = do {
       s \<leftarrow> State_Monad.get;
       let k = fst (world s) in
       if k = 0xFFFFFFFF \<or> snd (world s) k \<noteq> None then State_Monad.return 0xFFFFFFFF
       else do { State_Monad.set (s\<lparr>world := (k + 1, (snd (world s))(k \<mapsto> 0))\<rparr>); State_Monad.return k } },
     TlsFree = (\<lambda>k. do {
       s \<leftarrow> State_Monad.get;
       State_Monad.set (s\<lparr>world := (fst (world s), (snd (world s))(k := None))\<rparr>);
       State_Monad.return (of_bool (snd (world s) k \<noteq> None)) }),
     TlsSetValue = (\<lambda>k v. do {
       s \<leftarrow> State_Monad.get;
       if snd (world s) k = None then State_Monad.return 0
       else do { State_Monad.set (s\<lparr>world := (fst (world s), (snd (world s))(k \<mapsto> v))\<rparr>); State_Monad.return 1 } }),
     TlsGetValue = (\<lambda>k. do { s \<leftarrow> State_Monad.get; State_Monad.return (case snd (world s) k of None \<Rightarrow> 0 | Some v \<Rightarrow> v) })\<rparr>"

lemma sample_tls_contract: "tls_contract (\<lambda>s. snd (world s)) sample_tls"
  by (auto simp: tls_contract_def sample_tls_def Let_def split: option.splits)

section \<open>Properties\<close>

text \<open>C3: what the instrumented mutex operations come down to in every Windows build, for every server that leaves the caller's view alone, and also where
  \<^verbatim>\<open>SAFE_MUTEX\<close> is asked for, which Windows undefines.  Without \<^verbatim>\<open>MY_PTHREAD_FASTMUTEX\<close> they are critical sections: locking is entering the
  section, unlocking leaving it, and initialising and destroying are those of the section, each with the result 0; an attempt is the function of the Windows port,
  or \<^verbatim>\<open>my_pthread_mutex_trylock\<close> with \<^verbatim>\<open>HAVE_POSIX1003_4a_MUTEX\<close>.  With \<^verbatim>\<open>MY_PTHREAD_FASTMUTEX\<close> no critical section is left: initialising
  and locking call the functions of fast mutexes, and the other three the POSIX functions on the member \<^verbatim>\<open>mutex\<close>, because the redefinition
  in \<^verbatim>\<open>my_pthread.h\<close> drops the macros of the Windows port.\<close>
theorem windows_mutex_stack:
  assumes "psi_keeps_thread (os_view g) psi" "native_respects (os_view g) n"
    and "win32 b" "safe_mutex cfg = uses_safe_mutex b"
  shows "(\<not> def_fastmutex b \<longrightarrow>
      sim (os_view g) (mysql_mutex_lock cfg psi (thread_os_of b n place) M st) (do { EnterCriticalSection n M; State_Monad.return 0 }) \<and>
      sim (os_view g) (mysql_mutex_unlock cfg psi (thread_os_of b n place) M st) (do { LeaveCriticalSection n M; State_Monad.return 0 }) \<and>
      sim (os_view g) (mysql_mutex_init cfg psi (thread_os_of b n place) K M A st) (do { InitializeCriticalSection n M; State_Monad.return 0 }) \<and>
      sim (os_view g) (mysql_mutex_destroy cfg psi (thread_os_of b n place) M st) (do { DeleteCriticalSection n M; State_Monad.return 0 }) \<and>
      sim (os_view g) (mysql_mutex_trylock cfg psi (thread_os_of b n place) M st)
        (if def_posix4a_mutex b then my_pthread_mutex_trylock n M else win_pthread_mutex_trylock n M)) \<and>
    (def_fastmutex b \<longrightarrow>
      sim (os_view g) (mysql_mutex_lock cfg psi (thread_os_of b n place) M st) (my_pthread_fastmutex_lock n M) \<and>
      sim (os_view g) (mysql_mutex_unlock cfg psi (thread_os_of b n place) M st) (posix_mutex_unlock n (fastmutex_mutex M)) \<and>
      sim (os_view g) (mysql_mutex_init cfg psi (thread_os_of b n place) K M A st) (my_pthread_fastmutex_init n M A) \<and>
      sim (os_view g) (mysql_mutex_destroy cfg psi (thread_os_of b n place) M st) (posix_mutex_destroy n (fastmutex_mutex M)) \<and>
      sim (os_view g) (mysql_mutex_trylock cfg psi (thread_os_of b n place) M st) (posix_mutex_trylock n (fastmutex_mutex M)))"
proof -
  have cfg: "\<not> safe_mutex cfg" "\<not> uses_safe_mutex b" "uses_fastmutex b = def_fastmutex b"
    using assms(3,4) by (auto simp: uses_safe_mutex_def uses_fastmutex_def)
  show ?thesis
    using mutex_macros_sim [OF assms(1) thread_os_of_respects [OF assms(2)], of cfg b place K M A st] cfg assms(3)
    by (auto simp: real_mutex_lock_def real_mutex_unlock_def real_mutex_init_def real_mutex_destroy_def real_mutex_trylock_def
        thread_os_of_def mutex_macro_defs)
qed

theorem windows_mutex_stack_witness:
  "sim (os_view snd) (mysql_mutex_lock release_build recorder (thread_os_of windows_build sample_native no_site) 5 (1, 2))
     (do { EnterCriticalSection sample_native 5; State_Monad.return 0 }) \<and>
   sim (os_view snd) (mysql_mutex_lock release_build recorder (thread_os_of (windows_build\<lparr>def_fastmutex := True\<rparr>) sample_native no_site) 5 (1, 2))
     (my_pthread_fastmutex_lock sample_native 5)"
proof -
  have "win32 windows_build" "safe_mutex release_build = uses_safe_mutex windows_build"
    by (simp_all add: windows_build_def posix_build_def release_build_def uses_safe_mutex_def)
  note plain = windows_mutex_stack [OF recorder_keeps(1) sample_native_respects this, THEN conjunct1]
  have "win32 (windows_build\<lparr>def_fastmutex := True\<rparr>)" "safe_mutex release_build = uses_safe_mutex (windows_build\<lparr>def_fastmutex := True\<rparr>)"
    by (simp_all add: windows_build_def posix_build_def release_build_def uses_safe_mutex_def)
  note fast = windows_mutex_stack [OF recorder_keeps(1) sample_native_respects this, THEN conjunct2]
  have "\<not> def_fastmutex windows_build" by (simp add: windows_build_def posix_build_def)
  with plain fast show ?thesis by simp
qed

text \<open>C11: in the builds for POSIX where \<^verbatim>\<open>USE_MUTEX_INSTEAD_OF_RW_LOCKS\<close> makes plain mutexes stand for read-write locks (not on Windows, and without
  \<^verbatim>\<open>SAFE_MUTEX\<close>, \<^verbatim>\<open>MY_PTHREAD_FASTMUTEX\<close> and \<^verbatim>\<open>HAVE_POSIX1003_4a_MUTEX\<close>), readers exclude each other: after an instrumented read lock has
  succeeded, an attempt to read lock or to write lock the same object, made while the ownership is unchanged, fails and takes nothing, whoever makes it,
  also the owner; the owner can unlock, and after that an attempt to read lock or to write lock succeeds and takes the object.  Used of the platform is that its mutexes are not recursive
  and have an owner.\<close>
theorem mutex_rwlocks_exclude_readers:
  assumes "psi_keeps_thread (os_view g) psi" "native_respects (os_view g) n" "mutex_contract own me g n" "plain_mutex_for_rw b"
    and lock: "run_state (mysql_rwlock_rdlock cfg psi (thread_os_of b n place) L st) s = (0, s1)"
    and turn: "own (g (world s2)) = own (g (world s1))"
    and tryrd: "run_state (mysql_rwlock_tryrdlock cfg psi (thread_os_of b n place) L st2) s2 = (r, s3)"
    and trywr: "run_state (mysql_rwlock_trywrlock cfg psi (thread_os_of b n place) L st2) s2 = (w, s4)"
    and ownr: "own (g (world s5)) = own (g (world s1))" "me (g (world s5)) = me (g (world s))"
    and unlock: "run_state (mysql_rwlock_unlock cfg psi (thread_os_of b n place) L) s5 = (u, s6)"
    and again: "run_state (mysql_rwlock_tryrdlock cfg psi (thread_os_of b n place) L st2) s6 = (r2, s7)"
    and againwr: "run_state (mysql_rwlock_trywrlock cfg psi (thread_os_of b n place) L st2) s6 = (w2, s8)"
  shows "r \<noteq> 0 \<and> own (g (world s3)) = own (g (world s2)) \<and> w \<noteq> 0 \<and> own (g (world s4)) = own (g (world s2)) \<and>
    u = 0 \<and> r2 = 0 \<and> own (g (world s7)) L = Some (me (g (world s6))) \<and>
    w2 = 0 \<and> own (g (world s8)) L = Some (me (g (world s6)))"
proof -
  note sims = rwlock_macros_sim [OF assms(1,2), of cfg b place L, unfolded plain_mutex_rw [OF assms(4)]]
  note spec = mutex_contractD [OF assms(3)]
  obtain t1 where "run_state (posix_mutex_lock n L) s = (0, t1)" "g (world t1) = g (world s1)"
    using sim_run [OF sims(1) lock] by metis
  with spec(1) have held: "own (g (world s1)) = (own (g (world s)))(L := Some (me (g (world s))))" by metis
  then have taken: "own (g (world s2)) L \<noteq> None" "own (g (world s5)) L = Some (me (g (world s5)))"
    using turn ownr by simp_all
  obtain t3 where "run_state (posix_mutex_trylock n L) s2 = (r, t3)" "g (world t3) = g (world s3)"
    using sim_run [OF sims(3) tryrd] by metis
  with spec(2) taken(1) have rd: "r \<noteq> 0" "own (g (world s3)) = own (g (world s2))" by metis+
  obtain t4 where "run_state (posix_mutex_trylock n L) s2 = (w, t4)" "g (world t4) = g (world s4)"
    using sim_run [OF sims(4) trywr] by metis
  with spec(2) taken(1) have wr: "w \<noteq> 0" "own (g (world s4)) = own (g (world s2))" by metis+
  obtain t6 where "run_state (posix_mutex_unlock n L) s5 = (u, t6)" "g (world t6) = g (world s6)"
    using sim_run [OF sims(5) unlock] by metis
  with spec(4) taken(2) have un: "u = 0" "own (g (world s6)) = (own (g (world s5)))(L := None)" by metis+
  obtain t7 where "run_state (posix_mutex_trylock n L) s6 = (r2, t7)" "g (world t7) = g (world s7)"
    using sim_run [OF sims(3) again] by metis
  with spec(3) un(2) have "r2 = 0" "own (g (world s7)) = (own (g (world s6)))(L := Some (me (g (world s6))))"
    by (metis fun_upd_same)+
  moreover obtain t8 where "run_state (posix_mutex_trylock n L) s6 = (w2, t8)" "g (world t8) = g (world s8)"
    using sim_run [OF sims(4) againwr] by metis
  with spec(3) un(2) have "w2 = 0" "own (g (world s8)) = (own (g (world s6)))(L := Some (me (g (world s6))))"
    by (metis fun_upd_same)+
  ultimately show ?thesis using rd wr un by simp
qed

text \<open>The locks of the sample platform: thread 1 read locks object 5, thread 2 cannot, and can after thread 1 has unlocked it.\<close>
theorem mutex_rwlocks_exclude_readers_witness:
  "fst (run_state (mysql_rwlock_tryrdlock release_build recorder (thread_os_of posix_build sample_native no_site) 5 (1, 2))
     (locks_state 2 ((\<lambda>_. None)(5 := Some 1)))) \<noteq> 0"
proof -
  let ?os = "thread_os_of posix_build sample_native no_site"
  let ?s = "locks_state 1 (\<lambda>_. None)"
  let ?s2 = "locks_state 2 ((\<lambda>_. None)(5 := Some 1))" and ?s5 = "locks_state 1 ((\<lambda>_. None)(5 := Some 1))"
  let ?wr = "mysql_rwlock_trywrlock release_build recorder ?os 5 (1, 2)"
  let ?rd = "mysql_rwlock_rdlock release_build recorder ?os 5 (1, 2)" and ?tryrd = "mysql_rwlock_tryrdlock release_build recorder ?os 5 (1, 2)"
  let ?un = "mysql_rwlock_unlock release_build recorder ?os 5"
  have plain: "plain_mutex_for_rw posix_build" by (simp add: plain_mutex_for_rw_def posix_build_def)
  note sims = rwlock_macros_sim [OF recorder_keeps(1) sample_native_respects, of release_build posix_build no_site 5, unfolded plain_mutex_rw [OF plain]]
  obtain t where "run_state (posix_mutex_lock sample_native 5) ?s = (fst (run_state ?rd ?s), t)" "snd (world t) = snd (world (snd (run_state ?rd ?s)))"
    using sim_run [OF sims(1) surjective_pairing] by metis
  then have "fst (run_state ?rd ?s) = 0" "snd (world (snd (run_state ?rd ?s))) = ((\<lambda>_. None)(5 := Some 1), 1)"
    by (auto simp: sample_locks locks_state_def)
  then have "run_state ?rd ?s = (0, snd (run_state ?rd ?s))" "fst (snd (world ?s2)) = fst (snd (world (snd (run_state ?rd ?s))))"
    "fst (snd (world ?s5)) = fst (snd (world (snd (run_state ?rd ?s))))" "snd (snd (world ?s5)) = snd (snd (world ?s))"
    by (simp_all add: prod_eq_iff locks_state_def)
  from mutex_rwlocks_exclude_readers [OF recorder_keeps(1) sample_native_respects sample_native_contract plain this(1,2)
      surjective_pairing surjective_pairing this(3,4) surjective_pairing surjective_pairing surjective_pairing]
  show ?thesis by blast
qed

text \<open>C38: a key of thread specific data on Windows is created with the value 0; setting it returns 0, reading it gives what was set, and the other
  keys keep their values, as POSIX says.  Deleting it frees it but returns a value that is not 0, the code of failure in POSIX.\<close>
theorem tls_key_lifecycle:
  assumes "tls_contract slots api"
    and "run_state (pthread_key_create api) s = ((0, k), s1)" "run_state (pthread_setspecific api k v) s1 = (c, s2)"
    and "run_state (pthread_getspecific api k) s2 = (v', s3)" "run_state (pthread_key_delete api k) s3 = (d, s4)"
  shows "slots s1 k = Some 0 \<and> c = 0 \<and> v' = v \<and> (slots s2)(k := None) = slots s \<and> slots s4 = slots s \<and> d \<noteq> 0"
proof -
  note c = assms(1) [unfolded tls_contract_def]
  have 1: "slots s k = None" "slots s1 = (slots s)(k \<mapsto> 0)"
    using c [THEN conjunct1, THEN spec, of s] assms(2) by (auto simp: pthread_key_create_def split: prod.splits if_splits)
  have 2: "c = 0" "slots s2 = (slots s1)(k \<mapsto> v)"
    using c [THEN conjunct2, THEN conjunct2, THEN conjunct1, THEN spec, THEN spec, THEN spec, of s1 k v] 1(2) assms(3)
    by (auto simp: pthread_setspecific_def split: prod.splits)
  have 3: "slots s3 = slots s2" "v' = v"
    using c [THEN conjunct2, THEN conjunct2, THEN conjunct2, THEN spec, THEN spec, of s2 k] 2(2) assms(4)
    by (auto simp: pthread_getspecific_def)
  have 4: "d \<noteq> 0" "slots s4 = slots s"
    using c [THEN conjunct2, THEN conjunct1, THEN spec, THEN spec, of s3 k] 1 2(2) 3(1) assms(5)
    by (auto simp: pthread_key_delete_def)
  from 1 2 3 4 show ?thesis by (simp add: fun_eq_iff)
qed

definition tls_start :: "(uint32 \<times> (uint32 \<Rightarrow> addr option)) pstate" where
  "tls_start = \<lparr>PSI_server = False, fault = False, bad_stream = False, mutexes = (\<lambda>_. \<lparr>mutex_psi = 0\<rparr>),
     rwlocks = (\<lambda>_. \<lparr>rwlock_psi = 0\<rparr>), prlocks = (\<lambda>_. \<lparr>prlock_psi = 0\<rparr>), conds = (\<lambda>_. \<lparr>cond_psi = 0\<rparr>),
     files = (\<lambda>_. None), world = (3, \<lambda>_. None)\<rparr>"

theorem tls_key_lifecycle_witness:
  "fst (run_state (do { k \<leftarrow> pthread_key_create sample_tls; pthread_setspecific sample_tls (snd k) 9;
     pthread_getspecific sample_tls (snd k); pthread_key_delete sample_tls (snd k) }) tls_start) \<noteq> 0"
proof -
  let ?s1 = "snd (run_state (pthread_key_create sample_tls) tls_start)"
  have create: "run_state (pthread_key_create sample_tls) tls_start = ((0, 3), ?s1)"
    by (simp add: pthread_key_create_def sample_tls_def tls_start_def Let_def)
  from tls_key_lifecycle [OF sample_tls_contract this surjective_pairing surjective_pairing surjective_pairing, of 9]
  have "fst (run_state (pthread_key_delete sample_tls 3) (snd (run_state (pthread_getspecific sample_tls 3)
    (snd (run_state (pthread_setspecific sample_tls 3 9) ?s1))))) \<noteq> 0" by blast
  moreover have "fst (run_state (pthread_key_create sample_tls) tls_start) = (0, 3)" using create by (metis fst_conv)
  ultimately show ?thesis by (simp add: case_prod_beta)
qed

end
