(* ===== verification/Io_Cache.thy ===== *)
theory Io_Cache
  imports Mysql_Prelude
begin

text \<open>
  The cached file of \<^verbatim>\<open>my_sys.h\<close>: the structure \<^verbatim>\<open>IO_CACHE\<close> and the macros that read and write through it.
  A macro works on the buffer when the data is there, or fits, and otherwise calls the function of
  \<^verbatim>\<open>mf_iocache.c\<close> behind it; these functions are not part of the headers and are arguments of the definitions
  (\<open>read_function\<close>, \<open>write_function\<close>, \<open>b_get\<close>, \<open>b_write\<close>).  \<open>current_pos\<close> and \<open>current_end\<close> are pointers
  to members of the structure itself; the model names the pair they point to.

  The lemmas show that the macros keep the pointers in the buffers whatever sequence of operations runs, that the write
  buffer is a list the writes append to, that block operations are equivalent to byte operations, and how
  \<^verbatim>\<open>my_b_tell\<close> moves.  The locale \<open>byte_sink\<close> is the contract of a bounded sequence of bytes.
\<close>

section \<open>The structures\<close>

datatype cache_type =
  TYPE_NOT_SET | READ_CACHE | WRITE_CACHE | SEQ_READ_APPEND | READ_FIFO | READ_NET | WRITE_NET

datatype cur_member = Cur_read | Cur_write

record IO_CACHE =
  pos_in_file :: my_off_t
  end_of_file :: my_off_t
  read_pos :: addr
  read_end :: addr
  buffer :: addr
  request_pos :: addr
  write_buffer :: addr
  append_read_pos :: addr
  write_pos :: addr
  write_end :: addr
  current :: cur_member
  cache_type_of :: cache_type
  disk_writes :: uint32
  cache_fd :: int
  seek_not_done :: int
  cache_error :: int
  buffer_length :: size_t
  read_length :: size_t
  myflags :: uint32
  alloced_buffer :: bool

text \<open>The cache, the memory its pointers point into, and the rest of the system.\<close>

record 'w io_state =
  info :: IO_CACHE
  memory :: mem
  rest :: 'w

type_synonym 'w io_function = "addr \<Rightarrow> size_t \<Rightarrow> 'w io_state \<Rightarrow> int \<times> 'w io_state"

section \<open>The macros\<close>

definition INT_MIN :: int where
  "INT_MIN = - 0x80000000"

definition my_b_EOF :: int where
  "my_b_EOF = INT_MIN"

definition current_pos :: "IO_CACHE \<Rightarrow> addr" where
  "current_pos c = (case current c of Cur_read \<Rightarrow> read_pos c | Cur_write \<Rightarrow> write_pos c)"

definition current_end :: "IO_CACHE \<Rightarrow> addr" where
  "current_end c = (case current c of Cur_read \<Rightarrow> read_end c | Cur_write \<Rightarrow> write_end c)"

text \<open>The copy reads its source before it writes, which C promises only where the two ranges do not overlap: for overlapping
  ranges \<^verbatim>\<open>memcpy\<close> is undefined in C, and what is stated here of such a copy holds of \<^verbatim>\<open>memmove\<close>.\<close>

definition memcpy :: "mem \<Rightarrow> addr \<Rightarrow> addr \<Rightarrow> size_t \<Rightarrow> mem" where
  "memcpy m dst src n = memcpy_to m dst (memcpy_from m src (unat n))"

definition my_b_clear :: "'w io_state \<Rightarrow> 'w io_state" where
  "my_b_clear s = s\<lparr>info := info s\<lparr>buffer := 0\<rparr>\<rparr>"

definition my_b_inited :: "'w io_state \<Rightarrow> bool" where
  "my_b_inited s \<longleftrightarrow> buffer (info s) \<noteq> 0"

definition my_b_read :: "'w io_function \<Rightarrow> addr \<Rightarrow> size_t \<Rightarrow> 'w io_state \<Rightarrow> int \<times> 'w io_state" where
  "my_b_read read_function Buffer Count s =
     (if read_pos (info s) + Count \<le> read_end (info s)
      then (0, s\<lparr>memory := memcpy (memory s) Buffer (read_pos (info s)) Count,
                 info := info s\<lparr>read_pos := read_pos (info s) + Count\<rparr>\<rparr>)
      else read_function Buffer Count s)"

definition my_b_write :: "'w io_function \<Rightarrow> addr \<Rightarrow> size_t \<Rightarrow> 'w io_state \<Rightarrow> int \<times> 'w io_state" where
  "my_b_write write_function Buffer Count s =
     (if write_pos (info s) + Count \<le> write_end (info s)
      then (0, s\<lparr>memory := memcpy (memory s) (write_pos (info s)) Buffer Count,
                 info := info s\<lparr>write_pos := write_pos (info s) + Count\<rparr>\<rparr>)
      else write_function Buffer Count s)"

definition my_b_get :: "('w io_state \<Rightarrow> int \<times> 'w io_state) \<Rightarrow> 'w io_state \<Rightarrow> int \<times> 'w io_state" where
  "my_b_get b_get s =
     (if read_pos (info s) \<noteq> read_end (info s)
      then let s' = s\<lparr>info := info s\<lparr>read_pos := read_pos (info s) + 1\<rparr>\<rparr>
           in (uint (memory s' (read_pos (info s') - 1)), s')
      else b_get s)"

definition put_byte :: "uchar \<Rightarrow> 'w io_state \<Rightarrow> 'w io_state" where
  "put_byte chr s = s\<lparr>memory := (memory s)(write_pos (info s) := chr),
     info := info s\<lparr>write_pos := write_pos (info s) + 1\<rparr>\<rparr>"

definition my_b_write_byte :: "'w io_function \<Rightarrow> uchar \<Rightarrow> 'w io_state \<Rightarrow> 'w io_state" where
  "my_b_write_byte b_write chr s =
     (if write_pos (info s) < write_end (info s) then put_byte chr s
      else put_byte chr (snd (b_write 0 0 s)))"

definition my_b_fill_cache :: "'w io_function \<Rightarrow> 'w io_state \<Rightarrow> int \<times> 'w io_state" where
  "my_b_fill_cache read_function s =
     read_function 0 0 (s\<lparr>info := info s\<lparr>read_end := read_pos (info s)\<rparr>\<rparr>)"

definition my_b_tell :: "'w io_state \<Rightarrow> my_off_t" where
  "my_b_tell s = pos_in_file (info s) + ucast (current_pos (info s) - request_pos (info s))"

definition my_b_get_buffer_start :: "'w io_state \<Rightarrow> addr" where
  "my_b_get_buffer_start s = request_pos (info s)"

definition my_b_get_bytes_in_buffer :: "'w io_state \<Rightarrow> size_t" where
  "my_b_get_bytes_in_buffer s = read_end (info s) - my_b_get_buffer_start s"

definition my_b_get_pos_in_file :: "'w io_state \<Rightarrow> my_off_t" where
  "my_b_get_pos_in_file s = pos_in_file (info s)"

definition my_b_bytes_in_cache :: "'w io_state \<Rightarrow> size_t" where
  "my_b_bytes_in_cache s = current_end (info s) - current_pos (info s)"

section \<open>The invariant\<close>

text \<open>The four pointers of each buffer are in order and the buffer does not wrap around the address space.\<close>

definition io_ok :: "'w io_state \<Rightarrow> bool" where
  "io_ok s \<longleftrightarrow> (let c = info s in
     buffer c \<le> read_pos c \<and> read_pos c \<le> read_end c \<and>
     unat (read_end c) \<le> unat (buffer c) + unat (buffer_length c) \<and>
     unat (buffer c) + unat (buffer_length c) < 2 ^ 32 \<and>
     write_buffer c \<le> write_pos c \<and> write_pos c \<le> write_end c \<and>
     unat (write_end c) \<le> unat (write_buffer c) + unat (buffer_length c) \<and>
     unat (write_buffer c) + unat (buffer_length c) < 2 ^ 32)"

text \<open>The bytes written and not flushed, and the room left.\<close>

definition written :: "'w io_state \<Rightarrow> uchar list" where
  "written s = memcpy_from (memory s) (write_buffer (info s)) (unat (write_pos (info s) - write_buffer (info s)))"

definition write_room :: "'w io_state \<Rightarrow> nat" where
  "write_room s = unat (write_end (info s)) - unat (write_pos (info s))"

text \<open>The operations a client can run, with the contract of the functions behind the macros: they keep the cache in order,
  whether they succeed or fail.  A step is an operation with its precondition: the end of a block does not wrap
  around the address space, and a single byte finds room, at once or after the flush the macro asks for.\<close>

definition io_contract ::
  "'w io_function \<Rightarrow> 'w io_function \<Rightarrow> ('w io_state \<Rightarrow> int \<times> 'w io_state) \<Rightarrow> 'w io_function \<Rightarrow> bool" where
  "io_contract rdf wrf bg bw \<longleftrightarrow>
     (\<forall>b n s. io_ok s \<longrightarrow> io_ok (snd (rdf b n s))) \<and> (\<forall>b n s. io_ok s \<longrightarrow> io_ok (snd (wrf b n s))) \<and>
     (\<forall>s. io_ok s \<longrightarrow> io_ok (snd (bg s))) \<and>
     (\<forall>s. io_ok s \<longrightarrow> io_ok (snd (bw 0 0 s)))"

inductive io_reach :: "'w io_function \<Rightarrow> 'w io_function \<Rightarrow> ('w io_state \<Rightarrow> int \<times> 'w io_state) \<Rightarrow> 'w io_function \<Rightarrow>
    'w io_state \<Rightarrow> 'w io_state \<Rightarrow> bool" for rdf wrf bg bw where
  io_start: "io_reach rdf wrf bg bw s s"
| io_read: "io_reach rdf wrf bg bw s t \<Longrightarrow> unat (read_pos (info t)) + unat n < 2 ^ 32 \<Longrightarrow>
    io_reach rdf wrf bg bw s (snd (my_b_read rdf b n t))"
| io_write: "io_reach rdf wrf bg bw s t \<Longrightarrow> unat (write_pos (info t)) + unat n < 2 ^ 32 \<Longrightarrow>
    io_reach rdf wrf bg bw s (snd (my_b_write wrf b n t))"
| io_get: "io_reach rdf wrf bg bw s t \<Longrightarrow> io_reach rdf wrf bg bw s (snd (my_b_get bg t))"
| io_write_byte: "io_reach rdf wrf bg bw s t \<Longrightarrow> 0 < write_room t \<or> 0 < write_room (snd (bw 0 0 t)) \<Longrightarrow>
    io_reach rdf wrf bg bw s (my_b_write_byte bw c t)"
| io_fill: "io_reach rdf wrf bg bw s t \<Longrightarrow> io_reach rdf wrf bg bw s (snd (my_b_fill_cache rdf t))"

inductive_cases io_reachE: "io_reach rdf wrf bg bw s t"

section \<open>The interface of a bounded sequence of bytes\<close>

locale byte_sink =
  fixes ok :: "'s \<Rightarrow> bool" and room :: "'s \<Rightarrow> nat" and contents :: "'s \<Rightarrow> uchar list"
    and put :: "uchar \<Rightarrow> 's \<Rightarrow> 's"
  assumes put_ok: "ok s \<Longrightarrow> 0 < room s \<Longrightarrow> ok (put c s)"
    and put_room: "ok s \<Longrightarrow> 0 < room s \<Longrightarrow> room (put c s) = room s - 1"
    and put_contents: "ok s \<Longrightarrow> 0 < room s \<Longrightarrow> contents (put c s) = contents s @ [c]"
begin

lemma fold_put:
  "ok s \<Longrightarrow> length cs \<le> room s \<Longrightarrow>
   ok (fold put cs s) \<and> room (fold put cs s) = room s - length cs \<and> contents (fold put cs s) = contents s @ cs"
proof (induction cs arbitrary: s)
  case Nil
  then show ?case by simp
next
  case (Cons c cs)
  then have "0 < room s" by simp
  with Cons put_ok put_room put_contents show ?case by simp
qed

end

section \<open>Lemmas\<close>

lemma io_ok_write: "io_ok s \<Longrightarrow> write_buffer (info s) \<le> write_pos (info s) \<and> write_pos (info s) \<le> write_end (info s)"
  by (simp add: io_ok_def Let_def)

lemma unat_write_pos: "io_ok s \<Longrightarrow> 0 < write_room s \<Longrightarrow> unat (write_pos (info s) + 1) = unat (write_pos (info s)) + 1"
proof -
  assume "0 < write_room s"
  then have "unat (write_pos (info s)) < unat (write_end (info s))" by (simp add: write_room_def)
  then show ?thesis using unsigned_less [of "write_end (info s)", where ?'a = nat] by (simp add: unat_word_ariths)
qed

lemma put_byte_ok:
  assumes "io_ok s" "0 < write_room s"
  shows "io_ok (put_byte c s)"
  using assms unat_write_pos [OF assms] by (simp add: io_ok_def put_byte_def Let_def word_le_nat_alt write_room_def)

lemma put_byte_room:
  assumes "io_ok s" "0 < write_room s"
  shows "write_room (put_byte c s) = write_room s - 1"
  using unat_write_pos [OF assms] by (simp add: write_room_def put_byte_def)

lemma unat_written:
  assumes "io_ok s"
  shows "unat (write_pos (info s) - write_buffer (info s)) = unat (write_pos (info s)) - unat (write_buffer (info s))"
  using io_ok_write [OF assms] by (simp add: unat_sub)

lemma put_byte_written:
  assumes "io_ok s" "0 < write_room s"
  shows "written (put_byte c s) = written s @ [c]"
proof -
  let ?n = "unat (write_pos (info s) - write_buffer (info s))"
  have n: "unat (write_pos (info s) + 1 - write_buffer (info s)) = Suc ?n"
    using unat_written [OF put_byte_ok [OF assms, of c]] unat_written [OF assms(1)] unat_write_pos [OF assms]
      io_ok_write [OF assms(1)] by (auto simp: put_byte_def word_le_nat_alt)
  have pos: "write_buffer (info s) + of_nat ?n = write_pos (info s)" by simp
  have "write_buffer (info s) + of_nat i \<noteq> write_pos (info s)" if "i < ?n" for i
  proof
    assume "write_buffer (info s) + of_nat i = write_pos (info s)"
    then have "write_pos (info s) - write_buffer (info s) = of_nat i" by (simp add: algebra_simps)
    with that show False by (metis le_unat_uoi less_irrefl order_less_imp_le)
  qed
  then have "memcpy_from ((memory s)(write_pos (info s) := c)) (write_buffer (info s)) ?n
      = memcpy_from (memory s) (write_buffer (info s)) ?n"
    by (simp add: memcpy_from_def)
  with n pos show ?thesis
    by (simp add: written_def put_byte_def memcpy_from_def)
qed

interpretation write_cache: byte_sink io_ok write_room written put_byte
  by unfold_locales (simp_all add: put_byte_ok put_byte_room put_byte_written)

lemma no_wrap_le:
  fixes p e n :: addr
  assumes "unat p + unat n < 2 ^ 32"
  shows "unat (p + n) = unat p + unat n" and "p + n \<le> e \<longleftrightarrow> unat p + unat n \<le> unat e"
  using assms by (simp_all add: unat_word_ariths word_le_nat_alt)

lemma read_ok:
  assumes "io_ok s" "unat (read_pos (info s)) + unat n < 2 ^ 32" "read_pos (info s) + n \<le> read_end (info s)"
  shows "io_ok (s\<lparr>memory := m, info := info s\<lparr>read_pos := read_pos (info s) + n\<rparr>\<rparr>)"
  using assms no_wrap_le(1) [OF assms(2)] by (auto simp: io_ok_def Let_def word_le_nat_alt)

lemma write_ok:
  assumes "io_ok s" "unat (write_pos (info s)) + unat n < 2 ^ 32" "write_pos (info s) + n \<le> write_end (info s)"
  shows "io_ok (s\<lparr>memory := m, info := info s\<lparr>write_pos := write_pos (info s) + n\<rparr>\<rparr>)"
  using assms no_wrap_le(1) [OF assms(2)] by (auto simp: io_ok_def Let_def word_le_nat_alt)

lemma get_ok:
  assumes "io_ok s" "read_pos (info s) \<noteq> read_end (info s)"
  shows "io_ok (s\<lparr>info := info s\<lparr>read_pos := read_pos (info s) + 1\<rparr>\<rparr>)"
proof -
  have "unat (read_pos (info s)) < unat (read_end (info s))"
    using assms by (auto simp: io_ok_def Let_def word_le_nat_alt word_unat_eq_iff)
  moreover have "unat (read_end (info s)) < 2 ^ 32" using unsigned_less [of "read_end (info s)", where ?'a = nat] by simp
  ultimately have "unat (read_pos (info s) + 1) = unat (read_pos (info s)) + 1" by (simp add: unat_word_ariths)
  with assms \<open>unat (read_pos (info s)) < unat (read_end (info s))\<close> show ?thesis
    by (auto simp: io_ok_def Let_def word_le_nat_alt)
qed

lemma fold_put_byte:
  "fold put_byte cs s = s\<lparr>memory := memcpy_to (memory s) (write_pos (info s)) cs,
     info := info s\<lparr>write_pos := write_pos (info s) + of_nat (length cs)\<rparr>\<rparr>"
  by (induction cs arbitrary: s) (simp_all add: put_byte_def add.assoc)

lemma my_b_write_byte_fits: "0 < write_room s \<Longrightarrow> my_b_write_byte b_write c s = put_byte c s"
  by (simp add: my_b_write_byte_def write_room_def word_less_nat_alt)

lemma fold_write_byte:
  "io_ok s \<Longrightarrow> length cs \<le> write_room s \<Longrightarrow> fold (my_b_write_byte b_write) cs s = fold put_byte cs s"
proof (induction cs arbitrary: s)
  case Nil
  then show ?case by simp
next
  case (Cons c cs)
  then have "0 < write_room s" by simp
  with Cons put_byte_ok [of s c] put_byte_room [of s c] show ?case by (simp add: my_b_write_byte_fits)
qed

text \<open>The three outcomes of writing a block.\<close>

lemma write_fits:
  assumes "io_ok s" "unat (write_pos (info s)) + unat Count < 2 ^ 32" "unat Count \<le> write_room s"
  shows "my_b_write write_function Buffer Count s =
      (0, fold (my_b_write_byte b_write) (memcpy_from (memory s) Buffer (unat Count)) s)"
    "written (fold (my_b_write_byte b_write) (memcpy_from (memory s) Buffer (unat Count)) s)
      = written s @ memcpy_from (memory s) Buffer (unat Count)"
    "write_room (fold (my_b_write_byte b_write) (memcpy_from (memory s) Buffer (unat Count)) s) = write_room s - unat Count"
    "io_ok (fold (my_b_write_byte b_write) (memcpy_from (memory s) Buffer (unat Count)) s)"
proof -
  let ?bs = "memcpy_from (memory s) Buffer (unat Count)"
  have len: "length ?bs = unat Count" by (simp add: memcpy_from_def)
  have fits: "write_pos (info s) + Count \<le> write_end (info s)"
    unfolding no_wrap_le(2) [OF assms(2)]
    using assms(3) io_ok_write [OF assms(1)] by (simp add: write_room_def word_le_nat_alt) linarith
  have eq: "my_b_write write_function Buffer Count s = (0, fold put_byte ?bs s)"
    using fits len by (simp add: my_b_write_def fold_put_byte memcpy_def)
  note bytes = fold_write_byte [OF assms(1), of ?bs b_write, unfolded len, OF assms(3)]
  note put = write_cache.fold_put [OF assms(1), of ?bs, unfolded len, OF assms(3)]
  show "my_b_write write_function Buffer Count s = (0, fold (my_b_write_byte b_write) ?bs s)" using eq bytes by simp
  show "written (fold (my_b_write_byte b_write) ?bs s) = written s @ ?bs"
    "write_room (fold (my_b_write_byte b_write) ?bs s) = write_room s - unat Count"
    "io_ok (fold (my_b_write_byte b_write) ?bs s)"
    using put bytes by simp_all
qed

lemma write_hands_on:
  assumes "unat (write_pos (info s)) + unat Count < 2 ^ 32" "\<not> unat Count \<le> write_room s"
  shows "my_b_write write_function Buffer Count s = write_function Buffer Count s"
proof -
  have "\<not> unat (write_pos (info s)) + unat Count \<le> unat (write_end (info s))" using assms(2) by (simp add: write_room_def)
  then have "\<not> write_pos (info s) + Count \<le> write_end (info s)" by (simp only: no_wrap_le(2) [OF assms(1)] not_False_eq_True)
  then show ?thesis by (simp only: my_b_write_def if_False)
qed

lemma wrapped_end:
  fixes p n :: addr
  assumes "\<not> unat p + unat n < 2 ^ 32"
  shows "p + n < p"
proof -
  have "unat p < 2 ^ 32" "unat n < 2 ^ 32" using unsigned_less [of p, where ?'a = nat] unsigned_less [of n, where ?'a = nat] by simp_all
  then have "(unat p + unat n) mod 2 ^ 32 = unat p + unat n - 2 ^ 32" using assms by (simp add: mod_if)
  then have "(unat p + unat n) mod 2 ^ 32 < unat p" using \<open>unat n < 2 ^ 32\<close> assms by linarith
  then show ?thesis by (simp add: word_less_nat_alt unat_word_ariths)
qed

lemma write_wraps:
  assumes "io_ok s" "\<not> unat (write_pos (info s)) + unat Count < 2 ^ 32"
  shows "\<not> unat Count \<le> write_room s"
    "fst (my_b_write write_function Buffer Count s) = 0" "rest (snd (my_b_write write_function Buffer Count s)) = rest s"
    "write_pos (info (snd (my_b_write write_function Buffer Count s))) < write_pos (info s)"
    "memory (snd (my_b_write write_function Buffer Count s)) (write_end (info s)) = memory s (Buffer + of_nat (write_room s))"
proof -
  have order: "unat (write_pos (info s)) \<le> unat (write_end (info s))" "unat (write_end (info s)) < 2 ^ 32" "unat Count < 2 ^ 32"
    using io_ok_write [OF assms(1)] unsigned_less [of "write_end (info s)", where ?'a = nat] unsigned_less [of Count, where ?'a = nat]
    by (simp_all add: word_le_nat_alt)
  then have big: "\<not> unat Count \<le> write_room s" using assms(2) by (simp add: write_room_def)
  then show "\<not> unat Count \<le> write_room s" .
  note wrapped = wrapped_end [OF assms(2)]
  then have "write_pos (info s) + Count \<le> write_end (info s)" using io_ok_write [OF assms(1)] by (meson less_imp_le order_trans)
  then have eq: "my_b_write write_function Buffer Count s =
      (0, s\<lparr>memory := memcpy (memory s) (write_pos (info s)) Buffer Count, info := info s\<lparr>write_pos := write_pos (info s) + Count\<rparr>\<rparr>)"
    by (simp add: my_b_write_def)
  then show "fst (my_b_write write_function Buffer Count s) = 0" "rest (snd (my_b_write write_function Buffer Count s)) = rest s"
    "write_pos (info (snd (my_b_write write_function Buffer Count s))) < write_pos (info s)"
    using wrapped by simp_all
  let ?bs = "memcpy_from (memory s) Buffer (unat Count)" and ?p = "write_pos (info s)"
  have len: "length ?bs = unat Count" by (simp add: memcpy_from_def)
  have room: "write_room s < unat Count" using big by simp
  have "?p + of_nat (write_room s) = write_end (info s)"
    using order by (simp add: write_room_def)
  moreover have "memcpy_from (memcpy_to (memory s) ?p ?bs) ?p (unat Count) = ?bs"
    using memcpy_roundtrip [of ?bs "memory s" ?p] order(3) len by simp
  then have "memcpy_from (memcpy_to (memory s) ?p ?bs) ?p (unat Count) ! write_room s = ?bs ! write_room s" by simp
  then have "memcpy_to (memory s) ?p ?bs (?p + of_nat (write_room s)) = memory s (Buffer + of_nat (write_room s))"
    using room by (simp add: memcpy_from_def)
  ultimately show "memory (snd (my_b_write write_function Buffer Count s)) (write_end (info s)) = memory s (Buffer + of_nat (write_room s))"
    by (simp add: eq memcpy_def)
qed

text \<open>A byte put into a full buffer goes behind it.\<close>

lemma put_byte_full:
  assumes "io_ok s" "write_buffer (info s) \<noteq> 0" "write_room s = 0"
  shows "write_pos (info s) = write_end (info s)" "memory (put_byte c s) (write_end (info s)) = c" "\<not> io_ok (put_byte c s)"
    "write_pos (info (put_byte c s)) = write_end (info s) + 1"
proof -
  show pos: "write_pos (info s) = write_end (info s)"
    using assms(3) io_ok_write [OF assms(1)] by (simp add: write_room_def word_le_nat_alt word_unat_eq_iff)
  then show "memory (put_byte c s) (write_end (info s)) = c" "write_pos (info (put_byte c s)) = write_end (info s) + 1"
    by (simp_all add: put_byte_def)
  show "\<not> io_ok (put_byte c s)"
  proof
    assume "io_ok (put_byte c s)"
    then have le: "write_buffer (info s) \<le> write_end (info s) + 1" "write_end (info s) + 1 \<le> write_end (info s)"
      using io_ok_write [of "put_byte c s"] pos by (simp_all add: put_byte_def)
    have "unat (write_end (info s)) < 2 ^ 32" using unsigned_less [of "write_end (info s)", where ?'a = nat] by simp
    with le(2) have "unat (write_end (info s)) + 1 = 2 ^ 32"
      by (auto simp: word_le_nat_alt unat_word_ariths mod_if split: if_splits)
    then have "write_end (info s) + 1 = 0" by (simp add: word_unat_eq_iff unat_word_ariths)
    with le(1) assms(2) show False by simp
  qed
qed

text \<open>Reading \<open>n\<close> bytes one at a time.\<close>

primrec gets :: "nat \<Rightarrow> ('w io_state \<Rightarrow> int \<times> 'w io_state) \<Rightarrow> 'w io_state \<Rightarrow> int list \<times> 'w io_state" where
  "gets 0 b_get s = ([], s)"
| "gets (Suc n) b_get s = (case my_b_get b_get s of (c, s') \<Rightarrow> case gets n b_get s' of (cs, s'') \<Rightarrow> (c # cs, s''))"

lemma gets_in_cache:
  assumes "unat (read_pos (info s)) + n \<le> unat (read_end (info s))"
  shows "gets n b_get s = (map uint (memcpy_from (memory s) (read_pos (info s)) n),
    s\<lparr>info := info s\<lparr>read_pos := read_pos (info s) + of_nat n\<rparr>\<rparr>)"
  using assms
proof (induction n arbitrary: s)
  case 0
  then show ?case by (simp add: memcpy_from_def)
next
  case (Suc n)
  have "unat (read_end (info s)) < 2 ^ 32" using unsigned_less [of "read_end (info s)", where ?'a = nat] by simp
  with Suc.prems have u: "unat (read_pos (info s) + 1) = unat (read_pos (info s)) + 1" by (simp add: unat_word_ariths)
  have ne: "read_pos (info s) \<noteq> read_end (info s)" using Suc.prems by auto
  have "memcpy_from (memory s) (read_pos (info s)) (Suc n)
      = memory s (read_pos (info s)) # memcpy_from (memory s) (read_pos (info s) + 1) n"
    by (simp add: memcpy_from_def map_upt_Suc add.assoc del: upt_Suc)
  with Suc.IH [of "s\<lparr>info := info s\<lparr>read_pos := read_pos (info s) + 1\<rparr>\<rparr>"] Suc.prems u ne show ?case
    by (simp add: my_b_get_def Let_def add.assoc)
qed

section \<open>A sample cache\<close>

definition sample_cache :: IO_CACHE where
  "sample_cache = \<lparr>pos_in_file = 0, end_of_file = 0, read_pos = 100, read_end = 104, buffer = 100, request_pos = 200,
     write_buffer = 200, append_read_pos = 0, write_pos = 200, write_end = 216, current = Cur_write,
     cache_type_of = WRITE_CACHE, disk_writes = 0, cache_fd = 3, seek_not_done = 0, cache_error = 0,
     buffer_length = 16, read_length = 16, myflags = 0, alloced_buffer = True\<rparr>"

definition sample_io :: "unit io_state" where
  "sample_io = \<lparr>info = sample_cache, memory = (\<lambda>a. ucast a), rest = ()\<rparr>"

definition sample_flush :: "unit io_function" where
  "sample_flush b n s = (0, s\<lparr>info := sample_cache\<rparr>)"

lemma sample_io_ok: "io_ok sample_io"
  by (simp add: io_ok_def sample_io_def sample_cache_def Let_def)

lemma sample_io_contract: "io_contract sample_flush sample_flush (sample_flush 0 0) sample_flush"
  by (simp add: io_contract_def sample_flush_def io_ok_def sample_cache_def write_room_def Let_def)

section \<open>Properties\<close>

text \<open>C12: whatever sequence of reads, writes, single bytes and refills runs on a cache, the read and write positions stay
  within their buffers, when the functions behind the macros keep them there, under two conditions on the steps: no block is so long that the position plus its length wraps
  around the address space, and a single byte that finds the buffer full is written only where the flush made room.  Both are needed: the macros test neither,
  and what a block that wraps and a flush without room lead to is stated below.\<close>
theorem io_cache_invariant:
  assumes "io_contract rdf wrf bg bw" and "io_reach rdf wrf bg bw s t" and "io_ok s"
  shows "io_ok t"
  using assms(2,3)
proof (induction rule: io_reach.induct)
  case (io_start s)
  then show ?case .
next
  case (io_read s t n b)
  then show ?case using assms(1) by (auto simp: my_b_read_def io_contract_def intro: read_ok)
next
  case (io_write s t n b)
  then show ?case using assms(1) by (auto simp: my_b_write_def io_contract_def intro: write_ok)
next
  case (io_get s t)
  then show ?case using assms(1) by (auto simp: my_b_get_def io_contract_def Let_def intro: get_ok)
next
  case (io_write_byte s t c)
  then show ?case
    using assms(1) put_byte_ok by (auto simp: my_b_write_byte_def io_contract_def write_room_def word_less_nat_alt)
next
  case (io_fill s t)
  then have "io_ok (t\<lparr>info := info t\<lparr>read_end := read_pos (info t)\<rparr>\<rparr>)" by (auto simp: io_ok_def Let_def word_le_nat_alt)
  then show ?case using assms(1) by (simp add: my_b_fill_cache_def io_contract_def)
qed

theorem io_cache_invariant_witness:
  "io_ok (my_b_write_byte sample_flush 65 (snd (my_b_read sample_flush 300 4 sample_io)))"
proof -
  have "io_reach sample_flush sample_flush (sample_flush 0 0) sample_flush sample_io
      (my_b_write_byte sample_flush 65 (snd (my_b_read sample_flush 300 4 sample_io)))"
    by (intro io_write_byte io_read io_start) (simp_all add: sample_io_def sample_cache_def my_b_read_def write_room_def)
  with io_cache_invariant [OF sample_io_contract _ sample_io_ok] show ?thesis by blast
qed

text \<open>C13: what writing a block does, for every length.  A block that fits is appended to the bytes waiting in the write buffer, the room shrinks by its length, and the
  result is the same state that writing its bytes one at a time gives; a block that does not fit, and whose end does not wrap around the address space, is handed to
  the write function unchanged, and its error code is the result.  A block so long that the end wraps is taken to fit: the result is 0, nothing is handed on,
  the bytes are copied over the end of the buffer and the write position moves backwards.\<close>
theorem my_b_write_appends:
  assumes "io_ok s"
  shows "case my_b_write write_function Buffer Count s of (rc, s') \<Rightarrow>
    if unat Count \<le> write_room s
    then rc = 0 \<and> written s' = written s @ memcpy_from (memory s) Buffer (unat Count) \<and>
      write_room s' = write_room s - unat Count \<and> io_ok s' \<and>
      s' = fold (my_b_write_byte b_write) (memcpy_from (memory s) Buffer (unat Count)) s
    else if unat (write_pos (info s)) + unat Count < 2 ^ 32 then (rc, s') = write_function Buffer Count s
    else rc = 0 \<and> rest s' = rest s \<and> write_pos (info s') < write_pos (info s) \<and>
      memory s' (write_end (info s)) = memory s (Buffer + of_nat (write_room s))"
proof (cases "unat (write_pos (info s)) + unat Count < 2 ^ 32")
  case True
  show ?thesis
  proof (cases "unat Count \<le> write_room s")
    case fits: True
    with write_fits [OF assms True fits, where b_write = b_write] show ?thesis by simp
  next
    case False
    with True write_hands_on [OF True False] show ?thesis by (simp add: split_beta)
  qed
next
  case False
  with write_wraps [OF assms False] show ?thesis by (simp add: split_beta)
qed

theorem my_b_write_appends_witness:
  "written (snd (my_b_write sample_flush 65 3 sample_io)) = [65, 66, 67] \<and>
   write_pos (info (snd (my_b_write sample_flush 65 0xFFFFFFFF sample_io))) < 200"
proof
  have three: "unat (3 :: size_t) = 3" by simp
  have room: "3 \<le> write_room sample_io"
    and empty: "written sample_io = []" and data: "memcpy_from (memory sample_io) 65 3 = [65, 66, 67]"
    by (simp_all add: sample_io_def sample_cache_def write_room_def written_def memcpy_from_def upt_rec)
  show "written (snd (my_b_write sample_flush 65 3 sample_io)) = [65, 66, 67]"
    using my_b_write_appends [OF sample_io_ok, where write_function = sample_flush and Buffer = 65 and Count = 3
        and b_write = sample_flush, unfolded three split_beta if_P [OF room] empty data append_Nil] by blast
  have "\<not> unat (0xFFFFFFFF :: size_t) \<le> write_room sample_io" "\<not> unat (write_pos (info sample_io)) + unat (0xFFFFFFFF :: size_t) < 2 ^ 32"
    and pos: "write_pos (info sample_io) = 200"
    by (simp_all add: sample_io_def sample_cache_def write_room_def)
  with my_b_write_appends [OF sample_io_ok, where write_function = sample_flush and Buffer = 65 and Count = "0xFFFFFFFF"]
  show "write_pos (info (snd (my_b_write sample_flush 65 0xFFFFFFFF sample_io))) < 200"
    by (simp only: split_beta if_False pos simp_thms)
qed

text \<open>C14: a block that is in the read buffer arrives in the caller's buffer byte for byte: it is what that many single
  reads deliver, and it leaves the cache where they leave it.\<close>
theorem my_b_read_is_gets:
  assumes "unat (read_pos (info s)) + unat Count \<le> unat (read_end (info s))"
  shows "case my_b_read read_function Buffer Count s of (rc, s') \<Rightarrow>
    rc = 0 \<and> map uint (memcpy_from (memory s') Buffer (unat Count)) = fst (gets (unat Count) b_get s) \<and>
    info s' = info (snd (gets (unat Count) b_get s))"
proof -
  have lt: "unat (read_end (info s)) < 2 ^ 32" using unsigned_less [of "read_end (info s)", where ?'a = nat] by simp
  then have "read_pos (info s) + Count \<le> read_end (info s)"
    using assms no_wrap_le(2) [of "read_pos (info s)" Count] by simp
  moreover have "unat Count < 2 ^ 32" using unsigned_less [of Count, where ?'a = nat] by simp
  then have "memcpy_from (memcpy (memory s) Buffer (read_pos (info s)) Count) Buffer (unat Count)
      = memcpy_from (memory s) (read_pos (info s)) (unat Count)"
    using memcpy_roundtrip [of "memcpy_from (memory s) (read_pos (info s)) (unat Count)" "memory s" Buffer]
    by (simp add: memcpy_def memcpy_from_def)
  ultimately show ?thesis by (simp add: my_b_read_def gets_in_cache [OF assms])
qed

theorem my_b_read_is_gets_witness:
  "map uint (memcpy_from (memory (snd (my_b_read sample_flush 300 2 sample_io))) 300 2) = [100, 101]"
proof -
  have two: "unat (2 :: size_t) = 2" by simp
  have le: "unat (read_pos (info sample_io)) + unat (2 :: size_t) \<le> unat (read_end (info sample_io))"
    by (simp add: sample_io_def sample_cache_def)
  have data: "fst (gets 2 (sample_flush 0 0) sample_io) = [100, 101]"
    using gets_in_cache [OF le, of "sample_flush 0 0", unfolded two]
    by (simp add: sample_io_def sample_cache_def memcpy_from_def upt_rec)
  show ?thesis
    using my_b_read_is_gets [OF le, where read_function = sample_flush and Buffer = 300
        and b_get = "sample_flush 0 0", unfolded two split_beta data] by blast
qed

text \<open>\<^verbatim>\<open>my_b_tell\<close> advances by exactly the bytes written to a write cache, modulo 2 to the 64, and the bytes left in
  the cache shrink by as many.\<close>
lemma my_b_tell_advances:
  assumes "current (info s) = Cur_write" and "write_pos (info s) + Count \<le> write_end (info s)"
    and "unat (write_pos (info s) - request_pos (info s)) + unat Count < 2 ^ 32"
  shows "my_b_tell (snd (my_b_write write_function Buffer Count s)) = my_b_tell s + ucast Count \<and>
    my_b_bytes_in_cache (snd (my_b_write write_function Buffer Count s)) = my_b_bytes_in_cache s - Count"
proof -
  have "unat (write_pos (info s) - request_pos (info s) + Count) = unat (write_pos (info s) - request_pos (info s)) + unat Count"
    using assms(3) by (simp add: unat_word_ariths)
  then have "(ucast (write_pos (info s) - request_pos (info s) + Count) :: my_off_t)
      = ucast (write_pos (info s) - request_pos (info s)) + ucast Count"
    by (simp add: word_unat_eq_iff unat_word_ariths unsigned_ucast_eq take_bit_eq_mod mod_simps)
  with assms(1,2) show ?thesis
    by (simp add: my_b_tell_def my_b_bytes_in_cache_def my_b_write_def current_pos_def current_end_def algebra_simps)
qed

lemma my_b_tell_advances_instance: "my_b_tell (snd (my_b_write sample_flush 65 3 sample_io)) = 3"
proof -
  have "current (info sample_io) = Cur_write"
    and "write_pos (info sample_io) + 3 \<le> write_end (info sample_io)"
    and "unat (write_pos (info sample_io) - request_pos (info sample_io)) + unat (3 :: size_t) < 2 ^ 32"
    and "my_b_tell sample_io = 0"
    by (simp_all add: sample_io_def sample_cache_def my_b_tell_def current_pos_def)
  with my_b_tell_advances [OF this(1-3), where write_function = sample_flush and Buffer = 65] show ?thesis by simp
qed

text \<open>C35: what writing a single byte does, exactly.  If the buffer is full the macro first asks for a flush.  Where there is room then, the byte is appended to what
  is waiting, the room shrinks by one and the cache stays in order.  \<^verbatim>\<open>my_b_write_byte\<close> has no error check: when the flush, whatever else it does,
  leaves no room (as one that fails may), the byte is stored at
  \<^verbatim>\<open>write_end\<close>, the first address behind the write area, and the position leaves the buffer.  So the cache stays in order exactly when there is room, at once or
  after the flush.\<close>
theorem my_b_write_byte_overruns:
  assumes "io_ok s" "io_ok (snd (b_write 0 0 s))" "write_buffer (info (snd (b_write 0 0 s))) \<noteq> 0"
    and "t = (if 0 < write_room s then s else snd (b_write 0 0 s))" "r = my_b_write_byte b_write c s"
  shows "(0 < write_room t \<longrightarrow> written r = written t @ [c] \<and> write_room r = write_room t - 1) \<and>
    (write_room t = 0 \<longrightarrow> memory r (write_end (info t)) = c \<and> write_pos (info r) = write_end (info t) + 1) \<and>
    (io_ok r \<longleftrightarrow> 0 < write_room t)"
proof -
  have r: "r = put_byte c t" using assms(4,5) by (simp add: my_b_write_byte_def write_room_def word_less_nat_alt)
  have t: "io_ok t" using assms(1,2,4) by simp
  show ?thesis
  proof (cases "0 < write_room t")
    case True
    then show ?thesis by (simp add: r put_byte_ok [OF t] put_byte_room [OF t] put_byte_written [OF t])
  next
    case False
    then have "write_buffer (info t) \<noteq> 0" using assms(3,4) by (auto split: if_splits)
    with False put_byte_full [OF t] show ?thesis by (simp add: r)
  qed
qed

text \<open>A full buffer, once with a flush that empties it, once with one that fails and records the error.\<close>
theorem my_b_write_byte_overruns_witness:
  "written (my_b_write_byte sample_flush 65 (sample_io\<lparr>info := sample_cache\<lparr>write_pos := 216\<rparr>\<rparr>)) = [65] \<and>
   memory (my_b_write_byte (\<lambda>_ _ s. (- 1, s\<lparr>info := info s\<lparr>cache_error := - 1\<rparr>\<rparr>)) 65
     (sample_io\<lparr>info := sample_cache\<lparr>write_pos := 216\<rparr>\<rparr>)) 216 = 65"
proof
  let ?s = "sample_io\<lparr>info := sample_cache\<lparr>write_pos := 216\<rparr>\<rparr>"
  let ?bad = "\<lambda>(_ :: addr) (_ :: size_t) s. (- 1 :: int, (s :: unit io_state)\<lparr>info := info s\<lparr>cache_error := - 1\<rparr>\<rparr>)"
  have full: "io_ok ?s" "write_room ?s = 0" by (simp_all add: io_ok_def sample_cache_def Let_def write_room_def)
  have flushed: "io_ok (snd (sample_flush 0 0 ?s))" "write_buffer (info (snd (sample_flush 0 0 ?s))) \<noteq> 0"
    "0 < write_room (snd (sample_flush 0 0 ?s))" "written (snd (sample_flush 0 0 ?s)) = []"
    by (simp_all add: sample_flush_def io_ok_def sample_cache_def Let_def write_room_def written_def memcpy_from_def)
  from my_b_write_byte_overruns [where b_write = sample_flush and s = ?s and c = 65, OF full(1) flushed(1,2) refl refl] full(2) flushed(3,4)
  show "written (my_b_write_byte sample_flush 65 ?s) = [65]" by simp
  have failed: "io_ok (snd (?bad 0 0 ?s))" "write_buffer (info (snd (?bad 0 0 ?s))) \<noteq> 0" "write_room (snd (?bad 0 0 ?s)) = 0"
    "write_end (info (snd (?bad 0 0 ?s))) = 216"
    by (simp_all add: io_ok_def sample_cache_def Let_def write_room_def)
  from my_b_write_byte_overruns [where b_write = ?bad and s = ?s and c = 65, OF full(1) failed(1,2) refl refl] full(2) failed(3,4)
  show "memory (my_b_write_byte ?bad 65 ?s) 216 = 65" by simp
qed

end
