(* ===== verification/My_Sys.thy ===== *)
theory My_Sys
  imports Mysql_File
begin

text \<open>
  The macros and the inline function of \<^verbatim>\<open>my_sys.h\<close> on dynamic arrays and memory roots, with the structures of \<^verbatim>\<open>my_sys.h\<close> and
  \<^verbatim>\<open>my_alloc.h\<close> they work on.  A structure is a record, pointers are 32-bit addresses, \<^verbatim>\<open>uint\<close> is a 32-bit word whose product wraps
  around.  \<open>strdup_root\<close> and \<open>insert_dynamic\<close> are only declared in the header: they are arguments.

  The lemmas show that \<^verbatim>\<open>dynamic_array_ptr\<close> lays the elements out one behind the other without overlap, so that the buffer is a
  store of independent elements, and what the memory root macros leave behind.
\<close>

section \<open>Flags\<close>

text \<open>The bits of the flag arguments; the same bit means different things to different functions.\<close>

definition MY_FFNF :: uint32 where "MY_FFNF = 1"
definition MY_FAE :: uint32 where "MY_FAE = 8"
definition MY_WAIT_IF_FULL :: uint32 where "MY_WAIT_IF_FULL = 32"
definition MY_IGNORE_BADFD :: uint32 where "MY_IGNORE_BADFD = 32"
definition MY_SYNC_DIR :: uint32 where "MY_SYNC_DIR = 8192"
definition MY_UNUSED :: uint32 where "MY_UNUSED = 64"
definition MY_FULL_IO :: uint32 where "MY_FULL_IO = 512"
definition MY_DONT_CHECK_FILESIZE :: uint32 where "MY_DONT_CHECK_FILESIZE = 128"
definition MY_LINK_WARNING :: uint32 where "MY_LINK_WARNING = 32"
definition MY_COPYTIME :: uint32 where "MY_COPYTIME = 64"
definition MY_DELETE_OLD :: uint32 where "MY_DELETE_OLD = 256"
definition MY_RESOLVE_LINK :: uint32 where "MY_RESOLVE_LINK = 128"
definition MY_HOLD_ORIGINAL_MODES :: uint32 where "MY_HOLD_ORIGINAL_MODES = 128"
definition MY_REDEL_MAKE_BACKUP :: uint32 where "MY_REDEL_MAKE_BACKUP = 256"
definition MY_SEEK_NOT_DONE :: uint32 where "MY_SEEK_NOT_DONE = 32"
definition MY_DONT_WAIT :: uint32 where "MY_DONT_WAIT = 64"
definition MY_ZEROFILL :: uint32 where "MY_ZEROFILL = 32"
definition MY_ALLOW_ZERO_PTR :: uint32 where "MY_ALLOW_ZERO_PTR = 64"
definition MY_FREE_ON_ERROR :: uint32 where "MY_FREE_ON_ERROR = 128"
definition MY_HOLD_ON_ERROR :: uint32 where "MY_HOLD_ON_ERROR = 256"
definition MY_DONT_OVERWRITE_FILE :: uint32 where "MY_DONT_OVERWRITE_FILE = 1024"
definition MY_THREADSAFE :: uint32 where "MY_THREADSAFE = 2048"
definition MY_SYNC :: uint32 where "MY_SYNC = 4096"
definition MY_CHECK_ERROR :: uint32 where "MY_CHECK_ERROR = 1"
definition MY_GIVE_INFO :: uint32 where "MY_GIVE_INFO = 2"
definition MY_DONT_FREE_DBUG :: uint32 where "MY_DONT_FREE_DBUG = 4"
definition ME_HIGHBYTE :: nat where "ME_HIGHBYTE = 8"
definition ME_NOCUR :: uint32 where "ME_NOCUR = 1"
definition ME_OLDWIN :: uint32 where "ME_OLDWIN = 2"
definition ME_BELL :: uint32 where "ME_BELL = 4"
definition ME_HOLDTANG :: uint32 where "ME_HOLDTANG = 8"
definition ME_WAITTOT :: uint32 where "ME_WAITTOT = 16"
definition ME_WAITTANG :: uint32 where "ME_WAITTANG = 32"
definition ME_NOREFRESH :: uint32 where "ME_NOREFRESH = 64"
definition ME_NOINPUT :: uint32 where "ME_NOINPUT = 128"
definition ME_COLOUR1 :: uint32 where "ME_COLOUR1 = push_bit ME_HIGHBYTE 1"
definition ME_COLOUR2 :: uint32 where "ME_COLOUR2 = push_bit ME_HIGHBYTE 2"
definition ME_COLOUR3 :: uint32 where "ME_COLOUR3 = push_bit ME_HIGHBYTE 3"
definition ME_FATALERROR :: uint32 where "ME_FATALERROR = 1024"
definition MY_REPLACE_DIR :: uint32 where "MY_REPLACE_DIR = 1"
definition MY_REPLACE_EXT :: uint32 where "MY_REPLACE_EXT = 2"
definition MY_UNPACK_FILENAME :: uint32 where "MY_UNPACK_FILENAME = 4"
definition MY_PACK_FILENAME :: uint32 where "MY_PACK_FILENAME = 8"
definition MY_RESOLVE_SYMLINKS :: uint32 where "MY_RESOLVE_SYMLINKS = 16"
definition MY_RETURN_REAL_PATH :: uint32 where "MY_RETURN_REAL_PATH = 32"
definition MY_SAFE_PATH :: uint32 where "MY_SAFE_PATH = 64"
definition MY_RELATIVE_PATH :: uint32 where "MY_RELATIVE_PATH = 128"
definition MY_APPEND_EXT :: uint32 where "MY_APPEND_EXT = 256"
definition MY_SEEK_SET :: uint32 where "MY_SEEK_SET = 0"
definition MY_SEEK_CUR :: uint32 where "MY_SEEK_CUR = 1"
definition MY_SEEK_END :: uint32 where "MY_SEEK_END = 2"
definition MY_WAIT_FOR_USER_TO_FIX_PANIC :: uint32 where "MY_WAIT_FOR_USER_TO_FIX_PANIC = 60"
definition MY_WAIT_GIVE_USER_A_MESSAGE :: uint32 where "MY_WAIT_GIVE_USER_A_MESSAGE = 10"
definition MIN_COMPRESS_LENGTH :: uint32 where "MIN_COMPRESS_LENGTH = 50"
definition DFLT_INIT_HITS :: uint32 where "DFLT_INIT_HITS = 3"
definition MY_KEEP_PREALLOC :: uint32 where "MY_KEEP_PREALLOC = 1"
definition MY_MARK_BLOCKS_FREE :: uint32 where "MY_MARK_BLOCKS_FREE = 2"
definition MY_ERRNO_EDOM :: uint32 where "MY_ERRNO_EDOM = 33"
definition MY_ERRNO_ERANGE :: uint32 where "MY_ERRNO_ERANGE = 34"
definition GETDATE_DATE_TIME :: uint32 where "GETDATE_DATE_TIME = 1"
definition GETDATE_SHORT_DATE :: uint32 where "GETDATE_SHORT_DATE = 2"
definition GETDATE_HHMMSSTIME :: uint32 where "GETDATE_HHMMSSTIME = 4"
definition GETDATE_GMT :: uint32 where "GETDATE_GMT = 8"

text \<open>The flags every function knows, and the ones a comment gives to a function, in the order of the header: \<^verbatim>\<open>my_sync\<close>, \<^verbatim>\<open>my_create\<close>, \<^verbatim>\<open>my_read\<close>, \<^verbatim>\<open>my_write\<close>, \<^verbatim>\<open>init_io_cache\<close>, \<^verbatim>\<open>my_redel\<close>, \<^verbatim>\<open>my_create_with_symlink\<close>, \<^verbatim>\<open>my_realpath\<close>, \<^verbatim>\<open>my_copy\<close>, \<^verbatim>\<open>my_lock\<close>, \<^verbatim>\<open>my_malloc\<close>, \<^verbatim>\<open>my_realloc\<close>, \<^verbatim>\<open>my_seek\<close>.\<close>

definition general_flags :: "myf list" where
  "general_flags = [MY_FFNF, MY_FNABP, MY_NABP, MY_FAE, MY_WME]"

definition function_flags :: "myf list list" where
  "function_flags = [[MY_IGNORE_BADFD],
     [MY_SYNC_DIR],
     [MY_FULL_IO],
     [MY_WAIT_IF_FULL],
     [MY_DONT_CHECK_FILESIZE],
     [MY_LINK_WARNING, MY_COPYTIME, MY_REDEL_MAKE_BACKUP],
     [MY_DELETE_OLD, MY_SYNC_DIR],
     [MY_RESOLVE_LINK],
     [MY_HOLD_ORIGINAL_MODES, MY_DONT_OVERWRITE_FILE, MY_SYNC],
     [MY_SEEK_NOT_DONE, MY_DONT_WAIT],
     [MY_ZEROFILL],
     [MY_ALLOW_ZERO_PTR, MY_FREE_ON_ERROR, MY_HOLD_ON_ERROR],
     [MY_THREADSAFE]]"

lemmas my_flag_defs = MY_FFNF_def
  MY_FNABP_def
  MY_NABP_def
  MY_FAE_def
  MY_WME_def
  MY_ALLOW_ZERO_PTR_def
  MY_COPYTIME_def
  MY_DELETE_OLD_def
  MY_DONT_CHECK_FILESIZE_def
  MY_DONT_OVERWRITE_FILE_def
  MY_DONT_WAIT_def
  MY_FREE_ON_ERROR_def
  MY_FULL_IO_def
  MY_HOLD_ON_ERROR_def
  MY_HOLD_ORIGINAL_MODES_def
  MY_IGNORE_BADFD_def
  MY_LINK_WARNING_def
  MY_REDEL_MAKE_BACKUP_def
  MY_RESOLVE_LINK_def
  MY_SEEK_NOT_DONE_def
  MY_SYNC_def
  MY_SYNC_DIR_def
  MY_THREADSAFE_def
  MY_WAIT_IF_FULL_def
  MY_ZEROFILL_def

text \<open>No function has two meanings for a bit: its own flags and the general ones are different powers of two.\<close>

lemma flags_of_a_function_differ:
  "list_all (\<lambda>fs. distinct (general_flags @ fs) \<and> list_all (\<lambda>f. f \<in> set (map (\<lambda>k. push_bit k 1) [0..<14])) (general_flags @ fs)) function_flags"
  by (simp add: function_flags_def general_flags_def my_flag_defs upt_rec)

section \<open>Dynamic arrays\<close>

record DYNAMIC_ARRAY =
  da_buffer :: addr
  elements :: uint32
  max_element :: uint32
  alloc_increment :: uint32
  size_of_element :: uint32

definition dynamic_array_ptr :: "DYNAMIC_ARRAY \<Rightarrow> uint32 \<Rightarrow> addr" where
  "dynamic_array_ptr array array_index = da_buffer array + array_index * size_of_element array"

text \<open>\<^verbatim>\<open>dynamic_element\<close> casts the buffer to a pointer to \<open>type\<close>, whose size is \<open>type_size\<close>, and moves by whole objects.\<close>

definition dynamic_element :: "DYNAMIC_ARRAY \<Rightarrow> uint32 \<Rightarrow> size_t \<Rightarrow> addr" where
  "dynamic_element array array_index type_size = da_buffer array + array_index * type_size"

definition push_dynamic :: "(DYNAMIC_ARRAY \<Rightarrow> addr \<Rightarrow> 'w \<Rightarrow> 'r \<times> 'w) \<Rightarrow> DYNAMIC_ARRAY \<Rightarrow> addr \<Rightarrow> 'w \<Rightarrow> 'r \<times> 'w" where
  "push_dynamic insert_dynamic A B = insert_dynamic A B"

definition reset_dynamic :: "DYNAMIC_ARRAY \<Rightarrow> DYNAMIC_ARRAY" where
  "reset_dynamic array = array\<lparr>elements := 0\<rparr>"

definition sort_dynamic ::
  "(addr \<Rightarrow> uint32 \<Rightarrow> uint32 \<Rightarrow> 'c \<Rightarrow> 'w \<Rightarrow> 'w) \<Rightarrow> DYNAMIC_ARRAY \<Rightarrow> 'c \<Rightarrow> 'w \<Rightarrow> 'w" where
  "sort_dynamic my_qsort A cmp = my_qsort (da_buffer A) (elements A) (size_of_element A) cmp"

section \<open>Memory roots\<close>

record USED_MEM =
  um_next :: addr
  um_left :: uint32
  um_size :: uint32

record MEM_ROOT =
  root_free :: addr
  root_used :: addr
  root_pre_alloc :: addr
  min_malloc :: size_t
  block_size :: size_t
  block_num :: uint32
  first_block_usage :: uint32
  error_handler :: addr

definition alloc_root_inited :: "MEM_ROOT \<Rightarrow> bool" where
  "alloc_root_inited A \<longleftrightarrow> min_malloc A \<noteq> 0"

definition clear_alloc_root :: "MEM_ROOT \<Rightarrow> MEM_ROOT" where
  "clear_alloc_root A = A\<lparr>root_free := 0, root_used := 0, root_pre_alloc := 0, min_malloc := 0\<rparr>"

definition safe_strdup_root :: "(MEM_ROOT \<Rightarrow> addr \<Rightarrow> 'w \<Rightarrow> addr \<times> 'w) \<Rightarrow> MEM_ROOT \<Rightarrow> addr \<Rightarrow> 'w \<Rightarrow> addr \<times> 'w" where
  "safe_strdup_root strdup_root root str w = (if str \<noteq> 0 then strdup_root root str w else (0, w))"

section \<open>The blocks of a root\<close>

text \<open>The blocks reached from \<open>p\<close> over the \<^verbatim>\<open>next\<close> pointers, up to the null pointer, in a store of blocks.\<close>

inductive blocks :: "(addr \<Rightarrow> USED_MEM option) \<Rightarrow> addr \<Rightarrow> addr list \<Rightarrow> bool" for st where
  no_block: "blocks st 0 []"
| block: "p \<noteq> 0 \<Longrightarrow> st p = Some b \<Longrightarrow> blocks st (um_next b) ps \<Longrightarrow> blocks st p (p # ps)"

inductive_simps blocks_null [simp]: "blocks st 0 ps"
inductive_cases blocksE: "blocks st p ps"

lemma blocks_unique: "blocks st p ps \<Longrightarrow> blocks st p qs \<Longrightarrow> qs = ps"
proof (induction arbitrary: qs rule: blocks.induct)
  case no_block
  then show ?case by simp
next
  case (block p b ps)
  from block.prems block.hyps obtain qs' where "qs = p # qs'" "blocks st (um_next b) qs'"
    by (cases rule: blocks.cases) auto
  then show ?case using block.IH by simp
qed

definition root_blocks :: "(addr \<Rightarrow> USED_MEM option) \<Rightarrow> MEM_ROOT \<Rightarrow> addr list \<Rightarrow> addr list \<Rightarrow> bool" where
  "root_blocks st r fs us \<longleftrightarrow> blocks st (root_free r) fs \<and> blocks st (root_used r) us"

lemma clear_alloc_root_blocks:
  "root_blocks st (clear_alloc_root r) fs us \<longleftrightarrow> fs = [] \<and> us = []"
  "\<not> alloc_root_inited (clear_alloc_root r)"
  "clear_alloc_root (clear_alloc_root r) = clear_alloc_root r"
  by (simp_all add: root_blocks_def clear_alloc_root_def alloc_root_inited_def)

section \<open>Stores of elements\<close>

text \<open>
  What a client of an array relies on: in an object that is \<open>ok\<close>, an element that fits can be set in every slot, and then
  it is there while the other slots are as before.
\<close>

locale element_store =
  fixes ok :: "'a \<Rightarrow> bool" and slots :: "'a \<Rightarrow> nat" and fits :: "'a \<Rightarrow> 'e \<Rightarrow> bool"
    and get_slot :: "'a \<Rightarrow> 'm \<Rightarrow> nat \<Rightarrow> 'e" and set_slot :: "'a \<Rightarrow> nat \<Rightarrow> 'e \<Rightarrow> 'm \<Rightarrow> 'm"
  assumes get_set: "ok a \<Longrightarrow> i < slots a \<Longrightarrow> j < slots a \<Longrightarrow> fits a e \<Longrightarrow>
    get_slot a (set_slot a i e m) j = (if i = j then e else get_slot a m j)"
begin

lemma get_filled:
  assumes "ok a" "length es \<le> slots a" "j < slots a" "list_all (fits a) es"
  shows "get_slot a (fold (\<lambda>(i, e). set_slot a i e) (zip [0..<length es] es) m) j =
    (if j < length es then es ! j else get_slot a m j)"
  using assms
proof (induction es rule: rev_induct)
  case Nil
  then show ?case by simp
next
  case (snoc e es)
  have "zip [0..<length (es @ [e])] (es @ [e]) = zip [0..<length es] es @ [(length es, e)]" by simp
  then show ?case using snoc by (simp add: get_set nth_append)
qed

lemma set_commute:
  assumes "ok a" "i < slots a" "k < slots a" "j < slots a" "fits a e" "fits a f" "i \<noteq> k"
  shows "get_slot a (set_slot a i e (set_slot a k f m)) j = get_slot a (set_slot a k f (set_slot a i e m)) j"
  using assms by (simp add: get_set)

end

text \<open>The bytes of an element, and an array whose elements all lie in the address space.\<close>

definition get_element :: "DYNAMIC_ARRAY \<Rightarrow> mem \<Rightarrow> nat \<Rightarrow> uchar list" where
  "get_element a m i = memcpy_from m (dynamic_array_ptr a (of_nat i)) (unat (size_of_element a))"

definition set_element :: "DYNAMIC_ARRAY \<Rightarrow> nat \<Rightarrow> uchar list \<Rightarrow> mem \<Rightarrow> mem" where
  "set_element a i e m = memcpy_to m (dynamic_array_ptr a (of_nat i)) e"

definition array_ok :: "DYNAMIC_ARRAY \<Rightarrow> bool" where
  "array_ok a \<longleftrightarrow> unat (max_element a) * unat (size_of_element a) < 2 ^ 32"

definition is_element :: "DYNAMIC_ARRAY \<Rightarrow> uchar list \<Rightarrow> bool" where
  "is_element a e \<longleftrightarrow> length e = unat (size_of_element a)"

lemma element_offset:
  assumes "array_ok a" "i < unat (max_element a)"
  shows "dynamic_array_ptr a (of_nat i) = da_buffer a + of_nat (i * unat (size_of_element a))"
    and "i * unat (size_of_element a) + unat (size_of_element a) \<le> unat (max_element a) * unat (size_of_element a)"
proof -
  show "dynamic_array_ptr a (of_nat i) = da_buffer a + of_nat (i * unat (size_of_element a))"
    by (simp add: dynamic_array_ptr_def)
  have "Suc i * unat (size_of_element a) \<le> unat (max_element a) * unat (size_of_element a)"
    using assms(2) by (intro mult_le_mono1) simp
  then show "i * unat (size_of_element a) + unat (size_of_element a) \<le> unat (max_element a) * unat (size_of_element a)"
    by (simp add: ac_simps)
qed

text \<open>Byte \<open>k\<close> of element \<open>j\<close> is not in element \<open>i\<close>.\<close>

lemma element_not_in_range:
  assumes "array_ok a" "i < unat (max_element a)" "j < unat (max_element a)" "i \<noteq> j" "k < unat (size_of_element a)"
  shows "\<not> in_range (dynamic_array_ptr a (of_nat i)) (unat (size_of_element a)) (dynamic_array_ptr a (of_nat j) + of_nat k)"
proof -
  let ?z = "unat (size_of_element a)"
  have lim: "i * ?z + ?z < 2 ^ 32" "j * ?z + ?z < 2 ^ 32"
    using element_offset(2) [OF assms(1,2)] element_offset(2) [OF assms(1,3)] assms(1) by (auto simp: array_ok_def)
  have eq: "dynamic_array_ptr a (of_nat j) + of_nat k - dynamic_array_ptr a (of_nat i) = of_nat (j * ?z + k) - of_nat (i * ?z)"
    by (simp add: element_offset(1) [OF assms(1,2)] element_offset(1) [OF assms(1,3)])
  have u: "unat (of_nat (j * ?z + k) :: addr) = j * ?z + k" "unat (of_nat (i * ?z) :: addr) = i * ?z"
    using lim assms(5) by (subst unat_of_nat, simp)+
  show ?thesis
  proof (cases "i < j")
    case True
    then have "Suc i * ?z \<le> j * ?z" by (intro mult_le_mono1) simp
    then have "i * ?z + ?z \<le> j * ?z + k" by simp
    then show ?thesis unfolding in_range_def eq unat_sub_if_size u by simp
  next
    case False
    with assms(4) have "Suc j * ?z \<le> i * ?z" by (intro mult_le_mono1) simp
    then have "j * ?z + k < i * ?z" using assms(5) by simp
    then show ?thesis
      unfolding in_range_def eq unat_sub_if_size u using lim(1) by (simp add: word_size)
  qed
qed

lemma get_set_element:
  assumes "array_ok a" "i < unat (max_element a)" "j < unat (max_element a)" "is_element a e"
  shows "get_element a (set_element a i e m) j = (if i = j then e else get_element a m j)"
proof (cases "i = j")
  case True
  have "unat (size_of_element a) < 2 ^ 32" by (rule order_less_le_trans [OF unsigned_less]) simp
  then have "length e < 2 ^ 32" using assms(4) by (simp add: is_element_def)
  then show ?thesis
    using True assms(4) memcpy_roundtrip [of e m "dynamic_array_ptr a (of_nat j)"]
    by (simp add: get_element_def set_element_def is_element_def)
next
  case False
  then show ?thesis
    using assms(4) element_not_in_range [OF assms(1-3) False]
    by (simp add: get_element_def set_element_def is_element_def memcpy_from_def memcpy_to_other)
qed

interpretation da: element_store array_ok "\<lambda>a. unat (max_element a)" is_element get_element set_element
  by unfold_locales (rule get_set_element)

section \<open>Properties\<close>

definition sample_array :: DYNAMIC_ARRAY where
  "sample_array = \<lparr>da_buffer = 0xFFFFFFF8, elements = 0, max_element = 4, alloc_increment = 4, size_of_element = 3\<rparr>"

text \<open>C26: a dynamic array is an array: while its bytes fit the address space, storing elements one after the other at the
  addresses \<^verbatim>\<open>dynamic_array_ptr\<close> gives and reading slot \<open>j\<close> back returns the \<open>j\<close>-th of them, and what the slot held before when fewer were
  stored; every byte of every slot lies inside of the buffer; and for a type of the size of the elements \<^verbatim>\<open>dynamic_element\<close>
  is the same address.\<close>
theorem dynamic_array_is_array:
  assumes "array_ok a" "length es \<le> unat (max_element a)" "list_all (is_element a) es" "j < unat (max_element a)"
  shows "get_element a (fold (\<lambda>(i, e). set_element a i e) (zip [0..<length es] es) m) j =
      (if j < length es then es ! j else get_element a m j) \<and>
    list_all (\<lambda>k. in_range (da_buffer a) (unat (max_element a) * unat (size_of_element a)) (dynamic_array_ptr a (of_nat j) + of_nat k))
      [0..<unat (size_of_element a)] \<and>
    dynamic_element a (of_nat j) (size_of_element a) = dynamic_array_ptr a (of_nat j)"
proof -
  have "in_range (da_buffer a) (unat (max_element a) * unat (size_of_element a)) (dynamic_array_ptr a (of_nat j) + of_nat k)"
    if "k < unat (size_of_element a)" for k
  proof -
    have eq: "dynamic_array_ptr a (of_nat j) + of_nat k = da_buffer a + of_nat (j * unat (size_of_element a) + k)"
      by (simp add: element_offset(1) [OF assms(1,4)])
    have "j * unat (size_of_element a) + k < unat (max_element a) * unat (size_of_element a)"
      using element_offset(2) [OF assms(1,4)] that by simp
    then show ?thesis using assms(1) unfolding eq in_range_add array_ok_def by simp
  qed
  then show ?thesis
    using da.get_filled [OF assms(1,2,4,3)] by (simp add: list_all_iff dynamic_element_def dynamic_array_ptr_def)
qed

theorem dynamic_array_is_array_witness:
  "get_element sample_array (fold (\<lambda>(i, e). set_element sample_array i e) (zip [0..<2] [[1, 2, 3], [4, 5, 6]]) (\<lambda>_. 0)) 1 = [4, 5, 6]"
  using dynamic_array_is_array [of sample_array "[[1, 2, 3], [4, 5, 6]]" 1 "\<lambda>_. 0"]
  by (simp add: sample_array_def array_ok_def is_element_def upt_rec)

end
