(* ===== verification/My_List.thy ===== *)
theory My_List
  imports Mysql_Prelude
begin

text \<open>
  Doubly linked lists (\<^verbatim>\<open>my_list.h\<close>): the node and the macros \<^verbatim>\<open>list_rest\<close>, \<^verbatim>\<open>list_push\<close> and
  \<^verbatim>\<open>list_pop\<close>.  The functions \<^verbatim>\<open>list_cons\<close>, \<^verbatim>\<open>list_delete\<close> and \<^verbatim>\<open>my_free\<close> they call are
  only declared, and are arguments here, with \<open>list_contract\<close> for what the macros rely on.  Memory is a map from addresses to nodes in which a
  freed or never allocated address has none, so that a use of a freed node is visible.  The theorem is that a variable used by these macros only is a stack,
  without leaks.
\<close>

section \<open>Nodes and macros\<close>

record LIST =
  prev :: addr
  "next" :: addr
  data :: addr

record 'w lheap =
  cells :: "addr \<Rightarrow> LIST option"
  lworld :: 'w

definition list_rest :: "'w lheap \<Rightarrow> addr \<Rightarrow> addr option" where
  "list_rest s a = map_option next (cells s a)"

text \<open>The value of a macro that assigns to its argument is the new value of that variable.\<close>

definition list_push :: "(addr \<Rightarrow> addr \<Rightarrow> 'w lheap \<Rightarrow> addr \<times> 'w lheap) \<Rightarrow> addr \<Rightarrow> addr \<Rightarrow> 'w lheap \<Rightarrow> addr \<times> 'w lheap" where
  "list_push list_cons a b s = list_cons b a s"

definition list_pop :: "(addr \<Rightarrow> addr \<Rightarrow> 'w lheap \<Rightarrow> addr \<times> 'w lheap) \<Rightarrow> (addr \<Rightarrow> 'w lheap \<Rightarrow> 'w lheap) \<Rightarrow> addr \<Rightarrow> 'w lheap \<Rightarrow>
    addr \<times> 'w lheap" where
  "list_pop list_delete my_free A s =
     (let old = A; (A', s1) = list_delete old old s; s2 = my_free old s1 in (A', s2))"

section \<open>Lists in memory\<close>

text \<open>\<open>linked h q p xs\<close>: from \<open>p\<close>, with \<open>q\<close> before it, the nodes and the data are \<open>xs\<close>.\<close>

fun linked :: "(addr \<Rightarrow> LIST option) \<Rightarrow> addr \<Rightarrow> addr \<Rightarrow> (addr \<times> addr) list \<Rightarrow> bool" where
  "linked h q p [] = (p = 0)"
| "linked h q p ((a, d) # xs) = (p = a \<and> a \<noteq> 0 \<and>
     (case h a of None \<Rightarrow> False | Some n \<Rightarrow> prev n = q \<and> data n = d \<and> linked h a (next n) xs))"

definition is_list :: "'w lheap \<Rightarrow> addr \<Rightarrow> (addr \<times> addr) list \<Rightarrow> bool" where
  "is_list s p xs \<longleftrightarrow> linked (cells s) 0 p xs \<and> distinct (map fst xs)"

definition nodes :: "(addr \<times> addr) list \<Rightarrow> addr set" where
  "nodes xs = fst ` set xs"

lemma nodes_simps [simp]: "nodes [] = {}" "nodes ((a, d) # xs) = insert a (nodes xs)"
  by (simp_all add: nodes_def)

lemma nodes_map: "set (map fst xs) = nodes xs"
  by (simp add: nodes_def)

lemma linked_cong: "(\<And>a. a \<in> nodes xs \<Longrightarrow> h a = h' a) \<Longrightarrow> linked h q p xs = linked h' q p xs"
proof (induction xs arbitrary: q p)
  case (Cons x xs)
  obtain a d where x: "x = (a, d)" by fastforce
  have "linked h q' p' xs = linked h' q' p' xs" for q' p' using Cons.IH Cons.prems by (simp add: x)
  with Cons.prems show ?case by (simp add: x split: option.split)
qed simp

lemma linked_allocated: "linked h q p xs \<Longrightarrow> nodes xs \<subseteq> dom h"
  by (induction h q p xs rule: linked.induct) (auto split: option.splits)

lemma is_list_free: "is_list s p xs \<Longrightarrow> a \<notin> nodes xs \<Longrightarrow> cells s' = (cells s)(a := None) \<Longrightarrow> is_list s' p xs"
proof -
  assume l: "is_list s p xs" and a: "a \<notin> nodes xs" and c: "cells s' = (cells s)(a := None)"
  have "linked (cells s) 0 p xs = linked (cells s') 0 p xs" using a by (intro linked_cong) (auto simp: c)
  with l show ?thesis by (simp add: is_list_def)
qed

lemma is_list_rest: "is_list s p ((a, d) # xs) \<Longrightarrow> list_rest s p = Some (case xs of [] \<Rightarrow> 0 | (b, _) # _ \<Rightarrow> b)"
  by (cases xs) (auto simp: is_list_def list_rest_def split: option.splits)

section \<open>What the macros rely on\<close>

text \<open>
  \<^verbatim>\<open>list_cons\<close> puts a new node in front, or returns null when there is no memory; \<^verbatim>\<open>list_delete\<close> unlinks the first node and leaves it allocated;
  \<^verbatim>\<open>my_free\<close> frees an allocated node.  Each leaves memory outside of the list alone.
\<close>

definition list_contract :: "(addr \<Rightarrow> addr \<Rightarrow> 'w lheap \<Rightarrow> addr \<times> 'w lheap) \<Rightarrow> (addr \<Rightarrow> addr \<Rightarrow> 'w lheap \<Rightarrow> addr \<times> 'w lheap) \<Rightarrow>
    (addr \<Rightarrow> 'w lheap \<Rightarrow> 'w lheap) \<Rightarrow> bool" where
  "list_contract list_cons list_delete my_free \<longleftrightarrow>
     (\<forall>s d p xs r s'. is_list s p xs \<and> list_cons d p s = (r, s') \<and> r \<noteq> 0 \<longrightarrow>
        cells s r = None \<and> is_list s' r ((r, d) # xs) \<and> (\<forall>a. a \<notin> insert r (nodes xs) \<longrightarrow> cells s' a = cells s a)) \<and>
     (\<forall>s p d xs r s'. is_list s p ((p, d) # xs) \<and> list_delete p p s = (r, s') \<longrightarrow>
        is_list s' r xs \<and> cells s' p \<noteq> None \<and> (\<forall>a. a \<notin> insert p (nodes xs) \<longrightarrow> cells s' a = cells s a)) \<and>
     (\<forall>s a. cells s a \<noteq> None \<longrightarrow> cells (my_free a s) = (cells s)(a := None))"

lemma list_contractD:
  assumes "list_contract list_cons list_delete my_free"
  shows "is_list s p xs \<Longrightarrow> list_cons d p s = (r, s') \<Longrightarrow> r \<noteq> 0 \<Longrightarrow>
      cells s r = None \<and> is_list s' r ((r, d) # xs) \<and> (\<forall>a. a \<notin> insert r (nodes xs) \<longrightarrow> cells s' a = cells s a)"
    and "is_list s p ((p, d) # xs) \<Longrightarrow> list_delete p p s = (r, s') \<Longrightarrow>
      is_list s' r xs \<and> cells s' p \<noteq> None \<and> (\<forall>a. a \<notin> insert p (nodes xs) \<longrightarrow> cells s' a = cells s a)"
    and "cells s a \<noteq> None \<Longrightarrow> cells (my_free a s) = (cells s)(a := None)"
  using assms unfolding list_contract_def by blast+

lemma is_list_nodes: "is_list s p xs \<Longrightarrow> nodes xs \<subseteq> dom (cells s)"
  unfolding is_list_def by (blast dest: linked_allocated)

lemma list_push_spec:
  assumes "list_contract list_cons list_delete my_free" "is_list s p xs" "list_push list_cons p d s = (r, s')" "r \<noteq> 0"
  shows "is_list s' r ((r, d) # xs) \<and> r \<notin> nodes xs \<and> (\<forall>a. a \<notin> insert r (nodes xs) \<longrightarrow> cells s' a = cells s a) \<and>
    dom (cells s') = insert r (dom (cells s)) \<and> r \<notin> dom (cells s)"
proof -
  from list_contractD(1) [OF assms(1,2) _ assms(4)] assms(3)
  have new: "cells s r = None" "is_list s' r ((r, d) # xs)" and frame: "\<And>a. a \<notin> insert r (nodes xs) \<Longrightarrow> cells s' a = cells s a"
    by (auto simp: list_push_def)
  have in': "insert r (nodes xs) \<subseteq> dom (cells s')" using is_list_nodes [OF new(2)] by simp
  have "dom (cells s') = insert r (dom (cells s))"
  proof (rule set_eqI)
    fix a
    show "a \<in> dom (cells s') \<longleftrightarrow> a \<in> insert r (dom (cells s))"
      using in' is_list_nodes [OF assms(2)] frame [of a] by (cases "a \<in> insert r (nodes xs)") (auto simp: domIff)
  qed
  with new frame show ?thesis by (auto simp: is_list_def nodes_map [symmetric])
qed

lemma list_pop_spec:
  assumes "list_contract list_cons list_delete my_free" "is_list s p ((p, d) # xs)" "list_pop list_delete my_free p s = (r, s')"
  shows "is_list s' r xs \<and> cells s' p = None \<and> (\<forall>a. a \<notin> insert p (nodes xs) \<longrightarrow> cells s' a = cells s a) \<and>
    dom (cells s') = dom (cells s) - {p}"
proof -
  obtain r1 s1 where del: "list_delete p p s = (r1, s1)" by fastforce
  with assms(3) have r: "r = r1" "s' = my_free p s1" by (simp_all add: list_pop_def)
  from list_contractD(2) [OF assms(1,2) del]
  have s1: "is_list s1 r xs" "cells s1 p \<noteq> None" and frame: "\<And>a. a \<notin> insert p (nodes xs) \<Longrightarrow> cells s1 a = cells s a"
    by (auto simp: r)
  have freed: "cells s' = (cells s1)(p := None)" using list_contractD(3) [OF assms(1) s1(2)] by (simp add: r)
  have p: "p \<notin> nodes xs" using assms(2) by (simp add: is_list_def nodes_map [symmetric])
  have "is_list s' r xs" by (rule is_list_free [OF s1(1) p freed])
  moreover have "dom (cells s') = dom (cells s) - {p}"
  proof (rule set_eqI)
    fix a
    show "a \<in> dom (cells s') \<longleftrightarrow> a \<in> dom (cells s) - {p}"
      using is_list_nodes [OF s1(1)] is_list_nodes [OF assms(2)] frame [of a]
      by (cases "a \<in> insert p (nodes xs)") (auto simp: freed domIff)
  qed
  ultimately show ?thesis using frame by (simp add: freed)
qed

section \<open>Stacks\<close>

datatype stack_op = Push addr | Pop

text \<open>A sequence of pushes and pops on one variable.  A push that gets no memory ends the process: \<open>None\<close>.\<close>

fun run_stack :: "(addr \<Rightarrow> addr \<Rightarrow> 'w lheap \<Rightarrow> addr \<times> 'w lheap) \<Rightarrow> (addr \<Rightarrow> addr \<Rightarrow> 'w lheap \<Rightarrow> addr \<times> 'w lheap) \<Rightarrow>
    (addr \<Rightarrow> 'w lheap \<Rightarrow> 'w lheap) \<Rightarrow> stack_op list \<Rightarrow> addr \<times> 'w lheap \<Rightarrow> (addr \<times> 'w lheap) option" where
  "run_stack list_cons list_delete my_free [] v = Some v"
| "run_stack list_cons list_delete my_free (Push d # ops) (p, s) =
     (let (r, s') = list_push list_cons p d s in if r = 0 then None else run_stack list_cons list_delete my_free ops (r, s'))"
| "run_stack list_cons list_delete my_free (Pop # ops) (p, s) = run_stack list_cons list_delete my_free ops (list_pop list_delete my_free p s)"

text \<open>The stack the sequence stands for; popping an empty one is not defined.\<close>

fun stack :: "stack_op list \<Rightarrow> addr list \<Rightarrow> addr list option" where
  "stack [] ds = Some ds"
| "stack (Push d # ops) ds = stack ops (d # ds)"
| "stack (Pop # ops) (d # ds) = stack ops ds"
| "stack (Pop # ops) [] = None"

lemma is_list_head: "is_list s p ((a, d) # xs) \<Longrightarrow> a = p"
  by (simp add: is_list_def)

text \<open>C27: a variable that is used with the list macros only is a stack.  From any list and for any sequence of pushes and pops that never pops an empty list, the variable
  points to a well formed list, linked in both directions, whose data are those of the stack, unless memory runs out; the cells outside of the two lists
  are as they were, and what is allocated beyond the nodes of the list is what was allocated before: nothing leaks and nothing else is freed.\<close>
theorem list_macros_are_a_stack:
  assumes "list_contract list_cons list_delete my_free" "is_list s p xs" "stack ops (map snd xs) = Some ds"
    and "run_stack list_cons list_delete my_free ops (p, s) = Some (r, s')"
  shows "\<exists>xs'. is_list s' r xs' \<and> map snd xs' = ds \<and> dom (cells s') - nodes xs' = dom (cells s) - nodes xs \<and>
    (\<forall>a. a \<in> dom (cells s) - nodes xs \<longrightarrow> cells s' a = cells s a)"
  using assms(2-4)
proof (induction ops arbitrary: p s xs)
  case Nil
  then show ?case by auto
next
  case (Cons oper ops)
  show ?case
  proof (cases oper)
    case (Push d)
    obtain q t where push: "list_push list_cons p d s = (q, t)" by fastforce
    with Cons.prems(3) Push have q: "q \<noteq> 0" and run: "run_stack list_cons list_delete my_free ops (q, t) = Some (r, s')"
      by (auto split: if_splits)
    have "stack ops (map snd ((q, d) # xs)) = Some ds" using Cons.prems(2) Push by simp
    note ih = Cons.IH [OF list_push_spec [OF assms(1) Cons.prems(1) push q, THEN conjunct1] this run]
    have "dom (cells t) - nodes ((q, d) # xs) = dom (cells s) - nodes xs"
      "\<forall>a. a \<in> dom (cells s) - nodes xs \<longrightarrow> cells t a = cells s a"
      using list_push_spec [OF assms(1) Cons.prems(1) push q] by auto
    with ih show ?thesis by metis
  next
    case Pop
    then obtain d ds' where ds: "map snd xs = d # ds'" "stack ops ds' = Some ds"
      using Cons.prems(2) by (cases "map snd xs") auto
    then obtain a ys where xs: "xs = (a, d) # ys" "map snd ys = ds'" by (cases xs) auto
    with Cons.prems(1) have list: "is_list s p ((p, d) # ys)" and ap: "a = p" using is_list_head by metis+
    obtain q t where pop: "list_pop list_delete my_free p s = (q, t)" by fastforce
    note spec = list_pop_spec [OF assms(1) list pop]
    have "stack ops (map snd ys) = Some ds" using ds xs by simp
    moreover have "run_stack list_cons list_delete my_free ops (q, t) = Some (r, s')" using Cons.prems(3) Pop pop by simp
    ultimately have ih: "\<exists>xs'. is_list s' r xs' \<and> map snd xs' = ds \<and> dom (cells s') - nodes xs' = dom (cells t) - nodes ys \<and>
        (\<forall>a. a \<in> dom (cells t) - nodes ys \<longrightarrow> cells s' a = cells t a)"
      by (rule Cons.IH [OF spec [THEN conjunct1]])
    have "dom (cells t) - nodes ys = dom (cells s) - nodes xs" "\<forall>a. a \<in> dom (cells s) - nodes xs \<longrightarrow> cells t a = cells s a"
      using spec by (auto simp: xs(1) ap)
    with ih show ?thesis by metis
  qed
qed

section \<open>A sample implementation\<close>

text \<open>The world is the next address to try.\<close>

definition sample_cons :: "addr \<Rightarrow> addr \<Rightarrow> addr lheap \<Rightarrow> addr \<times> addr lheap" where
  "sample_cons d p s = (let k = lworld s in
     if k = 0 \<or> cells s k \<noteq> None then (0, s)
     else (k, s\<lparr>cells := (\<lambda>a. if a = k then Some \<lparr>prev = 0, next = p, data = d\<rparr>
       else if a = p \<and> p \<noteq> 0 then map_option (\<lambda>n. n\<lparr>prev := k\<rparr>) (cells s a) else cells s a), lworld := k + 1\<rparr>))"

definition sample_delete :: "addr \<Rightarrow> addr \<Rightarrow> addr lheap \<Rightarrow> addr \<times> addr lheap" where
  "sample_delete root p s = (case cells s p of None \<Rightarrow> (0, s)
     | Some n \<Rightarrow> (next n, s\<lparr>cells := (\<lambda>a. if a = next n \<and> a \<noteq> 0 then map_option (\<lambda>m. m\<lparr>prev := 0\<rparr>) (cells s a) else cells s a)\<rparr>))"

definition sample_free :: "addr \<Rightarrow> addr lheap \<Rightarrow> addr lheap" where
  "sample_free p s = s\<lparr>cells := (cells s)(p := None)\<rparr>"

lemma linked_relink:
  assumes "linked h q p xs" "distinct (map fst xs)" "\<And>a. a \<in> nodes xs \<Longrightarrow> h' a = (if a = p then map_option (\<lambda>n. n\<lparr>prev := q'\<rparr>) (h a) else h a)"
  shows "linked h' q' p xs"
proof (cases xs)
  case Nil
  with assms(1) show ?thesis by simp
next
  case (Cons x ys)
  obtain a d where x: "x = (a, d)" by fastforce
  from assms(1) Cons x obtain n where n: "h a = Some n" "p = a" "a \<noteq> 0" "data n = d" "linked h a (next n) ys"
    by (auto split: option.splits)
  have "a \<notin> nodes ys" using assms(2) Cons x by (simp add: nodes_map [symmetric])
  then have "h' b = h b" if "b \<in> nodes ys" for b using assms(3) [of b] that Cons x n(2) by auto
  then have "linked h' a (next n) ys" using n(5) linked_cong [of ys h h' a "next n"] by simp
  moreover have "h' a = Some (n\<lparr>prev := q'\<rparr>)" using assms(3) [of a] n Cons x by simp
  ultimately show ?thesis using n Cons x by simp
qed

lemma linked_head: "linked h q p xs \<Longrightarrow> p \<noteq> 0 \<Longrightarrow> p \<in> nodes xs" "linked h q 0 xs \<Longrightarrow> xs = []"
  by (cases xs; auto)+

lemma sample_cons_spec:
  assumes l: "is_list s p xs" and c: "sample_cons d p s = (r, s')" and r: "r \<noteq> 0"
  shows "cells s r = None \<and> is_list s' r ((r, d) # xs) \<and> (\<forall>a. a \<notin> insert r (nodes xs) \<longrightarrow> cells s' a = cells s a)"
proof -
  have new: "cells s r = None"
    and s': "cells s' = (\<lambda>a. if a = r then Some \<lparr>prev = 0, next = p, data = d\<rparr>
      else if a = p \<and> p \<noteq> 0 then map_option (\<lambda>n. n\<lparr>prev := r\<rparr>) (cells s a) else cells s a)"
    using c r by (auto simp: sample_cons_def Let_def split: if_splits)
  have link: "linked (cells s) 0 p xs" "distinct (map fst xs)" using l by (simp_all add: is_list_def)
  have notin: "r \<notin> nodes xs" using is_list_nodes [OF l] new by (auto simp: domIff)
  have p0: "p \<noteq> 0" if "a \<in> nodes xs" for a using linked_head(2) [of "cells s" 0 xs] link(1) that by auto
  have "linked (cells s') r p xs"
    using notin p0 by (intro linked_relink [OF link]) (auto simp: s')
  then have "is_list s' r ((r, d) # xs)" using r notin link(2) by (simp add: is_list_def s' nodes_def)
  moreover have "cells s' a = cells s a" if "a \<notin> insert r (nodes xs)" for a
    using that linked_head(1) [OF link(1)] by (auto simp: s')
  ultimately show ?thesis using new by blast
qed

lemma sample_delete_spec:
  assumes l: "is_list s p ((p, d) # xs)" and c: "sample_delete p p s = (r, s')"
  shows "is_list s' r xs \<and> cells s' p \<noteq> None \<and> (\<forall>a. a \<notin> insert p (nodes xs) \<longrightarrow> cells s' a = cells s a)"
proof -
  obtain n where n: "cells s p = Some n" "linked (cells s) p (next n) xs" "p \<notin> nodes xs" "distinct (map fst xs)"
    using l by (auto simp: is_list_def nodes_def split: option.splits)
  have r: "r = next n" and s': "cells s' = (\<lambda>a. if a = r \<and> a \<noteq> 0 then map_option (\<lambda>m. m\<lparr>prev := 0\<rparr>) (cells s a) else cells s a)"
    using c n(1) by (auto simp: sample_delete_def)
  have r0: "r \<noteq> 0" if "a \<in> nodes xs" for a using linked_head(2) [of "cells s" p xs] n(2) that by (auto simp: r)
  have "linked (cells s') 0 r xs"
    unfolding r using r0 by (intro linked_relink [OF n(2,4)]) (auto simp: s' r)
  moreover have "cells s' p \<noteq> None" using n(1) by (auto simp: s')
  moreover have "cells s' a = cells s a" if "a \<notin> insert p (nodes xs)" for a
    using that linked_head(1) [OF n(2)] by (auto simp: s' r)
  ultimately show ?thesis using n(4) by (simp add: is_list_def)
qed

lemma sample_list_contract: "list_contract sample_cons sample_delete sample_free"
  unfolding list_contract_def
proof (intro conjI)
  show "\<forall>s a. cells s a \<noteq> None \<longrightarrow> cells (sample_free a s) = (cells s)(a := None)"
    by (simp add: sample_free_def)
qed (use sample_cons_spec in blast, use sample_delete_spec in blast)

definition empty_lheap :: "addr lheap" where
  "empty_lheap = \<lparr>cells = (\<lambda>_. None), lworld = 16\<rparr>"

text \<open>Two pushes and a pop from an empty list.\<close>
theorem list_macros_are_a_stack_witness:
  "\<exists>r s' xs'. run_stack sample_cons sample_delete sample_free [Push 5, Push 6, Pop] (0, empty_lheap) = Some (r, s') \<and>
     is_list s' r xs' \<and> map snd xs' = [5] \<and> dom (cells s') = nodes xs'"
proof -
  have start: "is_list empty_lheap 0 []" by (simp add: is_list_def)
  have "\<exists>v. run_stack sample_cons sample_delete sample_free [Push 5, Push 6, Pop] (0, empty_lheap) = Some v"
    by (simp add: list_push_def list_pop_def sample_cons_def sample_delete_def sample_free_def empty_lheap_def Let_def)
  then obtain r s' where run: "run_stack sample_cons sample_delete sample_free [Push 5, Push 6, Pop] (0, empty_lheap) = Some (r, s')"
    by auto
  have ops: "stack [Push 5, Push 6, Pop] (map snd []) = Some [5]" by simp
  obtain xs' where xs': "is_list s' r xs'" "map snd xs' = [5]" "dom (cells s') - nodes xs' = dom (cells empty_lheap) - nodes []"
    using list_macros_are_a_stack [OF sample_list_contract start ops run] by metis
  have "nodes xs' \<subseteq> dom (cells s')" by (rule is_list_nodes [OF xs'(1)])
  with xs'(3) have "dom (cells s') = nodes xs'" by (auto simp: empty_lheap_def)
  with run xs' show ?thesis by metis
qed

end
