(* ===== verification/Decimal.thy ===== *)
theory Decimal
  imports Mysql_Prelude
begin

text \<open>
  The structure and the macros of \<^verbatim>\<open>decimal.h\<close>: making a decimal zero, negating it, the size of its text, and the error codes.
  The arithmetic and the conversions are only declared in the header and are not modelled; where a claim needs the text of a decimal, it is the one the
  comment of \<^verbatim>\<open>decimal_string_size\<close> describes, over the digits before and behind the point.

  The lemmas show that the size is the length of the longest text with that many digits, that negating twice is
  nothing, and that the error codes follow the stated conventions.
\<close>

section \<open>Decimals\<close>

datatype decimal_round_mode = TRUNCATE | HALF_EVEN | HALF_UP | CEILING | FLOOR

record decimal_t =
  intg :: int
  frac :: int
  dec_len :: int
  dec_sign :: bool
  dec_buf :: "int list"

text \<open>\<open>dec_buf\<close> is the array behind the pointer \<^verbatim>\<open>buf\<close>, of \<open>dec_len\<close> elements: writing element 0 of an array without elements is an error.\<close>

definition decimal_make_zero :: "decimal_t \<Rightarrow> decimal_t option" where
  "decimal_make_zero dec = (if dec_buf dec = [] then None
     else Some (dec\<lparr>dec_buf := (dec_buf dec)[0 := 0], intg := 1, frac := 0, dec_sign := False\<rparr>))"

definition decimal_string_size :: "decimal_t \<Rightarrow> int" where
  "decimal_string_size dec = (if intg dec \<noteq> 0 then intg dec else 1) + frac dec + (if frac dec > 0 then 1 else 0) + 2"

definition decimal_neg :: "decimal_t \<Rightarrow> decimal_t" where
  "decimal_neg dec = dec\<lparr>dec_sign := \<not> dec_sign dec\<rparr>"

definition string2decimal :: "('a \<Rightarrow> 'b \<Rightarrow> 'c \<Rightarrow> bool \<Rightarrow> 'r) \<Rightarrow> 'a \<Rightarrow> 'b \<Rightarrow> 'c \<Rightarrow> 'r" where
  "string2decimal internal_str2dec A B C = internal_str2dec A B C False"

definition string2decimal_fixed :: "('a \<Rightarrow> 'b \<Rightarrow> 'c \<Rightarrow> bool \<Rightarrow> 'r) \<Rightarrow> 'a \<Rightarrow> 'b \<Rightarrow> 'c \<Rightarrow> 'r" where
  "string2decimal_fixed internal_str2dec A B C = internal_str2dec A B C True"

section \<open>Error codes\<close>

definition E_DEC_OK :: uint32 where "E_DEC_OK = 0"
definition E_DEC_TRUNCATED :: uint32 where "E_DEC_TRUNCATED = 1"
definition E_DEC_OVERFLOW :: uint32 where "E_DEC_OVERFLOW = 2"
definition E_DEC_DIV_ZERO :: uint32 where "E_DEC_DIV_ZERO = 4"
definition E_DEC_BAD_NUM :: uint32 where "E_DEC_BAD_NUM = 8"
definition E_DEC_OOM :: uint32 where "E_DEC_OOM = 16"
definition E_DEC_ERROR :: uint32 where "E_DEC_ERROR = 31"
definition E_DEC_FATAL_ERROR :: uint32 where "E_DEC_FATAL_ERROR = 30"

lemmas e_dec_defs = E_DEC_OK_def E_DEC_TRUNCATED_def E_DEC_OVERFLOW_def E_DEC_DIV_ZERO_def E_DEC_BAD_NUM_def
  E_DEC_OOM_def E_DEC_ERROR_def E_DEC_FATAL_ERROR_def

section \<open>The text of a decimal\<close>

text \<open>Sign, digits before the point and at least one, the point and the digits behind it if there are any, and the final null.\<close>

definition decimal_text :: "bool \<Rightarrow> string \<Rightarrow> string \<Rightarrow> string" where
  "decimal_text neg ds fs = (if neg then ''-'' else []) @ (if ds = [] then ''0'' else ds) @
     (if fs = [] then [] else CHR ''.'' # fs) @ [CHR 0x00]"

definition has_digits :: "decimal_t \<Rightarrow> string \<Rightarrow> string \<Rightarrow> bool" where
  "has_digits dec ds fs \<longleftrightarrow> intg dec = int (length ds) \<and> frac dec = int (length fs)"

section \<open>Properties\<close>

text \<open>The buffer \<^verbatim>\<open>decimal_string_size\<close> asks for holds the text of the decimal with its sign, point and final null, for
  every number of digits, the ones without digits before the point included; it is exactly filled by the text of a negative number
  and one byte too long for the others, and negating the decimal does not change it.  \<^verbatim>\<open>decimal_make_zero\<close> leaves a
  decimal whose text, with room for a sign, takes three bytes, whenever the decimal has a digit to write to.\<close>
lemma decimal_string_size_tight:
  assumes "has_digits dec ds fs" "dec_buf dec \<noteq> []"
  shows "int (length (decimal_text (dec_sign dec) ds fs)) = decimal_string_size dec - (if dec_sign dec then 0 else 1) \<and>
    decimal_string_size (decimal_neg dec) = decimal_string_size dec \<and> decimal_neg (decimal_neg dec) = dec \<and>
    (\<exists>z. decimal_make_zero dec = Some z \<and> hd (dec_buf z) = 0 \<and> length (dec_buf z) = length (dec_buf dec) \<and>
       has_digits z ''0'' [] \<and> \<not> dec_sign z \<and> decimal_string_size z = 3)"
proof -
  have "int (length (decimal_text (dec_sign dec) ds fs)) = decimal_string_size dec - (if dec_sign dec then 0 else 1)"
    using assms(1) by (auto simp: decimal_text_def decimal_string_size_def has_digits_def)
  moreover have "decimal_string_size (decimal_neg dec) = decimal_string_size dec" "decimal_neg (decimal_neg dec) = dec"
    by (simp_all add: decimal_string_size_def decimal_neg_def)
  moreover have "\<exists>z. decimal_make_zero dec = Some z \<and> hd (dec_buf z) = 0 \<and> length (dec_buf z) = length (dec_buf dec) \<and>
      has_digits z ''0'' [] \<and> \<not> dec_sign z \<and> decimal_string_size z = 3"
    using assms(2) by (cases "dec_buf dec") (auto simp: decimal_make_zero_def has_digits_def decimal_string_size_def)
  ultimately show ?thesis by blast
qed

lemma decimal_string_size_tight_instance:
  "int (length (decimal_text True '''' ''25'')) =
     decimal_string_size \<lparr>intg = 0, frac = 2, dec_len = 2, dec_sign = True, dec_buf = [0, 250000000]\<rparr>"
  using decimal_string_size_tight [of "\<lparr>intg = 0, frac = 2, dec_len = 2, dec_sign = True, dec_buf = [0, 250000000]\<rparr>" "''''" "''25''"]
  by (simp add: has_digits_def)

text \<open>The conventions on error codes: of the codes made of the error bits, the ones up to 1 are those without a fatal bit, every code of an operation is made
  of the error bits, and a bit is fatal unless it is the one for truncation.\<close>

lemma e_dec_codes:
  assumes "code \<le> E_DEC_ERROR"
  shows "and code E_DEC_FATAL_ERROR = 0 \<longleftrightarrow> code \<le> E_DEC_TRUNCATED"
    and "or (or (or (or E_DEC_TRUNCATED E_DEC_OVERFLOW) E_DEC_DIV_ZERO) E_DEC_BAD_NUM) E_DEC_OOM = E_DEC_ERROR"
    and "and E_DEC_ERROR (not E_DEC_TRUNCATED) = E_DEC_FATAL_ERROR"
proof -
  have "unat code \<in> set [0..<32]" using assms by (simp add: E_DEC_ERROR_def word_le_nat_alt)
  moreover have "code = of_nat (unat code)" by simp
  ultimately have "code \<in> set (map of_nat [0..<32])" by (metis imageI set_map)
  then show "and code E_DEC_FATAL_ERROR = 0 \<longleftrightarrow> code \<le> E_DEC_TRUNCATED"
    by (simp add: upt_rec numeral_nat e_dec_defs) (elim disjE; simp add: word_le_nat_alt)
qed (simp_all add: e_dec_defs)

end
