(* ===== verification/Plugin_Var.thy ===== *)
theory Plugin_Var
  imports Mysql_Prelude
begin

text \<open>
  The plugin interface of \<^verbatim>\<open>mysql/plugin.h\<close> (and its copy \<^verbatim>\<open>plugin.h\<close>): the description of a plugin,
  and the macros a plugin declares its system variables with.  A structure is a record, a macro that
  declares and initialises a variable is a function to that record, pointers to variables and functions are addresses.

  The lemmas show which kind of variable the server sees in the flags of a declaration, and that a thread variable cannot
  be read before the server has installed its accessor.
\<close>

section \<open>Plugins\<close>

definition MYSQL_PLUGIN_INTERFACE_VERSION :: int where "MYSQL_PLUGIN_INTERFACE_VERSION = 0x0103"

definition MYSQL_UDF_PLUGIN :: int where "MYSQL_UDF_PLUGIN = 0"
definition MYSQL_STORAGE_ENGINE_PLUGIN :: int where "MYSQL_STORAGE_ENGINE_PLUGIN = 1"
definition MYSQL_FTPARSER_PLUGIN :: int where "MYSQL_FTPARSER_PLUGIN = 2"
definition MYSQL_DAEMON_PLUGIN :: int where "MYSQL_DAEMON_PLUGIN = 3"
definition MYSQL_INFORMATION_SCHEMA_PLUGIN :: int where "MYSQL_INFORMATION_SCHEMA_PLUGIN = 4"
definition MYSQL_AUDIT_PLUGIN :: int where "MYSQL_AUDIT_PLUGIN = 5"
definition MYSQL_REPLICATION_PLUGIN :: int where "MYSQL_REPLICATION_PLUGIN = 6"
definition MYSQL_AUTHENTICATION_PLUGIN :: int where "MYSQL_AUTHENTICATION_PLUGIN = 7"
definition MYSQL_MAX_PLUGIN_TYPE_NUM :: int where "MYSQL_MAX_PLUGIN_TYPE_NUM = 8"

datatype enum_mysql_show_type =
  SHOW_UNDEF | SHOW_BOOL | SHOW_INT | SHOW_LONG | SHOW_LONGLONG | SHOW_CHAR | SHOW_CHAR_PTR
| SHOW_ARRAY | SHOW_FUNC | SHOW_DOUBLE | SHOW_always_last

record st_mysql_show_var =
  show_name :: addr
  show_value :: addr
  show_type :: enum_mysql_show_type

record st_mysql_plugin =
  plugin_type :: int
  plugin_info :: addr
  plugin_name :: addr
  plugin_author :: addr
  plugin_descr :: addr
  plugin_license :: int
  plugin_init :: addr
  plugin_deinit :: addr
  plugin_version :: uint32
  plugin_status_vars :: addr
  plugin_system_vars :: addr
  plugin_reserved1 :: addr
  plugin_flags :: uint32

text \<open>The declarations between \<^verbatim>\<open>mysql_declare_plugin\<close> and \<^verbatim>\<open>mysql_declare_plugin_end\<close>: the array, closed by an entry of zeros.\<close>

definition plugin_end :: st_mysql_plugin where
  "plugin_end = \<lparr>plugin_type = 0, plugin_info = 0, plugin_name = 0, plugin_author = 0, plugin_descr = 0, plugin_license = 0,
     plugin_init = 0, plugin_deinit = 0, plugin_version = 0, plugin_status_vars = 0, plugin_system_vars = 0, plugin_reserved1 = 0,
     plugin_flags = 0\<rparr>"

definition mysql_declare_plugin :: "st_mysql_plugin list \<Rightarrow> int \<times> st_mysql_plugin list" where
  "mysql_declare_plugin decls = (MYSQL_PLUGIN_INTERFACE_VERSION, decls @ [plugin_end])"

section \<open>Flags of a variable\<close>

definition PLUGIN_VAR_BOOL :: int where "PLUGIN_VAR_BOOL = 1"
definition PLUGIN_VAR_INT :: int where "PLUGIN_VAR_INT = 2"
definition PLUGIN_VAR_LONG :: int where "PLUGIN_VAR_LONG = 3"
definition PLUGIN_VAR_LONGLONG :: int where "PLUGIN_VAR_LONGLONG = 4"
definition PLUGIN_VAR_STR :: int where "PLUGIN_VAR_STR = 5"
definition PLUGIN_VAR_ENUM :: int where "PLUGIN_VAR_ENUM = 6"
definition PLUGIN_VAR_SET :: int where "PLUGIN_VAR_SET = 7"
definition PLUGIN_VAR_UNSIGNED :: int where "PLUGIN_VAR_UNSIGNED = 0x0080"
definition PLUGIN_VAR_THDLOCAL :: int where "PLUGIN_VAR_THDLOCAL = 0x0100"
definition PLUGIN_VAR_READONLY :: int where "PLUGIN_VAR_READONLY = 0x0200"
definition PLUGIN_VAR_NOSYSVAR :: int where "PLUGIN_VAR_NOSYSVAR = 0x0400"
definition PLUGIN_VAR_NOCMDOPT :: int where "PLUGIN_VAR_NOCMDOPT = 0x0800"
definition PLUGIN_VAR_NOCMDARG :: int where "PLUGIN_VAR_NOCMDARG = 0x1000"
definition PLUGIN_VAR_RQCMDARG :: int where "PLUGIN_VAR_RQCMDARG = 0x0000"
definition PLUGIN_VAR_OPCMDARG :: int where "PLUGIN_VAR_OPCMDARG = 0x2000"
definition PLUGIN_VAR_MEMALLOC :: int where "PLUGIN_VAR_MEMALLOC = 0x8000"

definition PLUGIN_VAR_MASK :: int where
  "PLUGIN_VAR_MASK = or (or (or (or (or (or PLUGIN_VAR_READONLY PLUGIN_VAR_NOSYSVAR) PLUGIN_VAR_NOCMDOPT) PLUGIN_VAR_NOCMDARG)
     PLUGIN_VAR_OPCMDARG) PLUGIN_VAR_RQCMDARG) PLUGIN_VAR_MEMALLOC"

section \<open>Layouts\<close>

record var_header =
  var_flags :: int
  var_name :: string
  var_comment :: string
  var_check :: addr
  var_update :: addr

record 'a sysvar_basic = var_header +
  svb_value :: addr
  svb_def_val :: 'a

record 'a sysvar_simple = var_header +
  svs_value :: addr
  svs_def_val :: 'a
  svs_min_val :: 'a
  svs_max_val :: 'a
  svs_blk_sz :: 'a

record 'a sysvar_typelib = var_header +
  svt_value :: addr
  svt_def_val :: 'a
  svt_typelib :: addr

record 'a thdvar_basic = var_header +
  tvb_offset :: int
  tvb_def_val :: 'a
  tvb_resolve :: addr

record 'a thdvar_simple = var_header +
  tvs_offset :: int
  tvs_def_val :: 'a
  tvs_min_val :: 'a
  tvs_max_val :: 'a
  tvs_blk_sz :: 'a
  tvs_resolve :: addr

record 'a thdvar_typelib = var_header +
  tvt_offset :: int
  tvt_def_val :: 'a
  tvt_resolve :: addr
  tvt_typelib :: addr

section \<open>Declarations\<close>

definition MYSQL_SYSVAR_BOOL :: "string \<Rightarrow> addr \<Rightarrow> int \<Rightarrow> string \<Rightarrow> addr \<Rightarrow> addr \<Rightarrow> uchar \<Rightarrow> uchar sysvar_basic" where
  "MYSQL_SYSVAR_BOOL nm varname opt cmt chk upd dflt =
     \<lparr>var_flags = or PLUGIN_VAR_BOOL (and opt PLUGIN_VAR_MASK),
      var_name = nm, var_comment = cmt, var_check = chk, var_update = upd, svb_value = varname, svb_def_val = dflt\<rparr>"

definition MYSQL_SYSVAR_STR :: "string \<Rightarrow> addr \<Rightarrow> int \<Rightarrow> string \<Rightarrow> addr \<Rightarrow> addr \<Rightarrow> addr \<Rightarrow> addr sysvar_basic" where
  "MYSQL_SYSVAR_STR nm varname opt cmt chk upd dflt =
     \<lparr>var_flags = or PLUGIN_VAR_STR (and opt PLUGIN_VAR_MASK),
      var_name = nm, var_comment = cmt, var_check = chk, var_update = upd, svb_value = varname, svb_def_val = dflt\<rparr>"

definition MYSQL_SYSVAR_INT :: "string \<Rightarrow> addr \<Rightarrow> int \<Rightarrow> string \<Rightarrow> addr \<Rightarrow> addr \<Rightarrow> int \<Rightarrow> int \<Rightarrow> int \<Rightarrow> int \<Rightarrow> int sysvar_simple" where
  "MYSQL_SYSVAR_INT nm varname opt cmt chk upd dflt mn mx blk =
     \<lparr>var_flags = or PLUGIN_VAR_INT (and opt PLUGIN_VAR_MASK),
      var_name = nm, var_comment = cmt, var_check = chk, var_update = upd, svs_value = varname, svs_def_val = dflt, svs_min_val = mn, svs_max_val = mx, svs_blk_sz = blk\<rparr>"

definition MYSQL_SYSVAR_UINT :: "string \<Rightarrow> addr \<Rightarrow> int \<Rightarrow> string \<Rightarrow> addr \<Rightarrow> addr \<Rightarrow> uint32 \<Rightarrow> uint32 \<Rightarrow> uint32 \<Rightarrow> uint32 \<Rightarrow> uint32 sysvar_simple" where
  "MYSQL_SYSVAR_UINT nm varname opt cmt chk upd dflt mn mx blk =
     \<lparr>var_flags = or (or PLUGIN_VAR_INT PLUGIN_VAR_UNSIGNED) (and opt PLUGIN_VAR_MASK),
      var_name = nm, var_comment = cmt, var_check = chk, var_update = upd, svs_value = varname, svs_def_val = dflt, svs_min_val = mn, svs_max_val = mx, svs_blk_sz = blk\<rparr>"

definition MYSQL_SYSVAR_LONG :: "string \<Rightarrow> addr \<Rightarrow> int \<Rightarrow> string \<Rightarrow> addr \<Rightarrow> addr \<Rightarrow> int \<Rightarrow> int \<Rightarrow> int \<Rightarrow> int \<Rightarrow> int sysvar_simple" where
  "MYSQL_SYSVAR_LONG nm varname opt cmt chk upd dflt mn mx blk =
     \<lparr>var_flags = or PLUGIN_VAR_LONG (and opt PLUGIN_VAR_MASK),
      var_name = nm, var_comment = cmt, var_check = chk, var_update = upd, svs_value = varname, svs_def_val = dflt, svs_min_val = mn, svs_max_val = mx, svs_blk_sz = blk\<rparr>"

definition MYSQL_SYSVAR_ULONG :: "string \<Rightarrow> addr \<Rightarrow> int \<Rightarrow> string \<Rightarrow> addr \<Rightarrow> addr \<Rightarrow> uint32 \<Rightarrow> uint32 \<Rightarrow> uint32 \<Rightarrow> uint32 \<Rightarrow> uint32 sysvar_simple" where
  "MYSQL_SYSVAR_ULONG nm varname opt cmt chk upd dflt mn mx blk =
     \<lparr>var_flags = or (or PLUGIN_VAR_LONG PLUGIN_VAR_UNSIGNED) (and opt PLUGIN_VAR_MASK),
      var_name = nm, var_comment = cmt, var_check = chk, var_update = upd, svs_value = varname, svs_def_val = dflt, svs_min_val = mn, svs_max_val = mx, svs_blk_sz = blk\<rparr>"

definition MYSQL_SYSVAR_LONGLONG :: "string \<Rightarrow> addr \<Rightarrow> int \<Rightarrow> string \<Rightarrow> addr \<Rightarrow> addr \<Rightarrow> int \<Rightarrow> int \<Rightarrow> int \<Rightarrow> int \<Rightarrow> int sysvar_simple" where
  "MYSQL_SYSVAR_LONGLONG nm varname opt cmt chk upd dflt mn mx blk =
     \<lparr>var_flags = or PLUGIN_VAR_LONGLONG (and opt PLUGIN_VAR_MASK),
      var_name = nm, var_comment = cmt, var_check = chk, var_update = upd, svs_value = varname, svs_def_val = dflt, svs_min_val = mn, svs_max_val = mx, svs_blk_sz = blk\<rparr>"

definition MYSQL_SYSVAR_ULONGLONG :: "string \<Rightarrow> addr \<Rightarrow> int \<Rightarrow> string \<Rightarrow> addr \<Rightarrow> addr \<Rightarrow> ulonglong \<Rightarrow> ulonglong \<Rightarrow> ulonglong \<Rightarrow> ulonglong \<Rightarrow> ulonglong sysvar_simple" where
  "MYSQL_SYSVAR_ULONGLONG nm varname opt cmt chk upd dflt mn mx blk =
     \<lparr>var_flags = or (or PLUGIN_VAR_LONGLONG PLUGIN_VAR_UNSIGNED) (and opt PLUGIN_VAR_MASK),
      var_name = nm, var_comment = cmt, var_check = chk, var_update = upd, svs_value = varname, svs_def_val = dflt, svs_min_val = mn, svs_max_val = mx, svs_blk_sz = blk\<rparr>"

definition MYSQL_SYSVAR_ENUM :: "string \<Rightarrow> addr \<Rightarrow> int \<Rightarrow> string \<Rightarrow> addr \<Rightarrow> addr \<Rightarrow> uint32 \<Rightarrow> addr \<Rightarrow> uint32 sysvar_typelib" where
  "MYSQL_SYSVAR_ENUM nm varname opt cmt chk upd dflt typelib =
     \<lparr>var_flags = or PLUGIN_VAR_ENUM (and opt PLUGIN_VAR_MASK),
      var_name = nm, var_comment = cmt, var_check = chk, var_update = upd, svt_value = varname, svt_def_val = dflt, svt_typelib = typelib\<rparr>"

definition MYSQL_SYSVAR_SET :: "string \<Rightarrow> addr \<Rightarrow> int \<Rightarrow> string \<Rightarrow> addr \<Rightarrow> addr \<Rightarrow> ulonglong \<Rightarrow> addr \<Rightarrow> ulonglong sysvar_typelib" where
  "MYSQL_SYSVAR_SET nm varname opt cmt chk upd dflt typelib =
     \<lparr>var_flags = or PLUGIN_VAR_SET (and opt PLUGIN_VAR_MASK),
      var_name = nm, var_comment = cmt, var_check = chk, var_update = upd, svt_value = varname, svt_def_val = dflt, svt_typelib = typelib\<rparr>"

definition MYSQL_THDVAR_BOOL :: "string \<Rightarrow> int \<Rightarrow> string \<Rightarrow> addr \<Rightarrow> addr \<Rightarrow> uchar \<Rightarrow> uchar thdvar_basic" where
  "MYSQL_THDVAR_BOOL nm opt cmt chk upd dflt =
     \<lparr>var_flags = or (or PLUGIN_VAR_BOOL PLUGIN_VAR_THDLOCAL) (and opt PLUGIN_VAR_MASK),
      var_name = nm, var_comment = cmt, var_check = chk, var_update = upd, tvb_offset = - 1, tvb_def_val = dflt, tvb_resolve = 0\<rparr>"

definition MYSQL_THDVAR_STR :: "string \<Rightarrow> int \<Rightarrow> string \<Rightarrow> addr \<Rightarrow> addr \<Rightarrow> addr \<Rightarrow> addr thdvar_basic" where
  "MYSQL_THDVAR_STR nm opt cmt chk upd dflt =
     \<lparr>var_flags = or (or PLUGIN_VAR_STR PLUGIN_VAR_THDLOCAL) (and opt PLUGIN_VAR_MASK),
      var_name = nm, var_comment = cmt, var_check = chk, var_update = upd, tvb_offset = - 1, tvb_def_val = dflt, tvb_resolve = 0\<rparr>"

definition MYSQL_THDVAR_INT :: "string \<Rightarrow> int \<Rightarrow> string \<Rightarrow> addr \<Rightarrow> addr \<Rightarrow> int \<Rightarrow> int \<Rightarrow> int \<Rightarrow> int \<Rightarrow> int thdvar_simple" where
  "MYSQL_THDVAR_INT nm opt cmt chk upd dflt mn mx blk =
     \<lparr>var_flags = or (or PLUGIN_VAR_INT PLUGIN_VAR_THDLOCAL) (and opt PLUGIN_VAR_MASK),
      var_name = nm, var_comment = cmt, var_check = chk, var_update = upd, tvs_offset = - 1, tvs_def_val = dflt, tvs_min_val = mn, tvs_max_val = mx, tvs_blk_sz = blk, tvs_resolve = 0\<rparr>"

definition MYSQL_THDVAR_UINT :: "string \<Rightarrow> int \<Rightarrow> string \<Rightarrow> addr \<Rightarrow> addr \<Rightarrow> uint32 \<Rightarrow> uint32 \<Rightarrow> uint32 \<Rightarrow> uint32 \<Rightarrow> uint32 thdvar_simple" where
  "MYSQL_THDVAR_UINT nm opt cmt chk upd dflt mn mx blk =
     \<lparr>var_flags = or (or (or PLUGIN_VAR_INT PLUGIN_VAR_THDLOCAL) PLUGIN_VAR_UNSIGNED) (and opt PLUGIN_VAR_MASK),
      var_name = nm, var_comment = cmt, var_check = chk, var_update = upd, tvs_offset = - 1, tvs_def_val = dflt, tvs_min_val = mn, tvs_max_val = mx, tvs_blk_sz = blk, tvs_resolve = 0\<rparr>"

definition MYSQL_THDVAR_LONG :: "string \<Rightarrow> int \<Rightarrow> string \<Rightarrow> addr \<Rightarrow> addr \<Rightarrow> int \<Rightarrow> int \<Rightarrow> int \<Rightarrow> int \<Rightarrow> int thdvar_simple" where
  "MYSQL_THDVAR_LONG nm opt cmt chk upd dflt mn mx blk =
     \<lparr>var_flags = or (or PLUGIN_VAR_LONG PLUGIN_VAR_THDLOCAL) (and opt PLUGIN_VAR_MASK),
      var_name = nm, var_comment = cmt, var_check = chk, var_update = upd, tvs_offset = - 1, tvs_def_val = dflt, tvs_min_val = mn, tvs_max_val = mx, tvs_blk_sz = blk, tvs_resolve = 0\<rparr>"

definition MYSQL_THDVAR_ULONG :: "string \<Rightarrow> int \<Rightarrow> string \<Rightarrow> addr \<Rightarrow> addr \<Rightarrow> uint32 \<Rightarrow> uint32 \<Rightarrow> uint32 \<Rightarrow> uint32 \<Rightarrow> uint32 thdvar_simple" where
  "MYSQL_THDVAR_ULONG nm opt cmt chk upd dflt mn mx blk =
     \<lparr>var_flags = or (or (or PLUGIN_VAR_LONG PLUGIN_VAR_THDLOCAL) PLUGIN_VAR_UNSIGNED) (and opt PLUGIN_VAR_MASK),
      var_name = nm, var_comment = cmt, var_check = chk, var_update = upd, tvs_offset = - 1, tvs_def_val = dflt, tvs_min_val = mn, tvs_max_val = mx, tvs_blk_sz = blk, tvs_resolve = 0\<rparr>"

definition MYSQL_THDVAR_LONGLONG :: "string \<Rightarrow> int \<Rightarrow> string \<Rightarrow> addr \<Rightarrow> addr \<Rightarrow> int \<Rightarrow> int \<Rightarrow> int \<Rightarrow> int \<Rightarrow> int thdvar_simple" where
  "MYSQL_THDVAR_LONGLONG nm opt cmt chk upd dflt mn mx blk =
     \<lparr>var_flags = or (or PLUGIN_VAR_LONGLONG PLUGIN_VAR_THDLOCAL) (and opt PLUGIN_VAR_MASK),
      var_name = nm, var_comment = cmt, var_check = chk, var_update = upd, tvs_offset = - 1, tvs_def_val = dflt, tvs_min_val = mn, tvs_max_val = mx, tvs_blk_sz = blk, tvs_resolve = 0\<rparr>"

definition MYSQL_THDVAR_ULONGLONG :: "string \<Rightarrow> int \<Rightarrow> string \<Rightarrow> addr \<Rightarrow> addr \<Rightarrow> ulonglong \<Rightarrow> ulonglong \<Rightarrow> ulonglong \<Rightarrow> ulonglong \<Rightarrow> ulonglong thdvar_simple" where
  "MYSQL_THDVAR_ULONGLONG nm opt cmt chk upd dflt mn mx blk =
     \<lparr>var_flags = or (or (or PLUGIN_VAR_LONGLONG PLUGIN_VAR_THDLOCAL) PLUGIN_VAR_UNSIGNED) (and opt PLUGIN_VAR_MASK),
      var_name = nm, var_comment = cmt, var_check = chk, var_update = upd, tvs_offset = - 1, tvs_def_val = dflt, tvs_min_val = mn, tvs_max_val = mx, tvs_blk_sz = blk, tvs_resolve = 0\<rparr>"

definition MYSQL_THDVAR_ENUM :: "string \<Rightarrow> int \<Rightarrow> string \<Rightarrow> addr \<Rightarrow> addr \<Rightarrow> uint32 \<Rightarrow> addr \<Rightarrow> uint32 thdvar_typelib" where
  "MYSQL_THDVAR_ENUM nm opt cmt chk upd dflt typelib =
     \<lparr>var_flags = or (or PLUGIN_VAR_ENUM PLUGIN_VAR_THDLOCAL) (and opt PLUGIN_VAR_MASK),
      var_name = nm, var_comment = cmt, var_check = chk, var_update = upd, tvt_offset = - 1, tvt_def_val = dflt, tvt_resolve = 0, tvt_typelib = typelib\<rparr>"

definition MYSQL_THDVAR_SET :: "string \<Rightarrow> int \<Rightarrow> string \<Rightarrow> addr \<Rightarrow> addr \<Rightarrow> ulonglong \<Rightarrow> addr \<Rightarrow> ulonglong thdvar_typelib" where
  "MYSQL_THDVAR_SET nm opt cmt chk upd dflt typelib =
     \<lparr>var_flags = or (or PLUGIN_VAR_SET PLUGIN_VAR_THDLOCAL) (and opt PLUGIN_VAR_MASK),
      var_name = nm, var_comment = cmt, var_check = chk, var_update = upd, tvt_offset = - 1, tvt_def_val = dflt, tvt_resolve = 0, tvt_typelib = typelib\<rparr>"

text \<open>
  The accessors.  \<open>load\<close> reads a variable of the type of the declaration, \<open>call\<close> calls a function through a pointer; a call through
  \<^verbatim>\<open>NULL\<close> has no result.
\<close>

definition SYSVAR :: "(addr \<Rightarrow> 'a) \<Rightarrow> addr \<Rightarrow> 'a" where
  "SYSVAR load val = load val"

definition THDVAR :: "(addr \<Rightarrow> 'a) \<Rightarrow> (addr \<Rightarrow> addr \<Rightarrow> int \<Rightarrow> addr) \<Rightarrow> addr \<Rightarrow> addr \<Rightarrow> int \<Rightarrow> 'a option" where
  "THDVAR load call thd resolve offset = (if resolve = 0 then None else Some (load (call resolve thd offset)))"

section \<open>What the server sees\<close>

text \<open>The type of a variable, whether it is unsigned, whether it is per connection, and the options of its author.\<close>

definition var_class :: "'b var_header_scheme \<Rightarrow> int \<times> bool \<times> bool \<times> int" where
  "var_class h = (and (var_flags h) 0x7F, and (var_flags h) PLUGIN_VAR_UNSIGNED \<noteq> 0, and (var_flags h) PLUGIN_VAR_THDLOCAL \<noteq> 0,
     and (var_flags h) PLUGIN_VAR_MASK)"

lemmas plugin_flag_defs = PLUGIN_VAR_BOOL_def PLUGIN_VAR_INT_def PLUGIN_VAR_LONG_def PLUGIN_VAR_LONGLONG_def PLUGIN_VAR_STR_def PLUGIN_VAR_ENUM_def PLUGIN_VAR_SET_def PLUGIN_VAR_UNSIGNED_def PLUGIN_VAR_THDLOCAL_def PLUGIN_VAR_READONLY_def PLUGIN_VAR_NOSYSVAR_def PLUGIN_VAR_NOCMDOPT_def PLUGIN_VAR_NOCMDARG_def PLUGIN_VAR_RQCMDARG_def PLUGIN_VAR_OPCMDARG_def PLUGIN_VAR_MEMALLOC_def PLUGIN_VAR_MASK_def

lemmas plugin_var_defs = MYSQL_SYSVAR_BOOL_def MYSQL_SYSVAR_STR_def MYSQL_SYSVAR_INT_def MYSQL_SYSVAR_UINT_def MYSQL_SYSVAR_LONG_def MYSQL_SYSVAR_ULONG_def MYSQL_SYSVAR_LONGLONG_def MYSQL_SYSVAR_ULONGLONG_def MYSQL_SYSVAR_ENUM_def MYSQL_SYSVAR_SET_def MYSQL_THDVAR_BOOL_def MYSQL_THDVAR_STR_def MYSQL_THDVAR_INT_def MYSQL_THDVAR_UINT_def MYSQL_THDVAR_LONG_def MYSQL_THDVAR_ULONG_def MYSQL_THDVAR_LONGLONG_def MYSQL_THDVAR_ULONGLONG_def MYSQL_THDVAR_ENUM_def MYSQL_THDVAR_SET_def

lemma PLUGIN_VAR_MASK_eq: "PLUGIN_VAR_MASK = 0xBE00"
  by (simp add: plugin_flag_defs)

lemma and_masked: "and (and opt 0xBE00) 0x7F = 0" "and (and opt 0xBE00) 0x80 = 0" "and (and opt 0xBE00) 0x100 = (0 :: int)"
  by (simp_all add: and.assoc)

lemmas flags_simps = plugin_flag_defs bit.conj_disj_distrib2 and_masked and.right_idem

text \<open>A thread variable has no accessor until the server installs one.\<close>

lemma thdvar_unresolved:
  "THDVAR load call thd (tvs_resolve (MYSQL_THDVAR_LONG nm opt cmt chk upd dflt mn mx blk)) off = None"
  "THDVAR load' call thd (tvb_resolve (MYSQL_THDVAR_STR nm opt cmt chk upd dflt')) off = None"
  by (simp_all add: THDVAR_def MYSQL_THDVAR_LONG_def MYSQL_THDVAR_STR_def)

section \<open>Properties\<close>

text \<open>C31: the flags of a declaration tell the server the type of the variable, whether it is unsigned and whether every
  connection has its own; the options the author passes reach the server masked, and can change neither of the three,
  whatever bits they have.\<close>
theorem plugin_var_classification:
  "var_class (MYSQL_SYSVAR_BOOL nm varname opt cmt chk upd dflt1) = (PLUGIN_VAR_BOOL, False, False, and opt PLUGIN_VAR_MASK) \<and>
   var_class (MYSQL_SYSVAR_STR nm varname opt cmt chk upd dflt2) = (PLUGIN_VAR_STR, False, False, and opt PLUGIN_VAR_MASK) \<and>
   var_class (MYSQL_SYSVAR_INT nm varname opt cmt chk upd dflt3 mn3 mx3 blk3) = (PLUGIN_VAR_INT, False, False, and opt PLUGIN_VAR_MASK) \<and>
   var_class (MYSQL_SYSVAR_UINT nm varname opt cmt chk upd dflt4 mn4 mx4 blk4) = (PLUGIN_VAR_INT, True, False, and opt PLUGIN_VAR_MASK) \<and>
   var_class (MYSQL_SYSVAR_LONG nm varname opt cmt chk upd dflt3 mn3 mx3 blk3) = (PLUGIN_VAR_LONG, False, False, and opt PLUGIN_VAR_MASK) \<and>
   var_class (MYSQL_SYSVAR_ULONG nm varname opt cmt chk upd dflt4 mn4 mx4 blk4) = (PLUGIN_VAR_LONG, True, False, and opt PLUGIN_VAR_MASK) \<and>
   var_class (MYSQL_SYSVAR_LONGLONG nm varname opt cmt chk upd dflt3 mn3 mx3 blk3) = (PLUGIN_VAR_LONGLONG, False, False, and opt PLUGIN_VAR_MASK) \<and>
   var_class (MYSQL_SYSVAR_ULONGLONG nm varname opt cmt chk upd dflt5 mn5 mx5 blk5) = (PLUGIN_VAR_LONGLONG, True, False, and opt PLUGIN_VAR_MASK) \<and>
   var_class (MYSQL_SYSVAR_ENUM nm varname opt cmt chk upd dflt4 typelib) = (PLUGIN_VAR_ENUM, False, False, and opt PLUGIN_VAR_MASK) \<and>
   var_class (MYSQL_SYSVAR_SET nm varname opt cmt chk upd dflt5 typelib) = (PLUGIN_VAR_SET, False, False, and opt PLUGIN_VAR_MASK) \<and>
   var_class (MYSQL_THDVAR_BOOL nm opt cmt chk upd dflt1) = (PLUGIN_VAR_BOOL, False, True, and opt PLUGIN_VAR_MASK) \<and>
   var_class (MYSQL_THDVAR_STR nm opt cmt chk upd dflt2) = (PLUGIN_VAR_STR, False, True, and opt PLUGIN_VAR_MASK) \<and>
   var_class (MYSQL_THDVAR_INT nm opt cmt chk upd dflt3 mn3 mx3 blk3) = (PLUGIN_VAR_INT, False, True, and opt PLUGIN_VAR_MASK) \<and>
   var_class (MYSQL_THDVAR_UINT nm opt cmt chk upd dflt4 mn4 mx4 blk4) = (PLUGIN_VAR_INT, True, True, and opt PLUGIN_VAR_MASK) \<and>
   var_class (MYSQL_THDVAR_LONG nm opt cmt chk upd dflt3 mn3 mx3 blk3) = (PLUGIN_VAR_LONG, False, True, and opt PLUGIN_VAR_MASK) \<and>
   var_class (MYSQL_THDVAR_ULONG nm opt cmt chk upd dflt4 mn4 mx4 blk4) = (PLUGIN_VAR_LONG, True, True, and opt PLUGIN_VAR_MASK) \<and>
   var_class (MYSQL_THDVAR_LONGLONG nm opt cmt chk upd dflt3 mn3 mx3 blk3) = (PLUGIN_VAR_LONGLONG, False, True, and opt PLUGIN_VAR_MASK) \<and>
   var_class (MYSQL_THDVAR_ULONGLONG nm opt cmt chk upd dflt5 mn5 mx5 blk5) = (PLUGIN_VAR_LONGLONG, True, True, and opt PLUGIN_VAR_MASK) \<and>
   var_class (MYSQL_THDVAR_ENUM nm opt cmt chk upd dflt4 typelib) = (PLUGIN_VAR_ENUM, False, True, and opt PLUGIN_VAR_MASK) \<and>
   var_class (MYSQL_THDVAR_SET nm opt cmt chk upd dflt5 typelib) = (PLUGIN_VAR_SET, False, True, and opt PLUGIN_VAR_MASK)"
  unfolding var_class_def plugin_var_defs by (intro conjI; simp add: flags_simps)

end
