(* ===== verification/Struct_Layout.thy ===== *)
theory Struct_Layout
  imports Mysql_Prelude Plugin_Var
begin

text \<open>
  How structures lie in memory, as far as the headers depend on it.  \<^verbatim>\<open>my_global.h\<close> and \<^verbatim>\<open>my_compiler.h\<close> compute offsets
  and alignments of types (\<^verbatim>\<open>offsetof\<close>, \<^verbatim>\<open>my_offsetof\<close>, \<^verbatim>\<open>MY_ALIGNOF\<close>, \<^verbatim>\<open>my_aligned_storage\<close>);
  the plugin interfaces rely on structures with a common beginning: a system variable of any type is passed as a pointer to its header, with
  the value at a place the server knows (\<^verbatim>\<open>mysql/plugin.h\<close>), and a client plugin of any kind as a pointer to the generic structure
  (\<^verbatim>\<open>mysql/client_plugin.h\<close>).

  A type is laid out as the compiler of the configured target does it: members in order, each at the next multiple of its alignment, the whole
  padded to a multiple of the largest alignment.
\<close>

section \<open>Sizes and alignments\<close>

datatype c_type = C_char | C_short | C_int | C_long | C_longlong | C_pointer | C_float | C_double
  | C_array c_type nat | C_struct "c_type list" | C_union "c_type list"

definition align_up :: "nat \<Rightarrow> nat \<Rightarrow> nat" where
  "align_up n a = (n + a - 1) div a * a"

fun layout_from :: "nat \<Rightarrow> (nat \<times> nat) list \<Rightarrow> nat list" where
  "layout_from p [] = []"
| "layout_from p ((s, a) # ms) = align_up p a # layout_from (align_up p a + s) ms"

fun end_from :: "nat \<Rightarrow> (nat \<times> nat) list \<Rightarrow> nat" where
  "end_from p [] = p"
| "end_from p ((s, a) # ms) = end_from (align_up p a + s) ms"

definition max_align :: "(nat \<times> nat) list \<Rightarrow> nat" where
  "max_align ms = foldr (\<lambda>m a. max (snd m) a) ms 1"

text \<open>Size and alignment.\<close>

primrec shape :: "c_type \<Rightarrow> nat \<times> nat" where
  "shape C_char = (1, 1)"
| "shape C_short = (2, 2)"
| "shape C_int = (4, 4)"
| "shape C_long = (4, 4)"
| "shape C_longlong = (8, 8)"
| "shape C_pointer = (4, 4)"
| "shape C_float = (4, 4)"
| "shape C_double = (8, 8)"
| "shape (C_array t n) = (fst (shape t) * n, snd (shape t))"
| "shape (C_struct ts) = (let ms = map shape ts in (align_up (end_from 0 ms) (max_align ms), max_align ms))"
| "shape (C_union ts) = (let ms = map shape ts in (align_up (foldr (\<lambda>m k. max (fst m) k) ms 0) (max_align ms), max_align ms))"

abbreviation sizeof :: "c_type \<Rightarrow> nat" where "sizeof t \<equiv> fst (shape t)"
abbreviation alignof :: "c_type \<Rightarrow> nat" where "alignof t \<equiv> snd (shape t)"

definition offsets :: "c_type list \<Rightarrow> nat list" where
  "offsets ts = layout_from 0 (map shape ts)"

text \<open>The address of a member of the structure at an address.\<close>

definition member_addr :: "c_type list \<Rightarrow> nat \<Rightarrow> addr \<Rightarrow> addr" where
  "member_addr ts i base = base + of_nat (offsets ts ! i)"

section \<open>The macros\<close>

definition offsetof :: "c_type list \<Rightarrow> nat \<Rightarrow> size_t" where
  "offsetof Type MEMBER = member_addr Type MEMBER 0"

definition my_offsetof :: "c_type list \<Rightarrow> nat \<Rightarrow> size_t" where
  "my_offsetof Type MEMBER = member_addr Type MEMBER 0x10 - 0x10"

definition MY_ALIGNOF :: "c_type \<Rightarrow> size_t" where
  "MY_ALIGNOF type = offsetof [C_char, type] 1"

text \<open>An empty structure with an alignment attribute, and the fallback without such attributes.\<close>

definition my_alignment_imp :: "bool \<Rightarrow> nat \<Rightarrow> nat \<times> nat" where
  "my_alignment_imp MY_ALIGNED alignment = (if MY_ALIGNED then (alignment, alignment) else shape (C_struct [C_double]))"

definition my_aligned_storage :: "bool \<Rightarrow> nat \<Rightarrow> nat \<Rightarrow> nat \<times> nat" where
  "my_aligned_storage MY_ALIGNED size' alignment =
     (let ms = [shape (C_array C_char size'), my_alignment_imp MY_ALIGNED alignment]
      in (align_up (max (fst (ms ! 0)) (fst (ms ! 1))) (max_align ms), max_align ms))"

text \<open>The version of the compiler in one number.\<close>

definition MY_GNUC_PREREQ :: "int \<Rightarrow> int \<Rightarrow> int \<Rightarrow> int \<Rightarrow> bool" where
  "MY_GNUC_PREREQ gnuc gnuc_minor maj mino \<longleftrightarrow> push_bit 16 gnuc + gnuc_minor \<ge> push_bit 16 maj + mino"

section \<open>Structures with a common header\<close>

text \<open>The members of \<^verbatim>\<open>MYSQL_PLUGIN_VAR_HEADER\<close>, and of the six structures for a variable of a type.\<close>

definition var_header_members :: "c_type list" where
  "var_header_members = [C_int, C_pointer, C_pointer, C_pointer, C_pointer]"

definition sysvar_basic_members :: "c_type \<Rightarrow> c_type list" where
  "sysvar_basic_members type = var_header_members @ [C_pointer, type]"

definition sysvar_simple_members :: "c_type \<Rightarrow> c_type list" where
  "sysvar_simple_members type = var_header_members @ [C_pointer, type, type, type, type]"

definition sysvar_typelib_members :: "c_type \<Rightarrow> c_type list" where
  "sysvar_typelib_members type = var_header_members @ [C_pointer, type, C_pointer]"

definition thdvar_basic_members :: "c_type \<Rightarrow> c_type list" where
  "thdvar_basic_members type = var_header_members @ [C_int, type, C_pointer]"

definition thdvar_simple_members :: "c_type \<Rightarrow> c_type list" where
  "thdvar_simple_members type = var_header_members @ [C_int, type, type, type, type, C_pointer]"

definition thdvar_typelib_members :: "c_type \<Rightarrow> c_type list" where
  "thdvar_typelib_members type = var_header_members @ [C_int, type, C_pointer, C_pointer]"

definition variable_structures :: "c_type \<Rightarrow> c_type list list" where
  "variable_structures type = [sysvar_basic_members type, sysvar_simple_members type, sysvar_typelib_members type,
     thdvar_basic_members type, thdvar_simple_members type, thdvar_typelib_members type]"

text \<open>\<^verbatim>\<open>MYSQL_CLIENT_PLUGIN_HEADER\<close> and the structure of authentication plugins.\<close>

definition client_plugin_header :: "c_type list" where
  "client_plugin_header = [C_int, C_int, C_pointer, C_pointer, C_pointer, C_array C_int 3, C_pointer, C_pointer, C_pointer, C_pointer, C_pointer]"

definition st_mysql_client_plugin :: "c_type list" where
  "st_mysql_client_plugin = client_plugin_header"

definition st_mysql_client_plugin_AUTHENTICATION :: "c_type list" where
  "st_mysql_client_plugin_AUTHENTICATION = client_plugin_header @ [C_pointer]"

text \<open>What \<^verbatim>\<open>mysql_declare_client_plugin(AUTHENTICATION)\<close> puts into the first two members.\<close>

definition MYSQL_CLIENT_reserved1 :: nat where "MYSQL_CLIENT_reserved1 = 0"
definition MYSQL_CLIENT_reserved2 :: nat where "MYSQL_CLIENT_reserved2 = 1"
definition MYSQL_CLIENT_AUTHENTICATION_PLUGIN :: nat where "MYSQL_CLIENT_AUTHENTICATION_PLUGIN = 2"
definition MYSQL_CLIENT_AUTHENTICATION_PLUGIN_INTERFACE_VERSION :: nat where "MYSQL_CLIENT_AUTHENTICATION_PLUGIN_INTERFACE_VERSION = 0x0100"
definition MYSQL_CLIENT_MAX_PLUGINS :: nat where "MYSQL_CLIENT_MAX_PLUGINS = 3"

definition mysql_declare_client_plugin :: "nat list" where
  "mysql_declare_client_plugin = [MYSQL_CLIENT_AUTHENTICATION_PLUGIN, MYSQL_CLIENT_AUTHENTICATION_PLUGIN_INTERFACE_VERSION]"

text \<open>The descriptors of server plugins: daemon, information schema, storage engine, replication, full-text parser, audit, authentication.\<close>

definition st_mysql_daemon :: "c_type list" where "st_mysql_daemon = [C_int]"
definition st_mysql_information_schema :: "c_type list" where "st_mysql_information_schema = [C_int]"
definition st_mysql_storage_engine :: "c_type list" where "st_mysql_storage_engine = [C_int]"
definition Mysql_replication :: "c_type list" where "Mysql_replication = [C_int]"
definition st_mysql_ftparser :: "c_type list" where "st_mysql_ftparser = [C_int, C_pointer, C_pointer, C_pointer]"
definition st_mysql_audit :: "c_type list" where "st_mysql_audit = [C_int, C_pointer, C_pointer, C_array C_long 1]"
definition st_mysql_auth :: "c_type list" where "st_mysql_auth = [C_int, C_pointer, C_pointer]"

section \<open>Laws of layout\<close>

lemma align_up_bounds: "0 < a \<Longrightarrow> n \<le> align_up n a \<and> align_up n a < n + a \<and> a dvd align_up n a"
proof -
  assume a: "0 < a"
  define r where "r = (n + a - 1) mod a"
  have r: "r < a" using a by (simp add: r_def)
  have "align_up n a + r = n + a - 1" by (simp add: align_up_def r_def div_mult_mod_eq)
  with r a have "n \<le> align_up n a" "align_up n a < n + a" by linarith+
  then show ?thesis by (simp add: align_up_def)
qed

lemma align_up_unique: "0 < a \<Longrightarrow> a dvd m \<Longrightarrow> n \<le> m \<Longrightarrow> m < n + a \<Longrightarrow> align_up n a = m"
proof -
  assume a: "0 < a" and m: "a dvd m" "n \<le> m" "m < n + a"
  note b = align_up_bounds [OF a, of n]
  obtain k l where k: "m = a * k" "align_up n a = a * l" using m(1) b by (auto elim!: dvdE)
  have "a * k < a * (l + 1)" "a * l < a * (k + 1)" using b m k by simp_all
  then have "k = l" by (metis Suc_eq_plus1 less_Suc_eq_le mult_less_cancel1 order_antisym)
  then show ?thesis using k by simp
qed

lemma align_up_fits: "a \<in> {1, 2, 4, 8} \<Longrightarrow> a dvd n \<Longrightarrow> align_up n a = n"
  by (rule align_up_unique) auto

lemma length_layout_from [simp]: "length (layout_from p ms) = length ms"
  by (induction p ms rule: layout_from.induct) simp_all

lemma layout_from_append: "layout_from p (ms @ ns) = layout_from p ms @ layout_from (end_from p ms) ns"
  by (induction p ms rule: layout_from.induct) simp_all

text \<open>A structure that extends another one has the same beginning.\<close>

lemma offsets_append: "offsets (ts @ us) = offsets ts @ layout_from (end_from 0 (map shape ts)) (map shape us)"
  by (simp add: offsets_def layout_from_append)

lemma offsets_prefix: "i < length ts \<Longrightarrow> offsets (ts @ us) ! i = offsets ts ! i"
  by (simp add: offsets_append nth_append) (simp add: offsets_def)

text \<open>Every alignment is 1, 2, 4 or 8.\<close>

lemma max_align_range:
  assumes "list_all (\<lambda>m. snd m \<in> {1, 2, 4, 8}) ms"
  shows "max_align ms \<in> {1, 2, 4, 8}"
  using assms by (induction ms) (auto simp: max_align_def max_def)

lemma alignof_range: "alignof t \<in> {1, 2, 4, 8}"
proof (induction t)
  case (C_struct ts)
  have "list_all (\<lambda>m. snd m \<in> {1, 2, 4, 8}) (map shape ts)" using C_struct.IH by (simp add: list_all_iff)
  from max_align_range [OF this] show ?case by (simp add: Let_def)
next
  case (C_union ts)
  have "list_all (\<lambda>m. snd m \<in> {1, 2, 4, 8}) (map shape ts)" using C_union.IH by (simp add: list_all_iff)
  from max_align_range [OF this] show ?case by (simp add: Let_def)
qed simp_all

lemma alignof_pos: "0 < alignof t"
  using alignof_range [of t] by auto

text \<open>Members do not overlap, lie at multiples of their alignment, and stay inside of the structure.\<close>

lemma end_from_grows: "list_all (\<lambda>m. 0 < snd m) ms \<Longrightarrow> p \<le> end_from p ms"
proof (induction p ms rule: end_from.induct)
  case (2 p s a ms)
  have "p \<le> align_up p a" using align_up_bounds [of a p] 2(2) by simp
  also have "\<dots> \<le> end_from (align_up p a + s) ms" using 2 by simp
  finally show ?case by simp
qed simp

lemma layout_from_within:
  "list_all (\<lambda>m. 0 < snd m) ms \<Longrightarrow> i < length ms \<Longrightarrow>
    p \<le> layout_from p ms ! i \<and> snd (ms ! i) dvd layout_from p ms ! i \<and> layout_from p ms ! i + fst (ms ! i) \<le> end_from p ms"
proof (induction p ms arbitrary: i rule: layout_from.induct)
  case (2 p s a ms)
  let ?q = "align_up p a"
  have a: "p \<le> ?q" "a dvd ?q" using align_up_bounds [of a p] 2(2) by simp_all
  show ?case
  proof (cases i)
    case 0
    then show ?thesis using a end_from_grows [of ms "?q + s"] 2(2) by simp
  next
    case (Suc k)
    with 2 have "?q + s \<le> layout_from (?q + s) ms ! k" "snd (ms ! k) dvd layout_from (?q + s) ms ! k"
      "layout_from (?q + s) ms ! k + fst (ms ! k) \<le> end_from (?q + s) ms" by simp_all
    with Suc a show ?thesis by simp
  qed
qed simp

lemma layout_from_disjoint:
  "list_all (\<lambda>m. 0 < snd m) ms \<Longrightarrow> i < j \<Longrightarrow> j < length ms \<Longrightarrow> layout_from p ms ! i + fst (ms ! i) \<le> layout_from p ms ! j"
proof (induction p ms arbitrary: i j rule: layout_from.induct)
  case (2 p s a ms)
  from 2(3,4) obtain k where j: "j = Suc k" "k < length ms" by (cases j) auto
  show ?case
  proof (cases i)
    case 0
    then show ?thesis using layout_from_within [of ms k "align_up p a + s"] 2(2) j by simp
  next
    case (Suc l)
    then show ?thesis using 2 j by simp
  qed
qed simp

lemma shapes_positive: "list_all (\<lambda>m. 0 < snd m) (map shape ts)"
  by (simp add: list_all_iff alignof_pos)

lemma storage_shape: "n \<in> {1, 2, 4, 8, 16} \<Longrightarrow> 0 < size' \<Longrightarrow> my_aligned_storage True size' n = (align_up size' n, n)"
    "snd (my_aligned_storage False size' n) = 8"
proof -
  assume n: "n \<in> {1, 2, 4, 8, 16}" and s: "0 < size'"
  have "align_up (max size' n) n = align_up size' n"
  proof (cases "size' \<le> n")
    case True
    have "align_up size' n = n" using n s True by (intro align_up_unique) auto
    moreover have "align_up n n = n" using n by (intro align_up_unique) auto
    ultimately show ?thesis using True by (simp add: max_def)
  qed (simp add: max_def)
  moreover have "max_align [(size', 1), (n, n)] = n" using n by (auto simp: max_align_def)
  ultimately show "my_aligned_storage True size' n = (align_up size' n, n)"
    by (simp add: my_aligned_storage_def my_alignment_imp_def)
qed (simp add: my_aligned_storage_def my_alignment_imp_def max_align_def)

section \<open>Properties\<close>

text \<open>The fallbacks for offsets and alignments compute them: \<^verbatim>\<open>offsetof\<close> and \<^verbatim>\<open>my_offsetof\<close> agree and give the offset of the member,
  \<^verbatim>\<open>MY_ALIGNOF\<close> is the alignment of the type, for every type, and opaque storage is the least multiple of its alignment that holds the size,
  aligned as asked for where the compiler can align, and else as a double.\<close>
lemma alignment_macros:
  assumes "i < length ts" "sizeof (C_struct ts) < 2 ^ 32" "n \<in> {1, 2, 4, 8, 16}" "0 < size'"
  shows "unat (offsetof ts i) = offsets ts ! i \<and> my_offsetof ts i = offsetof ts i \<and> unat (MY_ALIGNOF t) = alignof t \<and>
    my_aligned_storage True size' n = (align_up size' n, n) \<and> snd (my_aligned_storage False size' n) = 8"
proof -
  have "offsets ts ! i \<le> end_from 0 (map shape ts)"
    using layout_from_within [OF shapes_positive, of i ts 0] assms(1) by (simp add: offsets_def)
  also have "\<dots> \<le> sizeof (C_struct ts)"
    using align_up_bounds [of "max_align (map shape ts)" "end_from 0 (map shape ts)"] alignof_pos [of "C_struct ts"] by (simp add: Let_def)
  finally have "offsets ts ! i < 2 ^ 32" using assms(2) by simp
  then have off: "unat (offsetof ts i) = offsets ts ! i" by (simp add: offsetof_def member_addr_def unat_of_nat)
  have my: "my_offsetof ts i = offsetof ts i" by (simp add: my_offsetof_def offsetof_def member_addr_def)
  have "align_up (1 :: nat) (alignof t) = alignof t" using alignof_range [of t] by (auto simp: align_up_def)
  then have "MY_ALIGNOF t = of_nat (alignof t)" by (cases "shape t") (simp add: MY_ALIGNOF_def offsetof_def member_addr_def offsets_def align_up_def)
  then have al: "unat (MY_ALIGNOF t) = alignof t" using alignof_range [of t] by (auto simp: unat_of_nat)
  have st: "my_aligned_storage True size' n = (align_up size' n, n)" "snd (my_aligned_storage False size' n) = 8"
    using storage_shape assms(3,4) by auto
  from off my al st show ?thesis by blast
qed

lemma alignment_macros_instance:
  "unat (offsetof st_mysql_client_plugin 6) = 32 \<and> unat (MY_ALIGNOF (C_struct [C_char, C_longlong])) = 8 \<and>
   my_aligned_storage True 20 16 = (32, 16)"
proof -
  have "offsets st_mysql_client_plugin ! 6 = 32"
    by (simp add: offsets_def st_mysql_client_plugin_def client_plugin_header_def align_up_def)
  moreover have "sizeof (C_struct st_mysql_client_plugin) < 2 ^ 32"
    by (simp add: st_mysql_client_plugin_def client_plugin_header_def align_up_def max_align_def)
  moreover have "6 < length st_mysql_client_plugin" by (simp add: st_mysql_client_plugin_def client_plugin_header_def)
  moreover have "alignof (C_struct [C_char, C_longlong]) = 8" by (simp add: max_align_def)
  moreover have "align_up 20 16 = 32" by (simp add: align_up_def)
  ultimately show ?thesis
    using alignment_macros [of 6 st_mysql_client_plugin 16 20 "C_struct [C_char, C_longlong]"] by simp
qed

text \<open>C33: a structure that a plugin declares for a system variable can be used through a pointer to its header: for all six declarations and for a
  variable of any type, the members of the header lie where they lie in the header alone, and after it come, as the comment promises, the pointer to the
  value or its offset, at byte 20, and the default value, at byte 24, no matter what the type is.\<close>
theorem variable_header_is_common:
  assumes "ts \<in> set (variable_structures type)"
  shows "take 5 (offsets ts) = offsets var_header_members \<and> offsets ts ! 5 = 20 \<and> offsets ts ! 6 = 24 \<and>
    sizeof (ts ! 5) = 4 \<and> ts ! 6 = type \<and> offsets ts ! 6 + sizeof type \<le> sizeof (C_struct ts)"
proof -
  from assms obtain us m where ts: "ts = var_header_members @ m # type # us" and m: "shape m = (4, 4)"
    by (auto simp: variable_structures_def sysvar_basic_members_def sysvar_simple_members_def sysvar_typelib_members_def
        thdvar_basic_members_def thdvar_simple_members_def thdvar_typelib_members_def)
  have header: "offsets var_header_members = [0, 4, 8, 12, 16]" "end_from 0 (map shape var_header_members) = 20"
    "length var_header_members = 5"
    by (simp_all add: offsets_def var_header_members_def align_up_def)
  have "align_up 24 (alignof type) = 24" using alignof_range [of type] by (intro align_up_fits) auto
  then have off: "offsets ts = [0, 4, 8, 12, 16] @ 20 # 24 # layout_from (24 + sizeof type) (map shape us)"
    using m by (cases "shape type") (simp add: ts offsets_append header align_up_def)
  have len: "6 < length ts" by (simp add: ts header)
  then have "offsets ts ! 6 + sizeof (ts ! 6) \<le> end_from 0 (map shape ts)"
    using layout_from_within [OF shapes_positive, of 6 ts 0] by (simp add: offsets_def)
  also have "\<dots> \<le> sizeof (C_struct ts)"
    using align_up_bounds [of "max_align (map shape ts)" "end_from 0 (map shape ts)"] alignof_pos [of "C_struct ts"] by (simp add: Let_def)
  finally have fits: "offsets ts ! 6 + sizeof (ts ! 6) \<le> sizeof (C_struct ts)" .
  have members: "ts ! 5 = m" "ts ! 6 = type" using header(3) by (simp_all add: ts nth_append)
  have "take 5 (offsets ts) = offsets var_header_members" "offsets ts ! 5 = 20" "offsets ts ! 6 = 24"
    by (simp_all add: off header(1))
  with fits members m show ?thesis by simp
qed

theorem variable_header_is_common_witness:
  "offsets (thdvar_simple_members C_longlong) ! 5 = 20 \<and> offsets (thdvar_simple_members C_longlong) ! 6 = 24"
  using variable_header_is_common [of "thdvar_simple_members C_longlong" C_longlong] by (simp add: variable_structures_def)

text \<open>The generic structure of client plugins is a beginning of that of authentication plugins, so that a pointer to the second serves as a pointer to the
  first; the descriptors of server plugins all start with the version of their interface.\<close>

lemma client_plugin_header_is_common:
  "i < length st_mysql_client_plugin \<Longrightarrow>
    offsets st_mysql_client_plugin_AUTHENTICATION ! i = offsets st_mysql_client_plugin ! i \<and>
    st_mysql_client_plugin_AUTHENTICATION ! i = st_mysql_client_plugin ! i"
  by (simp add: st_mysql_client_plugin_def st_mysql_client_plugin_AUTHENTICATION_def offsets_prefix nth_append)

lemma descriptors_start_with_version:
  "list_all (\<lambda>d. d ! 0 = C_int \<and> offsets d ! 0 = 0) [st_mysql_daemon, st_mysql_information_schema, st_mysql_storage_engine,
     Mysql_replication, st_mysql_ftparser, st_mysql_audit, st_mysql_auth]"
  by (simp add: st_mysql_daemon_def st_mysql_information_schema_def st_mysql_storage_engine_def Mysql_replication_def
      st_mysql_ftparser_def st_mysql_audit_def st_mysql_auth_def offsets_def align_up_def)

text \<open>The kinds of client plugins fit the table of kinds, and the version test orders versions as pairs while the minor number has 16 bits.\<close>

lemma client_plugin_kinds: "list_all (\<lambda>k. k < MYSQL_CLIENT_MAX_PLUGINS)
    [MYSQL_CLIENT_reserved1, MYSQL_CLIENT_reserved2, hd mysql_declare_client_plugin]"
  by (simp add: mysql_declare_client_plugin_def MYSQL_CLIENT_MAX_PLUGINS_def MYSQL_CLIENT_reserved1_def MYSQL_CLIENT_reserved2_def
      MYSQL_CLIENT_AUTHENTICATION_PLUGIN_def)

lemma gnuc_prereq_lexicographic:
  assumes "0 \<le> v" "v < 2 ^ 16" "0 \<le> mino" "mino < 2 ^ 16"
  shows "MY_GNUC_PREREQ g v maj mino \<longleftrightarrow> g > maj \<or> g = maj \<and> v \<ge> mino"
  using assms by (auto simp: MY_GNUC_PREREQ_def push_bit_eq_mult)

end
