(* ===== verification/Decimal_Widths.thy ===== *)
theory Decimal_Widths
  imports Protocol My_Global M_String
begin

text \<open>
  The room for numbers in decimal: the display widths of the integer types (\<^verbatim>\<open>mysql_com.h\<close>), the lengths of printed 32-bit and 64-bit
  numbers (\<^verbatim>\<open>my_global.h\<close>) and the buffers for floating point numbers (\<^verbatim>\<open>m_string.h\<close>).  \<open>decimal\<close> prints a number, and the
  constants are compared with the longest output.
\<close>

section \<open>The constants\<close>

definition MAX_TINYINT_WIDTH :: nat where "MAX_TINYINT_WIDTH = 3"
definition MAX_SMALLINT_WIDTH :: nat where "MAX_SMALLINT_WIDTH = 5"
definition MAX_MEDIUMINT_WIDTH :: nat where "MAX_MEDIUMINT_WIDTH = 8"
definition MAX_INT_WIDTH :: nat where "MAX_INT_WIDTH = 10"
definition MAX_BIGINT_WIDTH :: nat where "MAX_BIGINT_WIDTH = 20"

definition MY_INT32_NUM_DECIMAL_DIGITS :: nat where "MY_INT32_NUM_DECIMAL_DIGITS = 11"
definition MY_INT64_NUM_DECIMAL_DIGITS :: nat where "MY_INT64_NUM_DECIMAL_DIGITS = 21"

definition DBL_DIG :: nat where "DBL_DIG = 15"
definition MAX_DECPT_FOR_F_FORMAT :: nat where "MAX_DECPT_FOR_F_FORMAT = DBL_DIG"
definition MY_GCVT_MAX_FIELD_WIDTH :: nat where "MY_GCVT_MAX_FIELD_WIDTH = DBL_DIG + 4 + max 5 MAX_DECPT_FOR_F_FORMAT"

text \<open>The bits of the unsigned types with their widths.\<close>

definition integer_widths :: "(nat \<times> nat) list" where
  "integer_widths = [(8, MAX_TINYINT_WIDTH), (16, MAX_SMALLINT_WIDTH), (24, MAX_MEDIUMINT_WIDTH), (32, MAX_INT_WIDTH), (64, MAX_BIGINT_WIDTH)]"

section \<open>Printing\<close>

fun decimal :: "nat \<Rightarrow> string" where
  "decimal n = (if n < 10 then [char_of (48 + n)] else decimal (n div 10) @ [char_of (48 + n mod 10)])"

declare decimal.simps [simp del]

definition signed_decimal :: "int \<Rightarrow> string" where
  "signed_decimal i = (if i < 0 then CHR ''-'' # decimal (nat (- i)) else decimal (nat i))"

lemma decimal_length: "length (decimal n) \<le> Suc k \<longleftrightarrow> n < 10 ^ Suc k"
proof (induction n arbitrary: k rule: decimal.induct)
  case (1 n)
  show ?case
  proof (cases "n < 10")
    case True
    have "n < 10 * 10 ^ k" using True by (rule order.strict_trans2) simp
    with True show ?thesis by (simp add: decimal.simps [of n])
  next
    case False
    then have len: "length (decimal n) = Suc (length (decimal (n div 10)))" by (simp add: decimal.simps [of n])
    show ?thesis
    proof (cases k)
      case 0
      have "decimal (n div 10) \<noteq> []" by (simp add: decimal.simps [of "n div 10"])
      with False 0 len show ?thesis by simp
    next
      case (Suc l)
      then show ?thesis using 1 [OF False, of l] len by (simp add: div_less_iff_less_mult)
    qed
  qed
qed

lemma decimal_length_eq: "10 ^ k \<le> n \<Longrightarrow> n < 10 ^ Suc k \<Longrightarrow> length (decimal n) = Suc k"
proof -
  assume n: "10 ^ k \<le> n" "n < 10 ^ Suc k"
  have "decimal n \<noteq> []" by (simp add: decimal.simps [of n])
  then have "\<not> length (decimal n) \<le> k" using n(1) decimal_length [of n "k - 1"] by (cases k) auto
  with n(2) decimal_length [of n k] show ?thesis by simp
qed

section \<open>Properties\<close>

text \<open>The display widths are the exact room for the unsigned values of the integer types: every value of the type has at most so many digits, and the largest one has exactly
  so many.  A signed 32-bit number with its sign takes at most \<^verbatim>\<open>MY_INT32_NUM_DECIMAL_DIGITS\<close> characters, which the smallest number needs, while the longest
  64-bit number is one character shorter than \<^verbatim>\<open>MY_INT64_NUM_DECIMAL_DIGITS\<close> says.\<close>
lemma decimal_widths:
  assumes "(w, width) \<in> set integer_widths" "n < 2 ^ w" "- (2 ^ 31) \<le> i" "i < 2 ^ 31" "- (2 ^ 63) \<le> j" "j < 2 ^ 64"
  shows "length (decimal n) \<le> width \<and> length (decimal (2 ^ w - 1)) = width \<and>
    length (signed_decimal i) \<le> MY_INT32_NUM_DECIMAL_DIGITS \<and> length (signed_decimal (- (2 ^ 31))) = MY_INT32_NUM_DECIMAL_DIGITS \<and>
    length (signed_decimal j) < MY_INT64_NUM_DECIMAL_DIGITS"
proof -
  have "list_all (\<lambda>(w, k). 0 < k \<and> 10 ^ (k - 1) \<le> (2 ^ w - 1 :: nat) \<and> (2 ^ w - 1 :: nat) < 10 ^ k) integer_widths"
    by (simp add: integer_widths_def MAX_TINYINT_WIDTH_def MAX_SMALLINT_WIDTH_def MAX_MEDIUMINT_WIDTH_def MAX_INT_WIDTH_def MAX_BIGINT_WIDTH_def)
  with assms(1) obtain k where k: "width = Suc k" "10 ^ k \<le> (2 ^ w - 1 :: nat)" "(2 ^ w - 1 :: nat) < 10 ^ Suc k"
    by (cases width) (auto simp: list_all_iff)
  have "n < 10 ^ Suc k" using assms(2) k(3) by simp
  then have unsigned: "length (decimal n) \<le> width" "length (decimal (2 ^ w - 1)) = width"
    using decimal_length [of n k] decimal_length_eq [OF k(2,3)] k(1) by simp_all
  have room: "length (decimal m) \<le> Suc l" if "m < 10 ^ Suc l" for m l using that decimal_length [of m l] by simp
  have "nat (- i) < 10 ^ Suc 9" "nat i < 10 ^ Suc 9" "nat (- j) < 10 ^ Suc 18" "nat j < 10 ^ Suc 19" using assms(3-6) by simp_all
  note digits = this [THEN room]
  have "length (decimal (2 ^ 31)) = Suc 9" by (rule decimal_length_eq) simp_all
  then have least: "length (signed_decimal (- (2 ^ 31))) = MY_INT32_NUM_DECIMAL_DIGITS"
    by (simp add: signed_decimal_def MY_INT32_NUM_DECIMAL_DIGITS_def)
  show ?thesis
    using unsigned least digits by (auto simp: signed_decimal_def MY_INT32_NUM_DECIMAL_DIGITS_def MY_INT64_NUM_DECIMAL_DIGITS_def)
qed

lemma decimal_widths_instance:
  "length (decimal (2 ^ 24 - 1)) = MAX_MEDIUMINT_WIDTH \<and> length (signed_decimal (- (2 ^ 63))) < MY_INT64_NUM_DECIMAL_DIGITS"
  using decimal_widths [of 24 MAX_MEDIUMINT_WIDTH 0 0 "- (2 ^ 63)"] by (simp add: integer_widths_def)

end
