(* ===== verification/Services.thy ===== *)
theory Services
  imports Mysql_Prelude
begin

text \<open>
  The services a plugin calls (\<^verbatim>\<open>mysql/service_*.h\<close>, collected by \<^verbatim>\<open>mysql/services.h\<close>).  In a plugin that is
  linked into the server a service name is the function itself; in a dynamic plugin it is a macro that goes through a global pointer to a structure of
  function pointers, which the server fills in when it loads the plugin.  The functions of the server are an argument, the record \<open>server\<close>;
  a global pointer is an option, and going through a null pointer is an error.

  A plugin is a tree of service calls in which each call may depend on the results of the calls before it.  The main lemma says what the indirection
  does for every plugin: nothing, unless a service is called whose pointer is null.
\<close>

section \<open>Types\<close>

datatype service_error = Null_service

type_synonym ('w, 'a) service_result = "service_error + ('a \<times> 'w)"

text \<open>\<^verbatim>\<open>thd_wait_type\<close>: the reasons to wait, with their numbers.\<close>

datatype thd_wait_type = THD_WAIT_SLEEP | THD_WAIT_DISKIO | THD_WAIT_ROW_LOCK | THD_WAIT_GLOBAL_LOCK | THD_WAIT_META_DATA_LOCK
  | THD_WAIT_TABLE_LOCK | THD_WAIT_USER_LOCK | THD_WAIT_BINLOG | THD_WAIT_GROUP_COMMIT | THD_WAIT_SYNC | THD_WAIT_LAST

fun thd_wait_code :: "thd_wait_type \<Rightarrow> int" where
  "thd_wait_code THD_WAIT_SLEEP = 1"
| "thd_wait_code THD_WAIT_DISKIO = 2"
| "thd_wait_code THD_WAIT_ROW_LOCK = 3"
| "thd_wait_code THD_WAIT_GLOBAL_LOCK = 4"
| "thd_wait_code THD_WAIT_META_DATA_LOCK = 5"
| "thd_wait_code THD_WAIT_TABLE_LOCK = 6"
| "thd_wait_code THD_WAIT_USER_LOCK = 7"
| "thd_wait_code THD_WAIT_BINLOG = 8"
| "thd_wait_code THD_WAIT_GROUP_COMMIT = 9"
| "thd_wait_code THD_WAIT_SYNC = 10"
| "thd_wait_code THD_WAIT_LAST = 11"

text \<open>The structures of function pointers.  The arguments after a format are a list.\<close>

record 'w thd_wait_service_st =
  thd_wait_begin_func :: "addr \<Rightarrow> int \<Rightarrow> 'w \<Rightarrow> 'w"
  thd_wait_end_func :: "addr \<Rightarrow> 'w \<Rightarrow> 'w"

record 'w my_thread_scheduler_service_st =
  scheduler_set :: "addr \<Rightarrow> 'w \<Rightarrow> int \<times> 'w"
  scheduler_reset :: "'w \<Rightarrow> int \<times> 'w"

record 'w thd_alloc_service_st =
  thd_alloc_func :: "addr \<Rightarrow> uint32 \<Rightarrow> 'w \<Rightarrow> addr \<times> 'w"
  thd_calloc_func :: "addr \<Rightarrow> uint32 \<Rightarrow> 'w \<Rightarrow> addr \<times> 'w"
  thd_strdup_func :: "addr \<Rightarrow> addr \<Rightarrow> 'w \<Rightarrow> addr \<times> 'w"
  thd_strmake_func :: "addr \<Rightarrow> addr \<Rightarrow> uint32 \<Rightarrow> 'w \<Rightarrow> addr \<times> 'w"
  thd_memdup_func :: "addr \<Rightarrow> addr \<Rightarrow> uint32 \<Rightarrow> 'w \<Rightarrow> addr \<times> 'w"
  thd_make_lex_string_func :: "addr \<Rightarrow> addr \<Rightarrow> addr \<Rightarrow> uint32 \<Rightarrow> int \<Rightarrow> 'w \<Rightarrow> addr \<times> 'w"

record 'w my_snprintf_service_st =
  my_snprintf_type :: "addr \<Rightarrow> uint32 \<Rightarrow> addr \<Rightarrow> addr list \<Rightarrow> 'w \<Rightarrow> uint32 \<times> 'w"
  my_vsnprintf_type :: "addr \<Rightarrow> uint32 \<Rightarrow> addr \<Rightarrow> addr list \<Rightarrow> 'w \<Rightarrow> uint32 \<times> 'w"

text \<open>The global pointers, and the functions of the server under their own names.\<close>

record 'w services =
  thd_wait_service :: "'w thd_wait_service_st option"
  my_thread_scheduler_service :: "'w my_thread_scheduler_service_st option"
  thd_alloc_service :: "'w thd_alloc_service_st option"
  my_snprintf_service :: "'w my_snprintf_service_st option"

record 'w server =
  server_thd_wait_begin :: "addr \<Rightarrow> int \<Rightarrow> 'w \<Rightarrow> 'w"
  server_thd_wait_end :: "addr \<Rightarrow> 'w \<Rightarrow> 'w"
  server_my_thread_scheduler_set :: "addr \<Rightarrow> 'w \<Rightarrow> int \<times> 'w"
  server_my_thread_scheduler_reset :: "'w \<Rightarrow> int \<times> 'w"
  server_thd_alloc :: "addr \<Rightarrow> uint32 \<Rightarrow> 'w \<Rightarrow> addr \<times> 'w"
  server_thd_calloc :: "addr \<Rightarrow> uint32 \<Rightarrow> 'w \<Rightarrow> addr \<times> 'w"
  server_thd_strdup :: "addr \<Rightarrow> addr \<Rightarrow> 'w \<Rightarrow> addr \<times> 'w"
  server_thd_strmake :: "addr \<Rightarrow> addr \<Rightarrow> uint32 \<Rightarrow> 'w \<Rightarrow> addr \<times> 'w"
  server_thd_memdup :: "addr \<Rightarrow> addr \<Rightarrow> uint32 \<Rightarrow> 'w \<Rightarrow> addr \<times> 'w"
  server_thd_make_lex_string :: "addr \<Rightarrow> addr \<Rightarrow> addr \<Rightarrow> uint32 \<Rightarrow> int \<Rightarrow> 'w \<Rightarrow> addr \<times> 'w"
  server_my_snprintf :: "addr \<Rightarrow> uint32 \<Rightarrow> addr \<Rightarrow> addr list \<Rightarrow> 'w \<Rightarrow> uint32 \<times> 'w"
  server_my_vsnprintf :: "addr \<Rightarrow> uint32 \<Rightarrow> addr \<Rightarrow> addr list \<Rightarrow> 'w \<Rightarrow> uint32 \<times> 'w"

text \<open>What the server fills in, and before it has done so.\<close>

definition wait_functions :: "'w server \<Rightarrow> 'w thd_wait_service_st" where
  "wait_functions S = \<lparr>
     thd_wait_begin_func = server_thd_wait_begin S,
     thd_wait_end_func = server_thd_wait_end S\<rparr>"

definition scheduler_functions :: "'w server \<Rightarrow> 'w my_thread_scheduler_service_st" where
  "scheduler_functions S = \<lparr>
     scheduler_set = server_my_thread_scheduler_set S,
     scheduler_reset = server_my_thread_scheduler_reset S\<rparr>"

definition alloc_functions :: "'w server \<Rightarrow> 'w thd_alloc_service_st" where
  "alloc_functions S = \<lparr>
     thd_alloc_func = server_thd_alloc S,
     thd_calloc_func = server_thd_calloc S,
     thd_strdup_func = server_thd_strdup S,
     thd_strmake_func = server_thd_strmake S,
     thd_memdup_func = server_thd_memdup S,
     thd_make_lex_string_func = server_thd_make_lex_string S\<rparr>"

definition snprintf_functions :: "'w server \<Rightarrow> 'w my_snprintf_service_st" where
  "snprintf_functions S = \<lparr>
     my_snprintf_type = server_my_snprintf S,
     my_vsnprintf_type = server_my_vsnprintf S\<rparr>"

definition no_services :: "'w services" where
  "no_services = \<lparr>thd_wait_service = None, my_thread_scheduler_service = None, thd_alloc_service = None, my_snprintf_service = None\<rparr>"

definition resolved :: "'w server \<Rightarrow> 'w services" where
  "resolved S = \<lparr>thd_wait_service = Some (wait_functions S), my_thread_scheduler_service = Some (scheduler_functions S),
     thd_alloc_service = Some (alloc_functions S), my_snprintf_service = Some (snprintf_functions S)\<rparr>"

text \<open>A plugin is built with \<^verbatim>\<open>MYSQL_DYNAMIC_PLUGIN\<close> or not.\<close>

definition through :: "bool \<Rightarrow> 's option \<Rightarrow> ('s \<Rightarrow> 'w \<Rightarrow> 'a \<times> 'w) \<Rightarrow> ('w \<Rightarrow> 'a \<times> 'w) \<Rightarrow> 'w \<Rightarrow> ('w, 'a) service_result" where
  "through dynamic ptr member own w =
     (if dynamic then case ptr of None \<Rightarrow> Inl Null_service | Some st \<Rightarrow> Inr (member st w) else Inr (own w))"

section \<open>The service calls\<close>

definition thd_wait_begin :: "bool \<Rightarrow> 'w services \<Rightarrow> 'w server \<Rightarrow> addr \<Rightarrow> int \<Rightarrow> 'w \<Rightarrow> ('w, unit) service_result" where
  "thd_wait_begin dynamic G S THD WAIT_TYPE =
     through dynamic (thd_wait_service G) (\<lambda>st w. ((), thd_wait_begin_func st THD WAIT_TYPE w))
       (\<lambda>w. ((), server_thd_wait_begin S THD WAIT_TYPE w))"

definition thd_wait_end :: "bool \<Rightarrow> 'w services \<Rightarrow> 'w server \<Rightarrow> addr \<Rightarrow> 'w \<Rightarrow> ('w, unit) service_result" where
  "thd_wait_end dynamic G S THD =
     through dynamic (thd_wait_service G) (\<lambda>st w. ((), thd_wait_end_func st THD w))
       (\<lambda>w. ((), server_thd_wait_end S THD w))"

definition my_thread_scheduler_set :: "bool \<Rightarrow> 'w services \<Rightarrow> 'w server \<Rightarrow> addr \<Rightarrow> 'w \<Rightarrow> ('w, int) service_result" where
  "my_thread_scheduler_set dynamic G S F =
     through dynamic (my_thread_scheduler_service G) (\<lambda>st. scheduler_set st F)
       (server_my_thread_scheduler_set S F)"

definition my_thread_scheduler_reset :: "bool \<Rightarrow> 'w services \<Rightarrow> 'w server \<Rightarrow> 'w \<Rightarrow> ('w, int) service_result" where
  "my_thread_scheduler_reset dynamic G S =
     through dynamic (my_thread_scheduler_service G) scheduler_reset
       (server_my_thread_scheduler_reset S)"

definition thd_alloc :: "bool \<Rightarrow> 'w services \<Rightarrow> 'w server \<Rightarrow> addr \<Rightarrow> uint32 \<Rightarrow> 'w \<Rightarrow> ('w, addr) service_result" where
  "thd_alloc dynamic G S thd size' =
     through dynamic (thd_alloc_service G) (\<lambda>st. thd_alloc_func st thd size')
       (server_thd_alloc S thd size')"

definition thd_calloc :: "bool \<Rightarrow> 'w services \<Rightarrow> 'w server \<Rightarrow> addr \<Rightarrow> uint32 \<Rightarrow> 'w \<Rightarrow> ('w, addr) service_result" where
  "thd_calloc dynamic G S thd size' =
     through dynamic (thd_alloc_service G) (\<lambda>st. thd_calloc_func st thd size')
       (server_thd_calloc S thd size')"

definition thd_strdup :: "bool \<Rightarrow> 'w services \<Rightarrow> 'w server \<Rightarrow> addr \<Rightarrow> addr \<Rightarrow> 'w \<Rightarrow> ('w, addr) service_result" where
  "thd_strdup dynamic G S thd str =
     through dynamic (thd_alloc_service G) (\<lambda>st. thd_strdup_func st thd str)
       (server_thd_strdup S thd str)"

definition thd_strmake :: "bool \<Rightarrow> 'w services \<Rightarrow> 'w server \<Rightarrow> addr \<Rightarrow> addr \<Rightarrow> uint32 \<Rightarrow> 'w \<Rightarrow> ('w, addr) service_result" where
  "thd_strmake dynamic G S thd str size' =
     through dynamic (thd_alloc_service G) (\<lambda>st. thd_strmake_func st thd str size')
       (server_thd_strmake S thd str size')"

definition thd_memdup :: "bool \<Rightarrow> 'w services \<Rightarrow> 'w server \<Rightarrow> addr \<Rightarrow> addr \<Rightarrow> uint32 \<Rightarrow> 'w \<Rightarrow> ('w, addr) service_result" where
  "thd_memdup dynamic G S thd str size' =
     through dynamic (thd_alloc_service G) (\<lambda>st. thd_memdup_func st thd str size')
       (server_thd_memdup S thd str size')"

definition thd_make_lex_string ::
    "bool \<Rightarrow> 'w services \<Rightarrow> 'w server \<Rightarrow> addr \<Rightarrow> addr \<Rightarrow> addr \<Rightarrow> uint32 \<Rightarrow> int \<Rightarrow> 'w \<Rightarrow> ('w, addr) service_result" where
  "thd_make_lex_string dynamic G S thd lex_str str size' allocate_lex_string =
     through dynamic (thd_alloc_service G) (\<lambda>st. thd_make_lex_string_func st thd lex_str str size' allocate_lex_string)
       (server_thd_make_lex_string S thd lex_str str size' allocate_lex_string)"

definition my_snprintf :: "bool \<Rightarrow> 'w services \<Rightarrow> 'w server \<Rightarrow> addr \<Rightarrow> uint32 \<Rightarrow> addr \<Rightarrow> addr list \<Rightarrow> 'w \<Rightarrow> ('w, uint32) service_result" where
  "my_snprintf dynamic G S to n fmt args =
     through dynamic (my_snprintf_service G) (\<lambda>st. my_snprintf_type st to n fmt args)
       (server_my_snprintf S to n fmt args)"

definition my_vsnprintf :: "bool \<Rightarrow> 'w services \<Rightarrow> 'w server \<Rightarrow> addr \<Rightarrow> uint32 \<Rightarrow> addr \<Rightarrow> addr list \<Rightarrow> 'w \<Rightarrow> ('w, uint32) service_result" where
  "my_vsnprintf dynamic G S to n fmt ap =
     through dynamic (my_snprintf_service G) (\<lambda>st. my_vsnprintf_type st to n fmt ap)
       (server_my_vsnprintf S to n fmt ap)"

section \<open>Plugins\<close>

datatype (plugins only: size) service_call =
    Wait_begin addr thd_wait_type
  | Wait_end addr
  | Scheduler_set addr
  | Scheduler_reset
  | Alloc addr uint32
  | Calloc addr uint32
  | Strdup addr addr
  | Strmake addr addr uint32
  | Memdup addr addr uint32
  | Make_lex_string addr addr addr uint32 int
  | Snprintf addr uint32 addr "addr list"
  | Vsnprintf addr uint32 addr "addr list"

datatype service_value = Nothing | Pointer addr | Status int | Count uint32

datatype plugin = Return | Call service_call "service_value \<Rightarrow> plugin"

definition as_value :: "('a \<Rightarrow> service_value) \<Rightarrow> ('w, 'a) service_result \<Rightarrow> ('w, service_value) service_result" where
  "as_value f r = map_sum id (apfst f) r"

fun service :: "bool \<Rightarrow> 'w services \<Rightarrow> 'w server \<Rightarrow> service_call \<Rightarrow> 'w \<Rightarrow> ('w, service_value) service_result" where
  "service dynamic G S (Wait_begin thd t) w = as_value (\<lambda>_. Nothing) (thd_wait_begin dynamic G S thd (thd_wait_code t) w)"
| "service dynamic G S (Wait_end thd) w = as_value (\<lambda>_. Nothing) (thd_wait_end dynamic G S thd w)"
| "service dynamic G S (Scheduler_set F) w = as_value Status (my_thread_scheduler_set dynamic G S F w)"
| "service dynamic G S Scheduler_reset w = as_value Status (my_thread_scheduler_reset dynamic G S w)"
| "service dynamic G S (Alloc thd n) w = as_value Pointer (thd_alloc dynamic G S thd n w)"
| "service dynamic G S (Calloc thd n) w = as_value Pointer (thd_calloc dynamic G S thd n w)"
| "service dynamic G S (Strdup thd s) w = as_value Pointer (thd_strdup dynamic G S thd s w)"
| "service dynamic G S (Strmake thd s n) w = as_value Pointer (thd_strmake dynamic G S thd s n w)"
| "service dynamic G S (Memdup thd s n) w = as_value Pointer (thd_memdup dynamic G S thd s n w)"
| "service dynamic G S (Make_lex_string thd l s n a) w = as_value Pointer (thd_make_lex_string dynamic G S thd l s n a w)"
| "service dynamic G S (Snprintf to n fmt args) w = as_value Count (my_snprintf dynamic G S to n fmt args w)"
| "service dynamic G S (Vsnprintf to n fmt ap) w = as_value Count (my_vsnprintf dynamic G S to n fmt ap w)"

definition cons_value :: "service_value \<Rightarrow> ('w, service_value list) service_result \<Rightarrow> ('w, service_value list) service_result" where
  "cons_value v r = map_sum id (apfst ((#) v)) r"

text \<open>A run ends with the values the plugin got and the world it left, or with the error.\<close>

primrec run_plugin :: "bool \<Rightarrow> 'w services \<Rightarrow> 'w server \<Rightarrow> plugin \<Rightarrow> 'w \<Rightarrow> ('w, service_value list) service_result" where
  "run_plugin dynamic G S Return w = Inr ([], w)"
| "run_plugin dynamic G S (Call c k) w =
     (case service dynamic G S c w of
        Inl e \<Rightarrow> Inl e
      | Inr (v, w') \<Rightarrow> cons_value v (run_plugin dynamic G S (k v) w'))"

text \<open>The calls a statically linked plugin makes.\<close>

primrec calls_made :: "'w server \<Rightarrow> plugin \<Rightarrow> 'w \<Rightarrow> service_call list" where
  "calls_made S Return w = []"
| "calls_made S (Call c k) w =
     (case service False no_services S c w of
        Inl e \<Rightarrow> [c]
      | Inr (v, w') \<Rightarrow> c # calls_made S (k v) w')"

fun available :: "'w services \<Rightarrow> service_call \<Rightarrow> bool" where
  "available G (Wait_begin _ _) = (thd_wait_service G \<noteq> None)"
| "available G (Wait_end _) = (thd_wait_service G \<noteq> None)"
| "available G (Scheduler_set _) = (my_thread_scheduler_service G \<noteq> None)"
| "available G Scheduler_reset = (my_thread_scheduler_service G \<noteq> None)"
| "available G (Snprintf _ _ _ _) = (my_snprintf_service G \<noteq> None)"
| "available G (Vsnprintf _ _ _ _) = (my_snprintf_service G \<noteq> None)"
| "available G _ = (thd_alloc_service G \<noteq> None)"

text \<open>A global pointer is null or points to the functions of the server.\<close>

definition partly_resolved :: "'w server \<Rightarrow> 'w services \<Rightarrow> bool" where
  "partly_resolved S G \<longleftrightarrow> thd_wait_service G \<in> {None, Some (wait_functions S)} \<and>
     my_thread_scheduler_service G \<in> {None, Some (scheduler_functions S)} \<and>
     thd_alloc_service G \<in> {None, Some (alloc_functions S)} \<and> my_snprintf_service G \<in> {None, Some (snprintf_functions S)}"

lemmas service_defs = thd_wait_begin_def thd_wait_end_def my_thread_scheduler_set_def my_thread_scheduler_reset_def thd_alloc_def
  thd_calloc_def thd_strdup_def thd_strmake_def thd_memdup_def thd_make_lex_string_def my_snprintf_def my_vsnprintf_def

lemma through_static: "through False ptr member own w = Inr (own w)"
  by (simp add: through_def)

lemma through_dynamic: "ptr \<in> {None, Some st} \<Longrightarrow> through True ptr member own w = (if ptr \<noteq> None then Inr (member st w) else Inl Null_service)"
  by (auto simp: through_def)

lemma as_value_simps [simp]: "as_value f (Inl e) = Inl e" "as_value f (Inr (a, w)) = Inr (f a, w)"
  by (simp_all add: as_value_def)

lemma cons_value_Inl [simp]: "cons_value v (Inl e) = Inl e"
  by (simp add: cons_value_def)

text \<open>A statically linked plugin does not look at the pointers, and its calls succeed.\<close>

lemma service_static: "service False G S c w = service False no_services S c w"
  by (cases c) (simp_all add: service_defs through_static)

lemma service_static_Inr: "\<exists>v w'. service False G S c w = Inr (v, w')"
  by (cases c) (auto simp: service_defs through_static as_value_def split: prod.splits)

lemma service_dynamic:
  assumes "partly_resolved S G"
  shows "service True G S c w = (if available G c then service False G S c w else Inl Null_service)"
proof -
  have "thd_wait_service G \<in> {None, Some (wait_functions S)}" "my_thread_scheduler_service G \<in> {None, Some (scheduler_functions S)}"
    "thd_alloc_service G \<in> {None, Some (alloc_functions S)}" "my_snprintf_service G \<in> {None, Some (snprintf_functions S)}"
    using assms by (auto simp: partly_resolved_def)
  note dyn = this [THEN through_dynamic]
  show ?thesis by (cases c) (simp_all add: service_defs through_static dyn wait_functions_def scheduler_functions_def alloc_functions_def snprintf_functions_def)
qed

section \<open>A sample server\<close>

text \<open>Waits are counted; allocation hands out increasing addresses and fails on the size 0.\<close>

definition sample_server :: "(int \<times> addr) server" where
  "sample_server = \<lparr>
     server_thd_wait_begin = (\<lambda>_ _ w. (fst w + 1, snd w)), server_thd_wait_end = (\<lambda>_ w. (fst w - 1, snd w)),
     server_my_thread_scheduler_set = (\<lambda>F w. (of_bool (F = 0), w)), server_my_thread_scheduler_reset = (\<lambda>w. (1, w)),
     server_thd_alloc = (\<lambda>_ n w. (if n = 0 then 0 else snd w, (fst w, snd w + n))),
     server_thd_calloc = (\<lambda>_ n w. (if n = 0 then 0 else snd w, (fst w, snd w + n))),
     server_thd_strdup = (\<lambda>_ s w. (s, w)), server_thd_strmake = (\<lambda>_ s _ w. (s, w)), server_thd_memdup = (\<lambda>_ s _ w. (s, w)),
     server_thd_make_lex_string = (\<lambda>_ l _ _ _ w. (l, w)),
     server_my_snprintf = (\<lambda>_ n _ _ w. (n, w)), server_my_vsnprintf = (\<lambda>_ n _ _ w. (n, w))\<rparr>"

text \<open>Allocate; report a wait if that failed, and print otherwise.\<close>

definition sample_plugin :: plugin where
  "sample_plugin = Call (Alloc 7 16) (\<lambda>v. if v = Pointer 0 then Call (Wait_begin 7 THD_WAIT_DISKIO) (\<lambda>_. Return)
     else Call (Snprintf 100 16 200 []) (\<lambda>_. Return))"

section \<open>Properties\<close>

text \<open>C18: the indirection of a dynamic plugin is invisible as long as the services it calls are there: for every plugin, of any length, that may choose every
  call by the results of the calls before, a dynamic build returns the values and leaves the world of a build linked into the server, when every pointer
  it goes through has been set; otherwise it ends with the error of a null pointer.  The services it does not call need not be there.\<close>
theorem dynamic_plugin_agrees:
  assumes "partly_resolved S G"
  shows "run_plugin True G S p w =
    (if list_all (available G) (calls_made S p w) then run_plugin False no_services S p w else Inl Null_service)"
proof (induction p arbitrary: w)
  case Return
  show ?case by simp
next
  case (Call c k)
  obtain v w' where own: "service False no_services S c w = Inr (v, w')" using service_static_Inr by metis
  have dyn: "service True G S c w = (if available G c then Inr (v, w') else Inl Null_service)"
    using service_dynamic [OF assms, of c w] service_static [of G S c w] own by simp
  show ?case by (simp add: own dyn Call.IH [OF rangeI])
qed

theorem dynamic_plugin_agrees_witness:
  "run_plugin True (resolved sample_server) sample_server sample_plugin (0, 64) = Inr ([Pointer 64, Count 16], (0, 80)) \<and>
   run_plugin True ((resolved sample_server)\<lparr>my_snprintf_service := None\<rparr>) sample_server sample_plugin (0, 64) = Inl Null_service \<and>
   run_plugin True ((resolved sample_server)\<lparr>thd_wait_service := None\<rparr>) sample_server sample_plugin (0, 64) =
     run_plugin False no_services sample_server sample_plugin (0, 64)"
proof -
  note agrees = dynamic_plugin_agrees [of sample_server _ sample_plugin "(0, 64)"]
  have ok: "partly_resolved sample_server (resolved sample_server)"
    "partly_resolved sample_server ((resolved sample_server)\<lparr>my_snprintf_service := None\<rparr>)"
    "partly_resolved sample_server ((resolved sample_server)\<lparr>thd_wait_service := None\<rparr>)"
    by (simp_all add: partly_resolved_def resolved_def)
  have calls: "calls_made sample_server sample_plugin (0, 64) = [Alloc 7 16, Snprintf 100 16 200 []]"
    by (simp add: sample_plugin_def sample_server_def service_defs through_static)
  have run: "run_plugin False no_services sample_server sample_plugin (0, 64) = Inr ([Pointer 64, Count 16], (0, 80))"
    by (simp add: sample_plugin_def sample_server_def service_defs through_static cons_value_def)
  show ?thesis
    using agrees [OF ok(1)] agrees [OF ok(2)] agrees [OF ok(3)] by (simp add: calls run resolved_def)
qed

end
