(* ===== verification/Client_Options.thy ===== *)
theory Client_Options
  imports Mysql_Prelude "HOL-Library.Sublist"
begin

text \<open>
  Descriptions of command line options (\<^verbatim>\<open>my_getopt.h\<close>) and the options for encrypted connections that the client programs include
  (\<^verbatim>\<open>sslopt-vars.h\<close>, \<^verbatim>\<open>sslopt-longopts.h\<close>, \<^verbatim>\<open>sslopt-case.h\<close>): their variables, their rows
  of the option table, and their cases in the function that is called for each option.

  The numbers of the options come from a header of the client programs and are an argument, the record \<open>ssl_ids\<close>.  So is the function that
  stores the argument of an option in its variable, which is a part of \<^verbatim>\<open>handle_options\<close>; what is relied on is that it writes
  the variable the row points to, and reads the argument of a switch as the manual of the options says.
\<close>

section \<open>Descriptions of options\<close>

definition GET_NO_ARG :: uint32 where "GET_NO_ARG = 1"
definition GET_BOOL :: uint32 where "GET_BOOL = 2"
definition GET_INT :: uint32 where "GET_INT = 3"
definition GET_UINT :: uint32 where "GET_UINT = 4"
definition GET_LONG :: uint32 where "GET_LONG = 5"
definition GET_ULONG :: uint32 where "GET_ULONG = 6"
definition GET_LL :: uint32 where "GET_LL = 7"
definition GET_ULL :: uint32 where "GET_ULL = 8"
definition GET_STR :: uint32 where "GET_STR = 9"
definition GET_STR_ALLOC :: uint32 where "GET_STR_ALLOC = 10"
definition GET_DISABLED :: uint32 where "GET_DISABLED = 11"
definition GET_ENUM :: uint32 where "GET_ENUM = 12"
definition GET_SET :: uint32 where "GET_SET = 13"
definition GET_DOUBLE :: uint32 where "GET_DOUBLE = 14"
definition GET_FLAGSET :: uint32 where "GET_FLAGSET = 15"
definition GET_ASK_ADDR :: uint32 where "GET_ASK_ADDR = 128"
definition GET_TYPE_MASK :: uint32 where "GET_TYPE_MASK = 127"

datatype get_opt_arg_type = NO_ARG | OPT_ARG | REQUIRED_ARG

text \<open>A pointer to a variable is an element of \<open>'v\<close>, null is \<open>None\<close>.\<close>

record 'v my_option =
  opt_name :: "string option"
  opt_id :: int
  opt_comment :: "string option"
  opt_value :: "'v option"
  u_max_value :: "'v option"
  opt_typelib :: addr
  var_type :: uint32
  arg_type :: get_opt_arg_type
  def_value :: int
  min_value :: int
  max_value :: int
  sub_size :: int
  block_size :: int
  app_type :: addr

section \<open>Options for encrypted connections\<close>

datatype ssl_var = Opt_use_ssl | Opt_ssl_ca | Opt_ssl_capath | Opt_ssl_cert | Opt_ssl_cipher | Opt_ssl_key | Opt_ssl_verify_server_cert

record ssl_vars =
  opt_use_ssl :: uchar
  opt_ssl_ca :: addr
  opt_ssl_capath :: addr
  opt_ssl_cert :: addr
  opt_ssl_cipher :: addr
  opt_ssl_key :: addr
  opt_ssl_verify_server_cert :: uchar

definition ssl_vars_init :: ssl_vars where
  "ssl_vars_init = \<lparr>opt_use_ssl = 0, opt_ssl_ca = 0, opt_ssl_capath = 0, opt_ssl_cert = 0, opt_ssl_cipher = 0, opt_ssl_key = 0,
     opt_ssl_verify_server_cert = 0\<rparr>"

record ssl_ids =
  OPT_SSL_SSL :: int
  OPT_SSL_CA :: int
  OPT_SSL_CAPATH :: int
  OPT_SSL_CERT :: int
  OPT_SSL_CIPHER :: int
  OPT_SSL_KEY :: int
  OPT_SSL_VERIFY_SERVER_CERT :: int

definition ids_distinct :: "ssl_ids \<Rightarrow> bool" where
  "ids_distinct i \<longleftrightarrow> distinct [OPT_SSL_SSL i, OPT_SSL_CA i, OPT_SSL_CAPATH i, OPT_SSL_CERT i, OPT_SSL_CIPHER i, OPT_SSL_KEY i,
     OPT_SSL_VERIFY_SERVER_CERT i]"

text \<open>The files are empty unless \<^verbatim>\<open>HAVE_OPENSSL\<close> is defined and \<^verbatim>\<open>EMBEDDED_LIBRARY\<close> is not.\<close>

record ssl_build =
  HAVE_OPENSSL :: bool
  EMBEDDED_LIBRARY :: bool
  MYSQL_CLIENT :: bool

definition with_ssl :: "ssl_build \<Rightarrow> bool" where
  "with_ssl b \<longleftrightarrow> HAVE_OPENSSL b \<and> \<not> EMBEDDED_LIBRARY b"

definition ssl_row :: "string \<Rightarrow> int \<Rightarrow> string \<Rightarrow> ssl_var \<Rightarrow> uint32 \<Rightarrow> get_opt_arg_type \<Rightarrow> ssl_var my_option" where
  "ssl_row name i comment v t a = \<lparr>opt_name = Some name, opt_id = i, opt_comment = Some comment, opt_value = Some v, u_max_value = Some v,
     opt_typelib = 0, var_type = t, arg_type = a, def_value = 0, min_value = 0, max_value = 0, sub_size = 0, block_size = 0, app_type = 0\<rparr>"

definition sslopt_longopts :: "ssl_build \<Rightarrow> ssl_ids \<Rightarrow> ssl_var my_option list" where
  "sslopt_longopts b i = (if \<not> with_ssl b then [] else
    [ssl_row ''ssl'' (OPT_SSL_SSL i) ''Enable SSL for connection (automatically enabled with other flags).'' Opt_use_ssl GET_BOOL OPT_ARG,
     ssl_row ''ssl-ca'' (OPT_SSL_CA i) ''CA file in PEM format (check OpenSSL docs, implies --ssl).'' Opt_ssl_ca GET_STR REQUIRED_ARG,
     ssl_row ''ssl-capath'' (OPT_SSL_CAPATH i) ''CA directory (check OpenSSL docs, implies --ssl).'' Opt_ssl_capath GET_STR REQUIRED_ARG,
     ssl_row ''ssl-cert'' (OPT_SSL_CERT i) ''X509 cert in PEM format (implies --ssl).'' Opt_ssl_cert GET_STR REQUIRED_ARG,
     ssl_row ''ssl-cipher'' (OPT_SSL_CIPHER i) ''SSL cipher to use (implies --ssl).'' Opt_ssl_cipher GET_STR REQUIRED_ARG,
     ssl_row ''ssl-key'' (OPT_SSL_KEY i) ''X509 key in PEM format (implies --ssl).'' Opt_ssl_key GET_STR REQUIRED_ARG] @
    (if MYSQL_CLIENT b then
      [ssl_row ''ssl-verify-server-cert'' (OPT_SSL_VERIFY_SERVER_CERT i)
        (''Verify server's \"Common Name\" in its cert against hostname used '' @
         ''when connecting. This option is disabled by default.'') Opt_ssl_verify_server_cert GET_BOOL OPT_ARG]
     else []))"

text \<open>The cases of the \<^verbatim>\<open>switch\<close>; other options fall to the cases of the including program, which do not touch these variables.\<close>

definition sslopt_case :: "ssl_build \<Rightarrow> ssl_ids \<Rightarrow> int \<Rightarrow> ssl_vars \<Rightarrow> ssl_vars" where
  "sslopt_case b i optid vars =
     (if with_ssl b \<and>
         (optid = OPT_SSL_KEY i \<or> optid = OPT_SSL_CERT i \<or> optid = OPT_SSL_CA i \<or> optid = OPT_SSL_CAPATH i \<or> optid = OPT_SSL_CIPHER i)
      then vars\<lparr>opt_use_ssl := 1\<rparr> else vars)"

section \<open>A command line\<close>

text \<open>An option on the command line with its argument, an address; \<open>store\<close> puts it where the row says, then the function for one option is called.\<close>

type_synonym occurrence = "ssl_var my_option \<times> addr"

definition one_option :: "ssl_build \<Rightarrow> ssl_ids \<Rightarrow> (ssl_var my_option \<Rightarrow> addr \<Rightarrow> ssl_vars \<Rightarrow> ssl_vars) \<Rightarrow> occurrence \<Rightarrow> ssl_vars \<Rightarrow> ssl_vars" where
  "one_option b i store occ vars = sslopt_case b i (opt_id (fst occ)) (store (fst occ) (snd occ) vars)"

definition command_line ::
    "ssl_build \<Rightarrow> ssl_ids \<Rightarrow> (ssl_var my_option \<Rightarrow> addr \<Rightarrow> ssl_vars \<Rightarrow> ssl_vars) \<Rightarrow> occurrence list \<Rightarrow> ssl_vars \<Rightarrow> ssl_vars" where
  "command_line b i store occs = fold (one_option b i store) occs"

text \<open>What is relied on: only the variable the row points to is written, and a switch becomes 1 or 0 by \<open>truth\<close> of its argument.\<close>

definition store_contract :: "(addr \<Rightarrow> bool) \<Rightarrow> (ssl_var my_option \<Rightarrow> addr \<Rightarrow> ssl_vars \<Rightarrow> ssl_vars) \<Rightarrow> bool" where
  "store_contract truth store \<longleftrightarrow>
     (\<forall>r a vars. opt_use_ssl (store r a vars) =
        (if opt_value r = Some Opt_use_ssl then of_bool (truth a) else opt_use_ssl vars))"

text \<open>What the comments promise: \<^verbatim>\<open>--ssl\<close> decides by its argument, the options that imply it enable, the last one counts.\<close>

fun contains :: "string \<Rightarrow> string \<Rightarrow> bool" where
  "contains w [] = (w = [])"
| "contains w (c # s) = (prefix w (c # s) \<or> contains w s)"

definition implies_ssl :: "ssl_var my_option \<Rightarrow> bool" where
  "implies_ssl r \<longleftrightarrow> (case opt_comment r of None \<Rightarrow> False | Some c \<Rightarrow> contains ''implies --ssl'' c)"

primrec ssl_wanted :: "(addr \<Rightarrow> bool) \<Rightarrow> bool \<Rightarrow> occurrence list \<Rightarrow> bool" where
  "ssl_wanted truth d [] = d"
| "ssl_wanted truth d (occ # occs) =
     ssl_wanted truth (if opt_name (fst occ) = Some ''ssl'' then truth (snd occ) else d \<or> implies_ssl (fst occ)) occs"

lemmas ssl_table_defs = sslopt_longopts_def ssl_row_def

text \<open>The rows that say that they imply \<^verbatim>\<open>--ssl\<close> are those of the cases.\<close>

lemma implies_ssl_cases:
  assumes "ids_distinct i" "with_ssl b" "r \<in> set (sslopt_longopts b i)"
  shows "implies_ssl r \<longleftrightarrow> opt_id r \<in> {OPT_SSL_KEY i, OPT_SSL_CERT i, OPT_SSL_CA i, OPT_SSL_CAPATH i, OPT_SSL_CIPHER i}"
    and "opt_name r = Some ''ssl'' \<longleftrightarrow> opt_value r = Some Opt_use_ssl"
    and "opt_name r = Some ''ssl'' \<Longrightarrow> opt_id r = OPT_SSL_SSL i"
  using assms by (auto simp: ssl_table_defs ids_distinct_def implies_ssl_def split: if_splits)

lemma one_option_use_ssl:
  assumes "ids_distinct i" "with_ssl b" "store_contract truth store" "fst occ \<in> set (sslopt_longopts b i)"
    and "opt_use_ssl vars = of_bool d"
  shows "opt_use_ssl (one_option b i store occ vars) =
    of_bool (if opt_name (fst occ) = Some ''ssl'' then truth (snd occ) else d \<or> implies_ssl (fst occ))"
proof -
  note row = implies_ssl_cases [OF assms(1,2,4)]
  have "OPT_SSL_SSL i \<notin> {OPT_SSL_KEY i, OPT_SSL_CERT i, OPT_SSL_CA i, OPT_SSL_CAPATH i, OPT_SSL_CIPHER i}"
    using assms(1) by (auto simp: ids_distinct_def)
  with row assms(2,3,5) show ?thesis
    by (auto simp: one_option_def sslopt_case_def store_contract_def)
qed

section \<open>Properties\<close>

text \<open>C24: in a build with encryption, on a command line with any sequence of these options, encryption is used exactly as the texts of the single options say: an option whose own comment says that it
  implies \<^verbatim>\<open>--ssl\<close> turns it on, \<^verbatim>\<open>--ssl\<close> sets it to its argument, so that it can be turned off after such an option, and the
  last of these options decides.  \<^verbatim>\<open>--ssl-verify-server-cert\<close>, whose text says nothing of \<^verbatim>\<open>--ssl\<close>, does not turn it on, against the comment in \<^verbatim>\<open>sslopt-case.h\<close>, by which any of
  these options does, and the text of \<^verbatim>\<open>--ssl\<close>, by which encryption is enabled with the other ones.\<close>
theorem last_ssl_option_decides:
  assumes "ids_distinct i" "with_ssl b" "store_contract truth store" "fst ` set occs \<subseteq> set (sslopt_longopts b i)"
  shows "opt_use_ssl (command_line b i store occs ssl_vars_init) = of_bool (ssl_wanted truth False occs)"
proof -
  have "opt_use_ssl (command_line b i store occs vars) = of_bool (ssl_wanted truth d occs)"
    if "opt_use_ssl vars = of_bool d" "fst ` set occs \<subseteq> set (sslopt_longopts b i)" for vars d occs
    using that
  proof (induction occs arbitrary: vars d)
    case Nil
    then show ?case by (simp add: command_line_def)
  next
    case (Cons occ occs)
    from Cons.prems have "fst occ \<in> set (sslopt_longopts b i)" by simp
    from Cons.IH [OF one_option_use_ssl [OF assms(1-3) this Cons.prems(1)]] Cons.prems(2)
    show ?case by (simp add: command_line_def)
  qed
  from this [of ssl_vars_init False occs] assms(4) show ?thesis by (simp add: ssl_vars_init_def)
qed

definition sample_ids :: ssl_ids where
  "sample_ids = \<lparr>OPT_SSL_SSL = 300, OPT_SSL_CA = 301, OPT_SSL_CAPATH = 302, OPT_SSL_CERT = 303, OPT_SSL_CIPHER = 304, OPT_SSL_KEY = 305,
     OPT_SSL_VERIFY_SERVER_CERT = 306\<rparr>"

definition client_build :: ssl_build where
  "client_build = \<lparr>HAVE_OPENSSL = True, EMBEDDED_LIBRARY = False, MYSQL_CLIENT = True\<rparr>"

definition sample_store :: "ssl_var my_option \<Rightarrow> addr \<Rightarrow> ssl_vars \<Rightarrow> ssl_vars" where
  "sample_store r a vars = (case opt_value r of
     Some Opt_use_ssl \<Rightarrow> vars\<lparr>opt_use_ssl := of_bool (a \<noteq> 0)\<rparr>
   | Some Opt_ssl_ca \<Rightarrow> vars\<lparr>opt_ssl_ca := a\<rparr>
   | Some Opt_ssl_capath \<Rightarrow> vars\<lparr>opt_ssl_capath := a\<rparr>
   | Some Opt_ssl_cert \<Rightarrow> vars\<lparr>opt_ssl_cert := a\<rparr>
   | Some Opt_ssl_cipher \<Rightarrow> vars\<lparr>opt_ssl_cipher := a\<rparr>
   | Some Opt_ssl_key \<Rightarrow> vars\<lparr>opt_ssl_key := a\<rparr>
   | Some Opt_ssl_verify_server_cert \<Rightarrow> vars\<lparr>opt_ssl_verify_server_cert := of_bool (a \<noteq> 0)\<rparr>
   | None \<Rightarrow> vars)"

text \<open>A key, then \<^verbatim>\<open>--ssl=0\<close>, then the check of the server's certificate.\<close>
theorem last_ssl_option_decides_witness:
  "let rows = sslopt_longopts client_build sample_ids in
   opt_use_ssl (command_line client_build sample_ids sample_store [(rows ! 5, 77)] ssl_vars_init) = 1 \<and>
   opt_use_ssl (command_line client_build sample_ids sample_store [(rows ! 5, 77), (rows ! 0, 0), (rows ! 6, 1)] ssl_vars_init) = 0"
proof -
  let ?rows = "sslopt_longopts client_build sample_ids"
  have ids: "ids_distinct sample_ids" by (simp add: ids_distinct_def sample_ids_def)
  have ssl: "with_ssl client_build" by (simp add: with_ssl_def client_build_def)
  have store: "store_contract (\<lambda>a. a \<noteq> 0) sample_store"
    by (auto simp: store_contract_def sample_store_def split: option.split ssl_var.split)
  have len: "length ?rows = 7" using ssl by (simp add: sslopt_longopts_def client_build_def)
  then have rows: "?rows ! 5 \<in> set ?rows" "?rows ! 0 \<in> set ?rows" "?rows ! 6 \<in> set ?rows" by simp_all
  have "ssl_wanted (\<lambda>a. a \<noteq> 0) False [(?rows ! 5, 77)]"
    "\<not> ssl_wanted (\<lambda>a. a \<noteq> 0) False [(?rows ! 5, 77), (?rows ! 0, 0), (?rows ! 6, 1)]"
    using ssl by (simp_all add: ssl_table_defs client_build_def implies_ssl_def)
  with last_ssl_option_decides [OF ids ssl store, of "[(?rows ! 5, 77)]"]
    last_ssl_option_decides [OF ids ssl store, of "[(?rows ! 5, 77), (?rows ! 0, 0), (?rows ! 6, 1)]"] rows
  show ?thesis by (simp add: Let_def)
qed

end
