(* ===== verification/Error_Codes.thy ===== *)
theory Error_Codes
  imports Mysql_Prelude
begin

text \<open>
  The error numbers of the server (\<^verbatim>\<open>mysqld_error.h\<close>) and the SQL states that go with them
  (\<^verbatim>\<open>sql_state.h\<close>).  A macro of the first file is a constant; a row of the second is a constant with its state and, where ODBC has
  one of its own, the ODBC state.
\<close>

section \<open>Error numbers\<close>

definition ER_ERROR_FIRST :: nat where "ER_ERROR_FIRST = 1000"
definition ER_HASHCHK :: nat where "ER_HASHCHK = 1000"
definition ER_NISAMCHK :: nat where "ER_NISAMCHK = 1001"
definition ER_NO :: nat where "ER_NO = 1002"
definition ER_YES :: nat where "ER_YES = 1003"
definition ER_CANT_CREATE_FILE :: nat where "ER_CANT_CREATE_FILE = 1004"
definition ER_CANT_CREATE_TABLE :: nat where "ER_CANT_CREATE_TABLE = 1005"
definition ER_CANT_CREATE_DB :: nat where "ER_CANT_CREATE_DB = 1006"
definition ER_DB_CREATE_EXISTS :: nat where "ER_DB_CREATE_EXISTS = 1007"
definition ER_DB_DROP_EXISTS :: nat where "ER_DB_DROP_EXISTS = 1008"
definition ER_DB_DROP_DELETE :: nat where "ER_DB_DROP_DELETE = 1009"
definition ER_DB_DROP_RMDIR :: nat where "ER_DB_DROP_RMDIR = 1010"
definition ER_CANT_DELETE_FILE :: nat where "ER_CANT_DELETE_FILE = 1011"
definition ER_CANT_FIND_SYSTEM_REC :: nat where "ER_CANT_FIND_SYSTEM_REC = 1012"
definition ER_CANT_GET_STAT :: nat where "ER_CANT_GET_STAT = 1013"
definition ER_CANT_GET_WD :: nat where "ER_CANT_GET_WD = 1014"
definition ER_CANT_LOCK :: nat where "ER_CANT_LOCK = 1015"
definition ER_CANT_OPEN_FILE :: nat where "ER_CANT_OPEN_FILE = 1016"
definition ER_FILE_NOT_FOUND :: nat where "ER_FILE_NOT_FOUND = 1017"
definition ER_CANT_READ_DIR :: nat where "ER_CANT_READ_DIR = 1018"
definition ER_CANT_SET_WD :: nat where "ER_CANT_SET_WD = 1019"
definition ER_CHECKREAD :: nat where "ER_CHECKREAD = 1020"
definition ER_DISK_FULL :: nat where "ER_DISK_FULL = 1021"
definition ER_DUP_KEY :: nat where "ER_DUP_KEY = 1022"
definition ER_ERROR_ON_CLOSE :: nat where "ER_ERROR_ON_CLOSE = 1023"
definition ER_ERROR_ON_READ :: nat where "ER_ERROR_ON_READ = 1024"
definition ER_ERROR_ON_RENAME :: nat where "ER_ERROR_ON_RENAME = 1025"
definition ER_ERROR_ON_WRITE :: nat where "ER_ERROR_ON_WRITE = 1026"
definition ER_FILE_USED :: nat where "ER_FILE_USED = 1027"
definition ER_FILSORT_ABORT :: nat where "ER_FILSORT_ABORT = 1028"
definition ER_FORM_NOT_FOUND :: nat where "ER_FORM_NOT_FOUND = 1029"
definition ER_GET_ERRNO :: nat where "ER_GET_ERRNO = 1030"
definition ER_ILLEGAL_HA :: nat where "ER_ILLEGAL_HA = 1031"
definition ER_KEY_NOT_FOUND :: nat where "ER_KEY_NOT_FOUND = 1032"
definition ER_NOT_FORM_FILE :: nat where "ER_NOT_FORM_FILE = 1033"
definition ER_NOT_KEYFILE :: nat where "ER_NOT_KEYFILE = 1034"
definition ER_OLD_KEYFILE :: nat where "ER_OLD_KEYFILE = 1035"
definition ER_OPEN_AS_READONLY :: nat where "ER_OPEN_AS_READONLY = 1036"
definition ER_OUTOFMEMORY :: nat where "ER_OUTOFMEMORY = 1037"
definition ER_OUT_OF_SORTMEMORY :: nat where "ER_OUT_OF_SORTMEMORY = 1038"
definition ER_UNEXPECTED_EOF :: nat where "ER_UNEXPECTED_EOF = 1039"
definition ER_CON_COUNT_ERROR :: nat where "ER_CON_COUNT_ERROR = 1040"
definition ER_OUT_OF_RESOURCES :: nat where "ER_OUT_OF_RESOURCES = 1041"
definition ER_BAD_HOST_ERROR :: nat where "ER_BAD_HOST_ERROR = 1042"
definition ER_HANDSHAKE_ERROR :: nat where "ER_HANDSHAKE_ERROR = 1043"
definition ER_DBACCESS_DENIED_ERROR :: nat where "ER_DBACCESS_DENIED_ERROR = 1044"
definition ER_ACCESS_DENIED_ERROR :: nat where "ER_ACCESS_DENIED_ERROR = 1045"
definition ER_NO_DB_ERROR :: nat where "ER_NO_DB_ERROR = 1046"
definition ER_UNKNOWN_COM_ERROR :: nat where "ER_UNKNOWN_COM_ERROR = 1047"
definition ER_BAD_NULL_ERROR :: nat where "ER_BAD_NULL_ERROR = 1048"
definition ER_BAD_DB_ERROR :: nat where "ER_BAD_DB_ERROR = 1049"
definition ER_TABLE_EXISTS_ERROR :: nat where "ER_TABLE_EXISTS_ERROR = 1050"
definition ER_BAD_TABLE_ERROR :: nat where "ER_BAD_TABLE_ERROR = 1051"
definition ER_NON_UNIQ_ERROR :: nat where "ER_NON_UNIQ_ERROR = 1052"
definition ER_SERVER_SHUTDOWN :: nat where "ER_SERVER_SHUTDOWN = 1053"
definition ER_BAD_FIELD_ERROR :: nat where "ER_BAD_FIELD_ERROR = 1054"
definition ER_WRONG_FIELD_WITH_GROUP :: nat where "ER_WRONG_FIELD_WITH_GROUP = 1055"
definition ER_WRONG_GROUP_FIELD :: nat where "ER_WRONG_GROUP_FIELD = 1056"
definition ER_WRONG_SUM_SELECT :: nat where "ER_WRONG_SUM_SELECT = 1057"
definition ER_WRONG_VALUE_COUNT :: nat where "ER_WRONG_VALUE_COUNT = 1058"
definition ER_TOO_LONG_IDENT :: nat where "ER_TOO_LONG_IDENT = 1059"
definition ER_DUP_FIELDNAME :: nat where "ER_DUP_FIELDNAME = 1060"
definition ER_DUP_KEYNAME :: nat where "ER_DUP_KEYNAME = 1061"
definition ER_DUP_ENTRY :: nat where "ER_DUP_ENTRY = 1062"
definition ER_WRONG_FIELD_SPEC :: nat where "ER_WRONG_FIELD_SPEC = 1063"
definition ER_PARSE_ERROR :: nat where "ER_PARSE_ERROR = 1064"
definition ER_EMPTY_QUERY :: nat where "ER_EMPTY_QUERY = 1065"
definition ER_NONUNIQ_TABLE :: nat where "ER_NONUNIQ_TABLE = 1066"
definition ER_INVALID_DEFAULT :: nat where "ER_INVALID_DEFAULT = 1067"
definition ER_MULTIPLE_PRI_KEY :: nat where "ER_MULTIPLE_PRI_KEY = 1068"
definition ER_TOO_MANY_KEYS :: nat where "ER_TOO_MANY_KEYS = 1069"
definition ER_TOO_MANY_KEY_PARTS :: nat where "ER_TOO_MANY_KEY_PARTS = 1070"
definition ER_TOO_LONG_KEY :: nat where "ER_TOO_LONG_KEY = 1071"
definition ER_KEY_COLUMN_DOES_NOT_EXITS :: nat where "ER_KEY_COLUMN_DOES_NOT_EXITS = 1072"
definition ER_BLOB_USED_AS_KEY :: nat where "ER_BLOB_USED_AS_KEY = 1073"
definition ER_TOO_BIG_FIELDLENGTH :: nat where "ER_TOO_BIG_FIELDLENGTH = 1074"
definition ER_WRONG_AUTO_KEY :: nat where "ER_WRONG_AUTO_KEY = 1075"
definition ER_READY :: nat where "ER_READY = 1076"
definition ER_NORMAL_SHUTDOWN :: nat where "ER_NORMAL_SHUTDOWN = 1077"
definition ER_GOT_SIGNAL :: nat where "ER_GOT_SIGNAL = 1078"
definition ER_SHUTDOWN_COMPLETE :: nat where "ER_SHUTDOWN_COMPLETE = 1079"
definition ER_FORCING_CLOSE :: nat where "ER_FORCING_CLOSE = 1080"
definition ER_IPSOCK_ERROR :: nat where "ER_IPSOCK_ERROR = 1081"
definition ER_NO_SUCH_INDEX :: nat where "ER_NO_SUCH_INDEX = 1082"
definition ER_WRONG_FIELD_TERMINATORS :: nat where "ER_WRONG_FIELD_TERMINATORS = 1083"
definition ER_BLOBS_AND_NO_TERMINATED :: nat where "ER_BLOBS_AND_NO_TERMINATED = 1084"
definition ER_TEXTFILE_NOT_READABLE :: nat where "ER_TEXTFILE_NOT_READABLE = 1085"
definition ER_FILE_EXISTS_ERROR :: nat where "ER_FILE_EXISTS_ERROR = 1086"
definition ER_LOAD_INFO :: nat where "ER_LOAD_INFO = 1087"
definition ER_ALTER_INFO :: nat where "ER_ALTER_INFO = 1088"
definition ER_WRONG_SUB_KEY :: nat where "ER_WRONG_SUB_KEY = 1089"
definition ER_CANT_REMOVE_ALL_FIELDS :: nat where "ER_CANT_REMOVE_ALL_FIELDS = 1090"
definition ER_CANT_DROP_FIELD_OR_KEY :: nat where "ER_CANT_DROP_FIELD_OR_KEY = 1091"
definition ER_INSERT_INFO :: nat where "ER_INSERT_INFO = 1092"
definition ER_UPDATE_TABLE_USED :: nat where "ER_UPDATE_TABLE_USED = 1093"
definition ER_NO_SUCH_THREAD :: nat where "ER_NO_SUCH_THREAD = 1094"
definition ER_KILL_DENIED_ERROR :: nat where "ER_KILL_DENIED_ERROR = 1095"
definition ER_NO_TABLES_USED :: nat where "ER_NO_TABLES_USED = 1096"
definition ER_TOO_BIG_SET :: nat where "ER_TOO_BIG_SET = 1097"
definition ER_NO_UNIQUE_LOGFILE :: nat where "ER_NO_UNIQUE_LOGFILE = 1098"
definition ER_TABLE_NOT_LOCKED_FOR_WRITE :: nat where "ER_TABLE_NOT_LOCKED_FOR_WRITE = 1099"
definition ER_TABLE_NOT_LOCKED :: nat where "ER_TABLE_NOT_LOCKED = 1100"
definition ER_BLOB_CANT_HAVE_DEFAULT :: nat where "ER_BLOB_CANT_HAVE_DEFAULT = 1101"
definition ER_WRONG_DB_NAME :: nat where "ER_WRONG_DB_NAME = 1102"
definition ER_WRONG_TABLE_NAME :: nat where "ER_WRONG_TABLE_NAME = 1103"
definition ER_TOO_BIG_SELECT :: nat where "ER_TOO_BIG_SELECT = 1104"
definition ER_UNKNOWN_ERROR :: nat where "ER_UNKNOWN_ERROR = 1105"
definition ER_UNKNOWN_PROCEDURE :: nat where "ER_UNKNOWN_PROCEDURE = 1106"
definition ER_WRONG_PARAMCOUNT_TO_PROCEDURE :: nat where "ER_WRONG_PARAMCOUNT_TO_PROCEDURE = 1107"
definition ER_WRONG_PARAMETERS_TO_PROCEDURE :: nat where "ER_WRONG_PARAMETERS_TO_PROCEDURE = 1108"
definition ER_UNKNOWN_TABLE :: nat where "ER_UNKNOWN_TABLE = 1109"
definition ER_FIELD_SPECIFIED_TWICE :: nat where "ER_FIELD_SPECIFIED_TWICE = 1110"
definition ER_INVALID_GROUP_FUNC_USE :: nat where "ER_INVALID_GROUP_FUNC_USE = 1111"
definition ER_UNSUPPORTED_EXTENSION :: nat where "ER_UNSUPPORTED_EXTENSION = 1112"
definition ER_TABLE_MUST_HAVE_COLUMNS :: nat where "ER_TABLE_MUST_HAVE_COLUMNS = 1113"
definition ER_RECORD_FILE_FULL :: nat where "ER_RECORD_FILE_FULL = 1114"
definition ER_UNKNOWN_CHARACTER_SET :: nat where "ER_UNKNOWN_CHARACTER_SET = 1115"
definition ER_TOO_MANY_TABLES :: nat where "ER_TOO_MANY_TABLES = 1116"
definition ER_TOO_MANY_FIELDS :: nat where "ER_TOO_MANY_FIELDS = 1117"
definition ER_TOO_BIG_ROWSIZE :: nat where "ER_TOO_BIG_ROWSIZE = 1118"
definition ER_STACK_OVERRUN :: nat where "ER_STACK_OVERRUN = 1119"
definition ER_WRONG_OUTER_JOIN :: nat where "ER_WRONG_OUTER_JOIN = 1120"
definition ER_NULL_COLUMN_IN_INDEX :: nat where "ER_NULL_COLUMN_IN_INDEX = 1121"
definition ER_CANT_FIND_UDF :: nat where "ER_CANT_FIND_UDF = 1122"
definition ER_CANT_INITIALIZE_UDF :: nat where "ER_CANT_INITIALIZE_UDF = 1123"
definition ER_UDF_NO_PATHS :: nat where "ER_UDF_NO_PATHS = 1124"
definition ER_UDF_EXISTS :: nat where "ER_UDF_EXISTS = 1125"
definition ER_CANT_OPEN_LIBRARY :: nat where "ER_CANT_OPEN_LIBRARY = 1126"
definition ER_CANT_FIND_DL_ENTRY :: nat where "ER_CANT_FIND_DL_ENTRY = 1127"
definition ER_FUNCTION_NOT_DEFINED :: nat where "ER_FUNCTION_NOT_DEFINED = 1128"
definition ER_HOST_IS_BLOCKED :: nat where "ER_HOST_IS_BLOCKED = 1129"
definition ER_HOST_NOT_PRIVILEGED :: nat where "ER_HOST_NOT_PRIVILEGED = 1130"
definition ER_PASSWORD_ANONYMOUS_USER :: nat where "ER_PASSWORD_ANONYMOUS_USER = 1131"
definition ER_PASSWORD_NOT_ALLOWED :: nat where "ER_PASSWORD_NOT_ALLOWED = 1132"
definition ER_PASSWORD_NO_MATCH :: nat where "ER_PASSWORD_NO_MATCH = 1133"
definition ER_UPDATE_INFO :: nat where "ER_UPDATE_INFO = 1134"
definition ER_CANT_CREATE_THREAD :: nat where "ER_CANT_CREATE_THREAD = 1135"
definition ER_WRONG_VALUE_COUNT_ON_ROW :: nat where "ER_WRONG_VALUE_COUNT_ON_ROW = 1136"
definition ER_CANT_REOPEN_TABLE :: nat where "ER_CANT_REOPEN_TABLE = 1137"
definition ER_INVALID_USE_OF_NULL :: nat where "ER_INVALID_USE_OF_NULL = 1138"
definition ER_REGEXP_ERROR :: nat where "ER_REGEXP_ERROR = 1139"
definition ER_MIX_OF_GROUP_FUNC_AND_FIELDS :: nat where "ER_MIX_OF_GROUP_FUNC_AND_FIELDS = 1140"
definition ER_NONEXISTING_GRANT :: nat where "ER_NONEXISTING_GRANT = 1141"
definition ER_TABLEACCESS_DENIED_ERROR :: nat where "ER_TABLEACCESS_DENIED_ERROR = 1142"
definition ER_COLUMNACCESS_DENIED_ERROR :: nat where "ER_COLUMNACCESS_DENIED_ERROR = 1143"
definition ER_ILLEGAL_GRANT_FOR_TABLE :: nat where "ER_ILLEGAL_GRANT_FOR_TABLE = 1144"
definition ER_GRANT_WRONG_HOST_OR_USER :: nat where "ER_GRANT_WRONG_HOST_OR_USER = 1145"
definition ER_NO_SUCH_TABLE :: nat where "ER_NO_SUCH_TABLE = 1146"
definition ER_NONEXISTING_TABLE_GRANT :: nat where "ER_NONEXISTING_TABLE_GRANT = 1147"
definition ER_NOT_ALLOWED_COMMAND :: nat where "ER_NOT_ALLOWED_COMMAND = 1148"
definition ER_SYNTAX_ERROR :: nat where "ER_SYNTAX_ERROR = 1149"
definition ER_DELAYED_CANT_CHANGE_LOCK :: nat where "ER_DELAYED_CANT_CHANGE_LOCK = 1150"
definition ER_TOO_MANY_DELAYED_THREADS :: nat where "ER_TOO_MANY_DELAYED_THREADS = 1151"
definition ER_ABORTING_CONNECTION :: nat where "ER_ABORTING_CONNECTION = 1152"
definition ER_NET_PACKET_TOO_LARGE :: nat where "ER_NET_PACKET_TOO_LARGE = 1153"
definition ER_NET_READ_ERROR_FROM_PIPE :: nat where "ER_NET_READ_ERROR_FROM_PIPE = 1154"
definition ER_NET_FCNTL_ERROR :: nat where "ER_NET_FCNTL_ERROR = 1155"
definition ER_NET_PACKETS_OUT_OF_ORDER :: nat where "ER_NET_PACKETS_OUT_OF_ORDER = 1156"
definition ER_NET_UNCOMPRESS_ERROR :: nat where "ER_NET_UNCOMPRESS_ERROR = 1157"
definition ER_NET_READ_ERROR :: nat where "ER_NET_READ_ERROR = 1158"
definition ER_NET_READ_INTERRUPTED :: nat where "ER_NET_READ_INTERRUPTED = 1159"
definition ER_NET_ERROR_ON_WRITE :: nat where "ER_NET_ERROR_ON_WRITE = 1160"
definition ER_NET_WRITE_INTERRUPTED :: nat where "ER_NET_WRITE_INTERRUPTED = 1161"
definition ER_TOO_LONG_STRING :: nat where "ER_TOO_LONG_STRING = 1162"
definition ER_TABLE_CANT_HANDLE_BLOB :: nat where "ER_TABLE_CANT_HANDLE_BLOB = 1163"
definition ER_TABLE_CANT_HANDLE_AUTO_INCREMENT :: nat where "ER_TABLE_CANT_HANDLE_AUTO_INCREMENT = 1164"
definition ER_DELAYED_INSERT_TABLE_LOCKED :: nat where "ER_DELAYED_INSERT_TABLE_LOCKED = 1165"
definition ER_WRONG_COLUMN_NAME :: nat where "ER_WRONG_COLUMN_NAME = 1166"
definition ER_WRONG_KEY_COLUMN :: nat where "ER_WRONG_KEY_COLUMN = 1167"
definition ER_WRONG_MRG_TABLE :: nat where "ER_WRONG_MRG_TABLE = 1168"
definition ER_DUP_UNIQUE :: nat where "ER_DUP_UNIQUE = 1169"
definition ER_BLOB_KEY_WITHOUT_LENGTH :: nat where "ER_BLOB_KEY_WITHOUT_LENGTH = 1170"
definition ER_PRIMARY_CANT_HAVE_NULL :: nat where "ER_PRIMARY_CANT_HAVE_NULL = 1171"
definition ER_TOO_MANY_ROWS :: nat where "ER_TOO_MANY_ROWS = 1172"
definition ER_REQUIRES_PRIMARY_KEY :: nat where "ER_REQUIRES_PRIMARY_KEY = 1173"
definition ER_NO_RAID_COMPILED :: nat where "ER_NO_RAID_COMPILED = 1174"
definition ER_UPDATE_WITHOUT_KEY_IN_SAFE_MODE :: nat where "ER_UPDATE_WITHOUT_KEY_IN_SAFE_MODE = 1175"
definition ER_KEY_DOES_NOT_EXITS :: nat where "ER_KEY_DOES_NOT_EXITS = 1176"
definition ER_CHECK_NO_SUCH_TABLE :: nat where "ER_CHECK_NO_SUCH_TABLE = 1177"
definition ER_CHECK_NOT_IMPLEMENTED :: nat where "ER_CHECK_NOT_IMPLEMENTED = 1178"
definition ER_CANT_DO_THIS_DURING_AN_TRANSACTION :: nat where "ER_CANT_DO_THIS_DURING_AN_TRANSACTION = 1179"
definition ER_ERROR_DURING_COMMIT :: nat where "ER_ERROR_DURING_COMMIT = 1180"
definition ER_ERROR_DURING_ROLLBACK :: nat where "ER_ERROR_DURING_ROLLBACK = 1181"
definition ER_ERROR_DURING_FLUSH_LOGS :: nat where "ER_ERROR_DURING_FLUSH_LOGS = 1182"
definition ER_ERROR_DURING_CHECKPOINT :: nat where "ER_ERROR_DURING_CHECKPOINT = 1183"
definition ER_NEW_ABORTING_CONNECTION :: nat where "ER_NEW_ABORTING_CONNECTION = 1184"
definition ER_DUMP_NOT_IMPLEMENTED :: nat where "ER_DUMP_NOT_IMPLEMENTED = 1185"
definition ER_FLUSH_MASTER_BINLOG_CLOSED :: nat where "ER_FLUSH_MASTER_BINLOG_CLOSED = 1186"
definition ER_INDEX_REBUILD :: nat where "ER_INDEX_REBUILD = 1187"
definition ER_MASTER :: nat where "ER_MASTER = 1188"
definition ER_MASTER_NET_READ :: nat where "ER_MASTER_NET_READ = 1189"
definition ER_MASTER_NET_WRITE :: nat where "ER_MASTER_NET_WRITE = 1190"
definition ER_FT_MATCHING_KEY_NOT_FOUND :: nat where "ER_FT_MATCHING_KEY_NOT_FOUND = 1191"
definition ER_LOCK_OR_ACTIVE_TRANSACTION :: nat where "ER_LOCK_OR_ACTIVE_TRANSACTION = 1192"
definition ER_UNKNOWN_SYSTEM_VARIABLE :: nat where "ER_UNKNOWN_SYSTEM_VARIABLE = 1193"
definition ER_CRASHED_ON_USAGE :: nat where "ER_CRASHED_ON_USAGE = 1194"
definition ER_CRASHED_ON_REPAIR :: nat where "ER_CRASHED_ON_REPAIR = 1195"
definition ER_WARNING_NOT_COMPLETE_ROLLBACK :: nat where "ER_WARNING_NOT_COMPLETE_ROLLBACK = 1196"
definition ER_TRANS_CACHE_FULL :: nat where "ER_TRANS_CACHE_FULL = 1197"
definition ER_SLAVE_MUST_STOP :: nat where "ER_SLAVE_MUST_STOP = 1198"
definition ER_SLAVE_NOT_RUNNING :: nat where "ER_SLAVE_NOT_RUNNING = 1199"
definition ER_BAD_SLAVE :: nat where "ER_BAD_SLAVE = 1200"
definition ER_MASTER_INFO :: nat where "ER_MASTER_INFO = 1201"
definition ER_SLAVE_THREAD :: nat where "ER_SLAVE_THREAD = 1202"
definition ER_TOO_MANY_USER_CONNECTIONS :: nat where "ER_TOO_MANY_USER_CONNECTIONS = 1203"
definition ER_SET_CONSTANTS_ONLY :: nat where "ER_SET_CONSTANTS_ONLY = 1204"
definition ER_LOCK_WAIT_TIMEOUT :: nat where "ER_LOCK_WAIT_TIMEOUT = 1205"
definition ER_LOCK_TABLE_FULL :: nat where "ER_LOCK_TABLE_FULL = 1206"
definition ER_READ_ONLY_TRANSACTION :: nat where "ER_READ_ONLY_TRANSACTION = 1207"
definition ER_DROP_DB_WITH_READ_LOCK :: nat where "ER_DROP_DB_WITH_READ_LOCK = 1208"
definition ER_CREATE_DB_WITH_READ_LOCK :: nat where "ER_CREATE_DB_WITH_READ_LOCK = 1209"
definition ER_WRONG_ARGUMENTS :: nat where "ER_WRONG_ARGUMENTS = 1210"
definition ER_NO_PERMISSION_TO_CREATE_USER :: nat where "ER_NO_PERMISSION_TO_CREATE_USER = 1211"
definition ER_UNION_TABLES_IN_DIFFERENT_DIR :: nat where "ER_UNION_TABLES_IN_DIFFERENT_DIR = 1212"
definition ER_LOCK_DEADLOCK :: nat where "ER_LOCK_DEADLOCK = 1213"
definition ER_TABLE_CANT_HANDLE_FT :: nat where "ER_TABLE_CANT_HANDLE_FT = 1214"
definition ER_CANNOT_ADD_FOREIGN :: nat where "ER_CANNOT_ADD_FOREIGN = 1215"
definition ER_NO_REFERENCED_ROW :: nat where "ER_NO_REFERENCED_ROW = 1216"
definition ER_ROW_IS_REFERENCED :: nat where "ER_ROW_IS_REFERENCED = 1217"
definition ER_CONNECT_TO_MASTER :: nat where "ER_CONNECT_TO_MASTER = 1218"
definition ER_QUERY_ON_MASTER :: nat where "ER_QUERY_ON_MASTER = 1219"
definition ER_ERROR_WHEN_EXECUTING_COMMAND :: nat where "ER_ERROR_WHEN_EXECUTING_COMMAND = 1220"
definition ER_WRONG_USAGE :: nat where "ER_WRONG_USAGE = 1221"
definition ER_WRONG_NUMBER_OF_COLUMNS_IN_SELECT :: nat where "ER_WRONG_NUMBER_OF_COLUMNS_IN_SELECT = 1222"
definition ER_CANT_UPDATE_WITH_READLOCK :: nat where "ER_CANT_UPDATE_WITH_READLOCK = 1223"
definition ER_MIXING_NOT_ALLOWED :: nat where "ER_MIXING_NOT_ALLOWED = 1224"
definition ER_DUP_ARGUMENT :: nat where "ER_DUP_ARGUMENT = 1225"
definition ER_USER_LIMIT_REACHED :: nat where "ER_USER_LIMIT_REACHED = 1226"
definition ER_SPECIFIC_ACCESS_DENIED_ERROR :: nat where "ER_SPECIFIC_ACCESS_DENIED_ERROR = 1227"
definition ER_LOCAL_VARIABLE :: nat where "ER_LOCAL_VARIABLE = 1228"
definition ER_GLOBAL_VARIABLE :: nat where "ER_GLOBAL_VARIABLE = 1229"
definition ER_NO_DEFAULT :: nat where "ER_NO_DEFAULT = 1230"
definition ER_WRONG_VALUE_FOR_VAR :: nat where "ER_WRONG_VALUE_FOR_VAR = 1231"
definition ER_WRONG_TYPE_FOR_VAR :: nat where "ER_WRONG_TYPE_FOR_VAR = 1232"
definition ER_VAR_CANT_BE_READ :: nat where "ER_VAR_CANT_BE_READ = 1233"
definition ER_CANT_USE_OPTION_HERE :: nat where "ER_CANT_USE_OPTION_HERE = 1234"
definition ER_NOT_SUPPORTED_YET :: nat where "ER_NOT_SUPPORTED_YET = 1235"
definition ER_MASTER_FATAL_ERROR_READING_BINLOG :: nat where "ER_MASTER_FATAL_ERROR_READING_BINLOG = 1236"
definition ER_SLAVE_IGNORED_TABLE :: nat where "ER_SLAVE_IGNORED_TABLE = 1237"
definition ER_INCORRECT_GLOBAL_LOCAL_VAR :: nat where "ER_INCORRECT_GLOBAL_LOCAL_VAR = 1238"
definition ER_WRONG_FK_DEF :: nat where "ER_WRONG_FK_DEF = 1239"
definition ER_KEY_REF_DO_NOT_MATCH_TABLE_REF :: nat where "ER_KEY_REF_DO_NOT_MATCH_TABLE_REF = 1240"
definition ER_OPERAND_COLUMNS :: nat where "ER_OPERAND_COLUMNS = 1241"
definition ER_SUBQUERY_NO_1_ROW :: nat where "ER_SUBQUERY_NO_1_ROW = 1242"
definition ER_UNKNOWN_STMT_HANDLER :: nat where "ER_UNKNOWN_STMT_HANDLER = 1243"
definition ER_CORRUPT_HELP_DB :: nat where "ER_CORRUPT_HELP_DB = 1244"
definition ER_CYCLIC_REFERENCE :: nat where "ER_CYCLIC_REFERENCE = 1245"
definition ER_AUTO_CONVERT :: nat where "ER_AUTO_CONVERT = 1246"
definition ER_ILLEGAL_REFERENCE :: nat where "ER_ILLEGAL_REFERENCE = 1247"
definition ER_DERIVED_MUST_HAVE_ALIAS :: nat where "ER_DERIVED_MUST_HAVE_ALIAS = 1248"
definition ER_SELECT_REDUCED :: nat where "ER_SELECT_REDUCED = 1249"
definition ER_TABLENAME_NOT_ALLOWED_HERE :: nat where "ER_TABLENAME_NOT_ALLOWED_HERE = 1250"
definition ER_NOT_SUPPORTED_AUTH_MODE :: nat where "ER_NOT_SUPPORTED_AUTH_MODE = 1251"
definition ER_SPATIAL_CANT_HAVE_NULL :: nat where "ER_SPATIAL_CANT_HAVE_NULL = 1252"
definition ER_COLLATION_CHARSET_MISMATCH :: nat where "ER_COLLATION_CHARSET_MISMATCH = 1253"
definition ER_SLAVE_WAS_RUNNING :: nat where "ER_SLAVE_WAS_RUNNING = 1254"
definition ER_SLAVE_WAS_NOT_RUNNING :: nat where "ER_SLAVE_WAS_NOT_RUNNING = 1255"
definition ER_TOO_BIG_FOR_UNCOMPRESS :: nat where "ER_TOO_BIG_FOR_UNCOMPRESS = 1256"
definition ER_ZLIB_Z_MEM_ERROR :: nat where "ER_ZLIB_Z_MEM_ERROR = 1257"
definition ER_ZLIB_Z_BUF_ERROR :: nat where "ER_ZLIB_Z_BUF_ERROR = 1258"
definition ER_ZLIB_Z_DATA_ERROR :: nat where "ER_ZLIB_Z_DATA_ERROR = 1259"
definition ER_CUT_VALUE_GROUP_CONCAT :: nat where "ER_CUT_VALUE_GROUP_CONCAT = 1260"
definition ER_WARN_TOO_FEW_RECORDS :: nat where "ER_WARN_TOO_FEW_RECORDS = 1261"
definition ER_WARN_TOO_MANY_RECORDS :: nat where "ER_WARN_TOO_MANY_RECORDS = 1262"
definition ER_WARN_NULL_TO_NOTNULL :: nat where "ER_WARN_NULL_TO_NOTNULL = 1263"
definition ER_WARN_DATA_OUT_OF_RANGE :: nat where "ER_WARN_DATA_OUT_OF_RANGE = 1264"
definition WARN_DATA_TRUNCATED :: nat where "WARN_DATA_TRUNCATED = 1265"
definition ER_WARN_USING_OTHER_HANDLER :: nat where "ER_WARN_USING_OTHER_HANDLER = 1266"
definition ER_CANT_AGGREGATE_2COLLATIONS :: nat where "ER_CANT_AGGREGATE_2COLLATIONS = 1267"
definition ER_DROP_USER :: nat where "ER_DROP_USER = 1268"
definition ER_REVOKE_GRANTS :: nat where "ER_REVOKE_GRANTS = 1269"
definition ER_CANT_AGGREGATE_3COLLATIONS :: nat where "ER_CANT_AGGREGATE_3COLLATIONS = 1270"
definition ER_CANT_AGGREGATE_NCOLLATIONS :: nat where "ER_CANT_AGGREGATE_NCOLLATIONS = 1271"
definition ER_VARIABLE_IS_NOT_STRUCT :: nat where "ER_VARIABLE_IS_NOT_STRUCT = 1272"
definition ER_UNKNOWN_COLLATION :: nat where "ER_UNKNOWN_COLLATION = 1273"
definition ER_SLAVE_IGNORED_SSL_PARAMS :: nat where "ER_SLAVE_IGNORED_SSL_PARAMS = 1274"
definition ER_SERVER_IS_IN_SECURE_AUTH_MODE :: nat where "ER_SERVER_IS_IN_SECURE_AUTH_MODE = 1275"
definition ER_WARN_FIELD_RESOLVED :: nat where "ER_WARN_FIELD_RESOLVED = 1276"
definition ER_BAD_SLAVE_UNTIL_COND :: nat where "ER_BAD_SLAVE_UNTIL_COND = 1277"
definition ER_MISSING_SKIP_SLAVE :: nat where "ER_MISSING_SKIP_SLAVE = 1278"
definition ER_UNTIL_COND_IGNORED :: nat where "ER_UNTIL_COND_IGNORED = 1279"
definition ER_WRONG_NAME_FOR_INDEX :: nat where "ER_WRONG_NAME_FOR_INDEX = 1280"
definition ER_WRONG_NAME_FOR_CATALOG :: nat where "ER_WRONG_NAME_FOR_CATALOG = 1281"
definition ER_WARN_QC_RESIZE :: nat where "ER_WARN_QC_RESIZE = 1282"
definition ER_BAD_FT_COLUMN :: nat where "ER_BAD_FT_COLUMN = 1283"
definition ER_UNKNOWN_KEY_CACHE :: nat where "ER_UNKNOWN_KEY_CACHE = 1284"
definition ER_WARN_HOSTNAME_WONT_WORK :: nat where "ER_WARN_HOSTNAME_WONT_WORK = 1285"
definition ER_UNKNOWN_STORAGE_ENGINE :: nat where "ER_UNKNOWN_STORAGE_ENGINE = 1286"
definition ER_WARN_DEPRECATED_SYNTAX :: nat where "ER_WARN_DEPRECATED_SYNTAX = 1287"
definition ER_NON_UPDATABLE_TABLE :: nat where "ER_NON_UPDATABLE_TABLE = 1288"
definition ER_FEATURE_DISABLED :: nat where "ER_FEATURE_DISABLED = 1289"
definition ER_OPTION_PREVENTS_STATEMENT :: nat where "ER_OPTION_PREVENTS_STATEMENT = 1290"
definition ER_DUPLICATED_VALUE_IN_TYPE :: nat where "ER_DUPLICATED_VALUE_IN_TYPE = 1291"
definition ER_TRUNCATED_WRONG_VALUE :: nat where "ER_TRUNCATED_WRONG_VALUE = 1292"
definition ER_TOO_MUCH_AUTO_TIMESTAMP_COLS :: nat where "ER_TOO_MUCH_AUTO_TIMESTAMP_COLS = 1293"
definition ER_INVALID_ON_UPDATE :: nat where "ER_INVALID_ON_UPDATE = 1294"
definition ER_UNSUPPORTED_PS :: nat where "ER_UNSUPPORTED_PS = 1295"
definition ER_GET_ERRMSG :: nat where "ER_GET_ERRMSG = 1296"
definition ER_GET_TEMPORARY_ERRMSG :: nat where "ER_GET_TEMPORARY_ERRMSG = 1297"
definition ER_UNKNOWN_TIME_ZONE :: nat where "ER_UNKNOWN_TIME_ZONE = 1298"
definition ER_WARN_INVALID_TIMESTAMP :: nat where "ER_WARN_INVALID_TIMESTAMP = 1299"
definition ER_INVALID_CHARACTER_STRING :: nat where "ER_INVALID_CHARACTER_STRING = 1300"
definition ER_WARN_ALLOWED_PACKET_OVERFLOWED :: nat where "ER_WARN_ALLOWED_PACKET_OVERFLOWED = 1301"
definition ER_CONFLICTING_DECLARATIONS :: nat where "ER_CONFLICTING_DECLARATIONS = 1302"
definition ER_SP_NO_RECURSIVE_CREATE :: nat where "ER_SP_NO_RECURSIVE_CREATE = 1303"
definition ER_SP_ALREADY_EXISTS :: nat where "ER_SP_ALREADY_EXISTS = 1304"
definition ER_SP_DOES_NOT_EXIST :: nat where "ER_SP_DOES_NOT_EXIST = 1305"
definition ER_SP_DROP_FAILED :: nat where "ER_SP_DROP_FAILED = 1306"
definition ER_SP_STORE_FAILED :: nat where "ER_SP_STORE_FAILED = 1307"
definition ER_SP_LILABEL_MISMATCH :: nat where "ER_SP_LILABEL_MISMATCH = 1308"
definition ER_SP_LABEL_REDEFINE :: nat where "ER_SP_LABEL_REDEFINE = 1309"
definition ER_SP_LABEL_MISMATCH :: nat where "ER_SP_LABEL_MISMATCH = 1310"
definition ER_SP_UNINIT_VAR :: nat where "ER_SP_UNINIT_VAR = 1311"
definition ER_SP_BADSELECT :: nat where "ER_SP_BADSELECT = 1312"
definition ER_SP_BADRETURN :: nat where "ER_SP_BADRETURN = 1313"
definition ER_SP_BADSTATEMENT :: nat where "ER_SP_BADSTATEMENT = 1314"
definition ER_UPDATE_LOG_DEPRECATED_IGNORED :: nat where "ER_UPDATE_LOG_DEPRECATED_IGNORED = 1315"
definition ER_UPDATE_LOG_DEPRECATED_TRANSLATED :: nat where "ER_UPDATE_LOG_DEPRECATED_TRANSLATED = 1316"
definition ER_QUERY_INTERRUPTED :: nat where "ER_QUERY_INTERRUPTED = 1317"
definition ER_SP_WRONG_NO_OF_ARGS :: nat where "ER_SP_WRONG_NO_OF_ARGS = 1318"
definition ER_SP_COND_MISMATCH :: nat where "ER_SP_COND_MISMATCH = 1319"
definition ER_SP_NORETURN :: nat where "ER_SP_NORETURN = 1320"
definition ER_SP_NORETURNEND :: nat where "ER_SP_NORETURNEND = 1321"
definition ER_SP_BAD_CURSOR_QUERY :: nat where "ER_SP_BAD_CURSOR_QUERY = 1322"
definition ER_SP_BAD_CURSOR_SELECT :: nat where "ER_SP_BAD_CURSOR_SELECT = 1323"
definition ER_SP_CURSOR_MISMATCH :: nat where "ER_SP_CURSOR_MISMATCH = 1324"
definition ER_SP_CURSOR_ALREADY_OPEN :: nat where "ER_SP_CURSOR_ALREADY_OPEN = 1325"
definition ER_SP_CURSOR_NOT_OPEN :: nat where "ER_SP_CURSOR_NOT_OPEN = 1326"
definition ER_SP_UNDECLARED_VAR :: nat where "ER_SP_UNDECLARED_VAR = 1327"
definition ER_SP_WRONG_NO_OF_FETCH_ARGS :: nat where "ER_SP_WRONG_NO_OF_FETCH_ARGS = 1328"
definition ER_SP_FETCH_NO_DATA :: nat where "ER_SP_FETCH_NO_DATA = 1329"
definition ER_SP_DUP_PARAM :: nat where "ER_SP_DUP_PARAM = 1330"
definition ER_SP_DUP_VAR :: nat where "ER_SP_DUP_VAR = 1331"
definition ER_SP_DUP_COND :: nat where "ER_SP_DUP_COND = 1332"
definition ER_SP_DUP_CURS :: nat where "ER_SP_DUP_CURS = 1333"
definition ER_SP_CANT_ALTER :: nat where "ER_SP_CANT_ALTER = 1334"
definition ER_SP_SUBSELECT_NYI :: nat where "ER_SP_SUBSELECT_NYI = 1335"
definition ER_STMT_NOT_ALLOWED_IN_SF_OR_TRG :: nat where "ER_STMT_NOT_ALLOWED_IN_SF_OR_TRG = 1336"
definition ER_SP_VARCOND_AFTER_CURSHNDLR :: nat where "ER_SP_VARCOND_AFTER_CURSHNDLR = 1337"
definition ER_SP_CURSOR_AFTER_HANDLER :: nat where "ER_SP_CURSOR_AFTER_HANDLER = 1338"
definition ER_SP_CASE_NOT_FOUND :: nat where "ER_SP_CASE_NOT_FOUND = 1339"
definition ER_FPARSER_TOO_BIG_FILE :: nat where "ER_FPARSER_TOO_BIG_FILE = 1340"
definition ER_FPARSER_BAD_HEADER :: nat where "ER_FPARSER_BAD_HEADER = 1341"
definition ER_FPARSER_EOF_IN_COMMENT :: nat where "ER_FPARSER_EOF_IN_COMMENT = 1342"
definition ER_FPARSER_ERROR_IN_PARAMETER :: nat where "ER_FPARSER_ERROR_IN_PARAMETER = 1343"
definition ER_FPARSER_EOF_IN_UNKNOWN_PARAMETER :: nat where "ER_FPARSER_EOF_IN_UNKNOWN_PARAMETER = 1344"
definition ER_VIEW_NO_EXPLAIN :: nat where "ER_VIEW_NO_EXPLAIN = 1345"
definition ER_FRM_UNKNOWN_TYPE :: nat where "ER_FRM_UNKNOWN_TYPE = 1346"
definition ER_WRONG_OBJECT :: nat where "ER_WRONG_OBJECT = 1347"
definition ER_NONUPDATEABLE_COLUMN :: nat where "ER_NONUPDATEABLE_COLUMN = 1348"
definition ER_VIEW_SELECT_DERIVED :: nat where "ER_VIEW_SELECT_DERIVED = 1349"
definition ER_VIEW_SELECT_CLAUSE :: nat where "ER_VIEW_SELECT_CLAUSE = 1350"
definition ER_VIEW_SELECT_VARIABLE :: nat where "ER_VIEW_SELECT_VARIABLE = 1351"
definition ER_VIEW_SELECT_TMPTABLE :: nat where "ER_VIEW_SELECT_TMPTABLE = 1352"
definition ER_VIEW_WRONG_LIST :: nat where "ER_VIEW_WRONG_LIST = 1353"
definition ER_WARN_VIEW_MERGE :: nat where "ER_WARN_VIEW_MERGE = 1354"
definition ER_WARN_VIEW_WITHOUT_KEY :: nat where "ER_WARN_VIEW_WITHOUT_KEY = 1355"
definition ER_VIEW_INVALID :: nat where "ER_VIEW_INVALID = 1356"
definition ER_SP_NO_DROP_SP :: nat where "ER_SP_NO_DROP_SP = 1357"
definition ER_SP_GOTO_IN_HNDLR :: nat where "ER_SP_GOTO_IN_HNDLR = 1358"
definition ER_TRG_ALREADY_EXISTS :: nat where "ER_TRG_ALREADY_EXISTS = 1359"
definition ER_TRG_DOES_NOT_EXIST :: nat where "ER_TRG_DOES_NOT_EXIST = 1360"
definition ER_TRG_ON_VIEW_OR_TEMP_TABLE :: nat where "ER_TRG_ON_VIEW_OR_TEMP_TABLE = 1361"
definition ER_TRG_CANT_CHANGE_ROW :: nat where "ER_TRG_CANT_CHANGE_ROW = 1362"
definition ER_TRG_NO_SUCH_ROW_IN_TRG :: nat where "ER_TRG_NO_SUCH_ROW_IN_TRG = 1363"
definition ER_NO_DEFAULT_FOR_FIELD :: nat where "ER_NO_DEFAULT_FOR_FIELD = 1364"
definition ER_DIVISION_BY_ZERO :: nat where "ER_DIVISION_BY_ZERO = 1365"
definition ER_TRUNCATED_WRONG_VALUE_FOR_FIELD :: nat where "ER_TRUNCATED_WRONG_VALUE_FOR_FIELD = 1366"
definition ER_ILLEGAL_VALUE_FOR_TYPE :: nat where "ER_ILLEGAL_VALUE_FOR_TYPE = 1367"
definition ER_VIEW_NONUPD_CHECK :: nat where "ER_VIEW_NONUPD_CHECK = 1368"
definition ER_VIEW_CHECK_FAILED :: nat where "ER_VIEW_CHECK_FAILED = 1369"
definition ER_PROCACCESS_DENIED_ERROR :: nat where "ER_PROCACCESS_DENIED_ERROR = 1370"
definition ER_RELAY_LOG_FAIL :: nat where "ER_RELAY_LOG_FAIL = 1371"
definition ER_PASSWD_LENGTH :: nat where "ER_PASSWD_LENGTH = 1372"
definition ER_UNKNOWN_TARGET_BINLOG :: nat where "ER_UNKNOWN_TARGET_BINLOG = 1373"
definition ER_IO_ERR_LOG_INDEX_READ :: nat where "ER_IO_ERR_LOG_INDEX_READ = 1374"
definition ER_BINLOG_PURGE_PROHIBITED :: nat where "ER_BINLOG_PURGE_PROHIBITED = 1375"
definition ER_FSEEK_FAIL :: nat where "ER_FSEEK_FAIL = 1376"
definition ER_BINLOG_PURGE_FATAL_ERR :: nat where "ER_BINLOG_PURGE_FATAL_ERR = 1377"
definition ER_LOG_IN_USE :: nat where "ER_LOG_IN_USE = 1378"
definition ER_LOG_PURGE_UNKNOWN_ERR :: nat where "ER_LOG_PURGE_UNKNOWN_ERR = 1379"
definition ER_RELAY_LOG_INIT :: nat where "ER_RELAY_LOG_INIT = 1380"
definition ER_NO_BINARY_LOGGING :: nat where "ER_NO_BINARY_LOGGING = 1381"
definition ER_RESERVED_SYNTAX :: nat where "ER_RESERVED_SYNTAX = 1382"
definition ER_WSAS_FAILED :: nat where "ER_WSAS_FAILED = 1383"
definition ER_DIFF_GROUPS_PROC :: nat where "ER_DIFF_GROUPS_PROC = 1384"
definition ER_NO_GROUP_FOR_PROC :: nat where "ER_NO_GROUP_FOR_PROC = 1385"
definition ER_ORDER_WITH_PROC :: nat where "ER_ORDER_WITH_PROC = 1386"
definition ER_LOGGING_PROHIBIT_CHANGING_OF :: nat where "ER_LOGGING_PROHIBIT_CHANGING_OF = 1387"
definition ER_NO_FILE_MAPPING :: nat where "ER_NO_FILE_MAPPING = 1388"
definition ER_WRONG_MAGIC :: nat where "ER_WRONG_MAGIC = 1389"
definition ER_PS_MANY_PARAM :: nat where "ER_PS_MANY_PARAM = 1390"
definition ER_KEY_PART_0 :: nat where "ER_KEY_PART_0 = 1391"
definition ER_VIEW_CHECKSUM :: nat where "ER_VIEW_CHECKSUM = 1392"
definition ER_VIEW_MULTIUPDATE :: nat where "ER_VIEW_MULTIUPDATE = 1393"
definition ER_VIEW_NO_INSERT_FIELD_LIST :: nat where "ER_VIEW_NO_INSERT_FIELD_LIST = 1394"
definition ER_VIEW_DELETE_MERGE_VIEW :: nat where "ER_VIEW_DELETE_MERGE_VIEW = 1395"
definition ER_CANNOT_USER :: nat where "ER_CANNOT_USER = 1396"
definition ER_XAER_NOTA :: nat where "ER_XAER_NOTA = 1397"
definition ER_XAER_INVAL :: nat where "ER_XAER_INVAL = 1398"
definition ER_XAER_RMFAIL :: nat where "ER_XAER_RMFAIL = 1399"
definition ER_XAER_OUTSIDE :: nat where "ER_XAER_OUTSIDE = 1400"
definition ER_XAER_RMERR :: nat where "ER_XAER_RMERR = 1401"
definition ER_XA_RBROLLBACK :: nat where "ER_XA_RBROLLBACK = 1402"
definition ER_NONEXISTING_PROC_GRANT :: nat where "ER_NONEXISTING_PROC_GRANT = 1403"
definition ER_PROC_AUTO_GRANT_FAIL :: nat where "ER_PROC_AUTO_GRANT_FAIL = 1404"
definition ER_PROC_AUTO_REVOKE_FAIL :: nat where "ER_PROC_AUTO_REVOKE_FAIL = 1405"
definition ER_DATA_TOO_LONG :: nat where "ER_DATA_TOO_LONG = 1406"
definition ER_SP_BAD_SQLSTATE :: nat where "ER_SP_BAD_SQLSTATE = 1407"
definition ER_STARTUP :: nat where "ER_STARTUP = 1408"
definition ER_LOAD_FROM_FIXED_SIZE_ROWS_TO_VAR :: nat where "ER_LOAD_FROM_FIXED_SIZE_ROWS_TO_VAR = 1409"
definition ER_CANT_CREATE_USER_WITH_GRANT :: nat where "ER_CANT_CREATE_USER_WITH_GRANT = 1410"
definition ER_WRONG_VALUE_FOR_TYPE :: nat where "ER_WRONG_VALUE_FOR_TYPE = 1411"
definition ER_TABLE_DEF_CHANGED :: nat where "ER_TABLE_DEF_CHANGED = 1412"
definition ER_SP_DUP_HANDLER :: nat where "ER_SP_DUP_HANDLER = 1413"
definition ER_SP_NOT_VAR_ARG :: nat where "ER_SP_NOT_VAR_ARG = 1414"
definition ER_SP_NO_RETSET :: nat where "ER_SP_NO_RETSET = 1415"
definition ER_CANT_CREATE_GEOMETRY_OBJECT :: nat where "ER_CANT_CREATE_GEOMETRY_OBJECT = 1416"
definition ER_FAILED_ROUTINE_BREAK_BINLOG :: nat where "ER_FAILED_ROUTINE_BREAK_BINLOG = 1417"
definition ER_BINLOG_UNSAFE_ROUTINE :: nat where "ER_BINLOG_UNSAFE_ROUTINE = 1418"
definition ER_BINLOG_CREATE_ROUTINE_NEED_SUPER :: nat where "ER_BINLOG_CREATE_ROUTINE_NEED_SUPER = 1419"
definition ER_EXEC_STMT_WITH_OPEN_CURSOR :: nat where "ER_EXEC_STMT_WITH_OPEN_CURSOR = 1420"
definition ER_STMT_HAS_NO_OPEN_CURSOR :: nat where "ER_STMT_HAS_NO_OPEN_CURSOR = 1421"
definition ER_COMMIT_NOT_ALLOWED_IN_SF_OR_TRG :: nat where "ER_COMMIT_NOT_ALLOWED_IN_SF_OR_TRG = 1422"
definition ER_NO_DEFAULT_FOR_VIEW_FIELD :: nat where "ER_NO_DEFAULT_FOR_VIEW_FIELD = 1423"
definition ER_SP_NO_RECURSION :: nat where "ER_SP_NO_RECURSION = 1424"
definition ER_TOO_BIG_SCALE :: nat where "ER_TOO_BIG_SCALE = 1425"
definition ER_TOO_BIG_PRECISION :: nat where "ER_TOO_BIG_PRECISION = 1426"
definition ER_M_BIGGER_THAN_D :: nat where "ER_M_BIGGER_THAN_D = 1427"
definition ER_WRONG_LOCK_OF_SYSTEM_TABLE :: nat where "ER_WRONG_LOCK_OF_SYSTEM_TABLE = 1428"
definition ER_CONNECT_TO_FOREIGN_DATA_SOURCE :: nat where "ER_CONNECT_TO_FOREIGN_DATA_SOURCE = 1429"
definition ER_QUERY_ON_FOREIGN_DATA_SOURCE :: nat where "ER_QUERY_ON_FOREIGN_DATA_SOURCE = 1430"
definition ER_FOREIGN_DATA_SOURCE_DOESNT_EXIST :: nat where "ER_FOREIGN_DATA_SOURCE_DOESNT_EXIST = 1431"
definition ER_FOREIGN_DATA_STRING_INVALID_CANT_CREATE :: nat where "ER_FOREIGN_DATA_STRING_INVALID_CANT_CREATE = 1432"
definition ER_FOREIGN_DATA_STRING_INVALID :: nat where "ER_FOREIGN_DATA_STRING_INVALID = 1433"
definition ER_CANT_CREATE_FEDERATED_TABLE :: nat where "ER_CANT_CREATE_FEDERATED_TABLE = 1434"
definition ER_TRG_IN_WRONG_SCHEMA :: nat where "ER_TRG_IN_WRONG_SCHEMA = 1435"
definition ER_STACK_OVERRUN_NEED_MORE :: nat where "ER_STACK_OVERRUN_NEED_MORE = 1436"
definition ER_TOO_LONG_BODY :: nat where "ER_TOO_LONG_BODY = 1437"
definition ER_WARN_CANT_DROP_DEFAULT_KEYCACHE :: nat where "ER_WARN_CANT_DROP_DEFAULT_KEYCACHE = 1438"
definition ER_TOO_BIG_DISPLAYWIDTH :: nat where "ER_TOO_BIG_DISPLAYWIDTH = 1439"
definition ER_XAER_DUPID :: nat where "ER_XAER_DUPID = 1440"
definition ER_DATETIME_FUNCTION_OVERFLOW :: nat where "ER_DATETIME_FUNCTION_OVERFLOW = 1441"
definition ER_CANT_UPDATE_USED_TABLE_IN_SF_OR_TRG :: nat where "ER_CANT_UPDATE_USED_TABLE_IN_SF_OR_TRG = 1442"
definition ER_VIEW_PREVENT_UPDATE :: nat where "ER_VIEW_PREVENT_UPDATE = 1443"
definition ER_PS_NO_RECURSION :: nat where "ER_PS_NO_RECURSION = 1444"
definition ER_SP_CANT_SET_AUTOCOMMIT :: nat where "ER_SP_CANT_SET_AUTOCOMMIT = 1445"
definition ER_MALFORMED_DEFINER :: nat where "ER_MALFORMED_DEFINER = 1446"
definition ER_VIEW_FRM_NO_USER :: nat where "ER_VIEW_FRM_NO_USER = 1447"
definition ER_VIEW_OTHER_USER :: nat where "ER_VIEW_OTHER_USER = 1448"
definition ER_NO_SUCH_USER :: nat where "ER_NO_SUCH_USER = 1449"
definition ER_FORBID_SCHEMA_CHANGE :: nat where "ER_FORBID_SCHEMA_CHANGE = 1450"
definition ER_ROW_IS_REFERENCED_2 :: nat where "ER_ROW_IS_REFERENCED_2 = 1451"
definition ER_NO_REFERENCED_ROW_2 :: nat where "ER_NO_REFERENCED_ROW_2 = 1452"
definition ER_SP_BAD_VAR_SHADOW :: nat where "ER_SP_BAD_VAR_SHADOW = 1453"
definition ER_TRG_NO_DEFINER :: nat where "ER_TRG_NO_DEFINER = 1454"
definition ER_OLD_FILE_FORMAT :: nat where "ER_OLD_FILE_FORMAT = 1455"
definition ER_SP_RECURSION_LIMIT :: nat where "ER_SP_RECURSION_LIMIT = 1456"
definition ER_SP_PROC_TABLE_CORRUPT :: nat where "ER_SP_PROC_TABLE_CORRUPT = 1457"
definition ER_SP_WRONG_NAME :: nat where "ER_SP_WRONG_NAME = 1458"
definition ER_TABLE_NEEDS_UPGRADE :: nat where "ER_TABLE_NEEDS_UPGRADE = 1459"
definition ER_SP_NO_AGGREGATE :: nat where "ER_SP_NO_AGGREGATE = 1460"
definition ER_MAX_PREPARED_STMT_COUNT_REACHED :: nat where "ER_MAX_PREPARED_STMT_COUNT_REACHED = 1461"
definition ER_VIEW_RECURSIVE :: nat where "ER_VIEW_RECURSIVE = 1462"
definition ER_NON_GROUPING_FIELD_USED :: nat where "ER_NON_GROUPING_FIELD_USED = 1463"
definition ER_TABLE_CANT_HANDLE_SPKEYS :: nat where "ER_TABLE_CANT_HANDLE_SPKEYS = 1464"
definition ER_NO_TRIGGERS_ON_SYSTEM_SCHEMA :: nat where "ER_NO_TRIGGERS_ON_SYSTEM_SCHEMA = 1465"
definition ER_REMOVED_SPACES :: nat where "ER_REMOVED_SPACES = 1466"
definition ER_AUTOINC_READ_FAILED :: nat where "ER_AUTOINC_READ_FAILED = 1467"
definition ER_USERNAME :: nat where "ER_USERNAME = 1468"
definition ER_HOSTNAME :: nat where "ER_HOSTNAME = 1469"
definition ER_WRONG_STRING_LENGTH :: nat where "ER_WRONG_STRING_LENGTH = 1470"
definition ER_NON_INSERTABLE_TABLE :: nat where "ER_NON_INSERTABLE_TABLE = 1471"
definition ER_ADMIN_WRONG_MRG_TABLE :: nat where "ER_ADMIN_WRONG_MRG_TABLE = 1472"
definition ER_TOO_HIGH_LEVEL_OF_NESTING_FOR_SELECT :: nat where "ER_TOO_HIGH_LEVEL_OF_NESTING_FOR_SELECT = 1473"
definition ER_NAME_BECOMES_EMPTY :: nat where "ER_NAME_BECOMES_EMPTY = 1474"
definition ER_AMBIGUOUS_FIELD_TERM :: nat where "ER_AMBIGUOUS_FIELD_TERM = 1475"
definition ER_FOREIGN_SERVER_EXISTS :: nat where "ER_FOREIGN_SERVER_EXISTS = 1476"
definition ER_FOREIGN_SERVER_DOESNT_EXIST :: nat where "ER_FOREIGN_SERVER_DOESNT_EXIST = 1477"
definition ER_ILLEGAL_HA_CREATE_OPTION :: nat where "ER_ILLEGAL_HA_CREATE_OPTION = 1478"
definition ER_PARTITION_REQUIRES_VALUES_ERROR :: nat where "ER_PARTITION_REQUIRES_VALUES_ERROR = 1479"
definition ER_PARTITION_WRONG_VALUES_ERROR :: nat where "ER_PARTITION_WRONG_VALUES_ERROR = 1480"
definition ER_PARTITION_MAXVALUE_ERROR :: nat where "ER_PARTITION_MAXVALUE_ERROR = 1481"
definition ER_PARTITION_SUBPARTITION_ERROR :: nat where "ER_PARTITION_SUBPARTITION_ERROR = 1482"
definition ER_PARTITION_SUBPART_MIX_ERROR :: nat where "ER_PARTITION_SUBPART_MIX_ERROR = 1483"
definition ER_PARTITION_WRONG_NO_PART_ERROR :: nat where "ER_PARTITION_WRONG_NO_PART_ERROR = 1484"
definition ER_PARTITION_WRONG_NO_SUBPART_ERROR :: nat where "ER_PARTITION_WRONG_NO_SUBPART_ERROR = 1485"
definition ER_WRONG_EXPR_IN_PARTITION_FUNC_ERROR :: nat where "ER_WRONG_EXPR_IN_PARTITION_FUNC_ERROR = 1486"
definition ER_NO_CONST_EXPR_IN_RANGE_OR_LIST_ERROR :: nat where "ER_NO_CONST_EXPR_IN_RANGE_OR_LIST_ERROR = 1487"
definition ER_FIELD_NOT_FOUND_PART_ERROR :: nat where "ER_FIELD_NOT_FOUND_PART_ERROR = 1488"
definition ER_LIST_OF_FIELDS_ONLY_IN_HASH_ERROR :: nat where "ER_LIST_OF_FIELDS_ONLY_IN_HASH_ERROR = 1489"
definition ER_INCONSISTENT_PARTITION_INFO_ERROR :: nat where "ER_INCONSISTENT_PARTITION_INFO_ERROR = 1490"
definition ER_PARTITION_FUNC_NOT_ALLOWED_ERROR :: nat where "ER_PARTITION_FUNC_NOT_ALLOWED_ERROR = 1491"
definition ER_PARTITIONS_MUST_BE_DEFINED_ERROR :: nat where "ER_PARTITIONS_MUST_BE_DEFINED_ERROR = 1492"
definition ER_RANGE_NOT_INCREASING_ERROR :: nat where "ER_RANGE_NOT_INCREASING_ERROR = 1493"
definition ER_INCONSISTENT_TYPE_OF_FUNCTIONS_ERROR :: nat where "ER_INCONSISTENT_TYPE_OF_FUNCTIONS_ERROR = 1494"
definition ER_MULTIPLE_DEF_CONST_IN_LIST_PART_ERROR :: nat where "ER_MULTIPLE_DEF_CONST_IN_LIST_PART_ERROR = 1495"
definition ER_PARTITION_ENTRY_ERROR :: nat where "ER_PARTITION_ENTRY_ERROR = 1496"
definition ER_MIX_HANDLER_ERROR :: nat where "ER_MIX_HANDLER_ERROR = 1497"
definition ER_PARTITION_NOT_DEFINED_ERROR :: nat where "ER_PARTITION_NOT_DEFINED_ERROR = 1498"
definition ER_TOO_MANY_PARTITIONS_ERROR :: nat where "ER_TOO_MANY_PARTITIONS_ERROR = 1499"
definition ER_SUBPARTITION_ERROR :: nat where "ER_SUBPARTITION_ERROR = 1500"
definition ER_CANT_CREATE_HANDLER_FILE :: nat where "ER_CANT_CREATE_HANDLER_FILE = 1501"
definition ER_BLOB_FIELD_IN_PART_FUNC_ERROR :: nat where "ER_BLOB_FIELD_IN_PART_FUNC_ERROR = 1502"
definition ER_UNIQUE_KEY_NEED_ALL_FIELDS_IN_PF :: nat where "ER_UNIQUE_KEY_NEED_ALL_FIELDS_IN_PF = 1503"
definition ER_NO_PARTS_ERROR :: nat where "ER_NO_PARTS_ERROR = 1504"
definition ER_PARTITION_MGMT_ON_NONPARTITIONED :: nat where "ER_PARTITION_MGMT_ON_NONPARTITIONED = 1505"
definition ER_FOREIGN_KEY_ON_PARTITIONED :: nat where "ER_FOREIGN_KEY_ON_PARTITIONED = 1506"
definition ER_DROP_PARTITION_NON_EXISTENT :: nat where "ER_DROP_PARTITION_NON_EXISTENT = 1507"
definition ER_DROP_LAST_PARTITION :: nat where "ER_DROP_LAST_PARTITION = 1508"
definition ER_COALESCE_ONLY_ON_HASH_PARTITION :: nat where "ER_COALESCE_ONLY_ON_HASH_PARTITION = 1509"
definition ER_REORG_HASH_ONLY_ON_SAME_NO :: nat where "ER_REORG_HASH_ONLY_ON_SAME_NO = 1510"
definition ER_REORG_NO_PARAM_ERROR :: nat where "ER_REORG_NO_PARAM_ERROR = 1511"
definition ER_ONLY_ON_RANGE_LIST_PARTITION :: nat where "ER_ONLY_ON_RANGE_LIST_PARTITION = 1512"
definition ER_ADD_PARTITION_SUBPART_ERROR :: nat where "ER_ADD_PARTITION_SUBPART_ERROR = 1513"
definition ER_ADD_PARTITION_NO_NEW_PARTITION :: nat where "ER_ADD_PARTITION_NO_NEW_PARTITION = 1514"
definition ER_COALESCE_PARTITION_NO_PARTITION :: nat where "ER_COALESCE_PARTITION_NO_PARTITION = 1515"
definition ER_REORG_PARTITION_NOT_EXIST :: nat where "ER_REORG_PARTITION_NOT_EXIST = 1516"
definition ER_SAME_NAME_PARTITION :: nat where "ER_SAME_NAME_PARTITION = 1517"
definition ER_NO_BINLOG_ERROR :: nat where "ER_NO_BINLOG_ERROR = 1518"
definition ER_CONSECUTIVE_REORG_PARTITIONS :: nat where "ER_CONSECUTIVE_REORG_PARTITIONS = 1519"
definition ER_REORG_OUTSIDE_RANGE :: nat where "ER_REORG_OUTSIDE_RANGE = 1520"
definition ER_PARTITION_FUNCTION_FAILURE :: nat where "ER_PARTITION_FUNCTION_FAILURE = 1521"
definition ER_PART_STATE_ERROR :: nat where "ER_PART_STATE_ERROR = 1522"
definition ER_LIMITED_PART_RANGE :: nat where "ER_LIMITED_PART_RANGE = 1523"
definition ER_PLUGIN_IS_NOT_LOADED :: nat where "ER_PLUGIN_IS_NOT_LOADED = 1524"
definition ER_WRONG_VALUE :: nat where "ER_WRONG_VALUE = 1525"
definition ER_NO_PARTITION_FOR_GIVEN_VALUE :: nat where "ER_NO_PARTITION_FOR_GIVEN_VALUE = 1526"
definition ER_FILEGROUP_OPTION_ONLY_ONCE :: nat where "ER_FILEGROUP_OPTION_ONLY_ONCE = 1527"
definition ER_CREATE_FILEGROUP_FAILED :: nat where "ER_CREATE_FILEGROUP_FAILED = 1528"
definition ER_DROP_FILEGROUP_FAILED :: nat where "ER_DROP_FILEGROUP_FAILED = 1529"
definition ER_TABLESPACE_AUTO_EXTEND_ERROR :: nat where "ER_TABLESPACE_AUTO_EXTEND_ERROR = 1530"
definition ER_WRONG_SIZE_NUMBER :: nat where "ER_WRONG_SIZE_NUMBER = 1531"
definition ER_SIZE_OVERFLOW_ERROR :: nat where "ER_SIZE_OVERFLOW_ERROR = 1532"
definition ER_ALTER_FILEGROUP_FAILED :: nat where "ER_ALTER_FILEGROUP_FAILED = 1533"
definition ER_BINLOG_ROW_LOGGING_FAILED :: nat where "ER_BINLOG_ROW_LOGGING_FAILED = 1534"
definition ER_BINLOG_ROW_WRONG_TABLE_DEF :: nat where "ER_BINLOG_ROW_WRONG_TABLE_DEF = 1535"
definition ER_BINLOG_ROW_RBR_TO_SBR :: nat where "ER_BINLOG_ROW_RBR_TO_SBR = 1536"
definition ER_EVENT_ALREADY_EXISTS :: nat where "ER_EVENT_ALREADY_EXISTS = 1537"
definition ER_EVENT_STORE_FAILED :: nat where "ER_EVENT_STORE_FAILED = 1538"
definition ER_EVENT_DOES_NOT_EXIST :: nat where "ER_EVENT_DOES_NOT_EXIST = 1539"
definition ER_EVENT_CANT_ALTER :: nat where "ER_EVENT_CANT_ALTER = 1540"
definition ER_EVENT_DROP_FAILED :: nat where "ER_EVENT_DROP_FAILED = 1541"
definition ER_EVENT_INTERVAL_NOT_POSITIVE_OR_TOO_BIG :: nat where "ER_EVENT_INTERVAL_NOT_POSITIVE_OR_TOO_BIG = 1542"
definition ER_EVENT_ENDS_BEFORE_STARTS :: nat where "ER_EVENT_ENDS_BEFORE_STARTS = 1543"
definition ER_EVENT_EXEC_TIME_IN_THE_PAST :: nat where "ER_EVENT_EXEC_TIME_IN_THE_PAST = 1544"
definition ER_EVENT_OPEN_TABLE_FAILED :: nat where "ER_EVENT_OPEN_TABLE_FAILED = 1545"
definition ER_EVENT_NEITHER_M_EXPR_NOR_M_AT :: nat where "ER_EVENT_NEITHER_M_EXPR_NOR_M_AT = 1546"
definition ER_COL_COUNT_DOESNT_MATCH_CORRUPTED :: nat where "ER_COL_COUNT_DOESNT_MATCH_CORRUPTED = 1547"
definition ER_CANNOT_LOAD_FROM_TABLE :: nat where "ER_CANNOT_LOAD_FROM_TABLE = 1548"
definition ER_EVENT_CANNOT_DELETE :: nat where "ER_EVENT_CANNOT_DELETE = 1549"
definition ER_EVENT_COMPILE_ERROR :: nat where "ER_EVENT_COMPILE_ERROR = 1550"
definition ER_EVENT_SAME_NAME :: nat where "ER_EVENT_SAME_NAME = 1551"
definition ER_EVENT_DATA_TOO_LONG :: nat where "ER_EVENT_DATA_TOO_LONG = 1552"
definition ER_DROP_INDEX_FK :: nat where "ER_DROP_INDEX_FK = 1553"
definition ER_WARN_DEPRECATED_SYNTAX_WITH_VER :: nat where "ER_WARN_DEPRECATED_SYNTAX_WITH_VER = 1554"
definition ER_CANT_WRITE_LOCK_LOG_TABLE :: nat where "ER_CANT_WRITE_LOCK_LOG_TABLE = 1555"
definition ER_CANT_LOCK_LOG_TABLE :: nat where "ER_CANT_LOCK_LOG_TABLE = 1556"
definition ER_FOREIGN_DUPLICATE_KEY :: nat where "ER_FOREIGN_DUPLICATE_KEY = 1557"
definition ER_COL_COUNT_DOESNT_MATCH_PLEASE_UPDATE :: nat where "ER_COL_COUNT_DOESNT_MATCH_PLEASE_UPDATE = 1558"
definition ER_TEMP_TABLE_PREVENTS_SWITCH_OUT_OF_RBR :: nat where "ER_TEMP_TABLE_PREVENTS_SWITCH_OUT_OF_RBR = 1559"
definition ER_STORED_FUNCTION_PREVENTS_SWITCH_BINLOG_FORMAT :: nat where "ER_STORED_FUNCTION_PREVENTS_SWITCH_BINLOG_FORMAT = 1560"
definition ER_NDB_CANT_SWITCH_BINLOG_FORMAT :: nat where "ER_NDB_CANT_SWITCH_BINLOG_FORMAT = 1561"
definition ER_PARTITION_NO_TEMPORARY :: nat where "ER_PARTITION_NO_TEMPORARY = 1562"
definition ER_PARTITION_CONST_DOMAIN_ERROR :: nat where "ER_PARTITION_CONST_DOMAIN_ERROR = 1563"
definition ER_PARTITION_FUNCTION_IS_NOT_ALLOWED :: nat where "ER_PARTITION_FUNCTION_IS_NOT_ALLOWED = 1564"
definition ER_DDL_LOG_ERROR :: nat where "ER_DDL_LOG_ERROR = 1565"
definition ER_NULL_IN_VALUES_LESS_THAN :: nat where "ER_NULL_IN_VALUES_LESS_THAN = 1566"
definition ER_WRONG_PARTITION_NAME :: nat where "ER_WRONG_PARTITION_NAME = 1567"
definition ER_CANT_CHANGE_TX_ISOLATION :: nat where "ER_CANT_CHANGE_TX_ISOLATION = 1568"
definition ER_DUP_ENTRY_AUTOINCREMENT_CASE :: nat where "ER_DUP_ENTRY_AUTOINCREMENT_CASE = 1569"
definition ER_EVENT_MODIFY_QUEUE_ERROR :: nat where "ER_EVENT_MODIFY_QUEUE_ERROR = 1570"
definition ER_EVENT_SET_VAR_ERROR :: nat where "ER_EVENT_SET_VAR_ERROR = 1571"
definition ER_PARTITION_MERGE_ERROR :: nat where "ER_PARTITION_MERGE_ERROR = 1572"
definition ER_CANT_ACTIVATE_LOG :: nat where "ER_CANT_ACTIVATE_LOG = 1573"
definition ER_RBR_NOT_AVAILABLE :: nat where "ER_RBR_NOT_AVAILABLE = 1574"
definition ER_BASE64_DECODE_ERROR :: nat where "ER_BASE64_DECODE_ERROR = 1575"
definition ER_EVENT_RECURSION_FORBIDDEN :: nat where "ER_EVENT_RECURSION_FORBIDDEN = 1576"
definition ER_EVENTS_DB_ERROR :: nat where "ER_EVENTS_DB_ERROR = 1577"
definition ER_ONLY_INTEGERS_ALLOWED :: nat where "ER_ONLY_INTEGERS_ALLOWED = 1578"
definition ER_UNSUPORTED_LOG_ENGINE :: nat where "ER_UNSUPORTED_LOG_ENGINE = 1579"
definition ER_BAD_LOG_STATEMENT :: nat where "ER_BAD_LOG_STATEMENT = 1580"
definition ER_CANT_RENAME_LOG_TABLE :: nat where "ER_CANT_RENAME_LOG_TABLE = 1581"
definition ER_WRONG_PARAMCOUNT_TO_NATIVE_FCT :: nat where "ER_WRONG_PARAMCOUNT_TO_NATIVE_FCT = 1582"
definition ER_WRONG_PARAMETERS_TO_NATIVE_FCT :: nat where "ER_WRONG_PARAMETERS_TO_NATIVE_FCT = 1583"
definition ER_WRONG_PARAMETERS_TO_STORED_FCT :: nat where "ER_WRONG_PARAMETERS_TO_STORED_FCT = 1584"
definition ER_NATIVE_FCT_NAME_COLLISION :: nat where "ER_NATIVE_FCT_NAME_COLLISION = 1585"
definition ER_DUP_ENTRY_WITH_KEY_NAME :: nat where "ER_DUP_ENTRY_WITH_KEY_NAME = 1586"
definition ER_BINLOG_PURGE_EMFILE :: nat where "ER_BINLOG_PURGE_EMFILE = 1587"
definition ER_EVENT_CANNOT_CREATE_IN_THE_PAST :: nat where "ER_EVENT_CANNOT_CREATE_IN_THE_PAST = 1588"
definition ER_EVENT_CANNOT_ALTER_IN_THE_PAST :: nat where "ER_EVENT_CANNOT_ALTER_IN_THE_PAST = 1589"
definition ER_SLAVE_INCIDENT :: nat where "ER_SLAVE_INCIDENT = 1590"
definition ER_NO_PARTITION_FOR_GIVEN_VALUE_SILENT :: nat where "ER_NO_PARTITION_FOR_GIVEN_VALUE_SILENT = 1591"
definition ER_BINLOG_UNSAFE_STATEMENT :: nat where "ER_BINLOG_UNSAFE_STATEMENT = 1592"
definition ER_SLAVE_FATAL_ERROR :: nat where "ER_SLAVE_FATAL_ERROR = 1593"
definition ER_SLAVE_RELAY_LOG_READ_FAILURE :: nat where "ER_SLAVE_RELAY_LOG_READ_FAILURE = 1594"
definition ER_SLAVE_RELAY_LOG_WRITE_FAILURE :: nat where "ER_SLAVE_RELAY_LOG_WRITE_FAILURE = 1595"
definition ER_SLAVE_CREATE_EVENT_FAILURE :: nat where "ER_SLAVE_CREATE_EVENT_FAILURE = 1596"
definition ER_SLAVE_MASTER_COM_FAILURE :: nat where "ER_SLAVE_MASTER_COM_FAILURE = 1597"
definition ER_BINLOG_LOGGING_IMPOSSIBLE :: nat where "ER_BINLOG_LOGGING_IMPOSSIBLE = 1598"
definition ER_VIEW_NO_CREATION_CTX :: nat where "ER_VIEW_NO_CREATION_CTX = 1599"
definition ER_VIEW_INVALID_CREATION_CTX :: nat where "ER_VIEW_INVALID_CREATION_CTX = 1600"
definition ER_SR_INVALID_CREATION_CTX :: nat where "ER_SR_INVALID_CREATION_CTX = 1601"
definition ER_TRG_CORRUPTED_FILE :: nat where "ER_TRG_CORRUPTED_FILE = 1602"
definition ER_TRG_NO_CREATION_CTX :: nat where "ER_TRG_NO_CREATION_CTX = 1603"
definition ER_TRG_INVALID_CREATION_CTX :: nat where "ER_TRG_INVALID_CREATION_CTX = 1604"
definition ER_EVENT_INVALID_CREATION_CTX :: nat where "ER_EVENT_INVALID_CREATION_CTX = 1605"
definition ER_TRG_CANT_OPEN_TABLE :: nat where "ER_TRG_CANT_OPEN_TABLE = 1606"
definition ER_CANT_CREATE_SROUTINE :: nat where "ER_CANT_CREATE_SROUTINE = 1607"
definition ER_NEVER_USED :: nat where "ER_NEVER_USED = 1608"
definition ER_NO_FORMAT_DESCRIPTION_EVENT_BEFORE_BINLOG_STATEMENT :: nat where "ER_NO_FORMAT_DESCRIPTION_EVENT_BEFORE_BINLOG_STATEMENT = 1609"
definition ER_SLAVE_CORRUPT_EVENT :: nat where "ER_SLAVE_CORRUPT_EVENT = 1610"
definition ER_LOAD_DATA_INVALID_COLUMN :: nat where "ER_LOAD_DATA_INVALID_COLUMN = 1611"
definition ER_LOG_PURGE_NO_FILE :: nat where "ER_LOG_PURGE_NO_FILE = 1612"
definition ER_XA_RBTIMEOUT :: nat where "ER_XA_RBTIMEOUT = 1613"
definition ER_XA_RBDEADLOCK :: nat where "ER_XA_RBDEADLOCK = 1614"
definition ER_NEED_REPREPARE :: nat where "ER_NEED_REPREPARE = 1615"
definition ER_DELAYED_NOT_SUPPORTED :: nat where "ER_DELAYED_NOT_SUPPORTED = 1616"
definition WARN_NO_MASTER_INFO :: nat where "WARN_NO_MASTER_INFO = 1617"
definition WARN_OPTION_IGNORED :: nat where "WARN_OPTION_IGNORED = 1618"
definition WARN_PLUGIN_DELETE_BUILTIN :: nat where "WARN_PLUGIN_DELETE_BUILTIN = 1619"
definition WARN_PLUGIN_BUSY :: nat where "WARN_PLUGIN_BUSY = 1620"
definition ER_VARIABLE_IS_READONLY :: nat where "ER_VARIABLE_IS_READONLY = 1621"
definition ER_WARN_ENGINE_TRANSACTION_ROLLBACK :: nat where "ER_WARN_ENGINE_TRANSACTION_ROLLBACK = 1622"
definition ER_SLAVE_HEARTBEAT_FAILURE :: nat where "ER_SLAVE_HEARTBEAT_FAILURE = 1623"
definition ER_SLAVE_HEARTBEAT_VALUE_OUT_OF_RANGE :: nat where "ER_SLAVE_HEARTBEAT_VALUE_OUT_OF_RANGE = 1624"
definition ER_NDB_REPLICATION_SCHEMA_ERROR :: nat where "ER_NDB_REPLICATION_SCHEMA_ERROR = 1625"
definition ER_CONFLICT_FN_PARSE_ERROR :: nat where "ER_CONFLICT_FN_PARSE_ERROR = 1626"
definition ER_EXCEPTIONS_WRITE_ERROR :: nat where "ER_EXCEPTIONS_WRITE_ERROR = 1627"
definition ER_TOO_LONG_TABLE_COMMENT :: nat where "ER_TOO_LONG_TABLE_COMMENT = 1628"
definition ER_TOO_LONG_FIELD_COMMENT :: nat where "ER_TOO_LONG_FIELD_COMMENT = 1629"
definition ER_FUNC_INEXISTENT_NAME_COLLISION :: nat where "ER_FUNC_INEXISTENT_NAME_COLLISION = 1630"
definition ER_DATABASE_NAME :: nat where "ER_DATABASE_NAME = 1631"
definition ER_TABLE_NAME :: nat where "ER_TABLE_NAME = 1632"
definition ER_PARTITION_NAME :: nat where "ER_PARTITION_NAME = 1633"
definition ER_SUBPARTITION_NAME :: nat where "ER_SUBPARTITION_NAME = 1634"
definition ER_TEMPORARY_NAME :: nat where "ER_TEMPORARY_NAME = 1635"
definition ER_RENAMED_NAME :: nat where "ER_RENAMED_NAME = 1636"
definition ER_TOO_MANY_CONCURRENT_TRXS :: nat where "ER_TOO_MANY_CONCURRENT_TRXS = 1637"
definition WARN_NON_ASCII_SEPARATOR_NOT_IMPLEMENTED :: nat where "WARN_NON_ASCII_SEPARATOR_NOT_IMPLEMENTED = 1638"
definition ER_DEBUG_SYNC_TIMEOUT :: nat where "ER_DEBUG_SYNC_TIMEOUT = 1639"
definition ER_DEBUG_SYNC_HIT_LIMIT :: nat where "ER_DEBUG_SYNC_HIT_LIMIT = 1640"
definition ER_DUP_SIGNAL_SET :: nat where "ER_DUP_SIGNAL_SET = 1641"
definition ER_SIGNAL_WARN :: nat where "ER_SIGNAL_WARN = 1642"
definition ER_SIGNAL_NOT_FOUND :: nat where "ER_SIGNAL_NOT_FOUND = 1643"
definition ER_SIGNAL_EXCEPTION :: nat where "ER_SIGNAL_EXCEPTION = 1644"
definition ER_RESIGNAL_WITHOUT_ACTIVE_HANDLER :: nat where "ER_RESIGNAL_WITHOUT_ACTIVE_HANDLER = 1645"
definition ER_SIGNAL_BAD_CONDITION_TYPE :: nat where "ER_SIGNAL_BAD_CONDITION_TYPE = 1646"
definition WARN_COND_ITEM_TRUNCATED :: nat where "WARN_COND_ITEM_TRUNCATED = 1647"
definition ER_COND_ITEM_TOO_LONG :: nat where "ER_COND_ITEM_TOO_LONG = 1648"
definition ER_UNKNOWN_LOCALE :: nat where "ER_UNKNOWN_LOCALE = 1649"
definition ER_SLAVE_IGNORE_SERVER_IDS :: nat where "ER_SLAVE_IGNORE_SERVER_IDS = 1650"
definition ER_QUERY_CACHE_DISABLED :: nat where "ER_QUERY_CACHE_DISABLED = 1651"
definition ER_SAME_NAME_PARTITION_FIELD :: nat where "ER_SAME_NAME_PARTITION_FIELD = 1652"
definition ER_PARTITION_COLUMN_LIST_ERROR :: nat where "ER_PARTITION_COLUMN_LIST_ERROR = 1653"
definition ER_WRONG_TYPE_COLUMN_VALUE_ERROR :: nat where "ER_WRONG_TYPE_COLUMN_VALUE_ERROR = 1654"
definition ER_TOO_MANY_PARTITION_FUNC_FIELDS_ERROR :: nat where "ER_TOO_MANY_PARTITION_FUNC_FIELDS_ERROR = 1655"
definition ER_MAXVALUE_IN_VALUES_IN :: nat where "ER_MAXVALUE_IN_VALUES_IN = 1656"
definition ER_TOO_MANY_VALUES_ERROR :: nat where "ER_TOO_MANY_VALUES_ERROR = 1657"
definition ER_ROW_SINGLE_PARTITION_FIELD_ERROR :: nat where "ER_ROW_SINGLE_PARTITION_FIELD_ERROR = 1658"
definition ER_FIELD_TYPE_NOT_ALLOWED_AS_PARTITION_FIELD :: nat where "ER_FIELD_TYPE_NOT_ALLOWED_AS_PARTITION_FIELD = 1659"
definition ER_PARTITION_FIELDS_TOO_LONG :: nat where "ER_PARTITION_FIELDS_TOO_LONG = 1660"
definition ER_BINLOG_ROW_ENGINE_AND_STMT_ENGINE :: nat where "ER_BINLOG_ROW_ENGINE_AND_STMT_ENGINE = 1661"
definition ER_BINLOG_ROW_MODE_AND_STMT_ENGINE :: nat where "ER_BINLOG_ROW_MODE_AND_STMT_ENGINE = 1662"
definition ER_BINLOG_UNSAFE_AND_STMT_ENGINE :: nat where "ER_BINLOG_UNSAFE_AND_STMT_ENGINE = 1663"
definition ER_BINLOG_ROW_INJECTION_AND_STMT_ENGINE :: nat where "ER_BINLOG_ROW_INJECTION_AND_STMT_ENGINE = 1664"
definition ER_BINLOG_STMT_MODE_AND_ROW_ENGINE :: nat where "ER_BINLOG_STMT_MODE_AND_ROW_ENGINE = 1665"
definition ER_BINLOG_ROW_INJECTION_AND_STMT_MODE :: nat where "ER_BINLOG_ROW_INJECTION_AND_STMT_MODE = 1666"
definition ER_BINLOG_MULTIPLE_ENGINES_AND_SELF_LOGGING_ENGINE :: nat where "ER_BINLOG_MULTIPLE_ENGINES_AND_SELF_LOGGING_ENGINE = 1667"
definition ER_BINLOG_UNSAFE_LIMIT :: nat where "ER_BINLOG_UNSAFE_LIMIT = 1668"
definition ER_BINLOG_UNSAFE_INSERT_DELAYED :: nat where "ER_BINLOG_UNSAFE_INSERT_DELAYED = 1669"
definition ER_BINLOG_UNSAFE_SYSTEM_TABLE :: nat where "ER_BINLOG_UNSAFE_SYSTEM_TABLE = 1670"
definition ER_BINLOG_UNSAFE_AUTOINC_COLUMNS :: nat where "ER_BINLOG_UNSAFE_AUTOINC_COLUMNS = 1671"
definition ER_BINLOG_UNSAFE_UDF :: nat where "ER_BINLOG_UNSAFE_UDF = 1672"
definition ER_BINLOG_UNSAFE_SYSTEM_VARIABLE :: nat where "ER_BINLOG_UNSAFE_SYSTEM_VARIABLE = 1673"
definition ER_BINLOG_UNSAFE_SYSTEM_FUNCTION :: nat where "ER_BINLOG_UNSAFE_SYSTEM_FUNCTION = 1674"
definition ER_BINLOG_UNSAFE_NONTRANS_AFTER_TRANS :: nat where "ER_BINLOG_UNSAFE_NONTRANS_AFTER_TRANS = 1675"
definition ER_MESSAGE_AND_STATEMENT :: nat where "ER_MESSAGE_AND_STATEMENT = 1676"
definition ER_SLAVE_CONVERSION_FAILED :: nat where "ER_SLAVE_CONVERSION_FAILED = 1677"
definition ER_SLAVE_CANT_CREATE_CONVERSION :: nat where "ER_SLAVE_CANT_CREATE_CONVERSION = 1678"
definition ER_INSIDE_TRANSACTION_PREVENTS_SWITCH_BINLOG_FORMAT :: nat where "ER_INSIDE_TRANSACTION_PREVENTS_SWITCH_BINLOG_FORMAT = 1679"
definition ER_PATH_LENGTH :: nat where "ER_PATH_LENGTH = 1680"
definition ER_WARN_DEPRECATED_SYNTAX_NO_REPLACEMENT :: nat where "ER_WARN_DEPRECATED_SYNTAX_NO_REPLACEMENT = 1681"
definition ER_WRONG_NATIVE_TABLE_STRUCTURE :: nat where "ER_WRONG_NATIVE_TABLE_STRUCTURE = 1682"
definition ER_WRONG_PERFSCHEMA_USAGE :: nat where "ER_WRONG_PERFSCHEMA_USAGE = 1683"
definition ER_WARN_I_S_SKIPPED_TABLE :: nat where "ER_WARN_I_S_SKIPPED_TABLE = 1684"
definition ER_INSIDE_TRANSACTION_PREVENTS_SWITCH_BINLOG_DIRECT :: nat where "ER_INSIDE_TRANSACTION_PREVENTS_SWITCH_BINLOG_DIRECT = 1685"
definition ER_STORED_FUNCTION_PREVENTS_SWITCH_BINLOG_DIRECT :: nat where "ER_STORED_FUNCTION_PREVENTS_SWITCH_BINLOG_DIRECT = 1686"
definition ER_SPATIAL_MUST_HAVE_GEOM_COL :: nat where "ER_SPATIAL_MUST_HAVE_GEOM_COL = 1687"
definition ER_TOO_LONG_INDEX_COMMENT :: nat where "ER_TOO_LONG_INDEX_COMMENT = 1688"
definition ER_LOCK_ABORTED :: nat where "ER_LOCK_ABORTED = 1689"
definition ER_DATA_OUT_OF_RANGE :: nat where "ER_DATA_OUT_OF_RANGE = 1690"
definition ER_WRONG_SPVAR_TYPE_IN_LIMIT :: nat where "ER_WRONG_SPVAR_TYPE_IN_LIMIT = 1691"
definition ER_BINLOG_UNSAFE_MULTIPLE_ENGINES_AND_SELF_LOGGING_ENGINE :: nat where "ER_BINLOG_UNSAFE_MULTIPLE_ENGINES_AND_SELF_LOGGING_ENGINE = 1692"
definition ER_BINLOG_UNSAFE_MIXED_STATEMENT :: nat where "ER_BINLOG_UNSAFE_MIXED_STATEMENT = 1693"
definition ER_INSIDE_TRANSACTION_PREVENTS_SWITCH_SQL_LOG_BIN :: nat where "ER_INSIDE_TRANSACTION_PREVENTS_SWITCH_SQL_LOG_BIN = 1694"
definition ER_STORED_FUNCTION_PREVENTS_SWITCH_SQL_LOG_BIN :: nat where "ER_STORED_FUNCTION_PREVENTS_SWITCH_SQL_LOG_BIN = 1695"
definition ER_FAILED_READ_FROM_PAR_FILE :: nat where "ER_FAILED_READ_FROM_PAR_FILE = 1696"
definition ER_VALUES_IS_NOT_INT_TYPE_ERROR :: nat where "ER_VALUES_IS_NOT_INT_TYPE_ERROR = 1697"
definition ER_ACCESS_DENIED_NO_PASSWORD_ERROR :: nat where "ER_ACCESS_DENIED_NO_PASSWORD_ERROR = 1698"
definition ER_SET_PASSWORD_AUTH_PLUGIN :: nat where "ER_SET_PASSWORD_AUTH_PLUGIN = 1699"
definition ER_GRANT_PLUGIN_USER_EXISTS :: nat where "ER_GRANT_PLUGIN_USER_EXISTS = 1700"
definition ER_TRUNCATE_ILLEGAL_FK :: nat where "ER_TRUNCATE_ILLEGAL_FK = 1701"
definition ER_PLUGIN_IS_PERMANENT :: nat where "ER_PLUGIN_IS_PERMANENT = 1702"
definition ER_SLAVE_HEARTBEAT_VALUE_OUT_OF_RANGE_MIN :: nat where "ER_SLAVE_HEARTBEAT_VALUE_OUT_OF_RANGE_MIN = 1703"
definition ER_SLAVE_HEARTBEAT_VALUE_OUT_OF_RANGE_MAX :: nat where "ER_SLAVE_HEARTBEAT_VALUE_OUT_OF_RANGE_MAX = 1704"
definition ER_STMT_CACHE_FULL :: nat where "ER_STMT_CACHE_FULL = 1705"
definition ER_MULTI_UPDATE_KEY_CONFLICT :: nat where "ER_MULTI_UPDATE_KEY_CONFLICT = 1706"
definition ER_TABLE_NEEDS_REBUILD :: nat where "ER_TABLE_NEEDS_REBUILD = 1707"
definition WARN_OPTION_BELOW_LIMIT :: nat where "WARN_OPTION_BELOW_LIMIT = 1708"
definition ER_INDEX_COLUMN_TOO_LONG :: nat where "ER_INDEX_COLUMN_TOO_LONG = 1709"
definition ER_ERROR_IN_TRIGGER_BODY :: nat where "ER_ERROR_IN_TRIGGER_BODY = 1710"
definition ER_ERROR_IN_UNKNOWN_TRIGGER_BODY :: nat where "ER_ERROR_IN_UNKNOWN_TRIGGER_BODY = 1711"
definition ER_INDEX_CORRUPT :: nat where "ER_INDEX_CORRUPT = 1712"
definition ER_UNDO_RECORD_TOO_BIG :: nat where "ER_UNDO_RECORD_TOO_BIG = 1713"
definition ER_BINLOG_UNSAFE_INSERT_IGNORE_SELECT :: nat where "ER_BINLOG_UNSAFE_INSERT_IGNORE_SELECT = 1714"
definition ER_BINLOG_UNSAFE_INSERT_SELECT_UPDATE :: nat where "ER_BINLOG_UNSAFE_INSERT_SELECT_UPDATE = 1715"
definition ER_BINLOG_UNSAFE_REPLACE_SELECT :: nat where "ER_BINLOG_UNSAFE_REPLACE_SELECT = 1716"
definition ER_BINLOG_UNSAFE_CREATE_IGNORE_SELECT :: nat where "ER_BINLOG_UNSAFE_CREATE_IGNORE_SELECT = 1717"
definition ER_BINLOG_UNSAFE_CREATE_REPLACE_SELECT :: nat where "ER_BINLOG_UNSAFE_CREATE_REPLACE_SELECT = 1718"
definition ER_BINLOG_UNSAFE_UPDATE_IGNORE :: nat where "ER_BINLOG_UNSAFE_UPDATE_IGNORE = 1719"
definition ER_PLUGIN_NO_UNINSTALL :: nat where "ER_PLUGIN_NO_UNINSTALL = 1720"
definition ER_PLUGIN_NO_INSTALL :: nat where "ER_PLUGIN_NO_INSTALL = 1721"
definition ER_BINLOG_UNSAFE_WRITE_AUTOINC_SELECT :: nat where "ER_BINLOG_UNSAFE_WRITE_AUTOINC_SELECT = 1722"
definition ER_BINLOG_UNSAFE_CREATE_SELECT_AUTOINC :: nat where "ER_BINLOG_UNSAFE_CREATE_SELECT_AUTOINC = 1723"
definition ER_BINLOG_UNSAFE_INSERT_TWO_KEYS :: nat where "ER_BINLOG_UNSAFE_INSERT_TWO_KEYS = 1724"
definition ER_TABLE_IN_FK_CHECK :: nat where "ER_TABLE_IN_FK_CHECK = 1725"
definition ER_UNSUPPORTED_ENGINE :: nat where "ER_UNSUPPORTED_ENGINE = 1726"
definition ER_BINLOG_UNSAFE_AUTOINC_NOT_FIRST :: nat where "ER_BINLOG_UNSAFE_AUTOINC_NOT_FIRST = 1727"
definition ER_ERROR_LAST :: nat where "ER_ERROR_LAST = 1727"

lemmas error_constants =
  ER_ERROR_FIRST_def ER_HASHCHK_def ER_NISAMCHK_def ER_NO_def ER_YES_def
  ER_CANT_CREATE_FILE_def ER_CANT_CREATE_TABLE_def ER_CANT_CREATE_DB_def ER_DB_CREATE_EXISTS_def ER_DB_DROP_EXISTS_def
  ER_DB_DROP_DELETE_def ER_DB_DROP_RMDIR_def ER_CANT_DELETE_FILE_def ER_CANT_FIND_SYSTEM_REC_def ER_CANT_GET_STAT_def
  ER_CANT_GET_WD_def ER_CANT_LOCK_def ER_CANT_OPEN_FILE_def ER_FILE_NOT_FOUND_def ER_CANT_READ_DIR_def
  ER_CANT_SET_WD_def ER_CHECKREAD_def ER_DISK_FULL_def ER_DUP_KEY_def ER_ERROR_ON_CLOSE_def
  ER_ERROR_ON_READ_def ER_ERROR_ON_RENAME_def ER_ERROR_ON_WRITE_def ER_FILE_USED_def ER_FILSORT_ABORT_def
  ER_FORM_NOT_FOUND_def ER_GET_ERRNO_def ER_ILLEGAL_HA_def ER_KEY_NOT_FOUND_def ER_NOT_FORM_FILE_def
  ER_NOT_KEYFILE_def ER_OLD_KEYFILE_def ER_OPEN_AS_READONLY_def ER_OUTOFMEMORY_def ER_OUT_OF_SORTMEMORY_def
  ER_UNEXPECTED_EOF_def ER_CON_COUNT_ERROR_def ER_OUT_OF_RESOURCES_def ER_BAD_HOST_ERROR_def ER_HANDSHAKE_ERROR_def
  ER_DBACCESS_DENIED_ERROR_def ER_ACCESS_DENIED_ERROR_def ER_NO_DB_ERROR_def ER_UNKNOWN_COM_ERROR_def ER_BAD_NULL_ERROR_def
  ER_BAD_DB_ERROR_def ER_TABLE_EXISTS_ERROR_def ER_BAD_TABLE_ERROR_def ER_NON_UNIQ_ERROR_def ER_SERVER_SHUTDOWN_def
  ER_BAD_FIELD_ERROR_def ER_WRONG_FIELD_WITH_GROUP_def ER_WRONG_GROUP_FIELD_def ER_WRONG_SUM_SELECT_def ER_WRONG_VALUE_COUNT_def
  ER_TOO_LONG_IDENT_def ER_DUP_FIELDNAME_def ER_DUP_KEYNAME_def ER_DUP_ENTRY_def ER_WRONG_FIELD_SPEC_def
  ER_PARSE_ERROR_def ER_EMPTY_QUERY_def ER_NONUNIQ_TABLE_def ER_INVALID_DEFAULT_def ER_MULTIPLE_PRI_KEY_def
  ER_TOO_MANY_KEYS_def ER_TOO_MANY_KEY_PARTS_def ER_TOO_LONG_KEY_def ER_KEY_COLUMN_DOES_NOT_EXITS_def ER_BLOB_USED_AS_KEY_def
  ER_TOO_BIG_FIELDLENGTH_def ER_WRONG_AUTO_KEY_def ER_READY_def ER_NORMAL_SHUTDOWN_def ER_GOT_SIGNAL_def
  ER_SHUTDOWN_COMPLETE_def ER_FORCING_CLOSE_def ER_IPSOCK_ERROR_def ER_NO_SUCH_INDEX_def ER_WRONG_FIELD_TERMINATORS_def
  ER_BLOBS_AND_NO_TERMINATED_def ER_TEXTFILE_NOT_READABLE_def ER_FILE_EXISTS_ERROR_def ER_LOAD_INFO_def ER_ALTER_INFO_def
  ER_WRONG_SUB_KEY_def ER_CANT_REMOVE_ALL_FIELDS_def ER_CANT_DROP_FIELD_OR_KEY_def ER_INSERT_INFO_def ER_UPDATE_TABLE_USED_def
  ER_NO_SUCH_THREAD_def ER_KILL_DENIED_ERROR_def ER_NO_TABLES_USED_def ER_TOO_BIG_SET_def ER_NO_UNIQUE_LOGFILE_def
  ER_TABLE_NOT_LOCKED_FOR_WRITE_def ER_TABLE_NOT_LOCKED_def ER_BLOB_CANT_HAVE_DEFAULT_def ER_WRONG_DB_NAME_def ER_WRONG_TABLE_NAME_def
  ER_TOO_BIG_SELECT_def ER_UNKNOWN_ERROR_def ER_UNKNOWN_PROCEDURE_def ER_WRONG_PARAMCOUNT_TO_PROCEDURE_def ER_WRONG_PARAMETERS_TO_PROCEDURE_def
  ER_UNKNOWN_TABLE_def ER_FIELD_SPECIFIED_TWICE_def ER_INVALID_GROUP_FUNC_USE_def ER_UNSUPPORTED_EXTENSION_def ER_TABLE_MUST_HAVE_COLUMNS_def
  ER_RECORD_FILE_FULL_def ER_UNKNOWN_CHARACTER_SET_def ER_TOO_MANY_TABLES_def ER_TOO_MANY_FIELDS_def ER_TOO_BIG_ROWSIZE_def
  ER_STACK_OVERRUN_def ER_WRONG_OUTER_JOIN_def ER_NULL_COLUMN_IN_INDEX_def ER_CANT_FIND_UDF_def ER_CANT_INITIALIZE_UDF_def
  ER_UDF_NO_PATHS_def ER_UDF_EXISTS_def ER_CANT_OPEN_LIBRARY_def ER_CANT_FIND_DL_ENTRY_def ER_FUNCTION_NOT_DEFINED_def
  ER_HOST_IS_BLOCKED_def ER_HOST_NOT_PRIVILEGED_def ER_PASSWORD_ANONYMOUS_USER_def ER_PASSWORD_NOT_ALLOWED_def ER_PASSWORD_NO_MATCH_def
  ER_UPDATE_INFO_def ER_CANT_CREATE_THREAD_def ER_WRONG_VALUE_COUNT_ON_ROW_def ER_CANT_REOPEN_TABLE_def ER_INVALID_USE_OF_NULL_def
  ER_REGEXP_ERROR_def ER_MIX_OF_GROUP_FUNC_AND_FIELDS_def ER_NONEXISTING_GRANT_def ER_TABLEACCESS_DENIED_ERROR_def ER_COLUMNACCESS_DENIED_ERROR_def
  ER_ILLEGAL_GRANT_FOR_TABLE_def ER_GRANT_WRONG_HOST_OR_USER_def ER_NO_SUCH_TABLE_def ER_NONEXISTING_TABLE_GRANT_def ER_NOT_ALLOWED_COMMAND_def
  ER_SYNTAX_ERROR_def ER_DELAYED_CANT_CHANGE_LOCK_def ER_TOO_MANY_DELAYED_THREADS_def ER_ABORTING_CONNECTION_def ER_NET_PACKET_TOO_LARGE_def
  ER_NET_READ_ERROR_FROM_PIPE_def ER_NET_FCNTL_ERROR_def ER_NET_PACKETS_OUT_OF_ORDER_def ER_NET_UNCOMPRESS_ERROR_def ER_NET_READ_ERROR_def
  ER_NET_READ_INTERRUPTED_def ER_NET_ERROR_ON_WRITE_def ER_NET_WRITE_INTERRUPTED_def ER_TOO_LONG_STRING_def ER_TABLE_CANT_HANDLE_BLOB_def
  ER_TABLE_CANT_HANDLE_AUTO_INCREMENT_def ER_DELAYED_INSERT_TABLE_LOCKED_def ER_WRONG_COLUMN_NAME_def ER_WRONG_KEY_COLUMN_def ER_WRONG_MRG_TABLE_def
  ER_DUP_UNIQUE_def ER_BLOB_KEY_WITHOUT_LENGTH_def ER_PRIMARY_CANT_HAVE_NULL_def ER_TOO_MANY_ROWS_def ER_REQUIRES_PRIMARY_KEY_def
  ER_NO_RAID_COMPILED_def ER_UPDATE_WITHOUT_KEY_IN_SAFE_MODE_def ER_KEY_DOES_NOT_EXITS_def ER_CHECK_NO_SUCH_TABLE_def ER_CHECK_NOT_IMPLEMENTED_def
  ER_CANT_DO_THIS_DURING_AN_TRANSACTION_def ER_ERROR_DURING_COMMIT_def ER_ERROR_DURING_ROLLBACK_def ER_ERROR_DURING_FLUSH_LOGS_def ER_ERROR_DURING_CHECKPOINT_def
  ER_NEW_ABORTING_CONNECTION_def ER_DUMP_NOT_IMPLEMENTED_def ER_FLUSH_MASTER_BINLOG_CLOSED_def ER_INDEX_REBUILD_def ER_MASTER_def
  ER_MASTER_NET_READ_def ER_MASTER_NET_WRITE_def ER_FT_MATCHING_KEY_NOT_FOUND_def ER_LOCK_OR_ACTIVE_TRANSACTION_def ER_UNKNOWN_SYSTEM_VARIABLE_def
  ER_CRASHED_ON_USAGE_def ER_CRASHED_ON_REPAIR_def ER_WARNING_NOT_COMPLETE_ROLLBACK_def ER_TRANS_CACHE_FULL_def ER_SLAVE_MUST_STOP_def
  ER_SLAVE_NOT_RUNNING_def ER_BAD_SLAVE_def ER_MASTER_INFO_def ER_SLAVE_THREAD_def ER_TOO_MANY_USER_CONNECTIONS_def
  ER_SET_CONSTANTS_ONLY_def ER_LOCK_WAIT_TIMEOUT_def ER_LOCK_TABLE_FULL_def ER_READ_ONLY_TRANSACTION_def ER_DROP_DB_WITH_READ_LOCK_def
  ER_CREATE_DB_WITH_READ_LOCK_def ER_WRONG_ARGUMENTS_def ER_NO_PERMISSION_TO_CREATE_USER_def ER_UNION_TABLES_IN_DIFFERENT_DIR_def ER_LOCK_DEADLOCK_def
  ER_TABLE_CANT_HANDLE_FT_def ER_CANNOT_ADD_FOREIGN_def ER_NO_REFERENCED_ROW_def ER_ROW_IS_REFERENCED_def ER_CONNECT_TO_MASTER_def
  ER_QUERY_ON_MASTER_def ER_ERROR_WHEN_EXECUTING_COMMAND_def ER_WRONG_USAGE_def ER_WRONG_NUMBER_OF_COLUMNS_IN_SELECT_def ER_CANT_UPDATE_WITH_READLOCK_def
  ER_MIXING_NOT_ALLOWED_def ER_DUP_ARGUMENT_def ER_USER_LIMIT_REACHED_def ER_SPECIFIC_ACCESS_DENIED_ERROR_def ER_LOCAL_VARIABLE_def
  ER_GLOBAL_VARIABLE_def ER_NO_DEFAULT_def ER_WRONG_VALUE_FOR_VAR_def ER_WRONG_TYPE_FOR_VAR_def ER_VAR_CANT_BE_READ_def
  ER_CANT_USE_OPTION_HERE_def ER_NOT_SUPPORTED_YET_def ER_MASTER_FATAL_ERROR_READING_BINLOG_def ER_SLAVE_IGNORED_TABLE_def ER_INCORRECT_GLOBAL_LOCAL_VAR_def
  ER_WRONG_FK_DEF_def ER_KEY_REF_DO_NOT_MATCH_TABLE_REF_def ER_OPERAND_COLUMNS_def ER_SUBQUERY_NO_1_ROW_def ER_UNKNOWN_STMT_HANDLER_def
  ER_CORRUPT_HELP_DB_def ER_CYCLIC_REFERENCE_def ER_AUTO_CONVERT_def ER_ILLEGAL_REFERENCE_def ER_DERIVED_MUST_HAVE_ALIAS_def
  ER_SELECT_REDUCED_def ER_TABLENAME_NOT_ALLOWED_HERE_def ER_NOT_SUPPORTED_AUTH_MODE_def ER_SPATIAL_CANT_HAVE_NULL_def ER_COLLATION_CHARSET_MISMATCH_def
  ER_SLAVE_WAS_RUNNING_def ER_SLAVE_WAS_NOT_RUNNING_def ER_TOO_BIG_FOR_UNCOMPRESS_def ER_ZLIB_Z_MEM_ERROR_def ER_ZLIB_Z_BUF_ERROR_def
  ER_ZLIB_Z_DATA_ERROR_def ER_CUT_VALUE_GROUP_CONCAT_def ER_WARN_TOO_FEW_RECORDS_def ER_WARN_TOO_MANY_RECORDS_def ER_WARN_NULL_TO_NOTNULL_def
  ER_WARN_DATA_OUT_OF_RANGE_def WARN_DATA_TRUNCATED_def ER_WARN_USING_OTHER_HANDLER_def ER_CANT_AGGREGATE_2COLLATIONS_def ER_DROP_USER_def
  ER_REVOKE_GRANTS_def ER_CANT_AGGREGATE_3COLLATIONS_def ER_CANT_AGGREGATE_NCOLLATIONS_def ER_VARIABLE_IS_NOT_STRUCT_def ER_UNKNOWN_COLLATION_def
  ER_SLAVE_IGNORED_SSL_PARAMS_def ER_SERVER_IS_IN_SECURE_AUTH_MODE_def ER_WARN_FIELD_RESOLVED_def ER_BAD_SLAVE_UNTIL_COND_def ER_MISSING_SKIP_SLAVE_def
  ER_UNTIL_COND_IGNORED_def ER_WRONG_NAME_FOR_INDEX_def ER_WRONG_NAME_FOR_CATALOG_def ER_WARN_QC_RESIZE_def ER_BAD_FT_COLUMN_def
  ER_UNKNOWN_KEY_CACHE_def ER_WARN_HOSTNAME_WONT_WORK_def ER_UNKNOWN_STORAGE_ENGINE_def ER_WARN_DEPRECATED_SYNTAX_def ER_NON_UPDATABLE_TABLE_def
  ER_FEATURE_DISABLED_def ER_OPTION_PREVENTS_STATEMENT_def ER_DUPLICATED_VALUE_IN_TYPE_def ER_TRUNCATED_WRONG_VALUE_def ER_TOO_MUCH_AUTO_TIMESTAMP_COLS_def
  ER_INVALID_ON_UPDATE_def ER_UNSUPPORTED_PS_def ER_GET_ERRMSG_def ER_GET_TEMPORARY_ERRMSG_def ER_UNKNOWN_TIME_ZONE_def
  ER_WARN_INVALID_TIMESTAMP_def ER_INVALID_CHARACTER_STRING_def ER_WARN_ALLOWED_PACKET_OVERFLOWED_def ER_CONFLICTING_DECLARATIONS_def ER_SP_NO_RECURSIVE_CREATE_def
  ER_SP_ALREADY_EXISTS_def ER_SP_DOES_NOT_EXIST_def ER_SP_DROP_FAILED_def ER_SP_STORE_FAILED_def ER_SP_LILABEL_MISMATCH_def
  ER_SP_LABEL_REDEFINE_def ER_SP_LABEL_MISMATCH_def ER_SP_UNINIT_VAR_def ER_SP_BADSELECT_def ER_SP_BADRETURN_def
  ER_SP_BADSTATEMENT_def ER_UPDATE_LOG_DEPRECATED_IGNORED_def ER_UPDATE_LOG_DEPRECATED_TRANSLATED_def ER_QUERY_INTERRUPTED_def ER_SP_WRONG_NO_OF_ARGS_def
  ER_SP_COND_MISMATCH_def ER_SP_NORETURN_def ER_SP_NORETURNEND_def ER_SP_BAD_CURSOR_QUERY_def ER_SP_BAD_CURSOR_SELECT_def
  ER_SP_CURSOR_MISMATCH_def ER_SP_CURSOR_ALREADY_OPEN_def ER_SP_CURSOR_NOT_OPEN_def ER_SP_UNDECLARED_VAR_def ER_SP_WRONG_NO_OF_FETCH_ARGS_def
  ER_SP_FETCH_NO_DATA_def ER_SP_DUP_PARAM_def ER_SP_DUP_VAR_def ER_SP_DUP_COND_def ER_SP_DUP_CURS_def
  ER_SP_CANT_ALTER_def ER_SP_SUBSELECT_NYI_def ER_STMT_NOT_ALLOWED_IN_SF_OR_TRG_def ER_SP_VARCOND_AFTER_CURSHNDLR_def ER_SP_CURSOR_AFTER_HANDLER_def
  ER_SP_CASE_NOT_FOUND_def ER_FPARSER_TOO_BIG_FILE_def ER_FPARSER_BAD_HEADER_def ER_FPARSER_EOF_IN_COMMENT_def ER_FPARSER_ERROR_IN_PARAMETER_def
  ER_FPARSER_EOF_IN_UNKNOWN_PARAMETER_def ER_VIEW_NO_EXPLAIN_def ER_FRM_UNKNOWN_TYPE_def ER_WRONG_OBJECT_def ER_NONUPDATEABLE_COLUMN_def
  ER_VIEW_SELECT_DERIVED_def ER_VIEW_SELECT_CLAUSE_def ER_VIEW_SELECT_VARIABLE_def ER_VIEW_SELECT_TMPTABLE_def ER_VIEW_WRONG_LIST_def
  ER_WARN_VIEW_MERGE_def ER_WARN_VIEW_WITHOUT_KEY_def ER_VIEW_INVALID_def ER_SP_NO_DROP_SP_def ER_SP_GOTO_IN_HNDLR_def
  ER_TRG_ALREADY_EXISTS_def ER_TRG_DOES_NOT_EXIST_def ER_TRG_ON_VIEW_OR_TEMP_TABLE_def ER_TRG_CANT_CHANGE_ROW_def ER_TRG_NO_SUCH_ROW_IN_TRG_def
  ER_NO_DEFAULT_FOR_FIELD_def ER_DIVISION_BY_ZERO_def ER_TRUNCATED_WRONG_VALUE_FOR_FIELD_def ER_ILLEGAL_VALUE_FOR_TYPE_def ER_VIEW_NONUPD_CHECK_def
  ER_VIEW_CHECK_FAILED_def ER_PROCACCESS_DENIED_ERROR_def ER_RELAY_LOG_FAIL_def ER_PASSWD_LENGTH_def ER_UNKNOWN_TARGET_BINLOG_def
  ER_IO_ERR_LOG_INDEX_READ_def ER_BINLOG_PURGE_PROHIBITED_def ER_FSEEK_FAIL_def ER_BINLOG_PURGE_FATAL_ERR_def ER_LOG_IN_USE_def
  ER_LOG_PURGE_UNKNOWN_ERR_def ER_RELAY_LOG_INIT_def ER_NO_BINARY_LOGGING_def ER_RESERVED_SYNTAX_def ER_WSAS_FAILED_def
  ER_DIFF_GROUPS_PROC_def ER_NO_GROUP_FOR_PROC_def ER_ORDER_WITH_PROC_def ER_LOGGING_PROHIBIT_CHANGING_OF_def ER_NO_FILE_MAPPING_def
  ER_WRONG_MAGIC_def ER_PS_MANY_PARAM_def ER_KEY_PART_0_def ER_VIEW_CHECKSUM_def ER_VIEW_MULTIUPDATE_def
  ER_VIEW_NO_INSERT_FIELD_LIST_def ER_VIEW_DELETE_MERGE_VIEW_def ER_CANNOT_USER_def ER_XAER_NOTA_def ER_XAER_INVAL_def
  ER_XAER_RMFAIL_def ER_XAER_OUTSIDE_def ER_XAER_RMERR_def ER_XA_RBROLLBACK_def ER_NONEXISTING_PROC_GRANT_def
  ER_PROC_AUTO_GRANT_FAIL_def ER_PROC_AUTO_REVOKE_FAIL_def ER_DATA_TOO_LONG_def ER_SP_BAD_SQLSTATE_def ER_STARTUP_def
  ER_LOAD_FROM_FIXED_SIZE_ROWS_TO_VAR_def ER_CANT_CREATE_USER_WITH_GRANT_def ER_WRONG_VALUE_FOR_TYPE_def ER_TABLE_DEF_CHANGED_def ER_SP_DUP_HANDLER_def
  ER_SP_NOT_VAR_ARG_def ER_SP_NO_RETSET_def ER_CANT_CREATE_GEOMETRY_OBJECT_def ER_FAILED_ROUTINE_BREAK_BINLOG_def ER_BINLOG_UNSAFE_ROUTINE_def
  ER_BINLOG_CREATE_ROUTINE_NEED_SUPER_def ER_EXEC_STMT_WITH_OPEN_CURSOR_def ER_STMT_HAS_NO_OPEN_CURSOR_def ER_COMMIT_NOT_ALLOWED_IN_SF_OR_TRG_def ER_NO_DEFAULT_FOR_VIEW_FIELD_def
  ER_SP_NO_RECURSION_def ER_TOO_BIG_SCALE_def ER_TOO_BIG_PRECISION_def ER_M_BIGGER_THAN_D_def ER_WRONG_LOCK_OF_SYSTEM_TABLE_def
  ER_CONNECT_TO_FOREIGN_DATA_SOURCE_def ER_QUERY_ON_FOREIGN_DATA_SOURCE_def ER_FOREIGN_DATA_SOURCE_DOESNT_EXIST_def ER_FOREIGN_DATA_STRING_INVALID_CANT_CREATE_def ER_FOREIGN_DATA_STRING_INVALID_def
  ER_CANT_CREATE_FEDERATED_TABLE_def ER_TRG_IN_WRONG_SCHEMA_def ER_STACK_OVERRUN_NEED_MORE_def ER_TOO_LONG_BODY_def ER_WARN_CANT_DROP_DEFAULT_KEYCACHE_def
  ER_TOO_BIG_DISPLAYWIDTH_def ER_XAER_DUPID_def ER_DATETIME_FUNCTION_OVERFLOW_def ER_CANT_UPDATE_USED_TABLE_IN_SF_OR_TRG_def ER_VIEW_PREVENT_UPDATE_def
  ER_PS_NO_RECURSION_def ER_SP_CANT_SET_AUTOCOMMIT_def ER_MALFORMED_DEFINER_def ER_VIEW_FRM_NO_USER_def ER_VIEW_OTHER_USER_def
  ER_NO_SUCH_USER_def ER_FORBID_SCHEMA_CHANGE_def ER_ROW_IS_REFERENCED_2_def ER_NO_REFERENCED_ROW_2_def ER_SP_BAD_VAR_SHADOW_def
  ER_TRG_NO_DEFINER_def ER_OLD_FILE_FORMAT_def ER_SP_RECURSION_LIMIT_def ER_SP_PROC_TABLE_CORRUPT_def ER_SP_WRONG_NAME_def
  ER_TABLE_NEEDS_UPGRADE_def ER_SP_NO_AGGREGATE_def ER_MAX_PREPARED_STMT_COUNT_REACHED_def ER_VIEW_RECURSIVE_def ER_NON_GROUPING_FIELD_USED_def
  ER_TABLE_CANT_HANDLE_SPKEYS_def ER_NO_TRIGGERS_ON_SYSTEM_SCHEMA_def ER_REMOVED_SPACES_def ER_AUTOINC_READ_FAILED_def ER_USERNAME_def
  ER_HOSTNAME_def ER_WRONG_STRING_LENGTH_def ER_NON_INSERTABLE_TABLE_def ER_ADMIN_WRONG_MRG_TABLE_def ER_TOO_HIGH_LEVEL_OF_NESTING_FOR_SELECT_def
  ER_NAME_BECOMES_EMPTY_def ER_AMBIGUOUS_FIELD_TERM_def ER_FOREIGN_SERVER_EXISTS_def ER_FOREIGN_SERVER_DOESNT_EXIST_def ER_ILLEGAL_HA_CREATE_OPTION_def
  ER_PARTITION_REQUIRES_VALUES_ERROR_def ER_PARTITION_WRONG_VALUES_ERROR_def ER_PARTITION_MAXVALUE_ERROR_def ER_PARTITION_SUBPARTITION_ERROR_def ER_PARTITION_SUBPART_MIX_ERROR_def
  ER_PARTITION_WRONG_NO_PART_ERROR_def ER_PARTITION_WRONG_NO_SUBPART_ERROR_def ER_WRONG_EXPR_IN_PARTITION_FUNC_ERROR_def ER_NO_CONST_EXPR_IN_RANGE_OR_LIST_ERROR_def ER_FIELD_NOT_FOUND_PART_ERROR_def
  ER_LIST_OF_FIELDS_ONLY_IN_HASH_ERROR_def ER_INCONSISTENT_PARTITION_INFO_ERROR_def ER_PARTITION_FUNC_NOT_ALLOWED_ERROR_def ER_PARTITIONS_MUST_BE_DEFINED_ERROR_def ER_RANGE_NOT_INCREASING_ERROR_def
  ER_INCONSISTENT_TYPE_OF_FUNCTIONS_ERROR_def ER_MULTIPLE_DEF_CONST_IN_LIST_PART_ERROR_def ER_PARTITION_ENTRY_ERROR_def ER_MIX_HANDLER_ERROR_def ER_PARTITION_NOT_DEFINED_ERROR_def
  ER_TOO_MANY_PARTITIONS_ERROR_def ER_SUBPARTITION_ERROR_def ER_CANT_CREATE_HANDLER_FILE_def ER_BLOB_FIELD_IN_PART_FUNC_ERROR_def ER_UNIQUE_KEY_NEED_ALL_FIELDS_IN_PF_def
  ER_NO_PARTS_ERROR_def ER_PARTITION_MGMT_ON_NONPARTITIONED_def ER_FOREIGN_KEY_ON_PARTITIONED_def ER_DROP_PARTITION_NON_EXISTENT_def ER_DROP_LAST_PARTITION_def
  ER_COALESCE_ONLY_ON_HASH_PARTITION_def ER_REORG_HASH_ONLY_ON_SAME_NO_def ER_REORG_NO_PARAM_ERROR_def ER_ONLY_ON_RANGE_LIST_PARTITION_def ER_ADD_PARTITION_SUBPART_ERROR_def
  ER_ADD_PARTITION_NO_NEW_PARTITION_def ER_COALESCE_PARTITION_NO_PARTITION_def ER_REORG_PARTITION_NOT_EXIST_def ER_SAME_NAME_PARTITION_def ER_NO_BINLOG_ERROR_def
  ER_CONSECUTIVE_REORG_PARTITIONS_def ER_REORG_OUTSIDE_RANGE_def ER_PARTITION_FUNCTION_FAILURE_def ER_PART_STATE_ERROR_def ER_LIMITED_PART_RANGE_def
  ER_PLUGIN_IS_NOT_LOADED_def ER_WRONG_VALUE_def ER_NO_PARTITION_FOR_GIVEN_VALUE_def ER_FILEGROUP_OPTION_ONLY_ONCE_def ER_CREATE_FILEGROUP_FAILED_def
  ER_DROP_FILEGROUP_FAILED_def ER_TABLESPACE_AUTO_EXTEND_ERROR_def ER_WRONG_SIZE_NUMBER_def ER_SIZE_OVERFLOW_ERROR_def ER_ALTER_FILEGROUP_FAILED_def
  ER_BINLOG_ROW_LOGGING_FAILED_def ER_BINLOG_ROW_WRONG_TABLE_DEF_def ER_BINLOG_ROW_RBR_TO_SBR_def ER_EVENT_ALREADY_EXISTS_def ER_EVENT_STORE_FAILED_def
  ER_EVENT_DOES_NOT_EXIST_def ER_EVENT_CANT_ALTER_def ER_EVENT_DROP_FAILED_def ER_EVENT_INTERVAL_NOT_POSITIVE_OR_TOO_BIG_def ER_EVENT_ENDS_BEFORE_STARTS_def
  ER_EVENT_EXEC_TIME_IN_THE_PAST_def ER_EVENT_OPEN_TABLE_FAILED_def ER_EVENT_NEITHER_M_EXPR_NOR_M_AT_def ER_COL_COUNT_DOESNT_MATCH_CORRUPTED_def ER_CANNOT_LOAD_FROM_TABLE_def
  ER_EVENT_CANNOT_DELETE_def ER_EVENT_COMPILE_ERROR_def ER_EVENT_SAME_NAME_def ER_EVENT_DATA_TOO_LONG_def ER_DROP_INDEX_FK_def
  ER_WARN_DEPRECATED_SYNTAX_WITH_VER_def ER_CANT_WRITE_LOCK_LOG_TABLE_def ER_CANT_LOCK_LOG_TABLE_def ER_FOREIGN_DUPLICATE_KEY_def ER_COL_COUNT_DOESNT_MATCH_PLEASE_UPDATE_def
  ER_TEMP_TABLE_PREVENTS_SWITCH_OUT_OF_RBR_def ER_STORED_FUNCTION_PREVENTS_SWITCH_BINLOG_FORMAT_def ER_NDB_CANT_SWITCH_BINLOG_FORMAT_def ER_PARTITION_NO_TEMPORARY_def ER_PARTITION_CONST_DOMAIN_ERROR_def
  ER_PARTITION_FUNCTION_IS_NOT_ALLOWED_def ER_DDL_LOG_ERROR_def ER_NULL_IN_VALUES_LESS_THAN_def ER_WRONG_PARTITION_NAME_def ER_CANT_CHANGE_TX_ISOLATION_def
  ER_DUP_ENTRY_AUTOINCREMENT_CASE_def ER_EVENT_MODIFY_QUEUE_ERROR_def ER_EVENT_SET_VAR_ERROR_def ER_PARTITION_MERGE_ERROR_def ER_CANT_ACTIVATE_LOG_def
  ER_RBR_NOT_AVAILABLE_def ER_BASE64_DECODE_ERROR_def ER_EVENT_RECURSION_FORBIDDEN_def ER_EVENTS_DB_ERROR_def ER_ONLY_INTEGERS_ALLOWED_def
  ER_UNSUPORTED_LOG_ENGINE_def ER_BAD_LOG_STATEMENT_def ER_CANT_RENAME_LOG_TABLE_def ER_WRONG_PARAMCOUNT_TO_NATIVE_FCT_def ER_WRONG_PARAMETERS_TO_NATIVE_FCT_def
  ER_WRONG_PARAMETERS_TO_STORED_FCT_def ER_NATIVE_FCT_NAME_COLLISION_def ER_DUP_ENTRY_WITH_KEY_NAME_def ER_BINLOG_PURGE_EMFILE_def ER_EVENT_CANNOT_CREATE_IN_THE_PAST_def
  ER_EVENT_CANNOT_ALTER_IN_THE_PAST_def ER_SLAVE_INCIDENT_def ER_NO_PARTITION_FOR_GIVEN_VALUE_SILENT_def ER_BINLOG_UNSAFE_STATEMENT_def ER_SLAVE_FATAL_ERROR_def
  ER_SLAVE_RELAY_LOG_READ_FAILURE_def ER_SLAVE_RELAY_LOG_WRITE_FAILURE_def ER_SLAVE_CREATE_EVENT_FAILURE_def ER_SLAVE_MASTER_COM_FAILURE_def ER_BINLOG_LOGGING_IMPOSSIBLE_def
  ER_VIEW_NO_CREATION_CTX_def ER_VIEW_INVALID_CREATION_CTX_def ER_SR_INVALID_CREATION_CTX_def ER_TRG_CORRUPTED_FILE_def ER_TRG_NO_CREATION_CTX_def
  ER_TRG_INVALID_CREATION_CTX_def ER_EVENT_INVALID_CREATION_CTX_def ER_TRG_CANT_OPEN_TABLE_def ER_CANT_CREATE_SROUTINE_def ER_NEVER_USED_def
  ER_NO_FORMAT_DESCRIPTION_EVENT_BEFORE_BINLOG_STATEMENT_def ER_SLAVE_CORRUPT_EVENT_def ER_LOAD_DATA_INVALID_COLUMN_def ER_LOG_PURGE_NO_FILE_def ER_XA_RBTIMEOUT_def
  ER_XA_RBDEADLOCK_def ER_NEED_REPREPARE_def ER_DELAYED_NOT_SUPPORTED_def WARN_NO_MASTER_INFO_def WARN_OPTION_IGNORED_def
  WARN_PLUGIN_DELETE_BUILTIN_def WARN_PLUGIN_BUSY_def ER_VARIABLE_IS_READONLY_def ER_WARN_ENGINE_TRANSACTION_ROLLBACK_def ER_SLAVE_HEARTBEAT_FAILURE_def
  ER_SLAVE_HEARTBEAT_VALUE_OUT_OF_RANGE_def ER_NDB_REPLICATION_SCHEMA_ERROR_def ER_CONFLICT_FN_PARSE_ERROR_def ER_EXCEPTIONS_WRITE_ERROR_def ER_TOO_LONG_TABLE_COMMENT_def
  ER_TOO_LONG_FIELD_COMMENT_def ER_FUNC_INEXISTENT_NAME_COLLISION_def ER_DATABASE_NAME_def ER_TABLE_NAME_def ER_PARTITION_NAME_def
  ER_SUBPARTITION_NAME_def ER_TEMPORARY_NAME_def ER_RENAMED_NAME_def ER_TOO_MANY_CONCURRENT_TRXS_def WARN_NON_ASCII_SEPARATOR_NOT_IMPLEMENTED_def
  ER_DEBUG_SYNC_TIMEOUT_def ER_DEBUG_SYNC_HIT_LIMIT_def ER_DUP_SIGNAL_SET_def ER_SIGNAL_WARN_def ER_SIGNAL_NOT_FOUND_def
  ER_SIGNAL_EXCEPTION_def ER_RESIGNAL_WITHOUT_ACTIVE_HANDLER_def ER_SIGNAL_BAD_CONDITION_TYPE_def WARN_COND_ITEM_TRUNCATED_def ER_COND_ITEM_TOO_LONG_def
  ER_UNKNOWN_LOCALE_def ER_SLAVE_IGNORE_SERVER_IDS_def ER_QUERY_CACHE_DISABLED_def ER_SAME_NAME_PARTITION_FIELD_def ER_PARTITION_COLUMN_LIST_ERROR_def
  ER_WRONG_TYPE_COLUMN_VALUE_ERROR_def ER_TOO_MANY_PARTITION_FUNC_FIELDS_ERROR_def ER_MAXVALUE_IN_VALUES_IN_def ER_TOO_MANY_VALUES_ERROR_def ER_ROW_SINGLE_PARTITION_FIELD_ERROR_def
  ER_FIELD_TYPE_NOT_ALLOWED_AS_PARTITION_FIELD_def ER_PARTITION_FIELDS_TOO_LONG_def ER_BINLOG_ROW_ENGINE_AND_STMT_ENGINE_def ER_BINLOG_ROW_MODE_AND_STMT_ENGINE_def ER_BINLOG_UNSAFE_AND_STMT_ENGINE_def
  ER_BINLOG_ROW_INJECTION_AND_STMT_ENGINE_def ER_BINLOG_STMT_MODE_AND_ROW_ENGINE_def ER_BINLOG_ROW_INJECTION_AND_STMT_MODE_def ER_BINLOG_MULTIPLE_ENGINES_AND_SELF_LOGGING_ENGINE_def ER_BINLOG_UNSAFE_LIMIT_def
  ER_BINLOG_UNSAFE_INSERT_DELAYED_def ER_BINLOG_UNSAFE_SYSTEM_TABLE_def ER_BINLOG_UNSAFE_AUTOINC_COLUMNS_def ER_BINLOG_UNSAFE_UDF_def ER_BINLOG_UNSAFE_SYSTEM_VARIABLE_def
  ER_BINLOG_UNSAFE_SYSTEM_FUNCTION_def ER_BINLOG_UNSAFE_NONTRANS_AFTER_TRANS_def ER_MESSAGE_AND_STATEMENT_def ER_SLAVE_CONVERSION_FAILED_def ER_SLAVE_CANT_CREATE_CONVERSION_def
  ER_INSIDE_TRANSACTION_PREVENTS_SWITCH_BINLOG_FORMAT_def ER_PATH_LENGTH_def ER_WARN_DEPRECATED_SYNTAX_NO_REPLACEMENT_def ER_WRONG_NATIVE_TABLE_STRUCTURE_def ER_WRONG_PERFSCHEMA_USAGE_def
  ER_WARN_I_S_SKIPPED_TABLE_def ER_INSIDE_TRANSACTION_PREVENTS_SWITCH_BINLOG_DIRECT_def ER_STORED_FUNCTION_PREVENTS_SWITCH_BINLOG_DIRECT_def ER_SPATIAL_MUST_HAVE_GEOM_COL_def ER_TOO_LONG_INDEX_COMMENT_def
  ER_LOCK_ABORTED_def ER_DATA_OUT_OF_RANGE_def ER_WRONG_SPVAR_TYPE_IN_LIMIT_def ER_BINLOG_UNSAFE_MULTIPLE_ENGINES_AND_SELF_LOGGING_ENGINE_def ER_BINLOG_UNSAFE_MIXED_STATEMENT_def
  ER_INSIDE_TRANSACTION_PREVENTS_SWITCH_SQL_LOG_BIN_def ER_STORED_FUNCTION_PREVENTS_SWITCH_SQL_LOG_BIN_def ER_FAILED_READ_FROM_PAR_FILE_def ER_VALUES_IS_NOT_INT_TYPE_ERROR_def ER_ACCESS_DENIED_NO_PASSWORD_ERROR_def
  ER_SET_PASSWORD_AUTH_PLUGIN_def ER_GRANT_PLUGIN_USER_EXISTS_def ER_TRUNCATE_ILLEGAL_FK_def ER_PLUGIN_IS_PERMANENT_def ER_SLAVE_HEARTBEAT_VALUE_OUT_OF_RANGE_MIN_def
  ER_SLAVE_HEARTBEAT_VALUE_OUT_OF_RANGE_MAX_def ER_STMT_CACHE_FULL_def ER_MULTI_UPDATE_KEY_CONFLICT_def ER_TABLE_NEEDS_REBUILD_def WARN_OPTION_BELOW_LIMIT_def
  ER_INDEX_COLUMN_TOO_LONG_def ER_ERROR_IN_TRIGGER_BODY_def ER_ERROR_IN_UNKNOWN_TRIGGER_BODY_def ER_INDEX_CORRUPT_def ER_UNDO_RECORD_TOO_BIG_def
  ER_BINLOG_UNSAFE_INSERT_IGNORE_SELECT_def ER_BINLOG_UNSAFE_INSERT_SELECT_UPDATE_def ER_BINLOG_UNSAFE_REPLACE_SELECT_def ER_BINLOG_UNSAFE_CREATE_IGNORE_SELECT_def ER_BINLOG_UNSAFE_CREATE_REPLACE_SELECT_def
  ER_BINLOG_UNSAFE_UPDATE_IGNORE_def ER_PLUGIN_NO_UNINSTALL_def ER_PLUGIN_NO_INSTALL_def ER_BINLOG_UNSAFE_WRITE_AUTOINC_SELECT_def ER_BINLOG_UNSAFE_CREATE_SELECT_AUTOINC_def
  ER_BINLOG_UNSAFE_INSERT_TWO_KEYS_def ER_TABLE_IN_FK_CHECK_def ER_UNSUPPORTED_ENGINE_def ER_BINLOG_UNSAFE_AUTOINC_NOT_FIRST_def ER_ERROR_LAST_def

section \<open>SQL states\<close>

definition sql_state_1 :: "(nat \<times> string \<times> string) list" where
  "sql_state_1 = [
    (ER_DUP_KEY, ''23000'', []),
    (ER_OUTOFMEMORY, ''HY001'', ''S1001''),
    (ER_OUT_OF_SORTMEMORY, ''HY001'', ''S1001''),
    (ER_CON_COUNT_ERROR, ''08004'', []),
    (ER_BAD_HOST_ERROR, ''08S01'', []),
    (ER_HANDSHAKE_ERROR, ''08S01'', []),
    (ER_DBACCESS_DENIED_ERROR, ''42000'', []),
    (ER_ACCESS_DENIED_ERROR, ''28000'', []),
    (ER_NO_DB_ERROR, ''3D000'', []),
    (ER_UNKNOWN_COM_ERROR, ''08S01'', []),
    (ER_BAD_NULL_ERROR, ''23000'', []),
    (ER_BAD_DB_ERROR, ''42000'', []),
    (ER_TABLE_EXISTS_ERROR, ''42S01'', []),
    (ER_BAD_TABLE_ERROR, ''42S02'', []),
    (ER_NON_UNIQ_ERROR, ''23000'', []),
    (ER_SERVER_SHUTDOWN, ''08S01'', []),
    (ER_BAD_FIELD_ERROR, ''42S22'', ''S0022''),
    (ER_WRONG_FIELD_WITH_GROUP, ''42000'', ''S1009''),
    (ER_WRONG_GROUP_FIELD, ''42000'', ''S1009''),
    (ER_WRONG_SUM_SELECT, ''42000'', ''S1009''),
    (ER_WRONG_VALUE_COUNT, ''21S01'', []),
    (ER_TOO_LONG_IDENT, ''42000'', ''S1009''),
    (ER_DUP_FIELDNAME, ''42S21'', ''S1009''),
    (ER_DUP_KEYNAME, ''42000'', ''S1009''),
    (ER_DUP_ENTRY, ''23000'', ''S1009''),
    (ER_WRONG_FIELD_SPEC, ''42000'', ''S1009''),
    (ER_PARSE_ERROR, ''42000'', ''s1009''),
    (ER_EMPTY_QUERY, ''42000'', []),
    (ER_NONUNIQ_TABLE, ''42000'', ''S1009''),
    (ER_INVALID_DEFAULT, ''42000'', ''S1009''),
    (ER_MULTIPLE_PRI_KEY, ''42000'', ''S1009''),
    (ER_TOO_MANY_KEYS, ''42000'', ''S1009''),
    (ER_TOO_MANY_KEY_PARTS, ''42000'', ''S1009''),
    (ER_TOO_LONG_KEY, ''42000'', ''S1009''),
    (ER_KEY_COLUMN_DOES_NOT_EXITS, ''42000'', ''S1009''),
    (ER_BLOB_USED_AS_KEY, ''42000'', ''S1009''),
    (ER_TOO_BIG_FIELDLENGTH, ''42000'', ''S1009''),
    (ER_WRONG_AUTO_KEY, ''42000'', ''S1009''),
    (ER_FORCING_CLOSE, ''08S01'', []),
    (ER_IPSOCK_ERROR, ''08S01'', []),
    (ER_NO_SUCH_INDEX, ''42S12'', ''S1009''),
    (ER_WRONG_FIELD_TERMINATORS, ''42000'', ''S1009''),
    (ER_BLOBS_AND_NO_TERMINATED, ''42000'', ''S1009''),
    (ER_CANT_REMOVE_ALL_FIELDS, ''42000'', []),
    (ER_CANT_DROP_FIELD_OR_KEY, ''42000'', []),
    (ER_BLOB_CANT_HAVE_DEFAULT, ''42000'', []),
    (ER_WRONG_DB_NAME, ''42000'', []),
    (ER_WRONG_TABLE_NAME, ''42000'', []),
    (ER_TOO_BIG_SELECT, ''42000'', []),
    (ER_UNKNOWN_PROCEDURE, ''42000'', []),
    (ER_WRONG_PARAMCOUNT_TO_PROCEDURE, ''42000'', []),
    (ER_UNKNOWN_TABLE, ''42S02'', []),
    (ER_FIELD_SPECIFIED_TWICE, ''42000'', []),
    (ER_UNSUPPORTED_EXTENSION, ''42000'', []),
    (ER_TABLE_MUST_HAVE_COLUMNS, ''42000'', []),
    (ER_UNKNOWN_CHARACTER_SET, ''42000'', []),
    (ER_TOO_BIG_ROWSIZE, ''42000'', []),
    (ER_WRONG_OUTER_JOIN, ''42000'', []),
    (ER_NULL_COLUMN_IN_INDEX, ''42000'', []),
    (ER_PASSWORD_ANONYMOUS_USER, ''42000'', []),
    (ER_PASSWORD_NOT_ALLOWED, ''42000'', []),
    (ER_PASSWORD_NO_MATCH, ''42000'', []),
    (ER_WRONG_VALUE_COUNT_ON_ROW, ''21S01'', []),
    (ER_INVALID_USE_OF_NULL, ''22004'', []),
    (ER_REGEXP_ERROR, ''42000'', []),
    (ER_MIX_OF_GROUP_FUNC_AND_FIELDS, ''42000'', []),
    (ER_NONEXISTING_GRANT, ''42000'', []),
    (ER_TABLEACCESS_DENIED_ERROR, ''42000'', []),
    (ER_COLUMNACCESS_DENIED_ERROR, ''42000'', []),
    (ER_ILLEGAL_GRANT_FOR_TABLE, ''42000'', []),
    (ER_GRANT_WRONG_HOST_OR_USER, ''42000'', []),
    (ER_NO_SUCH_TABLE, ''42S02'', []),
    (ER_NONEXISTING_TABLE_GRANT, ''42000'', []),
    (ER_NOT_ALLOWED_COMMAND, ''42000'', []),
    (ER_SYNTAX_ERROR, ''42000'', []),
    (ER_ABORTING_CONNECTION, ''08S01'', []),
    (ER_NET_PACKET_TOO_LARGE, ''08S01'', []),
    (ER_NET_READ_ERROR_FROM_PIPE, ''08S01'', []),
    (ER_NET_FCNTL_ERROR, ''08S01'', []),
    (ER_NET_PACKETS_OUT_OF_ORDER, ''08S01'', []),
    (ER_NET_UNCOMPRESS_ERROR, ''08S01'', []),
    (ER_NET_READ_ERROR, ''08S01'', []),
    (ER_NET_READ_INTERRUPTED, ''08S01'', []),
    (ER_NET_ERROR_ON_WRITE, ''08S01'', []),
    (ER_NET_WRITE_INTERRUPTED, ''08S01'', []),
    (ER_TOO_LONG_STRING, ''42000'', []),
    (ER_TABLE_CANT_HANDLE_BLOB, ''42000'', []),
    (ER_TABLE_CANT_HANDLE_AUTO_INCREMENT, ''42000'', []),
    (ER_WRONG_COLUMN_NAME, ''42000'', []),
    (ER_WRONG_KEY_COLUMN, ''42000'', []),
    (ER_DUP_UNIQUE, ''23000'', []),
    (ER_BLOB_KEY_WITHOUT_LENGTH, ''42000'', []),
    (ER_PRIMARY_CANT_HAVE_NULL, ''42000'', []),
    (ER_TOO_MANY_ROWS, ''42000'', []),
    (ER_REQUIRES_PRIMARY_KEY, ''42000'', []),
    (ER_KEY_DOES_NOT_EXITS, ''42000'', ''S1009''),
    (ER_CHECK_NO_SUCH_TABLE, ''42000'', []),
    (ER_CHECK_NOT_IMPLEMENTED, ''42000'', []),
    (ER_CANT_DO_THIS_DURING_AN_TRANSACTION, ''25000'', []),
    (ER_NEW_ABORTING_CONNECTION, ''08S01'', []),
    (ER_MASTER_NET_READ, ''08S01'', []),
    (ER_MASTER_NET_WRITE, ''08S01'', []),
    (ER_TOO_MANY_USER_CONNECTIONS, ''42000'', []),
    (ER_READ_ONLY_TRANSACTION, ''25000'', []),
    (ER_NO_PERMISSION_TO_CREATE_USER, ''42000'', []),
    (ER_LOCK_DEADLOCK, ''40001'', []),
    (ER_NO_REFERENCED_ROW, ''23000'', []),
    (ER_ROW_IS_REFERENCED, ''23000'', []),
    (ER_CONNECT_TO_MASTER, ''08S01'', []),
    (ER_WRONG_NUMBER_OF_COLUMNS_IN_SELECT, ''21000'', [])]"

definition sql_state_2 :: "(nat \<times> string \<times> string) list" where
  "sql_state_2 = [
    (ER_USER_LIMIT_REACHED, ''42000'', []),
    (ER_SPECIFIC_ACCESS_DENIED_ERROR, ''42000'', []),
    (ER_NO_DEFAULT, ''42000'', []),
    (ER_WRONG_VALUE_FOR_VAR, ''42000'', []),
    (ER_WRONG_TYPE_FOR_VAR, ''42000'', []),
    (ER_CANT_USE_OPTION_HERE, ''42000'', []),
    (ER_NOT_SUPPORTED_YET, ''42000'', []),
    (ER_WRONG_FK_DEF, ''42000'', []),
    (ER_OPERAND_COLUMNS, ''21000'', []),
    (ER_SUBQUERY_NO_1_ROW, ''21000'', []),
    (ER_ILLEGAL_REFERENCE, ''42S22'', []),
    (ER_DERIVED_MUST_HAVE_ALIAS, ''42000'', []),
    (ER_SELECT_REDUCED, ''01000'', []),
    (ER_TABLENAME_NOT_ALLOWED_HERE, ''42000'', []),
    (ER_NOT_SUPPORTED_AUTH_MODE, ''08004'', []),
    (ER_SPATIAL_CANT_HAVE_NULL, ''42000'', []),
    (ER_COLLATION_CHARSET_MISMATCH, ''42000'', []),
    (ER_WARN_TOO_FEW_RECORDS, ''01000'', []),
    (ER_WARN_TOO_MANY_RECORDS, ''01000'', []),
    (ER_WARN_NULL_TO_NOTNULL, ''22004'', []),
    (ER_WARN_DATA_OUT_OF_RANGE, ''22003'', []),
    (WARN_DATA_TRUNCATED, ''01000'', []),
    (ER_WRONG_NAME_FOR_INDEX, ''42000'', []),
    (ER_WRONG_NAME_FOR_CATALOG, ''42000'', []),
    (ER_UNKNOWN_STORAGE_ENGINE, ''42000'', []),
    (ER_TRUNCATED_WRONG_VALUE, ''22007'', []),
    (ER_SP_NO_RECURSIVE_CREATE, ''2F003'', []),
    (ER_SP_ALREADY_EXISTS, ''42000'', []),
    (ER_SP_DOES_NOT_EXIST, ''42000'', []),
    (ER_SP_LILABEL_MISMATCH, ''42000'', []),
    (ER_SP_LABEL_REDEFINE, ''42000'', []),
    (ER_SP_LABEL_MISMATCH, ''42000'', []),
    (ER_SP_UNINIT_VAR, ''01000'', []),
    (ER_SP_BADSELECT, ''0A000'', []),
    (ER_SP_BADRETURN, ''42000'', []),
    (ER_SP_BADSTATEMENT, ''0A000'', []),
    (ER_UPDATE_LOG_DEPRECATED_IGNORED, ''42000'', []),
    (ER_UPDATE_LOG_DEPRECATED_TRANSLATED, ''42000'', []),
    (ER_QUERY_INTERRUPTED, ''70100'', []),
    (ER_SP_WRONG_NO_OF_ARGS, ''42000'', []),
    (ER_SP_COND_MISMATCH, ''42000'', []),
    (ER_SP_NORETURN, ''42000'', []),
    (ER_SP_NORETURNEND, ''2F005'', []),
    (ER_SP_BAD_CURSOR_QUERY, ''42000'', []),
    (ER_SP_BAD_CURSOR_SELECT, ''42000'', []),
    (ER_SP_CURSOR_MISMATCH, ''42000'', []),
    (ER_SP_CURSOR_ALREADY_OPEN, ''24000'', []),
    (ER_SP_CURSOR_NOT_OPEN, ''24000'', []),
    (ER_SP_UNDECLARED_VAR, ''42000'', []),
    (ER_SP_FETCH_NO_DATA, ''02000'', []),
    (ER_SP_DUP_PARAM, ''42000'', []),
    (ER_SP_DUP_VAR, ''42000'', []),
    (ER_SP_DUP_COND, ''42000'', []),
    (ER_SP_DUP_CURS, ''42000'', []),
    (ER_SP_SUBSELECT_NYI, ''0A000'', []),
    (ER_STMT_NOT_ALLOWED_IN_SF_OR_TRG, ''0A000'', []),
    (ER_SP_VARCOND_AFTER_CURSHNDLR, ''42000'', []),
    (ER_SP_CURSOR_AFTER_HANDLER, ''42000'', []),
    (ER_SP_CASE_NOT_FOUND, ''20000'', []),
    (ER_DIVISION_BY_ZERO, ''22012'', []),
    (ER_ILLEGAL_VALUE_FOR_TYPE, ''22007'', []),
    (ER_PROCACCESS_DENIED_ERROR, ''42000'', []),
    (ER_XAER_NOTA, ''XAE04'', []),
    (ER_XAER_INVAL, ''XAE05'', []),
    (ER_XAER_RMFAIL, ''XAE07'', []),
    (ER_XAER_OUTSIDE, ''XAE09'', []),
    (ER_XAER_RMERR, ''XAE03'', []),
    (ER_XA_RBROLLBACK, ''XA100'', []),
    (ER_NONEXISTING_PROC_GRANT, ''42000'', []),
    (ER_DATA_TOO_LONG, ''22001'', []),
    (ER_SP_BAD_SQLSTATE, ''42000'', []),
    (ER_CANT_CREATE_USER_WITH_GRANT, ''42000'', []),
    (ER_SP_DUP_HANDLER, ''42000'', []),
    (ER_SP_NOT_VAR_ARG, ''42000'', []),
    (ER_SP_NO_RETSET, ''0A000'', []),
    (ER_CANT_CREATE_GEOMETRY_OBJECT, ''22003'', []),
    (ER_TOO_BIG_SCALE, ''42000'', ''S1009''),
    (ER_TOO_BIG_PRECISION, ''42000'', ''S1009''),
    (ER_M_BIGGER_THAN_D, ''42000'', ''S1009''),
    (ER_TOO_LONG_BODY, ''42000'', ''S1009''),
    (ER_TOO_BIG_DISPLAYWIDTH, ''42000'', ''S1009''),
    (ER_XAER_DUPID, ''XAE08'', []),
    (ER_DATETIME_FUNCTION_OVERFLOW, ''22008'', []),
    (ER_ROW_IS_REFERENCED_2, ''23000'', []),
    (ER_NO_REFERENCED_ROW_2, ''23000'', []),
    (ER_SP_BAD_VAR_SHADOW, ''42000'', []),
    (ER_SP_WRONG_NAME, ''42000'', []),
    (ER_SP_NO_AGGREGATE, ''42000'', []),
    (ER_MAX_PREPARED_STMT_COUNT_REACHED, ''42000'', []),
    (ER_NON_GROUPING_FIELD_USED, ''42000'', []),
    (ER_FOREIGN_DUPLICATE_KEY, ''23000'', ''S1009''),
    (ER_CANT_CHANGE_TX_ISOLATION, ''25001'', []),
    (ER_WRONG_PARAMCOUNT_TO_NATIVE_FCT, ''42000'', []),
    (ER_WRONG_PARAMETERS_TO_NATIVE_FCT, ''42000'', []),
    (ER_WRONG_PARAMETERS_TO_STORED_FCT, ''42000'', []),
    (ER_DUP_ENTRY_WITH_KEY_NAME, ''23000'', ''S1009''),
    (ER_XA_RBTIMEOUT, ''XA106'', []),
    (ER_XA_RBDEADLOCK, ''XA102'', []),
    (ER_FUNC_INEXISTENT_NAME_COLLISION, ''42000'', []),
    (ER_DUP_SIGNAL_SET, ''42000'', []),
    (ER_SIGNAL_WARN, ''01000'', []),
    (ER_SIGNAL_NOT_FOUND, ''02000'', []),
    (ER_SIGNAL_EXCEPTION, ''HY000'', []),
    (ER_RESIGNAL_WITHOUT_ACTIVE_HANDLER, ''0K000'', []),
    (ER_SPATIAL_MUST_HAVE_GEOM_COL, ''42000'', []),
    (ER_DATA_OUT_OF_RANGE, ''22003'', []),
    (ER_ACCESS_DENIED_NO_PASSWORD_ERROR, ''28000'', []),
    (ER_TRUNCATE_ILLEGAL_FK, ''42000'', [])]"

definition sql_state :: "(nat \<times> string \<times> string) list" where
  "sql_state = sql_state_1 @ sql_state_2"

text \<open>A state is two characters of class and three of subclass, digits and capital letters (\<^verbatim>\<open>mysql_com.h\<close> has the length).\<close>

definition is_state_char :: "char \<Rightarrow> bool" where
  "is_state_char c \<longleftrightarrow> c \<in> set ''0123456789ABCDEFGHIJKLMNOPQRSTUVWXYZ''"

definition SQLSTATE_LENGTH :: nat where "SQLSTATE_LENGTH = 5"

definition is_sqlstate :: "string \<Rightarrow> bool" where
  "is_sqlstate s \<longleftrightarrow> length s = SQLSTATE_LENGTH \<and> list_all is_state_char s"

definition sql_state_row_ok :: "nat \<times> string \<times> string \<Rightarrow> bool" where
  "sql_state_row_ok = (\<lambda>(n, state, odbc). ER_ERROR_FIRST \<le> n \<and> n \<le> ER_ERROR_LAST \<and> is_sqlstate state)"

definition odbc_state_ok :: "nat \<times> string \<times> string \<Rightarrow> bool" where
  "odbc_state_ok = (\<lambda>(n, state, odbc). odbc = [] \<or> is_sqlstate odbc)"

lemma increasing: "successively (<) xs \<longleftrightarrow> sorted_wrt (<) xs" for xs :: "nat list"
  by (rule successively_conv_sorted_wrt) simp

lemma sql_state_numbers:
  "map fst sql_state_1 = [1022, 1037, 1038, 1040, 1042, 1043, 1044, 1045, 1046, 1047, 1048, 1049, 1050, 1051, 1052, 1053, 1054, 1055, 1056, 1057,
    1058, 1059, 1060, 1061, 1062, 1063, 1064, 1065, 1066, 1067, 1068, 1069, 1070, 1071, 1072, 1073, 1074, 1075, 1080, 1081,
    1082, 1083, 1084, 1090, 1091, 1101, 1102, 1103, 1104, 1106, 1107, 1109, 1110, 1112, 1113, 1115, 1118, 1120, 1121, 1131,
    1132, 1133, 1136, 1138, 1139, 1140, 1141, 1142, 1143, 1144, 1145, 1146, 1147, 1148, 1149, 1152, 1153, 1154, 1155, 1156,
    1157, 1158, 1159, 1160, 1161, 1162, 1163, 1164, 1166, 1167, 1169, 1170, 1171, 1172, 1173, 1176, 1177, 1178, 1179, 1184,
    1189, 1190, 1203, 1207, 1211, 1213, 1216, 1217, 1218, 1222]"
  "map fst sql_state_2 = [1226, 1227, 1230, 1231, 1232, 1234, 1235, 1239, 1241, 1242, 1247, 1248, 1249, 1250, 1251, 1252, 1253, 1261, 1262, 1263,
    1264, 1265, 1280, 1281, 1286, 1292, 1303, 1304, 1305, 1308, 1309, 1310, 1311, 1312, 1313, 1314, 1315, 1316, 1317, 1318,
    1319, 1320, 1321, 1322, 1323, 1324, 1325, 1326, 1327, 1329, 1330, 1331, 1332, 1333, 1335, 1336, 1337, 1338, 1339, 1365,
    1367, 1370, 1397, 1398, 1399, 1400, 1401, 1402, 1403, 1406, 1407, 1410, 1413, 1414, 1415, 1416, 1425, 1426, 1427, 1437,
    1439, 1440, 1441, 1451, 1452, 1453, 1458, 1460, 1461, 1463, 1557, 1568, 1582, 1583, 1584, 1586, 1613, 1614, 1630, 1641,
    1642, 1643, 1644, 1645, 1687, 1690, 1698, 1701]"
  by (simp_all add: sql_state_1_def sql_state_2_def error_constants)

text \<open>The states that occur.\<close>

lemma states_that_occur: "list_all is_sqlstate
    [''01000'', ''02000'', ''08004'', ''08S01'', ''0A000'', ''0K000'', ''20000'', ''21000'', ''21S01'', ''22001'',
     ''22003'', ''22004'', ''22007'', ''22008'', ''22012'', ''23000'', ''24000'', ''25000'', ''25001'', ''28000'',
     ''2F003'', ''2F005'', ''3D000'', ''40001'', ''42000'', ''42S01'', ''42S02'', ''42S12'', ''42S21'', ''42S22'',
     ''70100'', ''HY000'', ''HY001'', ''S0022'', ''S1001'', ''S1009'', ''XA100'', ''XA102'', ''XA106'', ''XAE03'',
     ''XAE04'', ''XAE05'', ''XAE07'', ''XAE08'', ''XAE09'']"
  by (simp add: is_sqlstate_def SQLSTATE_LENGTH_def is_state_char_def)

lemma state_with_small_letter: "\<not> is_sqlstate ''s1009''"
  by (simp add: is_sqlstate_def is_state_char_def)

lemmas sql_state_row_defs = sql_state_row_ok_def odbc_state_ok_def states_that_occur [unfolded list.pred_inject] state_with_small_letter
  ER_ERROR_FIRST_def ER_ERROR_LAST_def error_constants

lemma sql_state_rows: "list_all sql_state_row_ok sql_state_1" "list_all sql_state_row_ok sql_state_2"
    "filter (\<lambda>r. \<not> odbc_state_ok r) sql_state_1 = [(ER_PARSE_ERROR, ''42000'', ''s1009'')]"
    "filter (\<lambda>r. \<not> odbc_state_ok r) sql_state_2 = []"
  by (simp_all add: sql_state_1_def sql_state_2_def sql_state_row_defs)

section \<open>Properties\<close>

text \<open>The table of SQL states is a table by error number: the numbers are strictly increasing, so that no error has two states and a search by number can stop,
  every number is one of the server's errors, and every state is well formed.  The states of ODBC are well formed but for one: that of
  a parse error is written with a small letter.\<close>
lemma sql_state_table:
  "sorted_wrt (<) (map fst sql_state) \<and> list_all sql_state_row_ok sql_state \<and>
   filter (\<lambda>r. \<not> odbc_state_ok r) sql_state = [(ER_PARSE_ERROR, ''42000'', ''s1009'')]"
proof -
  have "successively (<) (map fst sql_state)"
    unfolding sql_state_def map_append sql_state_numbers by simp
  then show ?thesis by (simp add: increasing sql_state_def sql_state_rows)
qed

end
