(* ===== verification/Preprocessor.thy ===== *)
theory Preprocessor
  imports Mysql_Prelude
begin

text \<open>
  The preprocessor, as far as the build of the headers depends on it.  A header is a sequence of directives; a directive is a function on the state,
  which has the macros that are defined and the types that have been declared by \<^verbatim>\<open>typedef\<close>, and stops with a message at
  \<^verbatim>\<open>#error\<close>.  The directives of \<^verbatim>\<open>my_config.h\<close>, \<^verbatim>\<open>my_attribute.h\<close>, \<^verbatim>\<open>my_compiler.h\<close>,
  \<^verbatim>\<open>my_dbug.h\<close> and \<^verbatim>\<open>my_global.h\<close> are written with these functions, in their order, in the theories
  \<open>Build_Config\<close> and \<open>Build_Global\<close>.

  What a sequence of directives leaves alone is the main tool: \<open>keeps_macro m p\<close> says that \<open>p\<close> does not change the macro \<open>m\<close>,
  \<open>keeps_type n p\<close> that it does not change the type \<open>n\<close>, \<open>total p\<close> that it does not stop.
\<close>

section \<open>State and directives\<close>

text \<open>The text of a macro: a number, other tokens, a sum of multiples of other macros (\<^verbatim>\<open>GCC_VERSION\<close>), or parameters and the tokens they are used in.  The
  tokens of a macro with parameters play no role in conditions; what the macros compute is in the theories of the components.\<close>

datatype macro_text = Number int | Tokens string | Linear "(int \<times> string) list" | Params "string list" string

datatype c_base = T_char | T_schar | T_uchar | T_short | T_ushort | T_int | T_uint | T_long | T_ulong | T_long_long | T_ulong_long | T_uint64
  | T_float | T_double | T_off_t | T_system string

record pp =
  macros :: "string \<Rightarrow> macro_text option"
  types :: "string \<Rightarrow> c_base option"

type_synonym directive = "pp \<Rightarrow> string + pp"

definition skip :: directive where
  "skip s = Inr s"

definition define_macro :: "string \<Rightarrow> macro_text \<Rightarrow> directive" where
  "define_macro m t s = Inr (s\<lparr>macros := (macros s)(m \<mapsto> t)\<rparr>)"

definition undef_macro :: "string \<Rightarrow> directive" where
  "undef_macro m s = Inr (s\<lparr>macros := (macros s)(m := None)\<rparr>)"

definition error_directive :: "string \<Rightarrow> directive" where
  "error_directive msg s = Inl msg"

definition typedef_base :: "string \<Rightarrow> c_base \<Rightarrow> directive" where
  "typedef_base n t s = Inr (s\<lparr>types := (types s)(n \<mapsto> t)\<rparr>)"

text \<open>\<^verbatim>\<open>typedef old new\<close> for a type declared before.\<close>

definition typedef_alias :: "string \<Rightarrow> string \<Rightarrow> directive" where
  "typedef_alias n t s = Inr (s\<lparr>types := (types s)(n := types s t)\<rparr>)"

primrec block :: "directive list \<Rightarrow> directive" where
  "block [] s = Inr s"
| "block (p # ps) s = (case p s of Inl e \<Rightarrow> Inl e | Inr s' \<Rightarrow> block ps s')"

definition if_dir :: "(pp \<Rightarrow> bool) \<Rightarrow> directive list \<Rightarrow> directive list \<Rightarrow> directive" where
  "if_dir c ps qs s = (if c s then block ps s else block qs s)"

text \<open>Conditions: whether a macro is defined, and its value.  A name that is no macro counts as 0, one that stands for another name as that one; the
  longest such chain in these headers has two steps (\<^verbatim>\<open>SIZEOF_CHARP\<close>, \<^verbatim>\<open>SIZEOF_LONG\<close>, a number).\<close>

definition defined :: "string \<Rightarrow> pp \<Rightarrow> bool" where
  "defined m s \<longleftrightarrow> macros s m \<noteq> None"

primrec expand :: "nat \<Rightarrow> string \<Rightarrow> pp \<Rightarrow> int" where
  "expand 0 m s = 0"
| "expand (Suc k) m s = (case macros s m of Some (Number n) \<Rightarrow> n | Some (Tokens t) \<Rightarrow> expand k t s
     | Some (Linear ts) \<Rightarrow> (\<Sum>(c, t) \<leftarrow> ts. c * expand k t s) | _ \<Rightarrow> 0)"

definition val :: "string \<Rightarrow> pp \<Rightarrow> int" where
  "val m s = expand 3 m s"

text \<open>A line of a configuration file: a definition, or \<^verbatim>\<open>/* #undef ... */\<close> for what was not found.\<close>

definition config_line :: "string \<times> macro_text option \<Rightarrow> directive" where
  "config_line l = (case snd l of None \<Rightarrow> skip | Some t \<Rightarrow> define_macro (fst l) t)"

lemmas directive_defs = skip_def define_macro_def undef_macro_def error_directive_def typedef_base_def typedef_alias_def

section \<open>What directives keep\<close>

text \<open>A reflexive and transitive relation between the states before and after is kept by a sequence if each directive keeps it.\<close>

locale frame_relation =
  fixes same :: "pp \<Rightarrow> pp \<Rightarrow> bool"
  assumes same_refl: "same s s"
    and same_trans: "same s t \<Longrightarrow> same t u \<Longrightarrow> same s u"
begin

definition frame :: "directive \<Rightarrow> bool" where
  "frame p \<longleftrightarrow> (\<forall>s s'. p s = Inr s' \<longrightarrow> same s s')"

lemma frameD: "frame p \<Longrightarrow> p s = Inr s' \<Longrightarrow> same s s'"
  by (simp add: frame_def)

lemma frame_skip [simp]: "frame skip"
  by (simp add: frame_def skip_def same_refl)

lemma frame_error [simp]: "frame (error_directive msg)"
  by (simp add: frame_def error_directive_def)

lemma frame_block: "list_all frame ps \<Longrightarrow> frame (block ps)"
proof (induction ps)
  case Nil
  then show ?case by (simp add: frame_def same_refl)
next
  case (Cons p ps)
  then have p: "frame p" and ps: "frame (block ps)" by simp_all
  show ?case unfolding frame_def
  proof (intro allI impI)
    fix s s' assume "block (p # ps) s = Inr s'"
    then obtain t where "p s = Inr t" "block ps t = Inr s'" by (auto split: sum.splits)
    then show "same s s'" using p ps by (blast intro: same_trans dest: frameD)
  qed
qed

lemma frame_if: "list_all frame ps \<Longrightarrow> list_all frame qs \<Longrightarrow> frame (if_dir c ps qs)"
  using frame_block [of ps] frame_block [of qs] by (simp add: frame_def if_dir_def)

end

definition same_macro :: "string \<Rightarrow> pp \<Rightarrow> pp \<Rightarrow> bool" where
  "same_macro m s s' \<longleftrightarrow> macros s' m = macros s m"

definition same_type :: "string \<Rightarrow> pp \<Rightarrow> pp \<Rightarrow> bool" where
  "same_type n s s' \<longleftrightarrow> types s' n = types s n"

interpretation mac: frame_relation "same_macro m" for m
  by unfold_locales (simp_all add: same_macro_def)

definition still_defined :: "string \<Rightarrow> pp \<Rightarrow> pp \<Rightarrow> bool" where
  "still_defined m s s' \<longleftrightarrow> (defined m s \<longrightarrow> defined m s')"

interpretation dfd: frame_relation "still_defined m" for m
  by unfold_locales (simp_all add: still_defined_def)

interpretation tdf: frame_relation "same_type n" for n
  by unfold_locales (simp_all add: same_type_def)

definition keeps_macro :: "string \<Rightarrow> directive \<Rightarrow> bool" where
  "keeps_macro m p \<longleftrightarrow> mac.frame m p"

definition keeps_type :: "string \<Rightarrow> directive \<Rightarrow> bool" where
  "keeps_type n p \<longleftrightarrow> tdf.frame n p"

definition keeps_defined :: "string \<Rightarrow> directive \<Rightarrow> bool" where
  "keeps_defined m p \<longleftrightarrow> dfd.frame m p"

definition total :: "directive \<Rightarrow> bool" where
  "total p \<longleftrightarrow> (\<forall>s. \<exists>s'. p s = Inr s')"

lemma keepsD: "keeps_macro m p \<Longrightarrow> p s = Inr s' \<Longrightarrow> macros s' m = macros s m"
  by (auto simp: keeps_macro_def same_macro_def dest: mac.frameD)

lemma keeps_typeD: "keeps_type n p \<Longrightarrow> p s = Inr s' \<Longrightarrow> types s' n = types s n"
  by (auto simp: keeps_type_def same_type_def dest: tdf.frameD)

lemma keeps_definedD: "keeps_defined m p \<Longrightarrow> p s = Inr s' \<Longrightarrow> defined m s \<Longrightarrow> defined m s'"
  by (auto simp: keeps_defined_def still_defined_def dest: dfd.frameD)

lemma list_all_keeps: "list_all (mac.frame m) ps \<longleftrightarrow> list_all (keeps_macro m) ps" "list_all (tdf.frame n) ps \<longleftrightarrow> list_all (keeps_type n) ps"
    "list_all (dfd.frame m) ps \<longleftrightarrow> list_all (keeps_defined m) ps"
  by (simp_all add: keeps_macro_def keeps_type_def keeps_defined_def list_all_iff)

lemma keeps_rules:
  "keeps_macro m skip" "keeps_macro m (error_directive msg)" "keeps_macro m (typedef_base n t)" "keeps_macro m (typedef_alias n n')"
  "m' \<noteq> m \<Longrightarrow> keeps_macro m (define_macro m' txt)" "m' \<noteq> m \<Longrightarrow> keeps_macro m (undef_macro m')"
  "list_all (keeps_macro m) ps \<Longrightarrow> keeps_macro m (block ps)"
  "list_all (keeps_macro m) ps \<Longrightarrow> list_all (keeps_macro m) qs \<Longrightarrow> keeps_macro m (if_dir c ps qs)"
  using mac.frame_block [of m ps] mac.frame_if [of m ps qs]
  by (simp_all add: keeps_macro_def list_all_keeps) (simp_all add: mac.frame_def same_macro_def directive_defs)

lemma keeps_type_rules:
  "keeps_type n skip" "keeps_type n (error_directive msg)" "keeps_type n (define_macro m txt)" "keeps_type n (undef_macro m)"
  "n' \<noteq> n \<Longrightarrow> keeps_type n (typedef_base n' t)" "n' \<noteq> n \<Longrightarrow> keeps_type n (typedef_alias n' n'')"
  "list_all (keeps_type n) ps \<Longrightarrow> keeps_type n (block ps)"
  "list_all (keeps_type n) ps \<Longrightarrow> list_all (keeps_type n) qs \<Longrightarrow> keeps_type n (if_dir c ps qs)"
  using tdf.frame_block [of n ps] tdf.frame_if [of n ps qs]
  by (simp_all add: keeps_type_def list_all_keeps) (simp_all add: tdf.frame_def same_type_def directive_defs)

lemma keeps_defined_rules:
  "keeps_defined m skip" "keeps_defined m (error_directive msg)" "keeps_defined m (typedef_base n t)" "keeps_defined m (typedef_alias n n')"
  "keeps_defined m (define_macro m' txt)" "m' \<noteq> m \<Longrightarrow> keeps_defined m (undef_macro m')"
  "list_all (keeps_defined m) ps \<Longrightarrow> keeps_defined m (block ps)"
  "list_all (keeps_defined m) ps \<Longrightarrow> list_all (keeps_defined m) qs \<Longrightarrow> keeps_defined m (if_dir c ps qs)"
  using dfd.frame_block [of m ps] dfd.frame_if [of m ps qs]
  by (simp_all add: keeps_defined_def list_all_keeps) (simp_all add: dfd.frame_def still_defined_def defined_def directive_defs)

lemma total_block: "list_all total ps \<Longrightarrow> total (block ps)"
proof (induction ps)
  case (Cons p ps)
  then have "total p" "total (block ps)" by simp_all
  then show ?case unfolding total_def by (metis block.simps(2) sum.simps(6))
qed (simp add: total_def)

lemma total_rules:
  "total skip" "total (define_macro m txt)" "total (undef_macro m)" "total (typedef_base n t)" "total (typedef_alias n n')"
  "list_all total ps \<Longrightarrow> total (block ps)"
  "list_all total ps \<Longrightarrow> list_all total qs \<Longrightarrow> total (if_dir c ps qs)"
  using total_block [of ps] total_block [of qs]
  by (simp_all add: total_def directive_defs if_dir_def)

lemma config_line_rules:
  "snd l = None \<or> fst l \<noteq> m \<Longrightarrow> keeps_macro m (config_line l)" "keeps_type n (config_line l)" "total (config_line l)"
  "keeps_defined m (config_line l)"
  by (auto simp: config_line_def keeps_rules keeps_type_rules keeps_defined_rules total_rules split: option.split)

text \<open>Sequences.\<close>

lemma block_append: "block (ps @ qs) s = (case block ps s of Inl e \<Rightarrow> Inl e | Inr s' \<Rightarrow> block qs s')"
  by (induction ps arbitrary: s) (auto split: sum.split)

lemma block_Inr_Cons: "block (p # ps) s = Inr s' \<longleftrightarrow> (\<exists>t. p s = Inr t \<and> block ps t = Inr s')"
  by (auto split: sum.split)

lemma block_Inr_append: "block (ps @ qs) s = Inr s' \<longleftrightarrow> (\<exists>t. block ps s = Inr t \<and> block qs t = Inr s')"
  by (auto simp: block_append split: sum.split)

lemma block_one: "block [p] s = p s"
  by (simp split: sum.split)

lemma totalE: "total p \<Longrightarrow> (\<And>s'. p s = Inr s' \<Longrightarrow> P) \<Longrightarrow> P"
  by (auto simp: total_def)

text \<open>After the lines of a configuration file a macro is what the last line for it says.\<close>

primrec last_line :: "string \<Rightarrow> (string \<times> macro_text option) list \<Rightarrow> macro_text option \<Rightarrow> macro_text option" where
  "last_line m [] d = d"
| "last_line m (l # ls) d = last_line m ls (if fst l = m \<and> snd l \<noteq> None then snd l else d)"

lemma block_config_lines:
  "block (map config_line ls) s = Inr s' \<Longrightarrow> macros s' m = last_line m ls (macros s m)"
proof (induction ls arbitrary: s)
  case (Cons l ls)
  then show ?case by (cases l; cases "snd l") (auto simp: config_line_def directive_defs split: if_splits)
qed simp

lemma keeps_config_lines: "list_all (\<lambda>l. snd l = None \<or> fst l \<noteq> m) ls \<Longrightarrow> keeps_macro m (block (map config_line ls))"
  by (rule keeps_rules(7)) (auto simp: list_all_iff intro: config_line_rules)

lemma config_lines_rules: "keeps_type n (block (map config_line ls))" "total (block (map config_line ls))"
    "keeps_defined m (block (map config_line ls))"
  by (auto simp: list_all_iff intro!: keeps_type_rules(7) total_rules(6) keeps_defined_rules(7) config_line_rules)

lemma config_lines_define:
  assumes "block (map config_line ls) s = Inr s'" "list_ex (\<lambda>l. fst l = m \<and> snd l \<noteq> None) ls"
  shows "defined m s'"
proof -
  have "d \<noteq> None \<Longrightarrow> last_line m ls d \<noteq> None" for d ls by (induction ls arbitrary: d) auto
  then have "list_ex (\<lambda>l. fst l = m \<and> snd l \<noteq> None) ls \<Longrightarrow> last_line m ls d \<noteq> None" for d by (induction ls arbitrary: d) auto
  with assms show ?thesis by (simp add: defined_def block_config_lines [OF assms(1)])
qed

text \<open>A sequence defines a macro if one of its directives does and none undefines it.\<close>

lemma block_defines:
  assumes "block ps s = Inr s'" "p \<in> set ps" "list_all (keeps_defined m) ps" "\<And>t t'. p t = Inr t' \<Longrightarrow> defined m t'"
  shows "defined m s'"
proof -
  from assms(2) obtain qs rs where ps: "ps = qs @ p # rs" by (blast dest: split_list)
  with assms(1) obtain t t' where "p t = Inr t'" "block rs t' = Inr s'" by (auto simp: block_append split: sum.splits)
  moreover have "keeps_defined m (block rs)" using assms(3) by (simp add: ps keeps_defined_rules(7))
  ultimately show ?thesis using assms(4) keeps_definedD by blast
qed

end
