(* ===== verification/Build_Config.thy ===== *)
theory Build_Config
  imports Preprocessor Struct_Layout
begin

text \<open>
  The headers that \<^verbatim>\<open>my_global.h\<close> includes, as directives: the configuration \<^verbatim>\<open>my_config.h\<close>, and
  \<^verbatim>\<open>my_attribute.h\<close>, \<^verbatim>\<open>my_compiler.h\<close> and \<^verbatim>\<open>my_dbug.h\<close>.  The lines of the configuration are tables, in the
  order of the file; a line that is commented out has no text.  \<^verbatim>\<open>my_compiler.h\<close> includes \<^verbatim>\<open>my_global.h\<close>, which is empty
  there by its guard.  A header of the system is an argument: \<open>sys h\<close> are the directives of the header \<open>h\<close>.
\<close>

section \<open>The configuration\<close>

definition config_part1 :: "(string \<times> macro_text option) list" where
  "config_part1 = [
    (''MY_CONFIG_H'', Some (Tokens '''')), (''DOT_FRM_VERSION'', Some (Number 6)), (''STDC_HEADERS'', Some (Number 1)), (''_GNU_SOURCE'', None),
    (''HAVE_ALLOCA_H'', None), (''HAVE_AIO_H'', None), (''HAVE_ARPA_INET_H'', None), (''HAVE_ASM_MSR_H'', None), (''HAVE_ASM_TERMBITS_H'', None),
    (''HAVE_BSEARCH'', Some (Number 1)), (''HAVE_CRYPT_H'', None), (''HAVE_CURSES_H'', None), (''HAVE_CXXABI_H'', None), (''HAVE_NCURSES_H'', None),
    (''HAVE_NDIR_H'', None), (''HAVE_DIRENT_H'', None), (''HAVE_DLFCN_H'', None), (''HAVE_EXECINFO_H'', None), (''HAVE_FCNTL_H'', Some (Number 1)),
    (''HAVE_FENV_H'', None), (''HAVE_FLOAT_H'', Some (Number 1)), (''HAVE_FLOATINGPOINT_H'', None), (''HAVE_FNMATCH_H'', None),
    (''HAVE_FPU_CONTROL_H'', None), (''HAVE_GRP_H'', None), (''HAVE_EXPLICIT_TEMPLATE_INSTANTIATION'', None), (''HAVE_IA64INTRIN_H'', None),
    (''HAVE_IEEEFP_H'', None), (''HAVE_INTTYPES_H'', None), (''HAVE_LIMITS_H'', Some (Number 1)), (''HAVE_LOCALE_H'', Some (Number 1)),
    (''HAVE_MALLOC_H'', Some (Number 1)), (''HAVE_MEMORY_H'', Some (Number 1)), (''HAVE_NETINET_IN_H'', None), (''HAVE_PATHS_H'', None),
    (''HAVE_POLL_H'', None), (''HAVE_PORT_H'', None), (''HAVE_PWD_H'', None), (''HAVE_SCHED_H'', None), (''HAVE_SELECT_H'', None),
    (''HAVE_SOLARIS_LARGE_PAGES'', None), (''HAVE_STDDEF_H'', Some (Number 1)), (''HAVE_STDLIB_H'', Some (Number 1)), (''HAVE_STDARG_H'', Some (Number 1)),
    (''HAVE_STRINGS_H'', None), (''HAVE_STRING_H'', Some (Number 1)), (''HAVE_STDINT_H'', None), (''HAVE_SEMAPHORE_H'', None), (''HAVE_SYNCH_H'', None),
    (''HAVE_SYSENT_H'', None), (''HAVE_SYS_DIR_H'', None), (''HAVE_SYS_CDEFS_H'', None), (''HAVE_SYS_FILE_H'', None), (''HAVE_SYS_FPU_H'', None),
    (''HAVE_SYS_IOCTL_H'', None), (''HAVE_SYS_IPC_H'', None), (''HAVE_SYS_MALLOC_H'', None), (''HAVE_SYS_MMAN_H'', None), (''HAVE_SYS_NDIR_H'', None),
    (''HAVE_SYS_PTE_H'', None), (''HAVE_SYS_PTEM_H'', None), (''HAVE_SYS_PRCTL_H'', None), (''HAVE_SYS_RESOURCE_H'', None), (''HAVE_SYS_SELECT_H'', None),
    (''HAVE_SYS_SHM_H'', None), (''HAVE_SYS_SOCKET_H'', None), (''HAVE_SYS_STAT_H'', Some (Number 1)), (''HAVE_SYS_STREAM_H'', None),
    (''HAVE_SYS_TERMCAP_H'', None), (''HAVE_SYS_TIMEB_H'', Some (Number 1)), (''HAVE_SYS_TIMES_H'', None), (''HAVE_SYS_TIME_H'', None),
    (''HAVE_SYS_TYPES_H'', Some (Number 1)), (''HAVE_SYS_UN_H'', None), (''HAVE_SYS_VADVISE_H'', None), (''HAVE_TERM_H'', None),
    (''HAVE_TERMBITS_H'', None), (''HAVE_TERMIOS_H'', None), (''HAVE_TERMIO_H'', None), (''HAVE_TERMCAP_H'', None), (''HAVE_TIME_H'', Some (Number 1)),
    (''HAVE_UNISTD_H'', None), (''HAVE_UTIME_H'', None), (''HAVE_VARARGS_H'', Some (Number 1)), (''HAVE_VIS_H'', None),
    (''HAVE_SYS_UTIME_H'', Some (Number 1)), (''HAVE_SYS_WAIT_H'', None), (''HAVE_SYS_PARAM_H'', None), (''HAVE_LIBPTHREAD'', None), (''HAVE_LIBM'', None),
    (''HAVE_LIBDL'', None), (''HAVE_LIBRT'', None), (''HAVE_LIBSOCKET'', None), (''HAVE_LIBNSL'', None), (''HAVE_LIBCRYPT'', None),
    (''HAVE_LIBMTMALLOC'', None), (''HAVE_LIBWRAP'', None), (''HAVE_TIMESPEC_TS_SEC'', None), (''HAVE_HIST_ENTRY'', None),
    (''USE_LIBEDIT_INTERFACE'', None), (''USE_NEW_READLINE_INTERFACE'', None), (''FIONREAD_IN_SYS_IOCTL'', None), (''GWINSZ_IN_SYS_IOCTL'', None),
    (''TIOCSTAT_IN_SYS_IOCTL'', None), (''FIONREAD_IN_SYS_FILIO'', None), (''HAVE_AIOWAIT'', None), (''HAVE_ALARM'', None),
    (''HAVE_ALLOCA'', Some (Number 1)), (''HAVE_BFILL'', None), (''HAVE_BMOVE'', None), (''HAVE_BZERO'', None), (''HAVE_INDEX'', None),
    (''HAVE_CHOWN'', None), (''HAVE_CLOCK_GETTIME'', None), (''HAVE_CRYPT'', None), (''HAVE_CUSERID'', None), (''HAVE_CXX_NEW'', Some (Number 1)),
    (''HAVE_DIRECTIO'', None), (''HAVE_DLERROR'', None), (''HAVE_DLOPEN'', None), (''HAVE_DOPRNT'', None), (''HAVE_FCHMOD'', None), (''HAVE_FCNTL'', None),
    (''HAVE_FCONVERT'', None), (''HAVE_FDATASYNC'', None), (''HAVE_FESETROUND'', None), (''HAVE_FINITE'', Some (Number 1)), (''HAVE_FP_EXCEPT'', None),
    (''HAVE_FPSETMASK'', None), (''HAVE_FSEEKO'', None), (''HAVE_FSYNC'', None), (''HAVE_FTIME'', Some (Number 1)),
    (''HAVE_GETADDRINFO'', Some (Number 1)), (''HAVE_GETCWD'', Some (Number 1)), (''HAVE_GETHOSTBYADDR_R'', None), (''HAVE_GETHRTIME'', None),
    (''HAVE_GETLINE'', None), (''HAVE_GETNAMEINFO'', None), (''HAVE_GETPAGESIZE'', None), (''HAVE_GETPASS'', None), (''HAVE_GETPASSPHRASE'', None)]"

definition config_part2 :: "(string \<times> macro_text option) list" where
  "config_part2 = [
    (''HAVE_GETPWNAM'', None), (''HAVE_GETPWUID'', None), (''HAVE_GETRLIMIT'', None), (''HAVE_GETRUSAGE'', None), (''HAVE_GETTIMEOFDAY'', None),
    (''HAVE_GETWD'', None), (''HAVE_GMTIME_R'', None), (''gmtime_r'', None), (''HAVE_INITGROUPS'', None), (''HAVE_ISSETUGID'', None),
    (''HAVE_GETUID'', None), (''HAVE_GETEUID'', None), (''HAVE_GETGID'', None), (''HAVE_GETEGID'', None), (''HAVE_ISNAN'', Some (Number 1)),
    (''HAVE_ISINF'', None), (''HAVE_LARGE_PAGE_OPTION'', None), (''HAVE_LDIV'', Some (Number 1)), (''HAVE_LRAND48'', None), (''HAVE_LOCALTIME_R'', None),
    (''HAVE_LOG2'', None), (''HAVE_LONGJMP'', Some (Number 1)), (''HAVE_LSTAT'', None), (''HAVE_MEMALIGN'', None), (''HAVE_MLOCK'', None),
    (''HAVE_NPTL'', None), (''HAVE_NL_LANGINFO'', None), (''HAVE_MADVISE'', None), (''HAVE_DECL_MADVISE'', None), (''HAVE_DECL_TGOTO'', None),
    (''HAVE_DECL_MHA_MAPSIZE_VA'', None), (''HAVE_MALLINFO'', None), (''HAVE_MEMCPY'', Some (Number 1)), (''HAVE_MEMMOVE'', Some (Number 1)),
    (''HAVE_MKSTEMP'', None), (''HAVE_MLOCKALL'', None), (''HAVE_MMAP'', None), (''HAVE_MMAP64'', None), (''HAVE_PERROR'', Some (Number 1)),
    (''HAVE_POLL'', None), (''HAVE_PORT_CREATE'', None), (''HAVE_POSIX_FALLOCATE'', None), (''HAVE_PREAD'', None), (''HAVE_PAUSE_INSTRUCTION'', None),
    (''HAVE_FAKE_PAUSE_INSTRUCTION'', None), (''HAVE_RDTSCLL'', None), (''HAVE_READ_REAL_TIME'', None), (''HAVE_PTHREAD_ATTR_CREATE'', None),
    (''HAVE_PTHREAD_ATTR_GETSTACKSIZE'', None), (''HAVE_PTHREAD_ATTR_SETPRIO'', None), (''HAVE_PTHREAD_ATTR_SETSCHEDPARAM'', None),
    (''HAVE_PTHREAD_ATTR_SETSCOPE'', None), (''HAVE_PTHREAD_ATTR_SETSTACKSIZE'', None), (''HAVE_PTHREAD_CONDATTR_CREATE'', None),
    (''HAVE_PTHREAD_CONDATTR_SETCLOCK'', None), (''HAVE_PTHREAD_KEY_DELETE'', None), (''HAVE_PTHREAD_KEY_DELETE'', None), (''HAVE_PTHREAD_KILL'', None),
    (''HAVE_PTHREAD_RWLOCK_RDLOCK'', None), (''HAVE_PTHREAD_SETPRIO_NP'', None), (''HAVE_PTHREAD_SETSCHEDPARAM'', None), (''HAVE_PTHREAD_SIGMASK'', None),
    (''HAVE_PTHREAD_THREADMASK'', None), (''HAVE_PTHREAD_YIELD_NP'', None), (''HAVE_PTHREAD_YIELD_ZERO_ARG'', None), (''PTHREAD_ONCE_INITIALIZER'', None),
    (''HAVE_PUTENV'', Some (Number 1)), (''HAVE_RE_COMP'', None), (''HAVE_REGCOMP'', None), (''HAVE_READDIR_R'', None), (''HAVE_READLINK'', None),
    (''HAVE_REALPATH'', None), (''HAVE_RENAME'', Some (Number 1)), (''HAVE_RINT'', None), (''HAVE_RWLOCK_INIT'', None), (''HAVE_SCHED_YIELD'', None),
    (''HAVE_SELECT'', Some (Number 1)), (''HAVE_SETFD'', None), (''HAVE_SETENV'', None), (''HAVE_SETLOCALE'', Some (Number 1)), (''HAVE_SIGADDSET'', None),
    (''HAVE_SIGEMPTYSET'', None), (''HAVE_SIGHOLD'', None), (''HAVE_SIGSET'', None), (''HAVE_SIGSET_T'', None), (''HAVE_SIGACTION'', None),
    (''HAVE_SIGTHREADMASK'', None), (''HAVE_SIGWAIT'', None), (''HAVE_SLEEP'', None), (''HAVE_SNPRINTF'', Some (Number 1)), (''HAVE_STPCPY'', None),
    (''HAVE_STRERROR'', Some (Number 1)), (''HAVE_STRCOLL'', Some (Number 1)), (''HAVE_STRSIGNAL'', None), (''HAVE_STRLCPY'', None),
    (''HAVE_STRLCAT'', None), (''HAVE_FGETLN'', None), (''HAVE_STRNLEN'', Some (Number 1)), (''HAVE_STRPBRK'', Some (Number 1)), (''HAVE_STRSEP'', None),
    (''HAVE_STRSTR'', Some (Number 1)), (''HAVE_STRTOK_R'', Some (Number 1)), (''HAVE_STRTOL'', Some (Number 1)), (''HAVE_STRTOLL'', Some (Number 1)),
    (''HAVE_STRTOUL'', Some (Number 1)), (''HAVE_STRTOULL'', Some (Number 1)), (''HAVE_SHMAT'', None), (''HAVE_SHMCTL'', None), (''HAVE_SHMDT'', None),
    (''HAVE_SHMGET'', None), (''HAVE_TELL'', Some (Number 1)), (''HAVE_TEMPNAM'', Some (Number 1)), (''HAVE_THR_SETCONCURRENCY'', None),
    (''HAVE_THR_YIELD'', None), (''HAVE_TIME'', Some (Number 1)), (''HAVE_TIMES'', None), (''HAVE_VALLOC'', None),
    (''HAVE_VIO_READ_BUFF'', Some (Number 1)), (''HAVE_VASPRINTF'', None), (''HAVE_VPRINTF'', Some (Number 1)), (''HAVE_VSNPRINTF'', Some (Number 1)),
    (''HAVE_FTRUNCATE'', None), (''HAVE_TZNAME'', Some (Number 1)), (''HAVE_AIO_READ'', None), (''HAVE_SYS_ERRLIST'', None), (''HAVE_BSS_START'', None),
    (''HAVE_BACKTRACE'', None), (''HAVE_BACKTRACE_SYMBOLS'', None), (''HAVE_BACKTRACE_SYMBOLS_FD'', None), (''HAVE_PRINTSTACK'', None),
    (''HAVE_STRUCT_SOCKADDR_IN6'', None), (''HAVE_STRUCT_IN6_ADDR'', None), (''HAVE_NETINET_IN6_H'', None), (''HAVE_IPV6'', Some (Number 1)),
    (''ss_family'', None), (''HAVE_SOCKADDR_IN_SIN_LEN'', None), (''HAVE_SOCKADDR_IN6_SIN6_LEN'', None), (''HAVE_TIMESPEC_TS_SEC'', None),
    (''STRUCT_DIRENT_HAS_D_INO'', None), (''STRUCT_DIRENT_HAS_D_NAMLEN'', None), (''SPRINTF_RETURNS_INT'', Some (Number 1)), (''USE_MB'', Some (Number 1)),
    (''USE_MB_IDENT'', Some (Number 1)), (''HAVE_VALGRIND'', None)]"

definition config_part3 :: "(string \<times> macro_text option) list" where
  "config_part3 = [
    (''SIZEOF_CHAR'', Some (Number 1)), (''HAVE_CHAR'', Some (Number 1)), (''HAVE_LONG'', Some (Number 1)), (''HAVE_CHARP'', Some (Number 1)),
    (''SIZEOF_SHORT'', Some (Number 2)), (''HAVE_SHORT'', Some (Number 1)), (''SIZEOF_INT'', Some (Number 4)), (''HAVE_INT'', Some (Number 1)),
    (''SIZEOF_LONG_LONG'', Some (Number 8)), (''HAVE_LONG_LONG'', Some (Number 1)), (''SIZEOF_OFF_T'', Some (Number 4)), (''HAVE_OFF_T'', Some (Number 1)),
    (''SIZEOF_SIGSET_T'', None), (''HAVE_SIGSET_T'', None), (''HAVE_SIZE_T'', Some (Number 1)), (''SIZEOF_UCHAR'', None), (''HAVE_UCHAR'', None),
    (''SIZEOF_UINT'', None), (''HAVE_UINT'', None), (''SIZEOF_ULONG'', None), (''HAVE_ULONG'', None), (''SIZEOF_INT8'', None), (''HAVE_INT8'', None),
    (''SIZEOF_UINT8'', None), (''HAVE_UINT8'', None), (''SIZEOF_INT16'', None), (''HAVE_INT16'', None), (''SIZEOF_UINT16'', None), (''HAVE_UINT16'', None),
    (''SIZEOF_INT32'', None), (''HAVE_INT32'', None), (''SIZEOF_UINT32'', None), (''HAVE_UINT32'', None), (''SIZEOF_U_INT32_T'', None),
    (''HAVE_U_INT32_T'', None), (''SIZEOF_INT64'', None), (''HAVE_INT64'', None), (''SIZEOF_UINT64'', None), (''HAVE_UINT64'', None),
    (''SIZEOF_BOOL'', None), (''HAVE_BOOL'', None), (''SOCKET_SIZE_TYPE'', Some (Tokens ''int'')), (''HAVE_MBSTATE_T'', None),
    (''MAX_INDEXES'', Some (Number 64)), (''QSORT_TYPE_IS_VOID'', Some (Number 1)), (''RETQSORTTYPE'', Some (Tokens ''void'')),
    (''SIGNAL_RETURN_TYPE_IS_VOID'', Some (Number 1)), (''RETSIGTYPE'', Some (Tokens ''void'')), (''VOID_SIGHANDLER'', Some (Number 1)),
    (''STRUCT_RLIMIT'', Some (Tokens ''struct rlimit''))]"

definition config_part4 :: "(string \<times> macro_text option) list" where
  "config_part4 = [
    (''C_HAS_inline'', None)]"

definition config_part5 :: "(string \<times> macro_text option) list" where
  "config_part5 = [
    (''TARGET_OS_LINUX'', None), (''HAVE_WCTYPE_H'', Some (Number 1)), (''HAVE_WCHAR_H'', Some (Number 1)), (''HAVE_LANGINFO_H'', None),
    (''HAVE_MBRLEN'', None), (''HAVE_MBSCMP'', None), (''HAVE_MBSRTOWCS'', None), (''HAVE_WCRTOMB'', None), (''HAVE_MBRTOWC'', None),
    (''HAVE_WCSCOLL'', None), (''HAVE_WCSDUP'', None), (''HAVE_WCWIDTH'', None), (''HAVE_WCTYPE'', None), (''HAVE_ISWLOWER'', None),
    (''HAVE_ISWUPPER'', None), (''HAVE_TOWLOWER'', None), (''HAVE_TOWUPPER'', None), (''HAVE_ISWCTYPE'', None), (''HAVE_WCHAR_T'', None),
    (''HAVE_WCTYPE_T'', None), (''HAVE_WINT_T'', None), (''HAVE_STRCASECMP'', Some (Number 1)), (''HAVE_STRNCASECMP'', Some (Number 1)),
    (''HAVE_STRDUP'', Some (Number 1)), (''HAVE_LANGINFO_CODESET'', None), (''HAVE_TCGETATTR'', None), (''HAVE_FLOCKFILE'', None),
    (''HAVE_WEAK_SYMBOL'', None), (''HAVE_ABI_CXA_DEMANGLE'', None), (''HAVE_POSIX_SIGNALS'', None), (''HAVE_BSD_SIGNALS'', None),
    (''HAVE_SVR3_SIGNALS'', None), (''HAVE_V7_SIGNALS'', Some (Number 1)), (''HAVE_SOLARIS_STYLE_GETHOST'', None), (''MY_ATOMIC_MODE_DUMMY'', None),
    (''MY_ATOMIC_MODE_RWLOCKS'', None), (''HAVE_GCC_ATOMIC_BUILTINS'', None), (''HAVE_SOLARIS_ATOMIC'', None), (''HAVE_DECL_SHM_HUGETLB'', None),
    (''HAVE_LARGE_PAGES'', None), (''HUGETLB_USE_PROC_MEMINFO'', None), (''NO_FCNTL_NONBLOCK'', Some (Number 1)), (''NO_ALARM'', Some (Number 1)),
    (''_LARGE_FILES'', None), (''_LARGEFILE_SOURCE'', Some (Number 1)), (''_LARGEFILE64_SOURCE'', None), (''_FILE_OFFSET_BITS'', None),
    (''TIME_WITH_SYS_TIME'', None), (''STACK_DIRECTION'', Some (Number (-1))), (''SYSTEM_TYPE'', Some (Tokens ''\"Win32\"'')),
    (''MACHINE_TYPE'', Some (Tokens ''\"x86\"'')), (''HAVE_DTRACE'', None), (''SIGNAL_WITH_VIO_CLOSE'', Some (Number 1)),
    (''S_IROTH'', Some (Tokens ''_S_IREAD'')), (''S_IFIFO'', Some (Tokens ''_S_IFIFO'')), (''IPPROTO_IPV6'', None), (''IPV6_V6ONLY'', None),
    (''sigset_t'', Some (Tokens ''int'')), (''mode_t'', Some (Tokens ''int'')), (''SIGQUIT'', Some (Tokens ''SIGTERM'')),
    (''SIGPIPE'', Some (Tokens ''SIGINT'')), (''isnan'', Some (Tokens ''_isnan'')), (''finite'', Some (Tokens ''_finite'')),
    (''popen'', Some (Tokens ''_popen'')), (''pclose'', Some (Tokens ''_pclose'')), (''ssize_t'', Some (Tokens ''SSIZE_T'')),
    (''strcasecmp'', Some (Tokens ''_stricmp'')), (''strncasecmp'', Some (Tokens ''_strnicmp'')), (''snprintf'', Some (Tokens ''_snprintf'')),
    (''strtok_r'', Some (Tokens ''strtok_s'')), (''strtoll'', Some (Tokens ''_strtoi64'')), (''strtoull'', Some (Tokens ''_strtoui64'')),
    (''vsnprintf'', None)]"

definition config_part6 :: "(string \<times> macro_text option) list" where
  "config_part6 = [
    (''ENABLED_LOCAL_INFILE'', Some (Number 1)), (''ENABLED_PROFILING'', Some (Number 1)), (''EXTRA_DEBUG'', None), (''BACKUP_TEST'', None),
    (''CYBOZU'', None), (''USE_SYMDIR'', Some (Number 1)), (''MYSQL_DEFAULT_CHARSET_NAME'', Some (Tokens ''\"latin1\"'')),
    (''MYSQL_DEFAULT_COLLATION_NAME'', Some (Tokens ''\"latin1_swedish_ci\"'')), (''USE_MB'', Some (Number 1)), (''USE_MB_IDENT'', Some (Number 1)),
    (''USE_STRCOLL'', None), (''FN_NO_CASE_SENSE'', Some (Number 1)), (''HAVE_CHARSET_armscii8'', Some (Number 1)),
    (''HAVE_CHARSET_ascii'', Some (Number 1)), (''HAVE_CHARSET_big5'', Some (Number 1)), (''HAVE_CHARSET_cp1250'', Some (Number 1)),
    (''HAVE_CHARSET_cp1251'', Some (Number 1)), (''HAVE_CHARSET_cp1256'', Some (Number 1)), (''HAVE_CHARSET_cp1257'', Some (Number 1)),
    (''HAVE_CHARSET_cp850'', Some (Number 1)), (''HAVE_CHARSET_cp852'', Some (Number 1)), (''HAVE_CHARSET_cp866'', Some (Number 1)),
    (''HAVE_CHARSET_cp932'', Some (Number 1)), (''HAVE_CHARSET_dec8'', Some (Number 1)), (''HAVE_CHARSET_eucjpms'', Some (Number 1)),
    (''HAVE_CHARSET_euckr'', Some (Number 1)), (''HAVE_CHARSET_gb2312'', Some (Number 1)), (''HAVE_CHARSET_gbk'', Some (Number 1)),
    (''HAVE_CHARSET_geostd8'', Some (Number 1)), (''HAVE_CHARSET_greek'', Some (Number 1)), (''HAVE_CHARSET_hebrew'', Some (Number 1)),
    (''HAVE_CHARSET_hp8'', Some (Number 1)), (''HAVE_CHARSET_keybcs2'', Some (Number 1)), (''HAVE_CHARSET_koi8r'', Some (Number 1)),
    (''HAVE_CHARSET_koi8u'', Some (Number 1)), (''HAVE_CHARSET_latin1'', Some (Number 1)), (''HAVE_CHARSET_latin2'', Some (Number 1)),
    (''HAVE_CHARSET_latin5'', Some (Number 1)), (''HAVE_CHARSET_latin7'', Some (Number 1)), (''HAVE_CHARSET_macce'', Some (Number 1)),
    (''HAVE_CHARSET_macroman'', Some (Number 1)), (''HAVE_CHARSET_sjis'', Some (Number 1)), (''HAVE_CHARSET_swe7'', Some (Number 1)),
    (''HAVE_CHARSET_tis620'', Some (Number 1)), (''HAVE_CHARSET_ucs2'', Some (Number 1)), (''HAVE_CHARSET_ujis'', Some (Number 1)),
    (''HAVE_CHARSET_utf8mb4'', Some (Number 1)), (''HAVE_CHARSET_utf8mb3'', None), (''HAVE_CHARSET_utf8'', Some (Number 1)),
    (''HAVE_CHARSET_utf16'', Some (Number 1)), (''HAVE_CHARSET_utf32'', Some (Number 1)), (''HAVE_UCA_COLLATIONS'', Some (Number 1)),
    (''HAVE_COMPRESS'', Some (Number 1)), (''HAVE_SPATIAL'', Some (Number 1)), (''HAVE_RTREE_KEYS'', Some (Number 1)),
    (''HAVE_QUERY_CACHE'', Some (Number 1)), (''BIG_TABLES'', Some (Number 1)), (''WITH_MYISAM_STORAGE_ENGINE'', Some (Number 1)),
    (''WITH_MYISAMMRG_STORAGE_ENGINE'', Some (Number 1)), (''WITH_HEAP_STORAGE_ENGINE'', Some (Number 1)), (''WITH_CSV_STORAGE_ENGINE'', Some (Number 1)),
    (''WITH_PARTITION_STORAGE_ENGINE'', Some (Number 1)), (''WITH_PERFSCHEMA_STORAGE_ENGINE'', Some (Number 1)),
    (''WITH_NDBCLUSTER_STORAGE_ENGINE'', None)]"

definition config_part7 :: "(string \<times> macro_text option) list" where
  "config_part7 = [
    (''DEFAULT_MYSQL_HOME'', Some (Tokens ''\"C:/Program Files/MySQL/MySQL Server 5.5\"'')), (''SHAREDIR'', Some (Tokens ''\"share\"'')),
    (''DEFAULT_BASEDIR'', Some (Tokens ''\"C:/Program Files/MySQL/MySQL Server 5.5\"'')),
    (''MYSQL_DATADIR'', Some (Tokens ''\"C:/Program Files/MySQL/MySQL Server 5.5/data\"'')),
    (''DEFAULT_CHARSET_HOME'', Some (Tokens ''\"C:/Program Files/MySQL/MySQL Server 5.5\"'')),
    (''PLUGINDIR'', Some (Tokens ''\"C:/Program Files/MySQL/MySQL Server 5.5/lib/plugin\"'')), (''DEFAULT_SYSCONFDIR'', None), (''SO_EXT'', None),
    (''MYSQL_MAJOR_VERSION'', Some (Number 5)), (''MYSQL_MINOR_VERSION'', Some (Number 5)), (''PACKAGE'', Some (Tokens ''\"mysql\"'')),
    (''PACKAGE_BUGREPORT'', Some (Tokens ''\"\"'')), (''PACKAGE_NAME'', Some (Tokens ''\"MySQL Server\"'')),
    (''PACKAGE_STRING'', Some (Tokens ''\"MySQL Server 5.5.25a\"'')), (''PACKAGE_TARNAME'', Some (Tokens ''\"mysql\"'')),
    (''PACKAGE_VERSION'', Some (Tokens ''\"5.5.25a\"'')), (''VERSION'', Some (Tokens ''\"5.5.25a\"'')), (''PROTOCOL_VERSION'', Some (Number 10)),
    (''SIZEOF_TIME_T'', Some (Number 8)), (''TIME_T_UNSIGNED'', None)]"

text \<open>Long and pointers.\<close>

definition config_long :: directive where
  "config_long = if_dir (\<lambda>s. defined ''__APPLE__'' s)
    [if_dir (\<lambda>s. val ''__LP64__'' s \<noteq> 0)
       [define_macro ''SIZEOF_LONG'' (Number 8)]
       [define_macro ''SIZEOF_LONG'' (Number 4)],
     define_macro ''SIZEOF_VOIDP'' (Tokens ''SIZEOF_LONG''),
     define_macro ''SIZEOF_CHARP'' (Tokens ''SIZEOF_LONG''),
     define_macro ''SIZEOF_SIZE_T'' (Tokens ''SIZEOF_LONG'')]
    [define_macro ''SIZEOF_LONG'' (Number 4),
     define_macro ''SIZEOF_VOIDP'' (Number 4),
     define_macro ''SIZEOF_CHARP'' (Number 4),
     define_macro ''SIZEOF_SIZE_T'' (Number 4)]"

definition config_late :: directive where
  "config_late = block
    [if_dir (\<lambda>s. defined ''__APPLE__'' s)
       [if_dir (\<lambda>s. val ''__BIG_ENDIAN'' s \<noteq> 0)
          [define_macro ''WORDS_BIGENDIAN'' (Number 1)] []]
       [config_line (''WORDS_BIGENDIAN'', None)],
     block (map config_line config_part4),
     if_dir (\<lambda>s. \<not> val ''C_HAS_inline'' s \<noteq> 0)
       [if_dir (\<lambda>s. \<not> defined ''__cplusplus'' s)
          [define_macro ''inline'' (Tokens ''__inline'')] []] [],
     block (map config_line config_part5),
     if_dir (\<lambda>s. val ''_MSC_VER'' s > 1310)
       [define_macro ''HAVE_SETENV'' (Tokens ''''),
        define_macro ''setenv'' (Params [''a'', ''b'', ''c''] ''_putenv_s(a,b)'')] [],
     block (map config_line config_part6),
     if_dir (\<lambda>s. val ''WITH_NDBCLUSTER_STORAGE_ENGINE'' s \<noteq> 0 \<and> \<not> defined ''EMBEDDED_LIBRARY'' s)
       [define_macro ''HAVE_NDB_BINLOG'' (Number 1)] [],
     block (map config_line config_part7)]"

definition my_config_h :: directive where
  "my_config_h = if_dir (\<lambda>s. \<not> defined ''MY_CONFIG_H'' s)
    [block (map config_line config_part1),
     block (map config_line config_part2),
     config_long,
     block (map config_line config_part3),
     config_late] []"

section \<open>Headers for compilers and debugging\<close>

definition my_attribute_h :: "directive" where
  "my_attribute_h = block
    [if_dir (\<lambda>s. \<not> defined ''_my_attribute_h'' s)
       [define_macro ''_my_attribute_h'' (Tokens ''''),
        if_dir (\<lambda>s. defined ''__GNUC__'' s)
          [if_dir (\<lambda>s. \<not> defined ''GCC_VERSION'' s)
             [define_macro ''GCC_VERSION'' (Linear [(1000, ''__GNUC__''), (1, ''__GNUC_MINOR__'')])] []] [],
        if_dir (\<lambda>s. \<not> defined ''__attribute__'' s)
          [if_dir (\<lambda>s. \<not> defined ''__GNUC__'' s)
             [define_macro ''__attribute__'' (Params [''A''] '''')]
             [if_dir (\<lambda>s. val ''GCC_VERSION'' s < 2008)
             [define_macro ''__attribute__'' (Params [''A''] '''')]
             [if_dir (\<lambda>s. defined ''__cplusplus'' s \<and> val ''GCC_VERSION'' s < 3004)
             [define_macro ''__attribute__'' (Params [''A''] '''')] []]]] [],
        if_dir (\<lambda>s. \<not> defined ''ATTRIBUTE_FORMAT'' s)
          [define_macro ''ATTRIBUTE_FORMAT'' (Params [''style'', ''m'', ''n''] ''__attribute__((format(style, m, n)))'')] [],
        if_dir (\<lambda>s. \<not> defined ''ATTRIBUTE_FORMAT_FPTR'' s)
          [if_dir (\<lambda>s. val ''GCC_VERSION'' s \<ge> 3001)
             [define_macro ''ATTRIBUTE_FORMAT_FPTR'' (Params [''style'', ''m'', ''n''] ''ATTRIBUTE_FORMAT(style, m, n)'')]
             [define_macro ''ATTRIBUTE_FORMAT_FPTR'' (Params [''style'', ''m'', ''n''] '''')]] []] []]"

definition my_compiler_h :: "directive" where
  "my_compiler_h = block
    [if_dir (\<lambda>s. \<not> defined ''MY_COMPILER_INCLUDED'' s)
       [define_macro ''MY_COMPILER_INCLUDED'' (Tokens ''''),
        skip,
        if_dir (\<lambda>s. defined ''__GNUC__'' s)
          [define_macro ''MY_GNUC_PREREQ'' (Params [''maj'', ''min''] ''((__GNUC__ << 16) + __GNUC_MINOR__ >= ((maj) << 16) + (min))''),
           define_macro ''MY_ALIGN_EXT'' (Tokens ''''),
           if_dir (\<lambda>s. MY_GNUC_PREREQ (val ''__GNUC__'' s) (val ''__GNUC_MINOR__'' s) 4 5)
             [define_macro ''MY_ASSERT_UNREACHABLE'' (Params [] ''__builtin_unreachable()'')] []]
          [if_dir (\<lambda>s. defined ''_MSC_VER'' s)
          [define_macro ''MY_ALIGNOF'' (Params [''type''] ''__alignof(type)''),
           define_macro ''MY_ALIGNED'' (Params [''n''] ''__declspec(align(n))'')]
          [if_dir (\<lambda>s. defined ''__SUNPRO_C'' s \<or> defined ''__SUNPRO_CC'' s)
          [if_dir (\<lambda>s. val ''__SUNPRO_C'' s \<ge> 1424)
             [define_macro ''MY_ALIGN_EXT'' (Tokens '''')] []]
          [if_dir (\<lambda>s. defined ''__xlC__'' s)
          [if_dir (\<lambda>s. val ''__xlC__'' s \<ge> 1536)
             [define_macro ''MY_ALIGN_EXT'' (Tokens '''')] []]
          [if_dir (\<lambda>s. defined ''__HP_aCC'' s \<or> defined ''__HP_cc'' s)
          [if_dir (\<lambda>s. val ''__HP_aCC'' s \<ge> 60000 \<or> val ''__HP_cc'' s \<ge> 60000)
             [define_macro ''MY_ALIGN_EXT'' (Tokens '''')] []] []]]]],
        if_dir (\<lambda>s. defined ''MY_ALIGN_EXT'' s)
          [define_macro ''MY_ALIGNOF'' (Params [''type''] ''__alignof__(type)''),
           define_macro ''MY_ALIGNED'' (Params [''n''] ''__attribute__((__aligned__((n))))'')] [],
        if_dir (\<lambda>s. \<not> defined ''MY_GNUC_PREREQ'' s)
          [define_macro ''MY_GNUC_PREREQ'' (Params [''maj'', ''min''] ''(0)'')] [],
        if_dir (\<lambda>s. \<not> defined ''MY_ALIGNOF'' s)
          [if_dir (\<lambda>s. defined ''__cplusplus'' s)
             [define_macro ''MY_ALIGNOF'' (Params [''type''] ''offsetof(my_alignof_helper<type>, m2)'')]
             [define_macro ''MY_ALIGNOF'' (Params [''type''] ''offsetof(struct { char m1; type m2; }, m2)'')]] [],
        if_dir (\<lambda>s. \<not> defined ''MY_ASSERT_UNREACHABLE'' s)
          [define_macro ''MY_ASSERT_UNREACHABLE'' (Params [] ''do { assert(0); } while (0)'')] [],
        if_dir (\<lambda>s. defined ''__cplusplus'' s)
          [if_dir (\<lambda>s. defined ''MY_ALIGNED'' s) [] []] [],
        if_dir (\<lambda>s. \<not> defined ''MY_ALIGNED'' s)
          [define_macro ''MY_ALIGNED'' (Params [''size''] '''')] [],
        my_attribute_h] []]"

definition dbug_on_table :: "(string \<times> macro_text option) list" where
  "dbug_on_table = [
    (''DBUG_ENTER'', Some (Params [''a''] ''struct _db_stack_frame_ _db_stack_frame_; _db_enter_ (a,__FILE__,__LINE__,&_db_stack_frame_)'')), (''DBUG_LEAVE'', Some (Tokens ''_db_return_ (__LINE__, &_db_stack_frame_)'')),
    (''DBUG_RETURN'', Some (Params [''a1''] ''do {DBUG_LEAVE; return(a1);} while(0)'')), (''DBUG_VOID_RETURN'', Some (Tokens ''do {DBUG_LEAVE; return;} while(0)'')),
    (''DBUG_EXECUTE'', Some (Params [''keyword'', ''a1''] ''do {if (_db_keyword_(0, (keyword), 0)) { a1 }} while(0)'')), (''DBUG_EXECUTE_IF'', Some (Params [''keyword'', ''a1''] ''do {if (_db_keyword_(0, (keyword), 1)) { a1 }} while(0)'')),
    (''DBUG_EVALUATE'', Some (Params [''keyword'', ''a1'', ''a2''] ''(_db_keyword_(0,(keyword), 0) ? (a1) : (a2))'')), (''DBUG_EVALUATE_IF'', Some (Params [''keyword'', ''a1'', ''a2''] ''(_db_keyword_(0,(keyword), 1) ? (a1) : (a2))'')),
    (''DBUG_PRINT'', Some (Params [''keyword'', ''arglist''] ''do {_db_pargs_(__LINE__,keyword); _db_doprnt_ arglist;} while(0)'')), (''DBUG_PUSH'', Some (Params [''a1''] ''_db_push_ (a1)'')), (''DBUG_POP'', Some (Params [] ''_db_pop_ ()'')),
    (''DBUG_SET'', Some (Params [''a1''] ''_db_set_ (a1)'')), (''DBUG_SET_INITIAL'', Some (Params [''a1''] ''_db_set_init_ (a1)'')), (''DBUG_PROCESS'', Some (Params [''a1''] ''_db_process_(a1)'')),
    (''DBUG_FILE'', Some (Tokens ''_db_fp_()'')), (''DBUG_SETJMP'', Some (Params [''a1''] ''(_db_setjmp_ (), setjmp (a1))'')), (''DBUG_LONGJMP'', Some (Params [''a1'', ''a2''] ''(_db_longjmp_ (), longjmp (a1, a2))'')),
    (''DBUG_DUMP'', Some (Params [''keyword'', ''a1'', ''a2''] ''_db_dump_(__LINE__,keyword,a1,a2)'')), (''DBUG_END'', Some (Params [] ''_db_end_ ()'')),
    (''DBUG_LOCK_FILE'', Some (Tokens ''_db_lock_file_()'')), (''DBUG_UNLOCK_FILE'', Some (Tokens ''_db_unlock_file_()'')),
    (''DBUG_ASSERT'', Some (Params [''A''] ''assert(A)'')), (''DBUG_EXPLAIN'', Some (Params [''buf'', ''len''] ''_db_explain_(0, (buf),(len))'')),
    (''DBUG_EXPLAIN_INITIAL'', Some (Params [''buf'', ''len''] ''_db_explain_init_((buf),(len))'')), (''DEBUGGER_OFF'', Some (Tokens ''do { _dbug_on_= 0; } while(0)'')),
    (''DEBUGGER_ON'', Some (Tokens ''do { _dbug_on_= 1; } while(0)''))]"

definition dbug_crash_table :: "(string \<times> macro_text option) list" where
  "dbug_crash_table = [
    (''DBUG_CHECK_CRASH'', Some (Params [''func'', ''op''] ''do { char _dbuf_[255]; strxnmov(_dbuf_, sizeof(_dbuf_)-1, (func), (op)); DBUG_EXECUTE_IF(_dbuf_, DBUG_ABORT()); } while(0)'')), (''DBUG_CRASH_ENTER'', Some (Params [''func''] ''DBUG_ENTER(func); DBUG_CHECK_CRASH(func, \"_crash_enter\")'')),
    (''DBUG_CRASH_RETURN'', Some (Params [''val''] ''DBUG_CHECK_CRASH(_db_get_func_(), \"_crash_return\")'')),
    (''DBUG_CRASH_VOID_RETURN'', Some (Tokens ''DBUG_CHECK_CRASH (_db_get_func_(), \"_crash_return\")''))]"

definition dbug_off_table :: "(string \<times> macro_text option) list" where
  "dbug_off_table = [
    (''DBUG_ENTER'', Some (Params [''a1''] '''')), (''DBUG_LEAVE'', Some (Tokens '''')), (''DBUG_RETURN'', Some (Params [''a1''] ''do { return(a1); } while(0)'')),
    (''DBUG_VOID_RETURN'', Some (Tokens ''do { return; } while(0)'')), (''DBUG_EXECUTE'', Some (Params [''keyword'', ''a1''] ''do { } while(0)'')),
    (''DBUG_EXECUTE_IF'', Some (Params [''keyword'', ''a1''] ''do { } while(0)'')), (''DBUG_EVALUATE'', Some (Params [''keyword'', ''a1'', ''a2''] ''(a2)'')),
    (''DBUG_EVALUATE_IF'', Some (Params [''keyword'', ''a1'', ''a2''] ''(a2)'')), (''DBUG_PRINT'', Some (Params [''keyword'', ''arglist''] ''do { } while(0)'')),
    (''DBUG_PUSH'', Some (Params [''a1''] ''do { } while(0)'')), (''DBUG_SET'', Some (Params [''a1''] ''do { } while(0)'')), (''DBUG_SET_INITIAL'', Some (Params [''a1''] ''do { } while(0)'')),
    (''DBUG_POP'', Some (Params [] ''do { } while(0)'')), (''DBUG_PROCESS'', Some (Params [''a1''] ''do { } while(0)'')), (''DBUG_SETJMP'', Some (Params [''a1''] ''setjmp(a1)'')),
    (''DBUG_LONGJMP'', Some (Params [''a1''] ''longjmp(a1)'')), (''DBUG_DUMP'', Some (Params [''keyword'', ''a1'', ''a2''] ''do { } while(0)'')), (''DBUG_END'', Some (Params [] ''do { } while(0)'')),
    (''DBUG_ASSERT'', Some (Params [''A''] ''do { } while(0)'')), (''DBUG_LOCK_FILE'', Some (Tokens ''do { } while(0)'')), (''DBUG_FILE'', Some (Tokens ''(stderr)'')),
    (''DBUG_UNLOCK_FILE'', Some (Tokens ''do { } while(0)'')), (''DBUG_EXPLAIN'', Some (Params [''buf'', ''len''] '''')),
    (''DBUG_EXPLAIN_INITIAL'', Some (Params [''buf'', ''len''] '''')), (''DEBUGGER_OFF'', Some (Tokens ''do { } while(0)'')),
    (''DEBUGGER_ON'', Some (Tokens ''do { } while(0)'')), (''DBUG_ABORT'', Some (Params [] ''do { } while(0)'')), (''DBUG_CRASH_ENTER'', Some (Params [''func''] '''')),
    (''DBUG_CRASH_RETURN'', Some (Params [''val''] ''do { return(val); } while(0)'')), (''DBUG_CRASH_VOID_RETURN'', Some (Tokens ''do { return; } while(0)'')),
    (''DBUG_SUICIDE'', Some (Params [] ''do { } while(0)''))]"

definition dbug_on_macros :: "(string \<Rightarrow> directive) \<Rightarrow> directive" where
  "dbug_on_macros sys = block
    [block (map config_line dbug_on_table),
     if_dir (\<lambda>s. \<not> defined ''__WIN__'' s)
       [define_macro ''DBUG_ABORT'' (Params [] ''(_db_flush_(), abort())'')]
       [sys ''crtdbg.h'',
        define_macro ''DBUG_ABORT'' (Params [] ''(_db_flush_(), (void)_CrtSetReportMode(_CRT_ERROR, _CRTDBG_MODE_FILE), (void)_CrtSetReportFile(_CRT_ERROR, _CRTDBG_FILE_STDERR), _exit(3))'')],
     block (map config_line dbug_crash_table),
     if_dir (\<lambda>s. defined ''__WIN__'' s)
       [define_macro ''DBUG_SUICIDE'' (Params [] ''DBUG_ABORT()'')]
       [define_macro ''DBUG_SUICIDE'' (Params [] ''(_db_flush_(), _db_suicide_())'')]]"

definition dbug_off_macros :: directive where
  "dbug_off_macros = block (map config_line dbug_off_table)"

definition my_dbug_h :: "(string \<Rightarrow> directive) \<Rightarrow> directive" where
  "my_dbug_h sys = if_dir (\<lambda>s. \<not> defined ''MY_DBUG_INCLUDED'' s)
    [define_macro ''MY_DBUG_INCLUDED'' (Tokens ''''),
     if_dir (\<lambda>s. \<not> defined ''__WIN__'' s)
       [if_dir (\<lambda>s. defined ''HAVE_SYS_TYPES_H'' s)
          [sys ''sys/types.h''] [],
        if_dir (\<lambda>s. defined ''HAVE_UNISTD_H'' s)
          [sys ''unistd.h''] [],
        sys ''signal.h''] [],
     if_dir (\<lambda>s. defined ''__cplusplus'' s) [] [],
     if_dir (\<lambda>s. \<not> defined ''DBUG_OFF'' s \<and> \<not> defined ''_lint'' s) [dbug_on_macros sys] [dbug_off_macros],
     if_dir (\<lambda>s. defined ''EXTRA_DEBUG'' s)
       [define_macro ''DBUG_SYNC_POINT'' (Params [''lock_name'', ''lock_timeout''] ''debug_sync_point(lock_name,lock_timeout)'')]
       [define_macro ''DBUG_SYNC_POINT'' (Params [''lock_name'', ''lock_timeout''] '''')],
     if_dir (\<lambda>s. defined ''__cplusplus'' s) [] []] []"

section \<open>The two sets of debugging macros\<close>

text \<open>How a macro is used: not at all, without arguments, or with a number of them.\<close>

definition interface_of :: "macro_text option \<Rightarrow> nat option option" where
  "interface_of t = (case t of None \<Rightarrow> None | Some (Params ps body) \<Rightarrow> Some (Some (length ps)) | Some _ \<Rightarrow> Some None)"

text \<open>The macros for programs, with their parameters, but for \<^verbatim>\<open>DBUG_LONGJMP\<close>.\<close>

definition dbug_interface :: "(string \<times> nat option) list" where
  "dbug_interface = [
     (''DBUG_ENTER'', Some 1), (''DBUG_LEAVE'', None), (''DBUG_RETURN'', Some 1), (''DBUG_VOID_RETURN'', None), (''DBUG_EXECUTE'', Some 2),
     (''DBUG_EXECUTE_IF'', Some 2), (''DBUG_EVALUATE'', Some 3), (''DBUG_EVALUATE_IF'', Some 3), (''DBUG_PRINT'', Some 2),
     (''DBUG_PUSH'', Some 1), (''DBUG_SET'', Some 1), (''DBUG_SET_INITIAL'', Some 1), (''DBUG_POP'', Some 0), (''DBUG_PROCESS'', Some 1),
     (''DBUG_SETJMP'', Some 1), (''DBUG_DUMP'', Some 3), (''DBUG_END'', Some 0), (''DBUG_ASSERT'', Some 1), (''DBUG_LOCK_FILE'', None),
     (''DBUG_FILE'', None), (''DBUG_UNLOCK_FILE'', None), (''DBUG_EXPLAIN'', Some 2), (''DBUG_EXPLAIN_INITIAL'', Some 2),
     (''DEBUGGER_OFF'', None), (''DEBUGGER_ON'', None), (''DBUG_ABORT'', Some 0), (''DBUG_CRASH_ENTER'', Some 1), (''DBUG_CRASH_RETURN'', Some 1),
     (''DBUG_CRASH_VOID_RETURN'', None), (''DBUG_SUICIDE'', Some 0)]"

text \<open>Headers of the system do not touch the names of the debugging macros.\<close>

definition dbug_names_reserved :: "(string \<Rightarrow> directive) \<Rightarrow> bool" where
  "dbug_names_reserved sys \<longleftrightarrow> (\<forall>h m. m \<in> set (''DBUG_LONGJMP'' # map fst dbug_interface) \<longrightarrow> keeps_macro m (sys h))"

lemma dbug_off_interface: "list_all (\<lambda>(m, v). interface_of (last_line m dbug_off_table d) = Some v) dbug_interface"
  by (simp add: dbug_interface_def dbug_off_table_def interface_of_def)

lemma define_either:
  assumes "if_dir c [define_macro n t] (ps @ [define_macro n t']) s = Inr s'" "list_all (keeps_macro m) ps"
  shows "\<exists>x \<in> {t, t'}. macros s' m = (if m = n then Some x else macros s m)"
proof -
  have "macros u m = macros s m" if "block ps s = Inr u" for u using keepsD [OF keeps_rules(7) [OF assms(2)] that] .
  then show ?thesis using assms(1) by (auto simp: if_dir_def define_macro_def block_append split: if_splits sum.splits)
qed

lemma dbug_on_last:
  assumes "dbug_on_macros sys s = Inr s'" "keeps_macro m (sys ''crtdbg.h'')"
  shows "\<exists>x y. macros s' m = (if m = ''DBUG_SUICIDE'' then Some (Params [] x) else
    last_line m dbug_crash_table (if m = ''DBUG_ABORT'' then Some (Params [] y) else last_line m dbug_on_table (macros s m)))"
proof -
  from assms(1) obtain a b c x1 x2 y1 y2 where a: "block (map config_line dbug_on_table) s = Inr a"
    and b: "if_dir (\<lambda>s. \<not> defined ''__WIN__'' s) [define_macro ''DBUG_ABORT'' (Params [] x1)]
      ([sys ''crtdbg.h''] @ [define_macro ''DBUG_ABORT'' (Params [] x2)]) a = Inr b"
    and c: "block (map config_line dbug_crash_table) b = Inr c"
    and s': "if_dir (\<lambda>s. defined ''__WIN__'' s) [define_macro ''DBUG_SUICIDE'' (Params [] y1)]
      ([] @ [define_macro ''DBUG_SUICIDE'' (Params [] y2)]) c = Inr s'"
    unfolding dbug_on_macros_def block_Inr_Cons append_Cons append_Nil by (auto simp only: block.simps(1) sum.inject)
  obtain x where x: "macros b m = (if m = ''DBUG_ABORT'' then Some (Params [] x) else macros a m)"
    using define_either [OF b, of m] assms(2) by auto
  obtain y where "macros s' m = (if m = ''DBUG_SUICIDE'' then Some (Params [] y) else macros c m)"
    using define_either [OF s', of m] by auto
  then show ?thesis unfolding block_config_lines [OF c] x block_config_lines [OF a] by blast
qed

lemma dbug_on_interface:
  "list_all (\<lambda>(m, v). interface_of (if m = ''DBUG_SUICIDE'' then Some (Params [] x) else
    last_line m dbug_crash_table (if m = ''DBUG_ABORT'' then Some (Params [] y) else last_line m dbug_on_table d)) = Some v) dbug_interface"
  by (simp add: dbug_interface_def dbug_crash_table_def dbug_on_table_def interface_of_def)

section \<open>Properties\<close>

text \<open>The macros of \<open>dbug_interface\<close> are defined with the debugger and without it, with the same number of arguments; \<^verbatim>\<open>DBUG_LONGJMP\<close> takes two arguments with the debugger and one
  without.  This is about the directives, not about the expansions: \<^verbatim>\<open>DBUG_EXPLAIN\<close>, for one, is an expression with the debugger and nothing without.\<close>
lemma debugging_macros_take_the_same_arguments:
  assumes "dbug_names_reserved sys" "dbug_on_macros sys s = Inr s1" "dbug_off_macros s = Inr s2"
    and "m \<in> set (''DBUG_LONGJMP'' # map fst dbug_interface)"
  shows "macros s1 m \<noteq> None \<and> macros s2 m \<noteq> None \<and>
    (interface_of (macros s1 m) = interface_of (macros s2 m) \<longleftrightarrow> m \<noteq> ''DBUG_LONGJMP'')"
proof -
  have off: "macros s2 m = last_line m dbug_off_table (macros s m)"
    using assms(3) by (auto simp: dbug_off_macros_def dest: block_config_lines)
  have "keeps_macro m (sys ''crtdbg.h'')" using assms(1,4) unfolding dbug_names_reserved_def by blast
  from dbug_on_last [OF assms(2) this] obtain x y
    where on: "macros s1 m = (if m = ''DBUG_SUICIDE'' then Some (Params [] x) else
      last_line m dbug_crash_table (if m = ''DBUG_ABORT'' then Some (Params [] y) else last_line m dbug_on_table (macros s m)))" by blast
  show ?thesis
  proof (cases "m = ''DBUG_LONGJMP''")
    case True
    then show ?thesis
      unfolding on off by (simp add: dbug_on_table_def dbug_crash_table_def dbug_off_table_def interface_of_def)
  next
    case False
    with assms(4) obtain v where v: "(m, v) \<in> set dbug_interface" by auto
    have "interface_of (macros s1 m) = Some v" "interface_of (macros s2 m) = Some v"
      using dbug_on_interface dbug_off_interface v unfolding on off list_all_iff by fast+
    with False show ?thesis by (auto simp: interface_of_def split: option.splits)
  qed
qed

lemma debugging_macros_take_the_same_arguments_instance:
  "\<exists>s1 s2. dbug_on_macros (\<lambda>h. skip) \<lparr>macros = Map.empty, types = Map.empty\<rparr> = Inr s1 \<and>
     dbug_off_macros \<lparr>macros = Map.empty, types = Map.empty\<rparr> = Inr s2 \<and>
     interface_of (macros s1 ''DBUG_PRINT'') = interface_of (macros s2 ''DBUG_PRINT'') \<and>
     interface_of (macros s1 ''DBUG_LONGJMP'') \<noteq> interface_of (macros s2 ''DBUG_LONGJMP'')"
proof -
  let ?s = "\<lparr>macros = Map.empty, types = Map.empty\<rparr>"
  have "total (dbug_on_macros (\<lambda>h. skip))"
    unfolding dbug_on_macros_def by (intro total_rules(6)) (simp add: config_lines_rules total_rules)
  then obtain s1 where s1: "dbug_on_macros (\<lambda>h. skip) ?s = Inr s1" by (rule totalE)
  have "total dbug_off_macros" by (simp add: dbug_off_macros_def config_lines_rules)
  then obtain s2 where s2: "dbug_off_macros ?s = Inr s2" by (rule totalE)
  have res: "dbug_names_reserved (\<lambda>h. skip)" by (simp add: dbug_names_reserved_def keeps_rules)
  note t = debugging_macros_take_the_same_arguments [OF res s1 s2]
  have "''DBUG_PRINT'' \<in> set (''DBUG_LONGJMP'' # map fst dbug_interface)" by (simp add: dbug_interface_def)
  from t [OF this] t [of "''DBUG_LONGJMP''"] s1 s2 show ?thesis by auto
qed

section \<open>What the configuration settles\<close>

text \<open>Macros of the compiler and of the makefiles, which the configuration does not touch.\<close>

definition given_macros :: "string list" where
  "given_macros = [''_WIN32'', ''__WIN__'', ''__APPLE__'', ''__MACH__'', ''__i386__'', ''__ppc__'', ''__x86_64__'', ''__ppc64__'', ''__GNUC'',
     ''__EXCEPTIONS'', ''EMBEDDED_LIBRARY'', ''DBUG_ON'', ''DBUG_OFF'', ''FORCE_DBUG_OFF'', ''_lint'']"

lemma config_parts_keep_given:
  assumes "m \<in> set given_macros" "ls \<in> set [config_part1, config_part2, config_part3, config_part4, config_part5, config_part6, config_part7]"
  shows "keeps_macro m (block (map config_line ls))"
proof (rule keeps_config_lines)
  have "list_all (\<lambda>l. snd l = None \<or> fst l \<notin> set given_macros) ls"
    using assms(2) unfolding list.set insert_iff
    by (elim disjE emptyE)
      (simp_all add: given_macros_def config_part1_def config_part2_def config_part3_def config_part4_def config_part5_def
        config_part6_def config_part7_def)
  with assms(1) show "list_all (\<lambda>l. snd l = None \<or> fst l \<noteq> m) ls" by (auto simp: list_all_iff)
qed

lemma config_keeps_given:
  assumes "m \<in> set given_macros"
  shows "keeps_macro m my_config_h"
proof -
  note parts = config_parts_keep_given [OF assms]
  from assms have "m \<notin> {''SIZEOF_LONG'', ''SIZEOF_VOIDP'', ''SIZEOF_CHARP'', ''SIZEOF_SIZE_T'', ''WORDS_BIGENDIAN'', ''inline'', ''HAVE_SETENV'',
      ''setenv'', ''HAVE_NDB_BINLOG''}" by (auto simp: given_macros_def)
  then show ?thesis unfolding my_config_h_def config_long_def config_late_def by (auto simp: parts keeps_rules config_line_rules)
qed

lemma config_total: "total my_config_h"
  unfolding my_config_h_def config_long_def config_late_def by (auto simp: total_rules config_lines_rules config_line_rules)

text \<open>The sizes of the basic types; on Apple's systems that of \<^verbatim>\<open>long\<close> and of pointers depends on the compiler.\<close>

definition sizes_settled :: "pp \<Rightarrow> bool" where
  "sizes_settled s \<longleftrightarrow> macros s ''SIZEOF_SHORT'' = Some (Number 2) \<and> macros s ''SIZEOF_INT'' = Some (Number 4) \<and>
     macros s ''SIZEOF_LONG_LONG'' = Some (Number 8) \<and>
     (\<exists>n. n \<in> {4, 8} \<and> macros s ''SIZEOF_LONG'' = Some (Number n) \<and>
        macros s ''SIZEOF_CHARP'' \<in> {Some (Number n), Some (Tokens ''SIZEOF_LONG'')}) \<and>
     macros s ''SIZEOF_OFF_T'' \<in> {Some (Number 4), Some (Number 8)}"

definition size_macros :: "string list" where
  "size_macros = [''SIZEOF_SHORT'', ''SIZEOF_INT'', ''SIZEOF_LONG'', ''SIZEOF_CHARP'', ''SIZEOF_LONG_LONG'', ''SIZEOF_OFF_T'']"

lemma sizes_settled_cong: "(\<And>m. m \<in> set size_macros \<Longrightarrow> macros s' m = macros s m) \<Longrightarrow> sizes_settled s' = sizes_settled s"
  by (simp add: sizes_settled_def size_macros_def)

lemma later_parts_keep_sizes:
  assumes "m \<in> set size_macros" "ls \<in> set [config_part4, config_part5, config_part6, config_part7]"
  shows "keeps_macro m (block (map config_line ls))"
proof (rule keeps_config_lines)
  have "list_all (\<lambda>l. snd l = None \<or> fst l \<notin> set size_macros) ls"
    using assms(2) unfolding list.set insert_iff
    by (elim disjE emptyE) (simp_all add: size_macros_def config_part4_def config_part5_def config_part6_def config_part7_def)
  with assms(1) show "list_all (\<lambda>l. snd l = None \<or> fst l \<noteq> m) ls" by (auto simp: list_all_iff)
qed

lemma part3_sizes:
  "last_line ''SIZEOF_SHORT'' config_part3 d = Some (Number 2)" "last_line ''SIZEOF_INT'' config_part3 d = Some (Number 4)"
  "last_line ''SIZEOF_LONG_LONG'' config_part3 d = Some (Number 8)" "last_line ''SIZEOF_OFF_T'' config_part3 d = Some (Number 4)"
  "last_line ''SIZEOF_LONG'' config_part3 d = d" "last_line ''SIZEOF_CHARP'' config_part3 d = d"
  by (simp_all add: config_part3_def)

lemma config_long_sizes:
  assumes "config_long b = Inr c"
  shows "\<exists>n. n \<in> {4, 8} \<and> macros c ''SIZEOF_LONG'' = Some (Number n) \<and>
    macros c ''SIZEOF_CHARP'' \<in> {Some (Number n), Some (Tokens ''SIZEOF_LONG'')}"
  using assms by (auto simp: config_long_def if_dir_def define_macro_def split: if_splits)

lemma config_late_keeps_sizes:
  assumes "m \<in> set size_macros"
  shows "keeps_macro m config_late"
proof -
  note parts = later_parts_keep_sizes [OF assms]
  from assms have "m \<notin> {''WORDS_BIGENDIAN'', ''inline'', ''HAVE_SETENV'', ''setenv'', ''HAVE_NDB_BINLOG''}" by (auto simp: size_macros_def)
  then show ?thesis unfolding config_late_def by (auto simp: parts keeps_rules config_line_rules)
qed

lemma config_sizes:
  assumes "my_config_h s = Inr s'" "\<not> defined ''MY_CONFIG_H'' s"
  shows "sizes_settled s'"
proof -
  from assms obtain b c d where c: "config_long b = Inr c" and d: "block (map config_line config_part3) c = Inr d"
    and s': "config_late d = Inr s'"
    unfolding my_config_h_def by (auto simp: if_dir_def split: sum.splits)
  have "sizes_settled d"
    using config_long_sizes [OF c] by (auto simp: sizes_settled_def block_config_lines [OF d] part3_sizes)
  then show ?thesis using keepsD [OF config_late_keeps_sizes s'] by (subst sizes_settled_cong) auto
qed

text \<open>The direction of the stack is configured, and so is the storage engine for the Performance Schema.\<close>

lemma config_defines:
  assumes "my_config_h s = Inr s'" "\<not> defined ''MY_CONFIG_H'' s"
  shows "defined ''STACK_DIRECTION'' s'" "defined ''WITH_PERFSCHEMA_STORAGE_ENGINE'' s'"
proof -
  from assms obtain d where d: "config_late d = Inr s'"
    unfolding my_config_h_def by (auto simp: if_dir_def split: sum.splits)
  note late = block_defines [OF d [unfolded config_late_def]]
  note rules = keeps_defined_rules config_lines_rules config_line_rules
  have "list_ex (\<lambda>l. fst l = ''STACK_DIRECTION'' \<and> snd l \<noteq> None) config_part5" by (simp add: config_part5_def)
  note stack = config_lines_define [OF _ this]
  have "list_ex (\<lambda>l. fst l = ''WITH_PERFSCHEMA_STORAGE_ENGINE'' \<and> snd l \<noteq> None) config_part6" by (simp add: config_part6_def)
  note perf = config_lines_define [OF _ this]
  show "defined ''STACK_DIRECTION'' s'"
    by (rule late [of "block (map config_line config_part5)"]) (simp_all add: rules stack)
  show "defined ''WITH_PERFSCHEMA_STORAGE_ENGINE'' s'"
    by (rule late [of "block (map config_line config_part6)"]) (simp_all add: rules perf)
qed

end
