(* ===== verification/Build_Global.thy ===== *)
theory Build_Global
  imports Build_Config
begin

text \<open>
  \<^verbatim>\<open>my_global.h\<close> as directives, in the order of the file, and what each stage of it keeps: which macros and types it leaves alone, and that it does not stop.  Declared functions, the few
  inline ones and types of pointers to functions are no directives; the functions are in \<open>My_Double\<close>, \<open>My_Math\<close> and \<open>My_Global\<close>.
\<close>

section \<open>The directives\<close>

definition g_windows_names :: "directive" where
  "g_windows_names = block
    [define_macro ''_global_h'' (Tokens ''''),
     if_dir (\<lambda>s. \<not> defined ''__WIN__'' s \<and> defined ''_WIN32'' s)
       [define_macro ''__WIN__'' (Tokens '''')] [],
     define_macro ''INNODB_COMPATIBILITY_HOOKS'' (Tokens '''')]"

definition g_cygwin :: "directive" where
  "g_cygwin = block
    [if_dir (\<lambda>s. defined ''__CYGWIN__'' s)
       [undef_macro ''WIN'',
        undef_macro ''WIN32'',
        undef_macro ''_WIN'',
        undef_macro ''_WIN32'',
        undef_macro ''_WIN64'',
        undef_macro ''__WIN__'',
        undef_macro ''__WIN32__'',
        define_macro ''HAVE_ERRNO_AS_DEFINE'' (Tokens '''')] [],
     if_dir (\<lambda>s. defined ''USE_PRAGMA_IMPLEMENTATION'' s)
       [define_macro ''USE_PRAGMA_INTERFACE'' (Tokens '''')] [],
     if_dir (\<lambda>s. defined ''__OpenBSD__'' s \<and> val ''OpenBSD'' s \<ge> 200411)
       [define_macro ''HAVE_ERRNO_AS_DEFINE'' (Tokens '''')] [],
     if_dir (\<lambda>s. defined ''i386'' s \<and> \<not> defined ''__i386__'' s)
       [define_macro ''__i386__'' (Tokens '''')] []]"

definition g_modes :: "directive" where
  "g_modes = block
    [if_dir (\<lambda>s. defined ''__cplusplus'' s)
       [define_macro ''C_MODE_START'' (Tokens ''extern \"C\" {''),
        define_macro ''C_MODE_END'' (Tokens ''}'')]
       [define_macro ''C_MODE_START'' (Tokens ''''),
        define_macro ''C_MODE_END'' (Tokens '''')],
     if_dir (\<lambda>s. defined ''__cplusplus'' s)
       [define_macro ''CPP_UNNAMED_NS_START'' (Tokens ''namespace {''),
        define_macro ''CPP_UNNAMED_NS_END'' (Tokens ''}'')] []]"

definition g_flags :: "directive" where
  "g_flags = block
    [if_dir (\<lambda>s. defined ''WITH_PERFSCHEMA_STORAGE_ENGINE'' s)
       [define_macro ''HAVE_PSI_INTERFACE'' (Tokens '''')] [],
     if_dir (\<lambda>s. defined ''__WIN__'' s)
       [define_macro ''IF_WIN'' (Params [''A'', ''B''] ''A'')]
       [define_macro ''IF_WIN'' (Params [''A'', ''B''] ''B'')],
     if_dir (\<lambda>s. defined ''HAVE_purify'' s)
       [define_macro ''IF_PURIFY'' (Params [''A'', ''B''] ''A'')]
       [define_macro ''IF_PURIFY'' (Params [''A'', ''B''] ''B'')],
     if_dir (\<lambda>s. \<not> defined ''EMBEDDED_LIBRARY'' s)
       [if_dir (\<lambda>s. defined ''WITH_NDB_BINLOG'' s)
          [define_macro ''HAVE_NDB_BINLOG'' (Number 1)] []] [],
     if_dir (\<lambda>s. \<not> defined ''EMBEDDED_LIBRARY'' s)
       [define_macro ''HAVE_REPLICATION'' (Tokens ''''),
        define_macro ''HAVE_EXTERNAL_CLIENT'' (Tokens '''')] []]"

definition g_win32 :: "(string \<Rightarrow> directive) \<Rightarrow> directive" where
  "g_win32 sys = block
    [if_dir (\<lambda>s. defined ''_WIN32'' s)
       [undef_macro ''SIZEOF_OFF_T'',
        define_macro ''SIZEOF_OFF_T'' (Number 8),
        if_dir (\<lambda>s. \<not> defined ''NOGDI'' s)
          [define_macro ''NOGDI'' (Tokens '''')] [],
        sys ''winsock2.h'',
        sys ''ws2tcpip.h'',
        sys ''io.h'',
        sys ''process.h'',
        define_macro ''sleep'' (Params [''a''] ''Sleep((a)*1000)''),
        define_macro ''F_OK'' (Number 0),
        define_macro ''W_OK'' (Number 2),
        define_macro ''F_RDLCK'' (Number 1),
        define_macro ''F_WRLCK'' (Number 2),
        define_macro ''F_UNLCK'' (Number 3),
        define_macro ''F_TO_EOF'' (Number 1073741823),
        define_macro ''HAVE_SMEM'' (Number 1),
        define_macro ''HAVE_NAMED_PIPE'' (Number 1),
        define_macro ''shared_memory_buffer_length'' (Number 16000),
        define_macro ''default_shared_memory_base_name'' (Tokens ''\"MYSQL\"'')] []]"

definition g_aix :: "directive" where
  "g_aix = block
    [if_dir (\<lambda>s. defined ''_AIX'' s \<and> defined ''_LARGE_FILE_API'' s)
       [undef_macro ''_LARGE_FILE_API''] []]"

definition g_apple_sizes :: directive where
  "g_apple_sizes = block
    [undef_macro ''SIZEOF_CHARP'',
     undef_macro ''SIZEOF_SHORT'',
     undef_macro ''SIZEOF_INT'',
     undef_macro ''SIZEOF_LONG'',
     undef_macro ''SIZEOF_LONG_LONG'',
     undef_macro ''SIZEOF_OFF_T'',
     undef_macro ''WORDS_BIGENDIAN'',
     define_macro ''SIZEOF_SHORT'' (Number 2),
     define_macro ''SIZEOF_INT'' (Number 4),
     define_macro ''SIZEOF_LONG_LONG'' (Number 8),
     define_macro ''SIZEOF_OFF_T'' (Number 8)]"

definition g_apple_architecture :: directive where
  "g_apple_architecture = block
    [if_dir (\<lambda>s. defined ''__i386__'' s \<or> defined ''__ppc__'' s)
       [define_macro ''SIZEOF_CHARP'' (Number 4),
        define_macro ''SIZEOF_LONG'' (Number 4)]
       [if_dir (\<lambda>s. defined ''__x86_64__'' s \<or> defined ''__ppc64__'' s)
       [define_macro ''SIZEOF_CHARP'' (Number 8),
        define_macro ''SIZEOF_LONG'' (Number 8)]
       [error_directive ''Building FAT binary for an unknown architecture.'']],
     if_dir (\<lambda>s. defined ''__ppc__'' s \<or> defined ''__ppc64__'' s)
       [define_macro ''WORDS_BIGENDIAN'' (Tokens '''')] []]"

definition g_apple :: directive where
  "g_apple = if_dir (\<lambda>s. defined ''__APPLE__'' s \<and> defined ''__MACH__'' s) [g_apple_sizes, g_apple_architecture] []"

definition g_features :: "(string \<Rightarrow> directive) \<Rightarrow> directive" where
  "g_features sys = block
    [if_dir (\<lambda>s. \<not> defined ''__GNUC__'' s \<or> (val ''__GNUC__'' s = 2 \<and> val ''__GNUC_MINOR__'' s < 96))
       [define_macro ''__builtin_expect'' (Params [''x'', ''expected_value''] ''(x)'')] [],
     define_macro ''likely'' (Params [''x''] ''__builtin_expect((x),1)''),
     define_macro ''unlikely'' (Params [''x''] ''__builtin_expect((x),0)''),
     if_dir (\<lambda>s. defined ''TARGET_OS_LINUX'' s \<or> defined ''__GLIBC__'' s)
       [undef_macro ''_GNU_SOURCE'',
        define_macro ''_GNU_SOURCE'' (Number 1)] [],
     if_dir (\<lambda>s. defined ''HAVE_SYS_TYPES_H'' s \<and> (defined ''sun'' s \<or> defined ''__sun'' s))
       [sys ''sys/types.h''] [],
     if_dir (\<lambda>s. defined ''HAVE_THREADS_WITHOUT_SOCKETS'' s)
       [undef_macro ''HAVE_SYS_UN_H''] [],
     define_macro ''__EXTENSIONS__'' (Number 1),
     if_dir (\<lambda>s. \<not> defined ''__STDC_EXT__'' s)
       [define_macro ''__STDC_EXT__'' (Number 1)] [],
     if_dir (\<lambda>s. defined ''__sun'' s)
       [if_dir (\<lambda>s. (val ''__STDC_VERSION__'' s - 0) \<ge> 199901)
          [define_macro ''_XOPEN_SOURCE'' (Number 600)]
          [define_macro ''_XOPEN_SOURCE'' (Number 500)]] []]"

definition g_posix :: "(string \<Rightarrow> directive) \<Rightarrow> directive" where
  "g_posix sys = block
    [if_dir (\<lambda>s. \<not> defined ''__WIN__'' s)
       [if_dir (\<lambda>s. \<not> defined ''_POSIX_PTHREAD_SEMANTICS'' s)
          [define_macro ''_POSIX_PTHREAD_SEMANTICS'' (Tokens '''')] [],
        if_dir (\<lambda>s. \<not> defined ''SCO'' s)
          [define_macro ''_REENTRANT'' (Number 1)] [],
        if_dir (\<lambda>s. \<not> defined ''_THREAD_SAFE'' s \<and> \<not> defined ''_AIX'' s)
          [define_macro ''_THREAD_SAFE'' (Tokens '''')] [],
        if_dir (\<lambda>s. defined ''HPUX10'' s \<or> defined ''HPUX11'' s)
          [sys ''pthread.h'']
          [sys ''pthread.h''],
        if_dir (\<lambda>s. \<not> defined ''SCO'' s \<and> \<not> defined ''_REENTRANT'' s)
          [define_macro ''_REENTRANT'' (Number 1)] []] []]"

definition g_workarounds :: "directive" where
  "g_workarounds = block
    [if_dir (\<lambda>s. defined ''_AIX'' s)
       [define_macro ''_H_STRINGS'' (Tokens ''''),
        define_macro ''_SYS_STREAM_H'' (Tokens ''''),
        define_macro ''ulonglong2double'' (Params [''A''] ''my_ulonglong2double(A)''),
        define_macro ''my_off_t2double'' (Params [''A''] ''my_ulonglong2double(A)'')] [],
     if_dir (\<lambda>s. defined ''HAVE_BROKEN_SNPRINTF'' s)
       [undef_macro ''HAVE_SNPRINTF''] [],
     if_dir (\<lambda>s. defined ''HAVE_BROKEN_PREAD'' s)
       [undef_macro ''HAVE_PREAD'',
        undef_macro ''HAVE_PWRITE''] [],
     if_dir (\<lambda>s. defined ''UNDEF_HAVE_INITGROUPS'' s)
       [undef_macro ''HAVE_INITGROUPS''] [],
     if_dir (\<lambda>s. defined ''__GNUC'' s \<and> defined ''__EXCEPTIONS'' s)
       [error_directive ''Please add -fno-exceptions to CXXFLAGS and reconfigure/recompile''] [],
     if_dir (\<lambda>s. defined ''_lint'' s \<and> \<not> defined ''lint'' s)
       [define_macro ''lint'' (Tokens '''')] [],
     if_dir (\<lambda>s. val ''SIZEOF_LONG_LONG'' s > 4 \<and> \<not> defined ''_LONG_LONG'' s)
       [define_macro ''_LONG_LONG'' (Number 1)] []]"

definition g_headers :: "(string \<Rightarrow> directive) \<Rightarrow> directive" where
  "g_headers sys = block
    [if_dir (\<lambda>s. \<not> defined ''stdin'' s)
       [sys ''stdio.h''] [],
     sys ''stdarg.h'',
     if_dir (\<lambda>s. defined ''HAVE_STDLIB_H'' s)
       [sys ''stdlib.h''] [],
     if_dir (\<lambda>s. defined ''HAVE_STDDEF_H'' s)
       [sys ''stddef.h''] [],
     sys ''math.h'',
     if_dir (\<lambda>s. defined ''HAVE_LIMITS_H'' s)
       [sys ''limits.h''] [],
     if_dir (\<lambda>s. defined ''HAVE_FLOAT_H'' s)
       [sys ''float.h''] [],
     if_dir (\<lambda>s. defined ''HAVE_FENV_H'' s)
       [sys ''fenv.h''] [],
     if_dir (\<lambda>s. defined ''HAVE_SYS_TYPES_H'' s)
       [sys ''sys/types.h''] [],
     if_dir (\<lambda>s. defined ''HAVE_FCNTL_H'' s)
       [sys ''fcntl.h''] [],
     if_dir (\<lambda>s. defined ''HAVE_SYS_TIMEB_H'' s)
       [sys ''sys/timeb.h''] [],
     if_dir (\<lambda>s. val ''TIME_WITH_SYS_TIME'' s \<noteq> 0)
       [sys ''sys/time.h'',
        sys ''time.h'']
       [if_dir (\<lambda>s. val ''HAVE_SYS_TIME_H'' s \<noteq> 0)
          [sys ''sys/time.h'']
          [sys ''time.h'']],
     if_dir (\<lambda>s. defined ''HAVE_UNISTD_H'' s)
       [sys ''unistd.h''] [],
     if_dir (\<lambda>s. defined ''__cplusplus'' s \<and> defined ''NO_CPLUSPLUS_ALLOCA'' s)
       [undef_macro ''HAVE_ALLOCA'',
        undef_macro ''HAVE_ALLOCA_H''] [],
     if_dir (\<lambda>s. defined ''HAVE_ALLOCA_H'' s)
       [sys ''alloca.h''] [],
     sys ''errno.h'',
     if_dir (\<lambda>s. defined ''HAVE_CRYPT_H'' s)
       [sys ''crypt.h''] [],
     sys ''assert.h'']"

definition g_workarounds2 :: "(string \<Rightarrow> directive) \<Rightarrow> directive" where
  "g_workarounds2 sys = block
    [if_dir (\<lambda>s. \<not> defined ''__GNUC__'' s)
       [define_macro ''compile_time_assert'' (Params [''X''] ''do { } while(0)'')]
       [define_macro ''compile_time_assert'' (Params [''X''] ''do { typedef char compile_time_assert[(X) ? 1 : -1]; } while(0)'')],
     if_dir (\<lambda>s. defined ''HPUX11'' s \<and> defined ''_LARGEFILE_SOURCE'' s)
       [if_dir (\<lambda>s. \<not> defined ''_LARGEFILE64_SOURCE'' s)
          [define_macro ''_LARGEFILE64_SOURCE'' (Tokens '''')] []] [],
     if_dir (\<lambda>s. defined ''_HPUX_SOURCE'' s \<and> defined ''HAVE_SYS_STREAM_H'' s)
       [sys ''sys/stream.h'',
        define_macro ''HAVE_ULONG'' (Tokens '''')] [],
     if_dir (\<lambda>s. defined ''HPUX10'' s \<and> defined ''_LARGEFILE64_SOURCE'' s)
       [undef_macro ''setrlimit'',
        define_macro ''setrlimit'' (Tokens ''cma_setrlimit64'')] [],
     if_dir (\<lambda>s. (val ''HAVE_MADVISE'' s \<noteq> 0 \<and> \<not> val ''HAVE_DECL_MADVISE'' s \<noteq> 0) \<and> defined ''__cplusplus'' s) [] [],
     define_macro ''QUOTE_ARG'' (Params [''x''] ''#x''),
     define_macro ''STRINGIFY_ARG'' (Params [''x''] ''QUOTE_ARG(x)''),
     if_dir (\<lambda>s. defined ''I_AM_PARANOID'' s)
       [define_macro ''DONT_ALLOW_USER_CHANGE'' (Number 1),
        define_macro ''DONT_USE_MYSQL_PWD'' (Number 1)] [],
     if_dir (\<lambda>s. \<not> defined ''HAVE_BSD_SIGNALS'' s \<and> \<not> defined ''HAVE_SIGACTION'' s)
       [define_macro ''SIGNAL_HANDLER_RESET_ON_DELIVERY'' (Tokens '''')] [],
     if_dir (\<lambda>s. (defined ''_lint'' s \<or> defined ''FORCE_INIT_OF_VARS'' s) \<or> (defined ''__GNUC__'' s \<and> defined ''__cplusplus'' s))
       [define_macro ''LINT_INIT'' (Params [''var''] ''var= 0'')]
       [define_macro ''LINT_INIT'' (Params [''var''] '''')],
     if_dir (\<lambda>s. \<not> defined ''SO_EXT'' s)
       [if_dir (\<lambda>s. defined ''_WIN32'' s)
          [define_macro ''SO_EXT'' (Tokens ''\".dll\"'')]
          [if_dir (\<lambda>s. defined ''__APPLE__'' s)
          [define_macro ''SO_EXT'' (Tokens ''\".dylib\"'')]
          [define_macro ''SO_EXT'' (Tokens ''\".so\"'')]]] []]"

definition g_init :: "directive" where
  "g_init = block
    [if_dir (\<lambda>s. ((defined ''_lint'' s \<or> defined ''FORCE_INIT_OF_VARS'' s) \<or> defined ''__cplusplus'' s) \<or> \<not> defined ''__GNUC__'' s)
       [define_macro ''UNINIT_VAR'' (Params [''x''] ''x= 0'')]
       [define_macro ''UNINIT_VAR'' (Params [''x''] ''x= x'')],
     if_dir (\<lambda>s. \<not> defined ''HAVE_UINT'' s)
       [undef_macro ''HAVE_UINT'',
        define_macro ''HAVE_UINT'' (Tokens ''''),
        typedef_base ''uint'' T_uint,
        typedef_base ''ushort'' T_ushort] [],
     define_macro ''swap_variables'' (Params [''t'', ''a'', ''b''] ''{ t dummy; dummy= a; a= b; b= dummy; }''),
     define_macro ''test'' (Params [''a''] ''((a) ? 1 : 0)''),
     define_macro ''set_if_bigger'' (Params [''a'', ''b''] ''do { if ((a) < (b)) (a)=(b); } while(0)''),
     define_macro ''set_if_smaller'' (Params [''a'', ''b''] ''do { if ((a) > (b)) (a)=(b); } while(0)''),
     define_macro ''test_all_bits'' (Params [''a'', ''b''] ''(((a) & (b)) == (b))''),
     define_macro ''array_elements'' (Params [''A''] ''((uint) (sizeof(A)/sizeof(A[0])))''),
     if_dir (\<lambda>s. \<not> defined ''TRUE'' s)
       [define_macro ''TRUE'' (Number 1),
        define_macro ''FALSE'' (Number 0)] [],
     my_compiler_h,
     if_dir (\<lambda>s. defined ''USE_MYSYS_NEW'' s \<and> \<not> defined ''DONT_DECLARE_CXA_PURE_VIRTUAL'' s) [] []]"

definition g_dbug :: "directive" where
  "g_dbug = block
    [if_dir (\<lambda>s. defined ''DBUG_ON'' s \<and> defined ''DBUG_OFF'' s)
       [undef_macro ''DBUG_OFF''] [],
     if_dir (\<lambda>s. (defined ''FORCE_DBUG_OFF'' s \<or> defined ''_lint'' s) \<and> \<not> defined ''DBUG_OFF'' s)
       [define_macro ''DBUG_OFF'' (Tokens ''''),
        if_dir (\<lambda>s. defined ''DBUG_ON'' s)
          [undef_macro ''DBUG_ON''] []] []]"

definition g_system_types :: "(string \<Rightarrow> directive) \<Rightarrow> directive" where
  "g_system_types sys = block
    [typedef_base ''File'' T_int,
     if_dir (\<lambda>s. defined ''_WIN32'' s)
       [typedef_base ''my_socket'' (T_system ''SOCKET'')]
       [typedef_base ''my_socket'' T_int,
        define_macro ''INVALID_SOCKET'' (Number (-1))],
     define_macro ''sig_handler'' (Tokens ''RETSIGTYPE''),
     if_dir (\<lambda>s. defined ''__GNUC__'' s \<and> \<not> defined ''_lint'' s)
       [typedef_base ''pchar'' T_char,
        typedef_base ''puchar'' T_char,
        typedef_base ''pbool'' T_char,
        typedef_base ''pshort'' T_short,
        typedef_base ''pfloat'' T_float]
       [typedef_base ''pchar'' T_int,
        typedef_alias ''puchar'' ''uint'',
        typedef_base ''pbool'' T_int,
        typedef_base ''pshort'' T_int,
        typedef_base ''pfloat'' T_double],
     define_macro ''qsort_t'' (Tokens ''RETQSORTTYPE''),
     if_dir (\<lambda>s. defined ''HAVE_SYS_SOCKET_H'' s)
       [sys ''sys/socket.h''] [],
     typedef_base ''size_socket'' (T_system ''SOCKET_SIZE_TYPE''),
     if_dir (\<lambda>s. \<not> defined ''SOCKOPT_OPTLEN_TYPE'' s)
       [define_macro ''SOCKOPT_OPTLEN_TYPE'' (Tokens ''size_socket'')] []]"

definition g_file_flags :: "directive" where
  "g_file_flags = block
    [if_dir (\<lambda>s. \<not> defined ''O_SHARE'' s)
       [define_macro ''O_SHARE'' (Number 0),
        if_dir (\<lambda>s. \<not> defined ''O_BINARY'' s)
          [define_macro ''O_BINARY'' (Number 0)] [],
        if_dir (\<lambda>s. \<not> defined ''FILE_BINARY'' s)
          [define_macro ''FILE_BINARY'' (Tokens ''O_BINARY'')] [],
        if_dir (\<lambda>s. defined ''HAVE_FCNTL'' s)
          [define_macro ''HAVE_FCNTL_LOCK'' (Tokens ''''),
           define_macro ''F_TO_EOF'' (Number 0)] []] [],
     if_dir (\<lambda>s. \<not> defined ''O_TEMPORARY'' s)
       [define_macro ''O_TEMPORARY'' (Number 0)] [],
     if_dir (\<lambda>s. \<not> defined ''O_SHORT_LIVED'' s)
       [define_macro ''O_SHORT_LIVED'' (Number 0)] [],
     if_dir (\<lambda>s. \<not> defined ''O_NOFOLLOW'' s)
       [define_macro ''O_NOFOLLOW'' (Number 0)] [],
     if_dir (\<lambda>s. defined ''__WIN__'' s)
       [define_macro ''_SH_DENYRWD'' (Number 272),
        define_macro ''_SH_DENYWRD'' (Number 288),
        define_macro ''_SH_DENYRDD'' (Number 304),
        define_macro ''_SH_DENYDEL'' (Number 320)] []]"

definition g_file_names :: "directive" where
  "g_file_names = block
    [define_macro ''FN_LEN'' (Number 256),
     define_macro ''FN_HEADLEN'' (Number 253),
     define_macro ''FN_EXTLEN'' (Number 20),
     define_macro ''FN_REFLEN'' (Number 512),
     define_macro ''FN_EXTCHAR'' (Tokens ([CHR 0x27] @ ''.'' @ [CHR 0x27])),
     define_macro ''FN_HOMELIB'' (Tokens ([CHR 0x27] @ ''~'' @ [CHR 0x27])),
     define_macro ''FN_CURLIB'' (Tokens ([CHR 0x27] @ ''.'' @ [CHR 0x27])),
     define_macro ''FN_PARENTDIR'' (Tokens ''\"..\"''),
     if_dir (\<lambda>s. defined ''_WIN32'' s)
       [define_macro ''FN_LIBCHAR'' (Tokens ([CHR 0x27] @ [CHR 0x5C] @ [CHR 0x5C] @ [CHR 0x27])),
        define_macro ''FN_LIBCHAR2'' (Tokens ([CHR 0x27] @ ''/'' @ [CHR 0x27])),
        define_macro ''FN_DIRSEP'' (Tokens (''\"/'' @ [CHR 0x5C] @ [CHR 0x5C] @ ''\"'')),
        define_macro ''FN_EXEEXT'' (Tokens ''\".exe\"''),
        define_macro ''FN_SOEXT'' (Tokens ''\".dll\"''),
        define_macro ''FN_ROOTDIR'' (Tokens (''\"'' @ [CHR 0x5C] @ [CHR 0x5C] @ ''\"'')),
        define_macro ''FN_DEVCHAR'' (Tokens ([CHR 0x27] @ '':'' @ [CHR 0x27])),
        define_macro ''FN_NETWORK_DRIVES'' (Tokens ''''),
        define_macro ''FN_NO_CASE_SENCE'' (Tokens '''')]
       [define_macro ''FN_LIBCHAR'' (Tokens ([CHR 0x27] @ ''/'' @ [CHR 0x27])),
        define_macro ''FN_LIBCHAR2'' (Tokens ([CHR 0x27] @ ''/'' @ [CHR 0x27])),
        define_macro ''FN_DIRSEP'' (Tokens ''\"/\"''),
        define_macro ''FN_EXEEXT'' (Tokens ''\"\"''),
        define_macro ''FN_SOEXT'' (Tokens ''\".so\"''),
        define_macro ''FN_ROOTDIR'' (Tokens ''\"/\"'')],
     if_dir (\<lambda>s. defined ''_WIN32'' s)
       [define_macro ''MY_FILE_MIN'' (Number 2048)]
       [define_macro ''MY_FILE_MIN'' (Number 0)],
     if_dir (\<lambda>s. defined ''_WIN32'' s)
       [define_macro ''MY_NFILE'' (Tokens ''(16384 + MY_FILE_MIN)'')]
       [define_macro ''MY_NFILE'' (Number 64)],
     if_dir (\<lambda>s. \<not> defined ''OS_FILE_LIMIT'' s)
       [define_macro ''OS_FILE_LIMIT'' (Tokens ''UINT_MAX'')] []]"

definition g_sizes :: "directive" where
  "g_sizes = block
    [define_macro ''IO_SIZE'' (Number 4096),
     define_macro ''MALLOC_OVERHEAD'' (Number 8),
     define_macro ''ONCE_ALLOC_INIT'' (Tokens ''(uint) (4096-MALLOC_OVERHEAD)''),
     define_macro ''RECORD_CACHE_SIZE'' (Tokens ''(uint) (64*1024-MALLOC_OVERHEAD)''),
     define_macro ''KEY_CACHE_SIZE'' (Tokens ''(uint) (8*1024*1024)''),
     define_macro ''KEY_CACHE_BLOCK_SIZE'' (Tokens ''(uint) 1024''),
     if_dir (\<lambda>s. defined ''_WIN32'' s)
       [define_macro ''NO_DIR_LIBRARY'' (Tokens '''')] [],
     undef_macro ''remove'',
     if_dir (\<lambda>s. \<not> defined ''__WIN__'' s)
       [define_macro ''closesocket'' (Params [''A''] ''close(A)'')] []]"

definition g_conversions :: "directive" where
  "g_conversions = block
    [if_dir (\<lambda>s. val ''_MSC_VER'' s \<noteq> 0)
       [if_dir (\<lambda>s. \<not> defined ''_WIN64'' s)
          [define_macro ''ulonglong2double'' (Tokens ''my_ulonglong2double''),
           define_macro ''my_off_t2double'' (Tokens ''my_ulonglong2double'')] [],
        define_macro ''double2ulonglong'' (Tokens ''my_double2ulonglong'')] [],
     if_dir (\<lambda>s. \<not> defined ''ulonglong2double'' s)
       [define_macro ''ulonglong2double'' (Params [''A''] ''((double) (ulonglong) (A))''),
        define_macro ''my_off_t2double'' (Params [''A''] ''((double) (my_off_t) (A))'')] [],
     if_dir (\<lambda>s. \<not> defined ''double2ulonglong'' s)
       [define_macro ''double2ulonglong'' (Params [''A''] ''((ulonglong) (double) (A))'')] [],
     if_dir (\<lambda>s. \<not> defined ''offsetof'' s)
       [define_macro ''offsetof'' (Params [''TYPE'', ''MEMBER''] ''((size_t) &((TYPE *)0)->MEMBER)'')] [],
     define_macro ''ulong_to_double'' (Params [''X''] ''((double) (ulong) (X))''),
     if_dir (\<lambda>s. \<not> defined ''STACK_DIRECTION'' s)
       [error_directive ''please add -DSTACK_DIRECTION=1 or -1 to your CPPFLAGS''] [],
     if_dir (\<lambda>s. \<not> defined ''HAVE_STRTOK_R'' s)
       [define_macro ''strtok_r'' (Params [''A'', ''B'', ''C''] ''strtok((A),(B))'')] []]"

definition g_limits :: "directive" where
  "g_limits = block
    [if_dir (\<lambda>s. val ''SIZEOF_LONG_LONG'' s > 4)
       [define_macro ''HAVE_LONG_LONG'' (Number 1)] [],
     if_dir (\<lambda>s. defined ''HAVE_LONG_LONG'' s \<and> \<not> defined ''LONGLONG_MIN'' s)
       [define_macro ''LONGLONG_MIN'' (Tokens ''((long long) 0x8000000000000000LL)''),
        define_macro ''LONGLONG_MAX'' (Tokens ''((long long) 0x7FFFFFFFFFFFFFFFLL)'')] [],
     if_dir (\<lambda>s. defined ''HAVE_LONG_LONG'' s \<and> \<not> defined ''ULONGLONG_MAX'' s)
       [if_dir (\<lambda>s. defined ''ULLONG_MAX'' s)
          [define_macro ''ULONGLONG_MAX'' (Tokens ''ULLONG_MAX'')]
          [define_macro ''ULONGLONG_MAX'' (Tokens ''((unsigned long long)(~0ULL))'')]] [],
     define_macro ''INT_MIN64'' (Tokens ''(~0x7FFFFFFFFFFFFFFFLL)''),
     define_macro ''INT_MAX64'' (Number 9223372036854775807),
     define_macro ''INT_MIN32'' (Tokens ''(~0x7FFFFFFFL)''),
     define_macro ''INT_MAX32'' (Number 2147483647),
     define_macro ''UINT_MAX32'' (Number 4294967295),
     define_macro ''INT_MIN24'' (Tokens ''(~0x007FFFFF)''),
     define_macro ''INT_MAX24'' (Number 8388607),
     define_macro ''UINT_MAX24'' (Number 16777215),
     define_macro ''INT_MIN16'' (Tokens ''(~0x7FFF)''),
     define_macro ''INT_MAX16'' (Number 32767),
     define_macro ''UINT_MAX16'' (Number 65535),
     define_macro ''INT_MIN8'' (Tokens ''(~0x7F)''),
     define_macro ''INT_MAX8'' (Number 127),
     define_macro ''UINT_MAX8'' (Number 255),
     if_dir (\<lambda>s. \<not> defined ''DBL_MIN'' s)
       [define_macro ''DBL_MIN'' (Tokens ''4.94065645841246544e-324''),
        define_macro ''FLT_MIN'' (Tokens ''((float)1.40129846432481707e-45)'')] [],
     if_dir (\<lambda>s. \<not> defined ''DBL_MAX'' s)
       [define_macro ''DBL_MAX'' (Tokens ''1.79769313486231470e+308''),
        define_macro ''FLT_MAX'' (Tokens ''((float)3.40282346638528860e+38)'')] [],
     if_dir (\<lambda>s. \<not> defined ''SIZE_T_MAX'' s)
       [define_macro ''SIZE_T_MAX'' (Tokens ''(~((size_t) 0))'')] [],
     if_dir (\<lambda>s. \<not> defined ''isfinite'' s)
       [if_dir (\<lambda>s. defined ''HAVE_FINITE'' s)
          [define_macro ''isfinite'' (Params [''x''] ''finite(x)'')]
          [define_macro ''finite'' (Params [''x''] ''(1.0 / fabs(x) > 0.0)'')]] [],
     if_dir (\<lambda>s. \<not> defined ''HAVE_ISNAN'' s)
       [define_macro ''isnan'' (Params [''x''] ''((x) != (x))'')] [],
     if_dir (\<lambda>s. defined ''HAVE_ISINF'' s)
       [if_dir (\<lambda>s. \<not> defined ''__cplusplus'' s \<and> defined ''HAVE_BROKEN_ISINF'' s) []
          [define_macro ''my_isinf'' (Params [''X''] ''isinf(X)'')]]
       [define_macro ''my_isinf'' (Params [''X''] ''(!finite(X) && !isnan(X))'')],
     if_dir (\<lambda>s. \<not> defined ''M_PI'' s)
       [define_macro ''M_PI'' (Tokens ''3.14159265358979323846'')] [],
     if_dir (\<lambda>s. \<not> defined ''M_E'' s)
       [define_macro ''M_E'' (Tokens ''2.7182818284590452354'')] [],
     if_dir (\<lambda>s. \<not> defined ''M_LN2'' s)
       [define_macro ''M_LN2'' (Tokens ''0.69314718055994530942'')] []]"

definition g_pointer_types :: "directive" where
  "g_pointer_types = block
    [if_dir (\<lambda>s. val ''SIZEOF_CHARP'' s = 4)
       [typedef_base ''my_ptrdiff_t'' T_long]
       [typedef_base ''my_ptrdiff_t'' T_long_long],
     define_macro ''MY_ALIGN'' (Params [''A'', ''L''] ''(((A) + (L) - 1) & ~((L) - 1))''),
     define_macro ''ALIGN_SIZE'' (Params [''A''] ''MY_ALIGN((A),sizeof(double))''),
     define_macro ''ADD_TO_PTR'' (Params [''ptr'', ''size'', ''type''] ''(type) ((uchar*) (ptr)+size)''),
     define_macro ''PTR_BYTE_DIFF'' (Params [''A'', ''B''] ''(my_ptrdiff_t) ((uchar*) (A) - (uchar*) (B))''),
     define_macro ''my_offsetof'' (Params [''TYPE'', ''MEMBER''] ''((size_t)((char *)&(((TYPE *)0x10)->MEMBER) - (char*)0x10))''),
     define_macro ''NullS'' (Tokens ''(char *) 0''),
     if_dir (\<lambda>s. defined ''STDCALL'' s)
       [undef_macro ''STDCALL''] [],
     if_dir (\<lambda>s. defined ''_WIN32'' s)
       [define_macro ''STDCALL'' (Tokens ''__stdcall'')]
       [define_macro ''STDCALL'' (Tokens '''')]]"

definition g_types :: "directive" where
  "g_types = block
    [if_dir (\<lambda>s. \<not> defined ''HAVE_UCHAR'' s)
       [typedef_base ''uchar'' T_uchar] [],
     if_dir (\<lambda>s. \<not> defined ''HAVE_INT8'' s)
       [typedef_base ''int8'' T_schar] [],
     if_dir (\<lambda>s. \<not> defined ''HAVE_UINT8'' s)
       [typedef_base ''uint8'' T_uchar] [],
     if_dir (\<lambda>s. \<not> defined ''HAVE_INT16'' s)
       [typedef_base ''int16'' T_short] [],
     if_dir (\<lambda>s. \<not> defined ''HAVE_UINT16'' s)
       [typedef_base ''uint16'' T_ushort] [],
     if_dir (\<lambda>s. val ''SIZEOF_INT'' s = 4)
       [if_dir (\<lambda>s. \<not> defined ''HAVE_INT32'' s)
          [typedef_base ''int32'' T_int] [],
        if_dir (\<lambda>s. \<not> defined ''HAVE_UINT32'' s)
          [typedef_base ''uint32'' T_uint] []]
       [if_dir (\<lambda>s. val ''SIZEOF_LONG'' s = 4)
       [if_dir (\<lambda>s. \<not> defined ''HAVE_INT32'' s)
          [typedef_base ''int32'' T_long] [],
        if_dir (\<lambda>s. \<not> defined ''HAVE_UINT32'' s)
          [typedef_base ''uint32'' T_ulong] []]
       [error_directive ''Neither int or long is of 4 bytes width'']],
     if_dir (\<lambda>s. \<not> defined ''HAVE_ULONG'' s \<and> \<not> defined ''__USE_MISC'' s)
       [typedef_base ''ulong'' T_ulong] [],
     if_dir (\<lambda>s. \<not> defined ''longlong_defined'' s)
       [if_dir (\<lambda>s. defined ''HAVE_LONG_LONG'' s \<and> val ''SIZEOF_LONG_LONG'' s = 8)
          [typedef_base ''ulonglong'' T_ulong_long,
           typedef_base ''longlong'' T_long_long]
          [typedef_base ''ulonglong'' T_ulong,
           typedef_base ''longlong'' T_long]] [],
     if_dir (\<lambda>s. \<not> defined ''HAVE_INT64'' s)
       [typedef_alias ''int64'' ''longlong''] [],
     if_dir (\<lambda>s. \<not> defined ''HAVE_UINT64'' s)
       [typedef_alias ''uint64'' ''ulonglong''] [],
     if_dir (\<lambda>s. defined ''NO_CLIENT_LONG_LONG'' s)
       [typedef_base ''my_ulonglong'' T_ulong]
       [if_dir (\<lambda>s. defined ''__WIN__'' s)
       [typedef_base ''my_ulonglong'' T_uint64]
       [typedef_base ''my_ulonglong'' T_ulong_long]],
     if_dir (\<lambda>s. val ''SIZEOF_CHARP'' s = val ''SIZEOF_INT'' s)
       [typedef_base ''intptr'' T_int]
       [if_dir (\<lambda>s. val ''SIZEOF_CHARP'' s = val ''SIZEOF_LONG'' s)
       [typedef_base ''intptr'' T_long]
       [if_dir (\<lambda>s. val ''SIZEOF_CHARP'' s = val ''SIZEOF_LONG_LONG'' s)
       [typedef_base ''intptr'' T_long_long]
       [error_directive ''sizeof(void *) is neither sizeof(int) nor sizeof(long) nor sizeof(long long)'']]],
     define_macro ''MY_ERRPTR'' (Tokens ''((void*)(intptr)1)''),
     if_dir (\<lambda>s. defined ''_WIN32'' s)
       [typedef_base ''my_off_t'' T_ulong_long,
        typedef_base ''os_off_t'' T_ulong_long]
       [typedef_base ''os_off_t'' T_off_t,
        if_dir (\<lambda>s. val ''SIZEOF_OFF_T'' s > 4)
          [typedef_alias ''my_off_t'' ''ulonglong'']
          [typedef_base ''my_off_t'' T_ulong]],
     define_macro ''MY_FILEPOS_ERROR'' (Tokens ''(~(my_off_t) 0)''),
     typedef_alias ''table_map'' ''ulonglong'',
     typedef_alias ''nesting_map'' ''ulong'']"

definition g_sockets :: "directive" where
  "g_sockets = block
    [if_dir (\<lambda>s. defined ''__WIN__'' s)
       [define_macro ''socket_errno'' (Tokens ''WSAGetLastError()''),
        define_macro ''SOCKET_EINTR'' (Tokens ''WSAEINTR''),
        define_macro ''SOCKET_EAGAIN'' (Tokens ''WSAEINPROGRESS''),
        define_macro ''SOCKET_ETIMEDOUT'' (Tokens ''WSAETIMEDOUT''),
        define_macro ''SOCKET_EWOULDBLOCK'' (Tokens ''WSAEWOULDBLOCK''),
        define_macro ''SOCKET_EADDRINUSE'' (Tokens ''WSAEADDRINUSE''),
        define_macro ''SOCKET_ENFILE'' (Tokens ''ENFILE''),
        define_macro ''SOCKET_EMFILE'' (Tokens ''EMFILE'')]
       [define_macro ''socket_errno'' (Tokens ''errno''),
        define_macro ''closesocket'' (Params [''A''] ''close(A)''),
        define_macro ''SOCKET_EINTR'' (Tokens ''EINTR''),
        define_macro ''SOCKET_EAGAIN'' (Tokens ''EAGAIN''),
        define_macro ''SOCKET_ETIMEDOUT'' (Tokens ''SOCKET_EINTR''),
        define_macro ''SOCKET_EWOULDBLOCK'' (Tokens ''EWOULDBLOCK''),
        define_macro ''SOCKET_EADDRINUSE'' (Tokens ''EADDRINUSE''),
        define_macro ''SOCKET_ENFILE'' (Tokens ''ENFILE''),
        define_macro ''SOCKET_EMFILE'' (Tokens ''EMFILE'')],
     typedef_base ''myf'' T_int,
     typedef_base ''my_bool'' T_char,
     define_macro ''MYF'' (Params [''v''] ''(myf) (v)'')]"

definition g_constants :: "(string \<Rightarrow> directive) \<Rightarrow> directive" where
  "g_constants sys = block
    [if_dir (\<lambda>s. \<not> defined ''LL'' s)
       [if_dir (\<lambda>s. defined ''HAVE_LONG_LONG'' s)
          [define_macro ''LL'' (Params [''A''] ''A ## LL'')]
          [define_macro ''LL'' (Params [''A''] ''A ## L'')]] [],
     if_dir (\<lambda>s. \<not> defined ''ULL'' s)
       [if_dir (\<lambda>s. defined ''HAVE_LONG_LONG'' s)
          [define_macro ''ULL'' (Params [''A''] ''A ## ULL'')]
          [define_macro ''ULL'' (Params [''A''] ''A ## UL'')]] [],
     if_dir (\<lambda>s. \<not> defined ''USING_X'' s)
       [define_macro ''reg1'' (Tokens ''register''),
        define_macro ''reg2'' (Tokens ''register''),
        define_macro ''reg3'' (Tokens ''register''),
        define_macro ''reg4'' (Tokens ''register''),
        define_macro ''reg5'' (Tokens ''register''),
        define_macro ''reg6'' (Tokens ''register''),
        define_macro ''reg7'' (Tokens ''register''),
        define_macro ''reg8'' (Tokens ''register''),
        define_macro ''reg9'' (Tokens ''register''),
        define_macro ''reg10'' (Tokens ''register''),
        define_macro ''reg11'' (Tokens ''register''),
        define_macro ''reg12'' (Tokens ''register''),
        define_macro ''reg13'' (Tokens ''register''),
        define_macro ''reg14'' (Tokens ''register''),
        define_macro ''reg15'' (Tokens ''register''),
        define_macro ''reg16'' (Tokens ''register'')] [],
     my_dbug_h sys,
     define_macro ''YESNO'' (Params [''X''] ''((X) ? \"yes\" : \"no\")''),
     define_macro ''MY_HOW_OFTEN_TO_ALARM'' (Number 2),
     define_macro ''MY_HOW_OFTEN_TO_WRITE'' (Number 1000)]"

definition g_byte_order_x86 :: directive where
  "g_byte_order_x86 = block
    [define_macro ''sint2korr'' (Params [''A''] ''(*((int16 *) (A)))''),
     define_macro ''sint3korr'' (Params [''A''] ''((int32) ((((uchar) (A)[2]) & 128) ? (((uint32) 255L << 24) | (((uint32) (uchar) (A)[2]) << 16) | (((uint32) (uchar) (A)[1]) << 8) | ((uint32) (uchar) (A)[0])) : (((uint32) (uchar) (A)[2]) << 16) | (((uint32) (uchar) (A)[1]) << 8) | ((uint32) (uchar) (A)[0])))''),
     define_macro ''sint4korr'' (Params [''A''] ''(*((long *) (A)))''),
     define_macro ''uint2korr'' (Params [''A''] ''(*((uint16 *) (A)))''),
     if_dir (\<lambda>s. defined ''HAVE_purify'' s \<and> \<not> defined ''_WIN32'' s)
       [define_macro ''uint3korr'' (Params [''A''] ''(uint32) (((uint32) ((uchar) (A)[0])) + (((uint32) ((uchar) (A)[1])) << 8) + (((uint32) ((uchar) (A)[2])) << 16))'')]
       [define_macro ''uint3korr'' (Params [''A''] ''(long) (*((unsigned int *) (A)) & 0xFFFFFF)'')],
     define_macro ''uint4korr'' (Params [''A''] ''(*((uint32 *) (A)))''),
     define_macro ''uint5korr'' (Params [''A''] ''((ulonglong)(((uint32) ((uchar) (A)[0])) + (((uint32) ((uchar) (A)[1])) << 8) + (((uint32) ((uchar) (A)[2])) << 16) + (((uint32) ((uchar) (A)[3])) << 24)) + (((ulonglong) ((uchar) (A)[4])) << 32))''),
     define_macro ''uint6korr'' (Params [''A''] ''((ulonglong)(((uint32) ((uchar) (A)[0])) + (((uint32) ((uchar) (A)[1])) << 8) + (((uint32) ((uchar) (A)[2])) << 16) + (((uint32) ((uchar) (A)[3])) << 24)) + (((ulonglong) ((uchar) (A)[4])) << 32) + (((ulonglong) ((uchar) (A)[5])) << 40))''),
     define_macro ''uint8korr'' (Params [''A''] ''(*((ulonglong *) (A)))''),
     define_macro ''sint8korr'' (Params [''A''] ''(*((longlong *) (A)))''),
     define_macro ''int2store'' (Params [''T'', ''A''] ''*((uint16*) (T))= (uint16) (A)''),
     define_macro ''int3store'' (Params [''T'', ''A''] ''do { *(T)= (uchar) ((A)); *(T+1)=(uchar) (((uint) (A) >> 8)); *(T+2)=(uchar) (((A) >> 16)); } while (0)''),
     define_macro ''int4store'' (Params [''T'', ''A''] ''*((long *) (T))= (long) (A)''),
     define_macro ''int5store'' (Params [''T'', ''A''] ''do { *(T)= (uchar)((A)); *((T)+1)=(uchar) (((A) >> 8)); *((T)+2)=(uchar) (((A) >> 16)); *((T)+3)=(uchar) (((A) >> 24)); *((T)+4)=(uchar) (((A) >> 32)); } while(0)''),
     define_macro ''int6store'' (Params [''T'', ''A''] ''do { *(T)= (uchar)((A)); *((T)+1)=(uchar) (((A) >> 8)); *((T)+2)=(uchar) (((A) >> 16)); *((T)+3)=(uchar) (((A) >> 24)); *((T)+4)=(uchar) (((A) >> 32)); *((T)+5)=(uchar) (((A) >> 40)); } while(0)''),
     define_macro ''int8store'' (Params [''T'', ''A''] ''*((ulonglong *) (T))= (ulonglong) (A)''),
     define_macro ''doubleget'' (Params [''V'', ''M''] ''do { doubleget_union _tmp; _tmp.m[0] = *((long*)(M)); _tmp.m[1] = *(((long*) (M))+1); (V) = _tmp.v; } while(0)''),
     define_macro ''doublestore'' (Params [''T'', ''V''] ''do { *((long *) T) = ((doubleget_union *)&V)->m[0]; *(((long *) T)+1) = ((doubleget_union *)&V)->m[1]; } while (0)''),
     define_macro ''float4get'' (Params [''V'', ''M''] ''do { *((float *) &(V)) = *((float*) (M)); } while(0)''),
     define_macro ''float8get'' (Params [''V'', ''M''] ''doubleget((V),(M))''),
     define_macro ''float4store'' (Params [''V'', ''M''] ''memcpy((uchar*) V,(uchar*) (&M),sizeof(float))''),
     define_macro ''floatstore'' (Params [''T'', ''V''] ''memcpy((uchar*)(T), (uchar*)(&V),sizeof(float))''),
     define_macro ''floatget'' (Params [''V'', ''M''] ''memcpy((uchar*) &V,(uchar*) (M),sizeof(float))''),
     define_macro ''float8store'' (Params [''V'', ''M''] ''doublestore((V),(M))'')]"

definition g_byte_order_portable :: directive where
  "g_byte_order_portable = block
    [define_macro ''sint2korr'' (Params [''A''] ''(int16) (((int16) ((uchar) (A)[0])) + ((int16) ((int16) (A)[1]) << 8))''),
     define_macro ''sint3korr'' (Params [''A''] ''((int32) ((((uchar) (A)[2]) & 128) ? (((uint32) 255L << 24) | (((uint32) (uchar) (A)[2]) << 16) | (((uint32) (uchar) (A)[1]) << 8) | ((uint32) (uchar) (A)[0])) : (((uint32) (uchar) (A)[2]) << 16) | (((uint32) (uchar) (A)[1]) << 8) | ((uint32) (uchar) (A)[0])))''),
     define_macro ''sint4korr'' (Params [''A''] ''(int32) (((int32) ((uchar) (A)[0])) + (((int32) ((uchar) (A)[1]) << 8)) + (((int32) ((uchar) (A)[2]) << 16)) + (((int32) ((int16) (A)[3]) << 24)))''),
     define_macro ''sint8korr'' (Params [''A''] ''(longlong) uint8korr(A)''),
     define_macro ''uint2korr'' (Params [''A''] ''(uint16) (((uint16) ((uchar) (A)[0])) + ((uint16) ((uchar) (A)[1]) << 8))''),
     define_macro ''uint3korr'' (Params [''A''] ''(uint32) (((uint32) ((uchar) (A)[0])) + (((uint32) ((uchar) (A)[1])) << 8) + (((uint32) ((uchar) (A)[2])) << 16))''),
     define_macro ''uint4korr'' (Params [''A''] ''(uint32) (((uint32) ((uchar) (A)[0])) + (((uint32) ((uchar) (A)[1])) << 8) + (((uint32) ((uchar) (A)[2])) << 16) + (((uint32) ((uchar) (A)[3])) << 24))''),
     define_macro ''uint5korr'' (Params [''A''] ''((ulonglong)(((uint32) ((uchar) (A)[0])) + (((uint32) ((uchar) (A)[1])) << 8) + (((uint32) ((uchar) (A)[2])) << 16) + (((uint32) ((uchar) (A)[3])) << 24)) + (((ulonglong) ((uchar) (A)[4])) << 32))''),
     define_macro ''uint6korr'' (Params [''A''] ''((ulonglong)(((uint32) ((uchar) (A)[0])) + (((uint32) ((uchar) (A)[1])) << 8) + (((uint32) ((uchar) (A)[2])) << 16) + (((uint32) ((uchar) (A)[3])) << 24)) + (((ulonglong) ((uchar) (A)[4])) << 32) + (((ulonglong) ((uchar) (A)[5])) << 40))''),
     define_macro ''uint8korr'' (Params [''A''] ''((ulonglong)(((uint32) ((uchar) (A)[0])) + (((uint32) ((uchar) (A)[1])) << 8) + (((uint32) ((uchar) (A)[2])) << 16) + (((uint32) ((uchar) (A)[3])) << 24)) + (((ulonglong) (((uint32) ((uchar) (A)[4])) + (((uint32) ((uchar) (A)[5])) << 8) + (((uint32) ((uchar) (A)[6])) << 16) + (((uint32) ((uchar) (A)[7])) << 24))) << 32))''),
     define_macro ''int2store'' (Params [''T'', ''A''] ''do { uint def_temp= (uint) (A) ; *((uchar*) (T))= (uchar)(def_temp); *((uchar*) (T)+1)=(uchar)((def_temp >> 8)); } while(0)''),
     define_macro ''int3store'' (Params [''T'', ''A''] ''do { *((uchar*)(T))=(uchar) ((A)); *((uchar*) (T)+1)=(uchar) (((A) >> 8)); *((uchar*)(T)+2)=(uchar) (((A) >> 16)); } while(0)''),
     define_macro ''int4store'' (Params [''T'', ''A''] ''do { *((char *)(T))=(char) ((A)); *(((char *)(T))+1)=(char) (((A) >> 8)); *(((char *)(T))+2)=(char) (((A) >> 16)); *(((char *)(T))+3)=(char) (((A) >> 24)); } while(0)''),
     define_macro ''int5store'' (Params [''T'', ''A''] ''do { *((char *)(T))= (char)((A)); *(((char *)(T))+1)= (char)(((A) >> 8)); *(((char *)(T))+2)= (char)(((A) >> 16)); *(((char *)(T))+3)= (char)(((A) >> 24)); *(((char *)(T))+4)= (char)(((A) >> 32)); } while(0)''),
     define_macro ''int6store'' (Params [''T'', ''A''] ''do { *((char *)(T))= (char)((A)); *(((char *)(T))+1)= (char)(((A) >> 8)); *(((char *)(T))+2)= (char)(((A) >> 16)); *(((char *)(T))+3)= (char)(((A) >> 24)); *(((char *)(T))+4)= (char)(((A) >> 32)); *(((char *)(T))+5)= (char)(((A) >> 40)); } while(0)''),
     define_macro ''int8store'' (Params [''T'', ''A''] ''do { uint def_temp= (uint) (A), def_temp2= (uint) ((A) >> 32); int4store((T),def_temp); int4store((T+4),def_temp2); } while(0)''),
     if_dir (\<lambda>s. defined ''WORDS_BIGENDIAN'' s)
       [define_macro ''float4store'' (Params [''T'', ''A''] ''do { *(T)= ((uchar *) &A)[3]; *((T)+1)=(char) ((uchar *) &A)[2]; *((T)+2)=(char) ((uchar *) &A)[1]; *((T)+3)=(char) ((uchar *) &A)[0]; } while(0)''),
        define_macro ''float4get'' (Params [''V'', ''M''] ''do { float def_temp; ((uchar*) &def_temp)[0]=(M)[3]; ((uchar*) &def_temp)[1]=(M)[2]; ((uchar*) &def_temp)[2]=(M)[1]; ((uchar*) &def_temp)[3]=(M)[0]; (V)=def_temp; } while(0)''),
        define_macro ''float8store'' (Params [''T'', ''V''] ''do { *(T)= ((uchar *) &V)[7]; *((T)+1)=(char) ((uchar *) &V)[6]; *((T)+2)=(char) ((uchar *) &V)[5]; *((T)+3)=(char) ((uchar *) &V)[4]; *((T)+4)=(char) ((uchar *) &V)[3]; *((T)+5)=(char) ((uchar *) &V)[2]; *((T)+6)=(char) ((uchar *) &V)[1]; *((T)+7)=(char) ((uchar *) &V)[0]; } while(0)''),
        define_macro ''float8get'' (Params [''V'', ''M''] ''do { double def_temp; ((uchar*) &def_temp)[0]=(M)[7]; ((uchar*) &def_temp)[1]=(M)[6]; ((uchar*) &def_temp)[2]=(M)[5]; ((uchar*) &def_temp)[3]=(M)[4]; ((uchar*) &def_temp)[4]=(M)[3]; ((uchar*) &def_temp)[5]=(M)[2]; ((uchar*) &def_temp)[6]=(M)[1]; ((uchar*) &def_temp)[7]=(M)[0]; (V) = def_temp; } while(0)'')]
       [define_macro ''float4get'' (Params [''V'', ''M''] ''memcpy(&V, (M), sizeof(float))''),
        define_macro ''float4store'' (Params [''V'', ''M''] ''memcpy(V, (&M), sizeof(float))''),
        if_dir (\<lambda>s. defined ''__FLOAT_WORD_ORDER'' s \<and> val ''__FLOAT_WORD_ORDER'' s = val ''__BIG_ENDIAN'' s)
          [define_macro ''doublestore'' (Params [''T'', ''V''] ''do { *(((char*)T)+0)=(char) ((uchar *) &V)[4]; *(((char*)T)+1)=(char) ((uchar *) &V)[5]; *(((char*)T)+2)=(char) ((uchar *) &V)[6]; *(((char*)T)+3)=(char) ((uchar *) &V)[7]; *(((char*)T)+4)=(char) ((uchar *) &V)[0]; *(((char*)T)+5)=(char) ((uchar *) &V)[1]; *(((char*)T)+6)=(char) ((uchar *) &V)[2]; *(((char*)T)+7)=(char) ((uchar *) &V)[3]; } while(0)''),
           define_macro ''doubleget'' (Params [''V'', ''M''] ''do { double def_temp; ((uchar*) &def_temp)[0]=(M)[4]; ((uchar*) &def_temp)[1]=(M)[5]; ((uchar*) &def_temp)[2]=(M)[6]; ((uchar*) &def_temp)[3]=(M)[7]; ((uchar*) &def_temp)[4]=(M)[0]; ((uchar*) &def_temp)[5]=(M)[1]; ((uchar*) &def_temp)[6]=(M)[2]; ((uchar*) &def_temp)[7]=(M)[3]; (V) = def_temp; } while(0)'')] [],
        define_macro ''float8get'' (Params [''V'', ''M''] ''doubleget((V),(M))''),
        define_macro ''float8store'' (Params [''V'', ''M''] ''doublestore((V),(M))'')]]"

definition g_byte_order :: directive where
  "g_byte_order = block
    [if_dir (\<lambda>s. defined ''__i386__'' s \<or> defined ''_WIN32'' s) [g_byte_order_x86] [g_byte_order_portable],
     define_macro ''int4net'' (Params [''A''] ''(int32) (((uint32) ((uchar) (A)[3])) | (((uint32) ((uchar) (A)[2])) << 8) | (((uint32) ((uchar) (A)[1])) << 16) | (((uint32) ((uchar) (A)[0])) << 24))'')]"

definition g_machine_format :: "directive" where
  "g_machine_format = block
    [if_dir (\<lambda>s. defined ''WORDS_BIGENDIAN'' s)
       [define_macro ''ushortget'' (Params [''V'', ''M''] ''do { V = (uint16) (((uint16) ((uchar) (M)[1]))+ ((uint16) ((uint16) (M)[0]) << 8)); } while(0)''),
        define_macro ''shortget'' (Params [''V'', ''M''] ''do { V = (short) (((short) ((uchar) (M)[1]))+ ((short) ((short) (M)[0]) << 8)); } while(0)''),
        define_macro ''longget'' (Params [''V'', ''M''] ''do { int32 def_temp; ((uchar*) &def_temp)[0]=(M)[0]; ((uchar*) &def_temp)[1]=(M)[1]; ((uchar*) &def_temp)[2]=(M)[2]; ((uchar*) &def_temp)[3]=(M)[3]; (V)=def_temp; } while(0)''),
        define_macro ''ulongget'' (Params [''V'', ''M''] ''do { uint32 def_temp; ((uchar*) &def_temp)[0]=(M)[0]; ((uchar*) &def_temp)[1]=(M)[1]; ((uchar*) &def_temp)[2]=(M)[2]; ((uchar*) &def_temp)[3]=(M)[3]; (V)=def_temp; } while(0)''),
        define_macro ''shortstore'' (Params [''T'', ''A''] ''do { uint def_temp=(uint) (A) ; *(((char*)T)+1)=(char)(def_temp); *(((char*)T)+0)=(char)(def_temp >> 8); } while(0)''),
        define_macro ''longstore'' (Params [''T'', ''A''] ''do { *(((char*)T)+3)=((A)); *(((char*)T)+2)=(((A) >> 8)); *(((char*)T)+1)=(((A) >> 16)); *(((char*)T)+0)=(((A) >> 24)); } while(0)''),
        define_macro ''floatget'' (Params [''V'', ''M''] ''memcpy(&V, (M), sizeof(float))''),
        define_macro ''floatstore'' (Params [''T'', ''V''] ''memcpy((T), (void*) (&V), sizeof(float))''),
        define_macro ''doubleget'' (Params [''V'', ''M''] ''memcpy(&V, (M), sizeof(double))''),
        define_macro ''doublestore'' (Params [''T'', ''V''] ''memcpy((T), (void *) &V, sizeof(double))''),
        define_macro ''longlongget'' (Params [''V'', ''M''] ''memcpy(&V, (M), sizeof(ulonglong))''),
        define_macro ''longlongstore'' (Params [''T'', ''V''] ''memcpy((T), &V, sizeof(ulonglong))'')]
       [define_macro ''ushortget'' (Params [''V'', ''M''] ''do { V = uint2korr(M); } while(0)''),
        define_macro ''shortget'' (Params [''V'', ''M''] ''do { V = sint2korr(M); } while(0)''),
        define_macro ''longget'' (Params [''V'', ''M''] ''do { V = sint4korr(M); } while(0)''),
        define_macro ''ulongget'' (Params [''V'', ''M''] ''do { V = uint4korr(M); } while(0)''),
        define_macro ''shortstore'' (Params [''T'', ''V''] ''int2store(T,V)''),
        define_macro ''longstore'' (Params [''T'', ''V''] ''int4store(T,V)''),
        if_dir (\<lambda>s. \<not> defined ''floatstore'' s)
          [define_macro ''floatstore'' (Params [''T'', ''V''] ''memcpy((T), (void *) (&V), sizeof(float))''),
           define_macro ''floatget'' (Params [''V'', ''M''] ''memcpy(&V, (M), sizeof(float))'')] [],
        if_dir (\<lambda>s. \<not> defined ''doubleget'' s)
          [define_macro ''doubleget'' (Params [''V'', ''M''] ''memcpy(&V, (M), sizeof(double))''),
           define_macro ''doublestore'' (Params [''T'', ''V''] ''memcpy((T), (void *) &V, sizeof(double))'')] [],
        define_macro ''longlongget'' (Params [''V'', ''M''] ''memcpy(&V, (M), sizeof(ulonglong))''),
        define_macro ''longlongstore'' (Params [''T'', ''V''] ''memcpy((T), &V, sizeof(ulonglong))'')]]"

definition g_loading :: "(string \<Rightarrow> directive) \<Rightarrow> directive" where
  "g_loading sys = block
    [if_dir (\<lambda>s. defined ''HAVE_CHARSET_utf8'' s)
       [define_macro ''MYSQL_UNIVERSAL_CLIENT_CHARSET'' (Tokens ''\"utf8\"'')]
       [define_macro ''MYSQL_UNIVERSAL_CLIENT_CHARSET'' (Tokens ''MYSQL_DEFAULT_CHARSET_NAME'')],
     if_dir (\<lambda>s. defined ''EMBEDDED_LIBRARY'' s \<and> \<not> defined ''HAVE_EMBEDDED_PRIVILEGE_CONTROL'' s)
       [define_macro ''NO_EMBEDDED_ACCESS_CHECKS'' (Tokens '''')] [],
     if_dir (\<lambda>s. defined ''_WIN32'' s)
       [define_macro ''dlsym'' (Params [''lib'', ''name''] ''(void*)GetProcAddress((HMODULE)lib, name)''),
        define_macro ''dlopen'' (Params [''libname'', ''unused''] ''LoadLibraryEx(libname, NULL, 0)''),
        define_macro ''dlclose'' (Params [''lib''] ''FreeLibrary((HMODULE)lib)''),
        if_dir (\<lambda>s. \<not> defined ''HAVE_DLOPEN'' s)
          [define_macro ''HAVE_DLOPEN'' (Tokens '''')] []] [],
     if_dir (\<lambda>s. defined ''HAVE_DLOPEN'' s)
       [if_dir (\<lambda>s. defined ''HAVE_DLFCN_H'' s)
          [sys ''dlfcn.h''] []] [],
     if_dir (\<lambda>s. \<not> defined ''HAVE_DLERROR'' s)
       [if_dir (\<lambda>s. defined ''_WIN32'' s)
          [define_macro ''DLERROR_GENERATE'' (Params [''errmsg'', ''error_number''] (''char win_errormsg[2048]; if(FormatMessage(FORMAT_MESSAGE_FROM_SYSTEM, 0, error_number, 0, win_errormsg, 2048, NULL)) { char *ptr; for (ptr= &win_errormsg[0] + strlen(win_errormsg) - 1; ptr >= &win_errormsg[0] && strchr(\"'' @ [CHR 0x5C] @ ''r'' @ [CHR 0x5C] @ ''n'' @ [CHR 0x5C] @ ''t'' @ [CHR 0x5C] @ ''0x20\", *ptr); ptr--) *ptr= 0; errmsg= win_errormsg; } else errmsg= \"\"'')),
           define_macro ''dlerror'' (Params [] ''\"\"''),
           define_macro ''dlopen_errno'' (Tokens ''GetLastError()'')]
          [define_macro ''dlerror'' (Params [] ''\"No support for dynamic loading (static build?)\"''),
           define_macro ''DLERROR_GENERATE'' (Params [''errmsg'', ''error_number''] ''errmsg= dlerror()''),
           define_macro ''dlopen_errno'' (Tokens ''errno'')]]
       [define_macro ''DLERROR_GENERATE'' (Params [''errmsg'', ''error_number''] ''errmsg= dlerror()''),
        define_macro ''dlopen_errno'' (Tokens ''errno'')],
     if_dir (\<lambda>s. defined ''__cplusplus'' s)
       [sys ''new''] [],
     define_macro ''MY_INT32_NUM_DECIMAL_DIGITS'' (Number 11),
     define_macro ''MY_INT64_NUM_DECIMAL_DIGITS'' (Number 21),
     if_dir (\<lambda>s. \<not> defined ''max'' s)
       [define_macro ''max'' (Params [''a'', ''b''] ''((a) > (b) ? (a) : (b))''),
        define_macro ''min'' (Params [''a'', ''b''] ''((a) < (b) ? (a) : (b))'')] []]"

definition g_function_names :: "directive" where
  "g_function_names = block
    [if_dir (\<lambda>s. defined ''TARGET_OS_LINUX'' s)
       [define_macro ''NEED_EXPLICIT_SYNC_DIR'' (Number 1)] [],
     if_dir (\<lambda>s. \<not> defined ''__cplusplus'' s \<and> \<not> defined ''bool'' s)
       [define_macro ''bool'' (Tokens ''In_C_you_should_use_my_bool_instead()'')] [],
     if_dir (\<lambda>s. val ''__STDC_VERSION__'' s < 199901)
       [if_dir (\<lambda>s. val ''__GNUC__'' s \<ge> 2)
          [define_macro ''__func__'' (Tokens ''__FUNCTION__'')]
          [define_macro ''__func__'' (Tokens ''\"<unknown>\"'')]]
       [if_dir (\<lambda>s. defined ''_MSC_VER'' s)
       [if_dir (\<lambda>s. val ''_MSC_VER'' s < 1300)
          [define_macro ''__func__'' (Tokens ''\"<unknown>\"'')]
          [define_macro ''__func__'' (Tokens ''__FUNCTION__'')]]
       [if_dir (\<lambda>s. defined ''__BORLANDC__'' s)
       [define_macro ''__func__'' (Tokens ''__FUNC__'')]
       [define_macro ''__func__'' (Tokens ''\"<unknown>\"'')]]]]"

definition g_embedded :: "directive" where
  "g_embedded = block
    [if_dir (\<lambda>s. \<not> defined ''HAVE_RINT'' s)
       [define_macro ''MAX_EXACT_INTEGER'' (Tokens ''((1LL << DBL_MANT_DIG) - 1)'')] [],
     if_dir (\<lambda>s. \<not> defined ''MYSQL_PLUGIN_IMPORT'' s)
       [if_dir (\<lambda>s. defined ''_WIN32'' s \<and> defined ''MYSQL_DYNAMIC_PLUGIN'' s)
          [define_macro ''MYSQL_PLUGIN_IMPORT'' (Tokens ''__declspec(dllimport)'')]
          [define_macro ''MYSQL_PLUGIN_IMPORT'' (Tokens '''')]] [],
     if_dir (\<lambda>s. defined ''EMBEDDED_LIBRARY'' s)
       [undef_macro ''HAVE_OPENSSL'',
        undef_macro ''HAVE_SMEM''] []]"

definition my_global_h :: "(string \<Rightarrow> directive) \<Rightarrow> directive" where
  "my_global_h sys = if_dir (\<lambda>s. \<not> defined ''_global_h'' s)
    [g_windows_names, g_cygwin, g_modes, my_config_h, g_flags, g_win32 sys, g_aix, g_apple, g_features sys, g_posix sys, g_workarounds,
     g_headers sys, g_workarounds2 sys, g_init, g_dbug, g_system_types sys, g_file_flags, g_file_names, g_sizes, g_conversions, g_limits,
     g_pointer_types, g_types, g_sockets, g_constants sys, g_byte_order, g_machine_format, g_loading sys, g_function_names, g_embedded] []"

section \<open>What is relied on of the system\<close>

text \<open>Macros of the compiler, of the makefiles and of these headers; a header of the system neither defines nor undefines them.\<close>

definition project_macros :: "string list" where
  "project_macros = size_macros @ given_macros @ [''HAVE_SMEM'', ''HAVE_OPENSSL'', ''HAVE_REPLICATION'', ''HAVE_PSI_INTERFACE'', ''STACK_DIRECTION'',
     ''__CYGWIN__'', ''MY_CONFIG_H'']"

definition project_types :: "string list" where
  "project_types = [''int8'', ''uint8'', ''int16'', ''uint16'', ''int32'', ''uint32'', ''longlong'', ''ulonglong'', ''int64'', ''uint64'',
     ''intptr'', ''my_ptrdiff_t'', ''my_off_t'']"

definition system_headers_ok :: "(string \<Rightarrow> directive) \<Rightarrow> bool" where
  "system_headers_ok sys \<longleftrightarrow> (\<forall>h. total (sys h) \<and> (\<forall>m \<in> set project_macros. keeps_macro m (sys h)) \<and>
     (\<forall>n \<in> set project_types. keeps_type n (sys h)))"

lemma sys_rules:
  assumes "system_headers_ok sys"
  shows "total (sys h)" "m \<in> set project_macros \<Longrightarrow> keeps_macro m (sys h)" "n \<in> set project_types \<Longrightarrow> keeps_type n (sys h)"
  using assms by (auto simp: system_headers_ok_def)

text \<open>Sets of macros and types that a sequence keeps.\<close>

definition keeps_all :: "string set \<Rightarrow> directive \<Rightarrow> bool" where
  "keeps_all M p \<longleftrightarrow> (\<forall>m \<in> M. keeps_macro m p)"

lemma keeps_all_rules:
  "keeps_all M skip" "keeps_all M (error_directive msg)" "keeps_all M (typedef_base n t)" "keeps_all M (typedef_alias n n')"
  "m' \<notin> M \<Longrightarrow> keeps_all M (define_macro m' txt)" "m' \<notin> M \<Longrightarrow> keeps_all M (undef_macro m')"
  "list_all (keeps_all M) ps \<Longrightarrow> keeps_all M (block ps)"
  "list_all (keeps_all M) ps \<Longrightarrow> list_all (keeps_all M) qs \<Longrightarrow> keeps_all M (if_dir c ps qs)"
  by (auto simp: keeps_all_def keeps_rules list_all_iff intro!: keeps_rules)

lemma keeps_all_lines: "list_all (\<lambda>l. snd l = None \<or> fst l \<notin> M) ls \<Longrightarrow> keeps_all M (block (map config_line ls))"
  by (force simp: keeps_all_def list_all_iff intro!: keeps_config_lines)

lemma keeps_all_line: "snd l = None \<or> fst l \<notin> M \<Longrightarrow> keeps_all M (config_line l)"
  by (auto simp: keeps_all_def intro!: config_line_rules)

definition keeps_types :: "string set \<Rightarrow> directive \<Rightarrow> bool" where
  "keeps_types N p \<longleftrightarrow> (\<forall>n \<in> N. keeps_type n p)"

lemma keeps_types_rules:
  "keeps_types N skip" "keeps_types N (error_directive msg)" "keeps_types N (define_macro m txt)" "keeps_types N (undef_macro m)"
  "n' \<notin> N \<Longrightarrow> keeps_types N (typedef_base n' t)" "n' \<notin> N \<Longrightarrow> keeps_types N (typedef_alias n' n'')"
  "list_all (keeps_types N) ps \<Longrightarrow> keeps_types N (block ps)"
  "list_all (keeps_types N) ps \<Longrightarrow> list_all (keeps_types N) qs \<Longrightarrow> keeps_types N (if_dir c ps qs)"
  "keeps_types N (block (map config_line ls))" "keeps_types N (config_line l)"
  by (auto simp: keeps_types_def keeps_type_rules config_lines_rules config_line_rules list_all_iff intro!: keeps_type_rules)

lemma sys_keeps_types: "system_headers_ok sys \<Longrightarrow> N \<subseteq> set project_types \<Longrightarrow> keeps_types N (sys h)"
  by (auto simp: keeps_types_def sys_rules)

lemma sys_keeps_all: "system_headers_ok sys \<Longrightarrow> M \<subseteq> set project_macros \<Longrightarrow> keeps_all M (sys h)"
  by (auto simp: keeps_all_def sys_rules)

lemmas pm_defs = project_macros_def size_macros_def given_macros_def

lemmas frame_simps = keeps_all_rules keeps_all_line keeps_all_lines sys_keeps_all keeps_types_rules sys_keeps_types total_rules sys_rules(1) config_lines_rules
  config_line_rules

lemma own_headers_frame:
  assumes "system_headers_ok sys"
  shows "keeps_all (set project_macros) my_attribute_h" "keeps_all (set project_macros) my_compiler_h"
    "keeps_all (set project_macros) (dbug_on_macros sys)" "keeps_all (set project_macros) dbug_off_macros"
    "keeps_types (set project_types) my_attribute_h" "keeps_types (set project_types) my_compiler_h" "keeps_types (set project_types) my_config_h"
    "keeps_types (set project_types) (dbug_on_macros sys)" "keeps_types (set project_types) dbug_off_macros"
    "total my_attribute_h" "total my_compiler_h" "total (dbug_on_macros sys)" "total dbug_off_macros"
proof -
  show a: "keeps_all (set project_macros) my_attribute_h" "keeps_types (set project_types) my_attribute_h" "total my_attribute_h"
    by (simp_all add: my_attribute_h_def frame_simps pm_defs project_types_def)
  show "keeps_all (set project_macros) my_compiler_h" "keeps_types (set project_types) my_compiler_h" "total my_compiler_h"
    using a by (simp_all add: my_compiler_h_def frame_simps pm_defs project_types_def)
  show "keeps_all (set project_macros) (dbug_on_macros sys)" "keeps_types (set project_types) (dbug_on_macros sys)" "total (dbug_on_macros sys)"
    using assms by (simp_all add: dbug_on_macros_def dbug_on_table_def dbug_crash_table_def frame_simps pm_defs project_types_def)
  show "keeps_all (set project_macros) dbug_off_macros" "keeps_types (set project_types) dbug_off_macros" "total dbug_off_macros"
    by (simp_all add: dbug_off_macros_def dbug_off_table_def frame_simps pm_defs project_types_def)
  show "keeps_types (set project_types) my_config_h"
    by (simp add: my_config_h_def config_long_def config_late_def keeps_types_rules)
qed

lemma my_dbug_frame:
  assumes "system_headers_ok sys"
  shows "keeps_all (set project_macros) (my_dbug_h sys)" "keeps_types (set project_types) (my_dbug_h sys)" "total (my_dbug_h sys)"
  using own_headers_frame [OF assms] assms by (simp_all add: my_dbug_h_def frame_simps pm_defs project_types_def)

section \<open>Blocks\<close>

lemma g_windows_names_frame:
  "keeps_all (set project_macros - {''__WIN__''}) g_windows_names" "keeps_types (set project_types) g_windows_names" "total g_windows_names"
  by (simp_all add: g_windows_names_def frame_simps pm_defs project_types_def)

lemma g_cygwin_frame:
  "keeps_all (set project_macros - {''_WIN32'', ''__WIN__'', ''__i386__''}) g_cygwin" "keeps_types (set project_types) g_cygwin" "total g_cygwin"
  by (simp_all add: g_cygwin_def frame_simps pm_defs project_types_def)

lemma g_modes_frame:
  "keeps_all (set project_macros) g_modes" "keeps_types (set project_types) g_modes" "total g_modes"
  by (simp_all add: g_modes_def frame_simps pm_defs project_types_def)

lemma g_flags_frame:
  "keeps_all (set project_macros - {''HAVE_PSI_INTERFACE'', ''HAVE_REPLICATION''}) g_flags" "keeps_types (set project_types) g_flags" "total g_flags"
  by (simp_all add: g_flags_def frame_simps pm_defs project_types_def)

lemma g_win32_frame:
  assumes "system_headers_ok sys"
  shows "keeps_all (set project_macros - {''SIZEOF_OFF_T'', ''HAVE_SMEM''}) (g_win32 sys)" "keeps_types (set project_types) (g_win32 sys)" "total (g_win32 sys)"
  using assms by (simp_all add: g_win32_def frame_simps pm_defs project_types_def)

lemma g_aix_frame:
  "keeps_all (set project_macros) g_aix" "keeps_types (set project_types) g_aix" "total g_aix"
  by (simp_all add: g_aix_def frame_simps pm_defs project_types_def)

lemma g_apple_frame:
  "keeps_all (set project_macros - set size_macros) g_apple" "keeps_types (set project_types) g_apple"
  by (simp_all add: g_apple_def g_apple_sizes_def g_apple_architecture_def frame_simps pm_defs project_types_def)

lemma g_features_frame:
  assumes "system_headers_ok sys"
  shows "keeps_all (set project_macros) (g_features sys)" "keeps_types (set project_types) (g_features sys)" "total (g_features sys)"
  using assms by (simp_all add: g_features_def frame_simps pm_defs project_types_def)

lemma g_posix_frame:
  assumes "system_headers_ok sys"
  shows "keeps_all (set project_macros) (g_posix sys)" "keeps_types (set project_types) (g_posix sys)" "total (g_posix sys)"
  using assms by (simp_all add: g_posix_def frame_simps pm_defs project_types_def)

lemma g_workarounds_frame:
  "keeps_all (set project_macros) g_workarounds" "keeps_types (set project_types) g_workarounds"
  by (simp_all add: g_workarounds_def frame_simps pm_defs project_types_def)

lemma g_headers_frame:
  assumes "system_headers_ok sys"
  shows "keeps_all (set project_macros) (g_headers sys)" "keeps_types (set project_types) (g_headers sys)" "total (g_headers sys)"
  using assms by (simp_all add: g_headers_def frame_simps pm_defs project_types_def)

lemma g_workarounds2_frame:
  assumes "system_headers_ok sys"
  shows "keeps_all (set project_macros) (g_workarounds2 sys)" "keeps_types (set project_types) (g_workarounds2 sys)" "total (g_workarounds2 sys)"
  using assms by (simp_all add: g_workarounds2_def frame_simps pm_defs project_types_def)

lemma g_init_frame:
  assumes "system_headers_ok sys"
  shows "keeps_all (set project_macros) g_init" "keeps_types (set project_types) g_init" "total g_init"
  using assms own_headers_frame [OF assms] by (simp_all add: g_init_def frame_simps pm_defs project_types_def)

lemma g_dbug_frame:
  "keeps_all (set project_macros - {''DBUG_ON'', ''DBUG_OFF''}) g_dbug" "keeps_types (set project_types) g_dbug" "total g_dbug"
  by (simp_all add: g_dbug_def frame_simps pm_defs project_types_def)

lemma g_system_types_frame:
  assumes "system_headers_ok sys"
  shows "keeps_all (set project_macros) (g_system_types sys)" "keeps_types (set project_types) (g_system_types sys)" "total (g_system_types sys)"
  using assms by (simp_all add: g_system_types_def frame_simps pm_defs project_types_def)

lemma g_file_flags_frame:
  "keeps_all (set project_macros) g_file_flags" "keeps_types (set project_types) g_file_flags" "total g_file_flags"
  by (simp_all add: g_file_flags_def frame_simps pm_defs project_types_def)

lemma g_file_names_frame:
  "keeps_all (set project_macros) g_file_names" "keeps_types (set project_types) g_file_names" "total g_file_names"
  by (simp_all add: g_file_names_def frame_simps pm_defs project_types_def)

lemma g_sizes_frame:
  "keeps_all (set project_macros) g_sizes" "keeps_types (set project_types) g_sizes" "total g_sizes"
  by (simp_all add: g_sizes_def frame_simps pm_defs project_types_def)

lemma g_conversions_frame:
  "keeps_all (set project_macros) g_conversions" "keeps_types (set project_types) g_conversions"
  by (simp_all add: g_conversions_def frame_simps pm_defs project_types_def)

lemma g_limits_frame:
  "keeps_all (set project_macros) g_limits" "keeps_types (set project_types) g_limits" "total g_limits"
  by (simp_all add: g_limits_def frame_simps pm_defs project_types_def)

lemma g_pointer_types_frame:
  "keeps_all (set project_macros) g_pointer_types" "total g_pointer_types"
  by (simp_all add: g_pointer_types_def frame_simps pm_defs project_types_def)

lemma g_types_frame:
  "keeps_all (set project_macros) g_types"
  by (simp_all add: g_types_def frame_simps pm_defs project_types_def)

lemma g_sockets_frame:
  "keeps_all (set project_macros) g_sockets" "keeps_types (set project_types) g_sockets" "total g_sockets"
  by (simp_all add: g_sockets_def frame_simps pm_defs project_types_def)

lemma g_constants_frame:
  assumes "system_headers_ok sys"
  shows "keeps_all (set project_macros) (g_constants sys)" "keeps_types (set project_types) (g_constants sys)" "total (g_constants sys)"
  using assms my_dbug_frame [OF assms] by (simp_all add: g_constants_def frame_simps pm_defs project_types_def)

lemma g_byte_order_frame:
  "keeps_all (set project_macros) g_byte_order" "keeps_types (set project_types) g_byte_order" "total g_byte_order"
  by (simp_all add: g_byte_order_def g_byte_order_x86_def g_byte_order_portable_def frame_simps pm_defs project_types_def)

lemma g_machine_format_frame:
  "keeps_all (set project_macros) g_machine_format" "keeps_types (set project_types) g_machine_format" "total g_machine_format"
  by (simp_all add: g_machine_format_def frame_simps pm_defs project_types_def)

lemma g_loading_frame:
  assumes "system_headers_ok sys"
  shows "keeps_all (set project_macros) (g_loading sys)" "keeps_types (set project_types) (g_loading sys)" "total (g_loading sys)"
  using assms by (simp_all add: g_loading_def frame_simps pm_defs project_types_def)

lemma g_function_names_frame:
  "keeps_all (set project_macros) g_function_names" "keeps_types (set project_types) g_function_names" "total g_function_names"
  by (simp_all add: g_function_names_def frame_simps pm_defs project_types_def)

lemma g_embedded_frame:
  "keeps_all (set project_macros - {''HAVE_OPENSSL'', ''HAVE_SMEM''}) g_embedded" "keeps_types (set project_types) g_embedded" "total g_embedded"
  by (simp_all add: g_embedded_def frame_simps pm_defs project_types_def)

section \<open>The stages of the header\<close>

abbreviation before_dbug :: "(string \<Rightarrow> directive) \<Rightarrow> directive list" where
  "before_dbug sys \<equiv> [g_features sys, g_posix sys, g_workarounds, g_headers sys, g_workarounds2 sys, g_init]"

abbreviation before_types :: "(string \<Rightarrow> directive) \<Rightarrow> directive list" where
  "before_types sys \<equiv> [g_system_types sys, g_file_flags, g_file_names, g_sizes, g_conversions, g_limits]"

abbreviation after_types :: "(string \<Rightarrow> directive) \<Rightarrow> directive list" where
  "after_types sys \<equiv> [g_sockets, g_constants sys, g_byte_order, g_machine_format, g_loading sys, g_function_names]"

lemma my_global_stages:
  assumes "my_global_h sys s = Inr s'" "\<not> defined ''_global_h'' s"
  obtains a b m c w d x e f g h i j k where "g_windows_names s = Inr a" "g_cygwin a = Inr b" "g_modes b = Inr m" "my_config_h m = Inr c"
    "g_flags c = Inr w" "g_win32 sys w = Inr d" "g_aix d = Inr x" "g_apple x = Inr e" "block (before_dbug sys) e = Inr f" "g_dbug f = Inr g" "block (before_types sys) g = Inr h"
    "g_pointer_types h = Inr i" "g_types i = Inr j" "block (after_types sys) j = Inr k" "g_embedded k = Inr s'"
proof -
  have "my_global_h sys s = block ([g_windows_names, g_cygwin, g_modes, my_config_h, g_flags, g_win32 sys, g_aix, g_apple] @ before_dbug sys @ [g_dbug] @ before_types sys @
      [g_pointer_types, g_types] @ after_types sys @ [g_embedded]) s"
    using assms(2) by (simp add: my_global_h_def if_dir_def)
  with assms(1) show ?thesis
    by (auto simp only: block_Inr_append) (auto split: sum.splits intro!: that)
qed

lemma sequences_frame:
  assumes "system_headers_ok sys"
  shows "keeps_all (set project_macros) (block (before_dbug sys))" "keeps_types (set project_types) (block (before_dbug sys))"
    "keeps_all (set project_macros) (block (before_types sys))" "keeps_types (set project_types) (block (before_types sys))"
    "keeps_all (set project_macros) (block (after_types sys))" "keeps_types (set project_types) (block (after_types sys))"
    "total (block (after_types sys))"
  using assms g_features_frame g_posix_frame g_workarounds_frame g_headers_frame g_workarounds2_frame g_init_frame
    g_system_types_frame g_file_flags_frame g_file_names_frame g_sizes_frame g_conversions_frame g_limits_frame
    g_sockets_frame g_constants_frame g_byte_order_frame g_machine_format_frame g_loading_frame g_function_names_frame
  by (auto intro!: keeps_all_rules keeps_types_rules total_rules)

lemma keeps_allD: "keeps_all M p \<Longrightarrow> p s = Inr s' \<Longrightarrow> m \<in> M \<Longrightarrow> macros s' m = macros s m"
  by (auto simp: keeps_all_def dest: keepsD)

lemma keeps_typesD: "keeps_types N p \<Longrightarrow> p s = Inr s' \<Longrightarrow> n \<in> N \<Longrightarrow> types s' n = types s n"
  by (auto simp: keeps_types_def dest: keeps_typeD)

section \<open>Sizes\<close>

text \<open>After the part for Apple's systems the sizes are settled, and on Windows an offset has eight bytes.\<close>

definition sizes_final :: "pp \<Rightarrow> bool" where
  "sizes_final s \<longleftrightarrow> sizes_settled s \<and> (defined ''_WIN32'' s \<longrightarrow> macros s ''SIZEOF_OFF_T'' = Some (Number 8))"

lemma sizes_final_cong:
  "(\<And>m. m \<in> insert ''_WIN32'' (set size_macros) \<Longrightarrow> macros s' m = macros s m) \<Longrightarrow> sizes_final s' = sizes_final s"
  using sizes_settled_cong [of s' s] by (simp add: sizes_final_def defined_def size_macros_def)

lemma sizes_final_keeps:
  assumes "keeps_all M p" "insert ''_WIN32'' (set size_macros) \<subseteq> M" "p s = Inr s'" "sizes_final s"
  shows "sizes_final s'"
  using sizes_final_cong [of s' s] keeps_allD [OF assms(1,3)] assms(2,4) by blast

lemma win32_sizes:
  assumes "system_headers_ok sys" "g_win32 sys s = Inr s'" "sizes_settled s"
  shows "sizes_final s'"
proof -
  have sys: "\<And>h t t' m. sys h t = Inr t' \<Longrightarrow> m \<in> insert ''_WIN32'' (set size_macros) \<Longrightarrow> macros t' m = macros t m"
    using assms(1) by (auto simp: system_headers_ok_def pm_defs dest!: keepsD)
  have off: "defined ''_WIN32'' s \<Longrightarrow> macros s' ''SIZEOF_OFF_T'' = Some (Number 8)"
    using assms(2) by (auto simp: g_win32_def if_dir_def define_macro_def undef_macro_def sys size_macros_def split: sum.splits if_splits)
  have kept: "macros s' m = macros s m" if "m \<in> set project_macros - {''SIZEOF_OFF_T'', ''HAVE_SMEM''}" for m
    using keeps_allD [OF g_win32_frame(1) [OF assms(1)] assms(2) that] .
  have off': "macros s' ''SIZEOF_OFF_T'' = macros s ''SIZEOF_OFF_T''" if "\<not> defined ''_WIN32'' s"
    using assms(2) that by (simp add: g_win32_def if_dir_def)
  show ?thesis
    using assms(3) off off' kept [of "''_WIN32''"] kept [of "''SIZEOF_SHORT''"] kept [of "''SIZEOF_INT''"] kept [of "''SIZEOF_LONG''"]
      kept [of "''SIZEOF_CHARP''"] kept [of "''SIZEOF_LONG_LONG''"]
    by (cases "defined ''_WIN32'' s") (auto simp: sizes_final_def sizes_settled_def pm_defs defined_def)
qed

lemma apple_sizes_values:
  assumes "g_apple_sizes s = Inr t"
  shows "macros t ''SIZEOF_SHORT'' = Some (Number 2)" "macros t ''SIZEOF_INT'' = Some (Number 4)"
    "macros t ''SIZEOF_LONG_LONG'' = Some (Number 8)" "macros t ''SIZEOF_OFF_T'' = Some (Number 8)"
  using assms by (simp_all add: g_apple_sizes_def define_macro_def undef_macro_def flip: HOL.eq_commute [of t])

lemma apple_architecture_values:
  assumes "g_apple_architecture t = Inr s'"
  shows "\<exists>n. n \<in> {4, 8} \<and> macros s' ''SIZEOF_LONG'' = Some (Number n) \<and> macros s' ''SIZEOF_CHARP'' = Some (Number n)"
    and "m \<in> {''SIZEOF_SHORT'', ''SIZEOF_INT'', ''SIZEOF_LONG_LONG'', ''SIZEOF_OFF_T''} \<Longrightarrow> macros s' m = macros t m"
proof -
  from assms obtain u where u: "if_dir (\<lambda>s. defined ''__i386__'' s \<or> defined ''__ppc__'' s)
      [define_macro ''SIZEOF_CHARP'' (Number 4), define_macro ''SIZEOF_LONG'' (Number 4)]
      [if_dir (\<lambda>s. defined ''__x86_64__'' s \<or> defined ''__ppc64__'' s)
        [define_macro ''SIZEOF_CHARP'' (Number 8), define_macro ''SIZEOF_LONG'' (Number 8)]
        [error_directive ''Building FAT binary for an unknown architecture.'']] t = Inr u"
    and s': "if_dir (\<lambda>s. defined ''__ppc__'' s \<or> defined ''__ppc64__'' s) [define_macro ''WORDS_BIGENDIAN'' (Tokens '''')] [] u = Inr s'"
    unfolding g_apple_architecture_def block_Inr_Cons by auto
  have kept: "macros s' m = macros u m" if "m \<noteq> ''WORDS_BIGENDIAN''" for m
    using s' that unfolding if_dir_def by (auto simp: define_macro_def split: if_splits)
  consider "u = t\<lparr>macros := (macros t)(''SIZEOF_CHARP'' \<mapsto> Number 4, ''SIZEOF_LONG'' \<mapsto> Number 4)\<rparr>"
    | "u = t\<lparr>macros := (macros t)(''SIZEOF_CHARP'' \<mapsto> Number 8, ''SIZEOF_LONG'' \<mapsto> Number 8)\<rparr>"
    using u unfolding if_dir_def by (simp add: define_macro_def error_directive_def split: if_splits)
  note cases = this
  show "\<exists>n. n \<in> {4, 8} \<and> macros s' ''SIZEOF_LONG'' = Some (Number n) \<and> macros s' ''SIZEOF_CHARP'' = Some (Number n)"
    by (cases rule: cases) (simp_all add: kept)
  show "m \<in> {''SIZEOF_SHORT'', ''SIZEOF_INT'', ''SIZEOF_LONG_LONG'', ''SIZEOF_OFF_T''} \<Longrightarrow> macros s' m = macros t m"
    by (cases rule: cases) (auto simp: kept)
qed

lemma apple_sizes:
  assumes "g_apple s = Inr s'" "sizes_final s"
  shows "sizes_final s'"
proof (cases "defined ''__APPLE__'' s \<and> defined ''__MACH__'' s")
  case True
  with assms(1) obtain t where t: "g_apple_sizes s = Inr t" and s': "g_apple_architecture t = Inr s'"
    by (auto simp: g_apple_def if_dir_def split: sum.splits)
  show ?thesis using apple_sizes_values [OF t] apple_architecture_values [OF s'] by (auto simp: sizes_final_def sizes_settled_def)
next
  case False
  with assms(1) have "s' = s" unfolding g_apple_def if_dir_def by (simp split: if_splits)
  with assms(2) show ?thesis by simp
qed

end
