(* ===== verification/Build_Types.thy ===== *)
theory Build_Types
  imports Build_Global
begin

text \<open>
  The sizes of the types that \<^verbatim>\<open>my_global.h\<close> declares.  The header tests macros for the sizes, the compiler has sizes of its own, the record \<open>target\<close>.  \<open>type_promise\<close>
  says what a name promises of the type behind it on a target, \<open>promise_by_macros\<close> the same by the macros, and \<open>configured_for\<close> when the macros tell the truth of a target;
  \<open>types_fit\<close> is the invariant that every declared name keeps its promise, \<open>declaring\<close> the same while the header declares types.  The lemmas show that
  each stage of the header keeps them, and that the stages with tests of the sizes do not stop.
\<close>

section \<open>Types\<close>

text \<open>The size of a type in bytes, by the macros for it.\<close>

fun bytes_by_macros :: "pp \<Rightarrow> c_base \<Rightarrow> int" where
  "bytes_by_macros s T_char = 1"
| "bytes_by_macros s T_schar = 1"
| "bytes_by_macros s T_uchar = 1"
| "bytes_by_macros s T_short = val ''SIZEOF_SHORT'' s"
| "bytes_by_macros s T_ushort = val ''SIZEOF_SHORT'' s"
| "bytes_by_macros s T_int = val ''SIZEOF_INT'' s"
| "bytes_by_macros s T_uint = val ''SIZEOF_INT'' s"
| "bytes_by_macros s T_long = val ''SIZEOF_LONG'' s"
| "bytes_by_macros s T_ulong = val ''SIZEOF_LONG'' s"
| "bytes_by_macros s T_long_long = val ''SIZEOF_LONG_LONG'' s"
| "bytes_by_macros s T_ulong_long = val ''SIZEOF_LONG_LONG'' s"
| "bytes_by_macros s T_uint64 = 8"
| "bytes_by_macros s T_float = 4"
| "bytes_by_macros s T_double = 8"
| "bytes_by_macros s T_off_t = val ''SIZEOF_OFF_T'' s"
| "bytes_by_macros s (T_system n) = val (''SIZEOF_'' @ n) s"

definition language_type :: "c_base \<Rightarrow> bool" where
  "language_type t \<longleftrightarrow> (case t of T_system n \<Rightarrow> False | T_off_t \<Rightarrow> False | _ \<Rightarrow> True)"

definition unsigned_types :: "c_base list" where
  "unsigned_types = [T_uchar, T_ushort, T_uint, T_ulong, T_ulong_long, T_uint64]"

text \<open>What the names promise: a number of bits, room for a pointer, room for an offset in a file; and whether there is a sign.\<close>

definition promise_by_macros :: "string \<Rightarrow> pp \<Rightarrow> c_base \<Rightarrow> bool" where
  "promise_by_macros n s t \<longleftrightarrow> language_type t \<and>
     (if n \<in> {''int8'', ''uint8''} then bytes_by_macros s t = 1
      else if n \<in> {''int16'', ''uint16''} then bytes_by_macros s t = 2
      else if n \<in> {''int32'', ''uint32''} then bytes_by_macros s t = 4
      else if n \<in> {''int64'', ''uint64'', ''longlong'', ''ulonglong''} then bytes_by_macros s t = 8
      else if n \<in> {''intptr'', ''my_ptrdiff_t''} then bytes_by_macros s t = val ''SIZEOF_CHARP'' s
      else bytes_by_macros s t \<ge> val ''SIZEOF_OFF_T'' s) \<and>
     (t \<in> set unsigned_types \<longleftrightarrow> n \<in> {''uint8'', ''uint16'', ''uint32'', ''uint64'', ''ulonglong'', ''my_off_t''})"

section \<open>Compilers\<close>

text \<open>The sizes a compiler gives to its types, in bytes, whatever the macros say: of the integers of the language, of a pointer, of an offset in a
  file and of the types its headers declare.\<close>

record target =
  size_short :: int
  size_int :: int
  size_long :: int
  size_long_long :: int
  size_pointer :: int
  size_off_t :: int
  size_system :: "string \<Rightarrow> int"

fun bytes_of :: "target \<Rightarrow> c_base \<Rightarrow> int" where
  "bytes_of C T_char = 1"
| "bytes_of C T_schar = 1"
| "bytes_of C T_uchar = 1"
| "bytes_of C T_short = size_short C"
| "bytes_of C T_ushort = size_short C"
| "bytes_of C T_int = size_int C"
| "bytes_of C T_uint = size_int C"
| "bytes_of C T_long = size_long C"
| "bytes_of C T_ulong = size_long C"
| "bytes_of C T_long_long = size_long_long C"
| "bytes_of C T_ulong_long = size_long_long C"
| "bytes_of C T_uint64 = 8"
| "bytes_of C T_float = 4"
| "bytes_of C T_double = 8"
| "bytes_of C T_off_t = size_off_t C"
| "bytes_of C (T_system n) = size_system C n"

definition type_promise :: "target \<Rightarrow> string \<Rightarrow> c_base \<Rightarrow> bool" where
  "type_promise C n t \<longleftrightarrow> language_type t \<and>
     (if n \<in> {''int8'', ''uint8''} then bytes_of C t = 1
      else if n \<in> {''int16'', ''uint16''} then bytes_of C t = 2
      else if n \<in> {''int32'', ''uint32''} then bytes_of C t = 4
      else if n \<in> {''int64'', ''uint64'', ''longlong'', ''ulonglong''} then bytes_of C t = 8
      else if n \<in> {''intptr'', ''my_ptrdiff_t''} then bytes_of C t = size_pointer C
      else bytes_of C t \<ge> size_off_t C) \<and>
     (t \<in> set unsigned_types \<longleftrightarrow> n \<in> {''uint8'', ''uint16'', ''uint32'', ''uint64'', ''ulonglong'', ''my_off_t''})"

text \<open>The macros for the sizes are those of the compiler.  The preprocessor cannot test this, and the header does not: a configuration for one
  compiler goes through another one unnoticed.  For offsets it is enough that they are not larger than the macro says.\<close>

definition configured_for :: "target \<Rightarrow> pp \<Rightarrow> bool" where
  "configured_for C s \<longleftrightarrow> size_short C = val ''SIZEOF_SHORT'' s \<and> size_int C = val ''SIZEOF_INT'' s \<and>
     size_long C = val ''SIZEOF_LONG'' s \<and> size_long_long C = val ''SIZEOF_LONG_LONG'' s \<and>
     size_pointer C = val ''SIZEOF_CHARP'' s \<and> size_off_t C \<le> val ''SIZEOF_OFF_T'' s"

lemma bytes_configured: "configured_for C s \<Longrightarrow> language_type t \<Longrightarrow> bytes_of C t = bytes_by_macros s t"
  by (cases t) (simp_all add: configured_for_def language_type_def)

lemma promise_configured:
  assumes "promise_by_macros n s t" "configured_for C s"
  shows "type_promise C n t"
proof -
  have lang: "language_type t" using assms(1) by (simp add: promise_by_macros_def)
  have "size_pointer C = val ''SIZEOF_CHARP'' s" "size_off_t C \<le> val ''SIZEOF_OFF_T'' s"
    using assms(2) by (simp_all add: configured_for_def)
  then show ?thesis
    using assms(1) bytes_configured [OF assms(2) lang] unfolding promise_by_macros_def type_promise_def
    by (auto split: if_splits)
qed

section \<open>The invariant\<close>

definition types_fit :: "pp \<Rightarrow> bool" where
  "types_fit s \<longleftrightarrow> sizes_final s \<and> (\<forall>n t. n \<in> set project_types \<longrightarrow> types s n = Some t \<longrightarrow> promise_by_macros n s t)"

lemma val_simps:
  "macros s m = Some (Number k) \<Longrightarrow> val m s = k"
  "macros s m = Some (Tokens m') \<Longrightarrow> macros s m' = Some (Number k) \<Longrightarrow> val m s = k"
  by (simp_all add: val_def eval_nat_numeral)

lemma sizes_final_values:
  assumes "sizes_final s"
  shows "val ''SIZEOF_SHORT'' s = 2" "val ''SIZEOF_INT'' s = 4" "val ''SIZEOF_LONG_LONG'' s = 8"
    "val ''SIZEOF_LONG'' s = 4 \<or> val ''SIZEOF_LONG'' s = 8" "val ''SIZEOF_CHARP'' s = val ''SIZEOF_LONG'' s"
    "val ''SIZEOF_OFF_T'' s = 4 \<or> val ''SIZEOF_OFF_T'' s = 8" "defined ''_WIN32'' s \<Longrightarrow> val ''SIZEOF_OFF_T'' s = 8"
proof -
  note f = assms [unfolded sizes_final_def sizes_settled_def]
  show "val ''SIZEOF_SHORT'' s = 2" "val ''SIZEOF_INT'' s = 4" "val ''SIZEOF_LONG_LONG'' s = 8"
    "defined ''_WIN32'' s \<Longrightarrow> val ''SIZEOF_OFF_T'' s = 8"
    using f by (simp_all add: val_simps(1))
  show "val ''SIZEOF_OFF_T'' s = 4 \<or> val ''SIZEOF_OFF_T'' s = 8" using f val_simps(1) by blast
  from f obtain n where n: "n \<in> {4, 8}" "macros s ''SIZEOF_LONG'' = Some (Number n)"
    "macros s ''SIZEOF_CHARP'' = Some (Number n) \<or> macros s ''SIZEOF_CHARP'' = Some (Tokens ''SIZEOF_LONG'')" by blast
  then have "val ''SIZEOF_LONG'' s = n" "val ''SIZEOF_CHARP'' s = n" using val_simps by blast+
  with n(1) show "val ''SIZEOF_LONG'' s = 4 \<or> val ''SIZEOF_LONG'' s = 8" "val ''SIZEOF_CHARP'' s = val ''SIZEOF_LONG'' s" by auto
qed

text \<open>A declaration keeps all promises if it keeps its own; the macros do not change with it.\<close>

lemma types_fit_typedef:
  assumes "types_fit s" "\<And>t. x = Some t \<Longrightarrow> n \<in> set project_types \<Longrightarrow> promise_by_macros n s t"
  shows "types_fit (s\<lparr>types := (types s)(n := x)\<rparr>)"
proof -
  have v: "val m (s\<lparr>types := T\<rparr>) = val m s" for m T
  proof -
    have "expand k m (s\<lparr>types := T\<rparr>) = expand k m s" for k m
      by (induction k arbitrary: m) (auto split: option.split macro_text.split intro!: arg_cong [where f = sum_list])
    then show ?thesis by (simp add: val_def)
  qed
  have b: "bytes_by_macros (s\<lparr>types := T\<rparr>) t = bytes_by_macros s t" for t T by (cases t) (simp_all add: v)
  have "sizes_final (s\<lparr>types := T\<rparr>)" for T
    using assms(1) sizes_final_cong [of "s\<lparr>types := T\<rparr>" s] by (simp add: types_fit_def)
  moreover have "promise_by_macros n' (s\<lparr>types := T\<rparr>) t' = promise_by_macros n' s t'" for n' t' T unfolding promise_by_macros_def v b ..
  ultimately show ?thesis using assms by (auto simp: types_fit_def)
qed

lemma types_fit_keeps:
  assumes "keeps_all M p" "insert ''_WIN32'' (set size_macros) \<subseteq> M" "keeps_types (set project_types) p" "p s = Inr s'" "types_fit s"
  shows "types_fit s'"
proof -
  have m: "macros s' m = macros s m" if "m \<in> insert ''_WIN32'' (set size_macros)" for m
    using keeps_allD [OF assms(1,4)] assms(2) that by blast
  have fs: "sizes_final s" using assms(5) by (simp add: types_fit_def)
  have f: "sizes_final s'" using fs sizes_final_cong [of s' s, OF m] by simp
  note v = sizes_final_values [OF f] sizes_final_values [OF fs]
  obtain k l where "macros s ''SIZEOF_LONG'' = Some (Number k)" "macros s ''SIZEOF_OFF_T'' = Some (Number l)"
    using fs unfolding sizes_final_def sizes_settled_def by blast
  then have "val ''SIZEOF_LONG'' s' = val ''SIZEOF_LONG'' s" "val ''SIZEOF_OFF_T'' s' = val ''SIZEOF_OFF_T'' s"
    using m [of "''SIZEOF_LONG''"] m [of "''SIZEOF_OFF_T''"] by (simp_all add: size_macros_def val_simps(1))
  then have "\<forall>m \<in> set size_macros. val m s' = val m s" using v by (simp add: size_macros_def)
  then have b: "language_type t \<Longrightarrow> bytes_by_macros s' t = bytes_by_macros s t" and c: "val ''SIZEOF_CHARP'' s' = val ''SIZEOF_CHARP'' s"
    "val ''SIZEOF_OFF_T'' s' = val ''SIZEOF_OFF_T'' s" for t
    by (cases t; simp add: size_macros_def language_type_def)+
  have "promise_by_macros n s' t = promise_by_macros n s t" for n t
    unfolding promise_by_macros_def c by (cases "language_type t") (simp_all only: b simp_thms)
  then show ?thesis using assms(5) f keeps_typesD [OF assms(3,4)] by (auto simp: types_fit_def)
qed

text \<open>Properties of the state that directives preserve.\<close>

interpretation prv: frame_relation "\<lambda>s s'. P s \<longrightarrow> P s'" for P
  by unfold_locales auto

definition preserves :: "(pp \<Rightarrow> bool) \<Rightarrow> directive \<Rightarrow> bool" where
  "preserves P p \<longleftrightarrow> prv.frame P p"

lemma preservesI: "(\<And>s s'. P s \<Longrightarrow> p s = Inr s' \<Longrightarrow> P s') \<Longrightarrow> preserves P p"
  unfolding preserves_def prv.frame_def by blast

lemma preservesD: "preserves P p \<Longrightarrow> p s = Inr s' \<Longrightarrow> P s \<Longrightarrow> P s'"
  unfolding preserves_def prv.frame_def by blast

lemma preserves_block: "list_all (preserves P) ps \<Longrightarrow> preserves P (block ps)"
  using prv.frame_block [of P ps] by (simp add: preserves_def list_all_iff)

lemma preserves_if:
  assumes "\<And>s s'. P s \<Longrightarrow> c s \<Longrightarrow> block ps s = Inr s' \<Longrightarrow> P s'" "\<And>s s'. P s \<Longrightarrow> \<not> c s \<Longrightarrow> block qs s = Inr s' \<Longrightarrow> P s'"
  shows "preserves P (if_dir c ps qs)"
proof (rule preservesI)
  fix s s' assume "P s" "if_dir c ps qs s = Inr s'"
  then show "P s'" using assms(1) [of s s'] assms(2) [of s s'] by (cases "c s") (simp_all add: if_dir_def)
qed

text \<open>What holds while the types are declared.\<close>

definition declaring :: "pp \<Rightarrow> bool" where
  "declaring s \<longleftrightarrow> types_fit s \<and> defined ''HAVE_LONG_LONG'' s"

lemma declaring_values:
  assumes "declaring s"
  shows "val ''SIZEOF_SHORT'' s = 2" "val ''SIZEOF_INT'' s = 4" "val ''SIZEOF_LONG_LONG'' s = 8"
    "val ''SIZEOF_LONG'' s \<noteq> 4 \<Longrightarrow> val ''SIZEOF_LONG'' s = 8" "val ''SIZEOF_CHARP'' s = val ''SIZEOF_LONG'' s"
    "val ''SIZEOF_OFF_T'' s \<noteq> 4 \<Longrightarrow> val ''SIZEOF_OFF_T'' s = 8" "defined ''_WIN32'' s \<Longrightarrow> val ''SIZEOF_OFF_T'' s = 8"
    "defined ''HAVE_LONG_LONG'' s" "4 \<le> val ''SIZEOF_LONG'' s" "val ''SIZEOF_OFF_T'' s \<le> 8"
proof -
  have "sizes_final s" using assms by (simp add: declaring_def types_fit_def)
  note v = sizes_final_values [OF this]
  show "val ''SIZEOF_SHORT'' s = 2" "val ''SIZEOF_INT'' s = 4" "val ''SIZEOF_LONG_LONG'' s = 8"
    "val ''SIZEOF_LONG'' s \<noteq> 4 \<Longrightarrow> val ''SIZEOF_LONG'' s = 8" "val ''SIZEOF_CHARP'' s = val ''SIZEOF_LONG'' s"
    "val ''SIZEOF_OFF_T'' s \<noteq> 4 \<Longrightarrow> val ''SIZEOF_OFF_T'' s = 8" "defined ''_WIN32'' s \<Longrightarrow> val ''SIZEOF_OFF_T'' s = 8"
    "4 \<le> val ''SIZEOF_LONG'' s" "val ''SIZEOF_OFF_T'' s \<le> 8"
    using v(1-6) v(7) by (simp_all, linarith+)
  show "defined ''HAVE_LONG_LONG'' s" using assms by (simp add: declaring_def)
qed

lemma declaring_typedef:
  assumes "declaring s" "\<And>t. x = Some t \<Longrightarrow> n \<in> set project_types \<Longrightarrow> promise_by_macros n s t"
  shows "declaring (s\<lparr>types := (types s)(n := x)\<rparr>)"
  using assms types_fit_typedef [of s x n] by (simp add: declaring_def defined_def)

lemma declaring_base:
  assumes "\<And>s. declaring s \<Longrightarrow> n \<in> set project_types \<Longrightarrow> promise_by_macros n s t"
  shows "preserves declaring (typedef_base n t)"
  by (rule preservesI) (auto simp: typedef_base_def intro: declaring_typedef assms)

lemma declaring_alias:
  assumes "\<And>s t. declaring s \<Longrightarrow> types s n' = Some t \<Longrightarrow> n \<in> set project_types \<Longrightarrow> promise_by_macros n s t"
  shows "preserves declaring (typedef_alias n n')"
  by (rule preservesI) (auto simp: typedef_alias_def intro: declaring_typedef assms)

lemma watched: "insert ''_WIN32'' (set size_macros) \<subseteq> set project_macros"
  by (auto simp: project_macros_def given_macros_def)

lemma declaring_keeps:
  assumes "keeps_all (set project_macros) p" "keeps_types (set project_types) p" "keeps_defined ''HAVE_LONG_LONG'' p"
  shows "preserves declaring p"
  by (rule preservesI)
    (auto simp: declaring_def intro: types_fit_keeps [OF assms(1) watched assms(2)] keeps_definedD [OF assms(3)])

lemma declaring_macro:
  assumes "m \<notin> insert ''HAVE_LONG_LONG'' (set project_macros)"
  shows "preserves declaring (define_macro m t)" "preserves declaring (undef_macro m)"
  using assms by (auto intro!: declaring_keeps keeps_all_rules keeps_types_rules keeps_defined_rules)

lemma preserves_error: "preserves P (error_directive msg)" "preserves P skip"
  by (auto simp: error_directive_def skip_def intro: preservesI)

lemmas promise_defs = promise_by_macros_def language_type_def unsigned_types_def

lemma pointer_types_declare: "preserves declaring g_pointer_types"
proof -
  have "declaring s'" if "declaring s" "val ''SIZEOF_CHARP'' s = 4" "block [typedef_base ''my_ptrdiff_t'' T_long] s = Inr s'" for s s'
    using that declaring_typedef [OF that(1), of "Some T_long" "''my_ptrdiff_t''"] declaring_values [OF that(1)]
    by (simp add: typedef_base_def promise_defs)
  moreover have "declaring s'" if "declaring s" "val ''SIZEOF_CHARP'' s \<noteq> 4" "block [typedef_base ''my_ptrdiff_t'' T_long_long] s = Inr s'" for s s'
    using that declaring_typedef [OF that(1), of "Some T_long_long" "''my_ptrdiff_t''"] declaring_values [OF that(1)]
    by (simp add: typedef_base_def promise_defs)
  ultimately have "preserves declaring (if_dir (\<lambda>s. val ''SIZEOF_CHARP'' s = 4) [typedef_base ''my_ptrdiff_t'' T_long]
      [typedef_base ''my_ptrdiff_t'' T_long_long])" by (rule preserves_if)
  then show ?thesis unfolding g_pointer_types_def
    by (intro preserves_block) (simp add: declaring_macro pm_defs preserves_block declaring_keeps keeps_all_rules keeps_types_rules keeps_defined_rules)
qed

lemma preserves_branches: "list_all (preserves P) ps \<Longrightarrow> list_all (preserves P) qs \<Longrightarrow> preserves P (if_dir c ps qs)"
  by (rule preserves_if) (auto dest: preservesD [OF preserves_block])

lemma preserves_then:
  assumes "list_all (preserves P) ps" "\<And>s s'. P s \<Longrightarrow> \<not> c s \<Longrightarrow> block qs s = Inr s' \<Longrightarrow> P s'"
  shows "preserves P (if_dir c ps qs)"
proof (rule preserves_if)
  fix s s' assume "P s" "block ps s = Inr s'"
  then show "P s'" using preservesD [OF preserves_block [OF assms(1)], of s s'] by blast
qed (rule assms(2))

text \<open>Each declaration keeps its promise, some only under the condition it stands in.\<close>

lemma declare_fixed:
  "preserves declaring (typedef_base ''int8'' T_schar)" "preserves declaring (typedef_base ''uint8'' T_uchar)"
  "preserves declaring (typedef_base ''int16'' T_short)" "preserves declaring (typedef_base ''uint16'' T_ushort)"
  "preserves declaring (typedef_base ''int32'' T_int)" "preserves declaring (typedef_base ''uint32'' T_uint)"
  "preserves declaring (typedef_base ''longlong'' T_long_long)" "preserves declaring (typedef_base ''ulonglong'' T_ulong_long)"
  "preserves declaring (typedef_base ''my_off_t'' T_ulong_long)"
  by (rule declaring_base, simp add: promise_defs declaring_values(1,2,3,10))+

lemma declare_others:
  "preserves declaring (typedef_base ''uchar'' t)" "preserves declaring (typedef_base ''ulong'' t)"
  "preserves declaring (typedef_base ''my_ulonglong'' t)" "preserves declaring (typedef_base ''os_off_t'' t)"
  by (rule declaring_base, simp add: project_types_def)+

lemma declare_aliases:
  "preserves declaring (typedef_alias ''int64'' ''longlong'')" "preserves declaring (typedef_alias ''uint64'' ''ulonglong'')"
  "preserves declaring (typedef_alias ''my_off_t'' ''ulonglong'')"
  "preserves declaring (typedef_alias ''table_map'' n)" "preserves declaring (typedef_alias ''nesting_map'' n)"
proof -
  have p: "promise_by_macros n s t" if "declaring s" "types s n = Some t" "n \<in> {''longlong'', ''ulonglong''}" for n s t
  proof -
    have "n \<in> set project_types" using that(3) by (auto simp: project_types_def)
    then show ?thesis using that(1,2) unfolding declaring_def types_fit_def by blast
  qed
  show "preserves declaring (typedef_alias ''int64'' ''longlong'')"
    by (rule declaring_alias) (use p in \<open>fastforce simp: promise_by_macros_def\<close>)
  show "preserves declaring (typedef_alias ''uint64'' ''ulonglong'')"
    by (rule declaring_alias) (use p in \<open>fastforce simp: promise_by_macros_def\<close>)
  show "preserves declaring (typedef_alias ''my_off_t'' ''ulonglong'')"
  proof (rule declaring_alias)
    fix s t assume "declaring s" "types s ''ulonglong'' = Some t"
    with p [of s "''ulonglong''" t] declaring_values(10) [of s] show "promise_by_macros ''my_off_t'' s t"
      by (simp add: promise_by_macros_def)
  qed
qed (rule declaring_alias, simp add: project_types_def)+

lemma declare_int32:
  "preserves declaring (if_dir (\<lambda>s. val ''SIZEOF_INT'' s = 4)
     [if_dir (\<lambda>s. \<not> defined ''HAVE_INT32'' s) [typedef_base ''int32'' T_int] [],
      if_dir (\<lambda>s. \<not> defined ''HAVE_UINT32'' s) [typedef_base ''uint32'' T_uint] []] qs)"
  by (rule preserves_then) (simp_all add: preserves_branches declare_fixed declaring_values(2))

lemma declare_longlong:
  "preserves declaring (if_dir (\<lambda>s. defined ''HAVE_LONG_LONG'' s \<and> val ''SIZEOF_LONG_LONG'' s = 8)
     [typedef_base ''ulonglong'' T_ulong_long, typedef_base ''longlong'' T_long_long] qs)"
  by (rule preserves_then) (simp_all add: declare_fixed declaring_values(3,8))

lemma declare_intptr:
  "preserves declaring (if_dir (\<lambda>s. val ''SIZEOF_CHARP'' s = val ''SIZEOF_INT'' s) [typedef_base ''intptr'' T_int]
     [if_dir (\<lambda>s. val ''SIZEOF_CHARP'' s = val ''SIZEOF_LONG'' s) [typedef_base ''intptr'' T_long] qs])"
proof (rule preserves_if)
  fix s s' assume s: "declaring s" "val ''SIZEOF_CHARP'' s = val ''SIZEOF_INT'' s" "block [typedef_base ''intptr'' T_int] s = Inr s'"
  then show "declaring s'"
    using declaring_typedef [OF s(1), of "Some T_int" "''intptr''"] by (simp add: typedef_base_def promise_defs)
next
  fix s s' assume s: "declaring s"
    "block [if_dir (\<lambda>s. val ''SIZEOF_CHARP'' s = val ''SIZEOF_LONG'' s) [typedef_base ''intptr'' T_long] qs] s = Inr s'"
  then have "s' = s\<lparr>types := (types s)(''intptr'' \<mapsto> T_long)\<rparr>"
    by (simp add: block_one if_dir_def declaring_values(5) typedef_base_def del: block.simps(2))
  then show "declaring s'"
    using declaring_typedef [OF s(1), of "Some T_long" "''intptr''"] declaring_values(5) [OF s(1)] by (simp add: promise_defs)
qed

lemma declare_off_t:
  "preserves declaring (if_dir (\<lambda>s. val ''SIZEOF_OFF_T'' s > 4) [typedef_alias ''my_off_t'' ''ulonglong''] [typedef_base ''my_off_t'' T_ulong])"
proof (rule preserves_then)
  fix s s' assume s: "declaring s" "\<not> val ''SIZEOF_OFF_T'' s > 4" "block [typedef_base ''my_off_t'' T_ulong] s = Inr s'"
  then show "declaring s'"
    using declaring_typedef [OF s(1), of "Some T_ulong" "''my_off_t''"] declaring_values(9) [OF s(1)]
    by (simp add: typedef_base_def promise_defs)
qed (simp add: declare_aliases)

lemma types_declare: "preserves declaring g_types"
  unfolding g_types_def
  by (rule preserves_block)
    (simp add: preserves_branches declare_fixed declare_others declare_aliases declare_int32 declare_longlong declare_intptr declare_off_t declaring_macro pm_defs)

section \<open>Directives that cannot stop\<close>

definition safe :: "(pp \<Rightarrow> bool) \<Rightarrow> directive \<Rightarrow> bool" where
  "safe P p \<longleftrightarrow> (\<forall>s. P s \<longrightarrow> (\<exists>s'. p s = Inr s' \<and> P s'))"

lemma safeI: "preserves P p \<Longrightarrow> (\<And>s. P s \<Longrightarrow> \<exists>s'. p s = Inr s') \<Longrightarrow> safe P p"
  unfolding safe_def using preservesD by blast

lemma safe_total: "preserves P p \<Longrightarrow> total p \<Longrightarrow> safe P p"
  by (rule safeI) (simp_all add: total_def)

lemma safe_block: "list_all (safe P) ps \<Longrightarrow> safe P (block ps)"
proof (induction ps)
  case (Cons p ps)
  then have "safe P p" "safe P (block ps)" by simp_all
  then show ?case unfolding safe_def block_Inr_Cons by blast
qed (simp add: safe_def)

lemma types_safe: "safe declaring g_types"
proof -
  let ?int32 = "if_dir (\<lambda>s. val ''SIZEOF_INT'' s = 4)
       [if_dir (\<lambda>s. \<not> defined ''HAVE_INT32'' s)
          [typedef_base ''int32'' T_int] [],
        if_dir (\<lambda>s. \<not> defined ''HAVE_UINT32'' s)
          [typedef_base ''uint32'' T_uint] []]"
  let ?intptr = "\<lambda>qs. if_dir (\<lambda>s. val ''SIZEOF_CHARP'' s = val ''SIZEOF_INT'' s) [typedef_base ''intptr'' T_int]
     [if_dir (\<lambda>s. val ''SIZEOF_CHARP'' s = val ''SIZEOF_LONG'' s) [typedef_base ''intptr'' T_long] qs]"
  have "safe declaring (?int32 qs)" for qs
    by (rule safeI [OF declare_int32]) (simp add: if_dir_def declaring_values(2) typedef_base_def)
  moreover have "safe declaring (?intptr qs)" for qs
    by (rule safeI [OF declare_intptr]) (simp add: if_dir_def declaring_values(5) typedef_base_def)
  ultimately show ?thesis unfolding g_types_def
    by (intro safe_block) (simp add: safe_total total_rules preserves_branches declare_fixed declare_others declare_aliases
        declare_longlong declare_off_t declaring_macro pm_defs)
qed

text \<open>A sequence with one test that may stop it.\<close>

lemma guarded_block:
  assumes "list_all total ps" "list_all total qs" "\<And>s'. block ps s = Inr s' \<Longrightarrow> c s' = c s"
  shows "block (ps @ if_dir c [error_directive msg] [] # qs) s = Inl e \<longleftrightarrow> c s \<and> e = msg"
proof -
  obtain s' where s': "block ps s = Inr s'" using assms(1) by (auto intro: totalE [OF total_rules(6)])
  obtain s'' where "block qs s' = Inr s''" using assms(2) by (auto intro: totalE [OF total_rules(6)])
  with s' assms(3) show ?thesis by (auto simp: block_append if_dir_def error_directive_def)
qed

end
