(* ===== verification/Build_Results.thy ===== *)
theory Build_Results
  imports Build_Types
begin

text \<open>
  What the whole of \<^verbatim>\<open>my_global.h\<close> gives: the sizes of its types, the flags it settles, and the conditions under which it stops.  The stages of the header
  are taken one after the other; what an earlier stage establishes is carried to the end by what the later ones keep.
\<close>

section \<open>From the start to the sizes\<close>

lemma given_project: "set given_macros \<subseteq> set project_macros" "set given_macros \<inter> set size_macros = {}"
    "set given_macros \<inter> {''HAVE_SMEM'', ''HAVE_OPENSSL'', ''HAVE_REPLICATION'', ''HAVE_PSI_INTERFACE''} = {}"
  by (auto simp: project_macros_def given_macros_def size_macros_def)

lemma early_stages:
  assumes sys: "system_headers_ok sys" and s: "\<not> defined ''MY_CONFIG_H'' s"
    and st: "g_windows_names s = Inr a" "g_cygwin a = Inr b" "g_modes b = Inr m" "my_config_h m = Inr c" "g_flags c = Inr w"
      "g_win32 sys w = Inr d" "g_aix d = Inr x"
  shows "sizes_final x" "defined ''STACK_DIRECTION'' x" "k \<in> set given_macros \<Longrightarrow> macros x k = macros b k"
    "n \<in> set project_types \<Longrightarrow> types x n = types s n" "defined ''WITH_PERFSCHEMA_STORAGE_ENGINE'' c"
proof -
  have kb: "k \<in> set project_macros - {''_WIN32'', ''__WIN__'', ''__i386__''} \<Longrightarrow> macros b k = macros s k" for k
    using keeps_allD [OF g_windows_names_frame(1) st(1), of k] keeps_allD [OF g_cygwin_frame(1) st(2), of k] by simp
  have km: "k \<in> set project_macros \<Longrightarrow> macros m k = macros b k" for k using keeps_allD [OF g_modes_frame(1) st(3)] .
  have kw: "k \<in> set project_macros - {''HAVE_PSI_INTERFACE'', ''HAVE_REPLICATION''} \<Longrightarrow> macros w k = macros c k" for k
    using keeps_allD [OF g_flags_frame(1) st(5)] .
  have kd: "k \<in> set project_macros - {''SIZEOF_OFF_T'', ''HAVE_SMEM''} \<Longrightarrow> macros d k = macros w k" for k
    using keeps_allD [OF g_win32_frame(1) [OF sys] st(6)] .
  have kx: "k \<in> set project_macros \<Longrightarrow> macros x k = macros d k" for k using keeps_allD [OF g_aix_frame(1) st(7)] .
  have cfg: "\<not> defined ''MY_CONFIG_H'' m"
    using s km [of "''MY_CONFIG_H''"] kb [of "''MY_CONFIG_H''"] by (simp add: defined_def project_macros_def)
  have pm: "set size_macros \<subseteq> set project_macros - {''HAVE_PSI_INTERFACE'', ''HAVE_REPLICATION''}" by (auto simp: project_macros_def size_macros_def)
  have "sizes_settled w"
    using config_sizes [OF st(4) cfg] sizes_settled_cong [of w c] kw pm by blast
  from win32_sizes [OF sys st(6) this] have "sizes_final d" .
  then show "sizes_final x" using sizes_final_cong [of x d] kx watched by blast
  show "defined ''STACK_DIRECTION'' x"
    using config_defines(1) [OF st(4) cfg] kx [of "''STACK_DIRECTION''"] kd [of "''STACK_DIRECTION''"] kw [of "''STACK_DIRECTION''"]
    by (simp add: defined_def project_macros_def)
  show "defined ''WITH_PERFSCHEMA_STORAGE_ENGINE'' c" by (rule config_defines(2) [OF st(4) cfg])
  show "macros x k = macros b k" if k: "k \<in> set given_macros"
  proof -
    have p: "k \<in> set project_macros" "k \<notin> {''HAVE_PSI_INTERFACE'', ''HAVE_REPLICATION''}" "k \<notin> {''SIZEOF_OFF_T'', ''HAVE_SMEM''}"
      using k by (auto simp: project_macros_def given_macros_def)
    then show ?thesis using kx [of k] kd [of k] kw [of k] km [of k] keepsD [OF config_keeps_given [OF k] st(4)] by simp
  qed
  show "types x n = types s n" if n: "n \<in> set project_types"
    using keeps_typesD [OF g_windows_names_frame(2) st(1) n] keeps_typesD [OF g_cygwin_frame(2) st(2) n] keeps_typesD [OF g_modes_frame(2) st(3) n]
      keeps_typesD [OF own_headers_frame(7) [OF sys] st(4) n] keeps_typesD [OF g_flags_frame(2) st(5) n]
      keeps_typesD [OF g_win32_frame(2) [OF sys] st(6) n] keeps_typesD [OF g_aix_frame(2) st(7) n] by simp
qed

lemma head_defines:
  assumes "block (p # ps) s = Inr s'" "list_all (keeps_defined m) ps" "\<And>t. p s = Inr t \<Longrightarrow> defined m t"
  shows "defined m s'"
  using assms keeps_definedD [OF keeps_defined_rules(7) [OF assms(2)]] by (auto simp: block_Inr_Cons simp del: block.simps(2))

lemma limits_longlong:
  assumes "g_limits s = Inr s'" "val ''SIZEOF_LONG_LONG'' s > 4"
  shows "defined ''HAVE_LONG_LONG'' s'"
  by (rule head_defines [OF assms(1) [unfolded g_limits_def]])
    (use assms(2) in \<open>auto simp: keeps_defined_rules if_dir_def define_macro_def defined_def\<close>)

text \<open>The types, from the sizes on.\<close>

lemma typing_stages:
  assumes sys: "system_headers_ok sys" and x: "sizes_final x" "\<And>n. n \<in> set project_types \<Longrightarrow> types x n = None"
    and st: "g_apple x = Inr e" "block (before_dbug sys) e = Inr f" "g_dbug f = Inr g" "block (before_types sys) g = Inr h"
      "g_pointer_types h = Inr i"
  shows "declaring i"
proof -
  have "types_fit e"
    using apple_sizes [OF st(1) x(1)] x(2) keeps_typesD [OF g_apple_frame(2) st(1)] by (simp add: types_fit_def)
  then have "types_fit f" by (rule types_fit_keeps [OF sequences_frame(1) [OF sys] watched sequences_frame(2) [OF sys] st(2)])
  moreover have "insert ''_WIN32'' (set size_macros) \<subseteq> set project_macros - {''DBUG_ON'', ''DBUG_OFF''}"
    using watched by (auto simp: size_macros_def)
  ultimately have g: "types_fit g" using types_fit_keeps [OF g_dbug_frame(1) _ g_dbug_frame(2) st(3)] by blast
  have h: "types_fit h" by (rule types_fit_keeps [OF sequences_frame(3) [OF sys] watched sequences_frame(4) [OF sys] st(4) g])
  obtain t where t: "g_limits t = Inr h" and gt: "block [g_system_types sys, g_file_flags, g_file_names, g_sizes, g_conversions] g = Inr t"
    using st(4) by (auto split: sum.splits)
  have k: "keeps_all (set project_macros) (block [g_system_types sys, g_file_flags, g_file_names, g_sizes, g_conversions])"
      "keeps_types (set project_types) (block [g_system_types sys, g_file_flags, g_file_names, g_sizes, g_conversions])"
    using g_system_types_frame [OF sys] g_file_flags_frame g_file_names_frame g_sizes_frame g_conversions_frame
    by (auto intro!: keeps_all_rules keeps_types_rules)
  have "types_fit t" by (rule types_fit_keeps [OF k(1) watched k(2) gt g])
  then have "val ''SIZEOF_LONG_LONG'' t > 4" using sizes_final_values(3) [of t] by (simp add: types_fit_def)
  with h limits_longlong [OF t] have "declaring h" by (simp add: declaring_def)
  then show ?thesis by (rule preservesD [OF pointer_types_declare st(5)])
qed

lemma late_types_fit:
  assumes "system_headers_ok sys" "g_types i = Inr j" "block (after_types sys) j = Inr k" "g_embedded k = Inr s'" "declaring i"
  shows "types_fit s'"
proof -
  have "types_fit j" using preservesD [OF types_declare assms(2,5)] by (simp add: declaring_def)
  then have "types_fit k" by (rule types_fit_keeps [OF sequences_frame(5) [OF assms(1)] watched sequences_frame(6) [OF assms(1)] assms(3)])
  moreover have "insert ''_WIN32'' (set size_macros) \<subseteq> set project_macros - {''HAVE_OPENSSL'', ''HAVE_SMEM''}"
    using watched by (auto simp: size_macros_def)
  ultimately show ?thesis using types_fit_keeps [OF g_embedded_frame(1) _ g_embedded_frame(2) assms(4)] by blast
qed

text \<open>Macros after the sizes.\<close>

lemma late_macros:
  assumes sys: "system_headers_ok sys"
    and st: "g_apple x = Inr e" "block (before_dbug sys) e = Inr f" "g_dbug f = Inr g" "block (before_types sys) g = Inr h"
      "g_pointer_types h = Inr i" "g_types i = Inr j" "block (after_types sys) j = Inr k"
  shows "m \<in> set project_macros - set size_macros \<Longrightarrow> macros f m = macros x m" "m \<in> set project_macros \<Longrightarrow> macros k m = macros g m"
  using keeps_allD [OF g_apple_frame(1) st(1), of m] keeps_allD [OF sequences_frame(1) [OF sys] st(2), of m]
    keeps_allD [OF sequences_frame(3) [OF sys] st(4), of m] keeps_allD [OF g_pointer_types_frame(1) st(5), of m]
    keeps_allD [OF g_types_frame(1) st(6), of m] keeps_allD [OF sequences_frame(5) [OF sys] st(7), of m] by simp_all

lemma dbug_settled:
  assumes "g_dbug f = Inr g"
  shows "\<not> (defined ''DBUG_ON'' g \<and> defined ''DBUG_OFF'' g)"
    "defined ''FORCE_DBUG_OFF'' f \<or> defined ''_lint'' f \<Longrightarrow> defined ''DBUG_OFF'' g"
    "defined ''DBUG_ON'' f \<Longrightarrow> \<not> defined ''FORCE_DBUG_OFF'' f \<Longrightarrow> \<not> defined ''_lint'' f \<Longrightarrow> defined ''DBUG_ON'' g"
  using assms by (auto simp: g_dbug_def if_dir_def define_macro_def undef_macro_def defined_def split: if_splits)

lemma kept_until:
  assumes "block ps s = Inr s'" "list_all (keeps_all M) (take n ps)"
  shows "\<exists>t. (\<forall>m \<in> M. macros t m = macros s m) \<and> block (drop n ps) t = Inr s'"
proof -
  have "block (take n ps @ drop n ps) s = Inr s'" using assms(1) by (simp only: append_take_drop_id)
  then obtain t where "block (take n ps) s = Inr t" "block (drop n ps) t = Inr s'" unfolding block_Inr_append by blast
  then show ?thesis using keeps_allD [OF keeps_all_rules(7) [OF assms(2)]] by blast
qed

lemma embedded_settled:
  assumes "g_embedded k = Inr s'" "defined ''EMBEDDED_LIBRARY'' k"
  shows "\<not> defined ''HAVE_SMEM'' s' \<and> \<not> defined ''HAVE_OPENSSL'' s'"
proof -
  obtain t where t: "macros t ''EMBEDDED_LIBRARY'' = macros k ''EMBEDDED_LIBRARY''" and s': "if_dir (\<lambda>s. defined ''EMBEDDED_LIBRARY'' s)
      [undef_macro ''HAVE_OPENSSL'', undef_macro ''HAVE_SMEM''] [] t = Inr s'"
    using kept_until [OF assms(1) [unfolded g_embedded_def], of "{''EMBEDDED_LIBRARY''}" 2] by (auto simp: keeps_all_rules block_one simp del: block.simps)
  from t assms(2) have "defined ''EMBEDDED_LIBRARY'' t" by (simp add: defined_def)
  with s' show ?thesis by (auto simp: if_dir_def undef_macro_def defined_def)
qed

lemma flags_settled:
  assumes "g_flags c = Inr w" "defined ''WITH_PERFSCHEMA_STORAGE_ENGINE'' c"
  shows "defined ''HAVE_PSI_INTERFACE'' w" "\<not> defined ''EMBEDDED_LIBRARY'' c \<Longrightarrow> defined ''HAVE_REPLICATION'' w"
proof -
  show "defined ''HAVE_PSI_INTERFACE'' w"
    by (rule head_defines [OF assms(1) [unfolded g_flags_def]])
      (use assms(2) in \<open>simp_all add: keeps_defined_rules if_dir_def define_macro_def, auto simp: defined_def\<close>)
  assume c: "\<not> defined ''EMBEDDED_LIBRARY'' c"
  let ?last = "if_dir (\<lambda>s. \<not> defined ''EMBEDDED_LIBRARY'' s) [define_macro ''HAVE_REPLICATION'' (Tokens ''''),
      define_macro ''HAVE_EXTERNAL_CLIENT'' (Tokens '''')] []"
  obtain t where t: "macros t ''EMBEDDED_LIBRARY'' = macros c ''EMBEDDED_LIBRARY''" and w: "?last t = Inr w"
    using kept_until [OF assms(1) [unfolded g_flags_def], of "{''EMBEDDED_LIBRARY''}" 4] by (auto simp: keeps_all_rules block_one simp del: block.simps)
  from t c have "\<not> defined ''EMBEDDED_LIBRARY'' t" by (simp add: defined_def)
  with w show "defined ''HAVE_REPLICATION'' w" by (auto simp: if_dir_def define_macro_def defined_def)
qed

lemma windows_names_settled:
  assumes "g_windows_names s = Inr a"
  shows "defined ''__WIN__'' a \<longleftrightarrow> defined ''__WIN__'' s \<or> defined ''_WIN32'' s"
    "m \<notin> {''_global_h'', ''__WIN__'', ''INNODB_COMPATIBILITY_HOOKS''} \<Longrightarrow> defined m a \<longleftrightarrow> defined m s"
  using assms by (auto simp: g_windows_names_def if_dir_def define_macro_def defined_def split: if_splits)

lemma undefined_by:
  assumes "block ps s = Inr s'" "undef_macro m \<in> set ps" "list_all (\<lambda>p. keeps_macro m p \<or> p = undef_macro m) ps"
  shows "macros s' m = None"
proof -
  from assms(2) obtain qs rs where ps: "ps = qs @ undef_macro m # rs" by (blast dest: split_list)
  with assms(1) obtain u t where "undef_macro m u = Inr t" and r: "block rs t = Inr s'" by (auto simp: block_append split: sum.splits)
  then have t: "macros t m = None" "block rs t = Inr s'" by (auto simp: undef_macro_def)
  have "preserves (\<lambda>s. macros s m = None) p" if "keeps_macro m p \<or> p = undef_macro m" for p
    using that by (auto intro!: preservesI dest: keepsD simp: undef_macro_def)
  with assms(3) have "preserves (\<lambda>s. macros s m = None) (block rs)" by (intro preserves_block) (simp add: ps list_all_iff)
  from preservesD [OF this t(2)] t(1) show ?thesis by simp
qed

lemma cygwin_settled:
  assumes "g_cygwin a = Inr b"
  shows "m \<in> {''_WIN32'', ''__WIN__''} \<Longrightarrow> defined m b \<longleftrightarrow> defined m a \<and> \<not> defined ''__CYGWIN__'' a"
    "defined ''__i386__'' b \<longleftrightarrow> defined ''i386'' a \<or> defined ''__i386__'' a"
proof -
  let ?cyg = "if_dir (\<lambda>s. defined ''__CYGWIN__'' s)
       [undef_macro ''WIN'', undef_macro ''WIN32'', undef_macro ''_WIN'', undef_macro ''_WIN32'', undef_macro ''_WIN64'',
        undef_macro ''__WIN__'', undef_macro ''__WIN32__'', define_macro ''HAVE_ERRNO_AS_DEFINE'' (Tokens '''')] []"
  let ?i386 = "if_dir (\<lambda>s. defined ''i386'' s \<and> \<not> defined ''__i386__'' s) [define_macro ''__i386__'' (Tokens '''')] []"
  obtain t u where t: "?cyg a = Inr t" and b: "?i386 u = Inr b"
    and u: "\<And>m. m \<in> {''_WIN32'', ''__WIN__'', ''i386'', ''__i386__''} \<Longrightarrow> macros u m = macros t m"
  proof -
    from block_Inr_Cons [THEN iffD1, OF assms [unfolded g_cygwin_def]] obtain t where t: "?cyg a = Inr t"
      and r: "\<exists>u. (\<forall>m \<in> {''_WIN32'', ''__WIN__'', ''i386'', ''__i386__''}. macros u m = macros t m) \<and> block [?i386] u = Inr b"
      using kept_until [where n = 2 and M = "{''_WIN32'', ''__WIN__'', ''i386'', ''__i386__''}"]
      by (fastforce simp: keeps_all_rules simp del: block.simps)
    then show thesis using that unfolding block_one by blast
  qed
  have T: "defined m t \<longleftrightarrow> defined m a \<and> \<not> defined ''__CYGWIN__'' a" if m: "m \<in> {''_WIN32'', ''__WIN__''}" for m
  proof (cases "defined ''__CYGWIN__'' a")
    case True
    with t have "block [undef_macro ''WIN'', undef_macro ''WIN32'', undef_macro ''_WIN'', undef_macro ''_WIN32'', undef_macro ''_WIN64'',
        undef_macro ''__WIN__'', undef_macro ''__WIN32__'', define_macro ''HAVE_ERRNO_AS_DEFINE'' (Tokens '''')] a = Inr t"
      unfolding if_dir_def by (simp only: if_True)
    then have "macros t m = None" using m by (elim undefined_by) (auto simp: keeps_rules)
    with True show ?thesis by (simp add: defined_def)
  next
    case False
    with t have "t = a" unfolding if_dir_def by (simp only: if_False block.simps sum.inject)
    with False show ?thesis by simp
  qed
  have T': "defined m t \<longleftrightarrow> defined m a" if m: "m \<in> {''i386'', ''__i386__''}" for m
  proof -
    have "keeps_macro m ?cyg" using m by (auto simp: keeps_rules)
    from keepsD [OF this t] show ?thesis by (simp add: defined_def)
  qed
  have U: "defined m u \<longleftrightarrow> defined m t" if "m \<in> {''_WIN32'', ''__WIN__'', ''i386'', ''__i386__''}" for m
    using u [OF that] by (simp add: defined_def)
  have B: "defined m b \<longleftrightarrow> defined m u" if "m \<in> {''_WIN32'', ''__WIN__''}" for m
    using b that by (auto simp: if_dir_def define_macro_def defined_def split: if_splits)
  show "defined m b \<longleftrightarrow> defined m a \<and> \<not> defined ''__CYGWIN__'' a" if "m \<in> {''_WIN32'', ''__WIN__''}"
    using B [OF that] U [of m] T [OF that] that by blast
  show "defined ''__i386__'' b \<longleftrightarrow> defined ''i386'' a \<or> defined ''__i386__'' a"
    using b U [of "''i386''"] U [of "''__i386__''"] T' [of "''i386''"] T' [of "''__i386__''"]
    by (auto simp: if_dir_def define_macro_def defined_def split: if_splits)
qed

section \<open>Where the header stops\<close>

lemma guarded_nth:
  assumes "n < length ps" "ps ! n = if_dir c [error_directive msg] []" "list_all total (take n ps)" "list_all total (drop (Suc n) ps)"
    and "list_all (keeps_all M) (take n ps)" "\<And>s'. \<forall>m \<in> M. macros s' m = macros s m \<Longrightarrow> c s' = c s"
  shows "block ps s = Inl e \<longleftrightarrow> c s \<and> e = msg"
proof -
  have "ps = take n ps @ if_dir c [error_directive msg] [] # drop (Suc n) ps"
    using id_take_nth_drop [OF assms(1)] assms(2) by simp
  moreover have "c s' = c s" if "block (take n ps) s = Inr s'" for s'
    using assms(6) keeps_allD [OF keeps_all_rules(7) [OF assms(5)] that] by blast
  ultimately show ?thesis using guarded_block [OF assms(3,4), of s c msg e] by simp
qed

lemma workarounds_stop:
  "g_workarounds s = Inl e \<longleftrightarrow> (defined ''__GNUC'' s \<and> defined ''__EXCEPTIONS'' s) \<and>
     e = ''Please add -fno-exceptions to CXXFLAGS and reconfigure/recompile''"
  unfolding g_workarounds_def
  by (rule guarded_nth [where n = 4 and M = "{''__GNUC'', ''__EXCEPTIONS''}"]) (simp_all add: total_rules keeps_all_rules defined_def)

lemma conversions_stop:
  "g_conversions s = Inl e \<longleftrightarrow> \<not> defined ''STACK_DIRECTION'' s \<and> e = ''please add -DSTACK_DIRECTION=1 or -1 to your CPPFLAGS''"
  unfolding g_conversions_def
  by (rule guarded_nth [where n = 5 and M = "{''STACK_DIRECTION''}"]) (simp_all add: total_rules keeps_all_rules defined_def)

definition unknown_architecture :: "pp \<Rightarrow> bool" where
  "unknown_architecture s \<longleftrightarrow> defined ''__APPLE__'' s \<and> defined ''__MACH__'' s \<and>
     \<not> (defined ''__i386__'' s \<or> defined ''__ppc__'' s \<or> defined ''__x86_64__'' s \<or> defined ''__ppc64__'' s)"

lemma stops_at_head: "total (block ps) \<Longrightarrow> block (p # ps) s = Inl e \<longleftrightarrow> p s = Inl e"
proof (cases "p s")
  case (Inr t)
  assume "total (block ps)"
  then obtain u where "block ps t = Inr u" by (rule totalE)
  with Inr show ?thesis by simp
qed simp

lemma apple_stop: "g_apple s = Inl e \<longleftrightarrow> unknown_architecture s \<and> e = ''Building FAT binary for an unknown architecture.''"
proof -
  have "total g_apple_sizes" by (simp add: g_apple_sizes_def total_rules)
  then obtain t where t: "g_apple_sizes s = Inr t" by (rule totalE)
  have "keeps_all {''__i386__'', ''__ppc__'', ''__x86_64__'', ''__ppc64__''} g_apple_sizes" by (simp add: g_apple_sizes_def keeps_all_rules)
  note k = keeps_allD [OF this t]
  have "g_apple_architecture t = Inl e \<longleftrightarrow> if_dir (\<lambda>s. defined ''__i386__'' s \<or> defined ''__ppc__'' s)
      [define_macro ''SIZEOF_CHARP'' (Number 4), define_macro ''SIZEOF_LONG'' (Number 4)]
      [if_dir (\<lambda>s. defined ''__x86_64__'' s \<or> defined ''__ppc64__'' s)
        [define_macro ''SIZEOF_CHARP'' (Number 8), define_macro ''SIZEOF_LONG'' (Number 8)]
        [error_directive ''Building FAT binary for an unknown architecture.'']] t = Inl e"
    unfolding g_apple_architecture_def by (rule stops_at_head) (simp add: total_rules)
  also have "\<dots> \<longleftrightarrow> \<not> (defined ''__i386__'' t \<or> defined ''__ppc__'' t) \<and> \<not> (defined ''__x86_64__'' t \<or> defined ''__ppc64__'' t) \<and>
      e = ''Building FAT binary for an unknown architecture.''"
    unfolding if_dir_def by (simp add: define_macro_def error_directive_def eq_commute split: if_split)
  also have "\<dots> \<longleftrightarrow> \<not> (defined ''__i386__'' s \<or> defined ''__ppc__'' s \<or> defined ''__x86_64__'' s \<or> defined ''__ppc64__'' s) \<and>
      e = ''Building FAT binary for an unknown architecture.''"
    using k [of "''__i386__''"] k [of "''__ppc__''"] k [of "''__x86_64__''"] k [of "''__ppc64__''"] by (simp add: defined_def)
  finally have arch: "g_apple_architecture t = Inl e \<longleftrightarrow> \<not> (defined ''__i386__'' s \<or> defined ''__ppc__'' s \<or> defined ''__x86_64__'' s \<or>
      defined ''__ppc64__'' s) \<and> e = ''Building FAT binary for an unknown architecture.''" .
  have "block [g_apple_sizes, g_apple_architecture] s = g_apple_architecture t" using t by (simp split: sum.split)
  then have "g_apple s = (if defined ''__APPLE__'' s \<and> defined ''__MACH__'' s then g_apple_architecture t else Inr s)"
    by (simp only: g_apple_def if_dir_def block.simps(1))
  with arch show ?thesis unfolding unknown_architecture_def by auto
qed

lemma result_cases: "(\<And>e. p s \<noteq> Inl e) \<Longrightarrow> \<exists>s'. p s = Inr s'"
  by (cases "p s") auto

text \<open>After the part for Apple's systems only the test for exceptions can stop the header.\<close>

lemma rest_stops:
  assumes sys: "system_headers_ok sys" and x: "sizes_final x" "\<And>n. n \<in> set project_types \<Longrightarrow> types x n = None" "defined ''STACK_DIRECTION'' x"
    and e: "g_apple x = Inr e"
  shows "block (before_dbug sys @ [g_dbug] @ before_types sys @ [g_pointer_types, g_types] @ after_types sys @ [g_embedded]) e = Inl msg \<longleftrightarrow>
    (defined ''__GNUC'' x \<and> defined ''__EXCEPTIONS'' x) \<and> msg = ''Please add -fno-exceptions to CXXFLAGS and reconfigure/recompile''"
proof -
  note ff = g_features_frame [OF sys] and pf = g_posix_frame [OF sys] and hf = g_headers_frame [OF sys] and wf = g_workarounds2_frame [OF sys]
    and inf = g_init_frame [OF sys] and stf = g_system_types_frame [OF sys]
  obtain e1 where e1: "g_features sys e = Inr e1" by (rule totalE [OF ff(3)])
  obtain e2 where e2: "g_posix sys e1 = Inr e2" by (rule totalE [OF pf(3)])
  have k: "macros e2 m = macros x m" if "m \<in> set project_macros - set size_macros" for m
    using keeps_allD [OF g_apple_frame(1) e that] keeps_allD [OF ff(1) e1, of m] keeps_allD [OF pf(1) e2, of m] that by simp
  have "''__GNUC'' \<in> set project_macros - set size_macros" "''__EXCEPTIONS'' \<in> set project_macros - set size_macros"
    by (simp_all add: pm_defs)
  then have w: "g_workarounds e2 = Inl msg \<longleftrightarrow> (defined ''__GNUC'' x \<and> defined ''__EXCEPTIONS'' x) \<and>
      msg = ''Please add -fno-exceptions to CXXFLAGS and reconfigure/recompile''" for msg
    unfolding workarounds_stop by (simp add: k defined_def)
  show ?thesis
  proof (cases "g_workarounds e2")
    case (Inl m)
    then show ?thesis using e1 e2 w [of msg] by auto
  next
    case (Inr e3)
    obtain e4 where e4: "g_headers sys e3 = Inr e4" by (rule totalE [OF hf(3)])
    obtain e5 where e5: "g_workarounds2 sys e4 = Inr e5" by (rule totalE [OF wf(3)])
    obtain f where f: "g_init e5 = Inr f" by (rule totalE [OF inf(3)])
    obtain g where g: "g_dbug f = Inr g" by (rule totalE [OF g_dbug_frame(3)])
    have "total (block [g_system_types sys, g_file_flags, g_file_names, g_sizes])"
      by (rule total_rules(6)) (use stf g_file_flags_frame g_file_names_frame g_sizes_frame in auto)
    then obtain t where t: "block [g_system_types sys, g_file_flags, g_file_names, g_sizes] g = Inr t" by (rule totalE)
    have kt: "keeps_all (set project_macros) (block [g_system_types sys, g_file_flags, g_file_names, g_sizes])"
      by (rule keeps_all_rules(7)) (use stf g_file_flags_frame g_file_names_frame g_sizes_frame in auto)
    have bd: "block (before_dbug sys) e = Inr f" using e1 e2 Inr e4 e5 f by simp
    have "macros t ''STACK_DIRECTION'' = macros x ''STACK_DIRECTION''"
      using keeps_allD [OF kt t, of "''STACK_DIRECTION''"] keeps_allD [OF g_dbug_frame(1) g, of "''STACK_DIRECTION''"]
        keeps_allD [OF sequences_frame(1) [OF sys] bd, of "''STACK_DIRECTION''"] keeps_allD [OF g_apple_frame(1) e, of "''STACK_DIRECTION''"]
      by (simp add: pm_defs)
    then have "g_conversions t \<noteq> Inl m" for m using x(3) by (simp add: conversions_stop defined_def)
    then obtain u where u: "g_conversions t = Inr u" using result_cases by metis
    obtain h where h: "g_limits u = Inr h" by (rule totalE [OF g_limits_frame(3)])
    obtain i where i: "g_pointer_types h = Inr i" by (rule totalE [OF g_pointer_types_frame(2)])
    have bt: "block (before_types sys) g = Inr h"
    proof -
      have "before_types sys = [g_system_types sys, g_file_flags, g_file_names, g_sizes] @ [g_conversions, g_limits]" by simp
      then show ?thesis using t u h by (simp only: block_append) simp
    qed
    from typing_stages [OF sys x(1,2) e bd g bt i] have "declaring i" .
    then obtain j where j: "g_types i = Inr j" using types_safe by (auto simp: safe_def)
    obtain k where k: "block (after_types sys) j = Inr k" by (rule totalE [OF sequences_frame(7) [OF sys]])
    obtain s' where s': "g_embedded k = Inr s'" by (rule totalE [OF g_embedded_frame(3)])
    have "block (before_dbug sys @ [g_dbug] @ before_types sys @ [g_pointer_types, g_types] @ after_types sys @ [g_embedded]) e = Inr s'"
      unfolding block_append bd sum.case block_one g bt block.simps(2) [of g_pointer_types] i j k s' by (simp add: i j k s' del: block.simps)
    then show ?thesis using w [of msg] Inr by simp
  qed
qed

lemma header_stops:
  assumes "system_headers_ok sys" "\<not> defined ''_global_h'' s" "\<not> defined ''MY_CONFIG_H'' s" "types s = Map.empty"
  shows "my_global_h sys s = Inl msg \<longleftrightarrow>
    (if defined ''__APPLE__'' s \<and> defined ''__MACH__'' s \<and>
        \<not> (defined ''i386'' s \<or> defined ''__i386__'' s \<or> defined ''__ppc__'' s \<or> defined ''__x86_64__'' s \<or> defined ''__ppc64__'' s)
     then msg = ''Building FAT binary for an unknown architecture.''
     else defined ''__GNUC'' s \<and> defined ''__EXCEPTIONS'' s \<and> msg = ''Please add -fno-exceptions to CXXFLAGS and reconfigure/recompile'')"
proof -
  obtain a where a: "g_windows_names s = Inr a" by (rule totalE [OF g_windows_names_frame(3)])
  obtain b where b: "g_cygwin a = Inr b" by (rule totalE [OF g_cygwin_frame(3)])
  obtain m where m: "g_modes b = Inr m" by (rule totalE [OF g_modes_frame(3)])
  obtain c where c: "my_config_h m = Inr c" by (rule totalE [OF config_total])
  obtain w where w: "g_flags c = Inr w" by (rule totalE [OF g_flags_frame(3)])
  obtain d where d: "g_win32 sys w = Inr d" by (rule totalE [OF g_win32_frame(3) [OF assms(1)]])
  obtain x where x: "g_aix d = Inr x" by (rule totalE [OF g_aix_frame(3)])
  let ?rest = "before_dbug sys @ [g_dbug] @ before_types sys @ [g_pointer_types, g_types] @ after_types sys @ [g_embedded]"
  have "my_global_h sys s = block ([g_windows_names, g_cygwin, g_modes, my_config_h, g_flags, g_win32 sys, g_aix] @ [g_apple] @ ?rest) s"
    using assms(2) by (simp add: my_global_h_def if_dir_def)
  also have "\<dots> = (case g_apple x of Inl e \<Rightarrow> Inl e | Inr e \<Rightarrow> block ?rest e)"
    using a b m c w d x by (simp split: sum.split)
  finally have run: "my_global_h sys s = (case g_apple x of Inl e \<Rightarrow> Inl e | Inr e \<Rightarrow> block ?rest e)" .
  note early = early_stages [OF assms(1,3) a b m c w d x]
  have types: "\<And>n. n \<in> set project_types \<Longrightarrow> types x n = None" using early(4) assms(4) by simp
  have given: "defined q x \<longleftrightarrow> defined q s" if "q \<in> set given_macros - {''_WIN32'', ''__WIN__'', ''__i386__''}" for q
  proof -
    have "q \<in> set project_macros" using that given_project(1) by blast
    then show ?thesis
      using early(3) [of q] that keeps_allD [OF g_windows_names_frame(1) a, of q] keeps_allD [OF g_cygwin_frame(1) b, of q]
      by (simp add: defined_def)
  qed
  have i386: "defined ''__i386__'' x \<longleftrightarrow> defined ''i386'' s \<or> defined ''__i386__'' s"
    using early(3) [of "''__i386__''"] cygwin_settled(2) [OF b] windows_names_settled(2) [OF a, of "''i386''"] windows_names_settled(2) [OF a, of "''__i386__''"]
    by (simp add: given_macros_def defined_def)
  have unknown: "unknown_architecture x \<longleftrightarrow> defined ''__APPLE__'' s \<and> defined ''__MACH__'' s \<and>
      \<not> (defined ''i386'' s \<or> defined ''__i386__'' s \<or> defined ''__ppc__'' s \<or> defined ''__x86_64__'' s \<or> defined ''__ppc64__'' s)"
    unfolding unknown_architecture_def i386 by (simp add: given given_macros_def)
  have exc: "defined ''__GNUC'' x \<longleftrightarrow> defined ''__GNUC'' s" "defined ''__EXCEPTIONS'' x \<longleftrightarrow> defined ''__EXCEPTIONS'' s"
    by (simp_all add: given given_macros_def)
  show ?thesis
  proof (cases "g_apple x")
    case (Inl e)
    then show ?thesis using apple_stop [of x e] unknown run by auto
  next
    case (Inr e)
    then have "\<not> unknown_architecture x" using apple_stop [of x] by auto
    then have neg: "\<not> (defined ''__APPLE__'' s \<and> defined ''__MACH__'' s \<and>
      \<not> (defined ''i386'' s \<or> defined ''__i386__'' s \<or> defined ''__ppc__'' s \<or> defined ''__x86_64__'' s \<or> defined ''__ppc64__'' s))"
      using unknown by blast
    from run Inr have "my_global_h sys s = block ?rest e" by (simp only: sum.case)
    with rest_stops [OF assms(1) early(1) _ early(2) Inr, of msg] types
    show ?thesis unfolding if_not_P [OF neg] exc [symmetric] by (simp only: conj_assoc)
  qed
qed

lemma declared_nth:
  assumes "block ps s = Inr s'" "n < length ps" "list_all (keeps_type x) (drop (Suc n) ps)" "\<And>t t'. (ps ! n) t = Inr t' \<Longrightarrow> types t' x \<noteq> None"
  shows "types s' x \<noteq> None"
proof -
  have "ps = take n ps @ (ps ! n) # drop (Suc n) ps" by (rule id_take_nth_drop [OF assms(2)])
  with assms(1) have "block (take n ps @ (ps ! n) # drop (Suc n) ps) s = Inr s'" by simp
  then obtain t t' where t: "(ps ! n) t = Inr t'" "block (drop (Suc n) ps) t' = Inr s'" by (auto simp only: block_Inr_append block_Inr_Cons)
  from keeps_typeD [OF keeps_type_rules(7) [OF assms(3)] t(2)] assms(4) [OF t(1)] show ?thesis by simp
qed

lemma intptr_declared:
  assumes "system_headers_ok sys" "\<not> defined ''_global_h'' s" "my_global_h sys s = Inr s'"
  shows "\<exists>t. types s' ''intptr'' = Some t"
proof -
  from my_global_stages [OF assms(3,2)] obtain i j k
    where st: "g_types i = Inr j" "block (after_types sys) j = Inr k" "g_embedded k = Inr s'" by blast
  have "types j ''intptr'' \<noteq> None"
    by (rule declared_nth [OF st(1) [unfolded g_types_def], where n = 11])
      (auto simp: keeps_type_rules if_dir_def typedef_base_def error_directive_def split: if_splits)
  moreover have "''intptr'' \<in> set project_types" by (simp add: project_types_def)
  ultimately show ?thesis
    using keeps_typesD [OF sequences_frame(6) [OF assms(1)] st(2)] keeps_typesD [OF g_embedded_frame(2) st(3)] by simp
qed

text \<open>A compiler for Windows, and headers of the system that define their guards.\<close>

definition windows_compiler :: pp where
  "windows_compiler = \<lparr>macros = [''_WIN32'' \<mapsto> Number 1, ''DBUG_OFF'' \<mapsto> Number 1], types = Map.empty\<rparr>"

definition sample_headers :: "string \<Rightarrow> directive" where
  "sample_headers h = define_macro (''_SYS_'' @ h) (Tokens '''')"

lemma sample_headers_ok: "system_headers_ok sample_headers"
  by (simp add: system_headers_ok_def sample_headers_def total_rules keeps_rules keeps_type_rules pm_defs)

lemma windows_build_runs: "\<exists>s'. my_global_h sample_headers windows_compiler = Inr s'"
  by (rule result_cases) (simp add: header_stops [OF sample_headers_ok] windows_compiler_def defined_def)

lemma windows_compiler_start:
  "\<not> defined ''_global_h'' windows_compiler" "\<not> defined ''MY_CONFIG_H'' windows_compiler" "types windows_compiler = Map.empty"
  by (simp_all add: windows_compiler_def defined_def)

text \<open>At the end of the header every declared name keeps its promise by the macros.\<close>

lemma header_types_fit:
  assumes "system_headers_ok sys" "\<not> defined ''_global_h'' s" "\<not> defined ''MY_CONFIG_H'' s" "types s = Map.empty" "my_global_h sys s = Inr s'"
  shows "types_fit s'"
proof -
  from my_global_stages [OF assms(5,2)] obtain a b m c w d x e f g h i j k
    where st: "g_windows_names s = Inr a" "g_cygwin a = Inr b" "g_modes b = Inr m" "my_config_h m = Inr c" "g_flags c = Inr w"
      "g_win32 sys w = Inr d" "g_aix d = Inr x" "g_apple x = Inr e" "block (before_dbug sys) e = Inr f" "g_dbug f = Inr g"
      "block (before_types sys) g = Inr h" "g_pointer_types h = Inr i" "g_types i = Inr j" "block (after_types sys) j = Inr k"
      "g_embedded k = Inr s'" by blast
  note early = early_stages [OF assms(1,3) st(1-7)]
  have "\<And>n. n \<in> set project_types \<Longrightarrow> types x n = None" using early(4) assms(4) by simp
  from typing_stages [OF assms(1) early(1) this st(8-12)] have "declaring i" .
  from late_types_fit [OF assms(1) st(13-15) this] show ?thesis .
qed

lemma header_sizes_final:
  assumes "system_headers_ok sys" "\<not> defined ''_global_h'' s" "\<not> defined ''MY_CONFIG_H'' s" "types s = Map.empty" "my_global_h sys s = Inr s'"
  shows "sizes_final s'"
  using header_types_fit [OF assms] by (simp add: types_fit_def)

section \<open>Properties\<close>

text \<open>The usual sizes of a compiler whose pointers have the size of a \<^verbatim>\<open>long\<close>.\<close>

definition sample_target :: "int \<Rightarrow> target" where
  "sample_target L = \<lparr>size_short = 2, size_int = 4, size_long = L, size_long_long = 8, size_pointer = L, size_off_t = 4, size_system = (\<lambda>_. L)\<rparr>"

text \<open>C15: for every compiler whose sizes are those of the configuration, if the header does not stop, the names of types mean what they say: those with a number of bits have it, \<^verbatim>\<open>longlong\<close> has 64, a pointer
  fits into \<^verbatim>\<open>intptr\<close> and the difference of two into \<^verbatim>\<open>my_ptrdiff_t\<close>, an offset in a file into \<^verbatim>\<open>my_off_t\<close>; and the
  types that are unsigned by their name, and offsets, have no sign.  This holds on Windows, on Apple's systems, and on all others, whatever else the compiler defines.  That
  the \<^verbatim>\<open>SIZEOF\<close> macros the header ends with are the sizes of the compiler is a hypothesis (\<open>configured_for\<close>): they come from \<^verbatim>\<open>my_config.h\<close>,
  which outside of Apple's systems says 4 for a pointer, and nothing in the header notices a compiler with other sizes, for which a pointer would not fit.\<close>
theorem types_have_their_size:
  assumes "system_headers_ok sys" "\<not> defined ''_global_h'' s" "\<not> defined ''MY_CONFIG_H'' s" "types s = Map.empty"
    and "my_global_h sys s = Inr s'" "n \<in> set project_types" "types s' n = Some t"
    and "configured_for C s'"
  shows "type_promise C n t"
  using header_types_fit [OF assms(1-5)] assms(6,7) by (intro promise_configured [OF _ assms(8)]) (simp add: types_fit_def)

theorem types_have_their_size_witness:
  "\<exists>s' t L. my_global_h sample_headers windows_compiler = Inr s' \<and> types s' ''intptr'' = Some t \<and> configured_for (sample_target L) s' \<and>
     L \<in> {4, 8} \<and> bytes_of (sample_target L) t = L"
proof -
  obtain s' where s': "my_global_h sample_headers windows_compiler = Inr s'" using windows_build_runs by blast
  obtain t where t: "types s' ''intptr'' = Some t" using intptr_declared [OF sample_headers_ok _ s'] windows_compiler_start by blast
  let ?L = "val ''SIZEOF_LONG'' s'"
  note v = sizes_final_values [OF header_sizes_final [OF sample_headers_ok windows_compiler_start s']]
  have C: "configured_for (sample_target ?L) s'" using v(1-6) by (auto simp: configured_for_def sample_target_def)
  have "type_promise (sample_target ?L) ''intptr'' t"
    by (rule types_have_their_size [OF sample_headers_ok windows_compiler_start s' _ t C]) (simp add: project_types_def)
  then have "bytes_of (sample_target ?L) t = ?L" by (simp add: type_promise_def sample_target_def)
  with s' t C v(4) show ?thesis by blast
qed

text \<open>C16: the flags of a build are settled in one way: debugging is on or off but not both, \<^verbatim>\<open>FORCE_DBUG_OFF\<close> and \<^verbatim>\<open>_lint\<close> turn it off, and
  \<^verbatim>\<open>DBUG_ON\<close> wins over \<^verbatim>\<open>DBUG_OFF\<close> else; Cygwin does not count as Windows, and other Windows compilers do, under both names; the embedded library has
  neither shared memory nor OpenSSL, every other build has replication; and with this configuration the Performance Schema is compiled in.\<close>
theorem build_flags_are_settled:
  assumes "system_headers_ok sys" "\<not> defined ''_global_h'' s" "\<not> defined ''MY_CONFIG_H'' s" "my_global_h sys s = Inr s'"
  shows "\<not> (defined ''DBUG_ON'' s' \<and> defined ''DBUG_OFF'' s') \<and>
    (defined ''FORCE_DBUG_OFF'' s \<or> defined ''_lint'' s \<longrightarrow> defined ''DBUG_OFF'' s') \<and>
    (defined ''DBUG_ON'' s \<and> \<not> defined ''FORCE_DBUG_OFF'' s \<and> \<not> defined ''_lint'' s \<longrightarrow> defined ''DBUG_ON'' s') \<and>
    (defined ''_WIN32'' s' \<longleftrightarrow> defined ''_WIN32'' s \<and> \<not> defined ''__CYGWIN__'' s) \<and>
    (defined ''__WIN__'' s' \<longleftrightarrow> (defined ''__WIN__'' s \<or> defined ''_WIN32'' s) \<and> \<not> defined ''__CYGWIN__'' s) \<and>
    (defined ''EMBEDDED_LIBRARY'' s \<longrightarrow> \<not> defined ''HAVE_SMEM'' s' \<and> \<not> defined ''HAVE_OPENSSL'' s') \<and>
    (\<not> defined ''EMBEDDED_LIBRARY'' s \<longrightarrow> defined ''HAVE_REPLICATION'' s') \<and>
    defined ''HAVE_PSI_INTERFACE'' s'"
proof -
  from my_global_stages [OF assms(4,2)] obtain a b m c w d x e f g h i j k
    where st: "g_windows_names s = Inr a" "g_cygwin a = Inr b" "g_modes b = Inr m" "my_config_h m = Inr c" "g_flags c = Inr w"
      "g_win32 sys w = Inr d" "g_aix d = Inr x" "g_apple x = Inr e" "block (before_dbug sys) e = Inr f" "g_dbug f = Inr g"
      "block (before_types sys) g = Inr h" "g_pointer_types h = Inr i" "g_types i = Inr j" "block (after_types sys) j = Inr k"
      "g_embedded k = Inr s'" by blast
  note early = early_stages [OF assms(1,3) st(1-7)]
  note late = late_macros [OF assms(1) st(8-14)]
  have start: "defined q b \<longleftrightarrow> defined q s" if "q \<in> {''EMBEDDED_LIBRARY'', ''DBUG_ON'', ''FORCE_DBUG_OFF'', ''_lint''}" for q
  proof -
    have "q \<in> set project_macros" "q \<notin> {''_WIN32'', ''__WIN__'', ''__i386__''}"
      using that by (auto simp: project_macros_def given_macros_def)
    then show ?thesis
      using keeps_allD [OF g_windows_names_frame(1) st(1), of q] keeps_allD [OF g_cygwin_frame(1) st(2), of q] by (simp add: defined_def)
  qed
  have given: "defined q f \<longleftrightarrow> defined q b" if "q \<in> set given_macros" for q
  proof -
    have "q \<in> set project_macros - set size_macros" using that given_project(1,2) by blast
    then show ?thesis using early(3) [OF that] late(1) [of q] by (simp add: defined_def)
  qed
  have after: "defined q s' \<longleftrightarrow> defined q g" if "q \<in> set project_macros - {''HAVE_OPENSSL'', ''HAVE_SMEM''}" for q
    using keeps_allD [OF g_embedded_frame(1) st(15) that] late(2) [of q] that by (simp add: defined_def)
  have across: "defined q g \<longleftrightarrow> defined q f" if "q \<in> set project_macros - {''DBUG_ON'', ''DBUG_OFF''}" for q
    using keeps_allD [OF g_dbug_frame(1) st(10) that] by (simp add: defined_def)
  have flags: "defined q f \<longleftrightarrow> defined q w" if "q \<in> {''HAVE_PSI_INTERFACE'', ''HAVE_REPLICATION''}" for q
  proof -
    have "q \<in> set project_macros" "q \<notin> set size_macros" "q \<notin> {''SIZEOF_OFF_T'', ''HAVE_SMEM''}"
      using that by (auto simp: project_macros_def size_macros_def)
    then show ?thesis
      using late(1) [of q] keeps_allD [OF g_win32_frame(1) [OF assms(1)] st(6), of q] keeps_allD [OF g_aix_frame(1) st(7), of q]
      by (simp add: defined_def)
  qed
  have emb: "defined ''EMBEDDED_LIBRARY'' c \<longleftrightarrow> defined ''EMBEDDED_LIBRARY'' s"
    using keepsD [OF config_keeps_given st(4), of "''EMBEDDED_LIBRARY''"] keeps_allD [OF g_modes_frame(1) st(3), of "''EMBEDDED_LIBRARY''"]
      start [of "''EMBEDDED_LIBRARY''"] by (simp add: pm_defs defined_def)
  note win = cygwin_settled(1) [OF st(2)] windows_names_settled [OF st(1)]
  have in_project: "set [''DBUG_ON'', ''DBUG_OFF'', ''_WIN32'', ''__WIN__'', ''EMBEDDED_LIBRARY'', ''HAVE_REPLICATION'', ''HAVE_PSI_INTERFACE''] \<subseteq>
      set project_macros - {''HAVE_OPENSSL'', ''HAVE_SMEM''}"
    and in_given: "set [''DBUG_ON'', ''FORCE_DBUG_OFF'', ''_lint'', ''_WIN32'', ''__WIN__'', ''EMBEDDED_LIBRARY''] \<subseteq> set given_macros"
    by (auto simp: pm_defs)
  have "\<not> (defined ''DBUG_ON'' s' \<and> defined ''DBUG_OFF'' s')"
    using dbug_settled(1) [OF st(10)] after in_project by simp
  moreover have "defined ''FORCE_DBUG_OFF'' s \<or> defined ''_lint'' s \<longrightarrow> defined ''DBUG_OFF'' s'"
    using dbug_settled(2) [OF st(10)] given start after in_project in_given by simp
  moreover have "defined ''DBUG_ON'' s \<and> \<not> defined ''FORCE_DBUG_OFF'' s \<and> \<not> defined ''_lint'' s \<longrightarrow> defined ''DBUG_ON'' s'"
    using dbug_settled(3) [OF st(10)] given start after in_project in_given by simp
  moreover have "defined ''_WIN32'' s' \<longleftrightarrow> defined ''_WIN32'' s \<and> \<not> defined ''__CYGWIN__'' s"
    "defined ''__WIN__'' s' \<longleftrightarrow> (defined ''__WIN__'' s \<or> defined ''_WIN32'' s) \<and> \<not> defined ''__CYGWIN__'' s"
    using after across given win in_project in_given by simp_all
  moreover have "defined ''EMBEDDED_LIBRARY'' s \<longrightarrow> \<not> defined ''HAVE_SMEM'' s' \<and> \<not> defined ''HAVE_OPENSSL'' s'"
    using embedded_settled [OF st(15)] late(2) [of "''EMBEDDED_LIBRARY''"] across given start in_project in_given by (simp add: defined_def)
  moreover have "\<not> defined ''EMBEDDED_LIBRARY'' s \<longrightarrow> defined ''HAVE_REPLICATION'' s'" "defined ''HAVE_PSI_INTERFACE'' s'"
    using flags_settled [OF st(5) early(5)] emb flags after across in_project by simp_all
  ultimately show ?thesis by blast
qed

theorem build_flags_are_settled_witness:
  "\<exists>s'. my_global_h sample_headers windows_compiler = Inr s' \<and> defined ''__WIN__'' s' \<and> defined ''HAVE_REPLICATION'' s'"
proof -
  obtain s' where s': "my_global_h sample_headers windows_compiler = Inr s'" using windows_build_runs by blast
  from build_flags_are_settled [OF sample_headers_ok windows_compiler_start(1,2) s'] s' show ?thesis
    by (simp add: windows_compiler_def defined_def)
qed

text \<open>C17: with this configuration the header stops on exactly two conditions: a compiler for Apple's systems whose architecture is none of the known ones, and a compiler that
  defines both \<^verbatim>\<open>__GNUC\<close> and \<^verbatim>\<open>__EXCEPTIONS\<close>; neither the tests of the sizes nor the one for the direction of the stack can fail.  The macro of
  the GNU compiler is \<^verbatim>\<open>__GNUC__\<close>, which the second test does not ask for.\<close>
theorem header_stops_exactly:
  assumes "system_headers_ok sys" "\<not> defined ''_global_h'' s" "\<not> defined ''MY_CONFIG_H'' s" "types s = Map.empty"
  shows "my_global_h sys s = Inl msg \<longleftrightarrow>
    (if defined ''__APPLE__'' s \<and> defined ''__MACH__'' s \<and>
        \<not> (defined ''i386'' s \<or> defined ''__i386__'' s \<or> defined ''__ppc__'' s \<or> defined ''__x86_64__'' s \<or> defined ''__ppc64__'' s)
     then msg = ''Building FAT binary for an unknown architecture.''
     else defined ''__GNUC'' s \<and> defined ''__EXCEPTIONS'' s \<and> msg = ''Please add -fno-exceptions to CXXFLAGS and reconfigure/recompile'')"
  by (rule header_stops [OF assms])

theorem header_stops_exactly_witness:
  "\<forall>msg. my_global_h sample_headers windows_compiler \<noteq> Inl msg"
  using header_stops_exactly [OF sample_headers_ok, of windows_compiler] by (simp add: windows_compiler_def defined_def)

end
