(* ===== verification/Build_Threads.thy ===== *)
theory Build_Threads
  imports Pthread_Layer Build_Global
begin

text \<open>
  \<^verbatim>\<open>my_pthread.h\<close> as directives, with the headers it includes, \<^verbatim>\<open>mysql/psi/mysql_thread.h\<close> and \<^verbatim>\<open>mysql/psi/psi.h\<close>.  Conditionals that hold only
  declarations and functions are left out.  \<open>Pthread_Layer\<close> says by hand which function an operation on a mutex or a read-write lock reaches in a build; here the
  text of its macro is computed from the directives and read as a call, and the two are shown to agree.
\<close>

section \<open>The directives\<close>

definition psi_versions :: "directive" where
  "psi_versions = if_dir (\<lambda>s. defined ''HAVE_PSI_INTERFACE'' s)
      [define_macro ''PSI_VERSION_1'' (Number 1),
       define_macro ''PSI_VERSION_2'' (Number 2),
       define_macro ''PSI_CURRENT_VERSION'' (Number 1),
       if_dir (\<lambda>s. \<not> defined ''USE_PSI_2'' s)
         [if_dir (\<lambda>s. \<not> defined ''USE_PSI_1'' s)
            [define_macro ''USE_PSI_1'' (Tokens '''')] []] [],
       typedef_base ''PSI_mutex_key'' T_uint,
       typedef_base ''PSI_rwlock_key'' T_uint,
       typedef_base ''PSI_cond_key'' T_uint,
       typedef_base ''PSI_thread_key'' T_uint,
       typedef_base ''PSI_file_key'' T_uint,
       define_macro ''PSI_FLAG_GLOBAL'' (Tokens ''(1 << 0)''),
       if_dir (\<lambda>s. defined ''USE_PSI_1'' s)
         [define_macro ''HAVE_PSI_1'' (Tokens '''')] [],
       if_dir (\<lambda>s. defined ''USE_PSI_2'' s)
         [define_macro ''HAVE_PSI_2'' (Tokens '''')] []] []"

definition psi_h :: "directive" where
  "psi_h = if_dir (\<lambda>s. \<not> defined ''MYSQL_PERFORMANCE_SCHEMA_INTERFACE_H'' s)
    [define_macro ''MYSQL_PERFORMANCE_SCHEMA_INTERFACE_H'' (Tokens ''''),
     if_dir (\<lambda>s. \<not> defined ''_global_h'' s)
       [error_directive ''You must include my_global.h in the code for the build to be correct.''] [],
     psi_versions] []"

definition thread_macros :: "directive" where
  "thread_macros = block
    [define_macro ''mysql_mutex_assert_owner'' (Params [''M''] ''safe_mutex_assert_owner(&(M)->m_mutex)''),
     define_macro ''mysql_mutex_assert_not_owner'' (Params [''M''] ''safe_mutex_assert_not_owner(&(M)->m_mutex)''),
     define_macro ''mysql_prlock_assert_write_owner'' (Params [''M''] ''rw_pr_lock_assert_write_owner(&(M)->m_prlock)''),
     define_macro ''mysql_prlock_assert_not_write_owner'' (Params [''M''] ''rw_pr_lock_assert_not_write_owner(&(M)->m_prlock)''),
     if_dir (\<lambda>s. defined ''HAVE_PSI_INTERFACE'' s)
       [if_dir (\<lambda>s. defined ''SAFE_MUTEX'' s)
          [define_macro ''mysql_mutex_init'' (Params [''K'', ''M'', ''A''] ''inline_mysql_mutex_init(K, M, A, __FILE__, __LINE__)'')]
          [define_macro ''mysql_mutex_init'' (Params [''K'', ''M'', ''A''] ''inline_mysql_mutex_init(K, M, A)'')]]
       [if_dir (\<lambda>s. defined ''SAFE_MUTEX'' s)
          [define_macro ''mysql_mutex_init'' (Params [''K'', ''M'', ''A''] ''inline_mysql_mutex_init(M, A, __FILE__, __LINE__)'')]
          [define_macro ''mysql_mutex_init'' (Params [''K'', ''M'', ''A''] ''inline_mysql_mutex_init(M, A)'')]],
     if_dir (\<lambda>s. defined ''SAFE_MUTEX'' s)
       [define_macro ''mysql_mutex_destroy'' (Params [''M''] ''inline_mysql_mutex_destroy(M, __FILE__, __LINE__)'')]
       [define_macro ''mysql_mutex_destroy'' (Params [''M''] ''inline_mysql_mutex_destroy(M)'')],
     if_dir (\<lambda>s. defined ''SAFE_MUTEX'' s \<or> defined ''HAVE_PSI_INTERFACE'' s)
       [define_macro ''mysql_mutex_lock'' (Params [''M''] ''inline_mysql_mutex_lock(M, __FILE__, __LINE__)'')]
       [define_macro ''mysql_mutex_lock'' (Params [''M''] ''inline_mysql_mutex_lock(M)'')],
     if_dir (\<lambda>s. defined ''SAFE_MUTEX'' s \<or> defined ''HAVE_PSI_INTERFACE'' s)
       [define_macro ''mysql_mutex_trylock'' (Params [''M''] ''inline_mysql_mutex_trylock(M, __FILE__, __LINE__)'')]
       [define_macro ''mysql_mutex_trylock'' (Params [''M''] ''inline_mysql_mutex_trylock(M)'')],
     if_dir (\<lambda>s. defined ''SAFE_MUTEX'' s)
       [define_macro ''mysql_mutex_unlock'' (Params [''M''] ''inline_mysql_mutex_unlock(M, __FILE__, __LINE__)'')]
       [define_macro ''mysql_mutex_unlock'' (Params [''M''] ''inline_mysql_mutex_unlock(M)'')],
     if_dir (\<lambda>s. defined ''HAVE_PSI_INTERFACE'' s)
       [define_macro ''mysql_rwlock_init'' (Params [''K'', ''RW''] ''inline_mysql_rwlock_init(K, RW)'')]
       [define_macro ''mysql_rwlock_init'' (Params [''K'', ''RW''] ''inline_mysql_rwlock_init(RW)'')],
     if_dir (\<lambda>s. defined ''HAVE_PSI_INTERFACE'' s)
       [define_macro ''mysql_prlock_init'' (Params [''K'', ''RW''] ''inline_mysql_prlock_init(K, RW)'')]
       [define_macro ''mysql_prlock_init'' (Params [''K'', ''RW''] ''inline_mysql_prlock_init(RW)'')],
     define_macro ''mysql_rwlock_destroy'' (Params [''RW''] ''inline_mysql_rwlock_destroy(RW)''),
     define_macro ''mysql_prlock_destroy'' (Params [''RW''] ''inline_mysql_prlock_destroy(RW)''),
     if_dir (\<lambda>s. defined ''HAVE_PSI_INTERFACE'' s)
       [define_macro ''mysql_rwlock_rdlock'' (Params [''RW''] ''inline_mysql_rwlock_rdlock(RW, __FILE__, __LINE__)'')]
       [define_macro ''mysql_rwlock_rdlock'' (Params [''RW''] ''inline_mysql_rwlock_rdlock(RW)'')],
     if_dir (\<lambda>s. defined ''HAVE_PSI_INTERFACE'' s)
       [define_macro ''mysql_prlock_rdlock'' (Params [''RW''] ''inline_mysql_prlock_rdlock(RW, __FILE__, __LINE__)'')]
       [define_macro ''mysql_prlock_rdlock'' (Params [''RW''] ''inline_mysql_prlock_rdlock(RW)'')],
     if_dir (\<lambda>s. defined ''HAVE_PSI_INTERFACE'' s)
       [define_macro ''mysql_rwlock_wrlock'' (Params [''RW''] ''inline_mysql_rwlock_wrlock(RW, __FILE__, __LINE__)'')]
       [define_macro ''mysql_rwlock_wrlock'' (Params [''RW''] ''inline_mysql_rwlock_wrlock(RW)'')],
     if_dir (\<lambda>s. defined ''HAVE_PSI_INTERFACE'' s)
       [define_macro ''mysql_prlock_wrlock'' (Params [''RW''] ''inline_mysql_prlock_wrlock(RW, __FILE__, __LINE__)'')]
       [define_macro ''mysql_prlock_wrlock'' (Params [''RW''] ''inline_mysql_prlock_wrlock(RW)'')],
     if_dir (\<lambda>s. defined ''HAVE_PSI_INTERFACE'' s)
       [define_macro ''mysql_rwlock_tryrdlock'' (Params [''RW''] ''inline_mysql_rwlock_tryrdlock(RW, __FILE__, __LINE__)'')]
       [define_macro ''mysql_rwlock_tryrdlock'' (Params [''RW''] ''inline_mysql_rwlock_tryrdlock(RW)'')],
     if_dir (\<lambda>s. defined ''HAVE_PSI_INTERFACE'' s)
       [define_macro ''mysql_rwlock_trywrlock'' (Params [''RW''] ''inline_mysql_rwlock_trywrlock(RW, __FILE__, __LINE__)'')]
       [define_macro ''mysql_rwlock_trywrlock'' (Params [''RW''] ''inline_mysql_rwlock_trywrlock(RW)'')],
     define_macro ''mysql_rwlock_unlock'' (Params [''RW''] ''inline_mysql_rwlock_unlock(RW)''),
     define_macro ''mysql_prlock_unlock'' (Params [''RW''] ''inline_mysql_prlock_unlock(RW)''),
     if_dir (\<lambda>s. defined ''HAVE_PSI_INTERFACE'' s)
       [define_macro ''mysql_cond_init'' (Params [''K'', ''C'', ''A''] ''inline_mysql_cond_init(K, C, A)'')]
       [define_macro ''mysql_cond_init'' (Params [''K'', ''C'', ''A''] ''inline_mysql_cond_init(C, A)'')],
     define_macro ''mysql_cond_destroy'' (Params [''C''] ''inline_mysql_cond_destroy(C)''),
     if_dir (\<lambda>s. defined ''HAVE_PSI_INTERFACE'' s)
       [define_macro ''mysql_cond_wait'' (Params [''C'', ''M''] ''inline_mysql_cond_wait(C, M, __FILE__, __LINE__)'')]
       [define_macro ''mysql_cond_wait'' (Params [''C'', ''M''] ''inline_mysql_cond_wait(C, M)'')],
     if_dir (\<lambda>s. defined ''HAVE_PSI_INTERFACE'' s)
       [define_macro ''mysql_cond_timedwait'' (Params [''C'', ''M'', ''W''] ''inline_mysql_cond_timedwait(C, M, W, __FILE__, __LINE__)'')]
       [define_macro ''mysql_cond_timedwait'' (Params [''C'', ''M'', ''W''] ''inline_mysql_cond_timedwait(C, M, W)'')],
     define_macro ''mysql_cond_signal'' (Params [''C''] ''inline_mysql_cond_signal(C)''),
     define_macro ''mysql_cond_broadcast'' (Params [''C''] ''inline_mysql_cond_broadcast(C)''),
     if_dir (\<lambda>s. defined ''HAVE_PSI_INTERFACE'' s)
       [define_macro ''mysql_thread_create'' (Params [''K'', ''P1'', ''P2'', ''P3'', ''P4''] ''inline_mysql_thread_create(K, P1, P2, P3, P4)'')]
       [define_macro ''mysql_thread_create'' (Params [''K'', ''P1'', ''P2'', ''P3'', ''P4''] ''pthread_create(P1, P2, P3, P4)'')],
     if_dir (\<lambda>s. defined ''HAVE_PSI_INTERFACE'' s)
       [define_macro ''mysql_thread_set_psi_id'' (Params [''I''] ''inline_mysql_thread_set_psi_id(I)'')]
       [define_macro ''mysql_thread_set_psi_id'' (Params [''I''] ''do {} while (0)'')]]"

definition mysql_thread_h :: "directive" where
  "mysql_thread_h = if_dir (\<lambda>s. \<not> defined ''MYSQL_THREAD_H'' s)
    [define_macro ''MYSQL_THREAD_H'' (Tokens ''''),
     psi_h,
     if_dir (\<lambda>s. \<not> defined ''DISABLE_MYSQL_THREAD_H'' s) [thread_macros] []] []"

definition t_start :: "(string \<Rightarrow> directive) \<Rightarrow> directive" where
  "t_start sys = block
    [define_macro ''_my_pthread_h'' (Tokens ''''),
     my_global_h sys,
     if_dir (\<lambda>s. \<not> defined ''ETIME'' s)
       [define_macro ''ETIME'' (Tokens ''ETIMEDOUT'')] [],
     if_dir (\<lambda>s. defined ''__cplusplus'' s)
       [define_macro ''EXTERNC'' (Tokens ''extern \"C\"'')]
       [define_macro ''EXTERNC'' (Tokens '''')]]"

definition t_windows :: "directive" where
  "t_windows = block
    [typedef_base ''pthread_mutex_t'' (T_system ''CRITICAL_SECTION''),
     typedef_base ''pthread_t'' (T_system ''DWORD''),
     typedef_base ''pthread_mutexattr_t'' T_int,
     define_macro ''pthread_self'' (Params [] ''GetCurrentThreadId()''),
     define_macro ''pthread_handler_t'' (Tokens ''EXTERNC void * __cdecl''),
     define_macro ''MY_PTHREAD_ONCE_INIT'' (Number 0),
     define_macro ''MY_PTHREAD_ONCE_INPROGRESS'' (Number 1),
     define_macro ''MY_PTHREAD_ONCE_DONE'' (Number 2),
     define_macro ''set_timespec'' (Params [''ABSTIME'', ''SEC''] ''{ GetSystemTimeAsFileTime(&((ABSTIME).tv.ft)); (ABSTIME).tv.i64+= (__int64)(SEC)*10000000; (ABSTIME).max_timeout_msec= (long)((SEC)*1000); }''),
     define_macro ''set_timespec_nsec'' (Params [''ABSTIME'', ''NSEC''] ''{ GetSystemTimeAsFileTime(&((ABSTIME).tv.ft)); (ABSTIME).tv.i64+= (__int64)(NSEC)/100; (ABSTIME).max_timeout_msec= (long)((NSEC)/1000000); }''),
     define_macro ''cmp_timespec'' (Params [''TS1'', ''TS2''] ''((TS1.tv.i64 > TS2.tv.i64) ? 1 : ((TS1.tv.i64 < TS2.tv.i64) ? -1 : 0))''),
     if_dir (\<lambda>s. \<not> defined ''ETIMEDOUT'' s)
       [define_macro ''ETIMEDOUT'' (Number 145)] [],
     define_macro ''HAVE_LOCALTIME_R'' (Number 1),
     define_macro ''_REENTRANT'' (Number 1),
     define_macro ''HAVE_PTHREAD_ATTR_SETSTACKSIZE'' (Number 1),
     undef_macro ''SAFE_MUTEX'',
     define_macro ''pthread_key'' (Params [''T'', ''V''] ''DWORD V''),
     define_macro ''pthread_key_create'' (Params [''A'', ''B''] ''((*A=TlsAlloc())==0xFFFFFFFF)''),
     define_macro ''pthread_key_delete'' (Params [''A''] ''TlsFree(A)''),
     define_macro ''my_pthread_setspecific_ptr'' (Params [''T'', ''V''] ''(!TlsSetValue((T),(V)))''),
     define_macro ''pthread_setspecific'' (Params [''A'', ''B''] ''(!TlsSetValue((A),(B)))''),
     define_macro ''pthread_getspecific'' (Params [''A''] ''(TlsGetValue(A))''),
     define_macro ''my_pthread_getspecific'' (Params [''T'', ''A''] ''((T) TlsGetValue(A))''),
     define_macro ''my_pthread_getspecific_ptr'' (Params [''T'', ''V''] ''((T) TlsGetValue(V))''),
     define_macro ''pthread_equal'' (Params [''A'', ''B''] ''((A) == (B))''),
     define_macro ''pthread_mutex_init'' (Params [''A'', ''B''] ''(InitializeCriticalSection(A),0)''),
     define_macro ''pthread_mutex_lock'' (Params [''A''] ''(EnterCriticalSection(A),0)''),
     define_macro ''pthread_mutex_trylock'' (Params [''A''] ''win_pthread_mutex_trylock((A))''),
     define_macro ''pthread_mutex_unlock'' (Params [''A''] ''(LeaveCriticalSection(A), 0)''),
     define_macro ''pthread_mutex_destroy'' (Params [''A''] ''(DeleteCriticalSection(A), 0)''),
     define_macro ''pthread_kill'' (Params [''A'', ''B''] ''pthread_dummy((A) ? 0 : ESRCH)''),
     define_macro ''pthread_attr_setdetachstate'' (Params [''A'', ''B''] ''pthread_dummy(0)''),
     define_macro ''pthread_attr_setscope'' (Params [''A'', ''B''] ''''),
     define_macro ''pthread_detach_this_thread'' (Params [] ''''),
     define_macro ''pthread_condattr_init'' (Params [''A''] ''''),
     define_macro ''pthread_condattr_destroy'' (Params [''A''] ''''),
     define_macro ''pthread_yield'' (Params [] ''SwitchToThread()''),
     define_macro ''my_sigset'' (Params [''A'', ''B''] ''signal(A,B)'')]"

definition t_posix_names :: "(string \<Rightarrow> directive) \<Rightarrow> directive" where
  "t_posix_names sys = block
    [if_dir (\<lambda>s. defined ''HAVE_rts_threads'' s)
       [define_macro ''sigwait'' (Tokens ''org_sigwait''),
        sys ''signal.h'',
        undef_macro ''sigwait''] [],
     sys ''pthread.h'',
     if_dir (\<lambda>s. \<not> defined ''_REENTRANT'' s)
       [define_macro ''_REENTRANT'' (Tokens '''')] [],
     if_dir (\<lambda>s. defined ''HAVE_THR_SETCONCURRENCY'' s)
       [sys ''thread.h''] [],
     if_dir (\<lambda>s. defined ''HAVE_SCHED_H'' s)
       [sys ''sched.h''] [],
     if_dir (\<lambda>s. defined ''HAVE_SYNCH_H'' s)
       [sys ''synch.h''] [],
     define_macro ''pthread_key'' (Params [''T'', ''V''] ''pthread_key_t V''),
     define_macro ''my_pthread_getspecific_ptr'' (Params [''T'', ''V''] ''my_pthread_getspecific(T,(V))''),
     define_macro ''my_pthread_setspecific_ptr'' (Params [''T'', ''V''] ''pthread_setspecific(T,(void*) (V))''),
     define_macro ''pthread_detach_this_thread'' (Params [] ''''),
     define_macro ''pthread_handler_t'' (Tokens ''EXTERNC void *''),
     define_macro ''my_pthread_once_t'' (Tokens ''pthread_once_t''),
     if_dir (\<lambda>s. defined ''PTHREAD_ONCE_INITIALIZER'' s)
       [define_macro ''MY_PTHREAD_ONCE_INIT'' (Tokens ''PTHREAD_ONCE_INITIALIZER'')]
       [define_macro ''MY_PTHREAD_ONCE_INIT'' (Tokens ''PTHREAD_ONCE_INIT'')],
     define_macro ''my_pthread_once'' (Params [''C'', ''F''] ''pthread_once(C,F)''),
     if_dir (\<lambda>s. defined ''PTHREAD_SCOPE_GLOBAL'' s \<and> \<not> defined ''PTHREAD_SCOPE_SYSTEM'' s)
       [define_macro ''HAVE_rts_threads'' (Tokens ''''),
        define_macro ''pthread_sigmask'' (Params [''A'', ''B'', ''C''] ''sigprocmask((A),(B),(C))''),
        define_macro ''PTHREAD_CREATE_DETACHED'' (Tokens ''&my_pthread_create_detached''),
        define_macro ''PTHREAD_SCOPE_SYSTEM'' (Tokens ''PTHREAD_SCOPE_GLOBAL''),
        define_macro ''PTHREAD_SCOPE_PROCESS'' (Tokens ''PTHREAD_SCOPE_LOCAL''),
        define_macro ''USE_ALARM_THREAD'' (Tokens '''')] [],
     if_dir (\<lambda>s. \<not> defined ''HAVE_NONPOSIX_SIGWAIT'' s)
       [define_macro ''my_sigwait'' (Params [''A'', ''B''] ''sigwait((A),(B))'')] []]"

definition t_posix_functions :: "directive" where
  "t_posix_functions = block
    [if_dir (\<lambda>s. defined ''HAVE_NONPOSIX_PTHREAD_MUTEX_INIT'' s)
       [if_dir (\<lambda>s. \<not> defined ''SAFE_MUTEX'' s)
          [define_macro ''pthread_mutex_init'' (Params [''a'', ''b''] ''my_pthread_mutex_init((a),(b))'')] [],
        define_macro ''pthread_cond_init'' (Params [''a'', ''b''] ''my_pthread_cond_init((a),(b))'')] [],
     if_dir (\<lambda>s. defined ''HAVE_SIGTHREADMASK'' s \<and> \<not> defined ''HAVE_PTHREAD_SIGMASK'' s)
       [define_macro ''pthread_sigmask'' (Params [''A'', ''B'', ''C''] ''sigthreadmask((A),(B),(C))'')] [],
     if_dir (\<lambda>s. defined ''HAVE_SIGACTION'' s \<and> \<not> defined ''my_sigset'' s)
       [define_macro ''my_sigset'' (Params [''A'', ''B''] ''do { struct sigaction l_s; sigset_t l_set; DBUG_ASSERT((A) != 0); sigemptyset(&l_set); l_s.sa_handler = (B); l_s.sa_mask = l_set; l_s.sa_flags = 0; sigaction((A), &l_s, NULL); } while (0)'')]
       [if_dir (\<lambda>s. defined ''HAVE_SIGSET'' s \<and> \<not> defined ''my_sigset'' s)
       [define_macro ''my_sigset'' (Params [''A'', ''B''] ''sigset((A),(B))'')]
       [if_dir (\<lambda>s. \<not> defined ''my_sigset'' s)
       [define_macro ''my_sigset'' (Params [''A'', ''B''] ''signal((A),(B))'')] []]],
     if_dir (\<lambda>s. \<not> defined ''HAVE_PTHREAD_ATTR_SETSCOPE'' s \<or> defined ''HAVE_DEC_3_2_THREADS'' s)
       [define_macro ''pthread_attr_setscope'' (Params [''A'', ''B''] ''''),
        undef_macro ''HAVE_GETHOSTBYADDR_R''] [],
     if_dir (\<lambda>s. defined ''HAVE_BROKEN_PTHREAD_COND_TIMEDWAIT'' s \<and> \<not> defined ''SAFE_MUTEX'' s)
       [define_macro ''pthread_cond_timedwait'' (Params [''A'', ''B'', ''C''] ''my_pthread_cond_timedwait((A),(B),(C))'')] [],
     if_dir (\<lambda>s. \<not> defined ''HAVE_NONPOSIX_PTHREAD_GETSPECIFIC'' s)
       [define_macro ''my_pthread_getspecific'' (Params [''A'', ''B''] ''((A) pthread_getspecific(B))'')]
       [define_macro ''my_pthread_getspecific'' (Params [''A'', ''B''] ''((A) my_pthread_getspecific_imp(B))'')],
     if_dir (\<lambda>s. defined ''HAVE_PTHREAD_CONDATTR_CREATE'' s)
       [define_macro ''pthread_condattr_init'' (Tokens ''pthread_condattr_create''),
        define_macro ''pthread_condattr_destroy'' (Tokens ''pthread_condattr_delete'')] [],
     if_dir (\<lambda>s. \<not> defined ''HAVE_PTHREAD_KEY_DELETE'' s \<and> \<not> defined ''pthread_key_delete'' s)
       [define_macro ''pthread_key_delete'' (Params [''A''] ''pthread_dummy(0)'')] []]"

definition t_posix_wrappers :: "directive" where
  "t_posix_wrappers = block
    [if_dir (\<lambda>s. defined ''HAVE_CTHREADS_WRAPPER'' s)
       [define_macro ''pthread_cond_destroy'' (Params [''A''] ''pthread_dummy(0)''),
        define_macro ''pthread_mutex_destroy'' (Params [''A''] ''pthread_dummy(0)''),
        define_macro ''pthread_attr_delete'' (Params [''A''] ''pthread_dummy(0)''),
        define_macro ''pthread_condattr_delete'' (Params [''A''] ''pthread_dummy(0)''),
        define_macro ''pthread_attr_setstacksize'' (Params [''A'', ''B''] ''pthread_dummy(0)''),
        define_macro ''pthread_equal'' (Params [''A'', ''B''] ''((A) == (B))''),
        define_macro ''pthread_cond_timedwait'' (Params [''a'', ''b'', ''c''] ''pthread_cond_wait((a),(b))''),
        define_macro ''pthread_attr_init'' (Params [''A''] ''pthread_attr_create(A)''),
        define_macro ''pthread_attr_destroy'' (Params [''A''] ''pthread_attr_delete(A)''),
        define_macro ''pthread_attr_setdetachstate'' (Params [''A'', ''B''] ''pthread_dummy(0)''),
        define_macro ''pthread_create'' (Params [''A'', ''B'', ''C'', ''D''] ''pthread_create((A),*(B),(C),(D))''),
        define_macro ''pthread_sigmask'' (Params [''A'', ''B'', ''C''] ''sigprocmask((A),(B),(C))''),
        define_macro ''pthread_kill'' (Params [''A'', ''B''] ''pthread_dummy((A) ? 0 : ESRCH)''),
        undef_macro ''pthread_detach_this_thread'',
        define_macro ''pthread_detach_this_thread'' (Params [] ''{ pthread_t tmp=pthread_self() ; pthread_detach(&tmp); }'')] [],
     if_dir (\<lambda>s. defined ''HAVE_DARWIN5_THREADS'' s)
       [define_macro ''pthread_sigmask'' (Params [''A'', ''B'', ''C''] ''sigprocmask((A),(B),(C))''),
        define_macro ''pthread_kill'' (Params [''A'', ''B''] ''pthread_dummy((A) ? 0 : ESRCH)''),
        define_macro ''pthread_condattr_init'' (Params [''A''] ''pthread_dummy(0)''),
        define_macro ''pthread_condattr_destroy'' (Params [''A''] ''pthread_dummy(0)''),
        undef_macro ''pthread_detach_this_thread'',
        define_macro ''pthread_detach_this_thread'' (Params [] ''{ pthread_t tmp=pthread_self() ; pthread_detach(tmp); }'')] [],
     if_dir (\<lambda>s. ((defined ''HAVE_PTHREAD_ATTR_CREATE'' s \<and> \<not> defined ''HAVE_SIGWAIT'' s) \<or> defined ''HAVE_DEC_3_2_THREADS'' s) \<and> \<not> defined ''HAVE_CTHREADS_WRAPPER'' s)
       [define_macro ''pthread_key_create'' (Params [''A'', ''B''] ''pthread_keycreate(A,(B) ? (pthread_destructor_t) (B) : (pthread_destructor_t) pthread_dummy)''),
        define_macro ''pthread_attr_init'' (Params [''A''] ''pthread_attr_create(A)''),
        define_macro ''pthread_attr_destroy'' (Params [''A''] ''pthread_attr_delete(A)''),
        define_macro ''pthread_attr_setdetachstate'' (Params [''A'', ''B''] ''pthread_dummy(0)''),
        define_macro ''pthread_create'' (Params [''A'', ''B'', ''C'', ''D''] ''pthread_create((A),*(B),(C),(D))''),
        if_dir (\<lambda>s. \<not> defined ''pthread_sigmask'' s)
          [define_macro ''pthread_sigmask'' (Params [''A'', ''B'', ''C''] ''sigprocmask((A),(B),(C))'')] [],
        define_macro ''pthread_kill'' (Params [''A'', ''B''] ''pthread_dummy((A) ? 0 : ESRCH)''),
        undef_macro ''pthread_detach_this_thread'',
        define_macro ''pthread_detach_this_thread'' (Params [] ''{ pthread_t tmp=pthread_self() ; pthread_detach(&tmp); }'')]
       [define_macro ''HAVE_PTHREAD_KILL'' (Tokens '''')]]"

definition t_platform :: "(string \<Rightarrow> directive) \<Rightarrow> directive" where
  "t_platform sys = if_dir (\<lambda>s. defined ''__WIN__'' s) [t_windows] [t_posix_names sys, t_posix_functions, t_posix_wrappers]"

definition t_remap :: "directive" where
  "t_remap = block
    [if_dir (\<lambda>s. defined ''HPUX10'' s \<and> \<not> defined ''DONT_REMAP_PTHREAD_FUNCTIONS'' s)
       [undef_macro ''pthread_cond_timedwait'',
        define_macro ''pthread_cond_timedwait'' (Params [''a'', ''b'', ''c''] ''my_pthread_cond_timedwait((a),(b),(c))'')] [],
     if_dir (\<lambda>s. defined ''HPUX10'' s)
       [define_macro ''pthread_attr_getstacksize'' (Params [''A'', ''B''] ''my_pthread_attr_getstacksize(A,B)'')] [],
     if_dir (\<lambda>s. defined ''HAVE_POSIX1003_4a_MUTEX'' s \<and> \<not> defined ''DONT_REMAP_PTHREAD_FUNCTIONS'' s)
       [undef_macro ''pthread_mutex_trylock'',
        define_macro ''pthread_mutex_trylock'' (Params [''a''] ''my_pthread_mutex_trylock((a))'')] []]"

definition t_times :: "directive" where
  "t_times = block
    [if_dir (\<lambda>s. \<not> defined ''HAVE_PTHREAD_YIELD_ONE_ARG'' s \<and> \<not> defined ''HAVE_PTHREAD_YIELD_ZERO_ARG'' s)
       [if_dir (\<lambda>s. defined ''HAVE_SCHED_YIELD'' s)
          [define_macro ''pthread_yield'' (Params [] ''sched_yield()'')]
          [if_dir (\<lambda>s. defined ''HAVE_PTHREAD_YIELD_NP'' s)
          [define_macro ''pthread_yield'' (Params [] ''pthread_yield_np()'')]
          [if_dir (\<lambda>s. defined ''HAVE_THR_YIELD'' s)
          [define_macro ''pthread_yield'' (Params [] ''thr_yield()'')] []]]] [],
     if_dir (\<lambda>s. defined ''HAVE_TIMESPEC_TS_SEC'' s)
       [if_dir (\<lambda>s. \<not> defined ''set_timespec'' s)
          [define_macro ''set_timespec'' (Params [''ABSTIME'', ''SEC''] ''{ (ABSTIME).ts_sec=time(0) + (time_t) (SEC); (ABSTIME).ts_nsec=0; }'')] [],
        if_dir (\<lambda>s. \<not> defined ''set_timespec_nsec'' s)
          [define_macro ''set_timespec_nsec'' (Params [''ABSTIME'', ''NSEC''] ''{ ulonglong now= my_getsystime() + (NSEC/100); (ABSTIME).ts_sec= (now / ULL(10000000)); (ABSTIME).ts_nsec= (now % ULL(10000000) * 100 + ((NSEC) % 100)); }'')] []]
       [if_dir (\<lambda>s. \<not> defined ''set_timespec'' s)
          [define_macro ''set_timespec'' (Params [''ABSTIME'', ''SEC''] ''{ struct timeval tv; gettimeofday(&tv,0); (ABSTIME).tv_sec=tv.tv_sec+(time_t) (SEC); (ABSTIME).tv_nsec=tv.tv_usec*1000; }'')] [],
        if_dir (\<lambda>s. \<not> defined ''set_timespec_nsec'' s)
          [define_macro ''set_timespec_nsec'' (Params [''ABSTIME'', ''NSEC''] ''{ ulonglong now= my_getsystime() + (NSEC/100); (ABSTIME).tv_sec= (time_t) (now / ULL(10000000)); (ABSTIME).tv_nsec= (long) (now % ULL(10000000) * 100 + ((NSEC) % 100)); }'')] []],
     if_dir (\<lambda>s. defined ''HAVE_TIMESPEC_TS_SEC'' s)
       [if_dir (\<lambda>s. \<not> defined ''cmp_timespec'' s)
          [define_macro ''cmp_timespec'' (Params [''TS1'', ''TS2''] ''((TS1.ts_sec > TS2.ts_sec || (TS1.ts_sec == TS2.ts_sec && TS1.ts_nsec > TS2.ts_nsec)) ? 1 : ((TS1.ts_sec < TS2.ts_sec || (TS1.ts_sec == TS2.ts_sec && TS1.ts_nsec < TS2.ts_nsec)) ? -1 : 0))'')] []]
       [if_dir (\<lambda>s. \<not> defined ''cmp_timespec'' s)
          [define_macro ''cmp_timespec'' (Params [''TS1'', ''TS2''] ''((TS1.tv_sec > TS2.tv_sec || (TS1.tv_sec == TS2.tv_sec && TS1.tv_nsec > TS2.tv_nsec)) ? 1 : ((TS1.tv_sec < TS2.tv_sec || (TS1.tv_sec == TS2.tv_sec && TS1.tv_nsec < TS2.tv_nsec)) ? -1 : 0))'')] []]]"

definition t_safe_mutex :: "directive" where
  "t_safe_mutex = block
    [if_dir (\<lambda>s. defined ''SAFE_MUTEX'' s)
       [undef_macro ''pthread_mutex_init'',
        undef_macro ''pthread_mutex_lock'',
        undef_macro ''pthread_mutex_unlock'',
        undef_macro ''pthread_mutex_destroy'',
        undef_macro ''pthread_mutex_wait'',
        undef_macro ''pthread_mutex_timedwait'',
        undef_macro ''pthread_mutex_t'',
        undef_macro ''pthread_cond_wait'',
        undef_macro ''pthread_cond_timedwait'',
        undef_macro ''pthread_mutex_trylock'',
        define_macro ''pthread_mutex_init'' (Params [''A'', ''B''] ''safe_mutex_init((A),(B),__FILE__,__LINE__)''),
        define_macro ''pthread_mutex_lock'' (Params [''A''] ''safe_mutex_lock((A), FALSE, __FILE__, __LINE__)''),
        define_macro ''pthread_mutex_unlock'' (Params [''A''] ''safe_mutex_unlock((A),__FILE__,__LINE__)''),
        define_macro ''pthread_mutex_destroy'' (Params [''A''] ''safe_mutex_destroy((A),__FILE__,__LINE__)''),
        define_macro ''pthread_cond_wait'' (Params [''A'', ''B''] ''safe_cond_wait((A),(B),__FILE__,__LINE__)''),
        define_macro ''pthread_cond_timedwait'' (Params [''A'', ''B'', ''C''] ''safe_cond_timedwait((A),(B),(C),__FILE__,__LINE__)''),
        define_macro ''pthread_mutex_trylock'' (Params [''A''] ''safe_mutex_lock((A), TRUE, __FILE__, __LINE__)''),
        define_macro ''pthread_mutex_t'' (Tokens ''safe_mutex_t''),
        define_macro ''safe_mutex_assert_owner'' (Params [''mp''] ''DBUG_ASSERT((mp)->count > 0 && pthread_equal(pthread_self(), (mp)->thread))''),
        define_macro ''safe_mutex_assert_not_owner'' (Params [''mp''] ''DBUG_ASSERT(! (mp)->count || ! pthread_equal(pthread_self(), (mp)->thread))'')]
       [define_macro ''safe_mutex_assert_owner'' (Params [''mp''] ''''),
        define_macro ''safe_mutex_assert_not_owner'' (Params [''mp''] '''')]]"

definition t_fastmutex :: "directive" where
  "t_fastmutex = block
    [if_dir (\<lambda>s. defined ''MY_PTHREAD_FASTMUTEX'' s \<and> \<not> defined ''SAFE_MUTEX'' s)
       [undef_macro ''pthread_mutex_init'',
        undef_macro ''pthread_mutex_lock'',
        undef_macro ''pthread_mutex_unlock'',
        undef_macro ''pthread_mutex_destroy'',
        undef_macro ''pthread_mutex_wait'',
        undef_macro ''pthread_mutex_timedwait'',
        undef_macro ''pthread_mutex_t'',
        undef_macro ''pthread_cond_wait'',
        undef_macro ''pthread_cond_timedwait'',
        undef_macro ''pthread_mutex_trylock'',
        define_macro ''pthread_mutex_init'' (Params [''A'', ''B''] ''my_pthread_fastmutex_init((A),(B))''),
        define_macro ''pthread_mutex_lock'' (Params [''A''] ''my_pthread_fastmutex_lock(A)''),
        define_macro ''pthread_mutex_unlock'' (Params [''A''] ''pthread_mutex_unlock(&(A)->mutex)''),
        define_macro ''pthread_mutex_destroy'' (Params [''A''] ''pthread_mutex_destroy(&(A)->mutex)''),
        define_macro ''pthread_cond_wait'' (Params [''A'', ''B''] ''pthread_cond_wait((A),&(B)->mutex)''),
        define_macro ''pthread_cond_timedwait'' (Params [''A'', ''B'', ''C''] ''pthread_cond_timedwait((A),&(B)->mutex,(C))''),
        define_macro ''pthread_mutex_trylock'' (Params [''A''] ''pthread_mutex_trylock(&(A)->mutex)''),
        define_macro ''pthread_mutex_t'' (Tokens ''my_pthread_fastmutex_t'')] []]"

definition rw_over_mutexes :: "directive" where
  "rw_over_mutexes = block
    [define_macro ''rw_lock_t'' (Tokens ''pthread_mutex_t''),
     define_macro ''my_rwlock_init'' (Params [''A'', ''B''] ''pthread_mutex_init((A),(B))''),
     define_macro ''rw_rdlock'' (Params [''A''] ''pthread_mutex_lock((A))''),
     define_macro ''rw_wrlock'' (Params [''A''] ''pthread_mutex_lock((A))''),
     define_macro ''rw_tryrdlock'' (Params [''A''] ''pthread_mutex_trylock((A))''),
     define_macro ''rw_trywrlock'' (Params [''A''] ''pthread_mutex_trylock((A))''),
     define_macro ''rw_unlock'' (Params [''A''] ''pthread_mutex_unlock((A))''),
     define_macro ''rwlock_destroy'' (Params [''A''] ''pthread_mutex_destroy((A))'')]"

definition rw_over_pthread :: "directive" where
  "rw_over_pthread = block
    [define_macro ''rw_lock_t'' (Tokens ''pthread_rwlock_t''),
     define_macro ''my_rwlock_init'' (Params [''A'', ''B''] ''pthread_rwlock_init((A),(B))''),
     define_macro ''rw_rdlock'' (Params [''A''] ''pthread_rwlock_rdlock(A)''),
     define_macro ''rw_wrlock'' (Params [''A''] ''pthread_rwlock_wrlock(A)''),
     define_macro ''rw_tryrdlock'' (Params [''A''] ''pthread_rwlock_tryrdlock((A))''),
     define_macro ''rw_trywrlock'' (Params [''A''] ''pthread_rwlock_trywrlock((A))''),
     define_macro ''rw_unlock'' (Params [''A''] ''pthread_rwlock_unlock(A)''),
     define_macro ''rwlock_destroy'' (Params [''A''] ''pthread_rwlock_destroy(A)'')]"

definition rw_over_system :: "directive" where
  "rw_over_system = block
    [if_dir (\<lambda>s. defined ''HAVE_RWLOCK_T'' s)
       [define_macro ''rw_lock_t'' (Tokens ''rwlock_t'')] [],
     define_macro ''my_rwlock_init'' (Params [''A'', ''B''] ''rwlock_init((A),USYNC_THREAD,0)'')]"

definition rw_over_own :: "directive" where
  "rw_over_own = block
    [define_macro ''NEED_MY_RW_LOCK'' (Number 1),
     define_macro ''rw_lock_t'' (Tokens ''my_rw_lock_t''),
     define_macro ''my_rwlock_init'' (Params [''A'', ''B''] ''my_rw_init((A))''),
     define_macro ''rw_rdlock'' (Params [''A''] ''my_rw_rdlock((A))''),
     define_macro ''rw_wrlock'' (Params [''A''] ''my_rw_wrlock((A))''),
     define_macro ''rw_tryrdlock'' (Params [''A''] ''my_rw_tryrdlock((A))''),
     define_macro ''rw_trywrlock'' (Params [''A''] ''my_rw_trywrlock((A))''),
     define_macro ''rw_unlock'' (Params [''A''] ''my_rw_unlock((A))''),
     define_macro ''rwlock_destroy'' (Params [''A''] ''my_rw_destroy((A))''),
     define_macro ''rw_lock_assert_write_owner'' (Params [''A''] ''my_rw_lock_assert_write_owner((A))''),
     define_macro ''rw_lock_assert_not_write_owner'' (Params [''A''] ''my_rw_lock_assert_not_write_owner((A))'')]"

definition t_rwlocks :: "directive" where
  "t_rwlocks = block
    [if_dir (\<lambda>s. defined ''HAVE_BROKEN_RWLOCK'' s)
       [undef_macro ''HAVE_PTHREAD_RWLOCK_RDLOCK'',
        undef_macro ''HAVE_RWLOCK_INIT'',
        undef_macro ''HAVE_RWLOCK_T''] [],
     if_dir (\<lambda>s. defined ''USE_MUTEX_INSTEAD_OF_RW_LOCKS'' s) [rw_over_mutexes]
       [if_dir (\<lambda>s. defined ''HAVE_PTHREAD_RWLOCK_RDLOCK'' s) [rw_over_pthread]
          [if_dir (\<lambda>s. defined ''HAVE_RWLOCK_INIT'' s) [rw_over_system] [rw_over_own]]]]"

definition t_settings :: "directive" where
  "t_settings = block
    [if_dir (\<lambda>s. defined ''SAFE_MUTEX'' s)
       [define_macro ''rw_pr_lock_assert_write_owner'' (Params [''A''] ''DBUG_ASSERT((A)->active_writer && pthread_equal(pthread_self(), (A)->writer_thread))''),
        define_macro ''rw_pr_lock_assert_not_write_owner'' (Params [''A''] ''DBUG_ASSERT(! (A)->active_writer || ! pthread_equal(pthread_self(), (A)->writer_thread))'')]
       [define_macro ''rw_pr_lock_assert_write_owner'' (Params [''A''] ''''),
        define_macro ''rw_pr_lock_assert_not_write_owner'' (Params [''A''] '''')],
     if_dir (\<lambda>s. defined ''NEED_MY_RW_LOCK'' s)
       [if_dir (\<lambda>s. defined ''SAFE_MUTEX'' s)
          [define_macro ''my_rw_lock_assert_write_owner'' (Params [''A''] ''DBUG_ASSERT((A)->state == -1 && pthread_equal(pthread_self(), (A)->write_thread))''),
           define_macro ''my_rw_lock_assert_not_write_owner'' (Params [''A''] ''DBUG_ASSERT((A)->state >= 0 || ! pthread_equal(pthread_self(), (A)->write_thread))'')]
          [define_macro ''my_rw_lock_assert_write_owner'' (Params [''A''] ''''),
           define_macro ''my_rw_lock_assert_not_write_owner'' (Params [''A''] '''')]] [],
     define_macro ''GETHOSTBYADDR_BUFF_SIZE'' (Number 2048),
     if_dir (\<lambda>s. \<not> defined ''HAVE_THR_SETCONCURRENCY'' s)
       [define_macro ''thr_setconcurrency'' (Params [''A''] ''pthread_dummy(0)'')] [],
     if_dir (\<lambda>s. \<not> defined ''HAVE_PTHREAD_ATTR_SETSTACKSIZE'' s \<and> \<not> defined ''pthread_attr_setstacksize'' s)
       [define_macro ''pthread_attr_setstacksize'' (Params [''A'', ''B''] ''pthread_dummy(0)'')] [],
     define_macro ''MY_MUTEX_INIT_SLOW'' (Tokens ''NULL''),
     if_dir (\<lambda>s. defined ''PTHREAD_ADAPTIVE_MUTEX_INITIALIZER_NP'' s)
       [define_macro ''MY_MUTEX_INIT_FAST'' (Tokens ''&my_fast_mutexattr'')]
       [define_macro ''MY_MUTEX_INIT_FAST'' (Tokens ''NULL'')],
     if_dir (\<lambda>s. defined ''PTHREAD_ERRORCHECK_MUTEX_INITIALIZER_NP'' s)
       [define_macro ''MY_MUTEX_INIT_ERRCHK'' (Tokens ''&my_errorcheck_mutexattr'')]
       [define_macro ''MY_MUTEX_INIT_ERRCHK'' (Tokens ''NULL'')],
     if_dir (\<lambda>s. \<not> defined ''ESRCH'' s)
       [define_macro ''ESRCH'' (Number 1)] [],
     typedef_alias ''my_thread_id'' ''ulong'',
     define_macro ''THREAD_NAME_SIZE'' (Number 10),
     if_dir (\<lambda>s. \<not> defined ''DEFAULT_THREAD_STACK'' s)
       [if_dir (\<lambda>s. val ''SIZEOF_CHARP'' s > 4)
          [define_macro ''DEFAULT_THREAD_STACK'' (Tokens ''(256*1024L)'')]
          [define_macro ''DEFAULT_THREAD_STACK'' (Tokens ''(192*1024)'')]] []]"

definition t_counters :: "directive" where
  "t_counters = block
    [define_macro ''INSTRUMENT_ME'' (Number 0),
     define_macro ''my_thread_var'' (Tokens ''(_my_thread_var())''),
     define_macro ''my_errno'' (Tokens ''my_thread_var->thr_errno''),
     define_macro ''THD_LIB_OTHER'' (Number 1),
     define_macro ''THD_LIB_NPTL'' (Number 2),
     define_macro ''THD_LIB_LT'' (Number 4),
     if_dir (\<lambda>s. \<not> defined ''thread_safe_increment'' s)
       [if_dir (\<lambda>s. defined ''_WIN32'' s)
          [define_macro ''thread_safe_increment'' (Params [''V'', ''L''] ''InterlockedIncrement((long*) &(V))''),
           define_macro ''thread_safe_decrement'' (Params [''V'', ''L''] ''InterlockedDecrement((long*) &(V))'')]
          [define_macro ''thread_safe_increment'' (Params [''V'', ''L''] ''(mysql_mutex_lock((L)), (V)++, mysql_mutex_unlock((L)))''),
           define_macro ''thread_safe_decrement'' (Params [''V'', ''L''] ''(mysql_mutex_lock((L)), (V)--, mysql_mutex_unlock((L)))'')]] [],
     if_dir (\<lambda>s. \<not> defined ''thread_safe_add'' s)
       [if_dir (\<lambda>s. defined ''_WIN32'' s)
          [define_macro ''thread_safe_add'' (Params [''V'', ''C'', ''L''] ''InterlockedExchangeAdd((long*) &(V),(C))''),
           define_macro ''thread_safe_sub'' (Params [''V'', ''C'', ''L''] ''InterlockedExchangeAdd((long*) &(V),-(long) (C))'')]
          [define_macro ''thread_safe_add'' (Params [''V'', ''C'', ''L''] ''(mysql_mutex_lock((L)), (V)+=(C), mysql_mutex_unlock((L)))''),
           define_macro ''thread_safe_sub'' (Params [''V'', ''C'', ''L''] ''(mysql_mutex_lock((L)), (V)-=(C), mysql_mutex_unlock((L)))'')]] [],
     if_dir (\<lambda>s. defined ''SAFE_STATISTICS'' s)
       [define_macro ''statistic_increment'' (Params [''V'', ''L''] ''thread_safe_increment((V),(L))''),
        define_macro ''statistic_decrement'' (Params [''V'', ''L''] ''thread_safe_decrement((V),(L))''),
        define_macro ''statistic_add'' (Params [''V'', ''C'', ''L''] ''thread_safe_add((V),(C),(L))''),
        define_macro ''statistic_sub'' (Params [''V'', ''C'', ''L''] ''thread_safe_sub((V),(C),(L))'')]
       [define_macro ''statistic_decrement'' (Params [''V'', ''L''] ''(V)--''),
        define_macro ''statistic_increment'' (Params [''V'', ''L''] ''(V)++''),
        define_macro ''statistic_add'' (Params [''V'', ''C'', ''L''] ''(V)+=(C)''),
        define_macro ''statistic_sub'' (Params [''V'', ''C'', ''L''] ''(V)-=(C)'')],
     define_macro ''status_var_increment'' (Params [''V''] ''(V)++''),
     define_macro ''status_var_decrement'' (Params [''V''] ''(V)--''),
     define_macro ''status_var_add'' (Params [''V'', ''C''] ''(V)+=(C)''),
     define_macro ''status_var_sub'' (Params [''V'', ''C''] ''(V)-=(C)'')]"

definition my_pthread_h :: "(string \<Rightarrow> directive) \<Rightarrow> directive" where
  "my_pthread_h sys = if_dir (\<lambda>s. \<not> defined ''_my_pthread_h'' s)
    [t_start sys, t_platform sys, t_remap, t_times, t_safe_mutex, t_fastmutex, t_rwlocks, t_settings, mysql_thread_h, t_counters] []"

section \<open>Reading a macro as a call\<close>

text \<open>The names of the operations with one argument, and the macros that choose among their texts.\<close>

definition lock_names :: "string list" where
  "lock_names = [''pthread_mutex_lock'', ''pthread_mutex_trylock'', ''pthread_mutex_unlock'', ''pthread_mutex_destroy'',
     ''rw_rdlock'', ''rw_wrlock'', ''rw_tryrdlock'', ''rw_trywrlock'', ''rw_unlock'', ''rwlock_destroy'']"

definition lock_flags :: "string list" where
  "lock_flags = [''_global_h'', ''__WIN__'', ''SAFE_MUTEX'', ''MY_PTHREAD_FASTMUTEX'', ''USE_MUTEX_INSTEAD_OF_RW_LOCKS'', ''HAVE_BROKEN_RWLOCK'',
     ''HAVE_PTHREAD_RWLOCK_RDLOCK'', ''HAVE_RWLOCK_INIT'', ''HAVE_CTHREADS_WRAPPER'', ''HAVE_POSIX1003_4a_MUTEX'', ''DONT_REMAP_PTHREAD_FUNCTIONS'']"

text \<open>What a call with the argument \<^verbatim>\<open>A\<close> does: of a function of that name, and of the texts of macros.\<close>

definition own_functions :: "'w native \<Rightarrow> (string \<times> (addr \<Rightarrow> ('w, int) prog)) list" where
  "own_functions n = [(''pthread_mutex_lock'', posix_mutex_lock n), (''pthread_mutex_trylock'', posix_mutex_trylock n),
     (''pthread_mutex_unlock'', posix_mutex_unlock n), (''pthread_mutex_destroy'', posix_mutex_destroy n), (''rw_rdlock'', fn_rw_rdlock n),
     (''rw_wrlock'', fn_rw_wrlock n), (''rw_tryrdlock'', fn_rw_tryrdlock n), (''rw_trywrlock'', fn_rw_trywrlock n), (''rw_unlock'', fn_rw_unlock n),
     (''rwlock_destroy'', fn_rwlock_destroy n)]"

definition call_texts :: "'w native \<Rightarrow> site \<Rightarrow> (string \<times> (addr \<Rightarrow> ('w, int) prog)) list" where
  "call_texts n place = [(''(EnterCriticalSection(A),0)'', \<lambda>A. do { EnterCriticalSection n A; State_Monad.return 0 }),
     (''(LeaveCriticalSection(A), 0)'', \<lambda>A. do { LeaveCriticalSection n A; State_Monad.return 0 }),
     (''(DeleteCriticalSection(A), 0)'', \<lambda>A. do { DeleteCriticalSection n A; State_Monad.return 0 }),
     (''win_pthread_mutex_trylock((A))'', win_pthread_mutex_trylock n), (''my_pthread_mutex_trylock((a))'', my_pthread_mutex_trylock n),
     (''pthread_dummy(0)'', \<lambda>A. pthread_dummy n 0),
     (''safe_mutex_lock((A), FALSE, __FILE__, __LINE__)'', \<lambda>A. fn_safe_mutex_lock n A False (fst place) (snd place)),
     (''safe_mutex_lock((A), TRUE, __FILE__, __LINE__)'', \<lambda>A. fn_safe_mutex_lock n A True (fst place) (snd place)),
     (''safe_mutex_unlock((A),__FILE__,__LINE__)'', \<lambda>A. fn_safe_mutex_unlock n A (fst place) (snd place)),
     (''safe_mutex_destroy((A),__FILE__,__LINE__)'', \<lambda>A. fn_safe_mutex_destroy n A (fst place) (snd place)),
     (''my_pthread_fastmutex_lock(A)'', my_pthread_fastmutex_lock n),
     (''pthread_mutex_unlock(&(A)->mutex)'', \<lambda>A. posix_mutex_unlock n (fastmutex_mutex A)),
     (''pthread_mutex_destroy(&(A)->mutex)'', \<lambda>A. posix_mutex_destroy n (fastmutex_mutex A)),
     (''pthread_mutex_trylock(&(A)->mutex)'', \<lambda>A. posix_mutex_trylock n (fastmutex_mutex A)),
     (''pthread_rwlock_rdlock(A)'', pthread_rwlock_rdlock n), (''pthread_rwlock_wrlock(A)'', pthread_rwlock_wrlock n),
     (''pthread_rwlock_tryrdlock((A))'', pthread_rwlock_tryrdlock n), (''pthread_rwlock_trywrlock((A))'', pthread_rwlock_trywrlock n),
     (''pthread_rwlock_unlock(A)'', pthread_rwlock_unlock n), (''pthread_rwlock_destroy(A)'', pthread_rwlock_destroy n),
     (''my_rw_rdlock((A))'', my_rw_rdlock n), (''my_rw_wrlock((A))'', my_rw_wrlock n), (''my_rw_tryrdlock((A))'', my_rw_tryrdlock n),
     (''my_rw_trywrlock((A))'', my_rw_trywrlock n), (''my_rw_unlock((A))'', my_rw_unlock n), (''my_rw_destroy((A))'', my_rw_destroy n)]"

text \<open>A text that is a use of another macro is expanded again; a macro is not expanded within its own text.\<close>

definition uses_of_macros :: "(string \<times> string) list" where
  "uses_of_macros = [(''pthread_mutex_lock((A))'', ''pthread_mutex_lock''), (''pthread_mutex_trylock((A))'', ''pthread_mutex_trylock''),
     (''pthread_mutex_unlock((A))'', ''pthread_mutex_unlock''), (''pthread_mutex_destroy((A))'', ''pthread_mutex_destroy'')]"

definition macro_call :: "'w native \<Rightarrow> site \<Rightarrow> string \<Rightarrow> macro_text option \<Rightarrow> (addr \<Rightarrow> ('w, int) prog) option" where
  "macro_call n place name t = (case t of Some (Params ps body) \<Rightarrow> map_of (call_texts n place) body | _ \<Rightarrow> map_of (own_functions n) name)"

definition lock_call :: "pp \<Rightarrow> 'w native \<Rightarrow> site \<Rightarrow> string \<Rightarrow> (addr \<Rightarrow> ('w, int) prog) option" where
  "lock_call s n place name = (case macros s name of
     Some (Params ps body) \<Rightarrow> (case map_of uses_of_macros body of
         Some name' \<Rightarrow> macro_call n place name' (macros s name') | None \<Rightarrow> macro_call n place name (macros s name))
   | t \<Rightarrow> macro_call n place name t)"

text \<open>The build that the defined macros describe; the fields that only concern conditions and threads are left open.\<close>

definition describes :: "pp \<Rightarrow> build \<Rightarrow> bool" where
  "describes s b \<longleftrightarrow> win32 b = defined ''__WIN__'' s \<and> def_safe_mutex b = defined ''SAFE_MUTEX'' s \<and> def_fastmutex b = defined ''MY_PTHREAD_FASTMUTEX'' s \<and>
     def_mutex_for_rw b = defined ''USE_MUTEX_INSTEAD_OF_RW_LOCKS'' s \<and> def_broken_rwlock b = defined ''HAVE_BROKEN_RWLOCK'' s \<and>
     def_pthread_rwlock b = defined ''HAVE_PTHREAD_RWLOCK_RDLOCK'' s \<and> def_rwlock_init b = defined ''HAVE_RWLOCK_INIT'' s \<and>
     def_cthreads b = defined ''HAVE_CTHREADS_WRAPPER'' s \<and>
     def_posix4a_mutex b = (defined ''HAVE_POSIX1003_4a_MUTEX'' s \<and> \<not> defined ''DONT_REMAP_PTHREAD_FUNCTIONS'' s)"

definition watched_names :: "string set" where
  "watched_names = set (lock_names @ lock_flags)"

text \<open>Headers of the system do not stop and leave these names alone.\<close>

definition thread_headers_ok :: "(string \<Rightarrow> directive) \<Rightarrow> bool" where
  "thread_headers_ok sys \<longleftrightarrow> (\<forall>h. total (sys h) \<and> keeps_all watched_names (sys h))"

section \<open>What each stage does\<close>

lemmas watched_defs = watched_names_def lock_names_def lock_flags_def

lemma thread_sys_rules: "thread_headers_ok sys \<Longrightarrow> total (sys h)" "thread_headers_ok sys \<Longrightarrow> keeps_all watched_names (sys h)"
  by (simp_all add: thread_headers_ok_def)

lemma quiet_stages:
  "keeps_all watched_names t_times" "total t_times" "keeps_all watched_names t_settings" "total t_settings"
  "keeps_all watched_names t_counters" "total t_counters" "keeps_all watched_names thread_macros" "total thread_macros"
  by (simp_all add: t_times_def t_settings_def t_counters_def thread_macros_def keeps_all_rules total_rules watched_defs)

lemma psi_stage:
  "keeps_all watched_names psi_versions" "total psi_versions"
  by (simp_all add: psi_versions_def keeps_all_rules total_rules watched_defs)

lemma thread_h_frame: "keeps_all watched_names psi_h" "keeps_all watched_names mysql_thread_h"
proof -
  have nm: "''MYSQL_PERFORMANCE_SCHEMA_INTERFACE_H'' \<notin> watched_names" "''MYSQL_THREAD_H'' \<notin> watched_names" by (simp_all add: watched_defs)
  show "keeps_all watched_names psi_h" by (simp add: psi_h_def psi_stage keeps_all_rules nm)
  then show "keeps_all watched_names mysql_thread_h" by (simp add: mysql_thread_h_def quiet_stages keeps_all_rules nm)
qed

lemma thread_h_runs:
  assumes "defined ''_global_h'' s"
  shows "\<exists>s'. mysql_thread_h s = Inr s'"
proof -
  obtain t where t: "define_macro ''MYSQL_THREAD_H'' (Tokens '''') s = Inr t" "defined ''_global_h'' t"
    using assms by (simp add: define_macro_def defined_def)
  have "\<exists>u. psi_h t = Inr u"
  proof -
    obtain v where "psi_versions (t\<lparr>macros := (macros t)(''MYSQL_PERFORMANCE_SCHEMA_INTERFACE_H'' \<mapsto> Tokens '''')\<rparr>) = Inr v"
      by (rule totalE [OF psi_stage(2)])
    with t(2) show ?thesis by (auto simp: psi_h_def if_dir_def define_macro_def defined_def)
  qed
  then obtain u where "psi_h t = Inr u" by blast
  moreover obtain v where "if_dir (\<lambda>s. \<not> defined ''DISABLE_MYSQL_THREAD_H'' s) [thread_macros] [] u = Inr v"
    by (rule totalE [of "if_dir (\<lambda>s. \<not> defined ''DISABLE_MYSQL_THREAD_H'' s) [thread_macros] []"]) (simp_all add: total_rules quiet_stages)
  ultimately show ?thesis using t(1) by (simp add: mysql_thread_h_def if_dir_def)
qed

lemma sets_nth:
  assumes "block ps s = Inr s'" "n < length ps" "\<And>u v. (ps ! n) u = Inr v \<Longrightarrow> macros v m = x" "list_all (keeps_macro m) (drop (Suc n) ps)"
  shows "macros s' m = x"
proof -
  have "ps = take n ps @ ps ! n # drop (Suc n) ps" by (rule id_take_nth_drop [OF assms(2)])
  with assms(1) have "block (take n ps @ ps ! n # drop (Suc n) ps) s = Inr s'" by simp
  then obtain u v where u: "(ps ! n) u = Inr v" "block (drop (Suc n) ps) v = Inr s'" by (auto simp only: block_Inr_append block_Inr_Cons)
  from keepsD [OF keeps_rules(7) [OF assms(4)] u(2)] assms(3) [OF u(1)] show ?thesis by simp
qed

lemma define_sets: "define_macro m t u = Inr v \<Longrightarrow> macros v m = Some t" "undef_macro m u = Inr v \<Longrightarrow> macros v m = None"
  by (auto simp: define_macro_def undef_macro_def)

lemma if_sets_nth:
  assumes "if_dir c ps qs s = Inr s'" "n < length ps" "ps ! n = define_macro m t" "list_all (keeps_macro m) (drop (Suc n) ps)"
    and "list_all (keeps_macro m) qs"
  shows "macros s' m = (if c s then Some t else macros s m)"
proof (cases "c s")
  case True
  then have "block ps s = Inr s'" using assms(1) by (simp add: if_dir_def)
  from sets_nth [OF this assms(2) _ assms(4)] True assms(3) show ?thesis by (simp add: define_sets)
next
  case False
  then have "block qs s = Inr s'" using assms(1) by (simp add: if_dir_def)
  with False keepsD [OF keeps_rules(7) [OF assms(5)]] show ?thesis by simp
qed

lemma windows_effect:
  assumes "t_windows s = Inr s'"
  shows "macros s' ''SAFE_MUTEX'' = None"
    "macros s' ''pthread_mutex_lock'' = Some (Params [''A''] ''(EnterCriticalSection(A),0)'')"
    "macros s' ''pthread_mutex_trylock'' = Some (Params [''A''] ''win_pthread_mutex_trylock((A))'')"
    "macros s' ''pthread_mutex_unlock'' = Some (Params [''A''] ''(LeaveCriticalSection(A), 0)'')"
    "macros s' ''pthread_mutex_destroy'' = Some (Params [''A''] ''(DeleteCriticalSection(A), 0)'')"
proof goal_cases
  case 1
  show ?case by (rule sets_nth [OF assms [unfolded t_windows_def], where n = 15]) (simp_all add: define_sets keeps_rules)
next
  case 2
  show ?case by (rule sets_nth [OF assms [unfolded t_windows_def], where n = 26]) (simp_all add: define_sets keeps_rules)
next
  case 3
  show ?case by (rule sets_nth [OF assms [unfolded t_windows_def], where n = 27]) (simp_all add: define_sets keeps_rules)
next
  case 4
  show ?case by (rule sets_nth [OF assms [unfolded t_windows_def], where n = 28]) (simp_all add: define_sets keeps_rules)
next
  case 5
  show ?case by (rule sets_nth [OF assms [unfolded t_windows_def], where n = 29]) (simp_all add: define_sets keeps_rules)
qed

abbreviation mutex_names :: "string set" where
  "mutex_names \<equiv> {''pthread_mutex_lock'', ''pthread_mutex_trylock'', ''pthread_mutex_unlock'', ''pthread_mutex_destroy''}"

lemma windows_frame: "keeps_all (watched_names - insert ''SAFE_MUTEX'' mutex_names) t_windows" "total t_windows"
  by (simp_all add: t_windows_def keeps_all_rules total_rules watched_defs)

lemma safe_effect:
  assumes "t_safe_mutex s = Inr s'"
  shows "macros s' ''pthread_mutex_lock'' = (if defined ''SAFE_MUTEX'' s then Some (Params [''A''] ''safe_mutex_lock((A), FALSE, __FILE__, __LINE__)'')
      else macros s ''pthread_mutex_lock'')"
    "macros s' ''pthread_mutex_trylock'' = (if defined ''SAFE_MUTEX'' s then Some (Params [''A''] ''safe_mutex_lock((A), TRUE, __FILE__, __LINE__)'')
      else macros s ''pthread_mutex_trylock'')"
    "macros s' ''pthread_mutex_unlock'' = (if defined ''SAFE_MUTEX'' s then Some (Params [''A''] ''safe_mutex_unlock((A),__FILE__,__LINE__)'')
      else macros s ''pthread_mutex_unlock'')"
    "macros s' ''pthread_mutex_destroy'' = (if defined ''SAFE_MUTEX'' s then Some (Params [''A''] ''safe_mutex_destroy((A),__FILE__,__LINE__)'')
      else macros s ''pthread_mutex_destroy'')"
proof goal_cases
  case 1
  show ?case by (rule if_sets_nth [OF assms [unfolded t_safe_mutex_def block_one], where n = 11]) (simp_all add: keeps_rules)
next
  case 2
  show ?case by (rule if_sets_nth [OF assms [unfolded t_safe_mutex_def block_one], where n = 16]) (simp_all add: keeps_rules)
next
  case 3
  show ?case by (rule if_sets_nth [OF assms [unfolded t_safe_mutex_def block_one], where n = 12]) (simp_all add: keeps_rules)
next
  case 4
  show ?case by (rule if_sets_nth [OF assms [unfolded t_safe_mutex_def block_one], where n = 13]) (simp_all add: keeps_rules)
qed

lemma fast_effect:
  assumes "t_fastmutex s = Inr s'"
  shows "macros s' ''pthread_mutex_lock'' = (if defined ''MY_PTHREAD_FASTMUTEX'' s \<and> \<not> defined ''SAFE_MUTEX'' s
      then Some (Params [''A''] ''my_pthread_fastmutex_lock(A)'') else macros s ''pthread_mutex_lock'')"
    "macros s' ''pthread_mutex_trylock'' = (if defined ''MY_PTHREAD_FASTMUTEX'' s \<and> \<not> defined ''SAFE_MUTEX'' s
      then Some (Params [''A''] ''pthread_mutex_trylock(&(A)->mutex)'') else macros s ''pthread_mutex_trylock'')"
    "macros s' ''pthread_mutex_unlock'' = (if defined ''MY_PTHREAD_FASTMUTEX'' s \<and> \<not> defined ''SAFE_MUTEX'' s
      then Some (Params [''A''] ''pthread_mutex_unlock(&(A)->mutex)'') else macros s ''pthread_mutex_unlock'')"
    "macros s' ''pthread_mutex_destroy'' = (if defined ''MY_PTHREAD_FASTMUTEX'' s \<and> \<not> defined ''SAFE_MUTEX'' s
      then Some (Params [''A''] ''pthread_mutex_destroy(&(A)->mutex)'') else macros s ''pthread_mutex_destroy'')"
proof goal_cases
  case 1
  show ?case by (rule if_sets_nth [OF assms [unfolded t_fastmutex_def block_one], where n = 11]) (simp_all add: keeps_rules)
next
  case 2
  show ?case by (rule if_sets_nth [OF assms [unfolded t_fastmutex_def block_one], where n = 16]) (simp_all add: keeps_rules)
next
  case 3
  show ?case by (rule if_sets_nth [OF assms [unfolded t_fastmutex_def block_one], where n = 12]) (simp_all add: keeps_rules)
next
  case 4
  show ?case by (rule if_sets_nth [OF assms [unfolded t_fastmutex_def block_one], where n = 13]) (simp_all add: keeps_rules)
qed

lemma mutex_frames:
  "keeps_all (watched_names - mutex_names) t_safe_mutex" "total t_safe_mutex"
  "keeps_all (watched_names - mutex_names) t_fastmutex" "total t_fastmutex"
  "keeps_all (watched_names - {''pthread_mutex_trylock''}) t_remap" "total t_remap"
  by (simp_all add: t_safe_mutex_def t_fastmutex_def t_remap_def keeps_all_rules total_rules watched_defs)

lemma rw_over_mutexes_effect:
  assumes "rw_over_mutexes s = Inr s'"
  shows "macros s' ''rw_rdlock'' = Some (Params [''A''] ''pthread_mutex_lock((A))'')"
    "macros s' ''rw_wrlock'' = Some (Params [''A''] ''pthread_mutex_lock((A))'')"
    "macros s' ''rw_tryrdlock'' = Some (Params [''A''] ''pthread_mutex_trylock((A))'')"
    "macros s' ''rw_trywrlock'' = Some (Params [''A''] ''pthread_mutex_trylock((A))'')"
    "macros s' ''rw_unlock'' = Some (Params [''A''] ''pthread_mutex_unlock((A))'')"
    "macros s' ''rwlock_destroy'' = Some (Params [''A''] ''pthread_mutex_destroy((A))'')"
proof goal_cases
  case 1
  show ?case by (rule sets_nth [OF assms [unfolded rw_over_mutexes_def], where n = 2]) (simp_all add: define_sets keeps_rules)
next
  case 2
  show ?case by (rule sets_nth [OF assms [unfolded rw_over_mutexes_def], where n = 3]) (simp_all add: define_sets keeps_rules)
next
  case 3
  show ?case by (rule sets_nth [OF assms [unfolded rw_over_mutexes_def], where n = 4]) (simp_all add: define_sets keeps_rules)
next
  case 4
  show ?case by (rule sets_nth [OF assms [unfolded rw_over_mutexes_def], where n = 5]) (simp_all add: define_sets keeps_rules)
next
  case 5
  show ?case by (rule sets_nth [OF assms [unfolded rw_over_mutexes_def], where n = 6]) (simp_all add: define_sets keeps_rules)
next
  case 6
  show ?case by (rule sets_nth [OF assms [unfolded rw_over_mutexes_def], where n = 7]) (simp_all add: define_sets keeps_rules)
qed

lemma rw_over_pthread_effect:
  assumes "rw_over_pthread s = Inr s'"
  shows "macros s' ''rw_rdlock'' = Some (Params [''A''] ''pthread_rwlock_rdlock(A)'')"
    "macros s' ''rw_wrlock'' = Some (Params [''A''] ''pthread_rwlock_wrlock(A)'')"
    "macros s' ''rw_tryrdlock'' = Some (Params [''A''] ''pthread_rwlock_tryrdlock((A))'')"
    "macros s' ''rw_trywrlock'' = Some (Params [''A''] ''pthread_rwlock_trywrlock((A))'')"
    "macros s' ''rw_unlock'' = Some (Params [''A''] ''pthread_rwlock_unlock(A)'')"
    "macros s' ''rwlock_destroy'' = Some (Params [''A''] ''pthread_rwlock_destroy(A)'')"
proof goal_cases
  case 1
  show ?case by (rule sets_nth [OF assms [unfolded rw_over_pthread_def], where n = 2]) (simp_all add: define_sets keeps_rules)
next
  case 2
  show ?case by (rule sets_nth [OF assms [unfolded rw_over_pthread_def], where n = 3]) (simp_all add: define_sets keeps_rules)
next
  case 3
  show ?case by (rule sets_nth [OF assms [unfolded rw_over_pthread_def], where n = 4]) (simp_all add: define_sets keeps_rules)
next
  case 4
  show ?case by (rule sets_nth [OF assms [unfolded rw_over_pthread_def], where n = 5]) (simp_all add: define_sets keeps_rules)
next
  case 5
  show ?case by (rule sets_nth [OF assms [unfolded rw_over_pthread_def], where n = 6]) (simp_all add: define_sets keeps_rules)
next
  case 6
  show ?case by (rule sets_nth [OF assms [unfolded rw_over_pthread_def], where n = 7]) (simp_all add: define_sets keeps_rules)
qed

lemma rw_over_own_effect:
  assumes "rw_over_own s = Inr s'"
  shows "macros s' ''rw_rdlock'' = Some (Params [''A''] ''my_rw_rdlock((A))'')"
    "macros s' ''rw_wrlock'' = Some (Params [''A''] ''my_rw_wrlock((A))'')"
    "macros s' ''rw_tryrdlock'' = Some (Params [''A''] ''my_rw_tryrdlock((A))'')"
    "macros s' ''rw_trywrlock'' = Some (Params [''A''] ''my_rw_trywrlock((A))'')"
    "macros s' ''rw_unlock'' = Some (Params [''A''] ''my_rw_unlock((A))'')"
    "macros s' ''rwlock_destroy'' = Some (Params [''A''] ''my_rw_destroy((A))'')"
proof goal_cases
  case 1
  show ?case by (rule sets_nth [OF assms [unfolded rw_over_own_def], where n = 3]) (simp_all add: define_sets keeps_rules)
next
  case 2
  show ?case by (rule sets_nth [OF assms [unfolded rw_over_own_def], where n = 4]) (simp_all add: define_sets keeps_rules)
next
  case 3
  show ?case by (rule sets_nth [OF assms [unfolded rw_over_own_def], where n = 5]) (simp_all add: define_sets keeps_rules)
next
  case 4
  show ?case by (rule sets_nth [OF assms [unfolded rw_over_own_def], where n = 6]) (simp_all add: define_sets keeps_rules)
next
  case 5
  show ?case by (rule sets_nth [OF assms [unfolded rw_over_own_def], where n = 7]) (simp_all add: define_sets keeps_rules)
next
  case 6
  show ?case by (rule sets_nth [OF assms [unfolded rw_over_own_def], where n = 8]) (simp_all add: define_sets keeps_rules)
qed

abbreviation rw_names :: "string set" where
  "rw_names \<equiv> {''rw_rdlock'', ''rw_wrlock'', ''rw_tryrdlock'', ''rw_trywrlock'', ''rw_unlock'', ''rwlock_destroy''}"

lemma rw_frames:
  "keeps_all (watched_names - rw_names) rw_over_mutexes" "total rw_over_mutexes"
  "keeps_all (watched_names - rw_names) rw_over_pthread" "total rw_over_pthread"
  "keeps_all watched_names rw_over_system" "total rw_over_system"
  "keeps_all (watched_names - rw_names) rw_over_own" "total rw_over_own"
  by (simp_all add: rw_over_mutexes_def rw_over_pthread_def rw_over_system_def rw_over_own_def keeps_all_rules total_rules watched_defs)

text \<open>Which of the four is taken.\<close>

lemma rwlocks_choice:
  assumes "t_rwlocks s = Inr s'"
  obtains u where "\<And>m. m \<in> watched_names - {''HAVE_PTHREAD_RWLOCK_RDLOCK'', ''HAVE_RWLOCK_INIT''} \<Longrightarrow> macros u m = macros s m"
    "(if defined ''USE_MUTEX_INSTEAD_OF_RW_LOCKS'' s then rw_over_mutexes
      else if defined ''HAVE_PTHREAD_RWLOCK_RDLOCK'' s \<and> \<not> defined ''HAVE_BROKEN_RWLOCK'' s then rw_over_pthread
      else if defined ''HAVE_RWLOCK_INIT'' s \<and> \<not> defined ''HAVE_BROKEN_RWLOCK'' s then rw_over_system else rw_over_own) u = Inr s'"
proof -
  let ?broken = "if_dir (\<lambda>s. defined ''HAVE_BROKEN_RWLOCK'' s)
    [undef_macro ''HAVE_PTHREAD_RWLOCK_RDLOCK'', undef_macro ''HAVE_RWLOCK_INIT'', undef_macro ''HAVE_RWLOCK_T''] []"
  from assms obtain u where u: "?broken s = Inr u" and s': "if_dir (\<lambda>s. defined ''USE_MUTEX_INSTEAD_OF_RW_LOCKS'' s) [rw_over_mutexes]
       [if_dir (\<lambda>s. defined ''HAVE_PTHREAD_RWLOCK_RDLOCK'' s) [rw_over_pthread]
          [if_dir (\<lambda>s. defined ''HAVE_RWLOCK_INIT'' s) [rw_over_system] [rw_over_own]]] u = Inr s'"
    unfolding t_rwlocks_def block_Inr_Cons by auto
  have "keeps_all (watched_names - {''HAVE_PTHREAD_RWLOCK_RDLOCK'', ''HAVE_RWLOCK_INIT''}) ?broken"
    by (simp add: keeps_all_rules watched_defs)
  note keep = keeps_allD [OF this u]
  moreover have "defined ''HAVE_PTHREAD_RWLOCK_RDLOCK'' u \<longleftrightarrow> defined ''HAVE_PTHREAD_RWLOCK_RDLOCK'' s \<and> \<not> defined ''HAVE_BROKEN_RWLOCK'' s"
    "defined ''HAVE_RWLOCK_INIT'' u \<longleftrightarrow> defined ''HAVE_RWLOCK_INIT'' s \<and> \<not> defined ''HAVE_BROKEN_RWLOCK'' s"
    using u by (auto simp: if_dir_def undef_macro_def defined_def split: if_splits)
  moreover have "defined ''USE_MUTEX_INSTEAD_OF_RW_LOCKS'' u \<longleftrightarrow> defined ''USE_MUTEX_INSTEAD_OF_RW_LOCKS'' s"
    using keep [of "''USE_MUTEX_INSTEAD_OF_RW_LOCKS''"] by (simp add: watched_defs defined_def)
  moreover have choice: "if_dir c [p] [q] u = (if c u then p else q) u" for c p q by (simp add: if_dir_def block_one del: block.simps)
  ultimately show ?thesis using s' by (intro that [of u]) (auto simp: choice split: if_splits)
qed

lemma rwlocks_runs: "total t_rwlocks"
  by (simp add: t_rwlocks_def total_rules rw_frames)

text \<open>The rest of the platform.\<close>

lemma posix_frames:
  assumes "thread_headers_ok sys"
  shows "keeps_all watched_names (t_posix_names sys)" "total (t_posix_names sys)"
    "keeps_all watched_names t_posix_functions" "total t_posix_functions"
    "keeps_all (watched_names - {''pthread_mutex_destroy''}) t_posix_wrappers" "total t_posix_wrappers"
proof -
  have nm: "\<not> m \<in> watched_names" if "m \<in> {''sigwait'', ''_REENTRANT'', ''pthread_key'', ''my_pthread_getspecific_ptr'', ''my_pthread_setspecific_ptr'',
      ''pthread_detach_this_thread'', ''pthread_handler_t'', ''my_pthread_once_t'', ''MY_PTHREAD_ONCE_INIT'', ''my_pthread_once'', ''HAVE_rts_threads'',
      ''pthread_sigmask'', ''PTHREAD_CREATE_DETACHED'', ''PTHREAD_SCOPE_SYSTEM'', ''PTHREAD_SCOPE_PROCESS'', ''USE_ALARM_THREAD'', ''my_sigwait''}" for m
    using that by (auto simp: watched_defs)
  show "keeps_all watched_names (t_posix_names sys)" "total (t_posix_names sys)"
    by (simp_all add: t_posix_names_def keeps_all_rules total_rules thread_sys_rules [OF assms] nm)
  show "keeps_all watched_names t_posix_functions" "total t_posix_functions"
    "keeps_all (watched_names - {''pthread_mutex_destroy''}) t_posix_wrappers" "total t_posix_wrappers"
    by (simp_all add: t_posix_functions_def t_posix_wrappers_def keeps_all_rules total_rules watched_defs)
qed

lemma wrappers_effect:
  assumes "t_posix_wrappers s = Inr s'"
  shows "macros s' ''pthread_mutex_destroy'' = (if defined ''HAVE_CTHREADS_WRAPPER'' s then Some (Params [''A''] ''pthread_dummy(0)'')
    else macros s ''pthread_mutex_destroy'')"
proof -
  have "\<exists>p ps. t_posix_wrappers = block (p # ps) \<and> list_all (keeps_macro ''pthread_mutex_destroy'') ps \<and>
    (\<forall>u. p s = Inr u \<longrightarrow> macros u ''pthread_mutex_destroy'' = (if defined ''HAVE_CTHREADS_WRAPPER'' s then Some (Params [''A''] ''pthread_dummy(0)'')
      else macros s ''pthread_mutex_destroy''))"
    unfolding t_posix_wrappers_def
    by (intro exI conjI, rule refl, simp add: keeps_rules, intro allI impI, rule if_sets_nth [where n = 1]) (assumption | simp add: keeps_rules)+
  then obtain p ps where w: "t_posix_wrappers = block (p # ps)" and ps: "list_all (keeps_macro ''pthread_mutex_destroy'') ps"
    and p: "\<And>u. p s = Inr u \<Longrightarrow> macros u ''pthread_mutex_destroy'' = (if defined ''HAVE_CTHREADS_WRAPPER'' s
      then Some (Params [''A''] ''pthread_dummy(0)'') else macros s ''pthread_mutex_destroy'')"
    by metis
  from assms [unfolded w block_Inr_Cons] obtain u where u: "p s = Inr u" "block ps u = Inr s'" by blast
  from keepsD [OF keeps_rules(7) [OF ps] u(2)] p [OF u(1)] show ?thesis by simp
qed

lemma remap_effect:
  assumes "t_remap s = Inr s'"
  shows "macros s' ''pthread_mutex_trylock'' = (if defined ''HAVE_POSIX1003_4a_MUTEX'' s \<and> \<not> defined ''DONT_REMAP_PTHREAD_FUNCTIONS'' s
    then Some (Params [''a''] ''my_pthread_mutex_trylock((a))'') else macros s ''pthread_mutex_trylock'')"
proof -
  let ?lock = "if_dir (\<lambda>s. defined ''HAVE_POSIX1003_4a_MUTEX'' s \<and> \<not> defined ''DONT_REMAP_PTHREAD_FUNCTIONS'' s)
    [undef_macro ''pthread_mutex_trylock'', define_macro ''pthread_mutex_trylock'' (Params [''a''] ''my_pthread_mutex_trylock((a))'')] []"
  let ?names = "{''HAVE_POSIX1003_4a_MUTEX'', ''DONT_REMAP_PTHREAD_FUNCTIONS'', ''pthread_mutex_trylock''}"
  let ?hpux = "[if_dir (\<lambda>s. defined ''HPUX10'' s \<and> \<not> defined ''DONT_REMAP_PTHREAD_FUNCTIONS'' s)
       [undef_macro ''pthread_cond_timedwait'',
        define_macro ''pthread_cond_timedwait'' (Params [''a'', ''b'', ''c''] ''my_pthread_cond_timedwait((a),(b),(c))'')] [],
     if_dir (\<lambda>s. defined ''HPUX10'' s)
       [define_macro ''pthread_attr_getstacksize'' (Params [''A'', ''B''] ''my_pthread_attr_getstacksize(A,B)'')] []]"
  have r: "t_remap = block (?hpux @ [?lock])" by (simp only: t_remap_def append.simps)
  have ps: "list_all (keeps_all ?names) ?hpux" by (simp add: keeps_all_rules)
  from assms [unfolded r block_Inr_append block_one] obtain u where u: "block ?hpux s = Inr u" "?lock u = Inr s'" by blast
  note keep = keeps_allD [OF keeps_all_rules(7) [OF ps] u(1)]
  have "macros s' ''pthread_mutex_trylock'' = (if defined ''HAVE_POSIX1003_4a_MUTEX'' u \<and> \<not> defined ''DONT_REMAP_PTHREAD_FUNCTIONS'' u
    then Some (Params [''a''] ''my_pthread_mutex_trylock((a))'') else macros u ''pthread_mutex_trylock'')"
    by (rule if_sets_nth [OF u(2), where n = 1]) (simp_all add: keeps_rules)
  then show ?thesis using keep by (simp add: defined_def)
qed

lemma start_effect:
  assumes "defined ''_global_h'' s"
  shows "\<exists>s'. t_start sys s = Inr s'" "t_start sys s = Inr s' \<Longrightarrow> m \<in> watched_names \<Longrightarrow> macros s' m = macros s m"
proof -
  obtain t where t: "define_macro ''_my_pthread_h'' (Tokens '''') s = Inr t" by (simp add: define_macro_def)
  then have g: "my_global_h sys t = Inr t" using assms by (auto simp: my_global_h_def if_dir_def define_macro_def defined_def)
  let ?rest = "[if_dir (\<lambda>s. \<not> defined ''ETIME'' s) [define_macro ''ETIME'' (Tokens ''ETIMEDOUT'')] [],
     if_dir (\<lambda>s. defined ''__cplusplus'' s) [define_macro ''EXTERNC'' (Tokens ''extern \"C\"'')] [define_macro ''EXTERNC'' (Tokens '''')]]"
  have run: "t_start sys s = block ?rest t" using t g by (simp add: t_start_def)
  have "total (block ?rest)" by (simp add: total_rules)
  then obtain v where v: "block ?rest t = Inr v" by (rule totalE)
  with run show "\<exists>s'. t_start sys s = Inr s'" by simp
  have "keeps_all watched_names (block ?rest)" by (simp add: keeps_all_rules watched_defs)
  moreover have "m \<in> watched_names \<Longrightarrow> macros t m = macros s m" using t by (auto simp: define_macro_def watched_defs)
  ultimately show "macros s' m = macros s m" if "t_start sys s = Inr s'" "m \<in> watched_names"
    using keeps_allD [of watched_names "block ?rest" t s' m] that unfolding run by simp
qed

lemma watched_mem:
  "''pthread_mutex_lock'' \<in> watched_names" "''pthread_mutex_trylock'' \<in> watched_names" "''pthread_mutex_unlock'' \<in> watched_names"
  "''pthread_mutex_destroy'' \<in> watched_names" "''rw_rdlock'' \<in> watched_names" "''rw_wrlock'' \<in> watched_names" "''rw_tryrdlock'' \<in> watched_names"
  "''rw_trywrlock'' \<in> watched_names" "''rw_unlock'' \<in> watched_names" "''rwlock_destroy'' \<in> watched_names" "''__WIN__'' \<in> watched_names"
  "''SAFE_MUTEX'' \<in> watched_names" "''MY_PTHREAD_FASTMUTEX'' \<in> watched_names" "''USE_MUTEX_INSTEAD_OF_RW_LOCKS'' \<in> watched_names"
  "''HAVE_BROKEN_RWLOCK'' \<in> watched_names" "''HAVE_PTHREAD_RWLOCK_RDLOCK'' \<in> watched_names" "''HAVE_RWLOCK_INIT'' \<in> watched_names"
  "''HAVE_CTHREADS_WRAPPER'' \<in> watched_names" "''HAVE_POSIX1003_4a_MUTEX'' \<in> watched_names" "''DONT_REMAP_PTHREAD_FUNCTIONS'' \<in> watched_names"
  "''_global_h'' \<in> watched_names"
  by (simp_all add: watched_defs)

lemma platform_effect:
  assumes "thread_headers_ok sys" "t_platform sys s = Inr s'"
  shows "\<And>m. m \<in> watched_names - insert ''SAFE_MUTEX'' mutex_names \<Longrightarrow> macros s' m = macros s m"
    "macros s' ''SAFE_MUTEX'' = (if defined ''__WIN__'' s then None else macros s ''SAFE_MUTEX'')"
    "macros s' ''pthread_mutex_lock'' = (if defined ''__WIN__'' s then Some (Params [''A''] ''(EnterCriticalSection(A),0)'')
       else macros s ''pthread_mutex_lock'')"
    "macros s' ''pthread_mutex_trylock'' = (if defined ''__WIN__'' s then Some (Params [''A''] ''win_pthread_mutex_trylock((A))'')
       else macros s ''pthread_mutex_trylock'')"
    "macros s' ''pthread_mutex_unlock'' = (if defined ''__WIN__'' s then Some (Params [''A''] ''(LeaveCriticalSection(A), 0)'')
       else macros s ''pthread_mutex_unlock'')"
    "macros s' ''pthread_mutex_destroy'' = (if defined ''__WIN__'' s then Some (Params [''A''] ''(DeleteCriticalSection(A), 0)'')
       else if defined ''HAVE_CTHREADS_WRAPPER'' s then Some (Params [''A''] ''pthread_dummy(0)'') else macros s ''pthread_mutex_destroy'')"
proof -
  let ?W = "defined ''__WIN__'' s"
  have w: "t_windows s = Inr s'" if ?W
    using that assms(2) by (simp add: t_platform_def if_dir_def block_one del: block.simps)
  note W = keeps_allD [OF windows_frame(1) w] windows_effect [OF w]
  obtain u where u: "\<not> ?W \<Longrightarrow> t_posix_wrappers u = Inr s'" and tu: "\<And>m. \<not> ?W \<Longrightarrow> m \<in> watched_names \<Longrightarrow> macros u m = macros s m"
  proof (cases ?W)
    case False
    then have "block [t_posix_names sys, t_posix_functions, t_posix_wrappers] s = Inr s'" using assms(2) by (simp only: t_platform_def if_dir_def if_False)
    then obtain t u where p: "t_posix_names sys s = Inr t" "t_posix_functions t = Inr u" "t_posix_wrappers u = Inr s'"
      by (auto simp only: block_Inr_Cons block.simps(1) sum.inject)
    note frames = posix_frames [OF assms(1)]
    show ?thesis using keeps_allD [OF frames(1) p(1)] keeps_allD [OF frames(3) p(2)] p(3) by (intro that [of u]) simp_all
  qed simp
  note P = keeps_allD [OF posix_frames(5) [OF assms(1)] u] wrappers_effect [OF u] tu
  show "\<And>m. m \<in> watched_names - insert ''SAFE_MUTEX'' mutex_names \<Longrightarrow> macros s' m = macros s m"
    by (cases ?W) (simp_all add: W P)
  show "macros s' ''SAFE_MUTEX'' = (if ?W then None else macros s ''SAFE_MUTEX'')" by (cases ?W) (simp_all add: W P watched_mem defined_def)
  show "macros s' ''pthread_mutex_lock'' = (if ?W then Some (Params [''A''] ''(EnterCriticalSection(A),0)'') else macros s ''pthread_mutex_lock'')"
    by (cases ?W) (simp_all add: W P watched_mem defined_def)
  show "macros s' ''pthread_mutex_trylock'' = (if ?W then Some (Params [''A''] ''win_pthread_mutex_trylock((A))'') else macros s ''pthread_mutex_trylock'')"
    by (cases ?W) (simp_all add: W P watched_mem defined_def)
  show "macros s' ''pthread_mutex_unlock'' = (if ?W then Some (Params [''A''] ''(LeaveCriticalSection(A), 0)'') else macros s ''pthread_mutex_unlock'')"
    by (cases ?W) (simp_all add: W P watched_mem defined_def)
  show "macros s' ''pthread_mutex_destroy'' = (if ?W then Some (Params [''A''] ''(DeleteCriticalSection(A), 0)'')
      else if defined ''HAVE_CTHREADS_WRAPPER'' s then Some (Params [''A''] ''pthread_dummy(0)'') else macros s ''pthread_mutex_destroy'')"
    by (cases ?W) (simp_all add: W P watched_mem defined_def)
qed

lemma my_pthread_stages:
  assumes "thread_headers_ok sys" "defined ''_global_h'' s" "\<not> defined ''_my_pthread_h'' s"
  obtains s' where "my_pthread_h sys s = Inr s'"
proof -
  obtain s1 where s1: "t_start sys s = Inr s1" using start_effect(1) [OF assms(2)] by blast
  have "total (t_platform sys)" unfolding t_platform_def
    by (simp add: total_rules windows_frame posix_frames [OF assms(1)])
  then obtain s2 where s2: "t_platform sys s1 = Inr s2" by (rule totalE)
  obtain s3 where s3: "t_remap s2 = Inr s3" by (rule totalE [OF mutex_frames(6)])
  obtain s4 where s4: "t_times s3 = Inr s4" by (rule totalE [OF quiet_stages(2)])
  obtain s5 where s5: "t_safe_mutex s4 = Inr s5" by (rule totalE [OF mutex_frames(2)])
  obtain s6 where s6: "t_fastmutex s5 = Inr s6" by (rule totalE [OF mutex_frames(4)])
  obtain s7 where s7: "t_rwlocks s6 = Inr s7" by (rule totalE [OF rwlocks_runs])
  obtain s8 where s8: "t_settings s7 = Inr s8" by (rule totalE [OF quiet_stages(4)])
  have rw: "keeps_macro ''_global_h'' t_rwlocks"
    by (simp add: t_rwlocks_def rw_over_mutexes_def rw_over_pthread_def rw_over_system_def rw_over_own_def keeps_rules)
  have "macros s8 ''_global_h'' = macros s ''_global_h''"
    using keepsD [OF rw s7] start_effect(2) [OF assms(2) s1, of "''_global_h''"] platform_effect(1) [OF assms(1) s2, of "''_global_h''"]
      keeps_allD [OF mutex_frames(5) s3, of "''_global_h''"] keeps_allD [OF quiet_stages(1) s4, of "''_global_h''"]
      keeps_allD [OF mutex_frames(1) s5, of "''_global_h''"] keeps_allD [OF mutex_frames(3) s6, of "''_global_h''"]
      keeps_allD [OF quiet_stages(3) s8, of "''_global_h''"] by (simp add: watched_mem)
  with assms(2) obtain s9 where s9: "mysql_thread_h s8 = Inr s9" using thread_h_runs [of s8] by (auto simp: defined_def)
  obtain s10 where "t_counters s9 = Inr s10" by (rule totalE [OF quiet_stages(6)])
  with s1 s2 s3 s4 s5 s6 s7 s8 s9 assms(3) have "my_pthread_h sys s = Inr s10" by (simp add: my_pthread_h_def if_dir_def)
  then show ?thesis by (rule that)
qed

text \<open>The states between the stages, from a run.\<close>

lemma my_pthread_run:
  assumes "my_pthread_h sys s = Inr s'" "\<not> defined ''_my_pthread_h'' s"
  obtains s1 s2 s3 s4 s5 s6 s7 s8 s9 where "t_start sys s = Inr s1" "t_platform sys s1 = Inr s2" "t_remap s2 = Inr s3" "t_times s3 = Inr s4"
    "t_safe_mutex s4 = Inr s5" "t_fastmutex s5 = Inr s6" "t_rwlocks s6 = Inr s7" "t_settings s7 = Inr s8" "mysql_thread_h s8 = Inr s9" "t_counters s9 = Inr s'"
proof -
  have "block [t_start sys, t_platform sys, t_remap, t_times, t_safe_mutex, t_fastmutex, t_rwlocks, t_settings, mysql_thread_h, t_counters] s = Inr s'"
    using assms by (simp only: my_pthread_h_def if_dir_def if_True simp_thms)
  then show ?thesis unfolding block_Inr_Cons block.simps(1) sum.inject by (elim exE conjE) (rule that, assumption+, simp)
qed

section \<open>The locks\<close>

text \<open>The state before the read-write locks: the mutexes have their final texts.\<close>

lemma locks_free:
  assumes "\<forall>m \<in> set lock_names. \<not> defined m s"
  shows "macros s ''pthread_mutex_lock'' = None" "macros s ''pthread_mutex_trylock'' = None" "macros s ''pthread_mutex_unlock'' = None"
    "macros s ''pthread_mutex_destroy'' = None" "macros s ''rw_rdlock'' = None" "macros s ''rw_wrlock'' = None" "macros s ''rw_tryrdlock'' = None"
    "macros s ''rw_trywrlock'' = None" "macros s ''rw_unlock'' = None" "macros s ''rwlock_destroy'' = None"
  using assms by (simp_all add: lock_names_def defined_def)

lemma before_rwlocks:
  assumes "thread_headers_ok sys" "defined ''_global_h'' s" "\<not> defined ''_my_pthread_h'' s" "\<forall>m \<in> set lock_names. \<not> defined m s" "describes s b"
    "my_pthread_h sys s = Inr s'"
  obtains s6 s7 where "t_rwlocks s6 = Inr s7" "\<And>m. m \<in> watched_names \<Longrightarrow> macros s' m = macros s7 m"
    "\<And>m. m \<in> watched_names - insert ''SAFE_MUTEX'' mutex_names \<Longrightarrow> macros s6 m = macros s m"
    "macros s6 ''pthread_mutex_lock'' =
      (if uses_safe_mutex b then Some (Params [''A''] ''safe_mutex_lock((A), FALSE, __FILE__, __LINE__)'')
       else if uses_fastmutex b then Some (Params [''A''] ''my_pthread_fastmutex_lock(A)'')
       else if win32 b then Some (Params [''A''] ''(EnterCriticalSection(A),0)'') else None)"
    "macros s6 ''pthread_mutex_trylock'' =
      (if uses_safe_mutex b then Some (Params [''A''] ''safe_mutex_lock((A), TRUE, __FILE__, __LINE__)'')
       else if uses_fastmutex b then Some (Params [''A''] ''pthread_mutex_trylock(&(A)->mutex)'')
       else if def_posix4a_mutex b then Some (Params [''a''] ''my_pthread_mutex_trylock((a))'')
       else if win32 b then Some (Params [''A''] ''win_pthread_mutex_trylock((A))'') else None)"
    "macros s6 ''pthread_mutex_unlock'' =
      (if uses_safe_mutex b then Some (Params [''A''] ''safe_mutex_unlock((A),__FILE__,__LINE__)'')
       else if uses_fastmutex b then Some (Params [''A''] ''pthread_mutex_unlock(&(A)->mutex)'')
       else if win32 b then Some (Params [''A''] ''(LeaveCriticalSection(A), 0)'') else None)"
    "macros s6 ''pthread_mutex_destroy'' =
      (if uses_safe_mutex b then Some (Params [''A''] ''safe_mutex_destroy((A),__FILE__,__LINE__)'')
       else if uses_fastmutex b then Some (Params [''A''] ''pthread_mutex_destroy(&(A)->mutex)'')
       else if win32 b then Some (Params [''A''] ''(DeleteCriticalSection(A), 0)'')
       else if def_cthreads b then Some (Params [''A''] ''pthread_dummy(0)'') else None)"
proof -
  from my_pthread_run [OF assms(6,3)] obtain s1 s2 s3 s4 s5 s6 s7 s8 s9 where r: "t_start sys s = Inr s1" "t_platform sys s1 = Inr s2" "t_remap s2 = Inr s3"
    "t_times s3 = Inr s4" "t_safe_mutex s4 = Inr s5" "t_fastmutex s5 = Inr s6" "t_rwlocks s6 = Inr s7" "t_settings s7 = Inr s8" "mysql_thread_h s8 = Inr s9"
    "t_counters s9 = Inr s'" .
  note st = start_effect(2) [OF assms(2) r(1)]
  note pl = platform_effect [OF assms(1) r(2)]
  note re = keeps_allD [OF mutex_frames(5) r(3)] remap_effect [OF r(3)] keeps_allD [OF quiet_stages(1) r(4)]
  note sf = keeps_allD [OF mutex_frames(1) r(5)] safe_effect [OF r(5)]
  note fa = keeps_allD [OF mutex_frames(3) r(6)] fast_effect [OF r(6)]
  have safe: "defined ''SAFE_MUTEX'' s4 = uses_safe_mutex b" "defined ''SAFE_MUTEX'' s5 = uses_safe_mutex b"
    using assms(5) by (simp_all add: describes_def defined_def sf re pl st watched_mem uses_safe_mutex_def)
  have fast: "defined ''MY_PTHREAD_FASTMUTEX'' s5 = def_fastmutex b"
    using assms(5) by (simp add: describes_def defined_def sf re pl st watched_mem)
  have win: "defined ''__WIN__'' s1 = win32 b" "defined ''HAVE_CTHREADS_WRAPPER'' s1 = def_cthreads b"
      "(defined ''HAVE_POSIX1003_4a_MUTEX'' s2 \<and> \<not> defined ''DONT_REMAP_PTHREAD_FUNCTIONS'' s2) = def_posix4a_mutex b"
    using assms(5) by (simp_all add: describes_def defined_def pl st watched_mem)
  note eqs = fa sf re pl st watched_mem safe fast win locks_free [OF assms(4)] uses_fastmutex_def
  show ?thesis
  proof (rule that [OF r(7)])
    show "macros s' m = macros s7 m" if "m \<in> watched_names" for m
      using keeps_allD [OF quiet_stages(3) r(8) that] keeps_allD [OF thread_h_frame(2) r(9) that] keeps_allD [OF quiet_stages(5) r(10) that] by simp
    show "macros s6 m = macros s m" if "m \<in> watched_names - insert ''SAFE_MUTEX'' mutex_names" for m
      using that by (simp add: fa sf re pl st)
  qed (simp_all add: eqs)
qed

lemma rwlocks_stage:
  assumes "t_rwlocks s = Inr s'" "describes s0 b" "\<And>m. m \<in> watched_names - insert ''SAFE_MUTEX'' mutex_names \<Longrightarrow> macros s m = macros s0 m"
  obtains u where "\<And>m. m \<in> watched_names - {''HAVE_PTHREAD_RWLOCK_RDLOCK'', ''HAVE_RWLOCK_INIT''} \<Longrightarrow> macros u m = macros s m"
    "(if def_mutex_for_rw b then rw_over_mutexes else if uses_pthread_rwlock b then rw_over_pthread
      else if uses_rwlock_init b then rw_over_system else rw_over_own) u = Inr s'"
proof -
  have f: "defined ''USE_MUTEX_INSTEAD_OF_RW_LOCKS'' s = def_mutex_for_rw b"
    "(defined ''HAVE_PTHREAD_RWLOCK_RDLOCK'' s \<and> \<not> defined ''HAVE_BROKEN_RWLOCK'' s) = uses_pthread_rwlock b"
    "(defined ''HAVE_RWLOCK_INIT'' s \<and> \<not> defined ''HAVE_BROKEN_RWLOCK'' s) = uses_rwlock_init b"
    using assms(2) by (simp_all add: describes_def defined_def assms(3) watched_mem uses_pthread_rwlock_def uses_rwlock_init_def)
  show ?thesis by (rule rwlocks_choice [OF assms(1)], unfold f, rule that)
qed

lemma rwlocks_keep_mutexes:
  assumes "t_rwlocks s = Inr s'" "m \<in> mutex_names"
  shows "macros s' m = macros s m"
proof -
  have "keeps_macro m t_rwlocks" using assms(2)
    by (auto simp: t_rwlocks_def rw_over_mutexes_def rw_over_pthread_def rw_over_system_def rw_over_own_def intro!: keeps_rules)
  from keepsD [OF this assms(1)] show ?thesis .
qed

text \<open>The macros after the header, by the build.\<close>

lemma mutex_texts:
  assumes "thread_headers_ok sys" "defined ''_global_h'' s" "\<not> defined ''_my_pthread_h'' s" "\<forall>m \<in> set lock_names. \<not> defined m s" "describes s b"
    "my_pthread_h sys s = Inr s'"
  shows "macros s' ''pthread_mutex_lock'' =
      (if uses_safe_mutex b then Some (Params [''A''] ''safe_mutex_lock((A), FALSE, __FILE__, __LINE__)'')
       else if uses_fastmutex b then Some (Params [''A''] ''my_pthread_fastmutex_lock(A)'')
       else if win32 b then Some (Params [''A''] ''(EnterCriticalSection(A),0)'') else None)"
    "macros s' ''pthread_mutex_trylock'' =
      (if uses_safe_mutex b then Some (Params [''A''] ''safe_mutex_lock((A), TRUE, __FILE__, __LINE__)'')
       else if uses_fastmutex b then Some (Params [''A''] ''pthread_mutex_trylock(&(A)->mutex)'')
       else if def_posix4a_mutex b then Some (Params [''a''] ''my_pthread_mutex_trylock((a))'')
       else if win32 b then Some (Params [''A''] ''win_pthread_mutex_trylock((A))'') else None)"
    "macros s' ''pthread_mutex_unlock'' =
      (if uses_safe_mutex b then Some (Params [''A''] ''safe_mutex_unlock((A),__FILE__,__LINE__)'')
       else if uses_fastmutex b then Some (Params [''A''] ''pthread_mutex_unlock(&(A)->mutex)'')
       else if win32 b then Some (Params [''A''] ''(LeaveCriticalSection(A), 0)'') else None)"
    "macros s' ''pthread_mutex_destroy'' =
      (if uses_safe_mutex b then Some (Params [''A''] ''safe_mutex_destroy((A),__FILE__,__LINE__)'')
       else if uses_fastmutex b then Some (Params [''A''] ''pthread_mutex_destroy(&(A)->mutex)'')
       else if win32 b then Some (Params [''A''] ''(DeleteCriticalSection(A), 0)'')
       else if def_cthreads b then Some (Params [''A''] ''pthread_dummy(0)'') else None)"
  by (rule before_rwlocks [OF assms], simp add: watched_mem rwlocks_keep_mutexes)+

lemma rw_texts:
  assumes "thread_headers_ok sys" "defined ''_global_h'' s" "\<not> defined ''_my_pthread_h'' s" "\<forall>m \<in> set lock_names. \<not> defined m s" "describes s b"
    "my_pthread_h sys s = Inr s'"
  shows "list_all (\<lambda>(m, mutexes, native, own). macros s' m =
      (if def_mutex_for_rw b then Some (Params [''A''] mutexes) else if uses_pthread_rwlock b then Some (Params [''A''] native)
       else if uses_rwlock_init b then None else Some (Params [''A''] own)))
     [(''rw_rdlock'', ''pthread_mutex_lock((A))'', ''pthread_rwlock_rdlock(A)'', ''my_rw_rdlock((A))''),
      (''rw_wrlock'', ''pthread_mutex_lock((A))'', ''pthread_rwlock_wrlock(A)'', ''my_rw_wrlock((A))''),
      (''rw_tryrdlock'', ''pthread_mutex_trylock((A))'', ''pthread_rwlock_tryrdlock((A))'', ''my_rw_tryrdlock((A))''),
      (''rw_trywrlock'', ''pthread_mutex_trylock((A))'', ''pthread_rwlock_trywrlock((A))'', ''my_rw_trywrlock((A))''),
      (''rw_unlock'', ''pthread_mutex_unlock((A))'', ''pthread_rwlock_unlock(A)'', ''my_rw_unlock((A))''),
      (''rwlock_destroy'', ''pthread_mutex_destroy((A))'', ''pthread_rwlock_destroy(A)'', ''my_rw_destroy((A))'')]"
proof -
  from before_rwlocks [OF assms] obtain s6 s7 where r: "t_rwlocks s6 = Inr s7" and late: "\<And>m. m \<in> watched_names \<Longrightarrow> macros s' m = macros s7 m"
    and early: "\<And>m. m \<in> watched_names - insert ''SAFE_MUTEX'' mutex_names \<Longrightarrow> macros s6 m = macros s m" by metis
  from rwlocks_stage [OF r assms(5) early] obtain u where u: "\<And>m. m \<in> watched_names - {''HAVE_PTHREAD_RWLOCK_RDLOCK'', ''HAVE_RWLOCK_INIT''} \<Longrightarrow> macros u m = macros s6 m"
    and c: "(if def_mutex_for_rw b then rw_over_mutexes else if uses_pthread_rwlock b then rw_over_pthread
      else if uses_rwlock_init b then rw_over_system else rw_over_own) u = Inr s7" by blast
  have sys: "macros s7 m = macros s m" if "rw_over_system u = Inr s7" "m \<in> watched_names - ({''HAVE_PTHREAD_RWLOCK_RDLOCK'', ''HAVE_RWLOCK_INIT'', ''SAFE_MUTEX''} \<union> mutex_names)" for m
    using keeps_allD [OF rw_frames(5) that(1)] that(2) by (simp add: u early)
  consider "def_mutex_for_rw b" "rw_over_mutexes u = Inr s7" | "\<not> def_mutex_for_rw b" "uses_pthread_rwlock b" "rw_over_pthread u = Inr s7"
    | "\<not> def_mutex_for_rw b" "\<not> uses_pthread_rwlock b" "uses_rwlock_init b" "rw_over_system u = Inr s7"
    | "\<not> def_mutex_for_rw b" "\<not> uses_pthread_rwlock b" "\<not> uses_rwlock_init b" "rw_over_own u = Inr s7"
    using c by (auto split: if_splits)
  then show ?thesis
  proof cases
    case 1
    then show ?thesis using rw_over_mutexes_effect [OF 1(2)] by (simp add: late watched_mem)
  next
    case 2
    then show ?thesis using rw_over_pthread_effect [OF 2(3)] by (simp add: late watched_mem)
  next
    case 3
    then show ?thesis by (simp add: late watched_mem sys locks_free [OF assms(4)])
  next
    case 4
    then show ?thesis using rw_over_own_effect [OF 4(4)] by (simp add: late watched_mem)
  qed
qed

lemmas macro_defs = pthread_mutex_lock_macro_def platform_mutex_lock_def pthread_mutex_trylock_macro_def platform_mutex_trylock_def
  pthread_mutex_unlock_macro_def platform_mutex_unlock_def pthread_mutex_destroy_macro_def platform_mutex_destroy_def
  rw_rdlock_macro_def rw_wrlock_macro_def rw_tryrdlock_macro_def rw_trywrlock_macro_def rw_unlock_macro_def rwlock_destroy_macro_def

lemma mutex_calls:
  assumes "thread_headers_ok sys" "defined ''_global_h'' s" "\<not> defined ''_my_pthread_h'' s" "\<forall>m \<in> set lock_names. \<not> defined m s" "describes s b"
    "my_pthread_h sys s = Inr s'"
  shows "macro_call n place ''pthread_mutex_lock'' (macros s' ''pthread_mutex_lock'') = Some (pthread_mutex_lock_macro b n place)"
    "macro_call n place ''pthread_mutex_trylock'' (macros s' ''pthread_mutex_trylock'') = Some (pthread_mutex_trylock_macro b n place)"
    "macro_call n place ''pthread_mutex_unlock'' (macros s' ''pthread_mutex_unlock'') = Some (pthread_mutex_unlock_macro b n place)"
    "macro_call n place ''pthread_mutex_destroy'' (macros s' ''pthread_mutex_destroy'') = Some (pthread_mutex_destroy_macro b n place)"
  unfolding mutex_texts [OF assms]
  by (simp_all add: macro_call_def call_texts_def own_functions_def macro_defs fun_eq_iff)

lemma mutex_lock_calls:
  assumes "thread_headers_ok sys" "defined ''_global_h'' s" "\<not> defined ''_my_pthread_h'' s" "\<forall>m \<in> set lock_names. \<not> defined m s" "describes s b"
    "my_pthread_h sys s = Inr s'"
  shows "m \<in> mutex_names \<Longrightarrow> lock_call s' n place m = macro_call n place m (macros s' m)"
  by (auto simp: lock_call_def uses_of_macros_def mutex_texts [OF assms])

lemma rw_lock_calls:
  assumes "thread_headers_ok sys" "defined ''_global_h'' s" "\<not> defined ''_my_pthread_h'' s" "\<forall>m \<in> set lock_names. \<not> defined m s" "describes s b"
    "my_pthread_h sys s = Inr s'"
  shows "list_all (\<lambda>(name, f). lock_call s' n place name = Some f)
    [(''rw_rdlock'', rw_rdlock_macro b n place), (''rw_wrlock'', rw_wrlock_macro b n place), (''rw_tryrdlock'', rw_tryrdlock_macro b n place),
     (''rw_trywrlock'', rw_trywrlock_macro b n place), (''rw_unlock'', rw_unlock_macro b n place), (''rwlock_destroy'', rwlock_destroy_macro b n place)]"
proof -
  note texts = rw_texts [OF assms, simplified]
  consider "def_mutex_for_rw b" | "\<not> def_mutex_for_rw b" "uses_pthread_rwlock b" | "\<not> def_mutex_for_rw b" "\<not> uses_pthread_rwlock b" by blast
  then show ?thesis
  proof cases
    case 1
    then show ?thesis using texts mutex_calls [OF assms, of n place] by (simp add: lock_call_def uses_of_macros_def macro_defs fun_eq_iff)
  next
    case 2
    then show ?thesis using texts by (simp add: lock_call_def uses_of_macros_def macro_call_def call_texts_def macro_defs fun_eq_iff)
  next
    case 3
    then show ?thesis using texts
      by (cases "uses_rwlock_init b") (simp_all add: lock_call_def uses_of_macros_def macro_call_def call_texts_def own_functions_def macro_defs fun_eq_iff)
  qed
qed

text \<open>C4: Where \<^verbatim>\<open>my_global.h\<close> has been read, the preprocessor gets through \<^verbatim>\<open>my_pthread.h\<close>, and what it leaves as the texts of the operations on mutexes and
  read-write locks is what the model of the layer says for the build: for each of the ten operations with one argument the text, read as a call, expanded once more
  where it names a mutex operation, is the function of \<open>Pthread_Layer\<close>.  The headers of the system stop nowhere and leave these names alone.
\<close>

theorem locks_as_preprocessed:
  assumes "thread_headers_ok sys" "defined ''_global_h'' s" "\<not> defined ''_my_pthread_h'' s" "\<forall>m \<in> set lock_names. \<not> defined m s" "describes s b"
  shows "\<exists>s'. my_pthread_h sys s = Inr s' \<and> list_all (\<lambda>(name, f). lock_call s' n place name = Some f)
        [(''pthread_mutex_lock'', pthread_mutex_lock_macro b n place),
         (''pthread_mutex_trylock'', pthread_mutex_trylock_macro b n place),
         (''pthread_mutex_unlock'', pthread_mutex_unlock_macro b n place),
         (''pthread_mutex_destroy'', pthread_mutex_destroy_macro b n place),
         (''rw_rdlock'', rw_rdlock_macro b n place),
         (''rw_wrlock'', rw_wrlock_macro b n place),
         (''rw_tryrdlock'', rw_tryrdlock_macro b n place),
         (''rw_trywrlock'', rw_trywrlock_macro b n place),
         (''rw_unlock'', rw_unlock_macro b n place),
         (''rwlock_destroy'', rwlock_destroy_macro b n place)]"
proof -
  obtain s' where s': "my_pthread_h sys s = Inr s'" by (rule my_pthread_stages [OF assms(1,2,3)])
  note calls = mutex_calls [OF assms s', of n place] mutex_lock_calls [OF assms s', of _ n place] rw_lock_calls [OF assms s', of n place]
  show ?thesis by (rule exI [of _ s'], rule conjI, rule s') (use calls in simp)
qed

text \<open>A build with checked mutexes that stand for read-write locks.\<close>

definition checked_start :: pp where
  "checked_start = \<lparr>macros = [''_global_h'' \<mapsto> Tokens '''', ''SAFE_MUTEX'' \<mapsto> Tokens '''', ''USE_MUTEX_INSTEAD_OF_RW_LOCKS'' \<mapsto> Number 1], types = Map.empty\<rparr>"

definition checked_build :: build where
  "checked_build = posix_build\<lparr>def_safe_mutex := True\<rparr>"

theorem locks_as_preprocessed_witness:
  "\<exists>s'. my_pthread_h (\<lambda>h. skip) checked_start = Inr s' \<and>
     lock_call s' sample_native no_site ''rw_unlock'' = Some (\<lambda>A. fn_safe_mutex_unlock sample_native A (fst no_site) (snd no_site))"
proof -
  have "thread_headers_ok (\<lambda>h. skip)" by (simp add: thread_headers_ok_def total_rules keeps_all_rules)
  moreover have "describes checked_start checked_build" "\<forall>m \<in> set lock_names. \<not> defined m checked_start"
    "defined ''_global_h'' checked_start" "\<not> defined ''_my_pthread_h'' checked_start"
    by (simp_all add: describes_def defined_def checked_start_def checked_build_def posix_build_def lock_names_def)
  moreover have "rw_unlock_macro checked_build sample_native no_site = (\<lambda>A. fn_safe_mutex_unlock sample_native A (fst no_site) (snd no_site))"
    by (simp add: fun_eq_iff rw_unlock_macro_def pthread_mutex_unlock_macro_def uses_safe_mutex_def checked_build_def posix_build_def)
  ultimately show ?thesis
    using locks_as_preprocessed [of "\<lambda>h. skip" checked_start checked_build sample_native no_site] by auto
qed

end
