(* ===== verification/Structures.thy ===== *)
theory Structures
  imports Struct_Layout Protocol Error_Codes
begin

text \<open>
  The structures and enumerations through which programs, the client library, the server and plugins exchange data, from \<^verbatim>\<open>mysql.h\<close>,
  \<^verbatim>\<open>mysql_com.h\<close>, \<^verbatim>\<open>mysql_time.h\<close>, \<^verbatim>\<open>sql_common.h\<close>, \<^verbatim>\<open>typelib.h\<close>, \<^verbatim>\<open>my_alloc.h\<close>, \<^verbatim>\<open>my_list.h\<close>,
  \<^verbatim>\<open>keycache.h\<close>, \<^verbatim>\<open>my_xml.h\<close>, \<^verbatim>\<open>my_dir.h\<close> and the headers of the plugin kinds.  A structure is the list of its members with their types,
  laid out as in \<open>Struct_Layout\<close>; an enumeration is a datatype with the number of each constant.  Some structures depend on the build: the flags of the
  compilation are an argument, and the properties say which programs agree on a structure.  An enumeration, a \<^verbatim>\<open>size_t\<close> and an \<^verbatim>\<open>int\<close> have 4 bytes,
  as have handles of the system.
\<close>

section \<open>Members\<close>

type_synonym c_members = "(string \<times> c_type) list"

abbreviation members :: "c_members \<Rightarrow> c_type list" where "members ms \<equiv> map snd ms"

definition offset_table :: "c_members \<Rightarrow> (string \<times> nat) list" where
  "offset_table ms = zip (map fst ms) (offsets (members ms))"

definition member_offset :: "c_members \<Rightarrow> string \<Rightarrow> nat option" where
  "member_offset ms = map_of (offset_table ms)"

text \<open>The flags that structures of the client interface depend on.\<close>

record client_build =
  MYSQL_SERVER :: bool
  EMBEDDED_LIBRARY :: bool
  CHECK_EMBEDDED_DIFFERENCES :: bool

definition MYSQL_ERRMSG_SIZE :: nat where "MYSQL_ERRMSG_SIZE = 512"
definition CHANGED_BLOCKS_HASH :: nat where "CHANGED_BLOCKS_HASH = 128"
definition MYSQL_XIDDATASIZE :: nat where "MYSQL_XIDDATASIZE = 128"
definition MYSQL_USERNAME_LENGTH :: nat where "MYSQL_USERNAME_LENGTH = 48"

section \<open>Structures\<close>

definition st_used_mem :: "c_members" where
  "st_used_mem =
    [(''next'', C_pointer), (''left'', C_int), (''size'', C_int)]"

definition st_mem_root :: "c_members" where
  "st_mem_root =
    [(''free'', C_pointer), (''used'', C_pointer), (''pre_alloc'', C_pointer), (''min_malloc'', C_int), (''block_size'', C_int),
    (''block_num'', C_int), (''first_block_usage'', C_int), (''error_handler'', C_pointer)]"

definition st_list :: "c_members" where
  "st_list =
    [(''prev'', C_pointer), (''next'', C_pointer), (''data'', C_pointer)]"

definition st_typelib :: "c_members" where
  "st_typelib =
    [(''count'', C_int), (''name'', C_pointer), (''type_names'', C_pointer), (''type_lengths'', C_pointer)]"

definition st_mysql_time :: "c_members" where
  "st_mysql_time =
    [(''year'', C_int), (''month'', C_int), (''day'', C_int), (''hour'', C_int), (''minute'', C_int), (''second'', C_int),
    (''second_part'', C_long), (''neg'', C_char), (''time_type'', C_int)]"

definition st_net :: "client_build \<Rightarrow> c_members" where
  "st_net b =
    (if \<not> CHECK_EMBEDDED_DIFFERENCES b \<or> \<not> EMBEDDED_LIBRARY b then
    [(''vio'', C_pointer), (''buff'', C_pointer), (''buff_end'', C_pointer), (''write_pos'', C_pointer), (''read_pos'', C_pointer),
    (''fd'', C_pointer), (''remain_in_buf'', C_long), (''length'', C_long), (''buf_length'', C_long), (''where_b'', C_long),
    (''max_packet'', C_long), (''max_packet_size'', C_long), (''pkt_nr'', C_int), (''compress_pkt_nr'', C_int), (''write_timeout'', C_int),
    (''read_timeout'', C_int), (''retry_count'', C_int), (''fcntl'', C_int), (''return_status'', C_pointer), (''reading_or_writing'', C_char),
    (''save_char'', C_char), (''unused1'', C_char), (''unused2'', C_char), (''compress'', C_char), (''unused3'', C_char)] else []) @
    [(''unused'', C_pointer), (''last_errno'', C_int), (''error'', C_char), (''unused4'', C_char), (''unused5'', C_char),
    (''last_error'', (C_array C_char MYSQL_ERRMSG_SIZE)), (''sqlstate'', (C_array C_char (SQLSTATE_LENGTH + 1))), (''extension'', C_pointer)] @
    (if MYSQL_SERVER b \<and> \<not> EMBEDDED_LIBRARY b then
    [(''skip_big_packet'', C_char)] else [])"

definition rand_struct :: "c_members" where
  "rand_struct =
    [(''seed1'', C_long), (''seed2'', C_long), (''max_value'', C_long), (''max_value_dbl'', C_double)]"

definition st_udf_args :: "c_members" where
  "st_udf_args =
    [(''arg_count'', C_int), (''arg_type'', C_pointer), (''args'', C_pointer), (''lengths'', C_pointer), (''maybe_null'', C_pointer),
    (''attributes'', C_pointer), (''attribute_lengths'', C_pointer), (''extension'', C_pointer)]"

definition st_udf_init :: "c_members" where
  "st_udf_init =
    [(''maybe_null'', C_char), (''decimals'', C_int), (''max_length'', C_long), (''ptr'', C_pointer), (''const_item'', C_char),
    (''extension'', C_pointer)]"

definition st_mysql_field :: "c_members" where
  "st_mysql_field =
    [(''name'', C_pointer), (''org_name'', C_pointer), (''table'', C_pointer), (''org_table'', C_pointer), (''db'', C_pointer),
    (''catalog'', C_pointer), (''def'', C_pointer), (''length'', C_long), (''max_length'', C_long), (''name_length'', C_int),
    (''org_name_length'', C_int), (''table_length'', C_int), (''org_table_length'', C_int), (''db_length'', C_int), (''catalog_length'', C_int),
    (''def_length'', C_int), (''flags'', C_int), (''decimals'', C_int), (''charsetnr'', C_int), (''type'', C_int), (''extension'', C_pointer)]"

definition st_mysql_rows :: "c_members" where
  "st_mysql_rows =
    [(''next'', C_pointer), (''data'', C_pointer), (''length'', C_long)]"

definition st_mysql_data :: "c_members" where
  "st_mysql_data =
    [(''data'', C_pointer), (''embedded_info'', C_pointer), (''alloc'', (C_struct (members st_mem_root))), (''rows'', C_longlong),
    (''fields'', C_int), (''extension'', C_pointer)]"

definition st_mysql_options :: "c_members" where
  "st_mysql_options =
    [(''connect_timeout'', C_int), (''read_timeout'', C_int), (''write_timeout'', C_int), (''port'', C_int), (''protocol'', C_int),
    (''client_flag'', C_long), (''host'', C_pointer), (''user'', C_pointer), (''password'', C_pointer), (''unix_socket'', C_pointer),
    (''db'', C_pointer), (''init_commands'', C_pointer), (''my_cnf_file'', C_pointer), (''my_cnf_group'', C_pointer),
    (''charset_dir'', C_pointer), (''charset_name'', C_pointer), (''ssl_key'', C_pointer), (''ssl_cert'', C_pointer), (''ssl_ca'', C_pointer),
    (''ssl_capath'', C_pointer), (''ssl_cipher'', C_pointer), (''shared_memory_base_name'', C_pointer), (''max_allowed_packet'', C_long),
    (''use_ssl'', C_char), (''compress'', C_char), (''named_pipe'', C_char), (''unused1'', C_char), (''unused2'', C_char), (''unused3'', C_char),
    (''unused4'', C_char), (''methods_to_use'', C_int), (''client_ip'', C_pointer), (''secure_auth'', C_char),
    (''report_data_truncation'', C_char), (''local_infile_init'', C_pointer), (''local_infile_read'', C_pointer),
    (''local_infile_end'', C_pointer), (''local_infile_error'', C_pointer), (''local_infile_userdata'', C_pointer), (''extension'', C_pointer)]"

definition character_set :: "c_members" where
  "character_set =
    [(''number'', C_int), (''state'', C_int), (''csname'', C_pointer), (''name'', C_pointer), (''comment'', C_pointer), (''dir'', C_pointer),
    (''mbminlen'', C_int), (''mbmaxlen'', C_int)]"

definition st_mysql :: "client_build \<Rightarrow> c_members" where
  "st_mysql b =
    [(''net'', (C_struct (members (st_net b)))), (''connector_fd'', C_pointer), (''host'', C_pointer), (''user'', C_pointer),
    (''passwd'', C_pointer), (''unix_socket'', C_pointer), (''server_version'', C_pointer), (''host_info'', C_pointer), (''info'', C_pointer),
    (''db'', C_pointer), (''charset'', C_pointer), (''fields'', C_pointer), (''field_alloc'', (C_struct (members st_mem_root))),
    (''affected_rows'', C_longlong), (''insert_id'', C_longlong), (''extra_info'', C_longlong), (''thread_id'', C_long),
    (''packet_length'', C_long), (''port'', C_int), (''client_flag'', C_long), (''server_capabilities'', C_long), (''protocol_version'', C_int),
    (''field_count'', C_int), (''server_status'', C_int), (''server_language'', C_int), (''warning_count'', C_int),
    (''options'', (C_struct (members st_mysql_options))), (''status'', C_int), (''free_me'', C_char), (''reconnect'', C_char),
    (''scramble'', (C_array C_char (nat SCRAMBLE_LENGTH + 1))), (''unused1'', C_char), (''unused2'', C_pointer), (''unused3'', C_pointer),
    (''unused4'', C_pointer), (''unused5'', C_pointer), (''stmts'', C_pointer), (''methods'', C_pointer), (''thd'', C_pointer),
    (''unbuffered_fetch_owner'', C_pointer), (''info_buffer'', C_pointer), (''extension'', C_pointer)]"

definition st_mysql_res :: "c_members" where
  "st_mysql_res =
    [(''row_count'', C_longlong), (''fields'', C_pointer), (''data'', C_pointer), (''data_cursor'', C_pointer), (''lengths'', C_pointer),
    (''handle'', C_pointer), (''methods'', C_pointer), (''row'', C_pointer), (''current_row'', C_pointer),
    (''field_alloc'', (C_struct (members st_mem_root))), (''field_count'', C_int), (''current_field'', C_int), (''eof'', C_char),
    (''unbuffered_fetch_cancelled'', C_char), (''extension'', C_pointer)]"

definition st_mysql_parameters :: "c_members" where
  "st_mysql_parameters =
    [(''p_max_allowed_packet'', C_pointer), (''p_net_buffer_length'', C_pointer), (''extension'', C_pointer)]"

definition st_mysql_bind :: "c_members" where
  "st_mysql_bind =
    [(''length'', C_pointer), (''is_null'', C_pointer), (''buffer'', C_pointer), (''error'', C_pointer), (''row_ptr'', C_pointer),
    (''store_param_func'', C_pointer), (''fetch_result'', C_pointer), (''skip_result'', C_pointer), (''buffer_length'', C_long),
    (''offset'', C_long), (''length_value'', C_long), (''param_number'', C_int), (''pack_length'', C_int), (''buffer_type'', C_int),
    (''error_value'', C_char), (''is_unsigned'', C_char), (''long_data_used'', C_char), (''is_null_value'', C_char), (''extension'', C_pointer)]"

definition st_mysql_stmt :: "c_members" where
  "st_mysql_stmt =
    [(''mem_root'', (C_struct (members st_mem_root))), (''list'', (C_struct (members st_list))), (''mysql'', C_pointer), (''params'', C_pointer),
    (''bind'', C_pointer), (''fields'', C_pointer), (''result'', (C_struct (members st_mysql_data))), (''data_cursor'', C_pointer),
    (''read_row_func'', C_pointer), (''affected_rows'', C_longlong), (''insert_id'', C_longlong), (''stmt_id'', C_long), (''flags'', C_long),
    (''prefetch_rows'', C_long), (''server_status'', C_int), (''last_errno'', C_int), (''param_count'', C_int), (''field_count'', C_int),
    (''state'', C_int), (''last_error'', (C_array C_char MYSQL_ERRMSG_SIZE)), (''sqlstate'', (C_array C_char (SQLSTATE_LENGTH + 1))),
    (''send_types_to_server'', C_char), (''bind_param_done'', C_char), (''bind_result_done'', C_char), (''unbuffered_fetch_cancelled'', C_char),
    (''update_max_length'', C_char), (''extension'', C_pointer)]"

definition st_mysql_options_extention :: "c_members" where
  "st_mysql_options_extention =
    [(''plugin_dir'', C_pointer), (''default_auth'', C_pointer)]"

definition st_mysql_methods :: "client_build \<Rightarrow> c_members" where
  "st_mysql_methods b =
    [(''read_query_result'', C_pointer), (''advanced_command'', C_pointer), (''read_rows'', C_pointer), (''use_result'', C_pointer),
    (''fetch_lengths'', C_pointer), (''flush_use_result'', C_pointer), (''read_change_user_result'', C_pointer)] @
    (if \<not> MYSQL_SERVER b \<or> EMBEDDED_LIBRARY b then
    [(''list_fields'', C_pointer), (''read_prepare_result'', C_pointer), (''stmt_execute'', C_pointer), (''read_binary_rows'', C_pointer),
    (''unbuffered_fetch'', C_pointer), (''free_embedded_thd'', C_pointer), (''read_statistics'', C_pointer), (''next_result'', C_pointer),
    (''read_rows_from_cursor'', C_pointer)] else [])"

definition st_keycache_wqueue :: "c_members" where
  "st_keycache_wqueue =
    [(''last_thread'', C_pointer)]"

definition st_key_cache :: "c_type \<Rightarrow> c_members" where
  "st_key_cache mutex =
    [(''key_cache_inited'', C_char), (''in_resize'', C_char), (''resize_in_flush'', C_char), (''can_be_used'', C_char),
    (''key_cache_mem_size'', C_int), (''key_cache_block_size'', C_int), (''min_warm_blocks'', C_long), (''age_threshold'', C_long),
    (''keycache_time'', C_longlong), (''hash_entries'', C_int), (''hash_links'', C_int), (''hash_links_used'', C_int), (''disk_blocks'', C_int),
    (''blocks_used'', C_long), (''blocks_unused'', C_long), (''blocks_changed'', C_long), (''warm_blocks'', C_long),
    (''cnt_for_resize_op'', C_long), (''blocks_available'', C_long), (''hash_root'', C_pointer), (''hash_link_root'', C_pointer),
    (''free_hash_list'', C_pointer), (''free_block_list'', C_pointer), (''block_root'', C_pointer), (''block_mem'', C_pointer),
    (''used_last'', C_pointer), (''used_ins'', C_pointer), (''cache_lock'', mutex), (''resize_queue'', (C_struct (members st_keycache_wqueue))),
    (''waiting_for_resize_cnt'', (C_struct (members st_keycache_wqueue))), (''waiting_for_hash_link'', (C_struct (members st_keycache_wqueue))),
    (''waiting_for_block'', (C_struct (members st_keycache_wqueue))), (''changed_blocks'', (C_array C_pointer CHANGED_BLOCKS_HASH)),
    (''file_blocks'', (C_array C_pointer CHANGED_BLOCKS_HASH)), (''param_buff_size'', C_longlong), (''param_block_size'', C_longlong),
    (''param_division_limit'', C_longlong), (''param_age_threshold'', C_longlong), (''global_blocks_changed'', C_long),
    (''global_cache_w_requests'', C_longlong), (''global_cache_write'', C_longlong), (''global_cache_r_requests'', C_longlong),
    (''global_cache_read'', C_longlong), (''blocks'', C_int), (''in_init'', C_char)]"

definition xml_stack_st :: "c_members" where
  "xml_stack_st =
    [(''flags'', C_int), (''current_node_type'', C_int), (''errstr'', (C_array C_char 128)), (''attr'', (C_array C_char 128)),
    (''attrend'', C_pointer), (''beg'', C_pointer), (''cur'', C_pointer), (''end'', C_pointer), (''user_data'', C_pointer),
    (''enter'', C_pointer), (''value'', C_pointer), (''leave_xml'', C_pointer)]"

definition fileinfo :: "c_members" where
  "fileinfo =
    [(''name'', C_pointer), (''mystat'', C_pointer)]"

definition st_my_dir :: "c_members" where
  "st_my_dir =
    [(''dir_entry'', C_pointer), (''number_off_files'', C_int)]"

definition st_mysql_xid :: "c_members" where
  "st_mysql_xid =
    [(''formatID'', C_long), (''gtrid_length'', C_long), (''bqual_length'', C_long), (''data'', (C_array C_char MYSQL_XIDDATASIZE))]"

definition st_mysql_show_var :: "c_members" where
  "st_mysql_show_var =
    [(''name'', C_pointer), (''value'', C_pointer), (''type'', C_int)]"

definition st_mysql_value :: "c_members" where
  "st_mysql_value =
    [(''value_type'', C_pointer), (''val_str'', C_pointer), (''val_real'', C_pointer), (''val_int'', C_pointer), (''is_unsigned'', C_pointer)]"

definition mysql_event_general :: "c_members" where
  "mysql_event_general =
    [(''event_subclass'', C_int), (''general_error_code'', C_int), (''general_thread_id'', C_long), (''general_user'', C_pointer),
    (''general_user_length'', C_int), (''general_command'', C_pointer), (''general_command_length'', C_int), (''general_query'', C_pointer),
    (''general_query_length'', C_int), (''general_charset'', C_pointer), (''general_time'', C_longlong), (''general_rows'', C_longlong)]"

definition mysql_event_connection :: "c_members" where
  "mysql_event_connection =
    [(''event_subclass'', C_int), (''status'', C_int), (''thread_id'', C_long), (''user'', C_pointer), (''user_length'', C_int),
    (''priv_user'', C_pointer), (''priv_user_length'', C_int), (''external_user'', C_pointer), (''external_user_length'', C_int),
    (''proxy_user'', C_pointer), (''proxy_user_length'', C_int), (''host'', C_pointer), (''host_length'', C_int), (''ip'', C_pointer),
    (''ip_length'', C_int), (''database'', C_pointer), (''database_length'', C_int)]"

definition st_mysql_server_auth_info :: "c_members" where
  "st_mysql_server_auth_info =
    [(''user_name'', C_pointer), (''user_name_length'', C_int), (''auth_string'', C_pointer), (''auth_string_length'', C_long),
    (''authenticated_as'', (C_array C_char (MYSQL_USERNAME_LENGTH + 1))), (''external_user'', (C_array C_char 512)), (''password_used'', C_int),
    (''host_or_ip'', C_pointer), (''host_or_ip_length'', C_int)]"

definition st_plugin_vio_info :: "bool \<Rightarrow> c_members" where
  "st_plugin_vio_info WIN32 =
    [(''protocol'', C_int), (''socket'', C_int)] @
    (if WIN32 then
    [(''handle'', C_pointer)] else [])"

definition st_plugin_vio :: "c_members" where
  "st_plugin_vio =
    [(''read_packet'', C_pointer), (''write_packet'', C_pointer), (''info'', C_pointer)]"

definition st_mysql_ftparser_boolean_info :: "c_members" where
  "st_mysql_ftparser_boolean_info =
    [(''type'', C_int), (''yesno'', C_int), (''weight_adjust'', C_int), (''wasign'', C_char), (''trunc'', C_char), (''prev'', C_char),
    (''quot'', C_pointer)]"

definition st_mysql_ftparser_param :: "c_members" where
  "st_mysql_ftparser_param =
    [(''mysql_parse'', C_pointer), (''mysql_add_word'', C_pointer), (''ftparser_state'', C_pointer), (''mysql_ftparam'', C_pointer),
    (''cs'', C_pointer), (''doc'', C_pointer), (''length'', C_int), (''flags'', C_int), (''mode'', C_int)]"

section \<open>Enumerations\<close>

datatype (plugins only: size) mysql_option =
  MYSQL_OPT_CONNECT_TIMEOUT | MYSQL_OPT_COMPRESS | MYSQL_OPT_NAMED_PIPE | MYSQL_INIT_COMMAND | MYSQL_READ_DEFAULT_FILE |
  MYSQL_READ_DEFAULT_GROUP | MYSQL_SET_CHARSET_DIR | MYSQL_SET_CHARSET_NAME | MYSQL_OPT_LOCAL_INFILE | MYSQL_OPT_PROTOCOL |
  MYSQL_SHARED_MEMORY_BASE_NAME | MYSQL_OPT_READ_TIMEOUT | MYSQL_OPT_WRITE_TIMEOUT | MYSQL_OPT_USE_RESULT |
  MYSQL_OPT_USE_REMOTE_CONNECTION | MYSQL_OPT_USE_EMBEDDED_CONNECTION | MYSQL_OPT_GUESS_CONNECTION | MYSQL_SET_CLIENT_IP |
  MYSQL_SECURE_AUTH | MYSQL_REPORT_DATA_TRUNCATION | MYSQL_OPT_RECONNECT | MYSQL_OPT_SSL_VERIFY_SERVER_CERT | MYSQL_PLUGIN_DIR |
  MYSQL_DEFAULT_AUTH

fun mysql_option_code :: "mysql_option \<Rightarrow> int" where
  "mysql_option_code MYSQL_OPT_CONNECT_TIMEOUT = 0"
| "mysql_option_code MYSQL_OPT_COMPRESS = 1"
| "mysql_option_code MYSQL_OPT_NAMED_PIPE = 2"
| "mysql_option_code MYSQL_INIT_COMMAND = 3"
| "mysql_option_code MYSQL_READ_DEFAULT_FILE = 4"
| "mysql_option_code MYSQL_READ_DEFAULT_GROUP = 5"
| "mysql_option_code MYSQL_SET_CHARSET_DIR = 6"
| "mysql_option_code MYSQL_SET_CHARSET_NAME = 7"
| "mysql_option_code MYSQL_OPT_LOCAL_INFILE = 8"
| "mysql_option_code MYSQL_OPT_PROTOCOL = 9"
| "mysql_option_code MYSQL_SHARED_MEMORY_BASE_NAME = 10"
| "mysql_option_code MYSQL_OPT_READ_TIMEOUT = 11"
| "mysql_option_code MYSQL_OPT_WRITE_TIMEOUT = 12"
| "mysql_option_code MYSQL_OPT_USE_RESULT = 13"
| "mysql_option_code MYSQL_OPT_USE_REMOTE_CONNECTION = 14"
| "mysql_option_code MYSQL_OPT_USE_EMBEDDED_CONNECTION = 15"
| "mysql_option_code MYSQL_OPT_GUESS_CONNECTION = 16"
| "mysql_option_code MYSQL_SET_CLIENT_IP = 17"
| "mysql_option_code MYSQL_SECURE_AUTH = 18"
| "mysql_option_code MYSQL_REPORT_DATA_TRUNCATION = 19"
| "mysql_option_code MYSQL_OPT_RECONNECT = 20"
| "mysql_option_code MYSQL_OPT_SSL_VERIFY_SERVER_CERT = 21"
| "mysql_option_code MYSQL_PLUGIN_DIR = 22"
| "mysql_option_code MYSQL_DEFAULT_AUTH = 23"

datatype (plugins only: size) mysql_status =
  MYSQL_STATUS_READY | MYSQL_STATUS_GET_RESULT | MYSQL_STATUS_USE_RESULT | MYSQL_STATUS_STATEMENT_GET_RESULT

fun mysql_status_code :: "mysql_status \<Rightarrow> int" where
  "mysql_status_code MYSQL_STATUS_READY = 0"
| "mysql_status_code MYSQL_STATUS_GET_RESULT = 1"
| "mysql_status_code MYSQL_STATUS_USE_RESULT = 2"
| "mysql_status_code MYSQL_STATUS_STATEMENT_GET_RESULT = 3"

datatype (plugins only: size) mysql_protocol_type =
  MYSQL_PROTOCOL_DEFAULT | MYSQL_PROTOCOL_TCP | MYSQL_PROTOCOL_SOCKET | MYSQL_PROTOCOL_PIPE | MYSQL_PROTOCOL_MEMORY

fun mysql_protocol_type_code :: "mysql_protocol_type \<Rightarrow> int" where
  "mysql_protocol_type_code MYSQL_PROTOCOL_DEFAULT = 0"
| "mysql_protocol_type_code MYSQL_PROTOCOL_TCP = 1"
| "mysql_protocol_type_code MYSQL_PROTOCOL_SOCKET = 2"
| "mysql_protocol_type_code MYSQL_PROTOCOL_PIPE = 3"
| "mysql_protocol_type_code MYSQL_PROTOCOL_MEMORY = 4"

datatype (plugins only: size) enum_mysql_stmt_state =
  MYSQL_STMT_INIT_DONE | MYSQL_STMT_PREPARE_DONE | MYSQL_STMT_EXECUTE_DONE | MYSQL_STMT_FETCH_DONE

fun mysql_stmt_state_code :: "enum_mysql_stmt_state \<Rightarrow> int" where
  "mysql_stmt_state_code MYSQL_STMT_INIT_DONE = 1"
| "mysql_stmt_state_code MYSQL_STMT_PREPARE_DONE = 2"
| "mysql_stmt_state_code MYSQL_STMT_EXECUTE_DONE = 3"
| "mysql_stmt_state_code MYSQL_STMT_FETCH_DONE = 4"

datatype (plugins only: size) enum_stmt_attr_type =
  STMT_ATTR_UPDATE_MAX_LENGTH | STMT_ATTR_CURSOR_TYPE | STMT_ATTR_PREFETCH_ROWS

fun stmt_attr_type_code :: "enum_stmt_attr_type \<Rightarrow> int" where
  "stmt_attr_type_code STMT_ATTR_UPDATE_MAX_LENGTH = 0"
| "stmt_attr_type_code STMT_ATTR_CURSOR_TYPE = 1"
| "stmt_attr_type_code STMT_ATTR_PREFETCH_ROWS = 2"

datatype (plugins only: size) enum_cursor_type =
  CURSOR_TYPE_NO_CURSOR | CURSOR_TYPE_READ_ONLY | CURSOR_TYPE_FOR_UPDATE | CURSOR_TYPE_SCROLLABLE

fun cursor_type_code :: "enum_cursor_type \<Rightarrow> int" where
  "cursor_type_code CURSOR_TYPE_NO_CURSOR = 0"
| "cursor_type_code CURSOR_TYPE_READ_ONLY = 1"
| "cursor_type_code CURSOR_TYPE_FOR_UPDATE = 2"
| "cursor_type_code CURSOR_TYPE_SCROLLABLE = 4"

datatype (plugins only: size) enum_mysql_set_option =
  MYSQL_OPTION_MULTI_STATEMENTS_ON | MYSQL_OPTION_MULTI_STATEMENTS_OFF

fun mysql_set_option_code :: "enum_mysql_set_option \<Rightarrow> int" where
  "mysql_set_option_code MYSQL_OPTION_MULTI_STATEMENTS_ON = 0"
| "mysql_set_option_code MYSQL_OPTION_MULTI_STATEMENTS_OFF = 1"

datatype (plugins only: size) Item_result =
  STRING_RESULT | REAL_RESULT | INT_RESULT | ROW_RESULT | DECIMAL_RESULT

fun item_result_code :: "Item_result \<Rightarrow> int" where
  "item_result_code STRING_RESULT = 0"
| "item_result_code REAL_RESULT = 1"
| "item_result_code INT_RESULT = 2"
| "item_result_code ROW_RESULT = 3"
| "item_result_code DECIMAL_RESULT = 4"

datatype (plugins only: size) enum_mysql_timestamp_type =
  MYSQL_TIMESTAMP_NONE | MYSQL_TIMESTAMP_ERROR | MYSQL_TIMESTAMP_DATE | MYSQL_TIMESTAMP_DATETIME | MYSQL_TIMESTAMP_TIME

fun mysql_timestamp_type_code :: "enum_mysql_timestamp_type \<Rightarrow> int" where
  "mysql_timestamp_type_code MYSQL_TIMESTAMP_NONE = -2"
| "mysql_timestamp_type_code MYSQL_TIMESTAMP_ERROR = -1"
| "mysql_timestamp_type_code MYSQL_TIMESTAMP_DATE = 0"
| "mysql_timestamp_type_code MYSQL_TIMESTAMP_DATETIME = 1"
| "mysql_timestamp_type_code MYSQL_TIMESTAMP_TIME = 2"

datatype (plugins only: size) my_xml_node_type =
  MY_XML_NODE_TAG | MY_XML_NODE_ATTR | MY_XML_NODE_TEXT

fun my_xml_node_type_code :: "my_xml_node_type \<Rightarrow> int" where
  "my_xml_node_type_code MY_XML_NODE_TAG = 0"
| "my_xml_node_type_code MY_XML_NODE_ATTR = 1"
| "my_xml_node_type_code MY_XML_NODE_TEXT = 2"

datatype (plugins only: size) enum_mysql_show_type =
  SHOW_UNDEF | SHOW_BOOL | SHOW_INT | SHOW_LONG | SHOW_LONGLONG | SHOW_CHAR | SHOW_CHAR_PTR | SHOW_ARRAY | SHOW_FUNC | SHOW_DOUBLE |
  SHOW_always_last

fun mysql_show_type_code :: "enum_mysql_show_type \<Rightarrow> int" where
  "mysql_show_type_code SHOW_UNDEF = 0"
| "mysql_show_type_code SHOW_BOOL = 1"
| "mysql_show_type_code SHOW_INT = 2"
| "mysql_show_type_code SHOW_LONG = 3"
| "mysql_show_type_code SHOW_LONGLONG = 4"
| "mysql_show_type_code SHOW_CHAR = 5"
| "mysql_show_type_code SHOW_CHAR_PTR = 6"
| "mysql_show_type_code SHOW_ARRAY = 7"
| "mysql_show_type_code SHOW_FUNC = 8"
| "mysql_show_type_code SHOW_DOUBLE = 9"
| "mysql_show_type_code SHOW_always_last = 10"

datatype (plugins only: size) enum_ftparser_mode =
  MYSQL_FTPARSER_SIMPLE_MODE | MYSQL_FTPARSER_WITH_STOPWORDS | MYSQL_FTPARSER_FULL_BOOLEAN_INFO

fun ftparser_mode_code :: "enum_ftparser_mode \<Rightarrow> int" where
  "ftparser_mode_code MYSQL_FTPARSER_SIMPLE_MODE = 0"
| "ftparser_mode_code MYSQL_FTPARSER_WITH_STOPWORDS = 1"
| "ftparser_mode_code MYSQL_FTPARSER_FULL_BOOLEAN_INFO = 2"

datatype (plugins only: size) enum_ft_token_type =
  FT_TOKEN_EOF | FT_TOKEN_WORD | FT_TOKEN_LEFT_PAREN | FT_TOKEN_RIGHT_PAREN | FT_TOKEN_STOPWORD

fun ft_token_type_code :: "enum_ft_token_type \<Rightarrow> int" where
  "ft_token_type_code FT_TOKEN_EOF = 0"
| "ft_token_type_code FT_TOKEN_WORD = 1"
| "ft_token_type_code FT_TOKEN_LEFT_PAREN = 2"
| "ft_token_type_code FT_TOKEN_RIGHT_PAREN = 3"
| "ft_token_type_code FT_TOKEN_STOPWORD = 4"

text \<open>The anonymous enumeration in \<^verbatim>\<open>MYSQL_PLUGIN_VIO_INFO\<close>.\<close>

datatype (plugins only: size) vio_protocol = MYSQL_VIO_INVALID | MYSQL_VIO_TCP | MYSQL_VIO_SOCKET | MYSQL_VIO_PIPE | MYSQL_VIO_MEMORY

fun vio_protocol_code :: "vio_protocol \<Rightarrow> int" where
  "vio_protocol_code MYSQL_VIO_INVALID = 0"
| "vio_protocol_code MYSQL_VIO_TCP = 1"
| "vio_protocol_code MYSQL_VIO_SOCKET = 2"
| "vio_protocol_code MYSQL_VIO_PIPE = 3"
| "vio_protocol_code MYSQL_VIO_MEMORY = 4"

section \<open>Macros\<close>

text \<open>Of \<^verbatim>\<open>mysql.h\<close>.\<close>

definition CLIENT_NET_READ_TIMEOUT :: int where "CLIENT_NET_READ_TIMEOUT = 365 * 24 * 3600"
definition CLIENT_NET_WRITE_TIMEOUT :: int where "CLIENT_NET_WRITE_TIMEOUT = 365 * 24 * 3600"
definition MYSQL_COUNT_ERROR :: ulonglong where "MYSQL_COUNT_ERROR = not 0"
definition LOCAL_INFILE_ERROR_LEN :: nat where "LOCAL_INFILE_ERROR_LEN = 512"
definition MYSQL_NO_DATA :: int where "MYSQL_NO_DATA = 100"
definition MYSQL_DATA_TRUNCATED :: int where "MYSQL_DATA_TRUNCATED = 101"

definition mysql_reload :: "('m \<Rightarrow> uint32 \<Rightarrow> 'w \<Rightarrow> int \<times> 'w) \<Rightarrow> 'm \<Rightarrow> 'w \<Rightarrow> int \<times> 'w" where
  "mysql_reload mysql_refresh mysql = mysql_refresh mysql REFRESH_GRANT"

text \<open>Of \<^verbatim>\<open>my_dir.h\<close>; the bits of a mode are those of the system.\<close>

record mode_bits =
  S_IFMT :: uint32
  S_IFDIR :: uint32
  S_IFCHR :: uint32
  S_IFBLK :: uint32
  S_IFREG :: uint32
  S_IFIFO :: uint32

definition MY_S_ISDIR :: "mode_bits \<Rightarrow> uint32 \<Rightarrow> bool" where "MY_S_ISDIR sys m \<longleftrightarrow> and m (S_IFMT sys) = S_IFDIR sys"
definition MY_S_ISCHR :: "mode_bits \<Rightarrow> uint32 \<Rightarrow> bool" where "MY_S_ISCHR sys m \<longleftrightarrow> and m (S_IFMT sys) = S_IFCHR sys"
definition MY_S_ISBLK :: "mode_bits \<Rightarrow> uint32 \<Rightarrow> bool" where "MY_S_ISBLK sys m \<longleftrightarrow> and m (S_IFMT sys) = S_IFBLK sys"
definition MY_S_ISREG :: "mode_bits \<Rightarrow> uint32 \<Rightarrow> bool" where "MY_S_ISREG sys m \<longleftrightarrow> and m (S_IFMT sys) = S_IFREG sys"
definition MY_S_ISFIFO :: "mode_bits \<Rightarrow> uint32 \<Rightarrow> bool" where "MY_S_ISFIFO sys m \<longleftrightarrow> and m (S_IFMT sys) = S_IFIFO sys"
definition MY_DONT_SORT :: uint32 where "MY_DONT_SORT = 512"
definition MY_WANT_STAT :: uint32 where "MY_WANT_STAT = 1024"

text \<open>Of \<^verbatim>\<open>typelib.h\<close> and \<^verbatim>\<open>my_xml.h\<close>.\<close>

definition FIND_TYPE_BASIC :: uint32 where "FIND_TYPE_BASIC = 0"
definition FIND_TYPE_NO_PREFIX :: uint32 where "FIND_TYPE_NO_PREFIX = push_bit 0 1"
definition FIND_TYPE_NO_OVERWRITE :: uint32 where "FIND_TYPE_NO_OVERWRITE = push_bit 1 1"
definition FIND_TYPE_ALLOW_NUMBER :: uint32 where "FIND_TYPE_ALLOW_NUMBER = push_bit 2 1"
definition FIND_TYPE_COMMA_TERM :: uint32 where "FIND_TYPE_COMMA_TERM = push_bit 3 1"
definition MY_XML_OK :: int where "MY_XML_OK = 0"
definition MY_XML_ERROR :: int where "MY_XML_ERROR = 1"
definition MY_XML_FLAG_RELATIVE_NAMES :: uint32 where "MY_XML_FLAG_RELATIVE_NAMES = 1"
definition MY_XML_FLAG_SKIP_TEXT_NORMALIZATION :: uint32 where "MY_XML_FLAG_SKIP_TEXT_NORMALIZATION = 2"

text \<open>Of the plugin kinds.\<close>

definition MYSQL_AUDIT_GENERAL_CLASS :: nat where "MYSQL_AUDIT_GENERAL_CLASS = 0"
definition MYSQL_AUDIT_GENERAL_CLASSMASK :: uint32 where "MYSQL_AUDIT_GENERAL_CLASSMASK = push_bit MYSQL_AUDIT_GENERAL_CLASS 1"
definition MYSQL_AUDIT_CONNECTION_CLASS :: nat where "MYSQL_AUDIT_CONNECTION_CLASS = 1"
definition MYSQL_AUDIT_CONNECTION_CLASSMASK :: uint32 where "MYSQL_AUDIT_CONNECTION_CLASSMASK = push_bit MYSQL_AUDIT_CONNECTION_CLASS 1"
definition CR_ERROR :: int where "CR_ERROR = 0"
definition CR_OK :: int where "CR_OK = - 1"
definition CR_OK_HANDSHAKE_COMPLETE :: int where "CR_OK_HANDSHAKE_COMPLETE = - 2"

section \<open>Tables of offsets\<close>

lemma offset_table_map:
  "offset_table us = map (\<lambda>(n, k). (n, f k)) (offset_table ms) \<Longrightarrow> member_offset us n = map_option f (member_offset ms n)"
  unfolding member_offset_def by (simp add: map_of_map)

text \<open>The front of a structure does not depend on what follows.\<close>

lemma offset_table_append: "\<exists>us. offset_table (ms @ ns) = offset_table ms @ us"
  by (simp add: offset_table_def offsets_def layout_from_append flip: map_map)

lemma member_offset_front:
  assumes "n \<in> set (map fst ms)"
  shows "member_offset (ms @ ns) n = member_offset ms n"
proof -
  obtain us where us: "offset_table (ms @ ns) = offset_table ms @ us" using offset_table_append by blast
  have "map fst (offset_table ms) = map fst ms" by (simp add: offset_table_def offsets_def)
  with assms have "n \<in> fst ` set (offset_table ms)" by (metis list.set_map)
  then have "map_of (offset_table ms) n \<noteq> None" by (simp add: map_of_eq_None_iff)
  then show ?thesis by (auto simp: member_offset_def us map_add_def)
qed

lemmas layout_simps = offset_table_def offsets_def align_up_def max_align_def

definition client :: client_build where
  "client = \<lparr>MYSQL_SERVER = False, EMBEDDED_LIBRARY = False, CHECK_EMBEDDED_DIFFERENCES = False\<rparr>"

definition server :: client_build where
  "server = \<lparr>MYSQL_SERVER = True, EMBEDDED_LIBRARY = False, CHECK_EMBEDDED_DIFFERENCES = False\<rparr>"

definition checked_embedded :: client_build where
  "checked_embedded = \<lparr>MYSQL_SERVER = False, EMBEDDED_LIBRARY = True, CHECK_EMBEDDED_DIFFERENCES = True\<rparr>"

lemmas net_sizes = MYSQL_ERRMSG_SIZE_def SQLSTATE_LENGTH_def SCRAMBLE_LENGTH_def

lemma net_shapes: "shape (C_struct (members (st_net client))) = (620, 4)" "shape (C_struct (members (st_net server))) = (624, 4)"
  "shape (C_struct (members (st_net checked_embedded))) = (536, 4)"
  by (simp_all add: st_net_def client_def server_def checked_embedded_def layout_simps net_sizes)

lemma mem_root_shape: "shape (C_struct (members st_mem_root)) = (32, 4)"
  by (simp add: st_mem_root_def layout_simps)

lemma options_shape: "shape (C_struct (members st_mysql_options)) = (136, 4)"
  by (simp add: st_mysql_options_def layout_simps)

lemma mysql_tables:
  "offset_table (st_mysql server) = map (\<lambda>(n, k). (n, if k = 0 then 0 else if k < 696 then k + 4 else k + 8)) (offset_table (st_mysql client))"
  "offset_table (st_mysql checked_embedded) =
    map (\<lambda>(n, k). (n, if k = 0 then 0 else if k < 696 then k - 84 else k - 80)) (offset_table (st_mysql client))"
  unfolding offset_table_def offsets_def st_mysql_def list.map map_append fst_conv snd_conv net_shapes mem_root_shape options_shape
  by (simp_all add: align_up_def net_sizes)

lemma net_by_build:
  "st_net b = st_net (if CHECK_EMBEDDED_DIFFERENCES b \<and> EMBEDDED_LIBRARY b then checked_embedded
     else if MYSQL_SERVER b \<and> \<not> EMBEDDED_LIBRARY b then server else client)"
  by (auto simp: st_net_def client_def server_def checked_embedded_def)

section \<open>Properties\<close>

text \<open>C32: which programs agree on the structure of a connection, in every build.  A client, the embedded library and a client that was compiled for the embedded library all place the
  members of \<^verbatim>\<open>MYSQL\<close> alike; a part of the server, which has one more member at the end of the embedded \<^verbatim>\<open>NET\<close>, places every member after it 4 bytes
  further, and from the row counters on, which are aligned to 8 bytes, 8 bytes further.  The embedded library built with \<^verbatim>\<open>CHECK_EMBEDDED_DIFFERENCES\<close>, which
  drops the front of \<^verbatim>\<open>NET\<close>, agrees with none of them: every member after \<^verbatim>\<open>NET\<close> lies 84 bytes, and from the row counters on 80 bytes, in front of its place in a client.
  In all builds the same names are members.\<close>
theorem connection_layout_by_build:
  "member_offset (st_mysql b) n =
    map_option (\<lambda>k. if k = 0 then 0
        else if CHECK_EMBEDDED_DIFFERENCES b \<and> EMBEDDED_LIBRARY b
          then if k < the (member_offset (st_mysql client) ''affected_rows'') then k - 84 else k - 80
        else if MYSQL_SERVER b \<and> \<not> EMBEDDED_LIBRARY b
          then if k < the (member_offset (st_mysql client) ''affected_rows'') then k + 4 else k + 8
        else k)
      (member_offset (st_mysql client) n)"
proof -
  have rows: "the (member_offset (st_mysql client) ''affected_rows'') = 696" 
    unfolding member_offset_def offset_table_def offsets_def st_mysql_def list.map fst_conv snd_conv net_shapes mem_root_shape options_shape
    by (simp add: align_up_def net_sizes)
  have "st_mysql b = st_mysql (if CHECK_EMBEDDED_DIFFERENCES b \<and> EMBEDDED_LIBRARY b then checked_embedded
      else if MYSQL_SERVER b \<and> \<not> EMBEDDED_LIBRARY b then server else client)"
    unfolding st_mysql_def using net_by_build [of b] by simp
  with offset_table_map [OF mysql_tables(1), of n] offset_table_map [OF mysql_tables(2), of n] show ?thesis
    unfolding rows by (cases "member_offset (st_mysql client) n") (auto split: if_splits)
qed

theorem connection_layout_by_build_witness:
  "member_offset (st_mysql server) ''charset'' = Some 660 \<and> member_offset (st_mysql server) ''insert_id'' = Some 712 \<and>
   member_offset (st_mysql \<lparr>MYSQL_SERVER = True, EMBEDDED_LIBRARY = True, CHECK_EMBEDDED_DIFFERENCES = False\<rparr>) ''insert_id'' = Some 704 \<and>
   member_offset (st_mysql checked_embedded) ''charset'' = Some 572 \<and> member_offset (st_mysql checked_embedded) ''insert_id'' = Some 624"
proof -
  have "the (member_offset (st_mysql client) ''affected_rows'') = 696" "member_offset (st_mysql client) ''charset'' = Some 656"
    "member_offset (st_mysql client) ''insert_id'' = Some 704"
    unfolding member_offset_def offset_table_def offsets_def st_mysql_def list.map fst_conv snd_conv net_shapes mem_root_shape options_shape
    by (simp_all add: align_up_def net_sizes)
  then show ?thesis
    using connection_layout_by_build [of server "''charset''"] connection_layout_by_build [of server "''insert_id''"]
      connection_layout_by_build [of "\<lparr>MYSQL_SERVER = True, EMBEDDED_LIBRARY = True, CHECK_EMBEDDED_DIFFERENCES = False\<rparr>" "''insert_id''"]
      connection_layout_by_build [of checked_embedded "''charset''"] connection_layout_by_build [of checked_embedded "''insert_id''"]
    by (simp add: server_def checked_embedded_def)
qed

text \<open>The table of methods of a server is the front of that of a client, so that a command can be sent through either.\<close>

lemma methods_front:
  assumes "n \<in> set (map fst (st_mysql_methods server))"
  shows "member_offset (st_mysql_methods b) n = member_offset (st_mysql_methods server) n"
proof -
  have "\<exists>ns. st_mysql_methods b = st_mysql_methods server @ ns"
    by (cases "MYSQL_SERVER b \<and> \<not> EMBEDDED_LIBRARY b") (auto simp: st_mysql_methods_def server_def)
  with member_offset_front [OF assms] show ?thesis by metis
qed

lemma command_in_every_table: "member_offset (st_mysql_methods b) ''advanced_command'' = Some 4"
  using methods_front [of "''advanced_command''" b]
  by (simp add: st_mysql_methods_def server_def member_offset_def layout_simps)

text \<open>What lies in front of the lock of a key cache does not depend on the kind of lock, so not on whether locks are instrumented or checked.\<close>

lemma key_cache_front:
  assumes "n \<in> set (map fst (takeWhile (\<lambda>m. fst m \<noteq> ''cache_lock'') (st_key_cache t)))"
  shows "member_offset (st_key_cache t) n = member_offset (st_key_cache u) n"
proof -
  let ?front = "takeWhile (\<lambda>m. fst m \<noteq> ''cache_lock'')"
  have "?front (st_key_cache t) = ?front (st_key_cache u)" by (simp add: st_key_cache_def)
  then obtain xs ys where "st_key_cache t = ?front (st_key_cache t) @ xs" "st_key_cache u = ?front (st_key_cache t) @ ys"
    by (metis takeWhile_dropWhile_id)
  then show ?thesis using member_offset_front [OF assms] by metis
qed

text \<open>The number of buckets for dirty blocks is a power of 2, as the comment asks for.\<close>

lemma changed_blocks_power: "CHANGED_BLOCKS_HASH = 2 ^ 7"
  by (simp add: CHANGED_BLOCKS_HASH_def)

text \<open>A name of the privilege tables fits into the room for it in the structure for authentication plugins, terminator included.\<close>

lemma authenticated_as_fits:
  "map_of st_mysql_server_auth_info ''authenticated_as'' = Some (C_array C_char (nat USERNAME_LENGTH + 1))"
  by (simp add: st_mysql_server_auth_info_def MYSQL_USERNAME_LENGTH_def USERNAME_LENGTH_def USERNAME_CHAR_LENGTH_def SYSTEM_CHARSET_MBMAXLEN_def)

text \<open>The protocol an option asks for and the one a plugin is told have the same numbers.\<close>

lemma protocols_agree:
  "map mysql_protocol_type_code [MYSQL_PROTOCOL_DEFAULT, MYSQL_PROTOCOL_TCP, MYSQL_PROTOCOL_SOCKET, MYSQL_PROTOCOL_PIPE, MYSQL_PROTOCOL_MEMORY] =
   map vio_protocol_code [MYSQL_VIO_INVALID, MYSQL_VIO_TCP, MYSQL_VIO_SOCKET, MYSQL_VIO_PIPE, MYSQL_VIO_MEMORY]"
  by simp

text \<open>A result of an authentication plugin that is no error number of the client library is one of the two for success, or the general error.\<close>

lemma auth_results_distinct: "CR_OK \<notin> {CR_MIN_ERROR..CR_MAX_ERROR}" "CR_OK_HANDSHAKE_COMPLETE \<notin> {CR_MIN_ERROR..CR_MAX_ERROR}"
    "CR_ERROR \<notin> {CR_MIN_ERROR..CR_MAX_ERROR}" "distinct [CR_OK, CR_OK_HANDSHAKE_COMPLETE, CR_ERROR]"
  by (simp_all add: CR_OK_def CR_OK_HANDSHAKE_COMPLETE_def CR_ERROR_def CR_MIN_ERROR_def CR_MAX_ERROR_def)

text \<open>A mode is of at most one kind, on a system whose kinds have different numbers.\<close>

lemma file_kinds_exclusive:
  assumes "distinct [S_IFDIR sys, S_IFCHR sys, S_IFBLK sys, S_IFREG sys, S_IFIFO sys]"
  shows "length (filter (\<lambda>p. p sys m) [MY_S_ISDIR, MY_S_ISCHR, MY_S_ISBLK, MY_S_ISREG, MY_S_ISFIFO]) \<le> 1"
  using assms by (auto simp: MY_S_ISDIR_def MY_S_ISCHR_def MY_S_ISBLK_def MY_S_ISREG_def MY_S_ISFIFO_def)

text \<open>Timeouts of a client last one year.\<close>

lemma client_timeouts: "CLIENT_NET_READ_TIMEOUT = 31536000" "CLIENT_NET_WRITE_TIMEOUT = CLIENT_NET_READ_TIMEOUT"
  by (simp_all add: CLIENT_NET_READ_TIMEOUT_def CLIENT_NET_WRITE_TIMEOUT_def)

end
