(* ===== verification/Spec2Isabelle.thy ===== *)
theory Spec2Isabelle
  imports Mysql_Prelude Byte_Order My_Double My_Math My_Global Macro_Scope My_Dbug M_String Charset Charset_Handler Psi Mysql_Thread Mysql_File Session
    My_Pthread Pthread_Layer Io_Cache My_Sys My_List Decimal Plugin_Var Struct_Layout Protocol Decimal_Widths Services Client_Options
    Error_Codes Error_Names Preprocessor Build_Config Build_Global Build_Types Build_Results Build_Threads Structures
begin

text \<open>
  \<^bold>\<open>What is verified.\<close>  The C code of this repository is the set of headers of the MySQL server under
  \<^verbatim>\<open>src/softwares/xampp/mysql/include\<close>.  A header holds code where it defines macros and inline functions, and this
  development models that code, with the structures and constants it works on.  The bodies of functions that a header only declares are not in the repository:
  where modelled code calls one, the function is an argument of the definition, often a field of a record of such functions, and what is relied on is a named hypothesis.

  \<^bold>\<open>Conventions.\<close>  The target is the one the headers were configured for in \<^verbatim>\<open>my_config.h\<close>: 32-bit Windows, little endian (the build theories are for every target).  Pointers and \<^verbatim>\<open>size_t\<close>
  are 32-bit words, fixed width integers are words of their width with the wrap-around of the machine, \<^verbatim>\<open>int\<close> and \<^verbatim>\<open>long\<close> in signed
  contexts are integers reduced to 32 bits where a macro casts, memory is a function from addresses to bytes.  Code that calls the server, the platform or the file system is
  a program in the state monad over the record \<open>pstate\<close>, whose last field is the world of the environment.  Failing calls return the values
  of the source; what is undefined in C is explicit (the flag \<open>fault\<close> for a call through a null \<^verbatim>\<open>PSI_server\<close>, \<open>bad_stream\<close> for a
  null or freed stream, an \<open>option\<close> or a sum for the others).  Loops over memory are \<open>partial_function (option)\<close>, and that they return is proved.  The only fuel is in \<open>val\<close>, which follows a macro through three others at most; the longest chain in the headers has two steps.
  Conditional compilation is a Boolean argument or the record \<open>config\<close>, so that both builds are covered by one theorem.

  \<^bold>\<open>The parts\<close>, in the order of dependence:
  \<^item> \<open>Mysql_Prelude\<close>: the C types, memory ranges, little and big endian reference access, \<^verbatim>\<open>memcpy\<close>, and the calculus
    on programs: \<open>keeps v m\<close> (the program never changes the view \<open>v\<close>) and \<open>sim v m n\<close> (two programs agree on results and view).
  \<^item> \<open>Byte_Order\<close>: the store and read macros of \<^verbatim>\<open>my_global.h\<close> in the x86 and in the portable variant, the copies of floats
    and doubles, the big endian variants.  Stores and reads invert each other, the variants agree, and all equal the reference access.
  \<^item> \<open>My_Double\<close>: \<^verbatim>\<open>rint\<close>, \<^verbatim>\<open>ulonglong2double\<close> and \<^verbatim>\<open>double2ulonglong\<close> of \<^verbatim>\<open>my_global.h\<close>, on doubles given by their
    exact value; \<open>rint\<close> rounds half to even, the conversions are inverse where they can be, with the exact error of the others.
  \<^item> \<open>My_Math\<close>: \<^verbatim>\<open>finite\<close>, \<^verbatim>\<open>isnan\<close> and \<^verbatim>\<open>my_isinf\<close> of builds that lack them and the fallback limits of doubles, on values with infinities,
    NaN and signed zeros; the classification is right for every double, and what it needs of the processor is stated.
  \<^item> \<open>My_Global\<close>: alignment, limits, small macros and \<^verbatim>\<open>DLERROR_GENERATE\<close>.
  \<^item> \<open>Macro_Scope\<close>, \<open>Decimal_Widths\<close>: macros whose arguments are evaluated twice, captured by a local name or converted to its type, the memory functions under
    their old names, and the room for printed numbers in \<^verbatim>\<open>my_global.h\<close>, \<^verbatim>\<open>m_string.h\<close> and \<^verbatim>\<open>mysql_com.h\<close>.
  \<^item> \<open>My_Dbug\<close>: the macros of \<^verbatim>\<open>my_dbug.h\<close> as statements (fall through, return, end of the process).  Their arguments are expressions
    with effects, which a release build mostly drops.  A function
    body of these macros does the same in debug and release builds as long as the dropped arguments have no effect on the program; the macros that break the rule are named.
  \<^item> \<open>M_String\<close>: \<^verbatim>\<open>skip_trailing_space\<close> and \<^verbatim>\<open>lex_string_set\<close> of \<^verbatim>\<open>m_string.h\<close>; the word-wise loop equals trimming byte by byte,
    and terminates.
  \<^item> \<open>Charset\<close>: classification, case mapping and contractions of \<^verbatim>\<open>m_ctype.h\<close>; \<open>Charset_Handler\<close>: its handlers, the macros that call through them, and its flags.
  \<^item> \<open>Psi\<close>: the interface of the Performance Schema, \<^verbatim>\<open>mysql/psi/psi.h\<close>.  The server is the record \<open>PSI_v1\<close> of its functions.  Two contracts say
    what a server may do: leave the caller's view alone (\<open>psi_keeps_thread\<close>, \<open>psi_keeps_file\<close>), and record what it is told in
    its history (\<open>psi_records_thread\<close>, \<open>psi_records_file\<close>).  The protocol of a wait is the step relation \<open>wait_step\<close>.  The locale \<open>psi_wait\<close> is the
    shape shared by all wrappers around a blocking call, with its two consequences: the wrapper is a drop-in replacement, and it completes its wait.
  \<^item> \<open>Mysql_Thread\<close>, \<open>Mysql_File\<close>: every wrapper and every macro of \<^verbatim>\<open>mysql_thread.h\<close> and \<^verbatim>\<open>mysql_file.h\<close>.  The wrappers
    that wait interpret \<open>psi_wait\<close>; the others keep the hooks of the objects, and opening and closing keeps the set of streams on every error path.
  \<^item> \<open>Session\<close>: sequences of such calls, each chosen by the results before it.  The theorems at the end of this theory lift both
    consequences to sessions of any length over both headers.
  \<^item> \<open>My_Pthread\<close>: the macros of \<^verbatim>\<open>my_pthread.h\<close> on absolute times, lock ownership and shared counters; the counters are step
    relations over interleaved threads, with the invariant, exactness, freedom from deadlock and the bound on the steps.
  \<^item> \<open>Pthread_Layer\<close>: the rest of \<^verbatim>\<open>my_pthread.h\<close> below the instrumentation: which function of the platform an operation on a mutex, a condition or
    a read-write lock reaches in each build, as a set of primitives for \<open>Mysql_Thread\<close>, so that the theorems on sessions hold of the whole stack; mutexes that stand for
    read-write locks; thread specific data on Windows.
  \<^item> \<open>Io_Cache\<close>: \<^verbatim>\<open>IO_CACHE\<close> of \<^verbatim>\<open>my_sys.h\<close> with all its macros; the pointers stay inside of the buffer over all operations, as long as no count wraps around the address space and every flush for a byte makes room,
    writes append and reads are byte-wise reads; what happens without these conditions is stated as well.
  \<^item> \<open>My_Sys\<close>: dynamic arrays, memory roots and flag bits of \<^verbatim>\<open>my_sys.h\<close> and \<^verbatim>\<open>my_alloc.h\<close>; the locale \<open>element_store\<close> is what a client of an array
    relies on, interpreted on the addresses \<^verbatim>\<open>dynamic_array_ptr\<close> computes.
  \<^item> \<open>My_List\<close>: the lists of \<^verbatim>\<open>my_list.h\<close> in a memory of nodes; pushing and popping is a stack without leaks.
  \<^item> \<open>Decimal\<close>: the structure, macros and error codes of \<^verbatim>\<open>decimal.h\<close>.
  \<^item> \<open>Plugin_Var\<close>: the declaration macros for plugins and their system variables in \<^verbatim>\<open>mysql/plugin.h\<close>; each
    macro produces the flags the server classifies it by.
  \<^item> \<open>Struct_Layout\<close>: the layout of structures on the target, the macros of \<^verbatim>\<open>my_global.h\<close> and \<^verbatim>\<open>my_compiler.h\<close> that compute offsets and alignments, and
    the structures of plugins that share a header, which is shown to lie at the same place in all of them.
  \<^item> \<open>Protocol\<close>: commands, flags, field types, shutdown levels and client errors of \<^verbatim>\<open>mysql_com.h\<close>, \<^verbatim>\<open>mysql.h\<close>, \<^verbatim>\<open>errmsg.h\<close> and \<^verbatim>\<open>sql_common.h\<close>.
  \<^item> \<open>Services\<close>: the services of \<^verbatim>\<open>mysql/services.h\<close>, called by plugins linked into the server or through pointers; plugins are trees of calls, and
    the indirection is shown to be invisible as long as the pointers are set.
  \<^item> \<open>Client_Options\<close>: option descriptors of \<^verbatim>\<open>my_getopt.h\<close> and the options for encrypted connections (\<^verbatim>\<open>sslopt-vars.h\<close>, \<^verbatim>\<open>sslopt-longopts.h\<close>,
    \<^verbatim>\<open>sslopt-case.h\<close>), with what a command line of them means.
  \<^item> \<open>Error_Codes\<close>, \<open>Error_Names\<close>: the error numbers, SQL states and messages of \<^verbatim>\<open>mysqld_error.h\<close>, \<^verbatim>\<open>sql_state.h\<close> and \<^verbatim>\<open>mysqld_ername.h\<close>; the tables
    agree with each other, and the messages keep to the format strings that \<^verbatim>\<open>my_snprintf\<close> documents.

  \<^item> \<open>Structures\<close>: the structures and enumerations of the client interface, key caches, XML parser and plugin kinds, by their layout in each build; which
    programs agree on the structure of a connection is a theorem.
  \<^item> \<open>Preprocessor\<close>, \<open>Build_Config\<close>, \<open>Build_Global\<close>, \<open>Build_Types\<close>, \<open>Build_Results\<close>: conditional compilation.  A directive is a function on the
    macros that are defined and the integer types that are declared; \<^verbatim>\<open>my_config.h\<close>, \<^verbatim>\<open>my_attribute.h\<close>, \<^verbatim>\<open>my_compiler.h\<close>, \<^verbatim>\<open>my_dbug.h\<close> and
    \<^verbatim>\<open>my_global.h\<close> are sequences of them, in the order of the files.  The locale \<open>frame_relation\<close> says what a sequence keeps if its parts do, interpreted for
    macros, types and invariants.  For every compiler whose sizes are those of the configuration the declared types have the sizes of their names, the flags of a build are consistent, and the header stops on exactly two conditions.
  \<^item> \<open>Build_Threads\<close>: \<^verbatim>\<open>my_pthread.h\<close>, \<^verbatim>\<open>mysql/psi/mysql_thread.h\<close> and the versions in \<^verbatim>\<open>mysql/psi/psi.h\<close> as directives.  The texts the
    preprocessor leaves for the operations on mutexes and read-write locks, read as calls, are shown to be the functions of \<open>Pthread_Layer\<close> for the build.

  \<^bold>\<open>Hypotheses.\<close>  Besides the contracts above, a platform is asked to depend on the caller's view only (\<open>thread_os_respects\<close>, \<open>file_os_respects\<close>) or to
  record its calls (\<open>thread_os_records\<close>, \<open>file_os_records\<close>, \<open>release_records\<close>), the refill and flush functions of a cache to keep it well formed
  (\<open>io_contract\<close>), \<^verbatim>\<open>fputc\<close> to write its argument as one byte (\<open>fputc_writes_byte\<close>), the native mutexes to have an owner (\<open>mutex_contract\<close>), the indexes of thread specific data to be allocated and freed as documented
  (\<open>tls_contract\<close>), the parser of options to write only the variable of an option (\<open>store_contract\<close>), the list functions to link and unlink the first node
  (\<open>list_contract\<close>), the debugging library to keep to its own state with no keyword enabled (\<open>dbug_quiet\<close>), the macros for sizes to be those of the compiler (\<open>configured_for\<close>), the headers
  of the system not to stop and to leave the project's own names alone (\<open>system_headers_ok\<close>, \<open>thread_headers_ok\<close>, \<open>dbug_names_reserved\<close>).  Each has a concrete instance in its theory
  (\<open>recorder\<close>, \<open>sample_os\<close>, \<open>sample_file_os\<close>, \<open>sample_io\<close>, \<open>sample_native\<close>, \<open>sample_tls\<close>, \<open>sample_store\<close>, \<open>sample_cons\<close>, \<open>sample_dbug\<close>, \<open>sample_target\<close>), on which the theorems are applied.

  \<^bold>\<open>Not modelled.\<close>  Headers that only declare functions and structures of function
  pointers (the functions of the client library in \<^verbatim>\<open>mysql.h\<close>, of key caches, XML and directories; their structures are in \<open>Structures\<close>); the emulation of threads on Windows, whose functions are
  declared only; weak memory: a step of an interleaving is one access.  The rest of the repository is not C.

  \<^bold>\<open>Plan.\<close>  What is left are the remaining macros of \<^verbatim>\<open>my_sys.h\<close> (alternative allocation, large pages, mapping of files), the dispatch of client methods in \<^verbatim>\<open>sql_common.h\<close>, and the signal and attribute macros of \<^verbatim>\<open>my_pthread.h\<close>.
\<close>

section \<open>A sample session\<close>

text \<open>Lock a mutex, write ten bytes to a file, write again unless nothing was written, and unlock.\<close>

definition sample_session :: session where
  "sample_session = Then (Mutex_lock 5 (1, 2)) (\<lambda>_. Then (File_write 3 100 10 0 (1, 3)) (\<lambda>r.
     (if r = Size 0 then Then (Mutex_unlock 5 (1, 5)) (\<lambda>_. Finish)
      else Then (File_write 3 100 10 0 (1, 4)) (\<lambda>_. Then (Mutex_unlock 5 (1, 5)) (\<lambda>_. Finish)))))"

lemma sample_release_records: "release_records (\<lambda>s. fst (world s)) recorder sample_os"
  by (simp add: release_records_def recorder_def sample_os_def records_def)

lemma sample_session_results:
  "fst (run_state (run_bare release_build sample_os sample_file_os sample_session) sample_state) = [Code 0, Size 0, Code 0]"
  "fst (run_state (run_session release_build recorder sample_os sample_file_os sample_session) sample_state) = [Code 0, Size 0, Code 0]"
  by (simp_all add: sample_session_def sample_state_def sample_os_def sample_file_os_def recorder_def release_build_def
      session_macro_defs inline_mysql_mutex_lock_def inline_mysql_mutex_unlock_def inline_mysql_file_write_def
      real_mutex_lock_def real_mutex_unlock_def psi_call_def State_Monad.update_def)

section \<open>The whole stack\<close>

text \<open>Both contracts of a platform pass through the portability layer of \<^verbatim>\<open>my_pthread.h\<close>, so what holds of sessions over its primitives
  holds of sessions over the native functions, in every build of the layer.\<close>

lemma session_over_native:
  assumes "psi_keeps_thread (os_view g) psi" "native_respects (os_view g) n"
    "psi_keeps_file (os_view g) psi" "file_os_respects (os_view g) fos" "\<And>a. keeps (os_view g) (os_strlen fos a)"
    "fputc_writes_byte (os_view g) fos"
  shows "sim (os_view g) (run_session cfg psi (thread_os_of b n place) fos p) (run_bare cfg (thread_os_of b n place) fos p)"
  by (rule sim_session [OF assms(1) thread_os_of_respects [OF assms(2)] assms(3-6)])

lemma session_over_native_waits:
  assumes "psi_records_thread (\<lambda>s. hw (world s)) psi" "native_records (\<lambda>s. hw (world s)) n"
    "psi_records_file (\<lambda>s. hw (world s)) psi" "file_os_records (\<lambda>s. hw (world s)) fos"
    "release_records (\<lambda>s. hw (world s)) psi (thread_os_of b n place)"
  shows "whole_waits (\<lambda>s. hw (world s)) length (run_session cfg psi (thread_os_of b n place) fos p)"
  by (rule whole_waits_session [OF assms(1) thread_os_of_records [OF assms(2)] assms(3-5)])

section \<open>Properties\<close>

text \<open>C1: the instrumentation as a whole is invisible to the program.  Take any session, of any length, that locks, waits, signals and does file
  operations, and that may choose every call by the results of the ones before.  Written with the macros of the headers
  or with the functions they stand for, it makes the same calls, gets the same results in the same order and leaves the caller's view the same, for
  every server that leaves that view alone and every platform that depends on it only, in every build and whether or not
  the server is there.  Of the platform's \<^verbatim>\<open>fputc\<close> it is used that it writes its argument converted to one byte, as the C standard says: the
  wrapper passes the argument through a \<^verbatim>\<open>char\<close>.\<close>
theorem session_drop_in:
  assumes "psi_keeps_thread (os_view g) psi" "thread_os_respects (os_view g) os"
    "psi_keeps_file (os_view g) psi" "file_os_respects (os_view g) fos" "\<And>a. keeps (os_view g) (os_strlen fos a)"
    "fputc_writes_byte (os_view g) fos"
  shows "sim (os_view g) (run_session cfg psi os fos p) (run_bare cfg os fos p)"
  by (rule sim_session [OF assms])

theorem session_drop_in_witness:
  "sim (os_view snd) (run_session release_build recorder sample_os sample_file_os sample_session)
     (run_bare release_build sample_os sample_file_os sample_session) \<and>
   fst (run_state (run_bare release_build sample_os sample_file_os sample_session) sample_state) = [Code 0, Size 0, Code 0]"
  using session_drop_in [OF recorder_keeps(1) sample_os_respects recorder_keeps(2) sample_file_os_contracts(1,4,5)]
    sample_session_results(1) by blast

text \<open>C2: over any session, the calls of all wrappers together keep to the protocol of the server: what the session adds to the history of the
  server is a run of whole waits, each obtained, started, ended with its locker and closed before the next
  begins, with as many real calls as the session made calls; nothing goes through a null \<^verbatim>\<open>PSI_server\<close>, and the pointer is left as it was.\<close>
theorem session_waits_complete:
  assumes "psi_records_thread (\<lambda>s. hw (world s)) psi" "thread_os_records (\<lambda>s. hw (world s)) os"
    "psi_records_file (\<lambda>s. hw (world s)) psi" "file_os_records (\<lambda>s. hw (world s)) fos"
    "release_records (\<lambda>s. hw (world s)) psi os"
    and "run_state (run_session cfg psi os fos p) s = (results, s')"
  shows "\<exists>es. hw (world s') = hw (world s) @ es \<and> wait_run Idle es Idle \<and>
      count_list es Real_call = length results \<and> PSI_server s' = PSI_server s \<and> fault s' = fault s"
  using whole_waits_session [OF assms(1-5), of cfg p, unfolded whole_waits_def, THEN spec, of s] assms(6) by simp

theorem session_waits_complete_witness:
  "\<exists>es. fst (world (snd (run_state (run_session release_build recorder sample_os sample_file_os sample_session) sample_state))) = es \<and>
     wait_run Idle es Idle \<and> count_list es Real_call = 3"
proof -
  define out where "out = run_state (run_session release_build recorder sample_os sample_file_os sample_session) sample_state"
  have run: "run_state (run_session release_build recorder sample_os sample_file_os sample_session) sample_state = (fst out, snd out)"
    by (simp add: out_def)
  have len: "length (fst out) = 3" by (simp add: out_def sample_session_results)
  have start: "fst (world sample_state) = []" by (simp add: sample_state_def)
  from session_waits_complete [OF recorder_records(1) sample_os_records recorder_records(2) sample_file_os_contracts(2)
      sample_release_records run] len start
  show ?thesis unfolding out_def by auto
qed

end
